(* ===== verification/Prelude.thy ===== *)
theory Prelude
  imports Main "HOL-Library.Multiset" "HOL-Library.AList"
begin

text \<open>
  Shared vocabulary of the development: the collections the component proofs draw
  on, the types every component uses (Go strings, the process environment), the
  model of \<^verbatim>\<open>sync.Once\<close>, and generic lemmas on lists, multisets and
  association lists.
\<close>

section \<open>Collections\<close>

named_theorems frame_simps "an operation leaves a field of the state unchanged"
named_theorems op_defs "unfolding of the operations of a state machine"

section \<open>Types\<close>

text \<open>
  A Go \<^verbatim>\<open>string\<close> is a sequence of bytes, which is what a HOL \<open>string\<close> is:
  \<open>length\<close> is Go's \<^verbatim>\<open>len\<close>. An environment maps a variable to the value
  \<^verbatim>\<open>os.Getenv\<close> returns for it, the empty string when it is not set.
\<close>

type_synonym gostring = string
type_synonym environ = "gostring \<Rightarrow> gostring"

text \<open>
  A Go \<^verbatim>\<open>map[string]T\<close> is an association list; every update goes through
  \<open>AList.update\<close>, which keeps one entry per key, so that a map is finite and can be
  walked by recursion.
\<close>

type_synonym 'v gomap = "(gostring \<times> 'v) list"

abbreviation mput :: "gostring \<Rightarrow> 'v \<Rightarrow> 'v gomap \<Rightarrow> 'v gomap" where
  "mput \<equiv> AList.update"

abbreviation mdel :: "gostring \<Rightarrow> 'v gomap \<Rightarrow> 'v gomap" where
  "mdel \<equiv> AList.delete"

section \<open>\<^verbatim>\<open>sync.Once\<close>\<close>

text \<open>
  A \<^verbatim>\<open>sync.Once\<close> together with the variable its function stores its result in:
  \<open>None\<close> before the first \<^verbatim>\<open>Do\<close>, \<open>Some r\<close> after it. \<open>once_do f\<close> runs
  \<open>f\<close> on the state only the first time and returns the stored result ever after.
\<close>

definition once_do :: "'r option \<Rightarrow> ('s \<Rightarrow> 'r \<times> 's) \<Rightarrow> 's \<Rightarrow> 'r \<times> 'r option \<times> 's" where
  "once_do cell f s =
     (case cell of
        Some r \<Rightarrow> (r, Some r, s)
      | None \<Rightarrow> (let (r, s') = f s in (r, Some r, s')))"

lemma once_do_done [simp]: "once_do (Some r) f s = (r, Some r, s)"
  by (simp add: once_do_def)

lemma once_do_first [simp]: "once_do None f s = (fst (f s), Some (fst (f s)), snd (f s))"
  by (simp add: once_do_def split: prod.splits)

section \<open>Loops over a list that may not end\<close>

text \<open>\<open>None\<close> is a run that does not end. The loop is monotone in its body, so that a
  \<^verbatim>\<open>partial_function\<close> can recurse through it.\<close>

fun each :: "('a \<Rightarrow> 's \<Rightarrow> 's option) \<Rightarrow> 'a list \<Rightarrow> 's \<Rightarrow> 's option" where
  "each f [] s = Some s"
| "each f (x # xs) s = Option.bind (f x s) (each f xs)"

lemma each_mono [partial_function_mono]:
  assumes "\<And>x s. mono_option (\<lambda>f. B f x s)"
  shows "mono_option (\<lambda>f. each (B f) xs s)"
proof (induction xs arbitrary: s)
  case Nil
  then show ?case by (simp add: option.const_mono)
next
  case (Cons x xs)
  show ?case unfolding each.simps by (rule bind_mono [OF assms Cons.IH])
qed

lemma each_append: "each f (xs @ ys) s = Option.bind (each f xs s) (each f ys)"
  by (induction xs arbitrary: s) (auto simp: Option.bind_assoc split: bind_splits)

lemma each_Nil [simp]: "each f [] = Some"
  by (rule ext) simp

lemma each_map: "each f (map g xs) = each (\<lambda>x. f (g x)) xs"
proof
  show "each f (map g xs) s = each (\<lambda>x. f (g x)) xs s" for s
    by (induction xs arbitrary: s) (auto intro!: bind_option_cong)
qed

lemma each_cong: "(\<And>x s. x \<in> set xs \<Longrightarrow> f x s = g x s) \<Longrightarrow> each f xs s = each g xs s"
  by (induction xs arbitrary: s) (auto intro!: bind_option_cong)

lemma each_total: "(\<And>x s. x \<in> set xs \<Longrightarrow> f x s \<noteq> None) \<Longrightarrow> each f xs s \<noteq> None"
  by (induction xs arbitrary: s) (simp_all add: bind_eq_None_conv)

section \<open>Lists and multisets\<close>

text \<open>
  The contents of a list of threads, each holding a list of items: replacing one
  thread replaces its share of the multiset and nothing else.
\<close>

definition held_by :: "('t \<Rightarrow> 'i list) \<Rightarrow> 't list \<Rightarrow> 'i multiset" where
  "held_by f ts = mset (concat (map f ts))"

lemma held_by_Nil [simp]: "held_by f [] = {#}"
  by (simp add: held_by_def)

lemma held_by_Cons [simp]: "held_by f (t # ts) = mset (f t) + held_by f ts"
  by (simp add: held_by_def)

lemma held_by_append [simp]: "held_by f (ts @ us) = held_by f ts + held_by f us"
  by (simp add: held_by_def)

lemma held_by_split:
  assumes "i < length ts"
  shows "held_by f ts = held_by f (take i ts) + mset (f (ts ! i)) + held_by f (drop (Suc i) ts)"
proof -
  have "ts = take i ts @ ts ! i # drop (Suc i) ts"
    using assms by (rule id_take_nth_drop)
  then have "held_by f ts = held_by f (take i ts @ ts ! i # drop (Suc i) ts)" by simp
  then show ?thesis by simp
qed

lemma held_by_update:
  assumes "i < length ts"
  shows "held_by f (ts[i := t]) + mset (f (ts ! i)) = held_by f ts + mset (f t)"
proof -
  have "ts[i := t] = take i ts @ t # drop (Suc i) ts"
    using assms by (rule upd_conv_take_nth_drop)
  then show ?thesis
    using held_by_split [OF assms, of f] by simp
qed

lemma held_by_update_same:
  assumes "i < length ts" and "mset (f t) = mset (f (ts ! i))"
  shows "held_by f (ts[i := t]) = held_by f ts"
  using held_by_update [OF assms(1), of f t] assms(2) by simp

lemma held_by_empty: "(\<And>t. t \<in> set ts \<Longrightarrow> f t = []) \<Longrightarrow> held_by f ts = {#}"
  by (induction ts) auto

text \<open>Counting the threads that satisfy a predicate, under the update of one thread.\<close>

definition count_if :: "('t \<Rightarrow> bool) \<Rightarrow> 't list \<Rightarrow> nat" where
  "count_if P ts = length (filter P ts)"

lemma count_if_Nil [simp]: "count_if P [] = 0"
  by (simp add: count_if_def)

lemma count_if_Cons [simp]: "count_if P (t # ts) = (if P t then 1 else 0) + count_if P ts"
  by (simp add: count_if_def)

lemma count_if_append [simp]: "count_if P (ts @ us) = count_if P ts + count_if P us"
  by (simp add: count_if_def)

lemma count_if_update:
  assumes "i < length ts"
  shows "count_if P (ts[i := t]) + (if P (ts ! i) then 1 else 0)
    = count_if P ts + (if P t then 1 else 0)"
proof -
  have "ts[i := t] = take i ts @ t # drop (Suc i) ts"
    using assms by (rule upd_conv_take_nth_drop)
  moreover have "count_if P ts = count_if P (take i ts @ ts ! i # drop (Suc i) ts)"
    by (rule arg_cong [OF id_take_nth_drop [OF assms]])
  ultimately show ?thesis by simp
qed

lemma count_if_update_same:
  "i < length ts \<Longrightarrow> P t = P (ts ! i) \<Longrightarrow> count_if P (ts[i := t]) = count_if P ts"
  using count_if_update [of i ts P t] by (simp split: if_splits)

lemma count_if_zero: "count_if P ts = 0 \<longleftrightarrow> (\<forall>t \<in> set ts. \<not> P t)"
  by (induction ts) auto

lemma count_if_pos_nth: "i < length ts \<Longrightarrow> P (ts ! i) \<Longrightarrow> 0 < count_if P ts"
  by (metis count_if_zero gr0I nth_mem)

lemma list_update_all:
  "(\<forall>t \<in> set ts. P t) \<Longrightarrow> P t' \<Longrightarrow> (\<forall>t \<in> set (ts[i := t']). P t)"
  using set_update_subset_insert [of ts i t'] by blast

lemma Cons_neq_self [simp]: "x # xs \<noteq> xs" "xs \<noteq> x # xs"
  by simp_all

section \<open>Association lists\<close>

lemma map_of_mput [simp]: "map_of (mput k v m) = (map_of m)(k \<mapsto> v)"
  by (simp add: update_conv')

lemma map_of_mdel [simp]: "map_of (mdel k m) = (map_of m)(k := None)"
  by (simp add: delete_conv')

lemma mput_not_Nil [simp]: "mput k v m \<noteq> []"
  by (induction m) auto

lemma set_mput_subset: "set (mput k v m) \<subseteq> insert (k, v) (set m)"
  by (induction m) auto

end
