(* ===== verification/GoStrings.thy ===== *)
theory GoStrings
  imports Prelude "HOL-Library.Sublist"
begin

text \<open>
  What the program uses of Go's \<^verbatim>\<open>strings\<close> and \<^verbatim>\<open>strconv\<close>, on byte strings.
  White space is what \<^verbatim>\<open>unicode.IsSpace\<close> accepts, in its UTF-8 encoding; number
  parsing keeps the 64-bit range checks of \<^verbatim>\<open>strconv\<close>.

  \<^verbatim>\<open>strings.ToLower\<close> is exact on ASCII and on the only two other runes that Go's
  tables map to ASCII: U+212A (Kelvin sign) becomes \<^verbatim>\<open>k\<close> and U+0130 becomes
  \<^verbatim>\<open>i\<close>. Every other non-ASCII byte is kept, where Go may replace it by another
  non-ASCII byte sequence. The program compares the result with ASCII literals, or tests
  whether it consists of ASCII project-ID characters, and neither can tell the difference.
\<close>

section \<open>White space\<close>

definition space_encodings :: "gostring list" where
  "space_encodings =
     [[CHR 0x09], [CHR 0x0A], [CHR 0x0B], [CHR 0x0C], [CHR 0x0D], [CHR 0x20],
      [CHR 0xC2, CHR 0x85], [CHR 0xC2, CHR 0xA0], [CHR 0xE1, CHR 0x9A, CHR 0x80],
      [CHR 0xE2, CHR 0x80, CHR 0x80], [CHR 0xE2, CHR 0x80, CHR 0x81],
      [CHR 0xE2, CHR 0x80, CHR 0x82], [CHR 0xE2, CHR 0x80, CHR 0x83],
      [CHR 0xE2, CHR 0x80, CHR 0x84], [CHR 0xE2, CHR 0x80, CHR 0x85],
      [CHR 0xE2, CHR 0x80, CHR 0x86], [CHR 0xE2, CHR 0x80, CHR 0x87],
      [CHR 0xE2, CHR 0x80, CHR 0x88], [CHR 0xE2, CHR 0x80, CHR 0x89],
      [CHR 0xE2, CHR 0x80, CHR 0x8A], [CHR 0xE2, CHR 0x80, CHR 0xA8],
      [CHR 0xE2, CHR 0x80, CHR 0xA9], [CHR 0xE2, CHR 0x80, CHR 0xAF],
      [CHR 0xE2, CHR 0x81, CHR 0x9F], [CHR 0xE3, CHR 0x80, CHR 0x80]]"

fun strip_one :: "gostring list \<Rightarrow> gostring \<Rightarrow> gostring option" where
  "strip_one [] s = None"
| "strip_one (e # es) s =
     (if e \<noteq> [] \<and> prefix e s then Some (drop (length e) s) else strip_one es s)"

lemma strip_one_shorter: "strip_one es s = Some t \<Longrightarrow> length t < length s"
  by (induction es s rule: strip_one.induct)
     (auto split: if_splits simp: prefix_def)

lemma strip_one_suffix: "strip_one es s = Some t \<Longrightarrow> suffix t s"
  by (induction es s rule: strip_one.induct) (auto split: if_splits simp: suffix_drop)

function trim_left_with :: "gostring list \<Rightarrow> gostring \<Rightarrow> gostring" where
  "trim_left_with es s =
     (case strip_one es s of None \<Rightarrow> s | Some t \<Rightarrow> trim_left_with es t)"
  by pat_completeness auto
termination
  by (relation "measure (\<lambda>(es, s). length s)") (auto dest: strip_one_shorter)

declare trim_left_with.simps [simp del]

definition trim_left :: "gostring \<Rightarrow> gostring" where
  "trim_left s = trim_left_with space_encodings s"

definition trim_right :: "gostring \<Rightarrow> gostring" where
  "trim_right s = rev (trim_left_with (map rev space_encodings) (rev s))"

definition TrimSpace :: "gostring \<Rightarrow> gostring" where
  "TrimSpace s = trim_right (trim_left s)"

lemma trim_left_with_stuck: "strip_one es (trim_left_with es s) = None"
proof (induction es s rule: trim_left_with.induct)
  case (1 es s)
  show ?case
  proof (cases "strip_one es s")
    case None
    then show ?thesis by (simp add: trim_left_with.simps [of es s])
  next
    case (Some t)
    then show ?thesis using "1.IH" by (simp add: trim_left_with.simps [of es s])
  qed
qed

lemma trim_left_with_id: "strip_one es s = None \<Longrightarrow> trim_left_with es s = s"
  by (simp add: trim_left_with.simps [of es s])

lemma trim_left_with_suffix: "suffix (trim_left_with es s) s"
proof (induction es s rule: trim_left_with.induct)
  case (1 es s)
  show ?case
  proof (cases "strip_one es s")
    case None
    then show ?thesis by (simp add: trim_left_with.simps [of es s])
  next
    case (Some t)
    then have "suffix (trim_left_with es t) t" by (rule "1.IH")
    moreover have "suffix t s" using Some by (rule strip_one_suffix)
    ultimately show ?thesis
      using Some by (simp add: trim_left_with.simps [of es s] suffix_order.trans)
  qed
qed

lemma strip_one_None:
  "strip_one es s = None \<longleftrightarrow> (\<forall>e \<in> set es. e \<noteq> [] \<longrightarrow> \<not> prefix e s)"
  by (induction es s rule: strip_one.induct) auto

lemma strip_one_None_prefix: "strip_one es s = None \<Longrightarrow> prefix t s \<Longrightarrow> strip_one es t = None"
  unfolding strip_one_None by (meson prefix_order.trans)

lemma trim_right_prefix: "prefix (trim_right s) s"
  using trim_left_with_suffix [of "map rev space_encodings" "rev s"]
  by (simp add: trim_right_def suffix_to_prefix)

lemma trim_right_idem: "trim_right (trim_right s) = trim_right s"
  by (simp add: trim_right_def trim_left_with_id trim_left_with_stuck)

lemma trim_left_TrimSpace: "trim_left (TrimSpace s) = TrimSpace s"
proof -
  have "strip_one space_encodings (trim_left s) = None"
    by (simp add: trim_left_def trim_left_with_stuck)
  then have "strip_one space_encodings (TrimSpace s) = None"
    using trim_right_prefix [of "trim_left s"] strip_one_None_prefix
    unfolding TrimSpace_def by blast
  then show ?thesis by (simp add: trim_left_def trim_left_with_id)
qed

lemma TrimSpace_idem [simp]: "TrimSpace (TrimSpace s) = TrimSpace s"
  unfolding TrimSpace_def [of "TrimSpace s"] trim_left_TrimSpace
  by (simp add: TrimSpace_def trim_right_idem)

lemma strip_one_Nil [simp]: "strip_one es [] = None"
  by (simp add: strip_one_None)

lemma TrimSpace_Nil [simp]: "TrimSpace [] = []"
  by (simp add: TrimSpace_def trim_left_def trim_right_def trim_left_with_id)

text \<open>A string is not trimmed when it starts and ends with visible ASCII characters.\<close>

definition visible :: "char \<Rightarrow> bool" where
  "visible c \<longleftrightarrow> 0x21 \<le> (of_char c :: nat) \<and> (of_char c :: nat) \<le> 0x7E"

lemma encodings_not_visible:
  "list_all (\<lambda>e. e \<noteq> [] \<and> \<not> visible (hd e) \<and> \<not> visible (last e)) space_encodings"
  by (simp add: space_encodings_def visible_def)

lemma strip_one_hd:
  "list_all (\<lambda>e. e \<noteq> [] \<longrightarrow> hd e \<noteq> c) es \<Longrightarrow> strip_one es (c # cs) = None"
  by (induction es) (auto simp: prefix_Cons)

lemma first_not_space: "visible c \<Longrightarrow> strip_one space_encodings (c # cs) = None"
  using encodings_not_visible by (intro strip_one_hd) (auto simp: list_all_iff)

lemma last_not_space: "visible c \<Longrightarrow> strip_one (map rev space_encodings) (c # cs) = None"
  using encodings_not_visible by (intro strip_one_hd) (auto simp: list_all_iff hd_rev)

lemma TrimSpace_visible:
  assumes "s \<noteq> []" and "visible (hd s)" and "visible (last s)"
  shows "TrimSpace s = s"
proof -
  from assms have "strip_one space_encodings s = None"
    by (cases s) (auto simp: first_not_space)
  then have "trim_left s = s" by (simp add: trim_left_def trim_left_with_id)
  moreover from assms have "strip_one (map rev space_encodings) (rev s) = None"
    by (cases s rule: rev_cases) (auto simp: last_not_space)
  ultimately show ?thesis
    by (simp add: TrimSpace_def trim_right_def trim_left_with_id)
qed

lemma TrimSpace_all_visible [simp]: "list_all visible s \<Longrightarrow> TrimSpace s = s"
  by (cases "s = []") (auto simp: list_all_iff intro!: TrimSpace_visible)

lemma set_TrimSpace: "set (TrimSpace s) \<subseteq> set s"
proof -
  have "set (TrimSpace s) \<subseteq> set (trim_left s)"
    unfolding TrimSpace_def using trim_right_prefix by (rule set_mono_prefix)
  also have "\<dots> \<subseteq> set s"
    unfolding trim_left_def using trim_left_with_suffix by (rule set_mono_suffix)
  finally show ?thesis .
qed

section \<open>Letter case\<close>

definition lower_byte :: "char \<Rightarrow> char" where
  "lower_byte c =
     (if 65 \<le> (of_char c :: nat) \<and> (of_char c :: nat) \<le> 90 then char_of (of_char c + 32 :: nat) else c)"

fun ToLower :: "gostring \<Rightarrow> gostring" where
  "ToLower [] = []"
| "ToLower (c # cs) =
     (if c = CHR 0xE2 \<and> take 2 cs = [CHR 0x84, CHR 0xAA] then CHR ''k'' # ToLower (drop 2 cs)
      else if c = CHR 0xC4 \<and> take 1 cs = [CHR 0xB0] then CHR ''i'' # ToLower (drop 1 cs)
      else lower_byte c # ToLower cs)"

abbreviation is_upper :: "char \<Rightarrow> bool" where
  "is_upper c \<equiv> 65 \<le> (of_char c :: nat) \<and> (of_char c :: nat) \<le> 90"

definition ascii :: "char \<Rightarrow> bool" where
  "ascii c \<longleftrightarrow> (of_char c :: nat) < 128"

lemma lower_byte_id: "\<not> is_upper c \<Longrightarrow> lower_byte c = c"
  by (auto simp: lower_byte_def)

lemma not_ascii_lead: "\<not> ascii (CHR 0xE2)" "\<not> ascii (CHR 0xC4)"
  by (simp_all add: ascii_def)

lemma ToLower_id:
  "(\<And>c. c \<in> set s \<Longrightarrow> ascii c \<and> \<not> is_upper c) \<Longrightarrow> ToLower s = s"
proof (induction s rule: ToLower.induct)
  case 1
  show ?case by simp
next
  case (2 c cs)
  have c: "ascii c" "\<not> is_upper c" using "2.prems" by auto
  from c(1) have "c \<noteq> CHR 0xE2" "c \<noteq> CHR 0xC4"
    using not_ascii_lead by auto
  moreover from this have "ToLower cs = cs"
    using "2.prems" by (intro "2.IH"(3)) auto
  ultimately show ?case using c(2) by (simp add: lower_byte_id)
qed

lemma ToLower_Nil_iff [simp]: "ToLower s = [] \<longleftrightarrow> s = []"
  by (cases s) auto

lemma lower_byte_not_ascii: "\<not> ascii (lower_byte c) \<Longrightarrow> lower_byte c = c"
  by (auto simp: lower_byte_def ascii_def split: if_splits)

lemma ToLower_first:
  "ToLower s = x # xs \<Longrightarrow> \<not> ascii x \<Longrightarrow> \<exists>cs. s = x # cs \<and> xs = ToLower cs"
  by (cases s) (auto simp: ascii_def lower_byte_def split: if_splits)

lemma ToLower_two:
  assumes "take 2 (ToLower s) = [x, y]" and "\<not> ascii x" and "\<not> ascii y"
  shows "take 2 s = [x, y]"
proof -
  obtain t where "ToLower s = x # y # t"
    using assms(1) by (cases "ToLower s"; cases "tl (ToLower s)") auto
  then obtain cs where cs: "s = x # cs" "ToLower cs = y # t"
    using ToLower_first [of s x "y # t"] assms(2) by auto
  then obtain ds where "cs = y # ds" using ToLower_first [of cs y t] assms(3) by auto
  then show ?thesis using cs by simp
qed

lemma ToLower_one:
  assumes "take 1 (ToLower s) = [x]" and "\<not> ascii x"
  shows "take 1 s = [x]"
  using assms ToLower_first [of s x "tl (ToLower s)"] by (cases "ToLower s") auto

lemma ToLower_idem [simp]: "ToLower (ToLower s) = ToLower s"
proof (induction s rule: ToLower.induct)
  case (2 c cs)
  have keep: "take 2 (ToLower cs) = [CHR 0x84, CHR 0xAA] \<Longrightarrow> take 2 cs = [CHR 0x84, CHR 0xAA]"
    "take 1 (ToLower cs) = [CHR 0xB0] \<Longrightarrow> take 1 cs = [CHR 0xB0]"
    by (rule ToLower_two; simp add: ascii_def) (rule ToLower_one; simp add: ascii_def)
  have lb: "lower_byte (lower_byte c) = lower_byte c"
    "lower_byte c = CHR 0xE2 \<Longrightarrow> c = CHR 0xE2" "lower_byte c = CHR 0xC4 \<Longrightarrow> c = CHR 0xC4"
    using not_ascii_lead lower_byte_not_ascii [of c] by (auto simp: lower_byte_def)
  have lits: "lower_byte (CHR ''k'') = CHR ''k''" "lower_byte (CHR ''i'') = CHR ''i''"
    by (simp_all add: lower_byte_def)
  show ?case
    using 2 keep lb lits by auto
qed simp

section \<open>Searching and splitting\<close>

definition HasPrefix :: "gostring \<Rightarrow> gostring \<Rightarrow> bool" where
  "HasPrefix s p \<longleftrightarrow> prefix p s"

definition TrimPrefix :: "gostring \<Rightarrow> gostring \<Rightarrow> gostring" where
  "TrimPrefix s p = (if prefix p s then drop (length p) s else s)"

definition TrimSuffixChar :: "gostring \<Rightarrow> char \<Rightarrow> gostring" where
  "TrimSuffixChar s c = (if s \<noteq> [] \<and> last s = c then butlast s else s)"

fun Contains :: "gostring \<Rightarrow> gostring \<Rightarrow> bool" where
  "Contains [] p = (p = [])"
| "Contains (c # cs) p = (prefix p (c # cs) \<or> Contains cs p)"

text \<open>\<^verbatim>\<open>strings.Cut\<close> at a one-byte separator: before, after, found.\<close>

definition Cut :: "gostring \<Rightarrow> char \<Rightarrow> gostring \<times> gostring \<times> bool" where
  "Cut s c = (if c \<in> set s then (takeWhile (\<lambda>x. x \<noteq> c) s, tl (dropWhile (\<lambda>x. x \<noteq> c) s), True)
              else (s, [], False))"

fun Split :: "gostring \<Rightarrow> char \<Rightarrow> gostring list" where
  "Split [] c = [[]]"
| "Split (x # xs) c =
     (if x = c then [] # Split xs c
      else (case Split xs c of p # ps \<Rightarrow> (x # p) # ps | [] \<Rightarrow> [[x]]))"

text \<open>\<^verbatim>\<open>strings.LastIndex\<close> of a one-byte string, \<open>None\<close> for -1.\<close>

definition LastIndex :: "gostring \<Rightarrow> char \<Rightarrow> nat option" where
  "LastIndex s c =
     (if c \<in> set s then Some (length s - 1 - length (takeWhile (\<lambda>x. x \<noteq> c) (rev s))) else None)"

text \<open>\<^verbatim>\<open>strings.Trim\<close> with a cut set of ASCII characters.\<close>

definition TrimCut :: "gostring \<Rightarrow> char list \<Rightarrow> gostring" where
  "TrimCut s chars =
     rev (dropWhile (\<lambda>x. x \<in> set chars) (rev (dropWhile (\<lambda>x. x \<in> set chars) s)))"

lemma takeWhile_sep: "c \<notin> set a \<Longrightarrow> takeWhile (\<lambda>x. x \<noteq> c) (a @ c # b) = a"
  by (induction a) auto

lemma dropWhile_sep: "c \<notin> set a \<Longrightarrow> dropWhile (\<lambda>x. x \<noteq> c) (a @ c # b) = c # b"
  by (induction a) auto

lemma Cut_append [simp]: "c \<notin> set a \<Longrightarrow> Cut (a @ c # b) c = (a, b, True)"
  by (simp add: Cut_def takeWhile_sep dropWhile_sep)

lemma Cut_none [simp]: "c \<notin> set a \<Longrightarrow> Cut a c = (a, [], False)"
  by (simp add: Cut_def)

lemma Split_not_Nil [simp]: "Split s c \<noteq> []"
  by (induction s) (auto split: list.splits)

lemma Split_no_sep: "c \<notin> set s \<Longrightarrow> Split s c = [s]"
  by (induction s) auto

lemma Split_append_sep: "Split (a @ c # b) c = Split a c @ Split b c"
proof (induction a)
  case Nil
  then show ?case by simp
next
  case (Cons x a)
  then show ?case by (cases "Split a c") auto
qed

lemma set_Split_no_sep: "p \<in> set (Split s c) \<Longrightarrow> c \<notin> set p"
  by (induction s arbitrary: p) (auto split: if_splits list.splits)

section \<open>Numbers\<close>

definition max_uint64 :: nat where "max_uint64 = 2 ^ 64 - 1"
definition max_int64 :: int where "max_int64 = 2 ^ 63 - 1"
definition min_int64 :: int where "min_int64 = - (2 ^ 63)"

definition in_int64 :: "int \<Rightarrow> bool" where
  "in_int64 i \<longleftrightarrow> min_int64 \<le> i \<and> i \<le> max_int64"

definition digit_value :: "char \<Rightarrow> nat option" where
  "digit_value c =
     (let n = of_char c in
      if 48 \<le> n \<and> n \<le> 57 then Some (n - 48)
      else if 97 \<le> n \<and> n \<le> 122 then Some (n - 87)
      else if 65 \<le> n \<and> n \<le> 90 then Some (n - 55)
      else None)"

definition digit_char :: "nat \<Rightarrow> char" where
  "digit_char d = char_of (if d < 10 then d + 48 else d + 87)"

text \<open>\<^verbatim>\<open>hex.EncodeToString\<close>.\<close>

definition hex_byte :: "char \<Rightarrow> gostring" where
  "hex_byte c = [digit_char (of_char c div 16), digit_char (of_char c mod 16)]"

definition hex_EncodeToString :: "gostring \<Rightarrow> gostring" where
  "hex_EncodeToString s = concat (map hex_byte s)"

fun parse_digits :: "nat \<Rightarrow> nat \<Rightarrow> gostring \<Rightarrow> nat option" where
  "parse_digits b acc [] = Some acc"
| "parse_digits b acc (c # cs) =
     (case digit_value c of
        None \<Rightarrow> None
      | Some d \<Rightarrow> if d < b then parse_digits b (acc * b + d) cs else None)"

text \<open>\<^verbatim>\<open>strconv.ParseUint(s, base, 64)\<close>: \<open>None\<close> is an error.\<close>

definition ParseUint :: "gostring \<Rightarrow> nat \<Rightarrow> nat option" where
  "ParseUint s base =
     (if s = [] then None
      else case parse_digits base 0 s of
             None \<Rightarrow> None
           | Some n \<Rightarrow> if n \<le> max_uint64 then Some n else None)"

function format_digits :: "nat \<Rightarrow> nat \<Rightarrow> gostring" where
  "format_digits b n =
     (if n < b \<or> b < 2 then [digit_char n] else format_digits b (n div b) @ [digit_char (n mod b)])"
  by pat_completeness auto
termination
  by (relation "measure snd") (auto simp: div_less_dividend)

declare format_digits.simps [simp del]

definition FormatUint :: "nat \<Rightarrow> nat \<Rightarrow> gostring" where
  "FormatUint n base = format_digits base n"

definition FormatInt :: "int \<Rightarrow> gostring" where
  "FormatInt i = (if i < 0 then CHR ''-'' # format_digits 10 (nat (- i)) else format_digits 10 (nat i))"

text \<open>The \<^verbatim>\<open>%+d\<close> verb.\<close>

definition FormatSigned :: "int \<Rightarrow> gostring" where
  "FormatSigned i = (if i < 0 then FormatInt i else CHR ''+'' # FormatInt i)"

text \<open>\<^verbatim>\<open>strconv.Atoi\<close>: an optional sign, digits, and the range of \<^verbatim>\<open>int\<close> (64 bits).\<close>

definition range_int64 :: "int \<Rightarrow> int option" where
  "range_int64 i = (if in_int64 i then Some i else None)"

definition parse_magnitude :: "gostring \<Rightarrow> nat option" where
  "parse_magnitude ds = (if ds = [] then None else parse_digits 10 0 ds)"

fun Atoi :: "gostring \<Rightarrow> int option" where
  "Atoi [] = None"
| "Atoi (c # cs) =
     (if c = CHR ''-'' then Option.bind (parse_magnitude cs) (\<lambda>n. range_int64 (- int n))
      else if c = CHR ''+'' then Option.bind (parse_magnitude cs) (\<lambda>n. range_int64 (int n))
      else Option.bind (parse_magnitude (c # cs)) (\<lambda>n. range_int64 (int n)))"

definition ParseBool :: "gostring \<Rightarrow> bool option" where
  "ParseBool s =
     (if s \<in> set [''1'', ''t'', ''T'', ''true'', ''TRUE'', ''True''] then Some True
      else if s \<in> set [''0'', ''f'', ''F'', ''false'', ''FALSE'', ''False''] then Some False
      else None)"

lemma digit_char_value [simp]: "d < 16 \<Longrightarrow> digit_value (digit_char d) = Some d"
  by (auto simp: digit_value_def digit_char_def Let_def)

lemma parse_digits_append:
  "parse_digits b acc (xs @ ys) =
     (case parse_digits b acc xs of None \<Rightarrow> None | Some n \<Rightarrow> parse_digits b n ys)"
  by (induction b acc xs rule: parse_digits.induct) (auto split: option.splits)

lemma format_digits_not_Nil [simp]: "format_digits b n \<noteq> []"
  by (subst format_digits.simps) simp

lemma FormatInt_not_Nil [simp]: "FormatInt i \<noteq> []"
  by (simp add: FormatInt_def)

lemma parse_format_digits:
  assumes "2 \<le> b" and "b \<le> 16"
  shows "parse_digits b 0 (format_digits b n) = Some n"
  using assms
proof (induction b n rule: format_digits.induct)
  case (1 b n)
  show ?case
  proof (cases "n < b")
    case True
    with "1.prems" show ?thesis by (simp add: format_digits.simps [of b n])
  next
    case False
    with "1.prems" "1.IH" have "parse_digits b 0 (format_digits b (n div b)) = Some (n div b)"
      by simp
    moreover have "n mod b < b" using "1.prems" by simp
    moreover have "n mod b < 16"
      using \<open>n mod b < b\<close> "1.prems"(2) by (rule less_le_trans)
    ultimately show ?thesis
      using False "1.prems" by (simp add: format_digits.simps [of b n] parse_digits_append)
  qed
qed

lemma ParseUint_FormatUint:
  assumes "n \<le> max_uint64" and "2 \<le> b" and "b \<le> 16"
  shows "ParseUint (FormatUint n b) b = Some n"
  using assms by (simp add: ParseUint_def FormatUint_def parse_format_digits)

definition decimal :: "char \<Rightarrow> bool" where
  "decimal c \<longleftrightarrow> 48 \<le> (of_char c :: nat) \<and> (of_char c :: nat) \<le> 57"

lemma decimal_digit_char: "d < 10 \<Longrightarrow> decimal (digit_char d)"
  by (simp add: decimal_def digit_char_def)

lemma format_decimal: "c \<in> set (format_digits 10 n) \<Longrightarrow> decimal c"
proof (induction "10::nat" n rule: format_digits.induct)
  case (1 n)
  show ?case
  proof (cases "n < 10")
    case True
    with "1.prems" show ?thesis
      by (simp add: format_digits.simps [of 10 n] decimal_digit_char)
  next
    case False
    with "1.prems" have "c \<in> set (format_digits 10 (n div 10)) \<or> c = digit_char (n mod 10)"
      by (auto simp: format_digits.simps [of 10 n])
    then show ?thesis
      using False "1.hyps" by (auto simp: decimal_digit_char)
  qed
qed

lemma decimal_visible: "decimal c \<Longrightarrow> visible c"
  by (simp add: decimal_def visible_def)

lemma format_digits_inj:
  assumes "format_digits 10 m = format_digits 10 n"
  shows "m = n"
proof -
  have "Some m = parse_digits 10 0 (format_digits 10 m)"
    by (rule parse_format_digits [symmetric]) simp_all
  also have "\<dots> = parse_digits 10 0 (format_digits 10 n)" by (simp only: assms)
  also have "\<dots> = Some n" by (rule parse_format_digits) simp_all
  finally show ?thesis by simp
qed

lemma decimal_not_sign: "decimal c \<Longrightarrow> c \<noteq> CHR ''-'' \<and> c \<noteq> CHR ''+''"
  by (auto simp: decimal_def)

lemma format_hd_decimal: "decimal (hd (format_digits 10 n))"
  by (rule format_decimal [of _ n]) simp

lemma Atoi_digits:
  assumes "decimal c" and "parse_digits 10 0 (c # cs) = Some n" and "in_int64 (int n)"
  shows "Atoi (c # cs) = Some (int n)"
proof -
  have "parse_magnitude (c # cs) = Some n"
    by (simp only: parse_magnitude_def assms(2) list.distinct if_False)
  moreover have "c \<noteq> CHR ''-''" "c \<noteq> CHR ''+''"
    using decimal_not_sign [OF assms(1)] by auto
  ultimately show ?thesis
    by (simp only: Atoi.simps if_False bind.bind_lunit range_int64_def assms(3) if_True)
qed

lemma Atoi_minus:
  assumes "ds \<noteq> []" and "parse_digits 10 0 ds = Some n" and "in_int64 (- int n)"
  shows "Atoi (CHR ''-'' # ds) = Some (- int n)"
  using assms by (simp add: parse_magnitude_def range_int64_def)

lemma Atoi_FormatInt:
  assumes "in_int64 i"
  shows "Atoi (FormatInt i) = Some i"
proof (cases "i < 0")
  case True
  have "Atoi (CHR ''-'' # format_digits 10 (nat (- i))) = Some (- int (nat (- i)))"
    using assms True by (intro Atoi_minus) (simp_all add: parse_format_digits)
  then show ?thesis using True by (simp add: FormatInt_def)
next
  case False
  obtain c cs where ccs: "format_digits 10 (nat i) = c # cs"
    by (cases "format_digits 10 (nat i)") auto
  have "decimal c" using format_hd_decimal [of "nat i"] ccs by simp
  moreover have "parse_digits 10 0 (c # cs) = Some (nat i)"
    using parse_format_digits [of 10 "nat i"] ccs by (simp del: parse_digits.simps)
  ultimately have "Atoi (c # cs) = Some (int (nat i))"
    using assms False by (intro Atoi_digits) simp_all
  then show ?thesis using False ccs by (simp add: FormatInt_def)
qed

lemma FormatSigned_inj: "FormatSigned i = FormatSigned j \<Longrightarrow> i = j"
  by (auto simp: FormatSigned_def FormatInt_def dest!: format_digits_inj split: if_splits)

section \<open>Padded numbers\<close>

definition pad_left :: "nat \<Rightarrow> gostring \<Rightarrow> gostring" where
  "pad_left w s = replicate (w - length s) (CHR ''0'') @ s"

lemma parse_digits_zeros:
  assumes "0 < b"
  shows "parse_digits b 0 (replicate n (CHR ''0'') @ s) = parse_digits b 0 s"
proof (induction n)
  case (Suc n)
  have "digit_value (CHR ''0'') = Some 0" by code_simp
  then show ?case using Suc assms by simp
qed simp

lemma format_digits_length:
  assumes "2 \<le> b"
  shows "n < b ^ Suc k \<Longrightarrow> length (format_digits b n) \<le> Suc k"
proof (induction k arbitrary: n)
  case 0
  then show ?case by (simp add: format_digits.simps [of b n])
next
  case (Suc k)
  show ?case
  proof (cases "n < b")
    case False
    have "n div b < b ^ Suc k"
      using Suc.prems assms by (simp add: div_less_iff_less_mult mult.commute)
    then show ?thesis using Suc.IH False by (simp add: format_digits.simps [of b n])
  qed (simp add: format_digits.simps [of b n])
qed

lemma parse_formatted: "2 \<le> b \<Longrightarrow> b \<le> 16 \<Longrightarrow> parse_digits b 0 (FormatUint n b) = Some n"
  by (simp add: FormatUint_def parse_format_digits)

lemma parse_padded: "2 \<le> b \<Longrightarrow> b \<le> 16 \<Longrightarrow> parse_digits b 0 (pad_left w (FormatUint n b)) = Some n"
  by (simp add: pad_left_def parse_digits_zeros parse_formatted)

lemma length_padded:
  "2 \<le> b \<Longrightarrow> n < b ^ Suc k \<Longrightarrow> length (pad_left (Suc k) (FormatUint n b)) = Suc k"
  using format_digits_length [of b n k] by (simp add: pad_left_def FormatUint_def)

end
