(* ===== verification/ProjectID.thy ===== *)
theory ProjectID
  imports GoStrings
begin

text \<open>
  Cloud project identifiers: the validation and the two normalisers of
  \<^verbatim>\<open>runtime_info.go\<close> and \<^verbatim>\<open>trace.go\<close>, and the searches of environment variables
  built on them. The contract both normalisers meet is the locale
  \<open>project_normalizer\<close>; the searches' properties are proved once inside it.
\<close>

section \<open>Validation\<close>

definition validProjectIDChar :: "char \<Rightarrow> bool" where
  "validProjectIDChar c \<longleftrightarrow>
     97 \<le> (of_char c :: nat) \<and> (of_char c :: nat) \<le> 122
     \<or> 48 \<le> (of_char c :: nat) \<and> (of_char c :: nat) \<le> 57 \<or> c = CHR ''-''"

definition validProjectID :: "gostring \<Rightarrow> bool" where
  "validProjectID s \<longleftrightarrow>
     \<not> (length s < 6 \<or> length s > 30 \<or> (of_char (hd s) :: nat) < 97 \<or> (of_char (hd s) :: nat) > 122
        \<or> last s = CHR ''-'')
     \<and> list_all validProjectIDChar (tl s)"

section \<open>The two normalisers\<close>

text \<open>\<open>None\<close> is Go's \<^verbatim>\<open>ok == false\<close> (the string is then empty).\<close>

definition normalizeProjectID :: "gostring \<Rightarrow> gostring option" where
  "normalizeProjectID s0 =
     (let s = TrimSpace s0 in
      if s = [] then None
      else
        let s = (if HasPrefix (ToLower s) ''projects/'' then drop (length ''projects/'') s else s);
            s = TrimSpace s;
            s = takeWhile (\<lambda>c. c \<noteq> CHR ''/'') s;
            s = ToLower (TrimSpace s)
        in if validProjectID s then Some s else None)"

text \<open>The result and the flag \<^verbatim>\<open>changed\<close>.\<close>

definition normalizeTraceProjectID :: "gostring \<Rightarrow> (gostring \<times> bool) option" where
  "normalizeTraceProjectID raw =
     (let trimmed = TrimSpace raw in
      if trimmed = [] then None
      else
        let changed = (trimmed \<noteq> raw);
            (s, changed) =
              (if HasPrefix (ToLower trimmed) ''projects/''
               then (drop (length ''projects/'') trimmed, True) else (trimmed, changed));
            s = TrimSpace s;
            changed = (changed \<or> s \<noteq> trimmed)
        in if CHR ''/'' \<in> set s then None
           else
             let lower = ToLower s;
                 changed = (changed \<or> lower \<noteq> s)
             in if validProjectID lower then Some (lower, changed) else None)"

section \<open>Searches\<close>

definition resolveProjectIDFromEnv :: "environ \<Rightarrow> gostring \<Rightarrow> gostring list \<Rightarrow> gostring" where
  "resolveProjectIDFromEnv env current keys =
     (case normalizeProjectID current of
        Some project \<Rightarrow> project
      | None \<Rightarrow>
          (case List.find (\<lambda>k. normalizeProjectID (env k) \<noteq> None) keys of
             Some k \<Rightarrow> the (normalizeProjectID (env k))
           | None \<Rightarrow> []))"

definition firstValidProjectID :: "gostring list \<Rightarrow> gostring" where
  "firstValidProjectID values =
     (case List.find (\<lambda>v. normalizeProjectID v \<noteq> None) values of
        Some v \<Rightarrow> the (normalizeProjectID v)
      | None \<Rightarrow> [])"

fun firstNonEmpty :: "gostring list \<Rightarrow> gostring" where
  "firstNonEmpty [] = []"
| "firstNonEmpty (v # vs) = (if TrimSpace v \<noteq> [] then TrimSpace v else firstNonEmpty vs)"

definition traceProjectEnvNames :: "gostring list" where
  "traceProjectEnvNames =
     [''SLOGCP_TRACE_PROJECT_ID'', ''SLOGCP_PROJECT_ID'', ''SLOGCP_GCP_PROJECT'',
      ''GOOGLE_CLOUD_PROJECT'', ''GCLOUD_PROJECT'', ''GCP_PROJECT'']"

fun first_trace_project :: "environ \<Rightarrow> gostring list \<Rightarrow> gostring" where
  "first_trace_project env [] = []"
| "first_trace_project env (name # names) =
     (let value = TrimSpace (env name) in
      if value = [] then first_trace_project env names
      else case normalizeTraceProjectID value of
             Some (normalized, _) \<Rightarrow> normalized
           | None \<Rightarrow> first_trace_project env names)"

definition detectTraceProjectIDFromEnv :: "environ \<Rightarrow> gostring" where
  "detectTraceProjectIDFromEnv env = first_trace_project env traceProjectEnvNames"

section \<open>The normaliser contract\<close>

locale project_normalizer =
  fixes norm :: "gostring \<Rightarrow> gostring option"
  assumes norm_valid: "norm s = Some t \<Longrightarrow> validProjectID t"
    and norm_fixed: "validProjectID s \<Longrightarrow> norm s = Some s"
begin

lemma idempotent: "norm s = Some t \<Longrightarrow> norm t = Some t"
  using norm_valid norm_fixed by blast

lemma result_iff_fixed: "norm s = Some s \<longleftrightarrow> validProjectID s"
  using norm_valid norm_fixed by blast

lemma find_valid:
  "List.find (\<lambda>v. norm (f v) \<noteq> None) vs = Some v \<Longrightarrow> validProjectID (the (norm (f v)))"
  by (auto simp: find_Some_iff intro: norm_valid)

lemma find_case_valid:
  "validProjectID (case List.find (\<lambda>v. norm (f v) \<noteq> None) vs of
      Some v \<Rightarrow> the (norm (f v)) | None \<Rightarrow> [])
   \<or> (case List.find (\<lambda>v. norm (f v) \<noteq> None) vs of
      Some v \<Rightarrow> the (norm (f v)) | None \<Rightarrow> []) = []"
  by (cases "List.find (\<lambda>v. norm (f v) \<noteq> None) vs") (auto dest: find_valid simp del: not_None_eq)

end

section \<open>Facts about valid identifiers\<close>

lemma valid_char_facts:
  assumes "validProjectIDChar c"
  shows "ascii c \<and> \<not> is_upper c \<and> visible c \<and> c \<noteq> CHR ''/''"
proof -
  have "(of_char c :: nat) = 45" if "c = CHR ''-''" using that by simp
  moreover have "(of_char c :: nat) = 47" if "c = CHR ''/''" using that by simp
  ultimately show ?thesis
    using assms unfolding validProjectIDChar_def ascii_def visible_def by fastforce
qed

lemma validProjectID_all: "validProjectID s \<Longrightarrow> s \<noteq> [] \<and> (\<forall>c \<in> set s. validProjectIDChar c)"
  by (cases s) (auto simp: validProjectID_def validProjectIDChar_def list_all_iff)

lemma validProjectID_facts:
  assumes "validProjectID s"
  shows "s \<noteq> []" "TrimSpace s = s" "ToLower s = s" "CHR ''/'' \<notin> set s"
    "takeWhile (\<lambda>c. c \<noteq> CHR ''/'') s = s" "\<not> HasPrefix s ''projects/''"
proof -
  from validProjectID_all [OF assms] have ne: "s \<noteq> []" and cs: "\<And>c. c \<in> set s \<Longrightarrow>
      ascii c \<and> \<not> is_upper c \<and> visible c \<and> c \<noteq> CHR ''/''"
    using valid_char_facts by auto
  show "s \<noteq> []" by (rule ne)
  show "TrimSpace s = s"
    using ne cs by (intro TrimSpace_visible) (auto intro: hd_in_set last_in_set)
  show "ToLower s = s" using cs by (intro ToLower_id) auto
  show slash: "CHR ''/'' \<notin> set s" using cs by blast
  then show "takeWhile (\<lambda>c. c \<noteq> CHR ''/'') s = s"
    by (auto simp: takeWhile_eq_all_conv)
  show "\<not> HasPrefix s ''projects/''"
    using slash by (auto simp: HasPrefix_def prefix_def)
qed

lemma validProjectID_Nil [simp]: "\<not> validProjectID []"
  by (simp add: validProjectID_def)

interpretation runtime_norm: project_normalizer normalizeProjectID
proof
  show "normalizeProjectID s = Some t \<Longrightarrow> validProjectID t" for s t
    by (auto simp: normalizeProjectID_def Let_def split: if_splits)
  show "validProjectID s \<Longrightarrow> normalizeProjectID s = Some s" for s
    using validProjectID_facts [of s] by (simp add: normalizeProjectID_def Let_def del: takeWhile_eq_all_conv)
qed

interpretation trace_norm: project_normalizer "\<lambda>s. map_option fst (normalizeTraceProjectID s)"
proof
  show "map_option fst (normalizeTraceProjectID s) = Some t \<Longrightarrow> validProjectID t" for s t
    by (auto simp: normalizeTraceProjectID_def Let_def split: if_splits)
  show "validProjectID s \<Longrightarrow> map_option fst (normalizeTraceProjectID s) = Some s" for s
    using validProjectID_facts [of s] by (simp add: normalizeTraceProjectID_def)
qed

section \<open>Properties\<close>

lemma resolveProjectIDFromEnv_valid:
  "validProjectID (resolveProjectIDFromEnv env current keys)
   \<or> resolveProjectIDFromEnv env current keys = []"
  using runtime_norm.find_case_valid [of env keys]
  by (auto simp: resolveProjectIDFromEnv_def intro: runtime_norm.norm_valid split: option.splits)

lemma firstValidProjectID_valid:
  "validProjectID (firstValidProjectID vs) \<or> firstValidProjectID vs = []"
  using runtime_norm.find_case_valid [of "\<lambda>v. v" vs] by (simp add: firstValidProjectID_def)

lemma first_trace_project_valid:
  "validProjectID (first_trace_project env names) \<or> first_trace_project env names = []"
proof (induction names)
  case Nil
  then show ?case by simp
next
  case (Cons name names)
  then show ?case
    using trace_norm.norm_valid [of "TrimSpace (env name)"]
    by (auto simp: Let_def split: option.splits)
qed

lemma prefix_projects_changed:
  assumes "HasPrefix (ToLower s) ''projects/''" and "validProjectID t"
  shows "t \<noteq> s"
proof
  assume "t = s"
  then have "ToLower s = s" and "\<not> HasPrefix s ''projects/''"
    using validProjectID_facts [OF assms(2)] by simp_all
  then show False using assms(1) by simp
qed

text \<open>
  The \<^verbatim>\<open>changed\<close> flag of the trace-project normaliser, which decides whether a
  diagnostic is logged, is exact: the function succeeds with \<^verbatim>\<open>changed\<close> false on
  precisely the identifiers that were already valid, and with \<^verbatim>\<open>changed\<close> true only
  when the identifier it returns differs from its input.
\<close>

theorem normalizeTraceProjectID_changed_exact:
  "case normalizeTraceProjectID raw of
     None \<Rightarrow> \<not> validProjectID raw
   | Some (normalized, changed) \<Rightarrow> validProjectID normalized \<and> (changed \<longleftrightarrow> normalized \<noteq> raw)"
proof (cases "normalizeTraceProjectID raw")
  case None
  then show ?thesis using trace_norm.norm_fixed [of raw] by auto
next
  case (Some r)
  obtain t ch where r: "r = (t, ch)" by (cases r)
  have v: "validProjectID t" using trace_norm.norm_valid [of raw t] Some r by simp
  note f = validProjectID_facts [OF v]
  let ?tr = "TrimSpace raw"
  show ?thesis
  proof (cases "HasPrefix (ToLower ?tr) ''projects/''")
    case True
    then have "ch" and "t \<noteq> ?tr"
      using Some r prefix_projects_changed [OF True v]
      by (auto simp: normalizeTraceProjectID_def Let_def split: if_splits)
    moreover have "t \<noteq> raw"
    proof
      assume "t = raw"
      then have "?tr = t" using f(2) by simp
      then show False using \<open>t \<noteq> ?tr\<close> by simp
    qed
    ultimately show ?thesis using Some r v by simp
  next
    case False
    then have t: "t = ToLower ?tr" and ch: "ch = (?tr \<noteq> raw \<or> t \<noteq> ?tr)"
      using Some r by (auto simp: normalizeTraceProjectID_def Let_def split: if_splits)
    have "ch \<longleftrightarrow> t \<noteq> raw"
    proof
      assume ch
      show "t \<noteq> raw"
      proof
        assume eq: "t = raw"
        with f(2) have "?tr = raw" by simp
        with ch \<open>ch\<close> eq show False by simp
      qed
    next
      assume "t \<noteq> raw"
      with ch show ch by auto
    qed
    with Some r v show ?thesis by simp
  qed
qed

text \<open>
  The project ID used for metadata is normalised once and for all: what
  \<^verbatim>\<open>normalizeProjectID\<close> accepts is a valid identifier on which the function is the
  identity, so resolving a resolved value again cannot change it, whatever the
  environment holds.
\<close>

theorem resolveProjectIDFromEnv_stable:
  "(validProjectID (resolveProjectIDFromEnv env current keys)
      \<or> resolveProjectIDFromEnv env current keys = [])
   \<and> resolveProjectIDFromEnv env (resolveProjectIDFromEnv env current keys) keys
      = resolveProjectIDFromEnv env current keys"
proof (cases "resolveProjectIDFromEnv env current keys = []")
  case True
  then have "normalizeProjectID current = None"
    using runtime_norm.norm_valid [of current]
    by (auto simp: resolveProjectIDFromEnv_def split: option.splits)
  moreover have "normalizeProjectID [] = None" by (simp add: normalizeProjectID_def)
  ultimately show ?thesis using True by (simp add: resolveProjectIDFromEnv_def)
next
  case False
  then have v: "validProjectID (resolveProjectIDFromEnv env current keys)"
    using resolveProjectIDFromEnv_valid [of env current keys] by blast
  then have "resolveProjectIDFromEnv env (resolveProjectIDFromEnv env current keys) keys
      = resolveProjectIDFromEnv env current keys"
    using runtime_norm.norm_fixed [OF v]
    by (simp add: resolveProjectIDFromEnv_def [of env "resolveProjectIDFromEnv env current keys"])
  with v show ?thesis by blast
qed

end
