(* ===== verification/RuntimeInfo.thy ===== *)
theory RuntimeInfo
  imports ProjectID
begin

text \<open>
  Runtime detection: \<^verbatim>\<open>runtime_info.go\<close>. The metadata server is a parameter: a client
  whose answers may differ from one request to the next, so that the caching done by
  \<^verbatim>\<open>metadataLookup\<close> is observable. The lookup carries two ghost fields, the list of
  the paths requested from the client and the number of availability probes. Nil
  receivers of the lookup methods are not represented (detection always builds one);
  a nil client is. The process-wide cache of \<^verbatim>\<open>DetectRuntimeInfo\<close> is a state
  that is passed along.
\<close>

section \<open>Metadata lookups\<close>

text \<open>
  An error of the client, as far as \<^verbatim>\<open>errors.Is\<close> and \<^verbatim>\<open>errors.As\<close> look at it.
\<close>

record mderror =
  is_canceled :: bool
  is_deadline :: bool
  is_not_defined :: bool
  is_net_error :: bool

record metadataClient =
  OnGCE :: "nat \<Rightarrow> bool"
  MdGet :: "nat \<Rightarrow> gostring \<Rightarrow> mderror + gostring"

record metadataCacheEntry =
  entry_value :: gostring
  entry_ok :: bool
  populated :: bool

record metadataLookup =
  cache :: "metadataCacheEntry gomap"
  probed :: bool
  available :: bool
  requests :: "gostring list"
  probes :: nat

definition newMetadataLookup :: metadataLookup where
  "newMetadataLookup = \<lparr>cache = [], probed = False, available = False, requests = [], probes = 0\<rparr>"

definition metadataLookupDisablesAvailability :: "mderror \<Rightarrow> bool" where
  "metadataLookupDisablesAvailability err =
     (if is_canceled err \<or> is_deadline err then True
      else if is_not_defined err then False
      else is_net_error err)"

definition isAvailable :: "metadataClient option \<Rightarrow> metadataLookup \<Rightarrow> bool \<times> metadataLookup" where
  "isAvailable client l =
     (if probed l then (available l, l)
      else case client of
             None \<Rightarrow> (available l, l\<lparr>probed := True\<rparr>)
           | Some c \<Rightarrow>
               (let b = OnGCE c (probes l)
                in (b, l\<lparr>probed := True, available := b, probes := Suc (probes l)\<rparr>)))"

definition fetch :: "metadataClient \<Rightarrow> gostring \<Rightarrow> metadataLookup \<Rightarrow> (gostring \<times> bool) \<times> metadataLookup" where
  "fetch c path l =
     (let l' = l\<lparr>requests := requests l @ [path]\<rparr> in
      case MdGet c (length (requests l)) path of
        Inl err \<Rightarrow>
          (([], False),
           l'\<lparr>available := (if metadataLookupDisablesAvailability err then False else available l),
              cache := mput path \<lparr>entry_value = [], entry_ok = False, populated = True\<rparr> (cache l)\<rparr>)
      | Inr v \<Rightarrow>
          (let val = TrimSpace v; ok = (val \<noteq> []) in
           ((val, ok),
            l'\<lparr>cache := mput path \<lparr>entry_value = val, entry_ok = ok, populated = True\<rparr> (cache l)\<rparr>)))"

definition md_get :: "metadataClient option \<Rightarrow> gostring \<Rightarrow> metadataLookup \<Rightarrow> (gostring \<times> bool) \<times> metadataLookup" where
  "md_get client path l =
     (let (av, l) = isAvailable client l in
      if \<not> av then (([], False), l)
      else case client of
             None \<Rightarrow> (([], False), l)
           | Some c \<Rightarrow>
               (case map_of (cache l) path of
                  Some e \<Rightarrow> if populated e then ((entry_value e, entry_ok e), l) else fetch c path l
                | None \<Rightarrow> fetch c path l))"

text \<open>The typed reads: each is one lookup and a pure function of its result.\<close>

definition md_projectID :: "metadataClient option \<Rightarrow> metadataLookup \<Rightarrow> gostring \<times> metadataLookup" where
  "md_projectID c l =
     (let ((val, ok), l) = md_get c ''project/project-id'' l in
      (if ok then (case normalizeProjectID val of Some pid \<Rightarrow> pid | None \<Rightarrow> []) else [], l))"

definition last_segment :: "gostring \<Rightarrow> gostring" where
  "last_segment val =
     (case LastIndex val CHR ''/'' of
        Some idx \<Rightarrow> if idx + 1 < length val then drop (idx + 1) val else val
      | None \<Rightarrow> val)"

definition md_region :: "metadataClient option \<Rightarrow> metadataLookup \<Rightarrow> gostring \<times> metadataLookup" where
  "md_region c l =
     (let ((val, ok), l) = md_get c ''instance/region'' l
      in (if ok then last_segment val else [], l))"

definition md_zone :: "metadataClient option \<Rightarrow> metadataLookup \<Rightarrow> gostring \<times> metadataLookup" where
  "md_zone c l =
     (let ((val, ok), l) = md_get c ''instance/zone'' l
      in (if ok then last_segment val else [], l))"

definition md_instanceID :: "metadataClient option \<Rightarrow> metadataLookup \<Rightarrow> gostring \<times> metadataLookup" where
  "md_instanceID c l =
     (let ((val, ok), l) = md_get c ''instance/id'' l in (if ok then val else [], l))"

definition md_clusterName :: "metadataClient option \<Rightarrow> metadataLookup \<Rightarrow> gostring \<times> metadataLookup" where
  "md_clusterName c l =
     (let ((val, ok), l) = md_get c ''instance/attributes/cluster-name'' l
      in (if ok then val else [], l))"

definition md_clusterLocation :: "metadataClient option \<Rightarrow> metadataLookup \<Rightarrow> gostring \<times> metadataLookup" where
  "md_clusterLocation c l =
     (let ((val, ok), l) = md_get c ''instance/attributes/cluster-location'' l
      in (if ok then val else [], l))"

section \<open>Detection\<close>

datatype RuntimeEnvironment =
    RuntimeEnvUnknown | RuntimeEnvCloudRunService | RuntimeEnvCloudRunJob
  | RuntimeEnvCloudFunctions | RuntimeEnvAppEngineStandard | RuntimeEnvAppEngineFlexible
  | RuntimeEnvKubernetes | RuntimeEnvComputeEngine

record runtimeInfo =
  ProjectID :: gostring
  Labels :: "gostring gomap"
  ServiceContext :: "gostring gomap"
  Environment :: RuntimeEnvironment

definition runtimeProjectIDEnvKeys :: "gostring list" where
  "runtimeProjectIDEnvKeys =
     [''SLOGCP_TRACE_PROJECT_ID'', ''SLOGCP_PROJECT_ID'', ''SLOGCP_GCP_PROJECT'',
      ''GOOGLE_CLOUD_PROJECT'', ''GCLOUD_PROJECT'', ''GCP_PROJECT'', ''PROJECT_ID'']"

definition serviceProjectIDEnvKeys :: "gostring list" where
  "serviceProjectIDEnvKeys =
     [''SLOGCP_GCP_PROJECT'', ''GOOGLE_CLOUD_PROJECT'', ''GCLOUD_PROJECT'', ''GCP_PROJECT'']"

definition trimmedEnv :: "environ \<Rightarrow> gostring \<Rightarrow> gostring" where
  "trimmedEnv env key = TrimSpace (env key)"

definition readNamespace :: "gostring option \<Rightarrow> gostring" where
  "readNamespace nsfile = (case nsfile of None \<Rightarrow> [] | Some d \<Rightarrow> TrimSpace d)"

text \<open>
  Every detector takes the information gathered so far and the lookup, and returns
  whether it matched, with both updated.
\<close>

type_synonym detection = "bool \<times> runtimeInfo \<times> metadataLookup"

definition or_metadata_project ::
  "metadataClient option \<Rightarrow> gostring \<Rightarrow> metadataLookup \<Rightarrow> gostring \<times> metadataLookup" where
  "or_metadata_project c pid md = (if pid = [] then md_projectID c md else (pid, md))"

definition ensureProjectID ::
  "metadataClient option \<Rightarrow> runtimeInfo \<Rightarrow> metadataLookup \<Rightarrow> runtimeInfo \<times> metadataLookup" where
  "ensureProjectID c info md =
     (if ProjectID info \<noteq> [] then (info, md)
      else let (pid, md) = md_projectID c md
           in (if pid \<noteq> [] then info\<lparr>ProjectID := pid\<rparr> else info, md))"

definition detectCloudFunction ::
  "environ \<Rightarrow> metadataClient option \<Rightarrow> runtimeInfo \<Rightarrow> metadataLookup \<Rightarrow> detection" where
  "detectCloudFunction env c info md =
     (let service = trimmedEnv env ''K_SERVICE'';
          target = trimmedEnv env ''FUNCTION_TARGET'';
          signature = trimmedEnv env ''FUNCTION_SIGNATURE_TYPE'' in
      if service = [] \<or> target = [] \<or> signature = [] then (False, info, md)
      else
        let revision = trimmedEnv env ''K_REVISION'';
            region = firstNonEmpty [trimmedEnv env ''FUNCTION_REGION'',
                       trimmedEnv env ''GOOGLE_CLOUD_REGION'', trimmedEnv env ''CLOUD_RUN_REGION''];
            (region, md) = (if region = [] then md_region c md else (region, md));
            sc = [(''service'', service)];
            sc = (if revision \<noteq> [] then mput ''version'' revision sc else sc);
            labels = [(''cloud_function.name'', service), (''cloud_function.target'', target)];
            labels = (if region \<noteq> [] then mput ''cloud_function.region'' region labels else labels);
            (pid, md) = or_metadata_project c
               (resolveProjectIDFromEnv env (ProjectID info) serviceProjectIDEnvKeys) md
        in (True, \<lparr>ProjectID = pid, Labels = labels, ServiceContext = sc,
                   Environment = RuntimeEnvCloudFunctions\<rparr>, md))"

definition detectCloudRunService ::
  "environ \<Rightarrow> metadataClient option \<Rightarrow> runtimeInfo \<Rightarrow> metadataLookup \<Rightarrow> detection" where
  "detectCloudRunService env c info md =
     (let service = trimmedEnv env ''K_SERVICE'';
          revision = trimmedEnv env ''K_REVISION'';
          config = trimmedEnv env ''K_CONFIGURATION'' in
      if service = [] \<or> revision = [] \<or> config = [] then (False, info, md)
      else
        let region = firstNonEmpty [trimmedEnv env ''CLOUD_RUN_REGION'',
                       trimmedEnv env ''GOOGLE_CLOUD_REGION''];
            (region, md) = (if region = [] then md_region c md else (region, md));
            sc = [(''service'', service), (''version'', revision)];
            labels = [(''cloud_run.service'', service), (''cloud_run.revision'', revision)];
            labels = (if config \<noteq> [] then mput ''cloud_run.configuration'' config labels else labels);
            labels = (if region \<noteq> [] then mput ''cloud_run.region'' region labels else labels);
            (pid, md) = or_metadata_project c
               (resolveProjectIDFromEnv env (ProjectID info) serviceProjectIDEnvKeys) md
        in (True, \<lparr>ProjectID = pid, Labels = labels, ServiceContext = sc,
                   Environment = RuntimeEnvCloudRunService\<rparr>, md))"

definition detectCloudRunJob ::
  "environ \<Rightarrow> metadataClient option \<Rightarrow> runtimeInfo \<Rightarrow> metadataLookup \<Rightarrow> detection" where
  "detectCloudRunJob env c info md =
     (let job = trimmedEnv env ''CLOUD_RUN_JOB'';
          execution = trimmedEnv env ''CLOUD_RUN_EXECUTION'';
          taskIndex = trimmedEnv env ''CLOUD_RUN_TASK_INDEX'';
          taskAttempt = trimmedEnv env ''CLOUD_RUN_TASK_ATTEMPT'' in
      if job = [] \<or> execution = [] \<or> taskIndex = [] \<or> taskAttempt = [] then (False, info, md)
      else
        let region = firstNonEmpty [trimmedEnv env ''CLOUD_RUN_REGION'',
                       trimmedEnv env ''GOOGLE_CLOUD_REGION''];
            (region, md) = (if region = [] then md_region c md else (region, md));
            sc = [(''service'', job), (''version'', execution)];
            labels = [(''cloud_run.job'', job), (''cloud_run.execution'', execution),
                      (''cloud_run.task_index'', taskIndex), (''cloud_run.task_attempt'', taskAttempt)];
            labels = (if region \<noteq> [] then mput ''cloud_run.region'' region labels else labels);
            (pid, md) = or_metadata_project c
               (resolveProjectIDFromEnv env (ProjectID info) serviceProjectIDEnvKeys) md
        in (True, \<lparr>ProjectID = pid, Labels = labels, ServiceContext = sc,
                   Environment = RuntimeEnvCloudRunJob\<rparr>, md))"

definition detectAppEngine ::
  "environ \<Rightarrow> metadataClient option \<Rightarrow> runtimeInfo \<Rightarrow> metadataLookup \<Rightarrow> detection" where
  "detectAppEngine env c info md =
     (let service = trimmedEnv env ''GAE_SERVICE'';
          version = trimmedEnv env ''GAE_VERSION'';
          inst = trimmedEnv env ''GAE_INSTANCE'' in
      if service = [] \<or> version = [] \<or> inst = [] then (False, info, md)
      else
        let environment = (if ToLower (trimmedEnv env ''GAE_ENV'') = ''flex''
                           then RuntimeEnvAppEngineFlexible else RuntimeEnvAppEngineStandard);
            sc = [(''service'', service), (''version'', version)];
            labels = [(''appengine.service'', service), (''appengine.version'', version),
                      (''appengine.instance'', inst)];
            (zone, md) = md_zone c md;
            labels = (if zone \<noteq> [] then mput ''appengine.zone'' zone labels else labels);
            pid = resolveProjectIDFromEnv env (ProjectID info) serviceProjectIDEnvKeys;
            pid = firstValidProjectID [pid, TrimPrefix (trimmedEnv env ''GAE_APPLICATION'') ''_''];
            (pid, md) = or_metadata_project c pid md
        in (True, \<lparr>ProjectID = pid, Labels = labels, ServiceContext = sc,
                   Environment = environment\<rparr>, md))"

definition resolveClusterName ::
  "environ \<Rightarrow> metadataClient option \<Rightarrow> metadataLookup \<Rightarrow> gostring \<times> metadataLookup" where
  "resolveClusterName env c md =
     (let (name, md) = md_clusterName c md
      in (if name \<noteq> [] then name else trimmedEnv env ''CLUSTER_NAME'', md))"

definition clusterLocation ::
  "environ \<Rightarrow> metadataClient option \<Rightarrow> metadataLookup \<Rightarrow> gostring \<times> metadataLookup" where
  "clusterLocation env c md =
     (let location = trimmedEnv env ''CLUSTER_LOCATION''
      in if location \<noteq> [] then (location, md) else md_clusterLocation c md)"

definition kubernetesNamespace :: "environ \<Rightarrow> gostring option \<Rightarrow> gostring" where
  "kubernetesNamespace env nsfile =
     (if readNamespace nsfile \<noteq> [] then readNamespace nsfile
      else if trimmedEnv env ''NAMESPACE_NAME'' \<noteq> [] then trimmedEnv env ''NAMESPACE_NAME''
      else trimmedEnv env ''NAMESPACE'')"

definition kubernetesPodName :: "environ \<Rightarrow> gostring" where
  "kubernetesPodName env =
     (if trimmedEnv env ''POD_NAME'' \<noteq> [] then trimmedEnv env ''POD_NAME''
      else trimmedEnv env ''HOSTNAME'')"

definition put_nonempty :: "gostring \<Rightarrow> gostring \<Rightarrow> gostring gomap \<Rightarrow> gostring gomap" where
  "put_nonempty k v m = (if v \<noteq> [] then mput k v m else m)"

definition kubernetesLabels ::
  "environ \<Rightarrow> gostring option \<Rightarrow> metadataClient option \<Rightarrow> gostring \<Rightarrow> metadataLookup
     \<Rightarrow> gostring gomap \<times> metadataLookup" where
  "kubernetesLabels env nsfile c clusterName md =
     (let labels = [(''k8s.cluster.name'', clusterName)];
          (location, md) = clusterLocation env c md;
          labels = put_nonempty ''k8s.location'' location labels;
          labels = put_nonempty ''k8s.namespace.name'' (kubernetesNamespace env nsfile) labels;
          labels = put_nonempty ''k8s.pod.name'' (kubernetesPodName env) labels;
          labels = put_nonempty ''k8s.container.name'' (trimmedEnv env ''CONTAINER_NAME'') labels
      in (labels, md))"

definition resolveKubernetesProject ::
  "environ \<Rightarrow> metadataClient option \<Rightarrow> gostring \<Rightarrow> metadataLookup \<Rightarrow> gostring \<times> metadataLookup" where
  "resolveKubernetesProject env c current md =
     (let project = resolveProjectIDFromEnv env current serviceProjectIDEnvKeys
      in if project \<noteq> [] then (project, md) else md_projectID c md)"

definition detectKubernetes ::
  "environ \<Rightarrow> gostring option \<Rightarrow> metadataClient option \<Rightarrow> runtimeInfo \<Rightarrow> metadataLookup \<Rightarrow> detection" where
  "detectKubernetes env nsfile c info md =
     (if trimmedEnv env ''KUBERNETES_SERVICE_HOST'' = [] then (False, info, md)
      else
        let info = info\<lparr>Environment := RuntimeEnvKubernetes\<rparr>;
            (clusterName, md) = resolveClusterName env c md
        in if clusterName = [] then (False, info, md)
           else
             let (labels, md) = kubernetesLabels env nsfile c clusterName md;
                 (pid, md) = resolveKubernetesProject env c (ProjectID info) md
             in (True, info\<lparr>Labels := labels, ProjectID := pid\<rparr>, md))"

definition detectComputeEngine ::
  "metadataClient option \<Rightarrow> runtimeInfo \<Rightarrow> metadataLookup \<Rightarrow> detection" where
  "detectComputeEngine c info md =
     (let (instanceID, md) = md_instanceID c md in
      if instanceID = [] then (False, info, md)
      else
        let labels = [(''gce.instance_id'', instanceID)];
            (zone, md) = md_zone c md;
            labels = (if zone \<noteq> [] then mput ''gce.zone'' zone labels else labels);
            (pid, md) = md_projectID c md;
            info = info\<lparr>Environment := RuntimeEnvComputeEngine, Labels := labels\<rparr>
        in (True, if pid \<noteq> [] then info\<lparr>ProjectID := pid\<rparr> else info, md))"

definition initial_info :: "environ \<Rightarrow> runtimeInfo" where
  "initial_info env = \<lparr>ProjectID = resolveProjectIDFromEnv env [] runtimeProjectIDEnvKeys,
     Labels = [], ServiceContext = [], Environment = RuntimeEnvUnknown\<rparr>"

text \<open>The detectors are tried in the order of the source; the first match ends the search.\<close>

fun try_detectors ::
  "(runtimeInfo \<Rightarrow> metadataLookup \<Rightarrow> detection) list \<Rightarrow> runtimeInfo \<Rightarrow> metadataLookup
     \<Rightarrow> runtimeInfo \<times> metadataLookup" where
  "try_detectors [] info md = (info, md)"
| "try_detectors (d # ds) info md =
     (let (found, info, md) = d info md in if found then (info, md) else try_detectors ds info md)"

definition detectRuntimeInfo ::
  "environ \<Rightarrow> gostring option \<Rightarrow> metadataClient option \<Rightarrow> runtimeInfo \<times> metadataLookup" where
  "detectRuntimeInfo env nsfile c =
     (let (info, md) =
        try_detectors
          [detectCloudFunction env c, detectCloudRunService env c, detectCloudRunJob env c,
           detectAppEngine env c, detectKubernetes env nsfile c, detectComputeEngine c]
          (initial_info env) newMetadataLookup
      in ensureProjectID c info md)"

text \<open>The process-wide accessor: an override, a switch that disables the cache, the cache.\<close>

record runtimeInfoState =
  info_override :: "runtimeInfo option"
  cache_disabled :: bool
  info_once :: "runtimeInfo option"

definition DetectRuntimeInfo ::
  "environ \<Rightarrow> gostring option \<Rightarrow> metadataClient option \<Rightarrow> runtimeInfoState
     \<Rightarrow> runtimeInfo \<times> runtimeInfoState" where
  "DetectRuntimeInfo env nsfile c st =
     (case info_override st of
        Some info \<Rightarrow> (info, st)
      | None \<Rightarrow>
          if cache_disabled st then (fst (detectRuntimeInfo env nsfile c), st)
          else (case info_once st of
                  Some info \<Rightarrow> (info, st)
                | None \<Rightarrow> (let info = fst (detectRuntimeInfo env nsfile c)
                         in (info, st\<lparr>info_once := Some info\<rparr>))))"

text \<open>Two questions the handler and the HTTP middleware ask about the result.\<close>

definition prefersManagedGCPDefaults :: "runtimeInfo \<Rightarrow> bool" where
  "prefersManagedGCPDefaults info \<longleftrightarrow>
     Environment info \<in> set [RuntimeEnvCloudRunService, RuntimeEnvCloudRunJob,
       RuntimeEnvCloudFunctions, RuntimeEnvAppEngineStandard, RuntimeEnvAppEngineFlexible]"

definition shouldTrustXForwardedProtoByEnvironment :: "RuntimeEnvironment \<Rightarrow> bool" where
  "shouldTrustXForwardedProtoByEnvironment e \<longleftrightarrow>
     e \<in> set [RuntimeEnvCloudRunService, RuntimeEnvCloudFunctions,
       RuntimeEnvAppEngineStandard, RuntimeEnvAppEngineFlexible]"

section \<open>What lookups keep, detection keeps\<close>

text \<open>
  The contract between the lookup and the detectors: whatever every \<^verbatim>\<open>get\<close> keeps of
  the lookup's state, the whole detection keeps, since it reaches the metadata server
  through \<^verbatim>\<open>get\<close> only.
\<close>

locale metadata_invariant =
  fixes inv :: "metadataLookup \<Rightarrow> bool" and c :: "metadataClient option"
  assumes inv_new: "inv newMetadataLookup"
    and inv_get: "inv l \<Longrightarrow> inv (snd (md_get c path l))"
begin

lemma inv_typed_reads:
  "inv l \<Longrightarrow> inv (snd (md_projectID c l))"
  "inv l \<Longrightarrow> inv (snd (md_region c l))"
  "inv l \<Longrightarrow> inv (snd (md_zone c l))"
  "inv l \<Longrightarrow> inv (snd (md_instanceID c l))"
  "inv l \<Longrightarrow> inv (snd (md_clusterName c l))"
  "inv l \<Longrightarrow> inv (snd (md_clusterLocation c l))"
  using inv_get
  by (simp_all add: md_projectID_def md_region_def md_zone_def md_instanceID_def
      md_clusterName_def md_clusterLocation_def Let_def case_prod_unfold)

lemma inv_or_metadata_project: "inv l \<Longrightarrow> inv (snd (or_metadata_project c p l))"
  by (simp add: or_metadata_project_def inv_typed_reads)

lemma inv_ensureProjectID: "inv l \<Longrightarrow> inv (snd (ensureProjectID c info l))"
  by (simp add: ensureProjectID_def inv_typed_reads Let_def case_prod_unfold)

lemma inv_kubernetes_reads:
  "inv l \<Longrightarrow> inv (snd (resolveClusterName env c l))"
  "inv l \<Longrightarrow> inv (snd (clusterLocation env c l))"
  "inv l \<Longrightarrow> inv (snd (resolveKubernetesProject env c p l))"
  "inv l \<Longrightarrow> inv (snd (kubernetesLabels env ns c n l))"
  by (simp_all add: resolveClusterName_def clusterLocation_def resolveKubernetesProject_def
      kubernetesLabels_def inv_typed_reads Let_def case_prod_unfold)

lemmas inv_reads = inv_typed_reads inv_or_metadata_project inv_kubernetes_reads

lemma inv_detectors:
  "inv l \<Longrightarrow> inv (snd (snd (detectCloudFunction env c info l)))"
  "inv l \<Longrightarrow> inv (snd (snd (detectCloudRunService env c info l)))"
  "inv l \<Longrightarrow> inv (snd (snd (detectCloudRunJob env c info l)))"
  "inv l \<Longrightarrow> inv (snd (snd (detectAppEngine env c info l)))"
  "inv l \<Longrightarrow> inv (snd (snd (detectKubernetes env ns c info l)))"
  "inv l \<Longrightarrow> inv (snd (snd (detectComputeEngine c info l)))"
       apply (simp_all add: detectCloudFunction_def detectCloudRunService_def
          detectCloudRunJob_def detectAppEngine_def detectKubernetes_def
          detectComputeEngine_def Let_def case_prod_unfold inv_reads)
  done

lemma inv_try_detectors:
  assumes "\<And>d info l. d \<in> set ds \<Longrightarrow> inv l \<Longrightarrow> inv (snd (snd (d info l)))" and "inv l"
  shows "inv (snd (try_detectors ds info l))"
  using assms
  by (induction ds arbitrary: info l) (auto simp: Let_def case_prod_unfold)

lemma inv_detectRuntimeInfo: "inv (snd (detectRuntimeInfo env ns c))"
  unfolding detectRuntimeInfo_def Let_def case_prod_unfold
  by (intro inv_ensureProjectID inv_try_detectors inv_new) (auto intro: inv_detectors)

end

definition requested_once :: "metadataLookup \<Rightarrow> bool" where
  "requested_once l \<longleftrightarrow>
     distinct (requests l) \<and> set (requests l) \<subseteq> {p. \<exists>e. map_of (cache l) p = Some e \<and> populated e}
     \<and> probes l \<le> (if probed l then 1 else 0)"

lemma isAvailable_requested_once: "requested_once l \<Longrightarrow> requested_once (snd (isAvailable c l))"
  by (auto simp: requested_once_def isAvailable_def Let_def split: option.splits if_splits)

lemma fetch_requested_once:
  assumes "requested_once l" and "\<not> (\<exists>e. map_of (cache l) p = Some e \<and> populated e)"
  shows "requested_once (snd (fetch c p l))"
  using assms
  by (auto simp: requested_once_def fetch_def Let_def split: sum.splits)

lemma md_get_requested_once:
  assumes "requested_once l"
  shows "requested_once (snd (md_get c p l))"
proof -
  let ?l = "snd (isAvailable c l)"
  have "requested_once ?l" using assms by (rule isAvailable_requested_once)
  moreover from this have "requested_once (snd (fetch d p ?l))"
    if "\<not> (\<exists>e. map_of (cache ?l) p = Some e \<and> populated e)" for d
    using that by (rule fetch_requested_once)
  ultimately show ?thesis
    by (auto simp: md_get_def Let_def case_prod_unfold split: option.splits)
qed

interpretation lookups_once: metadata_invariant requested_once c for c
proof
  show "requested_once newMetadataLookup" by (simp add: requested_once_def newMetadataLookup_def)
  show "requested_once l \<Longrightarrow> requested_once (snd (md_get c path l))" for path l
    by (rule md_get_requested_once)
qed

text \<open>A cached answer is what later reads return, as long as the server stays reachable.\<close>

definition no_probe_without_client :: "metadataClient option \<Rightarrow> metadataLookup \<Rightarrow> bool" where
  "no_probe_without_client c l \<longleftrightarrow> (c = None \<longrightarrow> requests l = [] \<and> probes l = 0 \<and> \<not> available l)"

interpretation lookups_client: metadata_invariant "no_probe_without_client c" c for c
proof
  show "no_probe_without_client c newMetadataLookup"
    by (simp add: no_probe_without_client_def newMetadataLookup_def)
  show "no_probe_without_client c l \<Longrightarrow> no_probe_without_client c (snd (md_get c path l))" for path l
    by (auto simp: no_probe_without_client_def md_get_def isAvailable_def Let_def)
qed

section \<open>Properties of the detected information\<close>

text \<open>
  C38. Detection asks the metadata server for each path at most once and probes its
  availability at most once, for every environment and for a client whose answers may
  change from one request to the next; without a client it asks nothing.
\<close>

theorem detectRuntimeInfo_requests_once:
  "distinct (requests (snd (detectRuntimeInfo env nsfile c)))
   \<and> probes (snd (detectRuntimeInfo env nsfile c)) \<le> 1
   \<and> requests (snd (detectRuntimeInfo env nsfile None)) = []"
  using lookups_once.inv_detectRuntimeInfo [of env nsfile c]
    lookups_client.inv_detectRuntimeInfo [of None env nsfile]
  by (auto simp: requested_once_def no_probe_without_client_def split: if_splits)

definition pid_ok :: "gostring \<Rightarrow> bool" where
  "pid_ok p \<longleftrightarrow> validProjectID p \<or> p = []"

lemma pid_ok_sources:
  "pid_ok (fst (md_projectID c l))"
  "pid_ok (resolveProjectIDFromEnv env current keys)"
  "pid_ok (firstValidProjectID vs)"
  using resolveProjectIDFromEnv_valid firstValidProjectID_valid
  by (auto simp: pid_ok_def md_projectID_def Let_def case_prod_unfold
      dest: runtime_norm.norm_valid split: option.splits)

lemma pid_ok_resolvers:
  "pid_ok p \<Longrightarrow> pid_ok (fst (or_metadata_project c p l))"
  "pid_ok (fst (resolveKubernetesProject env c p l))"
  using pid_ok_sources
  by (simp_all add: or_metadata_project_def resolveKubernetesProject_def Let_def)

lemma pid_ok_detectors:
  "pid_ok (ProjectID info) \<Longrightarrow> pid_ok (ProjectID (fst (snd (detectCloudFunction env c info l))))"
  "pid_ok (ProjectID info) \<Longrightarrow> pid_ok (ProjectID (fst (snd (detectCloudRunService env c info l))))"
  "pid_ok (ProjectID info) \<Longrightarrow> pid_ok (ProjectID (fst (snd (detectCloudRunJob env c info l))))"
  "pid_ok (ProjectID info) \<Longrightarrow> pid_ok (ProjectID (fst (snd (detectAppEngine env c info l))))"
  "pid_ok (ProjectID info) \<Longrightarrow> pid_ok (ProjectID (fst (snd (detectKubernetes env ns c info l))))"
  "pid_ok (ProjectID info) \<Longrightarrow> pid_ok (ProjectID (fst (snd (detectComputeEngine c info l))))"
  by (simp_all add: detectCloudFunction_def detectCloudRunService_def
      detectCloudRunJob_def detectAppEngine_def detectComputeEngine_def detectKubernetes_def
      Let_def case_prod_unfold pid_ok_sources pid_ok_resolvers)

lemma pid_ok_ensureProjectID:
  "pid_ok (ProjectID info) \<Longrightarrow> pid_ok (ProjectID (fst (ensureProjectID c info l)))"
  by (simp add: ensureProjectID_def Let_def case_prod_unfold pid_ok_sources pid_ok_resolvers pid_ok_def [of "[]"])

lemma pid_ok_try_detectors:
  assumes "\<And>d info l. d \<in> set ds \<Longrightarrow> pid_ok (ProjectID info) \<Longrightarrow> pid_ok (ProjectID (fst (snd (d info l))))"
    and "pid_ok (ProjectID info)"
  shows "pid_ok (ProjectID (fst (try_detectors ds info l)))"
  using assms
proof (induction ds arbitrary: info l)
  case Nil
  then show ?case by simp
next
  case (Cons d ds)
  have d: "pid_ok (ProjectID (fst (snd (d info l))))"
    using Cons.prems by simp
  then have "pid_ok (ProjectID (fst (try_detectors ds (fst (snd (d info l))) (snd (snd (d info l))))))"
    using Cons.prems(1) by (intro Cons.IH) simp_all
  with d show ?case by (simp add: Let_def case_prod_unfold)
qed

text \<open>
  Whatever the environment variables, the metadata server and the namespace file
  contain, the project ID that detection reports is either empty or a syntactically valid
  project ID.
\<close>

theorem detectRuntimeInfo_project_valid:
  "validProjectID (ProjectID (fst (detectRuntimeInfo env nsfile c)))
   \<or> ProjectID (fst (detectRuntimeInfo env nsfile c)) = []"
proof -
  let ?ds = "[detectCloudFunction env c, detectCloudRunService env c, detectCloudRunJob env c,
           detectAppEngine env c, detectKubernetes env nsfile c, detectComputeEngine c]"
  let ?r = "try_detectors ?ds (initial_info env) newMetadataLookup"
  have init: "pid_ok (ProjectID (initial_info env))"
    by (simp add: initial_info_def pid_ok_sources)
  have "pid_ok (ProjectID (fst ?r))"
    by (rule pid_ok_try_detectors [OF _ init]) (auto intro: pid_ok_detectors)
  then have "pid_ok (ProjectID (fst (detectRuntimeInfo env nsfile c)))"
    unfolding detectRuntimeInfo_def Let_def case_prod_unfold by (rule pid_ok_ensureProjectID)
  then show ?thesis by (simp add: pid_ok_def)
qed

text \<open>When each serverless platform is recognised: exactly the variables the code reads.\<close>

definition all_set :: "environ \<Rightarrow> gostring list \<Rightarrow> bool" where
  "all_set env ks \<longleftrightarrow> list_all (\<lambda>k. trimmedEnv env k \<noteq> []) ks"

definition serverless_env :: "environ \<Rightarrow> RuntimeEnvironment option" where
  "serverless_env env =
     (if all_set env [''K_SERVICE'', ''FUNCTION_TARGET'', ''FUNCTION_SIGNATURE_TYPE'']
        then Some RuntimeEnvCloudFunctions
      else if all_set env [''K_SERVICE'', ''K_REVISION'', ''K_CONFIGURATION'']
        then Some RuntimeEnvCloudRunService
      else if all_set env [''CLOUD_RUN_JOB'', ''CLOUD_RUN_EXECUTION'', ''CLOUD_RUN_TASK_INDEX'',
          ''CLOUD_RUN_TASK_ATTEMPT''] then Some RuntimeEnvCloudRunJob
      else if all_set env [''GAE_SERVICE'', ''GAE_VERSION'', ''GAE_INSTANCE'']
        then Some (if ToLower (trimmedEnv env ''GAE_ENV'') = ''flex''
                   then RuntimeEnvAppEngineFlexible else RuntimeEnvAppEngineStandard)
      else None)"

lemma ensureProjectID_env [simp]: "Environment (fst (ensureProjectID c info l)) = Environment info"
  by (simp add: ensureProjectID_def Let_def case_prod_unfold)

text \<open>Each detector either reports its platform or leaves the information alone.\<close>

lemma detector_environments:
  "all_set env [''K_SERVICE'', ''FUNCTION_TARGET'', ''FUNCTION_SIGNATURE_TYPE''] \<Longrightarrow>
     fst (detectCloudFunction env c info l) \<and>
     Environment (fst (snd (detectCloudFunction env c info l))) = RuntimeEnvCloudFunctions"
  "\<not> all_set env [''K_SERVICE'', ''FUNCTION_TARGET'', ''FUNCTION_SIGNATURE_TYPE''] \<Longrightarrow>
     detectCloudFunction env c info l = (False, info, l)"
  "all_set env [''K_SERVICE'', ''K_REVISION'', ''K_CONFIGURATION''] \<Longrightarrow>
     fst (detectCloudRunService env c info l) \<and>
     Environment (fst (snd (detectCloudRunService env c info l))) = RuntimeEnvCloudRunService"
  "\<not> all_set env [''K_SERVICE'', ''K_REVISION'', ''K_CONFIGURATION''] \<Longrightarrow>
     detectCloudRunService env c info l = (False, info, l)"
  "all_set env [''CLOUD_RUN_JOB'', ''CLOUD_RUN_EXECUTION'', ''CLOUD_RUN_TASK_INDEX'',
       ''CLOUD_RUN_TASK_ATTEMPT''] \<Longrightarrow>
     fst (detectCloudRunJob env c info l) \<and>
     Environment (fst (snd (detectCloudRunJob env c info l))) = RuntimeEnvCloudRunJob"
  "\<not> all_set env [''CLOUD_RUN_JOB'', ''CLOUD_RUN_EXECUTION'', ''CLOUD_RUN_TASK_INDEX'',
       ''CLOUD_RUN_TASK_ATTEMPT''] \<Longrightarrow>
     detectCloudRunJob env c info l = (False, info, l)"
  "all_set env [''GAE_SERVICE'', ''GAE_VERSION'', ''GAE_INSTANCE''] \<Longrightarrow>
     fst (detectAppEngine env c info l) \<and>
     Environment (fst (snd (detectAppEngine env c info l)))
       = (if ToLower (trimmedEnv env ''GAE_ENV'') = ''flex''
          then RuntimeEnvAppEngineFlexible else RuntimeEnvAppEngineStandard)"
  "\<not> all_set env [''GAE_SERVICE'', ''GAE_VERSION'', ''GAE_INSTANCE''] \<Longrightarrow>
     detectAppEngine env c info l = (False, info, l)"
  by (auto simp: all_set_def detectCloudFunction_def detectCloudRunService_def
      detectCloudRunJob_def detectAppEngine_def Let_def case_prod_unfold)

lemma late_detectors_environment:
  assumes "Environment info = RuntimeEnvUnknown"
  shows "Environment (fst (try_detectors [detectKubernetes env ns c, detectComputeEngine c] info l))
    \<in> {RuntimeEnvUnknown, RuntimeEnvKubernetes, RuntimeEnvComputeEngine}"
  using assms
  by (auto simp: detectKubernetes_def detectComputeEngine_def Let_def case_prod_unfold)

text \<open>
  The serverless platform is decided by environment variables alone, in the order
  Cloud Functions, Cloud Run services, Cloud Run jobs, App Engine: detection reports one
  exactly when all the variables of that platform are non-blank and no earlier platform's
  are, so a metadata server can neither fake nor hide one, and the managed defaults
  (severity aliases, suppressed timestamps) are on exactly then.
\<close>

theorem detectRuntimeInfo_serverless:
  "(case serverless_env env of
      Some e \<Rightarrow> Environment (fst (detectRuntimeInfo env nsfile c)) = e
    | None \<Rightarrow> Environment (fst (detectRuntimeInfo env nsfile c))
               \<in> {RuntimeEnvUnknown, RuntimeEnvKubernetes, RuntimeEnvComputeEngine})
   \<and> (prefersManagedGCPDefaults (fst (detectRuntimeInfo env nsfile c))
        \<longleftrightarrow> serverless_env env \<noteq> None)"
proof -
  let ?E = "Environment (fst (detectRuntimeInfo env nsfile c))"
  have "case serverless_env env of Some e \<Rightarrow> ?E = e
    | None \<Rightarrow> ?E \<in> {RuntimeEnvUnknown, RuntimeEnvKubernetes, RuntimeEnvComputeEngine}"
    using late_detectors_environment [of "initial_info env" env nsfile c newMetadataLookup]
    by (simp add: detectRuntimeInfo_def serverless_env_def detector_environments initial_info_def
        Let_def case_prod_unfold)
  moreover have "serverless_env env = Some e \<Longrightarrow>
      e \<in> set [RuntimeEnvCloudRunService, RuntimeEnvCloudRunJob,
       RuntimeEnvCloudFunctions, RuntimeEnvAppEngineStandard, RuntimeEnvAppEngineFlexible]" for e
    by (auto simp: serverless_env_def split: if_splits)
  ultimately show ?thesis
    by (cases "serverless_env env") (auto simp: prefersManagedGCPDefaults_def)
qed

text \<open>
  \<^verbatim>\<open>DetectRuntimeInfo\<close> caches: with the cache enabled, a second call returns the
  same information and leaves the cache alone even if the environment, the namespace file
  or the metadata server have changed in between.
\<close>

theorem DetectRuntimeInfo_cached:
  assumes "\<not> cache_disabled st"
    and "DetectRuntimeInfo env nsfile c st = (info, st')"
  shows "DetectRuntimeInfo env' nsfile' c' st' = (info, st')"
  using assms
  by (auto simp: DetectRuntimeInfo_def Let_def split: option.splits)

theorem DetectRuntimeInfo_cached_witness:
  "DetectRuntimeInfo (\<lambda>_. ''changed'') None None
     (snd (DetectRuntimeInfo (\<lambda>_. []) None None
        \<lparr>info_override = None, cache_disabled = False, info_once = None\<rparr>))
   = DetectRuntimeInfo (\<lambda>_. []) None None
        \<lparr>info_override = None, cache_disabled = False, info_once = None\<rparr>"
proof -
  let ?st = "\<lparr>info_override = None, cache_disabled = False, info_once = None\<rparr>"
  have "DetectRuntimeInfo (\<lambda>_. []) None None ?st
    = (fst (DetectRuntimeInfo (\<lambda>_. []) None None ?st), snd (DetectRuntimeInfo (\<lambda>_. []) None None ?st))"
    by simp
  from DetectRuntimeInfo_cached [OF _ this, of "\<lambda>_. ''changed''" None None] show ?thesis by simp
qed

end
