(* ===== verification/Stack.thy ===== *)
theory Stack
  imports GoStrings
begin

text \<open>
  \<^verbatim>\<open>stack.go\<close>: stack traces carried by errors, their rendering in the format of
  the Go runtime, and the capture of the current stack without the library's own
  frames.

  A program counter is a number below \<open>2 ^ 64\<close>. \<^verbatim>\<open>runtime.CallersFrames\<close> is the
  parameter \<open>frames_of\<close>, the list of frames its iterator delivers; reading past the end
  delivers the zero frame with no more frames to come, as the runtime documents.
  \<^verbatim>\<open>runtime.Callers\<close> and \<^verbatim>\<open>runtime.Stack\<close> are represented by what they wrote
  into the buffer. The pools of the source only recycle memory.
\<close>

section \<open>Errors\<close>

text \<open>
  What the code can observe of an \<^verbatim>\<open>error\<close>: its message, the name of its type, its
  \<^verbatim>\<open>StackTrace\<close> method, and what it wraps. A \<open>Tracer\<close> satisfies the interface
  \<^verbatim>\<open>stackTracer\<close>; a \<open>Reflected\<close> method is one only reflection can call, with its
  arity and the value it returns.
\<close>

datatype stackElem = ElemPC nat | ElemNilPointer | ElemNotConvertible

datatype reflectValue =
    RInvalid
  | RPointer "reflectValue option"
  | RSlice "stackElem list"
  | ROther

datatype stackMethod =
    NoStackTrace
  | Tracer "nat list"
  | Reflected nat nat reflectValue

datatype goerror = GoError (Error: gostring) (TypeName: gostring) (stack_method: stackMethod)
    (unwraps: wrapped)
  and wrapped = NoUnwrap | UnwrapOne goerror | UnwrapMany "goerror list"

definition maxStackFrames :: nat where "maxStackFrames = 64"

definition runtimeGoexit :: gostring where "runtimeGoexit = ''runtime.goexit''"

text \<open>\<^verbatim>\<open>errors.AsType[stackTracer]\<close>: the first tracer of the error tree in pre-order.\<close>

definition own_tracer :: "goerror \<Rightarrow> nat list option" where
  "own_tracer e = (case stack_method e of Tracer pcs \<Rightarrow> Some pcs | _ \<Rightarrow> None)"

fun as_tracer :: "goerror \<Rightarrow> nat list option"
  and as_tracer_wrapped :: "wrapped \<Rightarrow> nat list option"
  and as_tracer_any :: "goerror list \<Rightarrow> nat list option" where
  "as_tracer (GoError m t s w) =
     (case own_tracer (GoError m t s w) of Some pcs \<Rightarrow> Some pcs | None \<Rightarrow> as_tracer_wrapped w)"
| "as_tracer_wrapped NoUnwrap = None"
| "as_tracer_wrapped (UnwrapOne e) = as_tracer e"
| "as_tracer_wrapped (UnwrapMany es) = as_tracer_any es"
| "as_tracer_any [] = None"
| "as_tracer_any (e # es) = (case as_tracer e of Some pcs \<Rightarrow> Some pcs | None \<Rightarrow> as_tracer_any es)"

definition normalizeStackValue :: "reflectValue \<Rightarrow> stackElem list option" where
  "normalizeStackValue v =
     (let slice = (\<lambda>w. case w of RSlice es \<Rightarrow> if es = [] then None else Some es | _ \<Rightarrow> None)
      in case v of
           RInvalid \<Rightarrow> None
         | RPointer None \<Rightarrow> None
         | RPointer (Some w) \<Rightarrow> slice w
         | _ \<Rightarrow> slice v)"

text \<open>The conversion loop; \<open>None\<close> is the early return on an element that is no address.\<close>

fun slice_pcs :: "stackElem list \<Rightarrow> nat list option" where
  "slice_pcs [] = Some []"
| "slice_pcs (ElemNilPointer # es) = slice_pcs es"
| "slice_pcs (ElemNotConvertible # es) = None"
| "slice_pcs (ElemPC pc # es) = map_option ((#) pc) (slice_pcs es)"

definition stackPCsFromSlice :: "stackElem list \<Rightarrow> nat list" where
  "stackPCsFromSlice es = (case slice_pcs es of None \<Rightarrow> [] | Some pcs \<Rightarrow> pcs)"

definition stackPCsFromValue :: "reflectValue \<Rightarrow> nat list" where
  "stackPCsFromValue v =
     (case normalizeStackValue v of None \<Rightarrow> [] | Some es \<Rightarrow> stackPCsFromSlice es)"

definition stackPCsFromStackTraceMethod :: "goerror \<Rightarrow> nat list" where
  "stackPCsFromStackTraceMethod e =
     (case stack_method e of
        NoStackTrace \<Rightarrow> []
      | Tracer pcs \<Rightarrow> stackPCsFromValue (RSlice (map ElemPC pcs))
      | Reflected nin nout v \<Rightarrow> if nin \<noteq> 0 \<or> nout \<noteq> 1 then [] else stackPCsFromValue v)"

text \<open>The loop over \<^verbatim>\<open>errors.Unwrap\<close>, which follows single wrapping only.\<close>

fun unwrap_loop :: "goerror \<Rightarrow> nat list" where
  "unwrap_loop (GoError m t s w) =
     (let pcs = stackPCsFromStackTraceMethod (GoError m t s w)
      in if pcs \<noteq> [] then pcs
         else case w of UnwrapOne e \<Rightarrow> unwrap_loop e | _ \<Rightarrow> [])"

definition stackPCsFromError :: "goerror option \<Rightarrow> nat list" where
  "stackPCsFromError err =
     (case err of
        None \<Rightarrow> []
      | Some e \<Rightarrow>
          (case as_tracer e of
             Some pcs \<Rightarrow> if pcs \<noteq> [] then pcs else unwrap_loop e
           | None \<Rightarrow> unwrap_loop e))"

section \<open>Rendering\<close>

record Frame =
  PC :: nat
  Entry :: nat
  Function :: gostring
  File :: gostring
  Line :: int

definition zero_frame :: Frame where
  "zero_frame = \<lparr>PC = 0, Entry = 0, Function = [], File = [], Line = 0\<rparr>"

fun Next :: "Frame list \<Rightarrow> Frame \<times> bool \<times> Frame list" where
  "Next [] = (zero_frame, False, [])"
| "Next (f # fs) = (f, fs \<noteq> [], fs)"

lemma Next_shorter:
  "(f, mr, rest) = Next fs \<Longrightarrow> 0 < PC f \<or> mr \<Longrightarrow> length rest < length fs"
  by (cases fs) (auto simp: zero_frame_def)

definition nl :: gostring where "nl = [CHR 0x0A]"

text \<open>\<^verbatim>\<open>runtime.Stack\<close> returns a count and fills the buffer: \<open>written\<close> is that prefix.\<close>

definition defaultGoroutineHeader :: "gostring \<Rightarrow> gostring" where
  "defaultGoroutineHeader written =
     (let fallbackHeader = ''goroutine 0 [running]:''
      in if written = [] then fallbackHeader
         else let header = TrimSpace (TrimSuffixChar (takeWhile (\<lambda>c. c \<noteq> CHR 0x0A) written) (CHR 0x0D))
              in if header = [] then fallbackHeader else header)"

definition initStackBuilder :: "gostring \<Rightarrow> gostring" where
  "initStackBuilder header = (if header \<noteq> [] then header @ nl else [])"

definition frameShouldStop :: "Frame \<Rightarrow> bool" where
  "frameShouldStop f \<longleftrightarrow> PC f = 0"

definition frameSkipState :: "Frame \<Rightarrow> bool \<Rightarrow> bool \<times> bool" where
  "frameSkipState f mr =
     (if Function f = runtimeGoexit then (True, \<not> mr)
      else if Function f = [] then (True, \<not> mr)
      else (False, False))"

definition appendOffset :: "Frame \<Rightarrow> gostring" where
  "appendOffset f =
     (if PC f = 0 \<or> Entry f = 0 \<or> PC f < Entry f then []
      else let offset = PC f - Entry f
           in if offset = 0 then [] else '' +0x'' @ FormatUint offset 16)"

definition appendFrame :: "Frame \<Rightarrow> gostring" where
  "appendFrame f =
     Function f @ nl @ [CHR 0x09] @ File f @ '':'' @ FormatInt (Line f) @ appendOffset f @ nl"

text \<open>The loop of \<^verbatim>\<open>formatPCsToStackString\<close>; \<open>n\<close> is \<^verbatim>\<open>frameCount\<close>.\<close>

function frame_loop :: "Frame list \<Rightarrow> nat \<Rightarrow> gostring" where
  "frame_loop fs n =
     (case Next fs of (frame, mr, rest) \<Rightarrow>
        if frameShouldStop frame then []
        else case frameSkipState frame mr of (skip, stop) \<Rightarrow>
          if stop then []
          else if skip then frame_loop rest n
          else appendFrame frame @
               (if \<not> mr \<or> maxStackFrames \<le> Suc n then [] else frame_loop rest (Suc n)))"
  by pat_completeness auto
termination
  by (relation "measure (\<lambda>(fs, n). length fs)")
     (auto simp: frameShouldStop_def dest: Next_shorter)

declare frame_loop.simps [simp del]

definition formatPCsToStackString ::
  "(nat list \<Rightarrow> Frame list) \<Rightarrow> gostring \<Rightarrow> nat list \<Rightarrow> gostring" where
  "formatPCsToStackString frames_of header pcs =
     (if pcs = [] then []
      else initStackBuilder header @ frame_loop (frames_of pcs) 0)"

definition extractAndFormatOriginStack ::
  "(nat list \<Rightarrow> Frame list) \<Rightarrow> gostring \<Rightarrow> goerror option \<Rightarrow> gostring" where
  "extractAndFormatOriginStack frames_of header err =
     (let pcs = stackPCsFromError err
      in if pcs = [] then []
         else formatPCsToStackString frames_of header (take maxStackFrames pcs))"

section \<open>Capturing\<close>

definition internalStackFrameNames :: "gostring list" where
  "internalStackFrameNames = [''runtime.Callers'', runtimeGoexit]"

definition internalStackFramePrefixes :: "gostring list" where
  "internalStackFramePrefixes =
     [''runtime.'', ''github.com/pjscruggs/slogcp/v2/'', ''github.com/pjscruggs/slogcp/v2.'',
      ''log/slog.'']"

definition SkipInternalStackFrame :: "gostring \<Rightarrow> bool" where
  "SkipInternalStackFrame funcName \<longleftrightarrow>
     funcName \<noteq> [] \<and>
     (funcName \<in> set internalStackFrameNames \<or>
      list_ex (HasPrefix funcName) internalStackFramePrefixes)"

text \<open>The counting loop of \<^verbatim>\<open>trimStackPCs\<close>: \<open>None\<close> when every frame was skipped.\<close>

function skip_count :: "(gostring \<Rightarrow> bool) \<Rightarrow> Frame list \<Rightarrow> nat \<Rightarrow> nat option" where
  "skip_count skipFn fs skip =
     (case Next fs of (frame, mr, rest) \<Rightarrow>
        if \<not> skipFn (Function frame) then Some skip
        else if \<not> mr then None
        else skip_count skipFn rest (Suc skip))"
  by pat_completeness auto
termination
  by (relation "measure (\<lambda>(skipFn, fs, n). length fs)") (auto dest: Next_shorter)

declare skip_count.simps [simp del]

text \<open>\<open>None\<close> is the slice-bounds panic of \<^verbatim>\<open>pcs[skip:]\<close>.\<close>

definition trimStackPCs ::
  "(nat list \<Rightarrow> Frame list) \<Rightarrow> (gostring \<Rightarrow> bool) option \<Rightarrow> nat list \<Rightarrow> nat list option" where
  "trimStackPCs frames_of skipFn pcs =
     (if pcs = [] then Some pcs
      else case skip_count (case skipFn of None \<Rightarrow> (\<lambda>_. False) | Some g \<Rightarrow> g) (frames_of pcs) 0 of
             None \<Rightarrow> Some []
           | Some skip \<Rightarrow> if skip = 0 then Some pcs
               else if length pcs < skip then None
               else Some (drop skip pcs))"

text \<open>\<open>callers\<close> is what \<^verbatim>\<open>runtime.Callers\<close> stored, at most the buffer's 64 counters.\<close>

definition CaptureStack ::
  "(nat list \<Rightarrow> Frame list) \<Rightarrow> gostring \<Rightarrow> nat list \<Rightarrow> (gostring \<Rightarrow> bool) option
     \<Rightarrow> (gostring \<times> Frame) option" where
  "CaptureStack frames_of header callers skipFn =
     (let pcs = take maxStackFrames callers
      in if pcs = [] then Some ([], zero_frame)
         else let skipFn' = (case skipFn of None \<Rightarrow> SkipInternalStackFrame | Some g \<Rightarrow> g)
              in case trimStackPCs frames_of (Some skipFn') pcs of
                   None \<Rightarrow> None
                 | Some t \<Rightarrow>
                     (let trimmed = (if t = [] then pcs else t)
                      in Some (formatPCsToStackString frames_of header trimmed,
                               fst (Next (frames_of trimmed)))))"

section \<open>What is rendered\<close>

definition shown :: "Frame \<Rightarrow> bool" where
  "shown f \<longleftrightarrow> Function f \<noteq> runtimeGoexit \<and> Function f \<noteq> []"

definition shown_frames :: "Frame list \<Rightarrow> Frame list" where
  "shown_frames fs = filter shown (takeWhile (\<lambda>f. PC f \<noteq> 0) fs)"

lemma frame_loop_Nil [simp]: "frame_loop [] n = []"
  by (simp add: frame_loop.simps [of "[]"] frameShouldStop_def zero_frame_def)

lemma frame_loop_Cons:
  "frame_loop (f # fs) n =
     (if PC f = 0 then []
      else if shown f then appendFrame f @ (if maxStackFrames \<le> Suc n then [] else frame_loop fs (Suc n))
      else frame_loop fs n)"
  by (subst frame_loop.simps) (auto simp: frameShouldStop_def frameSkipState_def shown_def)

lemma frame_loop_eq:
  "n < maxStackFrames \<Longrightarrow>
   frame_loop fs n = concat (map appendFrame (take (maxStackFrames - n) (shown_frames fs)))"
proof (induction fs arbitrary: n)
  case Nil
  then show ?case by (simp add: shown_frames_def)
next
  case (Cons f fs)
  obtain m where m: "maxStackFrames - n = Suc m" using Cons.prems by (cases "maxStackFrames - n") auto
  have last: "maxStackFrames \<le> Suc n \<longleftrightarrow> m = 0" using m by arith
  have next_n: "\<not> maxStackFrames \<le> Suc n \<Longrightarrow> maxStackFrames - Suc n = m" using m by arith
  show ?case
    using Cons.IH [of n] Cons.IH [of "Suc n"] Cons.prems m last next_n
    by (auto simp: frame_loop_Cons shown_frames_def)
qed

text \<open>
  A rendered stack is the goroutine header on a line of its own followed by the
  first 64 frames that have a function name, are not the runtime's exit frame and come
  before the first empty frame, each rendered once and in order: frames that are skipped do
  not use up the limit of 64.
\<close>

theorem formatPCsToStackString_frames:
  "pcs \<noteq> [] \<Longrightarrow> header \<noteq> [] \<Longrightarrow>
   formatPCsToStackString frames_of header pcs =
     header @ nl @ concat (map appendFrame (take maxStackFrames (shown_frames (frames_of pcs))))"
  by (simp add: formatPCsToStackString_def initStackBuilder_def frame_loop_eq maxStackFrames_def)

definition sample_frame :: "nat \<Rightarrow> Frame" where
  "sample_frame pc =
     \<lparr>PC = pc, Entry = 4096,
      Function = (if pc < 4100 then ''runtime.Callers'' else if pc < 4200 then ''main.run'' else runtimeGoexit),
      File = ''main.go'', Line = 7\<rparr>"

theorem formatPCsToStackString_frames_witness:
  "formatPCsToStackString (map sample_frame) ''goroutine 1 [running]:'' [4112, 4300] =
     ''goroutine 1 [running]:'' @ nl @ appendFrame (sample_frame 4112)"
  by (subst formatPCsToStackString_frames)
     (simp_all add: shown_frames_def shown_def sample_frame_def runtimeGoexit_def maxStackFrames_def)

text \<open>The header that is never empty and never spans two lines.\<close>

lemma defaultGoroutineHeader_line:
  "defaultGoroutineHeader w \<noteq> [] \<and> CHR 0x0A \<notin> set (defaultGoroutineHeader w)"
proof -
  let ?t = "TrimSuffixChar (takeWhile (\<lambda>c. c \<noteq> CHR 0x0A) w) (CHR 0x0D)"
  have "CHR 0x0A \<notin> set ?t"
    by (auto simp: TrimSuffixChar_def dest: set_takeWhileD in_set_butlastD)
  then have "CHR 0x0A \<notin> set (TrimSpace ?t)" using set_TrimSpace by blast
  then show ?thesis by (simp add: defaultGoroutineHeader_def Let_def)
qed

section \<open>Which stack an error reports\<close>

fun unwrap_chain :: "goerror \<Rightarrow> goerror list" where
  "unwrap_chain (GoError m t s w) =
     GoError m t s w # (case w of UnwrapOne e \<Rightarrow> unwrap_chain e | _ \<Rightarrow> [])"

lemma unwrap_loop_chain:
  "unwrap_loop e =
     (case filter (\<lambda>pcs. pcs \<noteq> []) (map stackPCsFromStackTraceMethod (unwrap_chain e)) of
        [] \<Rightarrow> [] | pcs # _ \<Rightarrow> pcs)"
  by (induction e rule: unwrap_loop.induct) (auto simp: Let_def split: wrapped.splits)

definition tracer_pcs :: "goerror \<Rightarrow> nat list" where
  "tracer_pcs e = (case as_tracer e of None \<Rightarrow> [] | Some pcs \<Rightarrow> pcs)"

text \<open>
  The origin stack of an error is that of the first error in its tree that
  implements the stack interface; failing that, of the first error along its single-wrap
  chain whose reflected stack has any address. No stack is reported exactly when neither
  has one.
\<close>

theorem stackPCsFromError_choice:
  "stackPCsFromError (Some e) =
     (if tracer_pcs e \<noteq> [] then tracer_pcs e
      else case filter (\<lambda>pcs. pcs \<noteq> []) (map stackPCsFromStackTraceMethod (unwrap_chain e)) of
             [] \<Rightarrow> [] | pcs # _ \<Rightarrow> pcs)"
  by (simp add: stackPCsFromError_def tracer_pcs_def unwrap_loop_chain split: option.split)

section \<open>Hiding the library's own frames\<close>

lemma skip_count_map:
  "fs \<noteq> [] \<Longrightarrow>
   skip_count g fs n =
     (if list_all (\<lambda>f. g (Function f)) fs then None
      else Some (n + length (takeWhile (\<lambda>f. g (Function f)) fs)))"
proof (induction fs arbitrary: n)
  case (Cons f fs)
  show ?case
  proof (cases "fs = []")
    case True
    then show ?thesis by (simp add: skip_count.simps)
  next
    case False
    then show ?thesis using Cons.IH by (simp add: skip_count.simps [of g "f # fs"])
  qed
qed simp

definition user_pcs :: "(nat \<Rightarrow> Frame) \<Rightarrow> nat list \<Rightarrow> nat list" where
  "user_pcs frame_of pcs =
     (let ps = take maxStackFrames pcs;
          user = dropWhile (\<lambda>pc. SkipInternalStackFrame (Function (frame_of pc))) ps
      in if user = [] then ps else user)"

lemma trimStackPCs_map:
  "trimStackPCs (map frame_of) (Some g) pcs = Some (dropWhile (\<lambda>pc. g (Function (frame_of pc))) pcs)"
proof (cases "pcs = []")
  case False
  then have map_frames: "map frame_of pcs \<noteq> []" by simp
  let ?skip = "\<lambda>pc. g (Function (frame_of pc))"
  have tw: "takeWhile (\<lambda>f. g (Function f)) (map frame_of pcs) = map frame_of (takeWhile ?skip pcs)"
    by (simp add: takeWhile_map comp_def)
  have len: "length (takeWhile ?skip pcs) \<le> length pcs" by (rule length_takeWhile_le)
  have all: "list_all (\<lambda>f. g (Function f)) (map frame_of pcs) \<longleftrightarrow> dropWhile ?skip pcs = []"
    by (simp add: list_all_iff)
  have none: "takeWhile ?skip pcs = [] \<Longrightarrow> dropWhile ?skip pcs = pcs"
    using takeWhile_dropWhile_id [of ?skip pcs] by simp
  have count: "skip_count g (map frame_of pcs) 0
      = (if dropWhile ?skip pcs = [] then None else Some (length (takeWhile ?skip pcs)))"
    unfolding skip_count_map [OF map_frames] all tw by simp
  have drop: "drop (length (takeWhile ?skip pcs)) pcs = dropWhile ?skip pcs"
    by (simp add: dropWhile_eq_drop)
  show ?thesis
    using False len none by (simp add: trimStackPCs_def count drop del: dropWhile_eq_Nil_conv)
qed (simp add: trimStackPCs_def)

text \<open>
  When the runtime resolves each program counter to one frame, capturing a stack
  never slices out of bounds, drops exactly the leading frames that belong to slogcp, the
  runtime or log/slog, keeps the whole stack when every frame is internal, and reports the
  first remaining frame as the location.
\<close>

theorem CaptureStack_user_frames:
  "callers \<noteq> [] \<Longrightarrow>
   CaptureStack (map frame_of) header callers None =
     Some (formatPCsToStackString (map frame_of) header (user_pcs frame_of callers),
           frame_of (hd (user_pcs frame_of callers)))"
proof -
  assume c: "callers \<noteq> []"
  have ne: "take maxStackFrames callers \<noteq> []" using c by (simp add: maxStackFrames_def)
  then have "user_pcs frame_of callers \<noteq> []" by (simp add: user_pcs_def Let_def)
  then have top: "fst (Next (map frame_of (user_pcs frame_of callers)))
      = frame_of (hd (user_pcs frame_of callers))"
    by (cases "user_pcs frame_of callers") simp_all
  then show ?thesis
    using ne by (simp add: CaptureStack_def Let_def trimStackPCs_map user_pcs_def)
qed

theorem CaptureStack_user_frames_witness:
  "CaptureStack (map sample_frame) ''goroutine 1 [running]:'' [4097, 4112, 4300] None =
     Some (formatPCsToStackString (map sample_frame) ''goroutine 1 [running]:'' [4112, 4300],
           sample_frame 4112)"
proof -
  have "user_pcs sample_frame [4097, 4112, 4300] = [4112, 4300]" by code_simp
  then show ?thesis
    using CaptureStack_user_frames [of "[4097, 4112, 4300]" sample_frame] by simp
qed

end
