(* ===== verification/SlogData.thy ===== *)
theory SlogData
  imports Stack "HOL-Library.Word"
begin

text \<open>
  The data that passes through the handler: \<^verbatim>\<open>log/slog\<close> values and attributes, the Go
  values they resolve to, and the HTTP request payload. Covers \<^verbatim>\<open>json_payload.go\<close>,
  \<^verbatim>\<open>http_request.go\<close> and what they use of \<^verbatim>\<open>net\<close>, \<^verbatim>\<open>time\<close> and \<^verbatim>\<open>log/slog\<close>.

  A \<^verbatim>\<open>float64\<close> is its bit pattern. Three renderings of the Go library that the code
  only passes on are fields of the parameter \<open>golib\<close>: shortest-form floats, \<^verbatim>\<open>%v\<close>,
  and \<^verbatim>\<open>URL.String\<close>. Values are trees: two attributes that share one mutable map are
  two copies here.
\<close>

section \<open>HTTP requests of \<^verbatim>\<open>net/http\<close>\<close>

record goURL =
  url_Scheme :: gostring
  url_Host :: gostring
  url_Path :: gostring
  url_RawQuery :: gostring

text \<open>\<open>req_TLS\<close> is whether \<^verbatim>\<open>r.TLS\<close> is non-nil. Header keys are in canonical form.\<close>

record goRequest =
  req_Method :: gostring
  req_URL :: "goURL option"
  req_Header :: "gostring list gomap"
  req_Proto :: gostring
  req_ContentLength :: int
  req_RemoteAddr :: gostring
  req_Host :: gostring
  req_TLS :: bool

definition Header_Get :: "gostring list gomap \<Rightarrow> gostring \<Rightarrow> gostring" where
  "Header_Get h k = (case map_of h k of Some (v # vs) \<Rightarrow> v | _ \<Rightarrow> [])"

definition Header_Set :: "gostring \<Rightarrow> gostring \<Rightarrow> gostring list gomap \<Rightarrow> gostring list gomap" where
  "Header_Set k v h = mput k [v] h"

text \<open>\<^verbatim>\<open>net.SplitHostPort\<close>; \<open>None\<close> is an error.\<close>

definition SplitHostPort :: "gostring \<Rightarrow> (gostring \<times> gostring) option" where
  "SplitHostPort hp =
     (case LastIndex hp (CHR '':'') of
        None \<Rightarrow> None
      | Some i \<Rightarrow>
          if hd hp = CHR ''['' then
            (let rest = dropWhile (\<lambda>c. c \<noteq> CHR '']'') hp;
                 close_at = length hp - length rest
             in if rest = [] then None
                else if close_at + 1 \<noteq> i then None
                else if CHR ''['' \<in> set (drop 1 hp) then None
                else if CHR '']'' \<in> set (drop (close_at + 1) hp) then None
                else Some (drop 1 (take close_at hp), drop (i + 1) hp))
          else
            (let host = take i hp
             in if CHR '':'' \<in> set host then None
                else if CHR ''['' \<in> set hp \<or> CHR '']'' \<in> set hp then None
                else Some (host, drop (i + 1) hp)))"

section \<open>Durations and times\<close>

definition fraction :: "nat \<Rightarrow> nat \<Rightarrow> gostring" where
  "fraction prec r =
     (let ds = rev (dropWhile (\<lambda>c. c = CHR ''0'') (rev (pad_left prec (FormatUint r 10))))
      in if ds = [] then [] else ''.'' @ ds)"

text \<open>\<^verbatim>\<open>time.Duration.String\<close> on a count of nanoseconds.\<close>

definition Duration_String :: "int \<Rightarrow> gostring" where
  "Duration_String d =
     (let u = nat (abs d); sign = (if d < 0 then ''-'' else []);
          small = (\<lambda>unit prec name. FormatUint (u div unit) 10 @ fraction prec (u mod unit) @ name);
          s = u div 1000000000; secs = FormatUint (s mod 60) 10 @ fraction 9 (u mod 1000000000) @ ''s'';
          mins = s div 60; hours = mins div 60
      in sign @
         (if u = 0 then ''0s''
          else if u < 1000 then small 1 0 ''ns''
          else if u < 1000000 then small 1000 3 [CHR 0xC2, CHR 0xB5, CHR ''s'']
          else if u < 1000000000 then small 1000000 6 ''ms''
          else (if hours > 0 then FormatUint hours 10 @ ''h'' else []) @
               (if mins > 0 then FormatUint (mins mod 60) 10 @ ''m'' else []) @ secs))"

text \<open>
  \<^verbatim>\<open>time.Time\<close>: nanoseconds since 1970 in UTC and the offset of its location in
  seconds; the civil date of the proleptic Gregorian calendar.
\<close>

record gotime =
  unix_ns :: int
  zone :: int

definition zero_time :: gotime where
  "zero_time = \<lparr>unix_ns = - 62135596800000000000, zone = 0\<rparr>"

definition civil :: "int \<Rightarrow> int \<times> int \<times> int" where
  "civil days =
     (let z = days + 719468; era = z div 146097; doe = z - era * 146097;
          yoe = (doe - doe div 1460 + doe div 36524 - doe div 146096) div 365;
          doy = doe - (365 * yoe + yoe div 4 - yoe div 100);
          mp = (5 * doy + 2) div 153;
          d = doy - (153 * mp + 2) div 5 + 1;
          m = (if mp < 10 then mp + 3 else mp - 9)
      in (yoe + era * 400 + (if m \<le> 2 then 1 else 0), m, d))"

definition padded :: "nat \<Rightarrow> int \<Rightarrow> gostring" where
  "padded w i = pad_left w (FormatUint (nat i) 10)"

definition format_clock :: "int \<Rightarrow> gostring" where
  "format_clock secs =
     (case civil (secs div 86400) of (y, m, d) \<Rightarrow>
        let s = secs mod 86400
        in padded 4 y @ ''-'' @ padded 2 m @ ''-'' @ padded 2 d @ ''T'' @
           padded 2 (s div 3600) @ '':'' @ padded 2 (s div 60 mod 60) @ '':'' @ padded 2 (s mod 60))"

definition format_zone :: "int \<Rightarrow> gostring" where
  "format_zone off =
     (if off = 0 then ''Z''
      else let z = abs off div 60
           in (if off \<le> - 60 then ''-'' else ''+'') @ padded 2 (z div 60) @ '':'' @ padded 2 (z mod 60))"

definition Format_RFC3339 :: "gotime \<Rightarrow> gostring" where
  "Format_RFC3339 t =
     format_clock (unix_ns t div 1000000000 + zone t) @ format_zone (zone t)"

definition UTC_Format_RFC3339Nano :: "gotime \<Rightarrow> gostring" where
  "UTC_Format_RFC3339Nano t =
     format_clock (unix_ns t div 1000000000) @
     fraction 9 (nat (unix_ns t mod 1000000000)) @ ''Z''"

section \<open>The \<^verbatim>\<open>HTTPRequest\<close> payload\<close>

record HTTPRequest =
  Request :: "goRequest option"
  RequestMethod :: gostring
  RequestURL :: gostring
  RequestSize :: int
  Status :: int
  ResponseSize :: int
  Latency :: int
  RemoteIP :: gostring
  LocalIP :: gostring
  UserAgent :: gostring
  Referer :: gostring
  Protocol :: gostring
  CacheHit :: bool
  CacheValidatedWithOriginServer :: bool
  CacheFillBytes :: int
  CacheLookup :: bool

definition zero_HTTPRequest :: HTTPRequest where
  "zero_HTTPRequest =
     \<lparr>Request = None, RequestMethod = [], RequestURL = [], RequestSize = 0, Status = 0,
      ResponseSize = 0, Latency = 0, RemoteIP = [], LocalIP = [], UserAgent = [], Referer = [],
      Protocol = [], CacheHit = False, CacheValidatedWithOriginServer = False,
      CacheFillBytes = 0, CacheLookup = False\<rparr>"

record httpRequestPayload =
  p_RequestMethod :: gostring
  p_RequestURL :: gostring
  p_UserAgent :: gostring
  p_Referer :: gostring
  p_Protocol :: gostring
  p_RequestSize :: gostring
  p_Status :: int
  p_ResponseSize :: gostring
  p_Latency :: gostring
  p_RemoteIP :: gostring
  p_ServerIP :: gostring
  p_CacheHit :: bool
  p_CacheValidatedWithOriginServer :: bool
  p_CacheFillBytes :: gostring
  p_CacheLookup :: bool

record sourceLocation =
  sl_File :: gostring
  sl_Line :: int
  sl_Function :: gostring

section \<open>Go values and slog values\<close>

text \<open>
  A Go value in an interface. \<open>GOther\<close> is any other value: its identity and, when it is a
  \<^verbatim>\<open>fmt.Stringer\<close>, the result of its \<^verbatim>\<open>String\<close> method.
\<close>

datatype goany =
    GNil
  | GBool bool
  | GInt int
  | GUint nat
  | GFloat "64 word"
  | GString gostring
  | GMap "(gostring \<times> goany) list"
  | GStringMap "gostring gomap"
  | GError goerror
  | GHTTPRequestPtr goRequest
  | GHTTPPayload httpRequestPayload
  | GSource sourceLocation
  | GOther nat "gostring option"

record golib =
  FormatFloat_g :: "64 word \<Rightarrow> gostring"
  Sprint_v :: "goany \<Rightarrow> gostring"
  URL_String :: "goURL \<Rightarrow> gostring"

text \<open>
  \<^verbatim>\<open>slog.Value\<close>. A LogValuer is a possibly nil \<^verbatim>\<open>*HTTPRequest\<close>, the lazy
  builder of \<^verbatim>\<open>http_request.go\<close> (whose function may be nil or return nil), or a
  LogValuer of the application: its type name and the value it returns, or the panic it
  raises. A chain that never ends is represented by any chain longer than slog's limit.
\<close>

datatype slogValue =
    VAny goany
  | VBool bool
  | VDuration int
  | VFloat64 "64 word"
  | VInt64 int
  | VString gostring
  | VTime gotime
  | VUint64 nat
  | VGroup "(gostring \<times> slogValue) list"
  | VLogValuer logValuer
  and logValuer =
    LVHTTPRequest "HTTPRequest option"
  | LVBuilder "HTTPRequest option option"
  | LVReturns gostring slogValue
  | LVPanics gostring gostring

type_synonym slogAttr = "gostring \<times> slogValue"

datatype slogKind = KindAny | KindBool | KindDuration | KindFloat64 | KindInt64 | KindString
  | KindTime | KindUint64 | KindGroup | KindLogValuer

fun Kind :: "slogValue \<Rightarrow> slogKind" where
  "Kind (VAny _) = KindAny"
| "Kind (VBool _) = KindBool"
| "Kind (VDuration _) = KindDuration"
| "Kind (VFloat64 _) = KindFloat64"
| "Kind (VInt64 _) = KindInt64"
| "Kind (VString _) = KindString"
| "Kind (VTime _) = KindTime"
| "Kind (VUint64 _) = KindUint64"
| "Kind (VGroup _) = KindGroup"
| "Kind (VLogValuer _) = KindLogValuer"

section \<open>Normalising an \<^verbatim>\<open>HTTPRequest\<close>\<close>

definition copyStringIfEmpty :: "gostring \<Rightarrow> gostring \<Rightarrow> gostring" where
  "copyStringIfEmpty target value = (if target \<noteq> [] \<or> value = [] then target else value)"

definition populateRequestStrings :: "golib \<Rightarrow> HTTPRequest \<Rightarrow> goRequest \<Rightarrow> HTTPRequest" where
  "populateRequestStrings lib req r =
     req \<lparr> RequestMethod := copyStringIfEmpty (RequestMethod req) (req_Method r),
           RequestURL := (case req_URL r of None \<Rightarrow> RequestURL req
                          | Some u \<Rightarrow> copyStringIfEmpty (RequestURL req) (URL_String lib u)),
           UserAgent := copyStringIfEmpty (UserAgent req) (Header_Get (req_Header r) ''User-Agent''),
           Referer := copyStringIfEmpty (Referer req) (Header_Get (req_Header r) ''Referer''),
           Protocol := copyStringIfEmpty (Protocol req) (req_Proto r) \<rparr>"

definition populateRequestSizes :: "HTTPRequest \<Rightarrow> goRequest \<Rightarrow> HTTPRequest" where
  "populateRequestSizes req r =
     (if RequestSize req = 0 \<and> req_ContentLength r > 0
      then req \<lparr> RequestSize := req_ContentLength r \<rparr> else req)"

definition populateRemoteIP :: "HTTPRequest \<Rightarrow> gostring \<Rightarrow> HTTPRequest" where
  "populateRemoteIP req remoteAddr = req \<lparr> RemoteIP := copyStringIfEmpty (RemoteIP req) remoteAddr \<rparr>"

definition populateFromHTTPRequest :: "golib \<Rightarrow> HTTPRequest \<Rightarrow> HTTPRequest" where
  "populateFromHTTPRequest lib req =
     (case Request req of
        None \<Rightarrow> req
      | Some r \<Rightarrow>
          (populateRemoteIP (populateRequestSizes (populateRequestStrings lib req r) r)
             (req_RemoteAddr r)) \<lparr> Request := None \<rparr>)"

definition normalizeRemoteIP :: "HTTPRequest \<Rightarrow> HTTPRequest" where
  "normalizeRemoteIP req =
     (if RemoteIP req = [] then req
      else case SplitHostPort (RemoteIP req) of
             Some (host, _) \<Rightarrow> req \<lparr> RemoteIP := host \<rparr>
           | None \<Rightarrow> req)"

definition normalizePayloadSizes :: "HTTPRequest \<Rightarrow> HTTPRequest" where
  "normalizePayloadSizes req =
     (let req = (if RequestSize req < 0 then req \<lparr> RequestSize := - 1 \<rparr> else req)
      in if ResponseSize req < 0 then req \<lparr> ResponseSize := - 1 \<rparr> else req)"

text \<open>A nil pointer is skipped by the callers: here the pointer is not nil.\<close>

definition PrepareHTTPRequest :: "golib \<Rightarrow> HTTPRequest \<Rightarrow> HTTPRequest" where
  "PrepareHTTPRequest lib req =
     normalizePayloadSizes (normalizeRemoteIP (populateFromHTTPRequest lib req))"

definition HTTPRequestFromRequest :: "golib \<Rightarrow> goRequest option \<Rightarrow> HTTPRequest option" where
  "HTTPRequestFromRequest lib r =
     (case r of
        None \<Rightarrow> None
      | Some q \<Rightarrow> Some (PrepareHTTPRequest lib (zero_HTTPRequest \<lparr> Request := Some q \<rparr>)))"

text \<open>
  \<^verbatim>\<open>"%.9fs"\<close> of the duration in seconds. The code goes through a \<^verbatim>\<open>float64\<close>,
  whose error stays below half a nanosecond, so that the digits are these, for latencies up
  to \<open>2 ^ 21\<close> seconds (24 days).
\<close>

definition formatLatency :: "int \<Rightarrow> gostring" where
  "formatLatency d =
     FormatUint (nat d div 1000000000) 10 @ ''.'' @
     pad_left 9 (FormatUint (nat d mod 1000000000) 10) @ ''s''"

definition flattenHTTPRequestToMap :: "golib \<Rightarrow> HTTPRequest option \<Rightarrow> httpRequestPayload option" where
  "flattenHTTPRequestToMap lib req =
     (case req of
        None \<Rightarrow> None
      | Some q \<Rightarrow>
          (let q = (if Request q \<noteq> None then PrepareHTTPRequest lib q else q)
           in Some
             \<lparr>p_RequestMethod = RequestMethod q, p_RequestURL = RequestURL q,
              p_UserAgent = UserAgent q, p_Referer = Referer q, p_Protocol = Protocol q,
              p_RequestSize = FormatInt (RequestSize q),
              p_Status = (if Status q > 0 then Status q else 0),
              p_ResponseSize = (if ResponseSize q \<ge> 0 then FormatInt (ResponseSize q) else []),
              p_Latency = (if Latency q \<ge> 0 then formatLatency (Latency q) else []),
              p_RemoteIP = RemoteIP q, p_ServerIP = LocalIP q, p_CacheHit = CacheHit q,
              p_CacheValidatedWithOriginServer = CacheValidatedWithOriginServer q,
              p_CacheFillBytes = (if CacheFillBytes q \<ge> 0 then FormatInt (CacheFillBytes q) else []),
              p_CacheLookup = CacheLookup q\<rparr>))"

text \<open>The map of \<^verbatim>\<open>httpRequestPayloadValue\<close>, with its optional fields.\<close>

definition payload_map :: "httpRequestPayload \<Rightarrow> goany gomap" where
  "payload_map p =
     [(''requestMethod'', GString (p_RequestMethod p)),
      (''requestUrl'', GString (p_RequestURL p)),
      (''userAgent'', GString (p_UserAgent p)),
      (''referer'', GString (p_Referer p)),
      (''protocol'', GString (p_Protocol p)),
      (''requestSize'', GString (p_RequestSize p)),
      (''remoteIp'', GString (p_RemoteIP p)),
      (''serverIp'', GString (p_ServerIP p)),
      (''cacheHit'', GBool (p_CacheHit p)),
      (''cacheValidatedWithOriginServer'', GBool (p_CacheValidatedWithOriginServer p)),
      (''cacheLookup'', GBool (p_CacheLookup p))] @
     (if p_Status p > 0 then [(''status'', GInt (p_Status p))] else []) @
     (if p_ResponseSize p \<noteq> [] then [(''responseSize'', GString (p_ResponseSize p))] else []) @
     (if p_CacheFillBytes p \<noteq> [] then [(''cacheFillBytes'', GString (p_CacheFillBytes p))] else []) @
     (if p_Latency p \<noteq> [] then [(''latency'', GString (p_Latency p))] else [])"

definition httpRequestPayloadValue :: "httpRequestPayload option \<Rightarrow> slogValue" where
  "httpRequestPayloadValue payload =
     (case payload of None \<Rightarrow> VAny GNil | Some p \<Rightarrow> VAny (GMap (payload_map p)))"

definition HTTPRequest_LogValue :: "golib \<Rightarrow> HTTPRequest option \<Rightarrow> slogValue" where
  "HTTPRequest_LogValue lib req =
     (case req of
        None \<Rightarrow> VAny GNil
      | Some q \<Rightarrow> httpRequestPayloadValue (flattenHTTPRequestToMap lib (Some q)))"

definition httpRequestLogValuer_LogValue :: "golib \<Rightarrow> HTTPRequest option option \<Rightarrow> slogValue" where
  "httpRequestLogValuer_LogValue lib build =
     (case build of
        None \<Rightarrow> VAny GNil
      | Some None \<Rightarrow> VAny GNil
      | Some (Some q) \<Rightarrow> HTTPRequest_LogValue lib (Some q))"

definition HTTPRequestValue :: "HTTPRequest option option \<Rightarrow> slogValue" where
  "HTTPRequestValue build = VLogValuer (LVBuilder build)"

text \<open>The pointer found (itself possibly nil) and whether one was found.\<close>

fun httpRequestFromLogValuer :: "logValuer \<Rightarrow> HTTPRequest option option" where
  "httpRequestFromLogValuer (LVHTTPRequest p) = Some p"
| "httpRequestFromLogValuer (LVBuilder None) = None"
| "httpRequestFromLogValuer (LVBuilder (Some p)) = Some p"
| "httpRequestFromLogValuer _ = None"

definition httpRequestFromValue :: "slogValue \<Rightarrow> HTTPRequest option option" where
  "httpRequestFromValue v = (case v of VLogValuer lv \<Rightarrow> httpRequestFromLogValuer lv | _ \<Rightarrow> None)"

section \<open>Resolving values\<close>

definition maxLogValues :: nat where "maxLogValues = 100"

definition errorString :: "gostring \<Rightarrow> goerror" where
  "errorString m = GoError m ''*errors.errorString'' NoStackTrace NoUnwrap"

fun type_name :: "logValuer \<Rightarrow> gostring" where
  "type_name (LVHTTPRequest _) = ''*slogcp.HTTPRequest''"
| "type_name (LVBuilder _) = ''slogcp.httpRequestLogValuer''"
| "type_name (LVReturns t _) = t"
| "type_name (LVPanics t _) = t"

text \<open>One call of \<^verbatim>\<open>LogValue\<close>: the panic it raises or the value it returns.\<close>

fun LogValue :: "golib \<Rightarrow> logValuer \<Rightarrow> gostring + slogValue" where
  "LogValue lib (LVHTTPRequest p) = Inr (HTTPRequest_LogValue lib p)"
| "LogValue lib (LVBuilder b) = Inr (httpRequestLogValuer_LogValue lib b)"
| "LogValue lib (LVReturns t v) = Inr v"
| "LogValue lib (LVPanics t msg) = Inl msg"

fun resolve_loop :: "golib \<Rightarrow> nat \<Rightarrow> slogValue \<Rightarrow> slogValue \<Rightarrow> slogValue" where
  "resolve_loop lib 0 tooMany v = tooMany"
| "resolve_loop lib (Suc n) tooMany v =
     (case v of
        VLogValuer lv \<Rightarrow>
          (case LogValue lib lv of
             Inl msg \<Rightarrow> VAny (GError (errorString (''LogValue panicked'' @ nl @ msg)))
           | Inr v' \<Rightarrow> resolve_loop lib n tooMany v')
      | _ \<Rightarrow> v)"

text \<open>\<^verbatim>\<open>slog.Value.Resolve\<close>.\<close>

definition Resolve :: "golib \<Rightarrow> slogValue \<Rightarrow> slogValue" where
  "Resolve lib v =
     resolve_loop lib maxLogValues
       (VAny (GError (errorString (''LogValue called too many times on type '' @
          (case v of VLogValuer lv \<Rightarrow> type_name lv | _ \<Rightarrow> []))))) v"

lemma resolve_loop_not_valuer:
  "Kind tooMany \<noteq> KindLogValuer \<Longrightarrow> Kind (resolve_loop lib n tooMany v) \<noteq> KindLogValuer"
  by (induction n arbitrary: v) (auto split: slogValue.split sum.split)

lemma Resolve_not_valuer [simp]: "Kind (Resolve lib v) \<noteq> KindLogValuer"
  by (simp add: Resolve_def resolve_loop_not_valuer)

lemma Resolve_resolved: "Kind v \<noteq> KindLogValuer \<Longrightarrow> Resolve lib v = v"
  by (cases v) (simp_all add: Resolve_def maxLogValues_def numeral_eq_Suc)

lemma Resolve_idem [simp]: "Resolve lib (Resolve lib v) = Resolve lib v"
  by (simp add: Resolve_resolved)

lemma LogValue_size: "LogValue lib lv = Inr v \<Longrightarrow> size v \<le> size lv"
  by (cases lv)
     (auto simp: HTTPRequest_LogValue_def httpRequestPayloadValue_def
        httpRequestLogValuer_LogValue_def split: option.splits)

lemma resolve_loop_size: "size (resolve_loop lib n (VAny e) v) \<le> size v"
proof (induction n arbitrary: v)
  case (Suc n)
  show ?case
  proof (cases v)
    case (VLogValuer lv)
    then show ?thesis
      using Suc.IH LogValue_size [of lib lv] by (fastforce split: sum.split intro: le_trans le_SucI)
  qed auto
qed simp

lemma Resolve_size: "size (Resolve lib v) \<le> size v"
  unfolding Resolve_def by (rule resolve_loop_size)

lemma size_attr: "(k, v) \<in> set as \<Longrightarrow> size v < size (VGroup as)"
  by (induction as) auto

section \<open>JSON-ready values\<close>

fun resolveAnyValue :: "goany \<Rightarrow> goany" where
  "resolveAnyValue (GError e) = GString (Error e)"
| "resolveAnyValue (GHTTPRequestPtr _) = GNil"
| "resolveAnyValue GNil = GNil"
| "resolveAnyValue val = val"

fun resolveResolvedValue :: "slogValue \<Rightarrow> goany" where
  "resolveResolvedValue (VBool b) = GBool b"
| "resolveResolvedValue (VDuration d) = GString (Duration_String d)"
| "resolveResolvedValue (VFloat64 f) = GFloat f"
| "resolveResolvedValue (VInt64 i) = GInt i"
| "resolveResolvedValue (VString s) = GString s"
| "resolveResolvedValue (VTime t) = GString (UTC_Format_RFC3339Nano t)"
| "resolveResolvedValue (VUint64 n) = GUint n"
| "resolveResolvedValue (VAny a) = resolveAnyValue a"
| "resolveResolvedValue _ = GNil"

text \<open>
  \<^verbatim>\<open>resolveSlogValueWithRaw\<close> with \<^verbatim>\<open>resolveGroupValue\<close> and the loop of
  \<^verbatim>\<open>resolveGroupAttrs\<close> inlined. It ends because what a value resolves to is no larger
  than the value.
\<close>

function resolveSlogValueWithRaw :: "golib \<Rightarrow> slogValue \<Rightarrow> goany" where
  "resolveSlogValueWithRaw lib rv =
     (case rv of
        VGroup as \<Rightarrow>
          (let groupMap = fold (\<lambda>(k, v) m.
                 if k = [] then m
                 else let r = resolveSlogValueWithRaw lib (Resolve lib v)
                      in if r = GNil then m else mput k r m) as []
           in if groupMap = [] then GNil else GMap groupMap)
      | _ \<Rightarrow> resolveResolvedValue rv)"
  by pat_completeness auto
termination
  by (relation "measure (\<lambda>(lib, v). size v)")
     (auto intro!: le_less_trans [OF Resolve_size] dest: size_attr)

declare resolveSlogValueWithRaw.simps [simp del]

definition resolveSlogValue :: "golib \<Rightarrow> slogValue \<Rightarrow> goany" where
  "resolveSlogValue lib v = resolveSlogValueWithRaw lib (Resolve lib v)"

definition resolveGroupAttrs :: "golib \<Rightarrow> slogAttr list \<Rightarrow> goany" where
  "resolveGroupAttrs lib as = resolveSlogValueWithRaw lib (VGroup as)"

section \<open>Labels\<close>

definition boolLabel :: "bool \<Rightarrow> gostring" where
  "boolLabel value = (if value then ''true'' else ''false'')"

definition labelFromAny :: "golib \<Rightarrow> goany \<Rightarrow> gostring option" where
  "labelFromAny lib val =
     (case val of
        GOther _ (Some str) \<Rightarrow> Some str
      | GNil \<Rightarrow> None
      | GError e \<Rightarrow> Some (Error e)
      | _ \<Rightarrow> Some (Sprint_v lib val))"

fun labelValueToStringResolved :: "golib \<Rightarrow> slogValue \<Rightarrow> gostring option" where
  "labelValueToStringResolved lib (VString s) = Some s"
| "labelValueToStringResolved lib (VInt64 i) = Some (FormatInt i)"
| "labelValueToStringResolved lib (VUint64 n) = Some (FormatUint n 10)"
| "labelValueToStringResolved lib (VFloat64 f) = Some (FormatFloat_g lib f)"
| "labelValueToStringResolved lib (VBool b) = Some (boolLabel b)"
| "labelValueToStringResolved lib (VDuration d) = Some (Duration_String d)"
| "labelValueToStringResolved lib (VTime t) = Some (Format_RFC3339 t)"
| "labelValueToStringResolved lib (VAny a) = labelFromAny lib a"
| "labelValueToStringResolved lib _ = None"

definition labelValueToString :: "golib \<Rightarrow> slogValue \<Rightarrow> gostring option" where
  "labelValueToString lib v = labelValueToStringResolved lib (Resolve lib v)"

definition cloneStringMap :: "gostring gomap \<Rightarrow> gostring gomap option" where
  "cloneStringMap src = (if src = [] then None else Some src)"

definition stringMapToAny :: "gostring gomap \<Rightarrow> goany gomap option" where
  "stringMapToAny src = (if src = [] then None else Some (map (\<lambda>(k, v). (k, GString v)) src))"

section \<open>Errors\<close>

record formattedError =
  Message :: gostring
  Type :: gostring

text \<open>\<open>stack\<close> is \<^verbatim>\<open>extractAndFormatOriginStack\<close> on the running program's frames.\<close>

definition formatErrorForReporting ::
  "(goerror option \<Rightarrow> gostring) \<Rightarrow> goerror option \<Rightarrow> formattedError \<times> gostring" where
  "formatErrorForReporting stack err =
     (case err of
        None \<Rightarrow> (\<lparr>Message = ''<nil error>'', Type = []\<rparr>, [])
      | Some e \<Rightarrow> (\<lparr>Message = Error e, Type = TypeName e\<rparr>, stack err))"

end
