(* ===== verification/TraceContext.thy ===== *)
theory TraceContext
  imports ProjectID SlogData
begin

text \<open>
  Trace correlation: \<^verbatim>\<open>trace.go\<close> and \<^verbatim>\<open>context.go\<close>, over the span
  contexts of the OpenTelemetry API.

  The API is not part of the repository. Its identifiers are words of the documented
  widths; its functions are the fields of the parameter \<open>otel\<close>, and what the code relies on
  is the hypothesis \<open>otel_laws\<close>, the documented behaviour of W3C identifiers: a rendered
  identifier has 32 or 16 lower-case hex digits and reads back as itself, and the all-zero
  identifiers are invalid. \<open>w3c\<close> is a concrete implementation of them.
\<close>

section \<open>Span contexts\<close>

type_synonym TraceID = "128 word"
type_synonym SpanID = "64 word"

record SpanContext =
  TraceID_of :: TraceID
  SpanID_of :: SpanID
  TraceFlags :: "8 word"
  Remote :: bool

definition zero_SpanContext :: SpanContext where
  "zero_SpanContext = \<lparr>TraceID_of = 0, SpanID_of = 0, TraceFlags = 0, Remote = False\<rparr>"

definition FlagsSampled :: "8 word" where "FlagsSampled = 1"

record otel =
  TraceIDFromHex :: "gostring \<Rightarrow> TraceID option"
  TraceID_String :: "TraceID \<Rightarrow> gostring"
  SpanID_String :: "SpanID \<Rightarrow> gostring"
  IsValid :: "SpanContext \<Rightarrow> bool"
  IsSampled :: "SpanContext \<Rightarrow> bool"

definition lower_hex :: "char \<Rightarrow> bool" where
  "lower_hex c \<longleftrightarrow> decimal c \<or> (97 \<le> (of_char c :: nat) \<and> (of_char c :: nat) \<le> 102)"

definition otel_laws :: "otel \<Rightarrow> bool" where
  "otel_laws api \<longleftrightarrow>
     (\<forall>t. length (TraceID_String api t) = 32 \<and> list_all lower_hex (TraceID_String api t)) \<and>
     (\<forall>t. t \<noteq> 0 \<longrightarrow> TraceIDFromHex api (TraceID_String api t) = Some t) \<and>
     (\<forall>s t. TraceIDFromHex api s = Some t \<longrightarrow> t \<noteq> 0) \<and>
     (\<forall>i. length (SpanID_String api i) = 16 \<and> ParseUint (SpanID_String api i) 16 = Some (unat i)) \<and>
     (\<forall>sc. IsValid api sc \<longleftrightarrow> TraceID_of sc \<noteq> 0 \<and> SpanID_of sc \<noteq> 0) \<and>
     (\<forall>sc. IsSampled api sc \<longleftrightarrow> bit (TraceFlags sc) 0)"

section \<open>Contexts\<close>

text \<open>
  The values this package and OpenTelemetry keep in a \<^verbatim>\<open>context.Context\<close>; a nil
  context is \<open>None\<close>. A logger, a request scope and an RPC's information are known by
  their identity.
\<close>

type_synonym logger = nat

record goctx =
  ctx_span :: SpanContext
  ctx_logger :: "logger option"
  ctx_traceProject :: "gostring option"
  ctx_scope :: "nat option"
  ctx_info :: "nat option"

definition Background :: goctx where
  "Background =
     \<lparr>ctx_span = zero_SpanContext, ctx_logger = None, ctx_traceProject = None, ctx_scope = None,
      ctx_info = None\<rparr>"

text \<open>
  An OpenTelemetry text-map propagator, over a carrier of header or metadata values.
\<close>

record propagator =
  Inject :: "goctx \<Rightarrow> gostring list gomap \<Rightarrow> gostring list gomap"
  Extract :: "goctx \<Rightarrow> gostring list gomap \<Rightarrow> goctx"

definition SpanContextFromContext :: "('x goctx_scheme) option \<Rightarrow> SpanContext" where
  "SpanContextFromContext ctx = (case ctx of None \<Rightarrow> zero_SpanContext | Some c \<Rightarrow> ctx_span c)"

definition ContextWithRemoteSpanContext :: "'x goctx_scheme \<Rightarrow> SpanContext \<Rightarrow> 'x goctx_scheme" where
  "ContextWithRemoteSpanContext c sc = c \<lparr> ctx_span := sc \<lparr> Remote := True \<rparr> \<rparr>"

definition ContextWithLogger ::
  "('x goctx_scheme) option \<Rightarrow> logger option \<Rightarrow> ('x goctx_scheme) option" where
  "ContextWithLogger ctx logger =
     (case (ctx, logger) of
        (Some c, Some l) \<Rightarrow> Some (c \<lparr> ctx_logger := Some l \<rparr>)
      | _ \<Rightarrow> ctx)"

definition LoggerFromContext :: "('x goctx_scheme) option \<Rightarrow> logger option" where
  "LoggerFromContext ctx = (case ctx of None \<Rightarrow> None | Some c \<Rightarrow> ctx_logger c)"

definition Logger :: "logger \<Rightarrow> ('x goctx_scheme) option \<Rightarrow> logger" where
  "Logger default_logger ctx =
     (case LoggerFromContext ctx of Some l \<Rightarrow> l | None \<Rightarrow> default_logger)"

section \<open>Trace resources and headers\<close>

definition TraceKey :: gostring where "TraceKey = ''logging.googleapis.com/trace''"
definition SpanKey :: gostring where "SpanKey = ''logging.googleapis.com/spanId''"
definition SampledKey :: gostring where "SampledKey = ''logging.googleapis.com/trace_sampled''"

definition FormatTraceResource :: "gostring \<Rightarrow> gostring \<Rightarrow> gostring" where
  "FormatTraceResource projectID rawTraceID = ''projects/'' @ projectID @ ''/traces/'' @ rawTraceID"

text \<open>formatted name, raw trace ID, raw span ID, sampled, span context\<close>

definition ExtractTraceSpan ::
  "otel \<Rightarrow> ('x goctx_scheme) option \<Rightarrow> gostring
     \<Rightarrow> gostring \<times> gostring \<times> gostring \<times> bool \<times> SpanContext" where
  "ExtractTraceSpan api ctx projectID =
     (let sc = SpanContextFromContext ctx
      in if \<not> IsValid api sc then ([], [], [], False, sc)
         else let rawTraceID = TraceID_String api (TraceID_of sc);
                  rawSpanID = SpanID_String api (SpanID_of sc)
              in (if projectID \<noteq> [] then FormatTraceResource projectID rawTraceID else [],
                  rawTraceID, rawSpanID, IsSampled api sc, sc))"

definition SpanIDHexToDecimal :: "gostring \<Rightarrow> gostring option" where
  "SpanIDHexToDecimal spanIDHex =
     (case ParseUint spanIDHex 16 of None \<Rightarrow> None | Some ui \<Rightarrow> Some (FormatUint ui 10))"

definition BuildXCloudTraceContext :: "gostring \<Rightarrow> gostring \<Rightarrow> bool \<Rightarrow> gostring" where
  "BuildXCloudTraceContext rawTraceID spanIDHex sampled =
     (let val = (case SpanIDHexToDecimal spanIDHex of
                   Some dec \<Rightarrow> if dec \<noteq> [] then rawTraceID @ ''/'' @ dec else rawTraceID
                 | None \<Rightarrow> rawTraceID)
      in if sampled then val @ '';o=1'' else val @ '';o=0'')"

section \<open>The trace project\<close>

definition ContextWithTraceProjectID :: "goctx option \<Rightarrow> gostring \<Rightarrow> goctx" where
  "ContextWithTraceProjectID ctx projectID =
     (let c = (case ctx of None \<Rightarrow> Background | Some c \<Rightarrow> c)
      in case normalizeTraceProjectID projectID of
           Some (normalized, _) \<Rightarrow> c \<lparr> ctx_traceProject := Some normalized \<rparr>
         | None \<Rightarrow> c)"

definition TraceProjectIDFromContext :: "('x goctx_scheme) option \<Rightarrow> gostring option" where
  "TraceProjectIDFromContext ctx =
     (case ctx of
        None \<Rightarrow> None
      | Some c \<Rightarrow> (case ctx_traceProject c of Some v \<Rightarrow> if v \<noteq> [] then Some v else None | None \<Rightarrow> None))"

definition resolveTraceProject :: "environ \<Rightarrow> ('x goctx_scheme) option \<Rightarrow> gostring \<Rightarrow> gostring" where
  "resolveTraceProject env ctx projectID =
     (case normalizeTraceProjectID projectID of
        Some (normalized, _) \<Rightarrow> normalized
      | None \<Rightarrow>
          (case TraceProjectIDFromContext ctx of
             Some p \<Rightarrow> p
           | None \<Rightarrow> detectTraceProjectIDFromEnv env))"

section \<open>Trace attributes\<close>

definition buildCloudTraceAttrs :: "gostring \<Rightarrow> gostring \<Rightarrow> bool \<Rightarrow> bool \<Rightarrow> slogAttr list" where
  "buildCloudTraceAttrs fmtTrace rawSpan sampled ownsSpan =
     [(TraceKey, VString fmtTrace), (SampledKey, VBool sampled)] @
     (if ownsSpan \<and> rawSpan \<noteq> [] then [(SpanKey, VString rawSpan)] else [])"

definition buildOTelTraceAttrs :: "gostring \<Rightarrow> gostring \<Rightarrow> bool \<Rightarrow> bool \<Rightarrow> slogAttr list" where
  "buildOTelTraceAttrs rawTrace rawSpan sampled ownsSpan =
     (if rawTrace \<noteq> [] then [(''otel.trace_id'', VString rawTrace)] else []) @
     (if ownsSpan \<and> rawSpan \<noteq> [] then [(''otel.span_id'', VString rawSpan)] else []) @
     [(''otel.trace_sampled'', VBool sampled)]"

definition buildTraceAttrSet ::
  "gostring \<Rightarrow> gostring \<Rightarrow> gostring \<Rightarrow> bool \<Rightarrow> bool \<Rightarrow> slogAttr list" where
  "buildTraceAttrSet fmtTrace rawTrace rawSpan sampled ownsSpan =
     (if fmtTrace \<noteq> [] then buildCloudTraceAttrs fmtTrace rawSpan sampled ownsSpan
      else buildOTelTraceAttrs rawTrace rawSpan sampled ownsSpan)"

definition TraceAttributes ::
  "otel \<Rightarrow> environ \<Rightarrow> ('x goctx_scheme) option \<Rightarrow> gostring \<Rightarrow> slogAttr list option" where
  "TraceAttributes api env ctx projectID =
     (case ctx of
        None \<Rightarrow> None
      | Some c \<Rightarrow>
          (case ExtractTraceSpan api ctx (resolveTraceProject env ctx projectID) of
             (fmtTrace, rawTrace, rawSpan, sampled, sc) \<Rightarrow>
               if \<not> IsValid api sc then None
               else Some (buildTraceAttrSet fmtTrace rawTrace rawSpan sampled (\<not> Remote sc))))"

section \<open>A W3C implementation of the laws\<close>

definition w3c :: otel where
  "w3c =
     \<lparr>TraceIDFromHex = (\<lambda>s.
        if length s = 32 \<and> list_all lower_hex s
        then (case parse_digits 16 0 s of
                None \<Rightarrow> None
              | Some n \<Rightarrow> if (of_nat n :: TraceID) = 0 then None else Some (of_nat n))
        else None),
      TraceID_String = (\<lambda>t. pad_left 32 (FormatUint (unat t) 16)),
      SpanID_String = (\<lambda>i. pad_left 16 (FormatUint (unat i) 16)),
      IsValid = (\<lambda>sc. TraceID_of sc \<noteq> 0 \<and> SpanID_of sc \<noteq> 0),
      IsSampled = (\<lambda>sc. bit (TraceFlags sc) 0)\<rparr>"

lemma lower_hex_digit: "d < 16 \<Longrightarrow> lower_hex (digit_char d)"
  by (auto simp: lower_hex_def decimal_def digit_char_def)

lemma format_hex: "list_all lower_hex (format_digits 16 n)"
proof (induction "16::nat" n rule: format_digits.induct)
  case (1 n)
  then show ?case by (subst format_digits.simps) (auto simp: lower_hex_digit)
qed

lemma lower_hex_zero: "lower_hex (CHR ''0'')"
  by (simp add: lower_hex_def decimal_def)

lemma padded_hex: "list_all lower_hex (pad_left w (FormatUint n 16))"
  using format_hex lower_hex_zero by (auto simp: pad_left_def FormatUint_def list_all_iff)

lemma w3c_laws: "otel_laws w3c"
proof -
  have t: "length (pad_left 32 (FormatUint (unat (t :: TraceID)) 16)) = 32" for t
    using length_padded [of 16 "unat t" 31] unsigned_less [of t] by simp
  have s: "length (pad_left 16 (FormatUint (unat (i :: SpanID)) 16)) = 16" for i
    using length_padded [of 16 "unat i" 15] unsigned_less [of i] by simp
  have unat_less: "unat (i :: SpanID) < 2 ^ 64" for i
    using unsigned_less [of i] by simp
  have max: "unat (i :: SpanID) \<le> max_uint64" for i
    using unat_less [of i] by (simp add: max_uint64_def)
  have ne: "pad_left 16 (FormatUint (unat (i :: SpanID)) 16) \<noteq> []" for i
    using s [of i] by auto
  show ?thesis
    using t s max ne by (auto simp: otel_laws_def w3c_def padded_hex parse_padded ParseUint_def
        split: option.splits if_splits)
qed

lemma otel_lawsD:
  assumes "otel_laws api"
  shows "length (TraceID_String api t) = 32" and "list_all lower_hex (TraceID_String api t)"
    and "t \<noteq> 0 \<Longrightarrow> TraceIDFromHex api (TraceID_String api t) = Some t"
    and "TraceIDFromHex api s = Some t \<Longrightarrow> t \<noteq> 0"
    and "length (SpanID_String api i) = 16"
    and "ParseUint (SpanID_String api i) 16 = Some (unat i)"
    and "IsValid api sc \<longleftrightarrow> TraceID_of sc \<noteq> 0 \<and> SpanID_of sc \<noteq> 0"
    and "IsSampled api sc \<longleftrightarrow> bit (TraceFlags sc) 0"
  using assms unfolding otel_laws_def by blast+

section \<open>What the attributes say\<close>

text \<open>The fields a list of string and bool attributes sets.\<close>

definition attr_value :: "slogAttr list \<Rightarrow> gostring \<Rightarrow> slogValue option" where
  "attr_value as k = map_of as k"

lemma keys_distinct: "TraceKey \<noteq> SpanKey" "TraceKey \<noteq> SampledKey" "SpanKey \<noteq> SampledKey"
  by (simp_all add: TraceKey_def SpanKey_def SampledKey_def)

lemma otel_ids_not_Nil:
  assumes "otel_laws api"
  shows "TraceID_String api t \<noteq> []" and "SpanID_String api i \<noteq> []"
  using otel_lawsD(1) [OF assms, of t] otel_lawsD(5) [OF assms, of i] by auto

text \<open>
  C39. For a context with a valid span, the Cloud Trace attributes name the trace
  under the resolved project and say whether it is sampled, and they claim the span as the
  log entry's own only when it was not received from a remote caller; without a project the
  OpenTelemetry keys carry the raw identifiers under the same rule.
\<close>

theorem TraceAttributes_correlate:
  assumes "otel_laws api" and "IsValid api (ctx_span c)"
  shows "\<exists>as. TraceAttributes api env (Some c) projectID = Some as \<and>
    (let project = resolveTraceProject env (Some c) projectID;
         trace = TraceID_String api (TraceID_of (ctx_span c));
         span = (if Remote (ctx_span c) then None
                 else Some (VString (SpanID_String api (SpanID_of (ctx_span c)))));
         sampled = Some (VBool (bit (TraceFlags (ctx_span c)) 0))
     in if project \<noteq> []
        then attr_value as TraceKey = Some (VString (''projects/'' @ project @ ''/traces/'' @ trace)) \<and>
             attr_value as SpanKey = span \<and> attr_value as SampledKey = sampled
        else attr_value as ''otel.trace_id'' = Some (VString trace) \<and>
             attr_value as ''otel.span_id'' = span \<and> attr_value as ''otel.trace_sampled'' = sampled)"
  using assms keys_distinct keys_distinct [symmetric]
  by (auto simp: TraceAttributes_def ExtractTraceSpan_def SpanContextFromContext_def Let_def
      buildTraceAttrSet_def buildCloudTraceAttrs_def buildOTelTraceAttrs_def attr_value_def
      FormatTraceResource_def otel_ids_not_Nil otel_lawsD(8))

definition sample_span :: SpanContext where
  "sample_span = \<lparr>TraceID_of = 0x105445AA7843BC8BF206B12000100000, SpanID_of = 1,
     TraceFlags = 1, Remote = False\<rparr>"

definition sample_ctx :: goctx where
  "sample_ctx = Background \<lparr> ctx_span := sample_span \<rparr>"

theorem TraceAttributes_correlate_witness:
  "\<exists>as. TraceAttributes w3c (\<lambda>_. []) (Some sample_ctx) ''my-project'' = Some as"
proof -
  have "IsValid w3c (ctx_span sample_ctx)"
    by (simp add: w3c_def sample_ctx_def sample_span_def)
  from TraceAttributes_correlate [OF w3c_laws this, of "\<lambda>_. []" "''my-project''"] show ?thesis
    by blast
qed

text \<open>
  The trace project is chosen in the documented order: an explicit valid
  argument, then the override stored in the context, then the environment. Storing an
  override that does not normalise to a project ID leaves the context as it was.
\<close>

theorem resolveTraceProject_precedence:
  "resolveTraceProject env (Some (ContextWithTraceProjectID ctx override)) projectID =
     (case normalizeTraceProjectID projectID of
        Some (explicit, _) \<Rightarrow> explicit
      | None \<Rightarrow>
          (case normalizeTraceProjectID override of
             Some (stored, _) \<Rightarrow> stored
           | None \<Rightarrow>
               (case TraceProjectIDFromContext ctx of
                  Some inherited \<Rightarrow> inherited
                | None \<Rightarrow> detectTraceProjectIDFromEnv env)))"
proof -
  have ne: "normalizeTraceProjectID override = Some (p, ch) \<Longrightarrow> p \<noteq> []" for p ch
    by (auto simp: normalizeTraceProjectID_def validProjectID_def Let_def split: if_splits)
  show ?thesis
    by (cases "normalizeTraceProjectID projectID"; cases "normalizeTraceProjectID override"; cases ctx)
       (auto simp: resolveTraceProject_def ContextWithTraceProjectID_def
          TraceProjectIDFromContext_def Background_def Let_def dest: ne)
qed

lemma LoggerFromContext_stored [simp]:
  "LoggerFromContext (ContextWithLogger (Some c) (Some l)) = Some l"
  by (simp add: LoggerFromContext_def ContextWithLogger_def)

lemma LoggerFromContext_nil_logger [simp]:
  "LoggerFromContext (ContextWithLogger ctx None) = LoggerFromContext ctx"
  by (cases ctx) (simp_all add: ContextWithLogger_def)

end
