(* ===== verification/HttpTrace.thy ===== *)
theory HttpTrace
  imports TraceContext
begin

text \<open>
  \<^verbatim>\<open>slogcphttp/trace_context.go\<close>: reading the legacy
  \<^verbatim>\<open>X-Cloud-Trace-Context\<close> header, and the contract between a reader of the header
  and \<^verbatim>\<open>BuildXCloudTraceContext\<close>, stated as a locale that this package's reader
  satisfies here and the gRPC one in its own theory.

  The random source is the parameter \<open>rnd\<close>: the span ID that \<^verbatim>\<open>randRead\<close> produces,
  or \<open>None\<close> when it fails.
\<close>

definition XCloudTraceContextHeader :: gostring where
  "XCloudTraceContextHeader = ''X-Cloud-Trace-Context''"

record xCloudTraceParts =
  traceID :: gostring
  spanDecimal :: gostring
  options :: gostring

definition splitXCloudTraceHeader :: "gostring \<Rightarrow> xCloudTraceParts option" where
  "splitXCloudTraceHeader raw =
     (let header = TrimSpace raw
      in if header = [] then None
         else case Cut header (CHR '';'') of (idPart0, opts, _) \<Rightarrow>
           let idPart = TrimSpace idPart0
           in if idPart = [] then None
              else case Cut idPart (CHR ''/'') of (a, b, found) \<Rightarrow>
                Some (if found
                      then \<lparr>traceID = TrimSpace a, spanDecimal = TrimSpace b, options = opts\<rparr>
                      else \<lparr>traceID = idPart, spanDecimal = [], options = opts\<rparr>))"

definition parseSpanID :: "SpanID option \<Rightarrow> gostring \<Rightarrow> SpanID option" where
  "parseSpanID rnd dec =
     (let spanID = (if dec \<noteq> [] then (case ParseUint dec 10 of Some n \<Rightarrow> of_nat n | None \<Rightarrow> 0) else 0)
      in if spanID \<noteq> 0 then Some spanID else rnd)"

text \<open>The loop over the options: \<open>None\<close> when no usable \<^verbatim>\<open>o=\<close> option is present.\<close>

fun sampled_tokens :: "gostring list \<Rightarrow> bool option" where
  "sampled_tokens [] = None"
| "sampled_tokens (raw # rest) =
     (let token = TrimSpace raw
      in if token = [] then sampled_tokens rest
         else case Cut token (CHR ''='') of (key, val, hasValue) \<Rightarrow>
           if \<not> hasValue then sampled_tokens rest
           else if TrimSpace key \<noteq> ''o'' \<and> TrimSpace key \<noteq> ''O'' then sampled_tokens rest
           else let v = TrimSpace val
                in if v = [] then sampled_tokens rest
                   else case ParseUint v 10 of
                          None \<Rightarrow> sampled_tokens rest
                        | Some n \<Rightarrow> Some (n \<noteq> 0))"

definition sampledFlagFromOptions :: "gostring \<Rightarrow> bool option" where
  "sampledFlagFromOptions raw =
     (let opts = TrimSpace raw in if opts = [] then None else sampled_tokens (Split opts (CHR '';'')))"

definition traceFlagsFromOptions :: "gostring \<Rightarrow> 8 word" where
  "traceFlagsFromOptions opts =
     (if sampledFlagFromOptions opts = Some True then FlagsSampled else 0)"

definition buildSpanContext :: "otel \<Rightarrow> TraceID \<Rightarrow> SpanID \<Rightarrow> 8 word \<Rightarrow> SpanContext option" where
  "buildSpanContext api t s flags =
     (let sc = \<lparr>TraceID_of = t, SpanID_of = s, TraceFlags = flags, Remote = True\<rparr>
      in if IsValid api sc then Some sc else None)"

definition parseSingleXCloudTraceValue ::
  "otel \<Rightarrow> SpanID option \<Rightarrow> gostring \<Rightarrow> SpanContext option" where
  "parseSingleXCloudTraceValue api rnd header =
     (case splitXCloudTraceHeader header of
        None \<Rightarrow> None
      | Some parts \<Rightarrow>
          (case TraceIDFromHex api (traceID parts) of
             None \<Rightarrow> None
           | Some t \<Rightarrow>
               if t = 0 then None
               else case parseSpanID rnd (spanDecimal parts) of
                      None \<Rightarrow> None
                    | Some s \<Rightarrow> buildSpanContext api t s (traceFlagsFromOptions (options parts))))"

text \<open>The first candidate that parses; each candidate may draw its own random span ID.\<close>

fun first_candidate ::
  "otel \<Rightarrow> (nat \<Rightarrow> SpanID option) \<Rightarrow> nat \<Rightarrow> gostring list \<Rightarrow> SpanContext option" where
  "first_candidate api rnd i [] = None"
| "first_candidate api rnd i (c # cs) =
     (case parseSingleXCloudTraceValue api (rnd i) c of
        Some sc \<Rightarrow> Some sc
      | None \<Rightarrow> first_candidate api rnd (Suc i) cs)"

definition parseXCloudTrace ::
  "otel \<Rightarrow> (nat \<Rightarrow> SpanID option) \<Rightarrow> gostring \<Rightarrow> SpanContext option" where
  "parseXCloudTrace api rnd header = first_candidate api rnd 0 (Split header (CHR '',''))"

definition contextWithXCloudTrace ::
  "otel \<Rightarrow> (nat \<Rightarrow> SpanID option) \<Rightarrow> 'x goctx_scheme \<Rightarrow> gostring \<Rightarrow> ('x goctx_scheme) option" where
  "contextWithXCloudTrace api rnd ctx header =
     map_option (ContextWithRemoteSpanContext ctx) (parseXCloudTrace api rnd header)"

text \<open>The context the next handler sees behind \<^verbatim>\<open>InjectTraceContextMiddleware\<close>.\<close>

definition InjectTraceContextMiddleware ::
  "otel \<Rightarrow> (nat \<Rightarrow> SpanID option) \<Rightarrow> 'x goctx_scheme \<Rightarrow> goRequest \<Rightarrow> 'x goctx_scheme" where
  "InjectTraceContextMiddleware api rnd ctx r =
     (if IsValid api (ctx_span ctx) then ctx
      else let header = Header_Get (req_Header r) XCloudTraceContextHeader
           in if header = [] then ctx
              else case parseXCloudTrace api rnd header of
                     Some sc \<Rightarrow> ContextWithRemoteSpanContext ctx sc
                   | None \<Rightarrow> ctx)"

section \<open>The contract of a header reader\<close>

text \<open>
  A reader of the header cuts a well-formed value into its three parts, reads the
  sampling option, and accepts what \<open>build\<close> makes of the parts.
\<close>

locale xcloud_reader =
  fixes api :: otel
    and parse :: "gostring \<Rightarrow> SpanContext option"
    and flags :: "gostring \<Rightarrow> 8 word"
  assumes laws: "otel_laws api"
    and reads: "list_all lower_hex tid \<Longrightarrow> list_all decimal dec \<Longrightarrow> tid \<noteq> [] \<Longrightarrow> dec \<noteq> [] \<Longrightarrow>
      opts = ''o=1'' \<or> opts = ''o=0'' \<Longrightarrow> TraceIDFromHex api tid = Some t \<Longrightarrow>
      ParseUint dec 10 = Some n \<Longrightarrow> (of_nat n :: SpanID) \<noteq> 0 \<Longrightarrow>
      parse (tid @ ''/'' @ dec @ '';'' @ opts) =
        Some \<lparr>TraceID_of = t, SpanID_of = of_nat n, TraceFlags = flags opts, Remote = True\<rparr>"
    and flags_on: "flags ''o=1'' = 1"
    and flags_off: "flags ''o=0'' = 0"
begin

lemma reads_built:
  assumes "t \<noteq> 0" and "s \<noteq> 0"
  shows "parse (BuildXCloudTraceContext (TraceID_String api t) (SpanID_String api s) sampled)
    = Some \<lparr>TraceID_of = t, SpanID_of = s, TraceFlags = (if sampled then 1 else 0), Remote = True\<rparr>"
proof -
  let ?dec = "FormatUint (unat s) 10"
  have "unat s < 2 ^ 64" using unsigned_less [of s] by simp
  then have max: "unat s \<le> max_uint64" by (simp add: max_uint64_def)
  have dec: "list_all decimal ?dec"
    using format_decimal by (auto simp: FormatUint_def list_all_iff)
  have dec_ne: "?dec \<noteq> []" by (simp add: FormatUint_def)
  have num: "ParseUint ?dec 10 = Some (unat s)" using max by (simp add: ParseUint_FormatUint)
  have tid: "list_all lower_hex (TraceID_String api t)" "TraceID_String api t \<noteq> []"
    using otel_lawsD(2) [OF laws] otel_ids_not_Nil(1) [OF laws] by blast+
  have t: "TraceIDFromHex api (TraceID_String api t) = Some t"
    using otel_lawsD(3) [OF laws] assms(1) by blast
  have nz: "(of_nat (unat s) :: SpanID) \<noteq> 0" using assms(2) by simp
  have hex: "SpanIDHexToDecimal (SpanID_String api s) = Some ?dec"
    by (simp add: SpanIDHexToDecimal_def otel_lawsD(6) [OF laws])
  have built: "BuildXCloudTraceContext (TraceID_String api t) (SpanID_String api s) sampled
      = TraceID_String api t @ ''/'' @ ?dec @ '';'' @ (if sampled then ''o=1'' else ''o=0'')"
    by (simp add: BuildXCloudTraceContext_def hex dec_ne)
  show ?thesis
    unfolding built
    using reads [OF tid(1) dec tid(2) dec_ne _ t num nz]
    by (cases sampled) (simp_all add: flags_on flags_off)
qed

end

section \<open>This reader satisfies it\<close>

lemma lower_hex_chars:
  assumes "list_all lower_hex s"
  shows "list_all visible s" and "CHR ''/'' \<notin> set s" and "CHR '';'' \<notin> set s" and "CHR '','' \<notin> set s"
  using assms by (auto simp: list_all_iff lower_hex_def decimal_def visible_def)

lemma decimal_chars:
  assumes "list_all decimal s"
  shows "list_all visible s" and "CHR ''/'' \<notin> set s" and "CHR '';'' \<notin> set s" and "CHR '','' \<notin> set s"
  using assms by (auto simp: list_all_iff decimal_def visible_def)

lemma visible_built:
  "visible (CHR ''/'')" "visible (CHR '';'')" "visible (CHR ''o'')" "visible (CHR ''='')"
  "visible (CHR ''0'')" "visible (CHR ''1'')"
  by (simp_all add: visible_def)

lemma split_built:
  assumes "list_all lower_hex tid" and "list_all decimal dec" and "tid \<noteq> []" and "dec \<noteq> []"
    and "opts = ''o=1'' \<or> opts = ''o=0''"
  shows "splitXCloudTraceHeader (tid @ ''/'' @ dec @ '';'' @ opts)
    = Some \<lparr>traceID = tid, spanDecimal = dec, options = opts\<rparr>"
proof -
  note tid = lower_hex_chars [OF assms(1)] and dec = decimal_chars [OF assms(2)]
  have vis: "list_all visible (tid @ ''/'' @ dec @ '';'' @ opts)"
    using tid(1) dec(1) assms(5) by (auto simp: visible_built)
  have vis2: "list_all visible (tid @ ''/'' @ dec)"
    using tid(1) dec(1) by (simp add: visible_built)
  have semi: "CHR '';'' \<notin> set (tid @ ''/'' @ dec)" using tid(3) dec(3) by simp
  have cut: "Cut (tid @ ''/'' @ dec @ '';'' @ opts) (CHR '';'') = (tid @ ''/'' @ dec, opts, True)"
    using Cut_append [OF semi, of opts] by simp
  have cut2: "Cut (tid @ ''/'' @ dec) (CHR ''/'') = (tid, dec, True)"
    using Cut_append [OF tid(2), of dec] by simp
  show ?thesis
    unfolding splitXCloudTraceHeader_def TrimSpace_all_visible [OF vis] Let_def cut
    by (simp add: TrimSpace_all_visible [OF vis2, simplified] cut2 [simplified] tid(1) dec(1) assms(3))
qed

lemma flags_built: "traceFlagsFromOptions ''o=1'' = 1" "traceFlagsFromOptions ''o=0'' = 0"
  by (simp_all add: traceFlagsFromOptions_def FlagsSampled_def sampledFlagFromOptions_def
      TrimSpace_all_visible visible_def Cut_def ParseUint_def digit_value_def max_uint64_def Let_def)

lemma parseSpanID_decimal:
  "dec \<noteq> [] \<Longrightarrow> ParseUint dec 10 = Some n \<Longrightarrow> (of_nat n :: SpanID) \<noteq> 0 \<Longrightarrow>
   parseSpanID rnd dec = Some (of_nat n)"
  by (simp add: parseSpanID_def)

lemma http_reads:
  assumes "otel_laws api" and "list_all lower_hex tid" and "list_all decimal dec" and "tid \<noteq> []"
    and "dec \<noteq> []" and "opts = ''o=1'' \<or> opts = ''o=0''" and "TraceIDFromHex api tid = Some t"
    and "ParseUint dec 10 = Some n" and "(of_nat n :: SpanID) \<noteq> 0"
  shows "parseXCloudTrace api rnd (tid @ ''/'' @ dec @ '';'' @ opts) =
    Some \<lparr>TraceID_of = t, SpanID_of = of_nat n, TraceFlags = traceFlagsFromOptions opts, Remote = True\<rparr>"
proof -
  have "CHR '','' \<notin> set (tid @ ''/'' @ dec @ '';'' @ opts)"
    using lower_hex_chars(4) [OF assms(2)] decimal_chars(4) [OF assms(3)] assms(6) by auto
  then have one: "Split (tid @ ''/'' @ dec @ '';'' @ opts) (CHR '','') = [tid @ ''/'' @ dec @ '';'' @ opts]"
    by (rule Split_no_sep)
  have t: "t \<noteq> 0" using otel_lawsD(4) [OF assms(1)] assms(7) by blast
  have "parseSingleXCloudTraceValue api (rnd 0) (tid @ ''/'' @ dec @ '';'' @ opts) =
    Some \<lparr>TraceID_of = t, SpanID_of = of_nat n, TraceFlags = traceFlagsFromOptions opts, Remote = True\<rparr>"
    unfolding parseSingleXCloudTraceValue_def split_built [OF assms(2-6)]
    using t assms(5,7-9)
    by (simp add: parseSpanID_decimal buildSpanContext_def Let_def otel_lawsD(7) [OF assms(1)])
  then show ?thesis unfolding parseXCloudTrace_def one by simp
qed

lemma http_xcloud_reader:
  "otel_laws api \<Longrightarrow> xcloud_reader api (parseXCloudTrace api rnd) traceFlagsFromOptions"
  by unfold_locales (simp_all add: http_reads [simplified] flags_built)

interpretation http_header: xcloud_reader w3c "parseXCloudTrace w3c rnd" traceFlagsFromOptions
  for rnd
  by (rule http_xcloud_reader [OF w3c_laws])

text \<open>
  The legacy header round-trips: what \<^verbatim>\<open>BuildXCloudTraceContext\<close> writes for
  a valid trace and span, this package's parser reads back as the same identifiers and the
  same sampling decision, marked remote, without drawing a random span ID.
\<close>

theorem http_xcloud_roundtrip:
  assumes "otel_laws api" and "t \<noteq> 0" and "s \<noteq> 0"
  shows "parseXCloudTrace api rnd
      (BuildXCloudTraceContext (TraceID_String api t) (SpanID_String api s) sampled)
    = Some \<lparr>TraceID_of = t, SpanID_of = s, TraceFlags = (if sampled then 1 else 0), Remote = True\<rparr>"
  using xcloud_reader.reads_built [OF http_xcloud_reader [OF assms(1)] assms(2,3)] .

theorem http_xcloud_roundtrip_witness:
  "parseXCloudTrace w3c (\<lambda>_. None)
      (BuildXCloudTraceContext (TraceID_String w3c 0x105445AA7843BC8BF206B12000100000)
        (SpanID_String w3c 0x4A) True)
    = Some \<lparr>TraceID_of = 0x105445AA7843BC8BF206B12000100000, SpanID_of = 0x4A, TraceFlags = 1,
        Remote = True\<rparr>"
  using http_xcloud_roundtrip [OF w3c_laws, of "0x105445AA7843BC8BF206B12000100000" "0x4A" "\<lambda>_. None" True]
  by simp

text \<open>Whatever the header, only a usable remote span context comes out of it.\<close>

lemma parseSingle_valid:
  "parseSingleXCloudTraceValue api r h = Some sc \<Longrightarrow> IsValid api sc \<and> Remote sc"
  by (auto simp: parseSingleXCloudTraceValue_def buildSpanContext_def Let_def
      split: option.splits if_splits)

lemma first_candidate_valid:
  "first_candidate api rnd i cs = Some sc \<Longrightarrow> IsValid api sc \<and> Remote sc"
  by (induction api rnd i cs rule: first_candidate.induct)
     (auto split: option.splits dest: parseSingle_valid)

lemma parseXCloudTrace_valid: "parseXCloudTrace api rnd h = Some sc \<Longrightarrow> IsValid api sc \<and> Remote sc"
  unfolding parseXCloudTrace_def by (rule first_candidate_valid)

end
