(* ===== verification/PayloadFacts.thy ===== *)
theory PayloadFacts
  imports SlogData
begin

text \<open>
  What the payload code of \<^verbatim>\<open>json_payload.go\<close> and \<^verbatim>\<open>http_request.go\<close>
  guarantees: how a group becomes a map, that preparing a request twice is preparing it
  once, which optional fields an \<^verbatim>\<open>httpRequest\<close> payload carries, and that the
  latency string keeps the duration exactly.
\<close>

section \<open>Groups become maps\<close>

definition put_resolved :: "golib \<Rightarrow> slogAttr \<Rightarrow> goany gomap \<Rightarrow> goany gomap" where
  "put_resolved lib a m =
     (if fst a = [] \<or> resolveSlogValue lib (snd a) = GNil then m
      else mput (fst a) (resolveSlogValue lib (snd a)) m)"

lemma resolveGroupAttrs_fold:
  "resolveGroupAttrs lib as =
     (let m = fold (put_resolved lib) as [] in if m = [] then GNil else GMap m)"
proof -
  have "(\<lambda>(k, v) m. if k = [] then m
           else let r = resolveSlogValueWithRaw lib (Resolve lib v)
                in if r = GNil then m else mput k r m) = put_resolved lib"
    by (auto simp: fun_eq_iff put_resolved_def resolveSlogValue_def Let_def)
  then show ?thesis
    by (simp add: resolveGroupAttrs_def resolveSlogValueWithRaw.simps [of lib "VGroup as"])
qed

text \<open>The last attribute named \<open>k\<close> that resolves to something.\<close>

definition group_lookup :: "golib \<Rightarrow> slogAttr list \<Rightarrow> gostring \<Rightarrow> goany option" where
  "group_lookup lib as k =
     (if k = [] then None
      else find (\<lambda>r. r \<noteq> GNil) (rev (map (resolveSlogValue lib \<circ> snd) (filter (\<lambda>a. fst a = k) as))))"

definition map_entries :: "goany \<Rightarrow> gostring \<Rightarrow> goany option" where
  "map_entries v = (case v of GMap m \<Rightarrow> map_of m | _ \<Rightarrow> Map.empty)"

lemma fold_put_resolved: "map_of (fold (put_resolved lib) as []) = group_lookup lib as"
proof (induction as rule: rev_induct)
  case Nil
  then show ?case by (simp add: group_lookup_def fun_eq_iff)
next
  case (snoc a as)
  then show ?case
    by (auto simp: put_resolved_def group_lookup_def fun_eq_iff)
qed

text \<open>
  A group resolves to the map that gives each non-empty key the value of its last
  attribute that resolves to something: empty keys and nil values are left out, and a group
  with nothing left resolves to nil rather than to an empty map.
\<close>

theorem resolveGroupAttrs_lookup:
  "map_entries (resolveGroupAttrs lib as) = group_lookup lib as \<and>
   resolveGroupAttrs lib as \<noteq> GMap []"
proof -
  have "map_entries (resolveGroupAttrs lib as) = map_of (fold (put_resolved lib) as [])"
    by (simp add: resolveGroupAttrs_fold Let_def map_entries_def)
  then show ?thesis by (simp add: fold_put_resolved resolveGroupAttrs_fold Let_def)
qed

section \<open>Preparing a request\<close>

lemma populate_Request [simp]: "Request (populateFromHTTPRequest lib req) = None"
  by (simp add: populateFromHTTPRequest_def split: option.split)

lemma normalizeRemoteIP_Request [simp]: "Request (normalizeRemoteIP req) = Request req"
  by (simp add: normalizeRemoteIP_def split: option.split)

lemma normalizePayloadSizes_Request [simp]: "Request (normalizePayloadSizes req) = Request req"
  by (simp add: normalizePayloadSizes_def Let_def)

lemma populate_done: "Request req = None \<Longrightarrow> populateFromHTTPRequest lib req = req"
  by (simp add: populateFromHTTPRequest_def)

lemma PrepareHTTPRequest_Request [simp]: "Request (PrepareHTTPRequest lib req) = None"
  by (simp add: PrepareHTTPRequest_def)

lemma normalizePayloadSizes_RemoteIP [simp]: "RemoteIP (normalizePayloadSizes req) = RemoteIP req"
  by (simp add: normalizePayloadSizes_def Let_def)

lemma normalizePayloadSizes_idem: "normalizePayloadSizes (normalizePayloadSizes req) = normalizePayloadSizes req"
  by (simp add: normalizePayloadSizes_def Let_def)

lemma normalizeRemoteIP_stuck: "SplitHostPort (RemoteIP req) = None \<Longrightarrow> normalizeRemoteIP req = req"
  by (simp add: normalizeRemoteIP_def)

lemma LastIndex_Some:
  assumes "LastIndex s c = Some i"
  shows "i < length s" and "c \<notin> set (drop (Suc i) s)" and "s ! i = c"
proof -
  let ?n = "length (takeWhile (\<lambda>x. x \<noteq> c) (rev s))"
  have c: "c \<in> set s" and i: "i = length s - 1 - ?n"
    using assms by (auto simp: LastIndex_def split: if_splits)
  then have ne: "s \<noteq> []" by auto
  have n: "?n < length s"
  proof -
    have "takeWhile (\<lambda>x. x \<noteq> c) (rev s) \<noteq> rev s"
      using c by (metis (full_types) set_rev set_takeWhileD)
    then show ?thesis
      by (metis length_rev length_takeWhile_le le_neq_implies_less takeWhile_eq_take take_all_iff
          order_refl)
  qed
  show "i < length s" using i n by simp
  have rev_drop: "rev (drop (Suc i) s) = take ?n (rev s)"
    using i n by (simp add: rev_drop Suc_diff_Suc)
  show "c \<notin> set (drop (Suc i) s)"
    by (metis (mono_tags) rev_drop set_rev set_takeWhileD takeWhile_eq_take)
  have "(rev s) ! ?n = c" using n nth_length_takeWhile [of "\<lambda>x. x \<noteq> c" "rev s"] by simp
  then show "s ! i = c" using i n by (simp add: rev_nth)
qed

lemma no_colon_no_port: "CHR '':'' \<notin> set s \<Longrightarrow> SplitHostPort s = None"
  by (simp add: SplitHostPort_def LastIndex_def)

lemma unbracketed_host:
  assumes "SplitHostPort hp = Some (host, port)" and "hd hp \<noteq> CHR ''[''"
  shows "CHR '':'' \<notin> set host"
  using assms by (auto simp: SplitHostPort_def Let_def split: option.splits if_splits)

text \<open>
  An address the standard library produces: a name or IPv4 address without brackets, or a
  bracketed IPv6 address, which has at least two colons.
\<close>

definition plausible_address :: "gostring \<Rightarrow> bool" where
  "plausible_address a \<longleftrightarrow>
     (a = [] \<or> hd a \<noteq> CHR ''['') \<or> 2 \<le> count_list (takeWhile (\<lambda>c. c \<noteq> CHR '']'') a) (CHR '':'')"

lemma many_colons_no_port:
  assumes "2 \<le> count_list host (CHR '':'')" and "CHR ''['' \<notin> set host"
  shows "SplitHostPort host = None"
proof (cases "LastIndex host (CHR '':'')")
  case (Some i)
  have "host \<noteq> []" using assms(1) by auto
  then have hd: "hd host \<noteq> CHR ''[''" using assms(2) by (metis hd_in_set)
  have last: "count_list (drop (Suc i) host) (CHR '':'') = 0"
    using LastIndex_Some(2) [OF Some] by (simp add: count_list_0_iff)
  have "count_list host (CHR '':'')
      = count_list (take i host @ host ! i # drop (Suc i) host) (CHR '':'')"
    using LastIndex_Some(1) [OF Some] by (simp flip: id_take_nth_drop)
  then have "count_list host (CHR '':'') \<le> count_list (take i host) (CHR '':'') + 1"
    using last by simp
  then have "count_list (take i host) (CHR '':'') \<noteq> 0" using assms(1) by arith
  then have "CHR '':'' \<in> set (take i host)" by (simp add: count_list_0_iff)
  then show ?thesis using Some hd by (simp add: SplitHostPort_def Let_def)
qed (simp add: SplitHostPort_def)

lemma bracketed_host:
  assumes "SplitHostPort hp = Some (host, port)" and "hd hp = CHR ''[''"
  shows "host = drop 1 (takeWhile (\<lambda>c. c \<noteq> CHR '']'') hp)" and "CHR ''['' \<notin> set host"
proof -
  have len: "length hp - length (dropWhile (\<lambda>c. c \<noteq> CHR '']'') hp)
      = length (takeWhile (\<lambda>c. c \<noteq> CHR '']'') hp)"
    by (metis add_diff_cancel_right' length_append takeWhile_dropWhile_id)
  have host: "host = drop 1 (take (length (takeWhile (\<lambda>c. c \<noteq> CHR '']'') hp)) hp)"
    and open_: "CHR ''['' \<notin> set (drop 1 hp)"
    using assms by (simp_all add: SplitHostPort_def Let_def len split: option.splits if_splits)
  from host show h: "host = drop 1 (takeWhile (\<lambda>c. c \<noteq> CHR '']'') hp)"
    by (simp only: takeWhile_eq_take [symmetric])
  have "set host \<subseteq> set (drop 1 hp)"
    unfolding host by (simp add: drop_take set_take_subset)
  then show "CHR ''['' \<notin> set host" using open_ by blast
qed

lemma SplitHostPort_host_stuck:
  assumes hp: "SplitHostPort hp = Some (host, port)" and "plausible_address hp"
  shows "SplitHostPort host = None"
proof (cases "hd hp = CHR ''[''")
  case False
  then show ?thesis using no_colon_no_port unbracketed_host [OF hp] by blast
next
  case True
  have "hp \<noteq> []" using hp by (auto simp: SplitHostPort_def LastIndex_def)
  then obtain t where t: "hp = CHR ''['' # t" using True by (cases hp) auto
  have "2 \<le> count_list (takeWhile (\<lambda>c. c \<noteq> CHR '']'') hp) (CHR '':'')"
    using assms(2) True t by (simp add: plausible_address_def)
  then have "2 \<le> count_list host (CHR '':'')"
    unfolding bracketed_host(1) [OF hp True] by (simp add: t)
  then show ?thesis using bracketed_host(2) [OF hp True] by (rule many_colons_no_port)
qed

lemma normalizeRemoteIP_idem:
  assumes "plausible_address (RemoteIP req)"
  shows "normalizeRemoteIP (normalizeRemoteIP req) = normalizeRemoteIP req"
proof (cases "RemoteIP req = [] \<or> SplitHostPort (RemoteIP req) = None")
  case True
  then show ?thesis by (auto simp: normalizeRemoteIP_def)
next
  case False
  then obtain host port where hp: "SplitHostPort (RemoteIP req) = Some (host, port)" by auto
  then have "normalizeRemoteIP req = req \<lparr> RemoteIP := host \<rparr>"
    using False by (simp add: normalizeRemoteIP_def)
  then show ?thesis
    using SplitHostPort_host_stuck [OF hp assms] by (simp add: normalizeRemoteIP_stuck)
qed

lemma normalize_swap:
  "normalizeRemoteIP (normalizePayloadSizes req) = normalizePayloadSizes (normalizeRemoteIP req)"
  by (simp add: normalizeRemoteIP_def normalizePayloadSizes_def Let_def split: option.split)

text \<open>
  Preparing a request is idempotent, as its documentation says, whenever the remote
  address it starts from is a name, an IPv4 address or a bracketed IPv6 address, with or
  without a port: the second call finds the request detached, the port gone and negative
  sizes already at -1.
\<close>

theorem PrepareHTTPRequest_idempotent:
  "plausible_address (RemoteIP (populateFromHTTPRequest lib req)) \<Longrightarrow>
   PrepareHTTPRequest lib (PrepareHTTPRequest lib req) = PrepareHTTPRequest lib req"
  by (simp add: PrepareHTTPRequest_def populate_done normalize_swap normalizeRemoteIP_idem
      normalizePayloadSizes_idem)

text \<open>
  The condition on the address is needed: a bracketed host that is itself a host with a port loses
  one port at each call.
\<close>

lemma bracketed_port_stripped_twice:
  "SplitHostPort ''[a:1]:2'' = Some (''a:1'', ''2'') \<and> SplitHostPort ''a:1'' = Some (''a'', ''1'')"
  by code_simp

definition demo_lib :: golib where
  "demo_lib =
     \<lparr>FormatFloat_g = (\<lambda>_. ''0''), Sprint_v = (\<lambda>_. ''?''),
      URL_String = (\<lambda>u. url_Scheme u @ ''://'' @ url_Host u @ url_Path u)\<rparr>"

definition demo_request :: HTTPRequest where
  "demo_request = zero_HTTPRequest \<lparr> RemoteIP := ''[2001:db8::1]:443'', ResponseSize := - 7 \<rparr>"

theorem PrepareHTTPRequest_idempotent_witness:
  "PrepareHTTPRequest demo_lib (PrepareHTTPRequest demo_lib demo_request)
     = PrepareHTTPRequest demo_lib demo_request \<and>
   RemoteIP (PrepareHTTPRequest demo_lib demo_request) = ''2001:db8::1'' \<and>
   ResponseSize (PrepareHTTPRequest demo_lib demo_request) = - 1"
proof -
  have p: "plausible_address (RemoteIP (populateFromHTTPRequest demo_lib demo_request))"
    by code_simp
  have "RemoteIP (PrepareHTTPRequest demo_lib demo_request) = ''2001:db8::1'' \<and>
      ResponseSize (PrepareHTTPRequest demo_lib demo_request) = - 1"
    by code_simp
  with PrepareHTTPRequest_idempotent [OF p] show ?thesis by blast
qed

section \<open>The emitted payload\<close>

lemma prepared_fields:
  "Status (PrepareHTTPRequest lib q) = Status q"
  "Latency (PrepareHTTPRequest lib q) = Latency q"
  "CacheFillBytes (PrepareHTTPRequest lib q) = CacheFillBytes q"
  "0 \<le> ResponseSize (PrepareHTTPRequest lib q) \<longleftrightarrow> 0 \<le> ResponseSize q"
  "0 \<le> ResponseSize q \<Longrightarrow> ResponseSize (PrepareHTTPRequest lib q) = ResponseSize q"
  by (simp_all add: PrepareHTTPRequest_def normalizePayloadSizes_def normalizeRemoteIP_def
      populateFromHTTPRequest_def populateRemoteIP_def populateRequestSizes_def
      populateRequestStrings_def Let_def split: option.split)

lemma formatLatency_not_Nil [simp]: "formatLatency d \<noteq> []"
  by (simp add: formatLatency_def)

definition logged_fields :: "golib \<Rightarrow> HTTPRequest \<Rightarrow> gostring \<Rightarrow> goany option" where
  "logged_fields lib q =
     (case HTTPRequest_LogValue lib (Some q) of VAny v \<Rightarrow> map_entries v | _ \<Rightarrow> Map.empty)"

lemma payload_map_optional:
  "map_of (payload_map p) ''status'' = (if p_Status p > 0 then Some (GInt (p_Status p)) else None)"
  "map_of (payload_map p) ''responseSize''
     = (if p_ResponseSize p \<noteq> [] then Some (GString (p_ResponseSize p)) else None)"
  "map_of (payload_map p) ''latency'' = (if p_Latency p \<noteq> [] then Some (GString (p_Latency p)) else None)"
  "map_of (payload_map p) ''cacheFillBytes''
     = (if p_CacheFillBytes p \<noteq> [] then Some (GString (p_CacheFillBytes p)) else None)"
  by (simp_all add: payload_map_def)

lemma logged_fields_flatten:
  "flattenHTTPRequestToMap lib (Some q) = Some p \<Longrightarrow> logged_fields lib q k = map_of (payload_map p) k"
  by (simp add: logged_fields_def HTTPRequest_LogValue_def httpRequestPayloadValue_def map_entries_def)

lemma optional_fields:
  "logged_fields lib q ''status'' = (if Status q > 0 then Some (GInt (Status q)) else None)
   \<and> logged_fields lib q ''responseSize''
       = (if ResponseSize q \<ge> 0 then Some (GString (FormatInt (ResponseSize q))) else None)
   \<and> logged_fields lib q ''latency''
       = (if Latency q \<ge> 0 then Some (GString (formatLatency (Latency q))) else None)
   \<and> logged_fields lib q ''cacheFillBytes''
       = (if CacheFillBytes q \<ge> 0 then Some (GString (FormatInt (CacheFillBytes q))) else None)"
proof -
  obtain p where p: "flattenHTTPRequestToMap lib (Some q) = Some p"
    by (simp add: flattenHTTPRequestToMap_def Let_def)
  show ?thesis
    unfolding logged_fields_flatten [OF p] payload_map_optional
    using p by (auto simp: flattenHTTPRequestToMap_def Let_def prepared_fields split: if_splits)
qed

text \<open>
  The optional fields of an \<^verbatim>\<open>httpRequest\<close> payload are present exactly when they
  are known: a status above zero, a response size, latency or cache fill that is not negative.
  The negative sentinels the middleware sets while a request is in flight never reach the
  log entry.
\<close>

theorem httpRequest_optional_fields:
  "logged_fields lib q ''status'' = (if Status q > 0 then Some (GInt (Status q)) else None)
   \<and> logged_fields lib q ''responseSize''
       = (if ResponseSize q \<ge> 0 then Some (GString (FormatInt (ResponseSize q))) else None)
   \<and> logged_fields lib q ''latency''
       = (if Latency q \<ge> 0 then Some (GString (formatLatency (Latency q))) else None)
   \<and> logged_fields lib q ''cacheFillBytes''
       = (if CacheFillBytes q \<ge> 0 then Some (GString (FormatInt (CacheFillBytes q))) else None)"
  by (rule optional_fields)

section \<open>Latency strings\<close>

lemma point_not_in_digits: "CHR ''.'' \<notin> set (FormatUint n 10)"
  using format_decimal by (fastforce simp: FormatUint_def decimal_def)

text \<open>Reading a latency back: the digits before and after the point, without the unit.\<close>

definition parse_latency :: "gostring \<Rightarrow> int option" where
  "parse_latency s =
     (let (whole, frac, found) = Cut s (CHR ''.'')
      in if \<not> found \<or> length frac \<noteq> 10 \<or> last frac \<noteq> CHR ''s'' then None
         else case (parse_digits 10 0 whole, parse_digits 10 0 (butlast frac)) of
                (Some a, Some b) \<Rightarrow> Some (int (a * 1000000000 + b))
              | _ \<Rightarrow> None)"

text \<open>
  The latency string has exactly nine decimals and loses nothing: reading it back
  gives the duration in nanoseconds.
\<close>

theorem formatLatency_roundtrip:
  "0 \<le> d \<Longrightarrow> parse_latency (formatLatency d) = Some d"
proof -
  assume d: "0 \<le> d"
  let ?a = "FormatUint (nat d div 1000000000) 10"
  let ?b = "pad_left 9 (FormatUint (nat d mod 1000000000) 10)"
  have split: "Cut (formatLatency d) (CHR ''.'') = (?a, ?b @ ''s'', True)"
    using point_not_in_digits by (simp add: formatLatency_def)
  have len: "length ?b = 9"
    using length_padded [of 10 "nat d mod 1000000000" 8] by simp
  have "parse_latency (formatLatency d) =
      Some (int (nat d div 1000000000 * 1000000000 + nat d mod 1000000000))"
    by (simp add: parse_latency_def split len parse_padded parse_formatted)
  also have "nat d div 1000000000 * 1000000000 + nat d mod 1000000000 = nat d"
    by (rule div_mult_mod_eq)
  finally show ?thesis using d by simp
qed

theorem formatLatency_roundtrip_witness:
  "formatLatency 1500000042 = ''1.500000042s'' \<and>
   parse_latency ''1.500000042s'' = Some 1500000042"
proof -
  have "formatLatency 1500000042 = ''1.500000042s''"
    by (simp add: formatLatency_def pad_left_def FormatUint_def format_digits.simps digit_char_def)
       code_simp
  then show ?thesis using formatLatency_roundtrip [of 1500000042] by simp
qed

end
