(* ===== verification/HttpScope.thy ===== *)
theory HttpScope
  imports HttpTrace RuntimeInfo PayloadFacts
begin

text \<open>
  The HTTP instrumentation of \<^verbatim>\<open>slogcphttp\<close>: its configuration
  (\<^verbatim>\<open>options.go\<close>), the request scope and the response recorder
  (\<^verbatim>\<open>middleware.go\<close>), and the request payload built from a scope
  (\<^verbatim>\<open>http_request.go\<close>).

  A clock reading is a number of nanoseconds and an argument of the operation that takes it.
  The callbacks of the application are functions of the request and the scope.
  \<^verbatim>\<open>netip.ParseAddr\<close> with \<^verbatim>\<open>String\<close> is the argument \<open>parse_addr\<close>: the canonical
  form of an address, \<open>None\<close> for what is not one.
\<close>

section \<open>Data\<close>

datatype ProxyMode = ProxyModeNone | ProxyModeGCLB

record RequestScope =
  sc_start :: int
  sc_method :: gostring
  sc_route :: gostring
  sc_target :: gostring
  sc_query :: gostring
  sc_scheme :: gostring
  sc_host :: gostring
  sc_clientIP :: gostring
  sc_peerPort :: int
  sc_outbound :: bool
  sc_userAgent :: gostring
  sc_requestSize :: int
  sc_status :: int
  sc_respBytes :: int
  sc_latencyNS :: int

type_synonym AttrEnricher = "goRequest \<Rightarrow> RequestScope \<Rightarrow> slogAttr list"
type_synonym AttrTransformer = "slogAttr list \<Rightarrow> goRequest \<Rightarrow> RequestScope \<Rightarrow> slogAttr list"

record http_config =
  hc_logger :: logger
  hc_projectID :: gostring
  hc_enableOTel :: bool
  hc_tracerProvider :: "nat option"
  hc_propagators :: "propagator option"
  hc_propagatorsSet :: bool
  hc_propagateTrace :: bool
  hc_publicEndpoint :: bool
  hc_trustRemoteTraceForLogs :: bool
  hc_trustRemoteTraceForLogsSet :: bool
  hc_spanNameFormatter :: "nat option"
  hc_filters :: "nat list"
  hc_attrEnrichers :: "AttrEnricher list"
  hc_attrTransformers :: "AttrTransformer list"
  hc_routeGetter :: "(goRequest \<Rightarrow> gostring) option"
  hc_includeClientIP :: bool
  hc_includeQuery :: bool
  hc_includeUserAgent :: bool
  hc_injectLegacyXCTC :: bool
  hc_includeHTTPRequestAttr :: bool
  hc_proxyMode :: ProxyMode
  hc_xffClientIPFromRight :: int
  hc_trustXForwardedProto :: bool
  hc_trustXForwardedProtoSet :: bool

type_synonym HTTPOption = "http_config \<Rightarrow> http_config"

section \<open>Options\<close>

definition http_defaultConfig :: "logger \<Rightarrow> http_config" where
  "http_defaultConfig default_logger =
     \<lparr>hc_logger = default_logger, hc_projectID = [], hc_enableOTel = True, hc_tracerProvider = None,
      hc_propagators = None, hc_propagatorsSet = False, hc_propagateTrace = True,
      hc_publicEndpoint = False, hc_trustRemoteTraceForLogs = False,
      hc_trustRemoteTraceForLogsSet = False, hc_spanNameFormatter = None, hc_filters = [],
      hc_attrEnrichers = [], hc_attrTransformers = [], hc_routeGetter = None,
      hc_includeClientIP = True, hc_includeQuery = False, hc_includeUserAgent = False,
      hc_injectLegacyXCTC = False, hc_includeHTTPRequestAttr = False,
      hc_proxyMode = ProxyModeNone, hc_xffClientIPFromRight = 2, hc_trustXForwardedProto = False,
      hc_trustXForwardedProtoSet = False\<rparr>"

definition applyTrustRemoteTraceEnv :: "environ \<Rightarrow> http_config \<Rightarrow> http_config" where
  "applyTrustRemoteTraceEnv env cfg =
     (if hc_trustRemoteTraceForLogsSet cfg then cfg
      else let raw = TrimSpace (env ''SLOGCP_TRUST_REMOTE_TRACE'')
           in if raw = [] then cfg
              else case ParseBool raw of
                     None \<Rightarrow> cfg
                   | Some enabled \<Rightarrow> cfg \<lparr> hc_trustRemoteTraceForLogs := enabled \<rparr>)"

definition http_applyOptions :: "environ \<Rightarrow> logger \<Rightarrow> HTTPOption option list \<Rightarrow> http_config" where
  "http_applyOptions env default_logger opts =
     applyTrustRemoteTraceEnv env
       (fold (\<lambda>opt cfg. case opt of None \<Rightarrow> cfg | Some f \<Rightarrow> f cfg) opts (http_defaultConfig default_logger))"

definition http_WithLogger :: "logger \<Rightarrow> logger option \<Rightarrow> HTTPOption" where
  "http_WithLogger default_logger l cfg =
     cfg \<lparr> hc_logger := (case l of None \<Rightarrow> default_logger | Some lg \<Rightarrow> lg) \<rparr>"

definition http_WithProjectID :: "gostring \<Rightarrow> HTTPOption" where
  "http_WithProjectID p cfg = cfg \<lparr> hc_projectID := p \<rparr>"

definition http_WithPropagators :: "propagator option \<Rightarrow> HTTPOption" where
  "http_WithPropagators p cfg = cfg \<lparr> hc_propagators := p, hc_propagatorsSet := (p \<noteq> None) \<rparr>"

definition http_WithTracerProvider :: "nat option \<Rightarrow> HTTPOption" where
  "http_WithTracerProvider tp cfg = cfg \<lparr> hc_tracerProvider := tp \<rparr>"

definition http_WithTracePropagation :: "bool \<Rightarrow> HTTPOption" where
  "http_WithTracePropagation b cfg = cfg \<lparr> hc_propagateTrace := b \<rparr>"

definition http_WithPublicEndpoint :: "bool \<Rightarrow> HTTPOption" where
  "http_WithPublicEndpoint b cfg = cfg \<lparr> hc_publicEndpoint := b \<rparr>"

definition http_WithRemoteTrace :: "bool \<Rightarrow> HTTPOption" where
  "http_WithRemoteTrace b cfg =
     cfg \<lparr> hc_trustRemoteTraceForLogs := b, hc_trustRemoteTraceForLogsSet := True \<rparr>"

definition http_WithOTel :: "bool \<Rightarrow> HTTPOption" where
  "http_WithOTel b cfg = cfg \<lparr> hc_enableOTel := b \<rparr>"

definition http_WithSpanNameFormatter :: "nat option \<Rightarrow> HTTPOption" where
  "http_WithSpanNameFormatter f cfg = cfg \<lparr> hc_spanNameFormatter := f \<rparr>"

definition http_WithFilter :: "nat option \<Rightarrow> HTTPOption" where
  "http_WithFilter f cfg =
     (case f of None \<Rightarrow> cfg | Some g \<Rightarrow> cfg \<lparr> hc_filters := hc_filters cfg @ [g] \<rparr>)"

definition http_WithAttrEnricher :: "AttrEnricher option \<Rightarrow> HTTPOption" where
  "http_WithAttrEnricher e cfg =
     (case e of None \<Rightarrow> cfg | Some f \<Rightarrow> cfg \<lparr> hc_attrEnrichers := hc_attrEnrichers cfg @ [f] \<rparr>)"

definition http_WithAttrTransformer :: "AttrTransformer option \<Rightarrow> HTTPOption" where
  "http_WithAttrTransformer t cfg =
     (case t of None \<Rightarrow> cfg | Some f \<Rightarrow> cfg \<lparr> hc_attrTransformers := hc_attrTransformers cfg @ [f] \<rparr>)"

definition http_WithRouteGetter :: "(goRequest \<Rightarrow> gostring) option \<Rightarrow> HTTPOption" where
  "http_WithRouteGetter fn cfg = cfg \<lparr> hc_routeGetter := fn \<rparr>"

definition http_WithClientIP :: "bool \<Rightarrow> HTTPOption" where
  "http_WithClientIP b cfg = cfg \<lparr> hc_includeClientIP := b \<rparr>"

definition http_WithIncludeQuery :: "bool \<Rightarrow> HTTPOption" where
  "http_WithIncludeQuery b cfg = cfg \<lparr> hc_includeQuery := b \<rparr>"

definition http_WithUserAgent :: "bool \<Rightarrow> HTTPOption" where
  "http_WithUserAgent b cfg = cfg \<lparr> hc_includeUserAgent := b \<rparr>"

definition http_WithLegacyXCloudInjection :: "bool \<Rightarrow> HTTPOption" where
  "http_WithLegacyXCloudInjection b cfg = cfg \<lparr> hc_injectLegacyXCTC := b \<rparr>"

definition http_WithHTTPRequestAttr :: "bool \<Rightarrow> HTTPOption" where
  "http_WithHTTPRequestAttr b cfg = cfg \<lparr> hc_includeHTTPRequestAttr := b \<rparr>"

definition http_WithProxyMode :: "ProxyMode \<Rightarrow> HTTPOption" where
  "http_WithProxyMode m cfg = cfg \<lparr> hc_proxyMode := m \<rparr>"

definition http_WithTrustXForwardedProto :: "bool \<Rightarrow> HTTPOption" where
  "http_WithTrustXForwardedProto b cfg =
     cfg \<lparr> hc_trustXForwardedProto := b, hc_trustXForwardedProtoSet := True \<rparr>"

definition http_WithXForwardedForClientIPFromRight :: "int \<Rightarrow> HTTPOption" where
  "http_WithXForwardedForClientIPFromRight pos cfg =
     cfg \<lparr> hc_xffClientIPFromRight := (if pos \<le> 0 then 1 else pos) \<rparr>"

text \<open>\<open>environment\<close> is the runtime environment detection reports.\<close>

definition applyDefaultForwardedProtoTrust :: "RuntimeEnvironment \<Rightarrow> http_config \<Rightarrow> http_config" where
  "applyDefaultForwardedProtoTrust environment cfg =
     (if hc_trustXForwardedProtoSet cfg then cfg
      else if hc_proxyMode cfg = ProxyModeGCLB then cfg \<lparr> hc_trustXForwardedProto := True \<rparr>
      else cfg \<lparr> hc_trustXForwardedProto := shouldTrustXForwardedProtoByEnvironment environment \<rparr>)"

section \<open>Reading forwarded headers\<close>

definition extractIP :: "gostring \<Rightarrow> gostring" where
  "extractIP addr =
     (if addr = [] then []
      else case SplitHostPort addr of Some (host, _) \<Rightarrow> host | None \<Rightarrow> addr)"

definition xForwardedProto :: "gostring \<Rightarrow> gostring" where
  "xForwardedProto value =
     (let v = TrimSpace value
      in if v = [] then []
         else let token = (case Cut v (CHR '','') of (t, _, ok) \<Rightarrow> if ok then t else v);
                  p = ToLower (TrimSpace token)
              in if p = ''http'' \<or> p = ''https'' then p else [])"

definition quote :: char where "quote = CHR 0x22"

text \<open>The non-empty elements of the header, trimmed of spaces and quotes.\<close>

definition xff_elements :: "gostring \<Rightarrow> gostring list" where
  "xff_elements value =
     filter (\<lambda>p. p \<noteq> []) (map (\<lambda>p. TrimCut (TrimSpace p) [quote]) (Split value (CHR '','')))"

definition gclbClientIPFromXForwardedFor ::
  "(gostring \<Rightarrow> gostring option) \<Rightarrow> gostring \<Rightarrow> int \<Rightarrow> gostring" where
  "gclbClientIPFromXForwardedFor parse_addr value fromRight =
     (let v = TrimSpace value
      in if v = [] then []
         else let n = (if fromRight \<le> 0 then 1 else nat fromRight);
                  cleaned = xff_elements v
              in if length cleaned < n then []
                 else let candidate = TrimCut (TrimCut (TrimSpace (cleaned ! (length cleaned - n))) [quote]) ''[]''
                      in if candidate = [] then []
                         else case parse_addr candidate of None \<Rightarrow> [] | Some a \<Rightarrow> a)"

definition clientIPFromRequest ::
  "(gostring \<Rightarrow> gostring option) \<Rightarrow> goRequest \<Rightarrow> http_config \<Rightarrow> gostring" where
  "clientIPFromRequest parse_addr r cfg =
     (let ip = (if hc_proxyMode cfg = ProxyModeGCLB
                then gclbClientIPFromXForwardedFor parse_addr
                       (Header_Get (req_Header r) ''X-Forwarded-For'') (hc_xffClientIPFromRight cfg)
                else [])
      in if ip \<noteq> [] then ip else extractIP (req_RemoteAddr r))"

definition inferScheme :: "goRequest \<Rightarrow> http_config \<Rightarrow> gostring" where
  "inferScheme r cfg =
     (let proto = (if hc_proxyMode cfg = ProxyModeGCLB \<or> hc_trustXForwardedProto cfg
                   then xForwardedProto (Header_Get (req_Header r) ''X-Forwarded-Proto'') else [])
      in if proto \<noteq> [] then proto else if req_TLS r then ''https'' else ''http'')"

section \<open>The request scope\<close>

definition unsetLatencySentinel :: int where "unsetLatencySentinel = -1"

definition zero_scope :: "int \<Rightarrow> RequestScope" where
  "zero_scope start =
     \<lparr>sc_start = start, sc_method = [], sc_route = [], sc_target = [], sc_query = [], sc_scheme = [],
      sc_host = [], sc_clientIP = [], sc_peerPort = 0, sc_outbound = False, sc_userAgent = [],
      sc_requestSize = 0, sc_status = 0, sc_respBytes = 0, sc_latencyNS = 0\<rparr>"

definition populateURLFields :: "goRequest \<Rightarrow> http_config \<Rightarrow> RequestScope \<Rightarrow> RequestScope" where
  "populateURLFields r cfg rs =
     (case req_URL r of
        None \<Rightarrow> rs
      | Some u \<Rightarrow>
          rs \<lparr> sc_target := url_Path u, sc_query := url_RawQuery u,
               sc_scheme := (if url_Scheme u = [] then inferScheme r cfg else url_Scheme u),
               sc_host := req_Host r \<rparr>)"

definition populateFromRequest ::
  "(gostring \<Rightarrow> gostring option) \<Rightarrow> goRequest \<Rightarrow> http_config \<Rightarrow> RequestScope \<Rightarrow> RequestScope" where
  "populateFromRequest parse_addr r cfg rs =
     (let rs = rs \<lparr> sc_requestSize := req_ContentLength r, sc_method := req_Method r \<rparr>;
          rs = (populateURLFields r cfg rs) \<lparr> sc_userAgent := Header_Get (req_Header r) ''User-Agent'' \<rparr>;
          rs = (if hc_includeClientIP cfg
                then rs \<lparr> sc_clientIP := clientIPFromRequest parse_addr r cfg \<rparr> else rs)
      in case hc_routeGetter cfg of
           None \<Rightarrow> rs
         | Some g \<Rightarrow> rs \<lparr> sc_route := TrimSpace (g r) \<rparr>)"

definition newRequestScope ::
  "(gostring \<Rightarrow> gostring option) \<Rightarrow> goRequest option \<Rightarrow> int \<Rightarrow> http_config \<Rightarrow> RequestScope" where
  "newRequestScope parse_addr r start cfg =
     (let rs = (case r of None \<Rightarrow> zero_scope start
                | Some q \<Rightarrow> populateFromRequest parse_addr q cfg (zero_scope start))
      in rs \<lparr> sc_latencyNS := unsetLatencySentinel \<rparr>)"

definition Status_of :: "RequestScope \<Rightarrow> int" where
  "Status_of rs = (if sc_status rs = 0 then 200 else sc_status rs)"

definition Latency_of :: "int \<Rightarrow> RequestScope \<Rightarrow> int \<times> bool" where
  "Latency_of now rs =
     (if sc_latencyNS rs \<noteq> unsetLatencySentinel then (sc_latencyNS rs, True) else (now - sc_start rs, False))"

definition setStatus :: "int \<Rightarrow> RequestScope \<Rightarrow> RequestScope" where
  "setStatus code rs = rs \<lparr> sc_status := (if code \<le> 0 then 200 else code) \<rparr>"

definition addResponseBytes :: "int \<Rightarrow> RequestScope \<Rightarrow> RequestScope" where
  "addResponseBytes delta rs = (if delta \<le> 0 then rs else rs \<lparr> sc_respBytes := sc_respBytes rs + delta \<rparr>)"

definition finalize :: "int \<Rightarrow> int \<Rightarrow> int \<Rightarrow> RequestScope \<Rightarrow> RequestScope" where
  "finalize status bytes d rs =
     (let rs = setStatus status rs;
          rs = (if bytes \<ge> 0 then rs \<lparr> sc_respBytes := bytes \<rparr> else rs)
      in rs \<lparr> sc_latencyNS := (if d < 0 then 0 else d) \<rparr>)"

section \<open>Attributes of a scope\<close>

definition str_attr :: "gostring \<Rightarrow> gostring \<Rightarrow> slogAttr list" where
  "str_attr key value = (if value \<noteq> [] then [(key, VString value)] else [])"

definition appendRequestCoreAttrs :: "http_config \<Rightarrow> RequestScope \<Rightarrow> slogAttr list" where
  "appendRequestCoreAttrs cfg rs =
     str_attr ''http.method'' (sc_method rs) @ str_attr ''http.target'' (sc_target rs) @
     (if hc_includeQuery cfg then str_attr ''http.query'' (sc_query rs) else []) @
     str_attr ''http.route'' (sc_route rs) @ str_attr ''http.scheme'' (sc_scheme rs) @
     str_attr ''http.host'' (sc_host rs)"

definition appendMetricAttrs :: "int \<Rightarrow> RequestScope \<Rightarrow> slogAttr list" where
  "appendMetricAttrs now rs =
     (if sc_status rs > 0 then [(''http.status_code'', VInt64 (sc_status rs))] else []) @
     (case Latency_of now rs of (lat, finalized) \<Rightarrow>
        if finalized
        then (if sc_respBytes rs \<ge> 0 then [(''http.response_size'', VInt64 (sc_respBytes rs))] else []) @
             [(''http.latency'', VDuration lat)]
        else [])"

definition appendSizeAttrs :: "RequestScope \<Rightarrow> slogAttr list" where
  "appendSizeAttrs rs =
     (if sc_requestSize rs \<le> 0 then [] else [(''http.request_size'', VInt64 (sc_requestSize rs))])"

definition appendClientAttrs :: "http_config \<Rightarrow> RequestScope \<Rightarrow> slogAttr list" where
  "appendClientAttrs cfg rs =
     (if hc_includeClientIP cfg \<and> sc_clientIP rs \<noteq> []
      then if sc_outbound rs
           then (''server.address'', VString (sc_clientIP rs)) #
                (if sc_peerPort rs > 0 then [(''server.port'', VInt64 (sc_peerPort rs))] else [])
           else [(''network.peer.ip'', VString (sc_clientIP rs))]
      else []) @
     (if hc_includeUserAgent cfg then str_attr ''http.user_agent'' (sc_userAgent rs) else [])"

definition loggerAttrs :: "int \<Rightarrow> http_config \<Rightarrow> slogAttr list \<Rightarrow> RequestScope \<Rightarrow> slogAttr list" where
  "loggerAttrs now cfg traceAttrs rs =
     traceAttrs @ appendRequestCoreAttrs cfg rs @ appendMetricAttrs now rs @ appendSizeAttrs rs @
     appendClientAttrs cfg rs"

section \<open>The payload of a scope\<close>

definition buildRequestURLFromScope :: "RequestScope \<Rightarrow> gostring" where
  "buildRequestURLFromScope rs =
     (let scheme = TrimSpace (sc_scheme rs); host = TrimSpace (sc_host rs)
      in (if scheme \<noteq> [] \<and> host \<noteq> [] then scheme @ ''://'' @ host else []) @ sc_target rs @
         (if sc_query rs \<noteq> [] then ''?'' @ sc_query rs else []))"

definition latencyForLogging :: "RequestScope \<Rightarrow> int" where
  "latencyForLogging rs =
     (if sc_latencyNS rs \<noteq> unsetLatencySentinel then sc_latencyNS rs else - 1000000000)"

text \<open>The three fields that are suppressed while the response is in flight.\<close>

definition response_fields :: "RequestScope \<Rightarrow> HTTPRequest \<Rightarrow> HTTPRequest" where
  "response_fields rs req =
     (if sc_latencyNS rs \<noteq> unsetLatencySentinel
      then req \<lparr> ResponseSize := sc_respBytes rs, Status := Status_of rs, Latency := sc_latencyNS rs \<rparr>
      else req \<lparr> ResponseSize := - 1, Status := - 1, Latency := latencyForLogging rs \<rparr>)"

definition http_builder :: "goRequest option \<Rightarrow> RequestScope option \<Rightarrow> HTTPRequest" where
  "http_builder r scope =
     (let req = zero_HTTPRequest \<lparr> Request := r \<rparr>
      in case scope of
           None \<Rightarrow> req
         | Some rs \<Rightarrow>
             (response_fields rs (req \<lparr> RequestMethod := sc_method rs, RequestSize := sc_requestSize rs \<rparr>))
               \<lparr> RemoteIP := sc_clientIP rs, UserAgent := sc_userAgent rs,
                 RequestURL := buildRequestURLFromScope rs \<rparr>)"

text \<open>The attribute as it is when it is resolved: the builder reads the scope then.\<close>

definition HTTPRequestAttr :: "goRequest option \<Rightarrow> RequestScope option \<Rightarrow> slogAttr" where
  "HTTPRequestAttr r scope =
     (if r = None \<and> scope = None then ([], VAny GNil)
      else (''httpRequest'', HTTPRequestValue (Some (Some (http_builder r scope)))))"

definition HTTPRequestEnricher :: "goRequest option \<Rightarrow> RequestScope option \<Rightarrow> slogAttr list" where
  "HTTPRequestEnricher r scope = (let a = HTTPRequestAttr r scope in if fst a = [] then [] else [a])"

definition HTTPRequestFromScope :: "golib \<Rightarrow> RequestScope option \<Rightarrow> HTTPRequest option" where
  "HTTPRequestFromScope lib scope =
     (case scope of
        None \<Rightarrow> None
      | Some rs \<Rightarrow>
          Some (PrepareHTTPRequest lib
            (response_fields rs
               (zero_HTTPRequest \<lparr> RequestMethod := sc_method rs, RequestURL := buildRequestURLFromScope rs,
                  RequestSize := sc_requestSize rs, RemoteIP := sc_clientIP rs, UserAgent := sc_userAgent rs \<rparr>))))"

end
