(* ===== verification/HttpMiddleware.thy ===== *)
theory HttpMiddleware
  imports HttpScope
begin

text \<open>
  Serving and sending requests: the response recorder, the adoption of a remote span and the
  logging handler of \<^verbatim>\<open>slogcphttp/middleware.go\<close>, and the round tripper of
  \<^verbatim>\<open>slogcphttp/transport.go\<close>.

  The wrapped response writer is seen through the calls that reach it and the counts and errors
  it answers with; the application's handler is the sequence of calls it makes. OpenTelemetry's
  \<^verbatim>\<open>otelhttp\<close> is outside: only the options handed to it are modelled.
\<close>

section \<open>The response recorder\<close>

datatype down_call = DownHeader int | DownWrite int | DownReadFrom int | DownFlush

record responseRecorder =
  rr_scope :: RequestScope
  rr_status :: int
  wroteHeader :: bool
  bytesWritten :: int
  rr_down :: "down_call list"

definition wrapResponseWriter :: "RequestScope \<Rightarrow> responseRecorder" where
  "wrapResponseWriter scope =
     \<lparr>rr_scope = scope, rr_status = 0, wroteHeader = False, bytesWritten = 0, rr_down = []\<rparr>"

definition forward :: "down_call \<Rightarrow> responseRecorder \<Rightarrow> responseRecorder" where
  "forward c rr = rr \<lparr> rr_down := rr_down rr @ [c] \<rparr>"

definition rr_WriteHeader :: "int \<Rightarrow> responseRecorder \<Rightarrow> responseRecorder" where
  "rr_WriteHeader status rr =
     (if wroteHeader rr then forward (DownHeader status) rr
      else (forward (DownHeader status)
              (rr \<lparr> rr_status := status, rr_scope := setStatus status (rr_scope rr) \<rparr>))
             \<lparr> wroteHeader := True \<rparr>)"

definition implicit_header :: "responseRecorder \<Rightarrow> responseRecorder" where
  "implicit_header rr = (if wroteHeader rr then rr else rr_WriteHeader 200 rr)"

definition count_bytes :: "int \<Rightarrow> responseRecorder \<Rightarrow> responseRecorder" where
  "count_bytes n rr =
     (if n > 0 then rr \<lparr> bytesWritten := bytesWritten rr + n, rr_scope := addResponseBytes n (rr_scope rr) \<rparr>
      else rr)"

text \<open>\<open>n\<close> is the count the wrapped writer answers with; its error is returned, wrapped.\<close>

definition rr_Write :: "int \<Rightarrow> gostring option \<Rightarrow> responseRecorder \<Rightarrow> (int \<times> gostring option) \<times> responseRecorder" where
  "rr_Write n err rr =
     (let rr = count_bytes n (forward (DownWrite n) (implicit_header rr))
      in ((n, map_option (\<lambda>e. ''write response body: '' @ e) err), rr))"

text \<open>\<open>reader_from\<close> is whether the wrapped writer is an \<^verbatim>\<open>io.ReaderFrom\<close>.\<close>

definition rr_ReadFrom ::
  "bool \<Rightarrow> int \<Rightarrow> gostring option \<Rightarrow> responseRecorder \<Rightarrow> (int \<times> gostring option) \<times> responseRecorder" where
  "rr_ReadFrom reader_from n err rr =
     (if reader_from
      then (let rr = count_bytes n (forward (DownReadFrom n) (implicit_header rr))
            in ((n, map_option (\<lambda>e. ''read from body: '' @ e) err), rr))
      else (let rr = count_bytes n (forward (DownWrite n) (implicit_header rr))
            in ((n, map_option (\<lambda>e. ''copy response body: '' @ e) err), rr)))"

definition rr_Status :: "responseRecorder \<Rightarrow> int" where
  "rr_Status rr = (if rr_status rr = 0 then 200 else rr_status rr)"

definition rr_Flush :: "bool \<Rightarrow> responseRecorder \<Rightarrow> responseRecorder" where
  "rr_Flush flusher rr = (if flusher then forward DownFlush rr else rr)"

text \<open>The optional interfaces: \<open>None\<close> is \<^verbatim>\<open>http.ErrNotSupported\<close>.\<close>

definition rr_Hijack :: "('conn + gostring) option \<Rightarrow> ('conn + gostring) option" where
  "rr_Hijack hijacker =
     map_option (\<lambda>r. case r of Inl conn \<Rightarrow> Inl conn | Inr e \<Rightarrow> Inr (''hijack connection: '' @ e)) hijacker"

definition rr_Push :: "gostring option option \<Rightarrow> gostring option option" where
  "rr_Push pusher = map_option (map_option (\<lambda>e. ''http/2 push: '' @ e)) pusher"

datatype handler_call =
    CallHeader int
  | CallWrite int "gostring option"
  | CallReadFrom bool int "gostring option"
  | CallFlush bool

fun handler_step :: "handler_call \<Rightarrow> responseRecorder \<Rightarrow> responseRecorder" where
  "handler_step (CallHeader status) rr = rr_WriteHeader status rr"
| "handler_step (CallWrite n err) rr = snd (rr_Write n err rr)"
| "handler_step (CallReadFrom rf n err) rr = snd (rr_ReadFrom rf n err rr)"
| "handler_step (CallFlush fl) rr = rr_Flush fl rr"

text \<open>The scope after the handler made its calls and the deferred \<^verbatim>\<open>finalize\<close> ran.\<close>

definition record_response :: "handler_call list \<Rightarrow> int \<Rightarrow> RequestScope \<Rightarrow> RequestScope" where
  "record_response calls elapsed scope =
     (let rr = fold handler_step calls (wrapResponseWriter scope)
      in finalize (rr_Status rr) (bytesWritten rr) elapsed (rr_scope rr))"

section \<open>Adopting a remote span\<close>

record http_env =
  he_otel :: otel
  he_global :: "propagator option"
  he_random :: "nat \<Rightarrow> SpanID option"
  he_lib :: golib
  he_parse_addr :: "gostring \<Rightarrow> gostring option"
  he_environ :: environ

definition shouldExtractRemoteSpanContext :: "http_config option \<Rightarrow> bool" where
  "shouldExtractRemoteSpanContext cfg =
     (case cfg of
        None \<Rightarrow> True
      | Some c \<Rightarrow> if \<not> hc_publicEndpoint c then True
                  else if hc_enableOTel c then True
                  else hc_trustRemoteTraceForLogs c)"

definition configured_propagator :: "http_env \<Rightarrow> http_config option \<Rightarrow> propagator option" where
  "configured_propagator env cfg =
     (case cfg of
        None \<Rightarrow> he_global env
      | Some c \<Rightarrow>
          (case hc_propagators c of
             Some p \<Rightarrow> Some p
           | None \<Rightarrow> if \<not> hc_propagatorsSet c then he_global env else None))"

definition extractSpanContextFromHeaders ::
  "http_env \<Rightarrow> goctx \<Rightarrow> goRequest \<Rightarrow> http_config option \<Rightarrow> goctx option" where
  "extractSpanContextFromHeaders env ctx r cfg =
     (case configured_propagator env cfg of
        None \<Rightarrow> None
      | Some p \<Rightarrow>
          (let extracted = Extract p ctx (req_Header r)
           in if IsValid (he_otel env) (ctx_span extracted) then Some extracted else None))"

definition extractSpanContextFromXCloudTraceContext ::
  "http_env \<Rightarrow> goctx \<Rightarrow> goRequest \<Rightarrow> goctx option" where
  "extractSpanContextFromXCloudTraceContext env ctx r =
     (let header = Header_Get (req_Header r) XCloudTraceContextHeader
      in if header = [] then None
         else case contextWithXCloudTrace (he_otel env) (he_random env) ctx header of
                None \<Rightarrow> None
              | Some extracted \<Rightarrow>
                  if IsValid (he_otel env) (ctx_span extracted) then Some extracted else None)"

definition ensureSpanContext ::
  "http_env \<Rightarrow> goctx \<Rightarrow> goRequest option \<Rightarrow> http_config option \<Rightarrow> goctx \<times> SpanContext" where
  "ensureSpanContext env ctx r cfg =
     (let same = (ctx, ctx_span ctx)
      in if (case cfg of Some c \<Rightarrow> \<not> hc_propagateTrace c | None \<Rightarrow> False) then same
         else if IsValid (he_otel env) (ctx_span ctx) then same
         else if \<not> shouldExtractRemoteSpanContext cfg then same
         else case r of
                None \<Rightarrow> same
              | Some q \<Rightarrow>
                  (case extractSpanContextFromHeaders env ctx q cfg of
                     Some c \<Rightarrow> (c, ctx_span c)
                   | None \<Rightarrow>
                       (case extractSpanContextFromXCloudTraceContext env ctx q of
                          Some c \<Rightarrow> (c, ctx_span c)
                        | None \<Rightarrow> same)))"

section \<open>The middleware\<close>

definition resolveProjectID :: "gostring \<Rightarrow> gostring \<Rightarrow> gostring" where
  "resolveProjectID configured detected =
     (let p = TrimSpace configured in if p \<noteq> [] then p else TrimSpace detected)"

definition applyRequestEnrichers ::
  "http_config \<Rightarrow> goRequest \<Rightarrow> RequestScope \<Rightarrow> slogAttr list \<Rightarrow> slogAttr list" where
  "applyRequestEnrichers cfg r scope attrs =
     fold (\<lambda>enricher as. as @ enricher r scope) (hc_attrEnrichers cfg) attrs"

definition applyRequestTransformers ::
  "http_config \<Rightarrow> goRequest \<Rightarrow> RequestScope \<Rightarrow> slogAttr list \<Rightarrow> slogAttr list" where
  "applyRequestTransformers cfg r scope attrs =
     fold (\<lambda>transformer as. transformer as r scope) (hc_attrTransformers cfg) attrs"

definition trace_attrs :: "http_env \<Rightarrow> goctx \<Rightarrow> gostring \<Rightarrow> slogAttr list" where
  "trace_attrs env ctx project =
     (case TraceAttributes (he_otel env) (he_environ env) (Some ctx) project of None \<Rightarrow> [] | Some as \<Rightarrow> as)"

definition buildRequestAttributes ::
  "http_env \<Rightarrow> int \<Rightarrow> http_config \<Rightarrow> gostring \<Rightarrow> goctx \<Rightarrow> goRequest \<Rightarrow> RequestScope \<Rightarrow> slogAttr list" where
  "buildRequestAttributes env now cfg project ctx r scope =
     (let attrs = applyRequestEnrichers cfg r scope (loggerAttrs now cfg (trace_attrs env ctx project) scope);
          attrs = (if hc_includeHTTPRequestAttr cfg
                   then (let a = HTTPRequestAttr (Some r) (Some scope)
                         in if fst a \<noteq> [] then attrs @ [a] else attrs)
                   else attrs)
      in applyRequestTransformers cfg r scope attrs)"

definition loggerWithAttrs :: "(logger \<Rightarrow> slogAttr list \<Rightarrow> logger) \<Rightarrow> logger \<Rightarrow> slogAttr list \<Rightarrow> logger" where
  "loggerWithAttrs with_attrs base attrs = (if attrs = [] then base else with_attrs base attrs)"

datatype otel_option = TracerProvider "nat option" | Propagators "propagator option" | PublicEndpointFn
  | SpanNameFormatter nat | Filter nat

text \<open>
  The options handed to \<^verbatim>\<open>otelhttp\<close>: \<open>TracerProvider None\<close> is the global provider,
  \<open>Propagators None\<close> the propagator that does nothing.
\<close>

definition otelOptions :: "http_config \<Rightarrow> otel_option list" where
  "otelOptions cfg =
     [TracerProvider (hc_tracerProvider cfg)] @
     (if hc_propagateTrace cfg
      then (if hc_propagatorsSet cfg \<and> hc_propagators cfg \<noteq> None then [Propagators (hc_propagators cfg)] else [])
      else [Propagators None]) @
     (if hc_publicEndpoint cfg then [PublicEndpointFn] else []) @
     (case hc_spanNameFormatter cfg of None \<Rightarrow> [] | Some f \<Rightarrow> [SpanNameFormatter f]) @
     map Filter (hc_filters cfg)"

text \<open>
  What the next handler gets, and what is recorded when it is done: the context with the
  request's logger, the attributes of that logger, and the final scope. \<open>scope_id\<close> identifies
  the scope in the context.
\<close>

record served =
  sv_ctx :: goctx
  sv_attrs :: "slogAttr list"
  sv_scope :: RequestScope

definition buildLoggingHandler ::
  "http_env \<Rightarrow> (logger \<Rightarrow> slogAttr list \<Rightarrow> logger) \<Rightarrow> http_config \<Rightarrow> gostring \<Rightarrow> nat \<Rightarrow> int \<Rightarrow> int
     \<Rightarrow> handler_call list \<Rightarrow> goctx \<Rightarrow> goRequest \<Rightarrow> served" where
  "buildLoggingHandler env with_attrs cfg project scope_id start finish calls ctx r =
     (let scope = newRequestScope (he_parse_addr env) (Some r) start cfg;
          attrs = buildRequestAttributes env start cfg project ctx r scope;
          l = loggerWithAttrs with_attrs (hc_logger cfg) attrs
      in \<lparr>sv_ctx = ctx \<lparr> ctx_logger := Some l, ctx_scope := Some scope_id \<rparr>, sv_attrs = attrs,
          sv_scope = record_response calls (finish - start) scope\<rparr>)"

text \<open>\<open>otelhttp\<close> is \<open>chain\<close>: the context it passes on.\<close>

definition Middleware_serve ::
  "http_env \<Rightarrow> (logger \<Rightarrow> slogAttr list \<Rightarrow> logger) \<Rightarrow> (otel_option list \<Rightarrow> goctx \<Rightarrow> goRequest \<Rightarrow> goctx)
     \<Rightarrow> runtimeInfo \<Rightarrow> http_config \<Rightarrow> nat \<Rightarrow> int \<Rightarrow> int \<Rightarrow> handler_call list \<Rightarrow> goctx \<Rightarrow> goRequest \<Rightarrow> served" where
  "Middleware_serve env with_attrs chain info cfg0 scope_id start finish calls ctx r =
     (let cfg = applyDefaultForwardedProtoTrust (Environment info) cfg0;
          ctx1 = fst (ensureSpanContext env ctx (Some r) (Some cfg));
          ctx2 = (if hc_enableOTel cfg then chain (otelOptions cfg) ctx1 r else ctx1)
      in buildLoggingHandler env with_attrs cfg (resolveProjectID (hc_projectID cfg) (ProjectID info))
           scope_id start finish calls ctx2 r)"

definition ScopeFromContext :: "('x goctx_scheme) option \<Rightarrow> nat option" where
  "ScopeFromContext ctx = (case ctx of None \<Rightarrow> None | Some c \<Rightarrow> ctx_scope c)"

section \<open>The round tripper\<close>

text \<open>\<^verbatim>\<open>URL.Hostname\<close> and \<^verbatim>\<open>URL.Port\<close> of the standard library.\<close>

definition url_hostport :: "gostring \<Rightarrow> gostring \<times> gostring" where
  "url_hostport hp =
     (let (host, port) =
            (case LastIndex hp (CHR '':'') of
               Some i \<Rightarrow> if list_all decimal (drop (i + 1) hp) then (take i hp, drop (i + 1) hp) else (hp, [])
             | None \<Rightarrow> (hp, []))
      in (if host \<noteq> [] \<and> hd host = CHR ''['' \<and> last host = CHR '']'' \<and> length host \<ge> 2
          then butlast (tl host) else host, port))"

definition number_or_zero :: "gostring \<Rightarrow> int" where
  "number_or_zero s = (case Atoi s of Some n \<Rightarrow> n | None \<Rightarrow> 0)"

definition outboundHostPort :: "goRequest option \<Rightarrow> gostring \<times> int" where
  "outboundHostPort req =
     (case req of
        None \<Rightarrow> ([], 0)
      | Some r \<Rightarrow>
          (let from_host =
             (if req_Host r = [] then ([], 0)
              else let hostport = TrimSpace (req_Host r)
                   in case SplitHostPort hostport of
                        Some (host, port) \<Rightarrow> (TrimCut host ''[]'', number_or_zero port)
                      | None \<Rightarrow> (TrimCut hostport ''[]'', 0))
           in case req_URL r of
                None \<Rightarrow> from_host
              | Some u \<Rightarrow>
                  (case url_hostport (url_Host u) of (host, port) \<Rightarrow>
                     if host \<noteq> [] then (host, number_or_zero port) else from_host)))"

definition newClientScope :: "goRequest \<Rightarrow> int \<Rightarrow> http_config \<Rightarrow> RequestScope" where
  "newClientScope r start cfg =
     (let rs = (zero_scope start) \<lparr> sc_method := req_Method r, sc_requestSize := req_ContentLength r,
                                    sc_outbound := True \<rparr>;
          rs = (case req_URL r of
                  None \<Rightarrow> rs
                | Some u \<Rightarrow> rs \<lparr> sc_target := url_Path u, sc_query := url_RawQuery u,
                                sc_scheme := url_Scheme u, sc_host := url_Host u \<rparr>);
          rs = rs \<lparr> sc_userAgent := Header_Get (req_Header r) ''User-Agent'' \<rparr>;
          rs = (if hc_includeClientIP cfg
                then (case outboundHostPort (Some r) of (h, p) \<Rightarrow> rs \<lparr> sc_clientIP := h, sc_peerPort := p \<rparr>)
                else rs)
      in rs \<lparr> sc_respBytes := - 1, sc_latencyNS := - 1 \<rparr>)"

definition injectTrace :: "http_env \<Rightarrow> http_config \<Rightarrow> goctx \<Rightarrow> gostring list gomap \<Rightarrow> gostring list gomap" where
  "injectTrace env cfg ctx header =
     (if \<not> hc_propagateTrace cfg then header
      else let header = (case (case hc_propagators cfg of Some p \<Rightarrow> Some p | None \<Rightarrow> he_global env) of
                           None \<Rightarrow> header
                         | Some p \<Rightarrow> Inject p ctx header)
           in if \<not> hc_injectLegacyXCTC cfg then header
              else if Header_Get header XCloudTraceContextHeader \<noteq> [] then header
              else let sc = ctx_span ctx; api = he_otel env
                   in if \<not> IsValid api sc then header
                      else Header_Set XCloudTraceContextHeader
                             (BuildXCloudTraceContext (TraceID_String api (TraceID_of sc))
                                (SpanID_String api (SpanID_of sc)) (IsSampled api sc)) header)"

text \<open>A response is its status and content length, \<open>-1\<close> when unknown.\<close>

definition finishRoundTrip ::
  "(int \<times> int) option \<times> gostring option \<Rightarrow> int \<Rightarrow> RequestScope
     \<Rightarrow> ((int \<times> int) option \<times> gostring option) \<times> RequestScope" where
  "finishRoundTrip result finish scope =
     (let elapsed = finish - sc_start scope
      in case result of
           (Some (code, len), err) \<Rightarrow>
             ((Some (code, len), map_option (\<lambda>e. ''round trip request: '' @ e) err),
              finalize code len elapsed scope)
         | (None, Some e) \<Rightarrow>
             ((None, Some (''round trip request: '' @ e)), finalize 0 (sc_respBytes scope) elapsed scope)
         | (None, None) \<Rightarrow>
             ((None, Some ''round trip request: received no response and no error''),
              finalize 0 (sc_respBytes scope) elapsed scope))"

text \<open>\<^verbatim>\<open>roundTripper\<close>; \<open>rt_base\<close> is the wrapped round tripper.\<close>

record 'b roundTripper =
  rt_base :: 'b
  rt_cfg :: http_config
  rt_projectID :: gostring

definition Transport ::
  "environ \<Rightarrow> logger \<Rightarrow> runtimeInfo \<Rightarrow> 'b \<Rightarrow> 'b option \<Rightarrow> HTTPOption option list \<Rightarrow> 'b roundTripper" where
  "Transport vars default_logger info default_transport base opts =
     (let cfg = http_applyOptions vars default_logger opts
      in \<lparr>rt_base = (case base of Some b \<Rightarrow> b | None \<Rightarrow> default_transport), rt_cfg = cfg,
          rt_projectID = resolveProjectID (hc_projectID cfg) (ProjectID info)\<rparr>)"

text \<open>Without a request the base decides; the argument is its answer.\<close>

definition handleNilRequest :: "'r option \<times> gostring option \<Rightarrow> 'r option \<times> gostring option" where
  "handleNilRequest result =
     (case snd result of
        Some e \<Rightarrow> (None, Some (''round trip nil request: '' @ e))
      | None \<Rightarrow> (fst result, None))"

definition rt_applyEnrichers ::
  "'b roundTripper \<Rightarrow> goRequest \<Rightarrow> RequestScope \<Rightarrow> slogAttr list \<Rightarrow> slogAttr list" where
  "rt_applyEnrichers t r scope attrs =
     fold (\<lambda>enricher as. as @ enricher r scope) (hc_attrEnrichers (rt_cfg t)) attrs"

definition rt_applyTransformers ::
  "'b roundTripper \<Rightarrow> goRequest \<Rightarrow> RequestScope \<Rightarrow> slogAttr list \<Rightarrow> slogAttr list" where
  "rt_applyTransformers t r scope attrs =
     fold (\<lambda>transformer as. transformer as r scope) (hc_attrTransformers (rt_cfg t)) attrs"

definition rt_buildAttrs ::
  "http_env \<Rightarrow> int \<Rightarrow> 'b roundTripper \<Rightarrow> goctx \<Rightarrow> goRequest \<Rightarrow> RequestScope \<Rightarrow> slogAttr list" where
  "rt_buildAttrs env now t ctx r scope =
     rt_applyTransformers t r scope
       (rt_applyEnrichers t r scope
          (loggerAttrs now (rt_cfg t) (trace_attrs env ctx (rt_projectID t)) scope))"

text \<open>\<open>configured\<close> is \<^verbatim>\<open>cfg.logger\<close>, which the options never leave nil.\<close>

definition baseLogger :: "logger option \<Rightarrow> logger \<Rightarrow> goctx \<Rightarrow> logger" where
  "baseLogger configured default_logger ctx =
     (case configured of Some l \<Rightarrow> l | None \<Rightarrow> Logger default_logger (Some ctx))"

definition attachContext :: "nat \<Rightarrow> logger \<Rightarrow> goctx \<Rightarrow> goctx" where
  "attachContext scope_id l ctx = ctx \<lparr> ctx_logger := Some l, ctx_scope := Some scope_id \<rparr>"

record sent_request =
  st_ctx :: goctx
  st_header :: "gostring list gomap"
  st_attrs :: "slogAttr list"
  st_result :: "(int \<times> int) option \<times> gostring option"
  st_scope :: RequestScope

definition RoundTrip ::
  "http_env \<Rightarrow> (logger \<Rightarrow> slogAttr list \<Rightarrow> logger) \<Rightarrow> logger \<Rightarrow> nat \<Rightarrow> int \<Rightarrow> int
     \<Rightarrow> (goctx \<Rightarrow> goRequest \<Rightarrow> (int \<times> int) option \<times> gostring option) roundTripper \<Rightarrow> goctx \<Rightarrow> goRequest
     \<Rightarrow> sent_request" where
  "RoundTrip env with_attrs default_logger scope_id start finish t ctx r =
     (let scope = newClientScope r start (rt_cfg t);
          attrs = rt_buildAttrs env start t ctx r scope;
          l = loggerWithAttrs with_attrs (baseLogger (Some (hc_logger (rt_cfg t))) default_logger ctx) attrs;
          ctx = attachContext scope_id l ctx;
          header = injectTrace env (rt_cfg t) ctx (req_Header r);
          (result, final) = finishRoundTrip (rt_base t ctx (r \<lparr> req_Header := header \<rparr>)) finish scope
      in \<lparr>st_ctx = ctx, st_header = header, st_attrs = attrs, st_result = result, st_scope = final\<rparr>)"

end
