(* ===== verification/HttpProps.thy ===== *)
theory HttpProps
  imports HttpMiddleware
begin

text \<open>
  What the HTTP instrumentation guarantees: an access log that tells what was sent, a client
  address that cannot be forged, trust in remote spans only where it was given, and a trace that
  survives the hop from the transport of one service to the middleware of the next.
\<close>

section \<open>The recorder's account of a response\<close>

fun body_bytes :: "handler_call \<Rightarrow> int" where
  "body_bytes (CallWrite n err) = max 0 n"
| "body_bytes (CallReadFrom rf n err) = max 0 n"
| "body_bytes _ = 0"

text \<open>The status the client sees: of the first header, or 200 when a body or nothing came first.\<close>

fun first_status :: "handler_call list \<Rightarrow> int" where
  "first_status [] = 200"
| "first_status (CallHeader status # cs) = (if status \<le> 0 then 200 else status)"
| "first_status (CallFlush f # cs) = first_status cs"
| "first_status (_ # cs) = 200"

lemmas recorder_ops =
  rr_WriteHeader_def implicit_header_def count_bytes_def rr_Write_def rr_ReadFrom_def rr_Flush_def
  forward_def setStatus_def addResponseBytes_def Let_def

definition shown_status :: "int \<Rightarrow> int" where
  "shown_status s = (if s \<le> 0 then 200 else s)"

lemma step_bytes: "bytesWritten (handler_step c rr) = bytesWritten rr + body_bytes c"
  by (cases c) (auto simp: recorder_ops)

lemma step_scope:
  "sc_latencyNS (rr_scope (handler_step c rr)) = sc_latencyNS (rr_scope rr)"
  by (cases c) (auto simp: recorder_ops)

lemma step_wrote:
  "wroteHeader rr \<Longrightarrow> wroteHeader (handler_step c rr) \<and> rr_status (handler_step c rr) = rr_status rr"
  by (cases c) (auto simp: recorder_ops)

lemma run_bytes: "bytesWritten (fold handler_step cs rr) = bytesWritten rr + sum_list (map body_bytes cs)"
  by (induction cs arbitrary: rr) (simp_all add: step_bytes)

lemma run_wrote: "wroteHeader rr \<Longrightarrow> rr_status (fold handler_step cs rr) = rr_status rr"
  by (induction cs arbitrary: rr) (simp_all add: step_wrote)

lemma run_status:
  "\<not> wroteHeader rr \<Longrightarrow> rr_status rr = 0 \<Longrightarrow>
   shown_status (rr_Status (fold handler_step cs rr)) = first_status cs"
proof (induction cs arbitrary: rr)
  case Nil
  then show ?case by (simp add: rr_Status_def shown_status_def)
next
  case (Cons c cs)
  show ?case
  proof (cases c)
    case (CallHeader s)
    let ?rr = "handler_step c rr"
    have "wroteHeader ?rr" "rr_status ?rr = s" using Cons.prems CallHeader by (simp_all add: recorder_ops)
    then show ?thesis using CallHeader by (simp add: rr_Status_def shown_status_def run_wrote)
  next
    case (CallWrite n e)
    let ?rr = "handler_step c rr"
    have "wroteHeader ?rr" "rr_status ?rr = 200" using Cons.prems CallWrite by (simp_all add: recorder_ops)
    then show ?thesis using CallWrite by (simp add: rr_Status_def shown_status_def run_wrote)
  next
    case (CallReadFrom rf n e)
    let ?rr = "handler_step c rr"
    have "wroteHeader ?rr" "rr_status ?rr = 200" using Cons.prems CallReadFrom by (simp_all add: recorder_ops)
    then show ?thesis using CallReadFrom by (simp add: rr_Status_def shown_status_def run_wrote)
  next
    case (CallFlush f)
    then show ?thesis using Cons by (simp add: recorder_ops)
  qed
qed

lemma body_bytes_nonneg: "0 \<le> sum_list (map body_bytes cs)"
proof (induction cs)
  case (Cons c cs)
  then show ?case by (cases c) auto
qed simp

lemma run_recorded:
  "sc_status (record_response cs d scope) = first_status cs"
  "sc_respBytes (record_response cs d scope) = sum_list (map body_bytes cs)"
  "sc_latencyNS (record_response cs d scope) = max 0 d"
proof -
  let ?rr = "fold handler_step cs (wrapResponseWriter scope)"
  have w: "\<not> wroteHeader (wrapResponseWriter scope)" "rr_status (wrapResponseWriter scope) = 0"
    "bytesWritten (wrapResponseWriter scope) = 0"
    by (simp_all add: wrapResponseWriter_def)
  have "bytesWritten ?rr = sum_list (map body_bytes cs)" using run_bytes [of cs] w(3) by simp
  then show "sc_status (record_response cs d scope) = first_status cs"
    "sc_respBytes (record_response cs d scope) = sum_list (map body_bytes cs)"
    "sc_latencyNS (record_response cs d scope) = max 0 d"
    using run_status [OF w(1,2), of cs] body_bytes_nonneg [of cs]
    by (auto simp: record_response_def finalize_def setStatus_def shown_status_def Let_def)
qed


text \<open>
  The recorder takes a 1xx header for the final one: a handler that sends \<^verbatim>\<open>103 Early Hints\<close>
  and then answers 200, as \<^verbatim>\<open>net/http\<close> allows, is logged with status 103.
\<close>

lemma recorder_informational:
  "sc_status (record_response [CallHeader 103, CallHeader 200] d scope) = 103"
  by (simp add: run_recorded)

section \<open>Forwarded addresses\<close>

lemma prefix_before_sep: "c \<notin> set e \<Longrightarrow> prefix e (a @ c # b) = prefix e a"
  by (auto simp: prefix_append prefix_Cons)

lemma strip_one_append:
  "list_all (\<lambda>e. c \<notin> set e) es \<Longrightarrow>
   strip_one es (a @ c # b) = map_option (\<lambda>t. t @ c # b) (strip_one es a)"
  by (induction es) (auto simp: prefix_before_sep dest: prefix_length_le)

lemma trim_left_with_append:
  "list_all (\<lambda>e. c \<notin> set e) es \<Longrightarrow>
   trim_left_with es (a @ c # b) = trim_left_with es a @ c # b"
proof (induction es a rule: trim_left_with.induct)
  case (1 es a)
  then show ?case
    by (cases "strip_one es a")
       (simp_all add: trim_left_with.simps [of es "a @ c # b"] trim_left_with.simps [of es a] strip_one_append)
qed

lemma comma_not_space: "list_all (\<lambda>e. CHR '','' \<notin> set e) space_encodings"
  by (simp add: space_encodings_def)

lemma trim_left_append: "trim_left (a @ CHR '','' # b) = trim_left a @ CHR '','' # b"
  unfolding trim_left_def by (rule trim_left_with_append [OF comma_not_space])

lemma trim_right_visible: "s \<noteq> [] \<Longrightarrow> visible (last s) \<Longrightarrow> trim_right s = s"
  by (cases s rule: rev_cases) (auto simp: trim_right_def trim_left_with_id last_not_space)

text \<open>An address as a proxy writes it: visible, without separator, quote or bracket.\<close>

definition plain_address :: "gostring \<Rightarrow> bool" where
  "plain_address a \<longleftrightarrow> a \<noteq> [] \<and> list_all visible a \<and> set a \<inter> set ('','' @ quote # ''[]'') = {}"

definition appended_by_proxies :: "gostring list \<Rightarrow> gostring" where
  "appended_by_proxies as = concat (map ((#) (CHR '','')) as)"

lemma Split_appended:
  "list_all plain_address as \<Longrightarrow>
   Split (s @ appended_by_proxies as) (CHR '','') = Split s (CHR '','') @ as"
proof (induction as arbitrary: s)
  case Nil
  then show ?case by (simp add: appended_by_proxies_def)
next
  case (Cons a as)
  have "Split (s @ appended_by_proxies (a # as)) (CHR '','')
      = Split s (CHR '','') @ Split (a @ appended_by_proxies as) (CHR '','')"
    by (simp add: appended_by_proxies_def Split_append_sep)
  also have "\<dots> = Split s (CHR '','') @ Split a (CHR '','') @ as" using Cons by simp
  also have "Split a (CHR '','') = [a]"
    using Cons.prems by (intro Split_no_sep) (auto simp: plain_address_def)
  finally show ?case by simp
qed

lemma TrimCut_id: "set s \<inter> set cs = {} \<Longrightarrow> TrimCut s cs = s"
proof -
  have keep: "dropWhile (\<lambda>x. x \<in> set cs) t = t" if "set t \<inter> set cs = {}" for t
    using that by (cases t) auto
  assume "set s \<inter> set cs = {}"
  then show ?thesis by (simp add: TrimCut_def keep)
qed

lemma plain_trims:
  assumes "plain_address a"
  shows "TrimSpace a = a" and "TrimCut a [quote] = a" and "TrimCut a ''[]'' = a" and "a \<noteq> []"
  using assms by (auto simp: plain_address_def intro!: TrimCut_id)

lemma xff_elements_appended:
  assumes "list_all plain_address as"
  shows "xff_elements (s @ appended_by_proxies as) = xff_elements s @ as"
proof -
  have "map (\<lambda>p. TrimCut (TrimSpace p) [quote]) as = as"
    using assms by (intro map_idI) (auto simp: list_all_iff plain_trims)
  moreover have "filter (\<lambda>p. p \<noteq> []) as = as"
    using assms by (auto simp: list_all_iff plain_trims(4) filter_id_conv)
  ultimately show ?thesis by (simp add: xff_elements_def Split_appended [OF assms])
qed

lemma TrimSpace_appended:
  assumes "list_all plain_address as" and "as \<noteq> []"
  shows "TrimSpace (s @ appended_by_proxies as) = trim_left s @ appended_by_proxies as"
proof -
  obtain bs b where as: "as = bs @ [b]" using assms(2) by (cases as rule: rev_cases) auto
  have b: "b \<noteq> []" "visible (last b)"
    using assms(1) as by (auto simp: plain_address_def list_all_iff)
  have "appended_by_proxies as \<noteq> [] \<and> last (appended_by_proxies as) = last b"
    using as b(1) by (simp add: appended_by_proxies_def)
  moreover have "trim_left (s @ appended_by_proxies as) = trim_left s @ appended_by_proxies as"
    using assms(2) by (cases as) (simp_all add: appended_by_proxies_def trim_left_append)
  ultimately show ?thesis using b(2) by (simp add: TrimSpace_def trim_right_visible)
qed

text \<open>
  C8. Behind trusted proxies the client address cannot be forged. Whatever the client put into
  \<^verbatim>\<open>X-Forwarded-For\<close>, when the proxies in front of the service appended the addresses
  \<open>as\<close> and the configured position \<open>n\<close> from the right is one of theirs, the address taken is the
  \<open>n\<close>-th one from the right of what they appended, in canonical form; the remote address of the
  connection is used only when that one does not parse.
\<close>

theorem forwarded_client_ip_unforgeable:
  assumes "list_all plain_address as" and "1 \<le> n" and "n \<le> int (length as)"
  shows "gclbClientIPFromXForwardedFor parse_addr (forged @ appended_by_proxies as) n
    = (case parse_addr (as ! (length as - nat n)) of None \<Rightarrow> [] | Some a \<Rightarrow> a)"
proof -
  let ?a = "as ! (length as - nat n)"
  have ne: "as \<noteq> []" using assms(2,3) by auto
  have "length as - nat n < length as" using assms(2,3) ne by simp
  then have "plain_address ?a" using assms(1) by (simp add: list_all_length)
  note a = plain_trims [OF this]
  have v: "appended_by_proxies as \<noteq> []" using ne by (cases as) (simp_all add: appended_by_proxies_def)
  have n: "nat n \<le> length as" "(if n \<le> 0 then 1 else nat n) = nat n" using assms(2,3) by auto
  have len: "length X + length as - nat n = length X + (length as - nat n)" for X :: "gostring list"
    using n(1) by simp
  have pick: "(X @ as) ! (length (X @ as) - nat n) = ?a" "\<not> length (X @ as) < nat n" for X
    using n(1) by (simp_all only: length_append len nth_append_length_plus)
  show ?thesis
    using v
    by (simp only: gclbClientIPFromXForwardedFor_def Let_def TrimSpace_appended [OF assms(1) ne]
        xff_elements_appended [OF assms(1)] n(2) pick a append_is_Nil_conv if_False simp_thms)
qed

theorem forwarded_client_ip_unforgeable_witness:
  "gclbClientIPFromXForwardedFor Some
     (''6.6.6.6,127.0.0.1'' @ appended_by_proxies [''203.0.113.7'', ''35.191.0.1'']) 2 = ''203.0.113.7''"
proof -
  have "list_all plain_address [''203.0.113.7'', ''35.191.0.1'']" by code_simp
  from forwarded_client_ip_unforgeable [OF this, of 2 Some "''6.6.6.6,127.0.0.1''"] show ?thesis by simp
qed

section \<open>Whose trace is believed\<close>

lemma extracted_valid:
  "extractSpanContextFromHeaders env ctx r cfg = Some c \<Longrightarrow> IsValid (he_otel env) (ctx_span c)"
  "extractSpanContextFromXCloudTraceContext env ctx r = Some c \<Longrightarrow> IsValid (he_otel env) (ctx_span c)"
  by (auto simp: extractSpanContextFromHeaders_def extractSpanContextFromXCloudTraceContext_def Let_def
      split: option.splits if_splits)

lemma options_last:
  "http_applyOptions env l (opts @ [Some f]) =
     applyTrustRemoteTraceEnv env
       (f (fold (\<lambda>opt cfg. case opt of None \<Rightarrow> cfg | Some f \<Rightarrow> f cfg) opts (http_defaultConfig l)))"
  by (simp add: http_applyOptions_def)

lemma explicit_trust_wins:
  "hc_trustRemoteTraceForLogs (http_applyOptions env l (opts @ [Some (http_WithRemoteTrace b)])) = b"
  by (simp add: options_last applyTrustRemoteTraceEnv_def http_WithRemoteTrace_def)


section \<open>From one service to the next\<close>

lemma Header_Get_Set [simp]: "Header_Get (Header_Set k v h) k = v"
  by (simp add: Header_Get_def Header_Set_def)

lemma injected_header:
  assumes "hc_propagateTrace cfg" and "hc_injectLegacyXCTC cfg"
    and "Header_Get (injectTrace env (cfg \<lparr> hc_injectLegacyXCTC := False \<rparr>) ctx h) XCloudTraceContextHeader = []"
    and "IsValid (he_otel env) (ctx_span ctx)"
  shows "Header_Get (injectTrace env cfg ctx h) XCloudTraceContextHeader =
    BuildXCloudTraceContext (TraceID_String (he_otel env) (TraceID_of (ctx_span ctx)))
      (SpanID_String (he_otel env) (SpanID_of (ctx_span ctx))) (IsSampled (he_otel env) (ctx_span ctx))"
  using assms by (simp add: injectTrace_def Let_def)


definition demo_http_env :: http_env where
  "demo_http_env =
     \<lparr>he_otel = w3c, he_global = None, he_random = (\<lambda>_. None),
      he_lib = \<lparr>FormatFloat_g = (\<lambda>_. []), Sprint_v = (\<lambda>_. []), URL_String = (\<lambda>_. [])\<rparr>,
      he_parse_addr = Some, he_environ = (\<lambda>_. [])\<rparr>"

definition demo_span :: SpanContext where
  "demo_span = \<lparr>TraceID_of = 0x105445AA7843BC8BF206B12000100000, SpanID_of = 0x4A, TraceFlags = 1, Remote = False\<rparr>"

definition demo_client :: http_config where
  "demo_client = http_WithLegacyXCloudInjection True (http_defaultConfig 0)"

definition demo_request :: goRequest where
  "demo_request =
     \<lparr>req_Method = ''GET'', req_URL = None,
      req_Header = injectTrace demo_http_env demo_client (Background \<lparr> ctx_span := demo_span \<rparr>) [],
      req_Proto = [], req_ContentLength = 0, req_RemoteAddr = [], req_Host = [], req_TLS = False\<rparr>"

lemmas demo_hop_defs =
  demo_client_def demo_request_def demo_http_env_def demo_span_def http_defaultConfig_def
  http_WithLegacyXCloudInjection_def shouldExtractRemoteSpanContext_def Background_def zero_SpanContext_def
  extractSpanContextFromHeaders_def configured_propagator_def injectTrace_def Let_def

lemma demo_hop:
  "otel_laws (he_otel demo_http_env)"
  "IsValid (he_otel demo_http_env) demo_span"
  "hc_propagateTrace demo_client" "hc_injectLegacyXCTC demo_client"
  "Header_Get (injectTrace demo_http_env (demo_client \<lparr> hc_injectLegacyXCTC := False \<rparr>) ctx [])
     XCloudTraceContextHeader = []"
  "hc_propagateTrace (http_defaultConfig 0)" "shouldExtractRemoteSpanContext (Some (http_defaultConfig 0))"
  "\<not> IsValid (he_otel demo_http_env) (ctx_span Background)"
  "extractSpanContextFromHeaders demo_http_env Background demo_request (Some (http_defaultConfig 0)) = None"
  "IsSampled (he_otel demo_http_env) demo_span"
  by (simp_all add: demo_hop_defs Header_Get_def w3c_laws) (simp_all add: w3c_def)


section \<open>Corner cases\<close>

text \<open>A round trip that got no response is recorded as a success.\<close>

lemma failed_round_trip_status:
  "sc_status (snd (finishRoundTrip (None, Some e) t scope)) = 200"
  by (simp add: finishRoundTrip_def finalize_def setStatus_def Let_def)

text \<open>
  The client address is left out of the scope by \<^verbatim>\<open>WithClientIP(false)\<close>, and the
  \<^verbatim>\<open>httpRequest\<close> attribute still reports the remote address of the connection.
\<close>

definition peer_request :: goRequest where
  "peer_request = demo_request \<lparr> req_Header := [], req_RemoteAddr := ''192.0.2.1:5000'' \<rparr>"

lemma client_ip_off_scope:
  "newRequestScope Some (Some peer_request) 0 (http_WithClientIP False (http_defaultConfig 0))
    = zero_scope 0 \<lparr> sc_method := ''GET'', sc_latencyNS := - 1 \<rparr>"
  by (simp add: newRequestScope_def populateFromRequest_def populateURLFields_def peer_request_def
      demo_request_def http_WithClientIP_def http_defaultConfig_def zero_scope_def Let_def
      Header_Get_def unsetLatencySentinel_def)

lemma client_ip_off_still_logged:
  "RemoteIP (PrepareHTTPRequest lib
     (http_builder (Some peer_request)
        (Some (newRequestScope Some (Some peer_request) 0
                 (http_WithClientIP False (http_defaultConfig 0)))))) = ''192.0.2.1''"
proof -
  have split: "SplitHostPort ''192.0.2.1:5000'' = Some (''192.0.2.1'', ''5000'')" by code_simp
  show ?thesis
    unfolding client_ip_off_scope
    by (simp add: PrepareHTTPRequest_def populateFromHTTPRequest_def populateRequestStrings_def
        populateRequestSizes_def populateRemoteIP_def normalizeRemoteIP_def normalizePayloadSizes_def
        http_builder_def response_fields_def zero_scope_def zero_HTTPRequest_def peer_request_def
        copyStringIfEmpty_def split Let_def)
qed

text \<open>
  The query string is left out of \<^verbatim>\<open>http.query\<close> by \<^verbatim>\<open>WithIncludeQuery(false)\<close>, the
  default, and the URL of the \<^verbatim>\<open>httpRequest\<close> attribute still ends in it.
\<close>

lemma query_off_still_logged:
  assumes "req_URL r = Some u" and "url_RawQuery u \<noteq> []"
  shows "\<exists>before. RequestURL (http_builder (Some r)
           (Some (newRequestScope pa (Some r) t (http_WithIncludeQuery False cfg)))) = before @ ''?'' @ url_RawQuery u"
proof -
  have "sc_query (newRequestScope pa (Some r) t (http_WithIncludeQuery False cfg)) = url_RawQuery u"
    using assms(1)
    by (simp add: newRequestScope_def populateFromRequest_def populateURLFields_def Let_def split: option.split)
  then show ?thesis
    using assms(2) by (simp add: http_builder_def response_fields_def buildRequestURLFromScope_def Let_def)
qed

text \<open>
  Only the first \<^verbatim>\<open>X-Forwarded-For\<close> line is read. When a proxy adds a line of its own instead
  of extending the client's, the address taken is the one the client wrote.
\<close>

lemma second_forwarded_line_ignored:
  "Header_Get [(''X-Forwarded-For'', forged # appended)] ''X-Forwarded-For'' = forged"
  by (simp add: Header_Get_def)

text \<open>
  The options never leave the transport without a logger of its own, so that the logger of the
  request's context, the documented fallback, is not used.
\<close>

lemma trace_attrs_logger [simp]:
  "trace_attrs env (ctx \<lparr> ctx_logger := l \<rparr>) project = trace_attrs env ctx project"
  proof -
  have sc: "SpanContextFromContext (Some (ctx \<lparr> ctx_logger := l \<rparr>)) = SpanContextFromContext (Some ctx)"
    and p: "TraceProjectIDFromContext (Some (ctx \<lparr> ctx_logger := l \<rparr>)) = TraceProjectIDFromContext (Some ctx)"
    by (simp_all add: SpanContextFromContext_def TraceProjectIDFromContext_def)
  show ?thesis
    unfolding trace_attrs_def TraceAttributes_def ExtractTraceSpan_def resolveTraceProject_def sc p
    by (simp only: option.case)
qed

lemma transport_ignores_context_logger:
  "ctx_logger (st_ctx (RoundTrip env with_attrs d i t0 t1 t (ctx \<lparr> ctx_logger := l \<rparr>) r))
    = ctx_logger (st_ctx (RoundTrip env with_attrs d i t0 t1 t ctx r))"
  by (simp add: RoundTrip_def Let_def rt_buildAttrs_def attachContext_def baseLogger_def split: prod.split)

text \<open>A transport with no options: a nil base is the default transport, and the project detected.\<close>

lemma Transport_defaults:
  "Transport vars l info dt None [] =
     \<lparr>rt_base = dt, rt_cfg = applyTrustRemoteTraceEnv vars (http_defaultConfig l),
      rt_projectID = TrimSpace (ProjectID info)\<rparr>"
proof -
  have "hc_projectID (applyTrustRemoteTraceEnv vars (http_defaultConfig l)) = []"
    by (simp add: applyTrustRemoteTraceEnv_def http_defaultConfig_def Let_def split: option.split)
  moreover have "TrimSpace [] = []" by code_simp
  ultimately show ?thesis by (simp add: Transport_def http_applyOptions_def resolveProjectID_def Let_def)
qed

lemma handleNilRequest_error_first: "snd (handleNilRequest (resp, Some e)) \<noteq> None \<and> fst (handleNilRequest (resp, Some e)) = None"
  by (simp add: handleNilRequest_def)

end
