(* ===== verification/GrpcTrace.thy ===== *)
theory GrpcTrace
  imports HttpTrace
begin

text \<open>
  \<^verbatim>\<open>slogcpgrpc/trace.go\<close>: trace context in gRPC metadata, read from the
  propagators, from \<^verbatim>\<open>grpc-trace-bin\<close>, from \<^verbatim>\<open>traceparent\<close> and from the
  legacy header, and written on the way out. The package repeats the reader of
  \<^verbatim>\<open>slogcphttp\<close> with two differences: one value instead of a list, and a substring
  test for the sampling option.

  \<^verbatim>\<open>metadata.MD\<close> is the parameter \<open>md_api\<close>, with the documented law that keys are
  compared in lower case; the W3C propagator is a parameter as every propagator is.
\<close>

section \<open>Metadata\<close>

type_synonym MD = "gostring list gomap"

record md_api =
  MD_Get :: "MD \<Rightarrow> gostring \<Rightarrow> gostring list"
  MD_Set :: "MD \<Rightarrow> gostring \<Rightarrow> gostring \<Rightarrow> MD"

definition md_laws :: "md_api \<Rightarrow> bool" where
  "md_laws m \<longleftrightarrow>
     (\<forall>md k v. MD_Get m (MD_Set m md k v) (ToLower k) = [v]) \<and>
     (\<forall>md k v k'. ToLower k' \<noteq> ToLower k \<longrightarrow> MD_Get m (MD_Set m md k v) k' = MD_Get m md k')"

definition mdc_Get :: "md_api \<Rightarrow> MD \<Rightarrow> gostring \<Rightarrow> gostring" where
  "mdc_Get m md key = (case MD_Get m md key of [] \<Rightarrow> [] | v # _ \<Rightarrow> v)"

definition mdc_Set :: "md_api \<Rightarrow> MD \<Rightarrow> gostring \<Rightarrow> gostring \<Rightarrow> MD" where
  "mdc_Set m md key v = MD_Set m md key v"

definition mdc_Keys :: "MD \<Rightarrow> gostring list" where
  "mdc_Keys md = map fst md"

definition md_first :: "md_api \<Rightarrow> MD option \<Rightarrow> gostring \<Rightarrow> gostring" where
  "md_first m md key =
     (case md of None \<Rightarrow> [] | Some d \<Rightarrow> (case MD_Get m d key of [] \<Rightarrow> [] | v # _ \<Rightarrow> v))"

section \<open>The binary header\<close>

text \<open>\<^verbatim>\<open>base64.StdEncoding.DecodeString\<close>: line breaks are ignored, padding is strict.\<close>

definition b64_value :: "char \<Rightarrow> nat option" where
  "b64_value c =
     (let n = of_char c in
      if 65 \<le> n \<and> n \<le> 90 then Some (n - 65)
      else if 97 \<le> n \<and> n \<le> 122 then Some (n - 71)
      else if 48 \<le> n \<and> n \<le> 57 then Some (n + 4)
      else if c = CHR ''+'' then Some 62
      else if c = CHR ''/'' then Some 63
      else None)"

fun b64_groups :: "gostring \<Rightarrow> gostring option" where
  "b64_groups [] = Some []"
| "b64_groups (a # b # c # d # rest) =
     (case (b64_value a, b64_value b) of
        (Some x, Some y) \<Rightarrow>
          if c = CHR ''='' \<and> d = CHR ''='' \<and> rest = [] then Some [char_of (x * 4 + y div 16)]
          else (case b64_value c of
             None \<Rightarrow> None
           | Some z \<Rightarrow>
               if d = CHR ''='' \<and> rest = []
               then Some [char_of (x * 4 + y div 16), char_of (y mod 16 * 16 + z div 4)]
               else (case b64_value d of
                  None \<Rightarrow> None
                | Some w \<Rightarrow>
                    map_option (\<lambda>bs. char_of (x * 4 + y div 16) # char_of (y mod 16 * 16 + z div 4)
                      # char_of (z mod 4 * 64 + w) # bs) (b64_groups rest)))
      | _ \<Rightarrow> None)"
| "b64_groups _ = None"

definition DecodeString :: "gostring \<Rightarrow> gostring option" where
  "DecodeString s = b64_groups (filter (\<lambda>c. c \<noteq> CHR 0x0A \<and> c \<noteq> CHR 0x0D) s)"

record grpcTraceBinParser =
  data :: gostring
  offset :: nat

definition newGRPCTraceBinParser :: "gostring \<Rightarrow> grpcTraceBinParser option" where
  "newGRPCTraceBinParser val =
     (if val = [] then None
      else case DecodeString val of
             None \<Rightarrow> None
           | Some bs \<Rightarrow> if length bs < 29 \<or> bs ! 0 \<noteq> CHR 0x00 then None
               else Some \<lparr>data = bs, offset = 1\<rparr>)"

definition consume :: "char \<Rightarrow> nat \<Rightarrow> grpcTraceBinParser \<Rightarrow> (gostring \<times> grpcTraceBinParser) option" where
  "consume expected len p =
     (if offset p \<ge> length (data p) \<or> data p ! offset p \<noteq> expected
         \<or> length (data p) < offset p + 1 + len then None
      else Some (take len (drop (offset p + 1) (data p)), p \<lparr> offset := offset p + 1 + len \<rparr>))"

definition big_endian :: "gostring \<Rightarrow> 'a::len word" where
  "big_endian bs = foldl (\<lambda>acc c. acc * 256 + of_nat (of_char c)) 0 bs"

definition bin_traceID :: "grpcTraceBinParser \<Rightarrow> (TraceID \<times> grpcTraceBinParser) option" where
  "bin_traceID p = map_option (\<lambda>(bs, q). (big_endian bs, q)) (consume (CHR 0x00) 16 p)"

definition bin_spanID :: "grpcTraceBinParser \<Rightarrow> (SpanID \<times> grpcTraceBinParser) option" where
  "bin_spanID p = map_option (\<lambda>(bs, q). (big_endian bs, q)) (consume (CHR 0x01) 8 p)"

definition bin_flags :: "grpcTraceBinParser \<Rightarrow> 8 word option" where
  "bin_flags p =
     (if offset p \<ge> length (data p) \<or> data p ! offset p \<noteq> CHR 0x02
         \<or> length (data p) < offset p + 2 then None
      else Some (of_nat (of_char (data p ! (offset p + 1)))))"

definition validateTraceID :: "TraceID \<Rightarrow> bool" where
  "validateTraceID t \<longleftrightarrow> t \<noteq> 0"

definition validateSpanContext :: "otel \<Rightarrow> TraceID \<Rightarrow> SpanID \<Rightarrow> 8 word \<Rightarrow> SpanContext option" where
  "validateSpanContext api t s flags =
     (let sc = \<lparr>TraceID_of = t, SpanID_of = s, TraceFlags = flags, Remote = True\<rparr>
      in if IsValid api sc then Some sc else None)"

definition parseGRPCTraceBin :: "otel \<Rightarrow> gostring \<Rightarrow> SpanContext option" where
  "parseGRPCTraceBin api val =
     (case newGRPCTraceBinParser val of
        None \<Rightarrow> None
      | Some p0 \<Rightarrow>
          (case bin_traceID p0 of
             None \<Rightarrow> None
           | Some (t, p1) \<Rightarrow>
               (case bin_spanID p1 of
                  None \<Rightarrow> None
                | Some (s, p2) \<Rightarrow>
                    (case bin_flags p2 of
                       None \<Rightarrow> None
                     | Some flags \<Rightarrow> validateSpanContext api t s flags))))"

section \<open>The legacy header\<close>

definition grpc_splitXCloudTraceHeader :: "gostring \<Rightarrow> xCloudTraceParts option" where
  "grpc_splitXCloudTraceHeader raw =
     (let header = TrimSpace raw
      in if header = [] then None
         else case Cut header (CHR '';'') of (idPart0, opts, _) \<Rightarrow>
           let idPart = TrimSpace idPart0
           in if idPart = [] then None
              else case Cut idPart (CHR ''/'') of (a, b, found) \<Rightarrow>
                Some (if found
                      then \<lparr>traceID = TrimSpace a, spanDecimal = TrimSpace b, options = opts\<rparr>
                      else \<lparr>traceID = idPart, spanDecimal = [], options = opts\<rparr>))"

definition grpc_parseSpanID :: "SpanID option \<Rightarrow> gostring \<Rightarrow> SpanID option" where
  "grpc_parseSpanID rnd dec =
     (let spanID = (if dec \<noteq> [] then (case ParseUint dec 10 of Some n \<Rightarrow> of_nat n | None \<Rightarrow> 0) else 0)
      in if spanID \<noteq> 0 then Some spanID else rnd)"

definition grpc_traceFlagsFromOptions :: "gostring \<Rightarrow> 8 word" where
  "grpc_traceFlagsFromOptions opts = (if Contains opts ''o=1'' then FlagsSampled else 0)"

definition grpc_parseXCloudTrace :: "otel \<Rightarrow> SpanID option \<Rightarrow> gostring \<Rightarrow> SpanContext option" where
  "grpc_parseXCloudTrace api rnd header =
     (case grpc_splitXCloudTraceHeader header of
        None \<Rightarrow> None
      | Some parts \<Rightarrow>
          (case TraceIDFromHex api (traceID parts) of
             None \<Rightarrow> None
           | Some t \<Rightarrow>
               if \<not> validateTraceID t then None
               else case grpc_parseSpanID rnd (spanDecimal parts) of
                      None \<Rightarrow> None
                    | Some s \<Rightarrow>
                        validateSpanContext api t s (grpc_traceFlagsFromOptions (options parts))))"

definition grpc_contextWithXCloudTrace ::
  "otel \<Rightarrow> SpanID option \<Rightarrow> goctx \<Rightarrow> gostring \<Rightarrow> goctx option" where
  "grpc_contextWithXCloudTrace api rnd ctx header =
     map_option (ContextWithRemoteSpanContext ctx) (grpc_parseXCloudTrace api rnd header)"

section \<open>Extraction\<close>

record grpc_config =
  logger :: "logger option"
  projectID :: gostring
  enableOTel :: bool
  propagators :: "propagator option"
  propagatorsSet :: bool
  propagateTrace :: bool
  publicEndpoint :: bool
  includePeer :: bool
  includeSizes :: bool
  injectLegacyXCTC :: bool

text \<open>
  What the package takes from its environment: the APIs, OpenTelemetry's global propagator,
  the W3C propagator, and the random span ID.
\<close>

record trace_env =
  te_otel :: otel
  te_md :: md_api
  te_global :: "propagator option"
  te_w3c :: propagator
  te_random :: "SpanID option"

definition extractWithPropagator ::
  "trace_env \<Rightarrow> goctx \<Rightarrow> MD option \<Rightarrow> ('c grpc_config_scheme) option \<Rightarrow> goctx \<times> SpanContext" where
  "extractWithPropagator env ctx md cfg =
     (let propagator = (case cfg of
            Some c \<Rightarrow> (case propagators c of
                Some p \<Rightarrow> Some p
              | None \<Rightarrow> if \<not> propagatorsSet c then te_global env else None)
          | None \<Rightarrow> te_global env)
      in case propagator of
           None \<Rightarrow> (ctx, ctx_span ctx)
         | Some p \<Rightarrow> (let extracted = Extract p ctx (case md of None \<Rightarrow> [] | Some d \<Rightarrow> d)
                      in (extracted, ctx_span extracted)))"

definition extractGRPCTraceBin :: "trace_env \<Rightarrow> goctx \<Rightarrow> MD option \<Rightarrow> goctx \<times> SpanContext" where
  "extractGRPCTraceBin env ctx md =
     (let val = md_first (te_md env) md ''grpc-trace-bin''
      in if val = [] then (ctx, ctx_span ctx)
         else case parseGRPCTraceBin (te_otel env) val of
                Some sc \<Rightarrow> (ContextWithRemoteSpanContext ctx sc, sc)
              | None \<Rightarrow> (ctx, ctx_span ctx))"

definition extractTraceParent :: "trace_env \<Rightarrow> goctx \<Rightarrow> MD option \<Rightarrow> goctx \<times> SpanContext" where
  "extractTraceParent env ctx md =
     (if md_first (te_md env) md ''traceparent'' = [] then (ctx, ctx_span ctx)
      else let extracted = Extract (te_w3c env) ctx (case md of None \<Rightarrow> [] | Some d \<Rightarrow> d)
           in (extracted, ctx_span extracted))"

definition extractXCloudTraceHeader :: "trace_env \<Rightarrow> goctx \<Rightarrow> MD option \<Rightarrow> goctx \<times> SpanContext" where
  "extractXCloudTraceHeader env ctx md =
     (let val = md_first (te_md env) md (ToLower XCloudTraceContextHeader)
      in if val = [] then (ctx, ctx_span ctx)
         else case grpc_contextWithXCloudTrace (te_otel env) (te_random env) ctx val of
                Some newCtx \<Rightarrow> (newCtx, ctx_span newCtx)
              | None \<Rightarrow> (ctx, ctx_span ctx))"

definition extractFromHeaders :: "trace_env \<Rightarrow> goctx \<Rightarrow> MD option \<Rightarrow> goctx \<times> SpanContext" where
  "extractFromHeaders env ctx md =
     (let valid = (\<lambda>r. IsValid (te_otel env) (snd r));
          r1 = extractGRPCTraceBin env ctx md
      in if valid r1 then r1
         else let r2 = extractTraceParent env ctx md
         in if valid r2 then r2
            else let r3 = extractXCloudTraceHeader env ctx md
            in if valid r3 then r3 else (ctx, ctx_span ctx))"

definition ensureServerSpanContext ::
  "trace_env \<Rightarrow> goctx \<Rightarrow> MD option \<Rightarrow> ('c grpc_config_scheme) option \<Rightarrow> goctx \<times> SpanContext" where
  "ensureServerSpanContext env ctx md cfg =
     (if (case cfg of Some c \<Rightarrow> \<not> propagateTrace c | None \<Rightarrow> False) then (ctx, ctx_span ctx)
      else if IsValid (te_otel env) (ctx_span ctx) then (ctx, ctx_span ctx)
      else let r1 = extractWithPropagator env ctx md cfg
      in if IsValid (te_otel env) (snd r1) then r1
         else let r2 = extractFromHeaders env ctx md
         in if IsValid (te_otel env) (snd r2) then r2
            else (ctx, ctx_span ctx))"

section \<open>Injection\<close>

definition injectWithPropagator :: "goctx \<Rightarrow> MD \<Rightarrow> propagator option \<Rightarrow> MD" where
  "injectWithPropagator ctx md p = (case p of None \<Rightarrow> md | Some pr \<Rightarrow> Inject pr ctx md)"

definition injectConfiguredPropagator ::
  "trace_env \<Rightarrow> goctx \<Rightarrow> MD \<Rightarrow> 'c grpc_config_scheme \<Rightarrow> MD" where
  "injectConfiguredPropagator env ctx md c =
     injectWithPropagator ctx md
       (case propagators c of
          Some p \<Rightarrow> Some p
        | None \<Rightarrow> if \<not> propagatorsSet c then te_global env else None)"

definition injectLegacyXCloudTrace ::
  "trace_env \<Rightarrow> goctx \<Rightarrow> MD \<Rightarrow> 'c grpc_config_scheme \<Rightarrow> MD" where
  "injectLegacyXCloudTrace env ctx md c =
     (if \<not> injectLegacyXCTC c then md
      else let sc = ctx_span ctx; api = te_otel env
      in if \<not> IsValid api sc then md
         else if md_first (te_md env) (Some md) (ToLower XCloudTraceContextHeader) \<noteq> [] then md
         else MD_Set (te_md env) md XCloudTraceContextHeader
                (BuildXCloudTraceContext (TraceID_String api (TraceID_of sc))
                   (SpanID_String api (SpanID_of sc)) (IsSampled api sc)))"

definition injectClientTrace ::
  "trace_env \<Rightarrow> goctx \<Rightarrow> MD \<Rightarrow> ('c grpc_config_scheme) option \<Rightarrow> MD" where
  "injectClientTrace env ctx md cfg =
     (case cfg of
        None \<Rightarrow> injectWithPropagator ctx md (te_global env)
      | Some c \<Rightarrow>
          if \<not> propagateTrace c then md
          else injectLegacyXCloudTrace env ctx (injectConfiguredPropagator env ctx md c) c)"

section \<open>This reader satisfies the contract too\<close>

lemma grpc_split_same: "grpc_splitXCloudTraceHeader = splitXCloudTraceHeader"
  by (simp add: fun_eq_iff grpc_splitXCloudTraceHeader_def splitXCloudTraceHeader_def)

lemma grpc_parseSpanID_same: "grpc_parseSpanID = parseSpanID"
  by (simp add: fun_eq_iff grpc_parseSpanID_def parseSpanID_def)

lemma grpc_flags_built: "grpc_traceFlagsFromOptions ''o=1'' = 1" "grpc_traceFlagsFromOptions ''o=0'' = 0"
  by (simp_all add: grpc_traceFlagsFromOptions_def FlagsSampled_def)

lemma grpc_reads:
  assumes "otel_laws api" and "list_all lower_hex tid" and "list_all decimal dec" and "tid \<noteq> []"
    and "dec \<noteq> []" and "opts = ''o=1'' \<or> opts = ''o=0''" and "TraceIDFromHex api tid = Some t"
    and "ParseUint dec 10 = Some n" and "(of_nat n :: SpanID) \<noteq> 0"
  shows "grpc_parseXCloudTrace api rnd (tid @ ''/'' @ dec @ '';'' @ opts) =
    Some \<lparr>TraceID_of = t, SpanID_of = of_nat n, TraceFlags = grpc_traceFlagsFromOptions opts, Remote = True\<rparr>"
proof -
  have t: "t \<noteq> 0" using otel_lawsD(4) [OF assms(1)] assms(7) by blast
  show ?thesis
    unfolding grpc_parseXCloudTrace_def grpc_split_same split_built [OF assms(2-6)] grpc_parseSpanID_same
    using t assms(5,7-9)
    by (simp add: parseSpanID_decimal validateSpanContext_def validateTraceID_def Let_def
        otel_lawsD(7) [OF assms(1)])
qed

lemma grpc_xcloud_reader:
  "otel_laws api \<Longrightarrow> xcloud_reader api (grpc_parseXCloudTrace api rnd) grpc_traceFlagsFromOptions"
  by unfold_locales (simp_all add: grpc_reads [simplified] grpc_flags_built)

interpretation grpc_header: xcloud_reader w3c "grpc_parseXCloudTrace w3c rnd" grpc_traceFlagsFromOptions
  for rnd
  by (rule grpc_xcloud_reader [OF w3c_laws])

text \<open>
  A gRPC client with legacy injection on and a gRPC server agree on the trace:
  unless the metadata already had the header, what the client writes for a valid span the
  server's reader turns into a remote span context with the same identifiers and sampling
  bit.
\<close>

theorem grpc_legacy_injection_roundtrip:
  assumes "otel_laws (te_otel env)" and "md_laws (te_md env)"
    and "IsValid (te_otel env) (ctx_span ctx)" and "injectLegacyXCTC c"
    and "md_first (te_md env) (Some md) (ToLower XCloudTraceContextHeader) = []"
  shows "grpc_parseXCloudTrace (te_otel env) rnd
      (md_first (te_md env) (Some (injectLegacyXCloudTrace env ctx md c)) (ToLower XCloudTraceContextHeader))
    = Some \<lparr>TraceID_of = TraceID_of (ctx_span ctx), SpanID_of = SpanID_of (ctx_span ctx),
        TraceFlags = (if bit (TraceFlags (ctx_span ctx)) 0 then 1 else 0), Remote = True\<rparr>"
proof -
  have ids: "TraceID_of (ctx_span ctx) \<noteq> 0" "SpanID_of (ctx_span ctx) \<noteq> 0"
    using assms(3) otel_lawsD(7) [OF assms(1)] by blast+
  have get: "MD_Get (te_md env) (MD_Set (te_md env) md XCloudTraceContextHeader v)
      (ToLower XCloudTraceContextHeader) = [v]" for v
    using assms(2) by (simp add: md_laws_def)
  show ?thesis
    using xcloud_reader.reads_built [OF grpc_xcloud_reader [OF assms(1)] ids] assms(3-5)
    by (simp add: injectLegacyXCloudTrace_def Let_def md_first_def get otel_lawsD(8) [OF assms(1)])
qed

definition lower_md :: md_api where
  "lower_md =
     \<lparr>MD_Get = (\<lambda>md k. case map_of md (ToLower k) of None \<Rightarrow> [] | Some vs \<Rightarrow> vs),
      MD_Set = (\<lambda>md k v. mput (ToLower k) [v] md)\<rparr>"

lemma lower_md_laws: "md_laws lower_md"
  by (simp add: md_laws_def lower_md_def)

definition sample_env :: trace_env where
  "sample_env =
     \<lparr>te_otel = w3c, te_md = lower_md, te_global = None,
      te_w3c = \<lparr>Inject = (\<lambda>_ md. md), Extract = (\<lambda>c _. c)\<rparr>, te_random = None\<rparr>"

definition sample_config :: grpc_config where
  "sample_config =
     \<lparr>logger = None, projectID = [], enableOTel = False, propagators = None, propagatorsSet = False,
      propagateTrace = True, publicEndpoint = False, includePeer = True, includeSizes = True,
      injectLegacyXCTC = True\<rparr>"

theorem grpc_legacy_injection_roundtrip_witness:
  "grpc_parseXCloudTrace w3c None
      (md_first lower_md (Some (injectLegacyXCloudTrace sample_env sample_ctx [] sample_config))
        (ToLower XCloudTraceContextHeader))
    = Some \<lparr>TraceID_of = 0x105445AA7843BC8BF206B12000100000, SpanID_of = 1, TraceFlags = 1,
        Remote = True\<rparr>"
proof -
  have "otel_laws (te_otel sample_env)" "md_laws (te_md sample_env)"
    "IsValid (te_otel sample_env) (ctx_span sample_ctx)" "injectLegacyXCTC sample_config"
    "md_first (te_md sample_env) (Some []) (ToLower XCloudTraceContextHeader) = []"
    by (simp_all add: sample_env_def w3c_laws lower_md_laws sample_config_def md_first_def)
      (simp_all add: w3c_def sample_ctx_def sample_span_def lower_md_def)
  from grpc_legacy_injection_roundtrip [OF this, of None] show ?thesis
    by (simp add: sample_env_def sample_ctx_def sample_span_def)
qed

section \<open>Server extraction\<close>

lemma extract_consistent:
  "snd (extractWithPropagator env ctx md cfg) = ctx_span (fst (extractWithPropagator env ctx md cfg))"
  "snd (extractTraceParent env ctx md) = ctx_span (fst (extractTraceParent env ctx md))"
  "snd (extractXCloudTraceHeader env ctx md) = ctx_span (fst (extractXCloudTraceHeader env ctx md))"
  by (simp_all add: extractWithPropagator_def extractTraceParent_def extractXCloudTraceHeader_def
      Let_def split: option.split)

lemma validateSpanContext_remote: "validateSpanContext api t s f = Some sc \<Longrightarrow> Remote sc"
  by (auto simp: validateSpanContext_def Let_def split: if_splits)

lemma parseGRPCTraceBin_remote: "parseGRPCTraceBin api val = Some sc \<Longrightarrow> Remote sc"
  by (auto simp: parseGRPCTraceBin_def validateSpanContext_remote split: option.splits)

lemma extractGRPCTraceBin_consistent:
  "snd (extractGRPCTraceBin env ctx md) = ctx_span (fst (extractGRPCTraceBin env ctx md))"
proof -
  have "Remote sc \<Longrightarrow> sc \<lparr> Remote := True \<rparr> = sc" for sc :: SpanContext
    by (cases sc) simp
  then show ?thesis
    by (auto simp: extractGRPCTraceBin_def ContextWithRemoteSpanContext_def Let_def
        dest: parseGRPCTraceBin_remote split: option.split)
qed

lemma extractFromHeaders_consistent:
  "snd (extractFromHeaders env ctx md) = ctx_span (fst (extractFromHeaders env ctx md))"
  by (simp add: extractFromHeaders_def Let_def extract_consistent extractGRPCTraceBin_consistent)

text \<open>
  On the server side the span context reported is always the one in the context
  handed to the RPC handler. A context that already carries a valid span, or a configuration
  with propagation off, is passed on untouched, so incoming metadata never replaces a local
  span.
\<close>

theorem ensureServerSpanContext_consistent:
  "snd (ensureServerSpanContext env ctx md cfg) = ctx_span (fst (ensureServerSpanContext env ctx md cfg))
   \<and> fst (ensureServerSpanContext env (ctx \<lparr> ctx_span := sc \<rparr>) md (Some (c \<lparr> propagateTrace := False \<rparr>)))
       = ctx \<lparr> ctx_span := sc \<rparr>
   \<and> (if IsValid (te_otel env) (ctx_span ctx) then fst (ensureServerSpanContext env ctx md cfg) = ctx
      else fst (ensureServerSpanContext env ctx md cfg)
             \<in> {ctx, fst (extractWithPropagator env ctx md cfg), fst (extractFromHeaders env ctx md)})"
  by (auto simp: ensureServerSpanContext_def Let_def extract_consistent
      extractFromHeaders_consistent)

section \<open>The layout of the binary header\<close>

text \<open>
  The binary reader never reads out of bounds and accepts exactly the documented
  layout: version 0, then field 0 with 16 bytes of trace ID, field 1 with 8 bytes of span ID,
  field 2 with the flags byte, at fixed offsets of at least 29 decoded bytes, with both
  identifiers valid.
\<close>

theorem parseGRPCTraceBin_layout:
  "parseGRPCTraceBin api val =
     (case DecodeString val of
        None \<Rightarrow> None
      | Some bs \<Rightarrow>
          if val \<noteq> [] \<and> 29 \<le> length bs \<and> bs ! 0 = CHR 0x00 \<and> bs ! 1 = CHR 0x00 \<and> bs ! 18 = CHR 0x01
             \<and> bs ! 27 = CHR 0x02
          then validateSpanContext api (big_endian (take 16 (drop 2 bs)))
                 (big_endian (take 8 (drop 19 bs))) (of_nat (of_char (bs ! 28)))
          else None)"
  by (auto simp: parseGRPCTraceBin_def newGRPCTraceBinParser_def bin_traceID_def bin_spanID_def
      bin_flags_def consume_def numeral_2_eq_2 split: option.split)

text \<open>
  A value that the transport has already decoded starts with the version byte 0, which is no
  base64 digit: such a header is rejected.
\<close>

lemma raw_trace_bin_rejected: "parseGRPCTraceBin api (CHR 0x00 # bs) = None"
proof -
  have none: "b64_groups (CHR 0x00 # cs) = None" for cs
    by (cases cs; cases "tl cs"; cases "tl (tl cs)") (auto simp: b64_value_def)
  have "DecodeString (CHR 0x00 # bs) = None" by (simp add: DecodeString_def none)
  then show ?thesis by (simp add: parseGRPCTraceBin_layout)
qed

text \<open>The two packages disagree on options that merely contain the text of the sampling one.\<close>

lemma grpc_sampling_substring:
  "grpc_traceFlagsFromOptions ''o=0;foo=1'' = 1 \<and> traceFlagsFromOptions ''o=0;foo=1'' = 0 \<and>
   grpc_traceFlagsFromOptions ''o=10'' = 1"
  by (simp add: grpc_traceFlagsFromOptions_def traceFlagsFromOptions_def FlagsSampled_def
      sampledFlagFromOptions_def visible_def Cut_def ParseUint_def digit_value_def max_uint64_def
      Let_def)

end
