(* ===== verification/GrpcRequest.thy ===== *)
theory GrpcRequest
  imports GrpcTrace RuntimeInfo
begin

text \<open>
  The gRPC instrumentation of \<^verbatim>\<open>slogcpgrpc\<close>: options (\<^verbatim>\<open>options.go\<close>), the
  per-RPC record (\<^verbatim>\<open>request_info.go\<close>) and the interceptors with their stream
  wrappers (\<^verbatim>\<open>interceptors.go\<close>).

  What the wrapped gRPC runtime answers (the error of a call, the size of a message, the peer
  address, the metadata) is an argument of the operation that asks for it. The status functions
  of \<^verbatim>\<open>google.golang.org/grpc/status\<close> are the parameter \<open>status_api\<close>.
\<close>

section \<open>Errors and messages\<close>

type_synonym code = nat

definition codes_OK :: code where "codes_OK = 0"
definition codes_Unknown :: code where "codes_Unknown = 2"

text \<open>
  \<open>io.EOF\<close>, an error of the gRPC runtime or of the application known by its identity, or the
  package's own wrapper: operation, wrapped error, and the status (a code and a message).
\<close>

datatype rpc_error = IO_EOF | Opaque nat | statusErrorWrapper gostring rpc_error "code \<times> gostring"

record status_api =
  st_Is_EOF :: "nat \<Rightarrow> bool"
  st_Text :: "nat \<Rightarrow> gostring"
  st_Code :: "rpc_error option \<Rightarrow> code"
  st_Convert :: "rpc_error \<Rightarrow> code \<times> gostring"
  code_String :: "code \<Rightarrow> gostring"

text \<open>
  The documented behaviour: no error is OK, an error that is not a status is Unknown
  (\<^verbatim>\<open>io.EOF\<close> is one), an error with a \<^verbatim>\<open>GRPCStatus\<close> method has that status, and
  the code of an error is that of its conversion.
\<close>

definition status_laws :: "status_api \<Rightarrow> bool" where
  "status_laws api \<longleftrightarrow>
     st_Code api None = codes_OK \<and>
     (\<forall>e. st_Code api (Some e) = fst (st_Convert api e)) \<and>
     st_Code api (Some IO_EOF) = codes_Unknown \<and>
     (\<forall>op e st. st_Convert api (statusErrorWrapper op e st) = st)"

lemma status_lawsD:
  assumes "status_laws api"
  shows "st_Code api None = codes_OK" "st_Code api (Some e) = fst (st_Convert api e)"
    "st_Code api (Some IO_EOF) = codes_Unknown" "st_Convert api (statusErrorWrapper op e st) = st"
  using assms unfolding status_laws_def by blast+

text \<open>\<^verbatim>\<open>errors.Is(err, io.EOF)\<close> follows \<^verbatim>\<open>Unwrap\<close>.\<close>

fun Is_EOF :: "status_api \<Rightarrow> rpc_error \<Rightarrow> bool" where
  "Is_EOF api IO_EOF = True"
| "Is_EOF api (Opaque n) = st_Is_EOF api n"
| "Is_EOF api (statusErrorWrapper op e st) = Is_EOF api e"

fun rpc_Error :: "status_api \<Rightarrow> rpc_error \<Rightarrow> gostring" where
  "rpc_Error api IO_EOF = ''EOF''"
| "rpc_Error api (Opaque n) = st_Text api n"
| "rpc_Error api (statusErrorWrapper op e st) = (if op = [] then rpc_Error api e else op @ '': '' @ rpc_Error api e)"

fun rpc_Unwrap :: "rpc_error \<Rightarrow> rpc_error option" where
  "rpc_Unwrap (statusErrorWrapper op e st) = Some e"
| "rpc_Unwrap _ = None"

definition wrapStatusError :: "status_api \<Rightarrow> rpc_error option \<Rightarrow> gostring \<Rightarrow> rpc_error option" where
  "wrapStatusError api err op =
     (case err of
        None \<Rightarrow> None
      | Some e \<Rightarrow> if Is_EOF api e then Some e else Some (statusErrorWrapper op e (st_Convert api e)))"

text \<open>A message: nil, one with the size \<^verbatim>\<open>proto.Size\<close> or \<^verbatim>\<open>Size()\<close> reports, another.\<close>

datatype message = NilMessage | ProtoMessage int | SizedMessage int | OtherMessage

fun messageSize :: "message \<Rightarrow> int" where
  "messageSize (ProtoMessage n) = n"
| "messageSize (SizedMessage n) = n"
| "messageSize _ = 0"

section \<open>The record of an RPC\<close>

definition rpc_unsetLatency :: int where "rpc_unsetLatency = - 1"

record RequestInfo =
  ri_fullMethod :: gostring
  ri_service :: gostring
  ri_method :: gostring
  ri_kind :: gostring
  ri_client :: bool
  ri_start :: int
  ri_status :: code
  ri_latencyNS :: int
  ri_reqBytes :: int
  ri_respBytes :: int
  ri_reqCount :: int
  ri_respCount :: int
  ri_peer :: "gostring option"

definition splitFullMethod :: "gostring \<Rightarrow> gostring \<times> gostring" where
  "splitFullMethod full =
     (if \<not> HasPrefix full ''/'' then ([], TrimSpace full)
      else let f = TrimPrefix full ''/''
           in case Cut f (CHR ''/'') of (a, b, found) \<Rightarrow> if found then (a, b) else (f, []))"

definition newRequestInfo :: "gostring \<Rightarrow> gostring \<Rightarrow> bool \<Rightarrow> int \<Rightarrow> RequestInfo" where
  "newRequestInfo fullMethod kind client start =
     (case splitFullMethod fullMethod of (service, mname) \<Rightarrow>
       \<lparr>ri_fullMethod = fullMethod, ri_service = service, ri_method = mname, ri_kind = kind,
        ri_client = client, ri_start = start, ri_status = codes_OK, ri_latencyNS = rpc_unsetLatency,
        ri_reqBytes = 0, ri_respBytes = 0, ri_reqCount = 0, ri_respCount = 0, ri_peer = None\<rparr>)"

definition setPeer :: "gostring \<Rightarrow> RequestInfo \<Rightarrow> RequestInfo" where
  "setPeer p ri = ri \<lparr> ri_peer := Some p \<rparr>"

definition Peer :: "RequestInfo \<Rightarrow> gostring" where
  "Peer ri = (case ri_peer ri of Some p \<Rightarrow> p | None \<Rightarrow> [])"

definition recordRequest :: "message \<Rightarrow> RequestInfo \<Rightarrow> RequestInfo" where
  "recordRequest msg ri =
     (if msg = NilMessage then ri
      else let size = messageSize msg;
               ri = (if size > 0 then ri \<lparr> ri_reqBytes := ri_reqBytes ri + size \<rparr> else ri)
           in ri \<lparr> ri_reqCount := ri_reqCount ri + 1 \<rparr>)"

definition recordResponse :: "message \<Rightarrow> RequestInfo \<Rightarrow> RequestInfo" where
  "recordResponse msg ri =
     (if msg = NilMessage then ri
      else let size = messageSize msg;
               ri = (if size > 0 then ri \<lparr> ri_respBytes := ri_respBytes ri + size \<rparr> else ri)
           in ri \<lparr> ri_respCount := ri_respCount ri + 1 \<rparr>)"

definition ri_finalize :: "code \<Rightarrow> int \<Rightarrow> RequestInfo \<Rightarrow> RequestInfo" where
  "ri_finalize c duration ri = ri \<lparr> ri_status := c, ri_latencyNS := (if duration < 0 then 0 else duration) \<rparr>"

definition ri_Latency :: "int \<Rightarrow> RequestInfo \<Rightarrow> int" where
  "ri_Latency now ri = (if ri_latencyNS ri \<noteq> rpc_unsetLatency then ri_latencyNS ri else now - ri_start ri)"

section \<open>Configuration\<close>

type_synonym rpc_enricher = "goctx \<Rightarrow> RequestInfo \<Rightarrow> slogAttr list"
type_synonym rpc_transformer = "goctx \<Rightarrow> slogAttr list \<Rightarrow> RequestInfo \<Rightarrow> slogAttr list"

record rpc_config = grpc_config +
  gc_tracerProvider :: "nat option"
  gc_spanAttributes :: "nat list"
  gc_filters :: "nat list"
  gc_attrEnrichers :: "rpc_enricher list"
  gc_attrTransformers :: "rpc_transformer list"

type_synonym rpc_Option = "rpc_config \<Rightarrow> rpc_config"

definition rpc_defaultConfig :: "logger \<Rightarrow> rpc_config" where
  "rpc_defaultConfig default_logger =
     \<lparr>logger = Some default_logger, projectID = [], enableOTel = True, propagators = None,
      propagatorsSet = False, propagateTrace = True, publicEndpoint = False, includePeer = True,
      includeSizes = True, injectLegacyXCTC = False, gc_tracerProvider = None, gc_spanAttributes = [],
      gc_filters = [], gc_attrEnrichers = [], gc_attrTransformers = []\<rparr>"

definition rpc_applyOptions :: "logger \<Rightarrow> rpc_Option option list \<Rightarrow> rpc_config" where
  "rpc_applyOptions default_logger opts =
     fold (\<lambda>opt cfg. case opt of None \<Rightarrow> cfg | Some f \<Rightarrow> f cfg) opts (rpc_defaultConfig default_logger)"

definition rpc_WithLogger :: "logger \<Rightarrow> logger option \<Rightarrow> rpc_Option" where
  "rpc_WithLogger default_logger l cfg =
     (case l of None \<Rightarrow> cfg \<lparr> logger := Some default_logger \<rparr> | Some lg \<Rightarrow> cfg \<lparr> logger := Some lg \<rparr>)"

definition rpc_WithProjectID :: "gostring \<Rightarrow> rpc_Option" where
  "rpc_WithProjectID p cfg = cfg \<lparr> projectID := p \<rparr>"

definition rpc_WithPropagators :: "propagator option \<Rightarrow> rpc_Option" where
  "rpc_WithPropagators p cfg = cfg \<lparr> propagators := p, propagatorsSet := (p \<noteq> None) \<rparr>"

definition rpc_WithTracerProvider :: "nat option \<Rightarrow> rpc_Option" where
  "rpc_WithTracerProvider tp cfg = cfg \<lparr> gc_tracerProvider := tp \<rparr>"

definition rpc_WithTracePropagation :: "bool \<Rightarrow> rpc_Option" where
  "rpc_WithTracePropagation b cfg = cfg \<lparr> propagateTrace := b \<rparr>"

definition rpc_WithPublicEndpoint :: "bool \<Rightarrow> rpc_Option" where
  "rpc_WithPublicEndpoint b cfg = cfg \<lparr> publicEndpoint := b \<rparr>"

definition rpc_WithOTel :: "bool \<Rightarrow> rpc_Option" where
  "rpc_WithOTel b cfg = cfg \<lparr> enableOTel := b \<rparr>"

definition rpc_WithSpanAttributes :: "nat list \<Rightarrow> rpc_Option" where
  "rpc_WithSpanAttributes as cfg = cfg \<lparr> gc_spanAttributes := gc_spanAttributes cfg @ as \<rparr>"

definition rpc_WithFilter :: "nat option \<Rightarrow> rpc_Option" where
  "rpc_WithFilter f cfg =
     (case f of None \<Rightarrow> cfg | Some g \<Rightarrow> cfg \<lparr> gc_filters := gc_filters cfg @ [g] \<rparr>)"

definition rpc_WithAttrEnricher :: "rpc_enricher option \<Rightarrow> rpc_Option" where
  "rpc_WithAttrEnricher e cfg =
     (case e of None \<Rightarrow> cfg | Some f \<Rightarrow> cfg \<lparr> gc_attrEnrichers := gc_attrEnrichers cfg @ [f] \<rparr>)"

definition rpc_WithAttrTransformer :: "rpc_transformer option \<Rightarrow> rpc_Option" where
  "rpc_WithAttrTransformer t cfg =
     (case t of None \<Rightarrow> cfg | Some f \<Rightarrow> cfg \<lparr> gc_attrTransformers := gc_attrTransformers cfg @ [f] \<rparr>)"

definition rpc_WithPeerInfo :: "bool \<Rightarrow> rpc_Option" where
  "rpc_WithPeerInfo b cfg = cfg \<lparr> includePeer := b \<rparr>"

definition rpc_WithPayloadSizes :: "bool \<Rightarrow> rpc_Option" where
  "rpc_WithPayloadSizes b cfg = cfg \<lparr> includeSizes := b \<rparr>"

definition rpc_WithLegacyXCloudInjection :: "bool \<Rightarrow> rpc_Option" where
  "rpc_WithLegacyXCloudInjection b cfg = cfg \<lparr> injectLegacyXCTC := b \<rparr>"

section \<open>Attributes\<close>

datatype requestInfoValueKind = requestInfoStatus | requestInfoDuration | requestInfoRequestBytes
  | requestInfoResponseBytes | requestInfoRequestCount | requestInfoResponseCount

text \<open>The value an attribute has when it is resolved at time \<open>now\<close>, with the record as it is then.\<close>

fun requestInfo_LogValue :: "status_api \<Rightarrow> int \<Rightarrow> RequestInfo option \<Rightarrow> requestInfoValueKind \<Rightarrow> slogValue" where
  "requestInfo_LogValue api now None k = VAny GNil"
| "requestInfo_LogValue api now (Some ri) requestInfoStatus = VString (code_String api (ri_status ri))"
| "requestInfo_LogValue api now (Some ri) requestInfoDuration = VDuration (ri_Latency now ri)"
| "requestInfo_LogValue api now (Some ri) requestInfoRequestBytes = VInt64 (ri_reqBytes ri)"
| "requestInfo_LogValue api now (Some ri) requestInfoResponseBytes = VInt64 (ri_respBytes ri)"
| "requestInfo_LogValue api now (Some ri) requestInfoRequestCount = VInt64 (ri_reqCount ri)"
| "requestInfo_LogValue api now (Some ri) requestInfoResponseCount = VInt64 (ri_respCount ri)"

definition lazy_attr :: "status_api \<Rightarrow> int \<Rightarrow> RequestInfo \<Rightarrow> gostring \<Rightarrow> requestInfoValueKind \<Rightarrow> slogAttr" where
  "lazy_attr api now ri key k =
     (key, VLogValuer (LVReturns ''slogcpgrpc.requestInfoValue'' (requestInfo_LogValue api now (Some ri) k)))"

definition statusAttr :: "status_api \<Rightarrow> int \<Rightarrow> RequestInfo \<Rightarrow> slogAttr" where
  "statusAttr api now ri = lazy_attr api now ri ''grpc.status_code'' requestInfoStatus"

definition durationAttr :: "status_api \<Rightarrow> int \<Rightarrow> RequestInfo \<Rightarrow> slogAttr" where
  "durationAttr api now ri = lazy_attr api now ri ''rpc.duration'' requestInfoDuration"

definition appendBaseRPCAttrs :: "RequestInfo \<Rightarrow> slogAttr list" where
  "appendBaseRPCAttrs ri =
     [(''rpc.system'', VString ''grpc'')] @
     (if ri_service ri \<noteq> [] then [(''rpc.service'', VString (ri_service ri))] else []) @
     (if ri_method ri \<noteq> [] then [(''rpc.method'', VString (ri_method ri))] else []) @
     (if ri_kind ri \<noteq> [] then [(''grpc.type'', VString (ri_kind ri))] else [])"

definition rpc_appendSizeAttrs :: "status_api \<Rightarrow> int \<Rightarrow> rpc_config \<Rightarrow> RequestInfo \<Rightarrow> slogAttr list" where
  "rpc_appendSizeAttrs api now cfg ri =
     (if \<not> includeSizes cfg then []
      else [lazy_attr api now ri ''rpc.request_size'' requestInfoRequestBytes,
            lazy_attr api now ri ''rpc.response_size'' requestInfoResponseBytes,
            lazy_attr api now ri ''rpc.request_count'' requestInfoRequestCount,
            lazy_attr api now ri ''rpc.response_count'' requestInfoResponseCount])"

definition appendPeerAttr :: "rpc_config \<Rightarrow> RequestInfo \<Rightarrow> slogAttr list" where
  "appendPeerAttr cfg ri =
     (if \<not> includePeer cfg then []
      else let p = Peer ri in if p \<noteq> [] then [(''net.peer.ip'', VString p)] else [])"

definition rpc_loggerAttrs ::
  "status_api \<Rightarrow> int \<Rightarrow> rpc_config \<Rightarrow> slogAttr list \<Rightarrow> RequestInfo \<Rightarrow> slogAttr list" where
  "rpc_loggerAttrs api now cfg traceAttrs ri =
     traceAttrs @ appendBaseRPCAttrs ri @ [statusAttr api now ri, durationAttr api now ri] @
     rpc_appendSizeAttrs api now cfg ri @ appendPeerAttr cfg ri"

section \<open>Interceptors\<close>

record rpc_env =
  re_trace :: trace_env
  re_status :: status_api
  re_environ :: environ

text \<open>\<open>with_attrs\<close> derives a logger; \<open>default_logger\<close> is \<^verbatim>\<open>slog.Default()\<close>.\<close>

record rpc_loggers =
  rl_default :: logger
  rl_with_attrs :: "logger \<Rightarrow> slogAttr list \<Rightarrow> logger"

definition rpc_loggerWithAttrs :: "rpc_loggers \<Rightarrow> logger option \<Rightarrow> slogAttr list \<Rightarrow> logger" where
  "rpc_loggerWithAttrs rl base attrs =
     (let b = (case base of None \<Rightarrow> rl_default rl | Some l \<Rightarrow> l)
      in if attrs = [] then b else rl_with_attrs rl b attrs)"

text \<open>The context, and the attributes bound to its logger as they are when resolved at \<open>now\<close>.\<close>

definition attachLogger ::
  "rpc_env \<Rightarrow> rpc_loggers \<Rightarrow> int \<Rightarrow> goctx \<Rightarrow> rpc_config \<Rightarrow> nat \<Rightarrow> RequestInfo \<Rightarrow> gostring \<Rightarrow> goctx \<times> slogAttr list" where
  "attachLogger env rl now ctx cfg info_id ri project =
     (let traceAttrs = (case TraceAttributes (te_otel (re_trace env)) (re_environ env) (Some ctx) project of
                          None \<Rightarrow> [] | Some as \<Rightarrow> as);
          attrs = rpc_loggerAttrs (re_status env) now cfg traceAttrs ri;
          attrs = fold (\<lambda>enricher as. as @ enricher ctx ri) (gc_attrEnrichers cfg) attrs;
          attrs = fold (\<lambda>transformer as. transformer ctx as ri) (gc_attrTransformers cfg) attrs;
          base = (case logger cfg of Some l \<Rightarrow> Some l | None \<Rightarrow> Some (Logger (rl_default rl) (Some ctx)))
      in (ctx \<lparr> ctx_logger := Some (rpc_loggerWithAttrs rl base attrs), ctx_info := Some info_id \<rparr>, attrs))"

definition rpc_resolveProjectID :: "gostring \<Rightarrow> gostring \<Rightarrow> gostring" where
  "rpc_resolveProjectID explicit detected =
     (let p = TrimSpace explicit in if p \<noteq> [] then p else TrimSpace detected)"

text \<open>The argument is the text of the peer's address, \<open>None\<close> when the context has none.\<close>

definition peerAddress :: "gostring option \<Rightarrow> gostring option" where
  "peerAddress peer =
     (case peer of
        None \<Rightarrow> None
      | Some addr \<Rightarrow> (case SplitHostPort addr of Some (host, _) \<Rightarrow> Some host | None \<Rightarrow> Some addr))"

definition kindUnary :: gostring where "kindUnary = ''unary''"
definition kindBidiStream :: gostring where "kindBidiStream = ''bidi_stream''"
definition kindClientStream :: gostring where "kindClientStream = ''client_stream''"
definition kindServerStream :: gostring where "kindServerStream = ''server_stream''"

text \<open>Both kinds of stream description are two flags: client streaming, server streaming.\<close>

definition streamKind :: "bool \<Rightarrow> bool \<Rightarrow> gostring" where
  "streamKind client_stream server_stream =
     (if client_stream \<and> server_stream then kindBidiStream
      else if client_stream then kindClientStream
      else if server_stream then kindServerStream
      else kindUnary)"

definition clientStreamKind :: "bool \<Rightarrow> bool \<Rightarrow> gostring" where
  "clientStreamKind client_streams server_streams =
     (if client_streams \<and> server_streams then kindBidiStream
      else if client_streams then kindClientStream
      else if server_streams then kindServerStream
      else kindUnary)"

definition with_peer :: "rpc_config \<Rightarrow> gostring option \<Rightarrow> RequestInfo \<Rightarrow> RequestInfo" where
  "with_peer cfg peer ri =
     (if includePeer cfg then (case peerAddress peer of None \<Rightarrow> ri | Some a \<Rightarrow> setPeer a ri) else ri)"

record 'r rpc_outcome =
  ro_ctx :: goctx
  ro_attrs :: "slogAttr list"
  ro_md :: MD
  ro_info :: RequestInfo
  ro_result :: 'r

definition UnaryServerInterceptor ::
  "rpc_env \<Rightarrow> rpc_loggers \<Rightarrow> rpc_config \<Rightarrow> gostring \<Rightarrow> nat \<Rightarrow> int \<Rightarrow> int \<Rightarrow> goctx \<Rightarrow> MD option \<Rightarrow> gostring option
     \<Rightarrow> gostring \<Rightarrow> message \<Rightarrow> (goctx \<Rightarrow> message \<Rightarrow> message \<times> rpc_error option)
     \<Rightarrow> (message \<times> rpc_error option) rpc_outcome" where
  "UnaryServerInterceptor env rl cfg project info_id start finish ctx md peer fullMethod req handler =
     (let ctx = fst (ensureServerSpanContext (re_trace env) ctx md (Some cfg));
          ri = with_peer cfg peer (newRequestInfo fullMethod ''unary'' False start);
          ri = (if includeSizes cfg then recordRequest req ri else ri);
          (ctx, attrs) = attachLogger env rl start ctx cfg info_id ri project;
          (resp, err) = handler ctx req;
          ri = (if includeSizes cfg then recordResponse resp ri else ri);
          ri = ri_finalize (st_Code (re_status env) err) (finish - start) ri
      in \<lparr>ro_ctx = ctx, ro_attrs = attrs, ro_md = (case md of None \<Rightarrow> [] | Some m \<Rightarrow> m), ro_info = ri,
          ro_result = (resp, err)\<rparr>)"

definition UnaryClientInterceptor ::
  "rpc_env \<Rightarrow> rpc_loggers \<Rightarrow> rpc_config \<Rightarrow> gostring \<Rightarrow> nat \<Rightarrow> int \<Rightarrow> int \<Rightarrow> goctx \<Rightarrow> MD option
     \<Rightarrow> gostring \<Rightarrow> message \<Rightarrow> (goctx \<Rightarrow> MD \<Rightarrow> message \<Rightarrow> message \<times> rpc_error option)
     \<Rightarrow> (rpc_error option) rpc_outcome" where
  "UnaryClientInterceptor env rl cfg project info_id start finish ctx outgoing fullMethod req invoker =
     (let ri = newRequestInfo fullMethod ''unary'' True start;
          ri = (if includeSizes cfg then recordRequest req ri else ri);
          (ctx, attrs) = attachLogger env rl start ctx cfg info_id ri project;
          md = injectClientTrace (re_trace env) ctx (case outgoing of None \<Rightarrow> [] | Some m \<Rightarrow> m) (Some cfg);
          (reply, err) = invoker ctx md req;
          ri = (if includeSizes cfg \<and> err = None then recordResponse reply ri else ri);
          ri = ri_finalize (st_Code (re_status env) err) (finish - start) ri
      in \<lparr>ro_ctx = ctx, ro_attrs = attrs, ro_md = md, ro_info = ri, ro_result = err\<rparr>)"

section \<open>Server streams\<close>

datatype server_call = SrvRecv message "rpc_error option" | SrvSend message "rpc_error option"

text \<open>The error is what the wrapped stream answered; the result what the handler is given.\<close>

fun serverStream_call ::
  "status_api \<Rightarrow> rpc_config \<Rightarrow> server_call \<Rightarrow> RequestInfo \<Rightarrow> rpc_error option \<times> RequestInfo" where
  "serverStream_call api cfg (SrvRecv m err) ri =
     (wrapStatusError api err ''server stream recv'',
      if err = None \<and> includeSizes cfg then recordRequest m ri else ri)"
| "serverStream_call api cfg (SrvSend m err) ri =
     (wrapStatusError api err ''server stream send'',
      if includeSizes cfg then recordResponse m ri else ri)"

definition server_step :: "status_api \<Rightarrow> rpc_config \<Rightarrow> server_call \<Rightarrow> RequestInfo \<Rightarrow> RequestInfo" where
  "server_step api cfg c ri = snd (serverStream_call api cfg c ri)"

text \<open>The handler is the calls it makes on the stream and the error it returns.\<close>

definition StreamServerInterceptor ::
  "rpc_env \<Rightarrow> rpc_loggers \<Rightarrow> rpc_config \<Rightarrow> gostring \<Rightarrow> nat \<Rightarrow> int \<Rightarrow> int \<Rightarrow> goctx \<Rightarrow> MD option \<Rightarrow> gostring option
     \<Rightarrow> gostring \<Rightarrow> bool \<Rightarrow> bool \<Rightarrow> server_call list \<Rightarrow> rpc_error option \<Rightarrow> (rpc_error option) rpc_outcome" where
  "StreamServerInterceptor env rl cfg project info_id start finish ctx md peer fullMethod cs ss calls err =
     (let ctx = fst (ensureServerSpanContext (re_trace env) ctx md (Some cfg));
          ri = with_peer cfg peer (newRequestInfo fullMethod (streamKind cs ss) False start);
          (ctx, attrs) = attachLogger env rl start ctx cfg info_id ri project;
          ri = fold (server_step (re_status env) cfg) calls ri;
          ri = ri_finalize (st_Code (re_status env) err) (finish - start) ri
      in \<lparr>ro_ctx = ctx, ro_attrs = attrs, ro_md = (case md of None \<Rightarrow> [] | Some m \<Rightarrow> m), ro_info = ri,
          ro_result = err\<rparr>)"

section \<open>Client streams\<close>

record clientStreamWrapper =
  cs_info :: RequestInfo
  cs_start :: int
  cs_once :: "unit option"

definition finish :: "code \<Rightarrow> int \<Rightarrow> clientStreamWrapper \<Rightarrow> clientStreamWrapper" where
  "finish c now w =
     (case once_do (cs_once w) (\<lambda>i. ((), ri_finalize c (now - cs_start w) i)) (cs_info w) of
        (_, once, i) \<Rightarrow> w \<lparr> cs_once := once, cs_info := i \<rparr>)"

text \<open>
  A stream may be sent on and received from by two goroutines at once. An action is what one of
  them does to the shared record without the other in between: counting a message before it is
  sent, and dealing with the answer of the wrapped stream, which comes at time \<open>now\<close>.
\<close>

datatype client_action =
    SendBegin message
  | SendEnd "rpc_error option" int
  | RecvEnd message "rpc_error option" int
  | CloseEnd "rpc_error option" int

fun client_step :: "status_api \<Rightarrow> rpc_config \<Rightarrow> client_action \<Rightarrow> clientStreamWrapper \<Rightarrow> clientStreamWrapper" where
  "client_step api cfg (SendBegin m) w =
     (if includeSizes cfg then w \<lparr> cs_info := recordRequest m (cs_info w) \<rparr> else w)"
| "client_step api cfg (SendEnd err now) w =
     (if err \<noteq> None then finish (st_Code api err) now w else w)"
| "client_step api cfg (RecvEnd m err now) w =
     (case err of
        None \<Rightarrow> if includeSizes cfg then w \<lparr> cs_info := recordResponse m (cs_info w) \<rparr> else w
      | Some e \<Rightarrow> if Is_EOF api e then finish codes_OK now w else finish (st_Code api err) now w)"
| "client_step api cfg (CloseEnd err now) w =
     (if err \<noteq> None then finish (st_Code api err) now w else w)"

datatype client_call =
    CallSend message "rpc_error option" int
  | CallRecv message "rpc_error option" int
  | CallClose "rpc_error option" int

fun actions_of :: "client_call \<Rightarrow> client_action list" where
  "actions_of (CallSend m err now) = [SendBegin m, SendEnd err now]"
| "actions_of (CallRecv m err now) = [RecvEnd m err now]"
| "actions_of (CallClose err now) = [CloseEnd err now]"

definition client_SendMsg ::
  "status_api \<Rightarrow> rpc_config \<Rightarrow> message \<Rightarrow> rpc_error option \<Rightarrow> int \<Rightarrow> clientStreamWrapper
     \<Rightarrow> rpc_error option \<times> clientStreamWrapper" where
  "client_SendMsg api cfg m err now w =
     (wrapStatusError api err ''client stream send'',
      client_step api cfg (SendEnd err now) (client_step api cfg (SendBegin m) w))"

definition client_RecvMsg ::
  "status_api \<Rightarrow> rpc_config \<Rightarrow> message \<Rightarrow> rpc_error option \<Rightarrow> int \<Rightarrow> clientStreamWrapper
     \<Rightarrow> rpc_error option \<times> clientStreamWrapper" where
  "client_RecvMsg api cfg m err now w =
     (wrapStatusError api err ''client stream recv'', client_step api cfg (RecvEnd m err now) w)"

definition client_CloseSend ::
  "status_api \<Rightarrow> rpc_config \<Rightarrow> rpc_error option \<Rightarrow> int \<Rightarrow> clientStreamWrapper
     \<Rightarrow> rpc_error option \<times> clientStreamWrapper" where
  "client_CloseSend api cfg err now w =
     (wrapStatusError api err ''client stream close send'', client_step api cfg (CloseEnd err now) w)"

text \<open>
  Opening the stream: \<open>opened\<close> is the error of the wrapped streamer. The result is the wrapped
  stream or the error, with the record in either case.
\<close>

definition StreamClientInterceptor ::
  "rpc_env \<Rightarrow> rpc_loggers \<Rightarrow> rpc_config \<Rightarrow> gostring \<Rightarrow> nat \<Rightarrow> int \<Rightarrow> int \<Rightarrow> goctx \<Rightarrow> MD option
     \<Rightarrow> gostring \<Rightarrow> bool \<Rightarrow> bool \<Rightarrow> rpc_error option \<Rightarrow> (rpc_error + clientStreamWrapper) rpc_outcome" where
  "StreamClientInterceptor env rl cfg project info_id start finished ctx outgoing fullMethod cs ss opened =
     (let ri = newRequestInfo fullMethod (clientStreamKind cs ss) True start;
          (ctx, attrs) = attachLogger env rl start ctx cfg info_id ri project;
          md = injectClientTrace (re_trace env) ctx (case outgoing of None \<Rightarrow> [] | Some m \<Rightarrow> m) (Some cfg)
      in case opened of
           Some e \<Rightarrow>
             \<lparr>ro_ctx = ctx, ro_attrs = attrs, ro_md = md,
              ro_info = ri_finalize (st_Code (re_status env) opened) (finished - start) ri, ro_result = Inl e\<rparr>
         | None \<Rightarrow>
             \<lparr>ro_ctx = ctx, ro_attrs = attrs, ro_md = md, ro_info = ri,
              ro_result = Inr \<lparr>cs_info = ri, cs_start = start, cs_once = None\<rparr>\<rparr>)"

section \<open>Options for the gRPC runtime\<close>

datatype otelgrpc_option = SH_TracerProvider nat | SH_Propagators "propagator option" | SH_PublicEndpoint
  | SH_SpanAttributes "nat list" | SH_Filter nat

definition statsHandlerOptions :: "rpc_config \<Rightarrow> otelgrpc_option list" where
  "statsHandlerOptions cfg =
     (case gc_tracerProvider cfg of None \<Rightarrow> [] | Some tp \<Rightarrow> [SH_TracerProvider tp]) @
     (if propagateTrace cfg
      then (if propagatorsSet cfg \<and> propagators cfg \<noteq> None then [SH_Propagators (propagators cfg)] else [])
      else [SH_Propagators None]) @
     (if publicEndpoint cfg then [SH_PublicEndpoint] else []) @
     (if gc_spanAttributes cfg \<noteq> [] then [SH_SpanAttributes (gc_spanAttributes cfg)] else []) @
     map SH_Filter (gc_filters cfg)"

datatype rpc_runtime_option = StatsHandler "otelgrpc_option list" | ChainUnary rpc_config | ChainStream rpc_config

definition ServerOptions :: "logger \<Rightarrow> rpc_Option option list \<Rightarrow> rpc_runtime_option list" where
  "ServerOptions default_logger opts =
     (let cfg = rpc_applyOptions default_logger opts
      in (if enableOTel cfg then [StatsHandler (statsHandlerOptions cfg)] else []) @
         [ChainUnary (rpc_applyOptions default_logger opts), ChainStream (rpc_applyOptions default_logger opts)])"

definition DialOptions :: "logger \<Rightarrow> rpc_Option option list \<Rightarrow> rpc_runtime_option list" where
  "DialOptions default_logger opts =
     (let cfg = rpc_applyOptions default_logger opts
      in (if enableOTel cfg then [StatsHandler (statsHandlerOptions cfg)] else []) @
         [ChainUnary (rpc_applyOptions default_logger opts), ChainStream (rpc_applyOptions default_logger opts)])"

end
