(* ===== verification/GrpcProps.thy ===== *)
theory GrpcProps
  imports GrpcRequest
begin

text \<open>
  What the gRPC instrumentation guarantees: message counters that add up under every
  interleaving, a stream that is finished once by its first end, errors that keep their status.
\<close>

section \<open>Counting messages\<close>

definition counted :: "message list \<Rightarrow> int" where
  "counted ms = int (length (filter (\<lambda>m. m \<noteq> NilMessage) ms))"

definition bytes_of :: "message list \<Rightarrow> int" where
  "bytes_of ms = sum_list (map (\<lambda>m. max 0 (messageSize m)) ms)"

lemma counted_simps [simp]: "counted [] = 0" "counted (ms @ ns) = counted ms + counted ns"
  by (simp_all add: counted_def)

lemma bytes_of_simps [simp]: "bytes_of [] = 0" "bytes_of (ms @ ns) = bytes_of ms + bytes_of ns"
  by (simp_all add: bytes_of_def)

lemma counted_one: "counted [m] = (if m = NilMessage then 0 else 1)"
  by (simp add: counted_def)

lemma bytes_of_one: "bytes_of [m] = max 0 (messageSize m)"
  by (simp add: bytes_of_def)

lemma counted_mset: "mset ms = mset ns \<Longrightarrow> counted ms = counted ns"
  unfolding counted_def by (metis mset_filter size_mset)

lemma bytes_of_mset: "mset ms = mset ns \<Longrightarrow> bytes_of ms = bytes_of ns"
  unfolding bytes_of_def by (metis mset_map sum_mset_sum_list)

text \<open>
  A stream that counts: each of its actions adds the request and response messages it moved,
  and nothing else, to the counters of the record.
\<close>

locale counting_stream =
  fixes step :: "'a \<Rightarrow> 's \<Rightarrow> 's"
    and info :: "'s \<Rightarrow> RequestInfo"
    and requests :: "'a \<Rightarrow> message list"
    and responses :: "'a \<Rightarrow> message list"
  assumes adds: "ri_reqCount (info (step a s)) = ri_reqCount (info s) + counted (requests a)"
    "ri_reqBytes (info (step a s)) = ri_reqBytes (info s) + bytes_of (requests a)"
    "ri_respCount (info (step a s)) = ri_respCount (info s) + counted (responses a)"
    "ri_respBytes (info (step a s)) = ri_respBytes (info s) + bytes_of (responses a)"
begin

lemma totals:
  "ri_reqCount (info (fold step as s)) = ri_reqCount (info s) + counted (concat (map requests as))"
  "ri_reqBytes (info (fold step as s)) = ri_reqBytes (info s) + bytes_of (concat (map requests as))"
  "ri_respCount (info (fold step as s)) = ri_respCount (info s) + counted (concat (map responses as))"
  "ri_respBytes (info (fold step as s)) = ri_respBytes (info s) + bytes_of (concat (map responses as))"
  by (induction as arbitrary: s) (simp_all add: adds)

lemma concat_mset: "mset as = mset bs \<Longrightarrow> mset (concat (map f as)) = mset (concat (map f bs))"
  by (simp add: mset_concat) (metis mset_map sum_mset_sum_list)

lemma interleaved:
  assumes "as \<in> shuffles bs cs"
  shows "ri_reqCount (info (fold step as s)) = ri_reqCount (info s) + counted (concat (map requests (bs @ cs)))"
    "ri_reqBytes (info (fold step as s)) = ri_reqBytes (info s) + bytes_of (concat (map requests (bs @ cs)))"
    "ri_respCount (info (fold step as s)) = ri_respCount (info s) + counted (concat (map responses (bs @ cs)))"
    "ri_respBytes (info (fold step as s)) = ri_respBytes (info s) + bytes_of (concat (map responses (bs @ cs)))"
proof -
  have "mset as = mset (bs @ cs)" using mset_shuffles [OF assms] by simp
  note m = counted_mset [OF concat_mset [OF this]] bytes_of_mset [OF concat_mset [OF this]]
  show "ri_reqCount (info (fold step as s)) = ri_reqCount (info s) + counted (concat (map requests (bs @ cs)))"
    "ri_reqBytes (info (fold step as s)) = ri_reqBytes (info s) + bytes_of (concat (map requests (bs @ cs)))"
    "ri_respCount (info (fold step as s)) = ri_respCount (info s) + counted (concat (map responses (bs @ cs)))"
    "ri_respBytes (info (fold step as s)) = ri_respBytes (info s) + bytes_of (concat (map responses (bs @ cs)))"
    by (simp_all only: totals m)
qed

end

lemma record_counts:
  "ri_reqCount (recordRequest m ri) = ri_reqCount ri + counted [m]"
  "ri_reqBytes (recordRequest m ri) = ri_reqBytes ri + bytes_of [m]"
  "ri_respCount (recordRequest m ri) = ri_respCount ri"
  "ri_respBytes (recordRequest m ri) = ri_respBytes ri"
  "ri_respCount (recordResponse m ri) = ri_respCount ri + counted [m]"
  "ri_respBytes (recordResponse m ri) = ri_respBytes ri + bytes_of [m]"
  "ri_reqCount (recordResponse m ri) = ri_reqCount ri"
  "ri_reqBytes (recordResponse m ri) = ri_reqBytes ri"
  by (auto simp: recordRequest_def recordResponse_def counted_one bytes_of_one Let_def)

lemma record_end:
  "ri_status (recordRequest m ri) = ri_status ri" "ri_latencyNS (recordRequest m ri) = ri_latencyNS ri"
  "ri_status (recordResponse m ri) = ri_status ri" "ri_latencyNS (recordResponse m ri) = ri_latencyNS ri"
  by (simp_all add: recordRequest_def recordResponse_def Let_def)

lemma finish_first: "cs_once w = None \<Longrightarrow> cs_info (finish c now w) = ri_finalize c (now - cs_start w) (cs_info w)"
  and finish_again: "cs_once w \<noteq> None \<Longrightarrow> finish c now w = w"
  and finish_once: "cs_once (finish c now w) \<noteq> None" "cs_start (finish c now w) = cs_start w"
  by (cases "cs_once w"; simp add: finish_def)+

lemma finish_counts:
  "ri_reqCount (cs_info (finish c now w)) = ri_reqCount (cs_info w)"
  "ri_reqBytes (cs_info (finish c now w)) = ri_reqBytes (cs_info w)"
  "ri_respCount (cs_info (finish c now w)) = ri_respCount (cs_info w)"
  "ri_respBytes (cs_info (finish c now w)) = ri_respBytes (cs_info w)"
  by (cases "cs_once w"; simp add: finish_def ri_finalize_def)+

fun sent :: "client_action \<Rightarrow> message list" where
  "sent (SendBegin m) = [m]"
| "sent _ = []"

fun received :: "client_action \<Rightarrow> message list" where
  "received (RecvEnd m None now) = [m]"
| "received _ = []"

fun srv_received :: "server_call \<Rightarrow> message list" where
  "srv_received (SrvRecv m None) = [m]"
| "srv_received _ = []"

fun srv_sent :: "server_call \<Rightarrow> message list" where
  "srv_sent (SrvSend m err) = [m]"
| "srv_sent _ = []"

definition if_on :: "bool \<Rightarrow> 'b list \<Rightarrow> 'b list" where
  "if_on b xs = (if b then xs else [])"

interpretation client: counting_stream "client_step api cfg" cs_info
  "\<lambda>a. if_on (includeSizes cfg) (sent a)" "\<lambda>a. if_on (includeSizes cfg) (received a)" for api cfg
proof
  fix a w
  show "ri_reqCount (cs_info (client_step api cfg a w)) = ri_reqCount (cs_info w) + counted (if_on (includeSizes cfg) (sent a))"
    "ri_reqBytes (cs_info (client_step api cfg a w)) = ri_reqBytes (cs_info w) + bytes_of (if_on (includeSizes cfg) (sent a))"
    "ri_respCount (cs_info (client_step api cfg a w)) = ri_respCount (cs_info w) + counted (if_on (includeSizes cfg) (received a))"
    "ri_respBytes (cs_info (client_step api cfg a w)) = ri_respBytes (cs_info w) + bytes_of (if_on (includeSizes cfg) (received a))"
    by (cases a; cases "includeSizes cfg"; auto simp: if_on_def record_counts finish_counts split: option.splits)+
qed

interpretation server: counting_stream "server_step api cfg" "\<lambda>i. i"
  "\<lambda>c. if_on (includeSizes cfg) (srv_received c)" "\<lambda>c. if_on (includeSizes cfg) (srv_sent c)" for api cfg
proof
  fix c i
  show "ri_reqCount (server_step api cfg c i) = ri_reqCount i + counted (if_on (includeSizes cfg) (srv_received c))"
    "ri_reqBytes (server_step api cfg c i) = ri_reqBytes i + bytes_of (if_on (includeSizes cfg) (srv_received c))"
    "ri_respCount (server_step api cfg c i) = ri_respCount i + counted (if_on (includeSizes cfg) (srv_sent c))"
    "ri_respBytes (server_step api cfg c i) = ri_respBytes i + bytes_of (if_on (includeSizes cfg) (srv_sent c))"
    by (cases c; cases "includeSizes cfg"; auto simp: server_step_def if_on_def record_counts split: option.splits)+
qed

section \<open>The end of a client stream\<close>

text \<open>How an action ends the stream: the code, and the time.\<close>

fun ends :: "status_api \<Rightarrow> client_action \<Rightarrow> (code \<times> int) option" where
  "ends api (SendBegin m) = None"
| "ends api (SendEnd err now) = map_option (\<lambda>e. (st_Code api (Some e), now)) err"
| "ends api (CloseEnd err now) = map_option (\<lambda>e. (st_Code api (Some e), now)) err"
| "ends api (RecvEnd m err now) =
     map_option (\<lambda>e. (if Is_EOF api e then codes_OK else st_Code api (Some e), now)) err"

fun first_end :: "status_api \<Rightarrow> client_action list \<Rightarrow> (code \<times> int) option" where
  "first_end api [] = None"
| "first_end api (a # as) = (case ends api a of Some r \<Rightarrow> Some r | None \<Rightarrow> first_end api as)"

definition end_state :: "RequestInfo \<Rightarrow> code \<times> int" where
  "end_state i = (ri_status i, ri_latencyNS i)"

lemma step_no_end:
  "ends api a = None \<Longrightarrow>
   cs_once (client_step api cfg a w) = cs_once w \<and> cs_start (client_step api cfg a w) = cs_start w
   \<and> end_state (cs_info (client_step api cfg a w)) = end_state (cs_info w)"
  by (cases a) (auto simp: end_state_def record_end split: option.splits)

lemma step_end:
  "ends api a = Some (c, now) \<Longrightarrow> client_step api cfg a w = finish c now w"
  by (cases a) (auto split: option.splits)

lemma step_after_end:
  "cs_once w \<noteq> None \<Longrightarrow>
   cs_once (client_step api cfg a w) \<noteq> None \<and> end_state (cs_info (client_step api cfg a w)) = end_state (cs_info w)"
proof (cases "ends api a")
  case (Some r)
  assume "cs_once w \<noteq> None"
  then show ?thesis using Some step_end [of api a "fst r" "snd r"] by (simp add: finish_again)
qed (use step_no_end in fastforce)

lemma run_after_end:
  "cs_once w \<noteq> None \<Longrightarrow> end_state (cs_info (fold (client_step api cfg) as w)) = end_state (cs_info w)"
proof (induction as arbitrary: w)
  case (Cons a as)
  have "cs_once (client_step api cfg a w) \<noteq> None \<and> end_state (cs_info (client_step api cfg a w)) = end_state (cs_info w)"
    using step_after_end [OF Cons.prems] .
  then show ?case using Cons.IH [of "client_step api cfg a w"] by (simp del: not_None_eq)
qed simp

lemma run_end:
  "cs_once w = None \<Longrightarrow>
   end_state (cs_info (fold (client_step api cfg) as w)) =
     (case first_end api as of None \<Rightarrow> end_state (cs_info w) | Some (c, now) \<Rightarrow> (c, max 0 (now - cs_start w)))"
proof (induction as arbitrary: w)
  case (Cons a as)
  show ?case
  proof (cases "ends api a")
    case None
    then show ?thesis using Cons step_no_end [OF None, of cfg w] by (simp split: option.splits)
  next
    case (Some r)
    obtain c now where r: "r = (c, now)" by (cases r)
    have step: "client_step api cfg a w = finish c now w" using step_end Some r by simp
    have "end_state (cs_info (fold (client_step api cfg) as (finish c now w))) = end_state (cs_info (finish c now w))"
      by (rule run_after_end [OF finish_once(1)])
    also have "\<dots> = (c, max 0 (now - cs_start w))"
      using Cons.prems by (simp add: finish_first ri_finalize_def end_state_def)
    finally show ?thesis using step Some r by simp
  qed
qed simp

lemma client_methods_are_actions:
  "snd (client_SendMsg api cfg m err now w) = fold (client_step api cfg) (actions_of (CallSend m err now)) w"
  "snd (client_RecvMsg api cfg m err now w) = fold (client_step api cfg) (actions_of (CallRecv m err now)) w"
  "snd (client_CloseSend api cfg err now w) = fold (client_step api cfg) (actions_of (CallClose err now)) w"
  by (simp_all add: client_SendMsg_def client_RecvMsg_def client_CloseSend_def)

definition opened_stream :: "gostring \<Rightarrow> gostring \<Rightarrow> int \<Rightarrow> clientStreamWrapper" where
  "opened_stream fullMethod kind start =
     \<lparr>cs_info = newRequestInfo fullMethod kind True start, cs_start = start, cs_once = None\<rparr>"

lemma newRequestInfo_fields [simp]:
  "ri_reqCount (newRequestInfo f k c s) = 0" "ri_reqBytes (newRequestInfo f k c s) = 0"
  "ri_respCount (newRequestInfo f k c s) = 0" "ri_respBytes (newRequestInfo f k c s) = 0"
  "ri_status (newRequestInfo f k c s) = codes_OK" "ri_latencyNS (newRequestInfo f k c s) = rpc_unsetLatency"
  by (simp_all add: newRequestInfo_def split: prod.splits)

text \<open>
  C10. However the sending and the receiving goroutine of a client stream interleave, the record
  of the RPC counts every message sent or received, once, with its size, and its status and
  latency are those of the first action that ended the stream, never changed by a later one.
\<close>

theorem client_stream_recorded:
  assumes "acts \<in> shuffles (concat (map actions_of sender)) (concat (map actions_of receiver))"
    and "includeSizes cfg"
  shows "let i = cs_info (fold (client_step api cfg) acts (opened_stream full kind start));
             all = concat (map actions_of (sender @ receiver))
         in ri_reqCount i = counted (concat (map sent all)) \<and> ri_reqBytes i = bytes_of (concat (map sent all))
          \<and> ri_respCount i = counted (concat (map received all)) \<and> ri_respBytes i = bytes_of (concat (map received all))
          \<and> (ri_status i, ri_latencyNS i) =
              (case first_end api acts of None \<Rightarrow> (codes_OK, rpc_unsetLatency)
               | Some (c, now) \<Rightarrow> (c, max 0 (now - start)))"
proof -
  let ?w = "opened_stream full kind start"
  have w: "cs_once ?w = None" "cs_start ?w = start" "ri_status (cs_info ?w) = codes_OK"
    "ri_latencyNS (cs_info ?w) = rpc_unsetLatency" "ri_reqCount (cs_info ?w) = 0" "ri_reqBytes (cs_info ?w) = 0"
    "ri_respCount (cs_info ?w) = 0" "ri_respBytes (cs_info ?w) = 0"
    by (simp_all add: opened_stream_def)
  have on: "if_on (includeSizes cfg) xs = xs" for xs :: "message list" using assms(2) by (simp add: if_on_def)
  show ?thesis
    using run_end [OF w(1), of api cfg acts] client.interleaved [OF assms(1), of api cfg ?w]
    by (simp only: Let_def on w end_state_def map_append concat_append add_0 simp_thms)
qed

text \<open>The status library as documented, for one opaque error: \<^verbatim>\<open>NOT_FOUND\<close>.\<close>

fun demo_convert :: "rpc_error \<Rightarrow> code \<times> gostring" where
  "demo_convert IO_EOF = (2, ''EOF'')"
| "demo_convert (Opaque n) = (5, ''not found'')"
| "demo_convert (statusErrorWrapper op e st) = st"

definition demo_status :: status_api where
  "demo_status =
     \<lparr>st_Is_EOF = (\<lambda>_. False), st_Text = (\<lambda>_. ''not found''),
      st_Code = (\<lambda>err. case err of None \<Rightarrow> 0 | Some e \<Rightarrow> fst (demo_convert e)), st_Convert = demo_convert,
      code_String = (\<lambda>c. if c = 0 then ''OK'' else ''Unknown'')\<rparr>"

lemma demo_status_laws: "status_laws demo_status"
  by (simp add: status_laws_def demo_status_def codes_OK_def codes_Unknown_def)

theorem client_stream_recorded_witness:
  "let i = cs_info (fold (client_step demo_status (rpc_defaultConfig 0))
             [SendBegin (ProtoMessage 7), RecvEnd (ProtoMessage 3) None 11, SendEnd None 12, RecvEnd NilMessage (Some IO_EOF) 15]
             (opened_stream ''/s/m'' ''bidi_stream'' 10))
   in ri_reqCount i = 1 \<and> ri_reqBytes i = 7 \<and> ri_respCount i = 1 \<and> ri_respBytes i = 3
    \<and> ri_status i = codes_OK \<and> ri_latencyNS i = 5"
proof -
  have acts: "[SendBegin (ProtoMessage 7), RecvEnd (ProtoMessage 3) None 11, SendEnd None 12, RecvEnd NilMessage (Some IO_EOF) 15]
    \<in> shuffles (concat (map actions_of [CallSend (ProtoMessage 7) None 12]))
        (concat (map actions_of [CallRecv (ProtoMessage 3) None 11, CallRecv NilMessage (Some IO_EOF) 15]))"
    by simp
  show ?thesis
    using client_stream_recorded [OF acts, of "rpc_defaultConfig 0" demo_status "''/s/m''" "''bidi_stream''" 10]
    by (simp add: rpc_defaultConfig_def counted_def bytes_of_def Let_def)
qed

section \<open>Errors keep their status\<close>

text \<open>
  The context the stream wrappers add to an error is invisible to gRPC: the returned
  error has the code and status of the original, is nil or an end of stream exactly when the
  original is, still unwraps to it, and its text only gains the operation's name.
\<close>

theorem wrapStatusError_transparent:
  assumes "status_laws api"
  shows "let w = wrapStatusError api err op
         in st_Code api w = st_Code api err
          \<and> (w = None) = (err = None)
          \<and> (case (w, err) of
               (Some e', Some e) \<Rightarrow>
                 st_Convert api e' = st_Convert api e \<and> Is_EOF api e' = Is_EOF api e
                 \<and> (if Is_EOF api e then e' = e else rpc_Unwrap e' = Some e)
                 \<and> (e' = e \<or> op = [] \<or> rpc_Error api e' = op @ '': '' @ rpc_Error api e)
             | _ \<Rightarrow> True)"
  using status_lawsD [OF assms] by (cases err) (auto simp: wrapStatusError_def Let_def)

theorem wrapStatusError_transparent_witness:
  "st_Code demo_status (wrapStatusError demo_status (Some (Opaque 1)) ''server stream recv'') = 5"
  using wrapStatusError_transparent [OF demo_status_laws, of "Some (Opaque 1)" "''server stream recv''"]
  by (simp add: Let_def demo_status_def)

section \<open>Corner cases\<close>

text \<open>
  A send on a stream the server has ended fails with \<^verbatim>\<open>io.EOF\<close>, and the status is then read
  by a receive. The wrapper finishes on the send: the RPC is recorded as \<open>Unknown\<close>, and the
  server's status is never recorded.
\<close>

lemma send_eof_hides_status:
  assumes "status_laws api"
  shows "ri_status (cs_info (fold (client_step api cfg)
    (SendBegin m # SendEnd (Some IO_EOF) t # RecvEnd m' (Some e) t' # []) (opened_stream full kind start))) = codes_Unknown"
proof -
  let ?acts = "SendBegin m # SendEnd (Some IO_EOF) t # RecvEnd m' (Some e) t' # []"
  have "cs_once (opened_stream full kind start) = None" by (simp add: opened_stream_def)
  from run_end [OF this, of api cfg ?acts] show ?thesis
    using status_lawsD(3) [OF assms] by (simp add: end_state_def)
qed

text \<open>
  The response of a client-streaming RPC is received once, without an end of stream: the record
  of a successful one is never finalised.
\<close>

lemma client_streaming_never_final:
  "ri_latencyNS (cs_info (fold (client_step api cfg)
     (map SendBegin ms @ [CloseEnd None t, RecvEnd m None t']) (opened_stream full kind start))) = rpc_unsetLatency"
proof -
  have none: "first_end api (map SendBegin ms @ [CloseEnd None t, RecvEnd m None t']) = None"
    by (induction ms) simp_all
  have "cs_once (opened_stream full kind start) = None" by (simp add: opened_stream_def)
  from run_end [OF this, of api cfg "map SendBegin ms @ [CloseEnd None t, RecvEnd m None t']"] show ?thesis
    unfolding none by (simp add: end_state_def opened_stream_def)
qed

lemma splitFullMethod_parts:
  "CHR ''/'' \<notin> set service \<Longrightarrow> splitFullMethod (''/'' @ service @ ''/'' @ mname) = (service, mname)"
  by (simp add: splitFullMethod_def HasPrefix_def TrimPrefix_def Let_def)

end
