(* ===== verification/Channel.thy ===== *)
theory Channel
  imports Prelude
begin

text \<open>
  Go channels as the asynchronous handler uses them: a buffer of bounded capacity that can be
  closed, with the non-blocking views of send and receive that a \<^verbatim>\<open>select\<close>
  statement takes; and, as a locale, the contract of a bounded queue that the handler's
  proofs rest on. A rendezvous on an unbuffered channel is a send and a receive in one step.
\<close>

section \<open>Channels\<close>

record 'a chan =
  buffer :: "'a list"
  capacity :: nat
  chan_closed :: bool

definition make_chan :: "nat \<Rightarrow> 'a chan" where
  "make_chan n = \<lparr>buffer = [], capacity = n, chan_closed = False\<rparr>"

text \<open>A send proceeds when there is room, panics when the channel is closed, else blocks.\<close>

datatype 'a send_result = Sent "'a chan" | SendPanics | SendBlocks

definition chan_send :: "'a \<Rightarrow> 'a chan \<Rightarrow> 'a send_result" where
  "chan_send x c =
     (if chan_closed c then SendPanics
      else if length (buffer c) < capacity c then Sent (c \<lparr> buffer := buffer c @ [x] \<rparr>)
      else SendBlocks)"

text \<open>A receive takes the oldest item, reports a closed and drained channel, else blocks.\<close>

datatype 'a recv_result = Received 'a "'a chan" | RecvClosed | RecvBlocks

definition chan_recv :: "'a chan \<Rightarrow> 'a recv_result" where
  "chan_recv c =
     (case buffer c of
        x # xs \<Rightarrow> Received x (c \<lparr> buffer := xs \<rparr>)
      | [] \<Rightarrow> if chan_closed c then RecvClosed else RecvBlocks)"

definition chan_close :: "'a chan \<Rightarrow> 'a chan" where
  "chan_close c = c \<lparr> chan_closed := True \<rparr>"

section \<open>The contract of a bounded queue\<close>

text \<open>
  \<open>history\<close> relates everything ever put in and everything ever taken out to the
  contents: items leave in the order in which they entered and none is lost.
\<close>

locale bounded_fifo =
  fixes contents :: "'q \<Rightarrow> 'a list"
    and room :: "'q \<Rightarrow> nat"
    and put :: "'a \<Rightarrow> 'q \<Rightarrow> 'q option"
    and take_one :: "'q \<Rightarrow> ('a \<times> 'q) option"
  assumes put_contents: "put x q = Some q' \<Longrightarrow> contents q' = contents q @ [x] \<and> room q' = room q"
    and put_bounded: "put x q = Some q' \<Longrightarrow> length (contents q) < room q"
    and take_contents: "take_one q = Some (x, q') \<Longrightarrow> contents q = x # contents q' \<and> room q' = room q"
    and take_ready: "take_one q = None \<Longrightarrow> contents q = []"
begin

definition history :: "'a list \<Rightarrow> 'a list \<Rightarrow> 'q \<Rightarrow> bool" where
  "history ins outs q \<longleftrightarrow> ins = outs @ contents q"

definition within_bound :: "'q \<Rightarrow> bool" where
  "within_bound q \<longleftrightarrow> length (contents q) \<le> room q"

lemma history_put: "history ins outs q \<Longrightarrow> put x q = Some q' \<Longrightarrow> history (ins @ [x]) outs q'"
  using put_contents by (simp add: history_def)

lemma history_take: "history ins outs q \<Longrightarrow> take_one q = Some (x, q') \<Longrightarrow> history ins (outs @ [x]) q'"
  using take_contents by (simp add: history_def)

lemma within_bound_put: "put x q = Some q' \<Longrightarrow> within_bound q'"
  using put_contents put_bounded by (fastforce simp: within_bound_def)

lemma within_bound_take: "within_bound q \<Longrightarrow> take_one q = Some (x, q') \<Longrightarrow> within_bound q'"
  using take_contents by (fastforce simp: within_bound_def)

lemma mset_put: "put x q = Some q' \<Longrightarrow> mset (contents q') = add_mset x (mset (contents q))"
  using put_contents by simp

lemma mset_take: "take_one q = Some (x, q') \<Longrightarrow> mset (contents q) = add_mset x (mset (contents q'))"
  using take_contents by simp

end

text \<open>The channel satisfies it.\<close>

definition chan_put :: "'a \<Rightarrow> 'a chan \<Rightarrow> 'a chan option" where
  "chan_put x c = (case chan_send x c of Sent c' \<Rightarrow> Some c' | _ \<Rightarrow> None)"

definition chan_take :: "'a chan \<Rightarrow> ('a \<times> 'a chan) option" where
  "chan_take c = (case chan_recv c of Received x c' \<Rightarrow> Some (x, c') | _ \<Rightarrow> None)"

interpretation go_chan: bounded_fifo buffer capacity chan_put chan_take
  by unfold_locales
     (auto simp: chan_put_def chan_take_def chan_send_def chan_recv_def split: if_splits list.splits)

end
