(* ===== verification/AsyncQueue.thy ===== *)
theory AsyncQueue
  imports Channel
begin

text \<open>
  The asynchronous handler of \<^verbatim>\<open>slogcpasync/handler.go\<close> as a step relation over its
  goroutines: the callers of \<^verbatim>\<open>Handle\<close>, the workers, and the callers of
  \<^verbatim>\<open>Shutdown\<close> and \<^verbatim>\<open>AbortContext\<close> with the abort coordinator. Each step is one
  synchronisation action of the source (a channel operation, a section under
  \<^verbatim>\<open>gateMu\<close>, an atomic access, a \<^verbatim>\<open>sync.Once\<close>), so that every interleaving of
  the goroutines is a sequence of steps. A goroutine is represented by where it stands, with
  the record it carries.

  The inner handler is outside: its calls return or panic as they like, its
  \<^verbatim>\<open>Close\<close> and \<^verbatim>\<open>Abort\<close> hooks return the errors the state carries. Deadlines
  may expire at any time. The fields from \<open>submitted\<close> on record history for the properties
  and influence nothing.
\<close>

section \<open>State\<close>

datatype DropMode = DropModeBlock | DropModeDropNewest | DropModeDropOldest

datatype once = NotStarted | Running | Finished

text \<open>
  Inside \<^verbatim>\<open>Handle\<close>: before \<^verbatim>\<open>beginSend\<close>; at the first look at
  \<^verbatim>\<open>closingCh\<close>; at the send; about to evict; the same two places of the retry of
  \<^verbatim>\<open>enqueueDropOldest\<close>; before \<^verbatim>\<open>endSend\<close>; returned.
\<close>

datatype 'i sender =
    SBegin 'i | SGate 'i | SSend 'i | SEvict 'i | SRetryGate 'i | SRetrySend 'i | SEnd | SDone

text \<open>
  A worker: at the receive of its loop; holding a record before the abort check; inside the
  inner handler; at the head of the \<^verbatim>\<open>drainBatch\<close> loop with its counter; gone. The
  counter a worker holding a record carries is the one it continues with.
\<close>

datatype 'i worker = WIdle | WHave 'i nat | WHandling 'i nat | WBatch nat | WExit

text \<open>An error value as the list \<^verbatim>\<open>errors.Join\<close> was given, without its nil members.\<close>

datatype asyncErr = ErrFlushTimeout | ErrContext | ErrAborted | ErrInner nat

datatype origin = FromShutdown | FromAbort

datatype closer =
    AbortCall
  | OnceEnter origin | StoreClosed origin | BeginClose origin | AwaitSends origin | EndClose origin
  | AwaitWorkers | Finalized | AwaitAbort
  | Coordinator | CoordinatorWaits "asyncErr list"
  | Returned "asyncErr list"

record 'i asyncState =
  queue :: "'i chan"
  closed :: bool
  aborted :: bool
  activeSends :: nat
  closingCh :: bool
  shutdownOnce :: once
  finalizeOnce :: bool
  abortOnce :: bool
  abortStartOnce :: once
  abortResult :: "asyncErr list option"
  closer_err :: "nat option"
  aborter_err :: "nat option"
  dropMode :: DropMode
  batchSize :: nat
  senders :: "'i sender list"
  workers :: "'i worker list"
  closers :: "closer list"
  submitted :: "'i list"
  sent :: "'i list"
  taken :: "'i list"
  handled :: "'i list"
  panicked :: "'i list"
  dropped :: "'i list"
  recovered :: bool
  closer_calls :: nat
  aborter_calls :: nat

definition newAsyncState ::
  "nat \<Rightarrow> nat \<Rightarrow> nat \<Rightarrow> DropMode \<Rightarrow> nat option \<Rightarrow> nat option \<Rightarrow> 'i asyncState" where
  "newAsyncState queueSize workerCount batch mode closerErr aborterErr =
     \<lparr>queue = make_chan queueSize, closed = False, aborted = False, activeSends = 0,
      closingCh = False, shutdownOnce = NotStarted, finalizeOnce = False, abortOnce = False,
      abortStartOnce = NotStarted, abortResult = None, closer_err = closerErr,
      aborter_err = aborterErr, dropMode = mode, batchSize = batch, senders = [],
      workers = replicate workerCount WIdle, closers = [], submitted = [], sent = [], taken = [],
      handled = [], panicked = [], dropped = [], recovered = False, closer_calls = 0,
      aborter_calls = 0\<rparr>"

definition put_sender :: "nat \<Rightarrow> 'i sender \<Rightarrow> 'i asyncState \<Rightarrow> 'i asyncState" where
  "put_sender i pc s = s \<lparr> senders := (senders s)[i := pc] \<rparr>"

definition put_worker :: "nat \<Rightarrow> 'i worker \<Rightarrow> 'i asyncState \<Rightarrow> 'i asyncState" where
  "put_worker j pc s = s \<lparr> workers := (workers s)[j := pc] \<rparr>"

definition put_closer :: "nat \<Rightarrow> closer \<Rightarrow> 'i asyncState \<Rightarrow> 'i asyncState" where
  "put_closer k pc s = s \<lparr> closers := (closers s)[k := pc] \<rparr>"

section \<open>Sending\<close>

text \<open>A drop; whether \<^verbatim>\<open>onDrop\<close> is set makes no difference to the queue.\<close>

definition drop :: "'i \<Rightarrow> 'i asyncState \<Rightarrow> 'i asyncState" where
  "drop x s = s \<lparr> dropped := dropped s @ [x] \<rparr>"

definition beginSend :: "'i asyncState \<Rightarrow> bool \<times> 'i asyncState" where
  "beginSend s =
     (if closed s then (False, s) else (True, s \<lparr> activeSends := activeSends s + 1 \<rparr>))"

definition endSend :: "'i asyncState \<Rightarrow> 'i asyncState" where
  "endSend s = (if activeSends s > 0 then s \<lparr> activeSends := activeSends s - 1 \<rparr> else s)"

definition Handle_call :: "'i \<Rightarrow> 'i asyncState \<Rightarrow> 'i asyncState" where
  "Handle_call x s = s \<lparr> senders := senders s @ [SBegin x], submitted := submitted s @ [x] \<rparr>"

definition Handle_begin :: "nat \<Rightarrow> 'i \<Rightarrow> 'i asyncState \<Rightarrow> 'i asyncState" where
  "Handle_begin i x s =
     (case beginSend s of
        (False, s') \<Rightarrow> put_sender i SDone (drop x s')
      | (True, s') \<Rightarrow> put_sender i (SGate x) s')"

text \<open>The first \<^verbatim>\<open>select\<close> of all three enqueue functions.\<close>

definition closing_gate :: "nat \<Rightarrow> 'i \<Rightarrow> 'i sender \<Rightarrow> 'i asyncState \<Rightarrow> 'i asyncState" where
  "closing_gate i x next_pc s =
     (if closingCh s then put_sender i SEnd (drop x s) else put_sender i next_pc s)"

definition enqueue_sent :: "nat \<Rightarrow> 'i \<Rightarrow> 'i chan \<Rightarrow> 'i asyncState \<Rightarrow> 'i asyncState" where
  "enqueue_sent i x q s = put_sender i SEnd (s \<lparr> queue := q, sent := sent s @ [x] \<rparr>)"

definition enqueue_dropped :: "nat \<Rightarrow> 'i \<Rightarrow> 'i asyncState \<Rightarrow> 'i asyncState" where
  "enqueue_dropped i x s = put_sender i SEnd (drop x s)"

text \<open>The deferred \<^verbatim>\<open>recover\<close> of \<^verbatim>\<open>enqueue\<close>: a send on the closed queue.\<close>

definition enqueue_recover :: "nat \<Rightarrow> 'i \<Rightarrow> 'i asyncState \<Rightarrow> 'i asyncState" where
  "enqueue_recover i x s = put_sender i SEnd (drop x (s \<lparr> recovered := True \<rparr>))"

text \<open>The default branch of the second \<^verbatim>\<open>select\<close> in the two dropping modes.\<close>

definition enqueue_full :: "nat \<Rightarrow> 'i \<Rightarrow> 'i asyncState \<Rightarrow> 'i asyncState" where
  "enqueue_full i x s =
     (if dropMode s = DropModeDropOldest then put_sender i (SEvict x) s
      else put_sender i SEnd (drop x s))"

definition dropOldest :: "'i asyncState \<Rightarrow> 'i asyncState" where
  "dropOldest s =
     (case chan_take (queue s) of
        Some (y, q) \<Rightarrow> (drop y s) \<lparr> queue := q, taken := taken s @ [y] \<rparr>
      | None \<Rightarrow> s)"

inductive sender_step :: "'i asyncState \<Rightarrow> 'i asyncState \<Rightarrow> bool" where
  call: "sender_step s (Handle_call x s)"
| enter: "i < length (senders s) \<Longrightarrow> senders s ! i = SBegin x \<Longrightarrow>
    sender_step s (Handle_begin i x s)"
| gate: "i < length (senders s) \<Longrightarrow> senders s ! i = SGate x \<Longrightarrow>
    sender_step s (closing_gate i x (SSend x) s)"
| send: "i < length (senders s) \<Longrightarrow> senders s ! i = SSend x \<Longrightarrow> chan_put x (queue s) = Some q \<Longrightarrow>
    sender_step s (enqueue_sent i x q s)"
| send_panic: "i < length (senders s) \<Longrightarrow> senders s ! i = SSend x \<Longrightarrow> chan_closed (queue s) \<Longrightarrow>
    sender_step s (enqueue_recover i x s)"
| send_closing: "i < length (senders s) \<Longrightarrow> senders s ! i = SSend x \<Longrightarrow>
    dropMode s = DropModeBlock \<Longrightarrow> closingCh s \<Longrightarrow> sender_step s (enqueue_dropped i x s)"
| send_full: "i < length (senders s) \<Longrightarrow> senders s ! i = SSend x \<Longrightarrow>
    dropMode s \<noteq> DropModeBlock \<Longrightarrow> chan_send x (queue s) = SendBlocks \<Longrightarrow>
    sender_step s (enqueue_full i x s)"
| evict: "i < length (senders s) \<Longrightarrow> senders s ! i = SEvict x \<Longrightarrow>
    sender_step s (put_sender i (SRetryGate x) (dropOldest s))"
| retry_gate: "i < length (senders s) \<Longrightarrow> senders s ! i = SRetryGate x \<Longrightarrow>
    sender_step s (closing_gate i x (SRetrySend x) s)"
| retry_send: "i < length (senders s) \<Longrightarrow> senders s ! i = SRetrySend x \<Longrightarrow>
    chan_put x (queue s) = Some q \<Longrightarrow> sender_step s (enqueue_sent i x q s)"
| retry_panic: "i < length (senders s) \<Longrightarrow> senders s ! i = SRetrySend x \<Longrightarrow>
    chan_closed (queue s) \<Longrightarrow> sender_step s (enqueue_recover i x s)"
| retry_full: "i < length (senders s) \<Longrightarrow> senders s ! i = SRetrySend x \<Longrightarrow>
    chan_send x (queue s) = SendBlocks \<Longrightarrow> sender_step s (enqueue_dropped i x s)"
| leave: "i < length (senders s) \<Longrightarrow> senders s ! i = SEnd \<Longrightarrow>
    sender_step s (put_sender i SDone (endSend s))"

section \<open>Working\<close>

definition worker_receive :: "nat \<Rightarrow> 'i \<Rightarrow> nat \<Rightarrow> 'i chan \<Rightarrow> 'i asyncState \<Rightarrow> 'i asyncState" where
  "worker_receive j x n q s = put_worker j (WHave x n) (s \<lparr> queue := q, taken := taken s @ [x] \<rparr>)"

definition processItem :: "nat \<Rightarrow> 'i \<Rightarrow> nat \<Rightarrow> 'i asyncState \<Rightarrow> 'i asyncState" where
  "processItem j x n s =
     (if aborted s then put_worker j (WBatch n) (drop x s) else put_worker j (WHandling x n) s)"

text \<open>The inner handler returns (an error is only written to the error writer) or panics.\<close>

definition handleItem_returns :: "nat \<Rightarrow> 'i \<Rightarrow> nat \<Rightarrow> 'i asyncState \<Rightarrow> 'i asyncState" where
  "handleItem_returns j x n s = put_worker j (WBatch n) (s \<lparr> handled := handled s @ [x] \<rparr>)"

definition handleItem_panics :: "nat \<Rightarrow> 'i \<Rightarrow> nat \<Rightarrow> 'i asyncState \<Rightarrow> 'i asyncState" where
  "handleItem_panics j x n s =
     put_worker j (WBatch n) (drop x (s \<lparr> panicked := panicked s @ [x] \<rparr>))"

inductive worker_step :: "'i asyncState \<Rightarrow> 'i asyncState \<Rightarrow> bool" where
  receive: "j < length (workers s) \<Longrightarrow> workers s ! j = WIdle \<Longrightarrow>
    chan_take (queue s) = Some (x, q) \<Longrightarrow> worker_step s (worker_receive j x 1 q s)"
| stop: "j < length (workers s) \<Longrightarrow> workers s ! j = WIdle \<Longrightarrow>
    chan_recv (queue s) = RecvClosed \<Longrightarrow> worker_step s (put_worker j WExit s)"
| process: "j < length (workers s) \<Longrightarrow> workers s ! j = WHave x n \<Longrightarrow>
    worker_step s (processItem j x n s)"
| returns: "j < length (workers s) \<Longrightarrow> workers s ! j = WHandling x n \<Longrightarrow>
    worker_step s (handleItem_returns j x n s)"
| panics: "j < length (workers s) \<Longrightarrow> workers s ! j = WHandling x n \<Longrightarrow>
    worker_step s (handleItem_panics j x n s)"
| batch: "j < length (workers s) \<Longrightarrow> workers s ! j = WBatch n \<Longrightarrow> n < batchSize s \<Longrightarrow>
    chan_take (queue s) = Some (x, q) \<Longrightarrow> worker_step s (worker_receive j x (Suc n) q s)"
| batch_end: "j < length (workers s) \<Longrightarrow> workers s ! j = WBatch n \<Longrightarrow>
    batchSize s \<le> n \<or> chan_take (queue s) = None \<Longrightarrow> worker_step s (put_worker j WIdle s)"

text \<open>
  On an unbuffered queue a record passes directly from a sender to a worker waiting at its
  loop, or, when the sender blocks, to one that polls for its batch.
\<close>

definition handoff :: "nat \<Rightarrow> 'i \<Rightarrow> nat \<Rightarrow> nat \<Rightarrow> 'i asyncState \<Rightarrow> 'i asyncState" where
  "handoff i x j n s =
     put_sender i SEnd (put_worker j (WHave x n) (s \<lparr> sent := sent s @ [x], taken := taken s @ [x] \<rparr>))"

inductive handoff_step :: "'i asyncState \<Rightarrow> 'i asyncState \<Rightarrow> bool" where
  meet: "i < length (senders s) \<Longrightarrow> senders s ! i \<in> {SSend x, SRetrySend x} \<Longrightarrow>
    j < length (workers s) \<Longrightarrow> workers s ! j = WIdle \<Longrightarrow> capacity (queue s) = 0 \<Longrightarrow>
    \<not> chan_closed (queue s) \<Longrightarrow> handoff_step s (handoff i x j 1 s)"
| meet_batch: "i < length (senders s) \<Longrightarrow> senders s ! i = SSend x \<Longrightarrow> dropMode s = DropModeBlock \<Longrightarrow>
    j < length (workers s) \<Longrightarrow> workers s ! j = WBatch n \<Longrightarrow> n < batchSize s \<Longrightarrow>
    capacity (queue s) = 0 \<Longrightarrow> \<not> chan_closed (queue s) \<Longrightarrow> handoff_step s (handoff i x j (Suc n) s)"

section \<open>Closing\<close>

definition workers_gone :: "'i asyncState \<Rightarrow> bool" where
  "workers_gone s \<longleftrightarrow> list_all (\<lambda>w. w = WExit) (workers s)"

definition endClose :: "'i asyncState \<Rightarrow> 'i asyncState" where
  "endClose s = (if chan_closed (queue s) then s else s \<lparr> queue := chan_close (queue s) \<rparr>)"

definition inner_errors :: "nat option \<Rightarrow> asyncErr list" where
  "inner_errors e = (case e of None \<Rightarrow> [] | Some n \<Rightarrow> [ErrInner n])"

text \<open>\<^verbatim>\<open>finalizeClose\<close> and \<^verbatim>\<open>abortDownstream\<close>: the hook runs the first time only.\<close>

definition finalizeClose :: "'i asyncState \<Rightarrow> 'i asyncState" where
  "finalizeClose s =
     (if finalizeOnce s then s
      else s \<lparr> finalizeOnce := True, closer_calls := closer_calls s + 1 \<rparr>)"

definition abortDownstream :: "'i asyncState \<Rightarrow> 'i asyncState" where
  "abortDownstream s =
     (if abortOnce s then s else s \<lparr> abortOnce := True, aborter_calls := aborter_calls s + 1 \<rparr>)"

definition Shutdown_call :: "'i asyncState \<Rightarrow> 'i asyncState" where
  "Shutdown_call s = s \<lparr> closers := closers s @ [OnceEnter FromShutdown] \<rparr>"

definition Abort_call :: "'i asyncState \<Rightarrow> 'i asyncState" where
  "Abort_call s = s \<lparr> closers := closers s @ [AbortCall] \<rparr>"

text \<open>
  Where a caller continues after \<^verbatim>\<open>startShutdown\<close>: a caller of
  \<^verbatim>\<open>Shutdown\<close> waits for the workers, the caller that started the abort starts its
  coordinator.
\<close>

definition after_shutdown :: "nat \<Rightarrow> origin \<Rightarrow> 'i asyncState \<Rightarrow> 'i asyncState" where
  "after_shutdown k from s =
     (case from of
        FromShutdown \<Rightarrow> put_closer k AwaitWorkers s
      | FromAbort \<Rightarrow>
          (let s' = put_closer k AwaitAbort s
           in s' \<lparr> closers := closers s' @ [Coordinator], abortStartOnce := Finished \<rparr>))"

definition Shutdown_result :: "'i asyncState \<Rightarrow> asyncErr list" where
  "Shutdown_result s = (if aborted s then ErrAborted # inner_errors (closer_err s) else inner_errors (closer_err s))"

definition abort_outcome :: "asyncErr list \<Rightarrow> 'i asyncState \<Rightarrow> asyncErr list" where
  "abort_outcome abortErr s = ErrAborted # abortErr @ inner_errors (closer_err s)"

definition coordinator_done :: "nat \<Rightarrow> asyncErr list \<Rightarrow> 'i asyncState \<Rightarrow> 'i asyncState" where
  "coordinator_done k abortErr s =
     (let r = abort_outcome abortErr s
      in put_closer k (Returned r) ((finalizeClose s) \<lparr> abortResult := Some r \<rparr>))"

inductive closer_step :: "'i asyncState \<Rightarrow> 'i asyncState \<Rightarrow> bool" where
  shutdown: "closer_step s (Shutdown_call s)"
| abort: "closer_step s (Abort_call s)"
| abort_first: "k < length (closers s) \<Longrightarrow> closers s ! k = AbortCall \<Longrightarrow>
    abortStartOnce s = NotStarted \<Longrightarrow>
    closer_step s (put_closer k (OnceEnter FromAbort) (s \<lparr> abortStartOnce := Running, aborted := True \<rparr>))"
| abort_later: "k < length (closers s) \<Longrightarrow> closers s ! k = AbortCall \<Longrightarrow>
    abortStartOnce s = Finished \<Longrightarrow> closer_step s (put_closer k AwaitAbort s)"
| once_first: "k < length (closers s) \<Longrightarrow> closers s ! k = OnceEnter from \<Longrightarrow>
    shutdownOnce s = NotStarted \<Longrightarrow>
    closer_step s (put_closer k (StoreClosed from) (s \<lparr> shutdownOnce := Running \<rparr>))"
| once_later: "k < length (closers s) \<Longrightarrow> closers s ! k = OnceEnter from \<Longrightarrow>
    shutdownOnce s = Finished \<Longrightarrow> closer_step s (after_shutdown k from s)"
| store_closed: "k < length (closers s) \<Longrightarrow> closers s ! k = StoreClosed from \<Longrightarrow>
    closer_step s (put_closer k (BeginClose from) (s \<lparr> closed := True \<rparr>))"
| begin_close: "k < length (closers s) \<Longrightarrow> closers s ! k = BeginClose from \<Longrightarrow>
    closer_step s (put_closer k (AwaitSends from) (s \<lparr> closingCh := True \<rparr>))"
| sends_done: "k < length (closers s) \<Longrightarrow> closers s ! k = AwaitSends from \<Longrightarrow> activeSends s = 0 \<Longrightarrow>
    closer_step s (put_closer k (EndClose from) s)"
| end_close: "k < length (closers s) \<Longrightarrow> closers s ! k = EndClose from \<Longrightarrow>
    closer_step s (after_shutdown k from ((endClose s) \<lparr> shutdownOnce := Finished \<rparr>))"
| workers_done: "k < length (closers s) \<Longrightarrow> closers s ! k = AwaitWorkers \<Longrightarrow> workers_gone s \<Longrightarrow>
    closer_step s (put_closer k Finalized (finalizeClose s))"
| shutdown_returns: "k < length (closers s) \<Longrightarrow> closers s ! k = Finalized \<Longrightarrow>
    closer_step s (put_closer k (Returned (Shutdown_result s)) s)"
| flush_timeout: "k < length (closers s) \<Longrightarrow> closers s ! k = AwaitWorkers \<Longrightarrow>
    closer_step s (put_closer k (Returned [ErrFlushTimeout, ErrContext]) s)"
| abort_downstream: "k < length (closers s) \<Longrightarrow> closers s ! k = Coordinator \<Longrightarrow>
    closer_step s (put_closer k (CoordinatorWaits (inner_errors (aborter_err s))) (abortDownstream s))"
| abort_finished: "k < length (closers s) \<Longrightarrow> closers s ! k = CoordinatorWaits e \<Longrightarrow> workers_gone s \<Longrightarrow>
    closer_step s (coordinator_done k e s)"
| abort_returns: "k < length (closers s) \<Longrightarrow> closers s ! k = AwaitAbort \<Longrightarrow> abortResult s = Some r \<Longrightarrow>
    closer_step s (put_closer k (Returned r) s)"
| abort_timeout: "k < length (closers s) \<Longrightarrow> closers s ! k = AwaitAbort \<Longrightarrow>
    closer_step s (put_closer k (Returned [ErrAborted, ErrContext]) s)"

section \<open>Runs\<close>

definition async_step :: "'i asyncState \<Rightarrow> 'i asyncState \<Rightarrow> bool" where
  "async_step s t \<longleftrightarrow> sender_step s t \<or> worker_step s t \<or> handoff_step s t \<or> closer_step s t"

text \<open>States reachable from a freshly built handler, which has at least one worker.\<close>

inductive reachable :: "'i asyncState \<Rightarrow> bool" where
  fresh: "0 < w \<Longrightarrow> reachable (newAsyncState n w b mode ce ae)"
| step: "reachable s \<Longrightarrow> async_step s t \<Longrightarrow> reachable t"

inductive_cases sender_stepE: "sender_step s t"
inductive_cases worker_stepE: "worker_step s t"
inductive_cases handoff_stepE: "handoff_step s t"
inductive_cases closer_stepE: "closer_step s t"

end
