(* ===== verification/AsyncFacts.thy ===== *)
theory AsyncFacts
  imports AsyncQueue
begin

text \<open>
  The invariants of the asynchronous handler, proved over every interleaving of its
  goroutines: no record is lost or duplicated, the queue stays within its capacity and is
  first in first out, nothing is ever sent on the closed queue, workers leave only when the
  queue is closed and empty, the inner handler is closed at most once and only after the last
  worker has gone.
\<close>

section \<open>What each operation touches\<close>

lemmas sender_ops = put_sender_def drop_def Handle_call_def Handle_begin_def beginSend_def endSend_def
  closing_gate_def enqueue_sent_def enqueue_dropped_def enqueue_recover_def enqueue_full_def
  dropOldest_def

lemmas worker_ops = put_worker_def worker_receive_def processItem_def handleItem_returns_def
  handleItem_panics_def

lemmas closer_ops = put_closer_def endClose_def finalizeClose_def abortDownstream_def
  Shutdown_call_def Abort_call_def after_shutdown_def coordinator_done_def

lemma dropOldest_cases:
  obtains "dropOldest s = s" and "buffer (queue s) = []"
  | y q where "dropOldest s = (drop y s) \<lparr> queue := q, taken := taken s @ [y] \<rparr>"
      and "chan_take (queue s) = Some (y, q)"
  by (cases "chan_take (queue s)") (auto simp: dropOldest_def dest: go_chan.take_ready)

section \<open>No record is lost\<close>

primrec sender_holds :: "'i sender \<Rightarrow> 'i list" where
  "sender_holds (SBegin x) = [x]"
| "sender_holds (SGate x) = [x]"
| "sender_holds (SSend x) = [x]"
| "sender_holds (SEvict x) = [x]"
| "sender_holds (SRetryGate x) = [x]"
| "sender_holds (SRetrySend x) = [x]"
| "sender_holds SEnd = []"
| "sender_holds SDone = []"

primrec worker_holds :: "'i worker \<Rightarrow> 'i list" where
  "worker_holds WIdle = []"
| "worker_holds (WHave x n) = [x]"
| "worker_holds (WHandling x n) = [x]"
| "worker_holds (WBatch n) = []"
| "worker_holds WExit = []"

text \<open>Every record in the system: with a caller, queued, with a worker, delivered, dropped.\<close>

definition everywhere :: "'i asyncState \<Rightarrow> 'i multiset" where
  "everywhere s =
     held_by sender_holds (senders s) + mset (buffer (queue s)) + held_by worker_holds (workers s)
     + mset (handled s) + mset (dropped s)"

lemma everywhere_put_sender:
  assumes "i < length (senders s)"
  shows "everywhere (put_sender i pc s) + mset (sender_holds (senders s ! i))
    = everywhere s + mset (sender_holds pc)"
  using held_by_update [OF assms, of sender_holds pc]
  by (simp add: everywhere_def put_sender_def ac_simps)

lemma everywhere_put_worker:
  assumes "j < length (workers s)"
  shows "everywhere (put_worker j pc s) + mset (worker_holds (workers s ! j))
    = everywhere s + mset (worker_holds pc)"
  using held_by_update [OF assms, of worker_holds pc]
  by (simp add: everywhere_def put_worker_def ac_simps)

lemma everywhere_ops:
  "everywhere (drop x s) = add_mset x (everywhere s)"
  "everywhere (s \<lparr> handled := handled s @ [x] \<rparr>) = add_mset x (everywhere s)"
  "everywhere (s \<lparr> panicked := ps \<rparr>) = everywhere s"
  "everywhere (s \<lparr> recovered := b \<rparr>) = everywhere s"
  "everywhere (s \<lparr> activeSends := n \<rparr>) = everywhere s"
  "everywhere (s \<lparr> sent := xs \<rparr>) = everywhere s"
  "everywhere (s \<lparr> taken := xs \<rparr>) = everywhere s"
  by (simp_all add: everywhere_def drop_def)

lemma everywhere_put:
  "chan_put x (queue s) = Some q \<Longrightarrow> everywhere (s \<lparr> queue := q \<rparr>) = add_mset x (everywhere s)"
  by (simp add: everywhere_def go_chan.mset_put)

lemma everywhere_take:
  "chan_take (queue s) = Some (x, q) \<Longrightarrow> everywhere s = add_mset x (everywhere (s \<lparr> queue := q \<rparr>))"
  by (simp add: everywhere_def go_chan.mset_take)

lemma everywhere_dropOldest: "everywhere (dropOldest s) = everywhere s"
proof (cases s rule: dropOldest_cases)
  case (2 y q)
  have "everywhere ((drop y s) \<lparr> queue := q, taken := taken s @ [y] \<rparr>)
      = add_mset y (everywhere (s \<lparr> queue := q \<rparr>))"
    by (simp add: everywhere_def drop_def)
  then show ?thesis using 2 everywhere_take by metis
qed simp

lemma moving_frames [frame_simps]:
  "submitted (put_sender i pc s) = submitted s"
  "submitted (put_worker j w s) = submitted s"
  "submitted (drop x s) = submitted s"
  "submitted (dropOldest s) = submitted s"
  "submitted (endSend s) = submitted s"
  "senders (drop x s) = senders s"
  "senders (dropOldest s) = senders s"
  "senders (endSend s) = senders s"
  "workers (drop x s) = workers s"
  "everywhere (endSend s) = everywhere s"
  by (simp_all add: put_sender_def put_worker_def drop_def dropOldest_def endSend_def everywhere_def
      split: option.split)

text \<open>A step that only moves a record keeps \<open>everywhere\<close>.\<close>

lemma sender_moves:
  assumes "i < length (senders s)" and "senders t = senders s"
    and "everywhere t + mset (sender_holds pc) = everywhere s + mset (sender_holds (senders s ! i))"
  shows "everywhere (put_sender i pc t) = everywhere s"
  using everywhere_put_sender [of i t pc] assms by simp

lemma worker_moves:
  assumes "j < length (workers s)" and "workers t = workers s"
    and "everywhere t + mset (worker_holds pc) = everywhere s + mset (worker_holds (workers s ! j))"
  shows "everywhere (put_worker j pc t) = everywhere s"
  using everywhere_put_worker [of j t pc] assms by simp

text \<open>Closing touches none of the traffic.\<close>

definition traffic where
  "traffic s =
     (senders s, workers s, buffer (queue s), capacity (queue s),
      (submitted s, sent s, taken s, handled s, panicked s, dropped s),
      activeSends s, dropMode s, batchSize s, recovered s)"

lemma traffic_closing [frame_simps]:
  "traffic (put_closer k pc s) = traffic s"
  "traffic (endClose s) = traffic s"
  "traffic (finalizeClose s) = traffic s"
  "traffic (abortDownstream s) = traffic s"
  "traffic (Shutdown_call s) = traffic s"
  "traffic (Abort_call s) = traffic s"
  "traffic (s \<lparr> closed := b \<rparr>) = traffic s"
  "traffic (s \<lparr> aborted := b \<rparr>) = traffic s"
  "traffic (s \<lparr> closingCh := b \<rparr>) = traffic s"
  "traffic (s \<lparr> shutdownOnce := o1 \<rparr>) = traffic s"
  "traffic (s \<lparr> abortStartOnce := o1 \<rparr>) = traffic s"
  "traffic (s \<lparr> abortResult := r \<rparr>) = traffic s"
  "traffic (s \<lparr> closers := cs \<rparr>) = traffic s"
  by (simp_all add: traffic_def closer_ops chan_close_def)

lemma traffic_after_shutdown [frame_simps]: "traffic (after_shutdown k from s) = traffic s"
  by (cases "from") (simp_all add: after_shutdown_def frame_simps Let_def)

lemma traffic_coordinator_done [frame_simps]: "traffic (coordinator_done k e s) = traffic s"
  by (simp add: coordinator_done_def frame_simps Let_def)

lemma closer_traffic: "closer_step s t \<Longrightarrow> traffic t = traffic s"
  by (erule closer_stepE) (simp_all add: frame_simps)

lemma traffic_fields:
  assumes "traffic t = traffic s"
  shows "senders t = senders s" and "workers t = workers s" and "buffer (queue t) = buffer (queue s)"
    and "capacity (queue t) = capacity (queue s)" and "submitted t = submitted s" and "sent t = sent s"
    and "taken t = taken s" and "handled t = handled s" and "panicked t = panicked s"
    and "dropped t = dropped s" and "activeSends t = activeSends s" and "dropMode t = dropMode s"
    and "batchSize t = batchSize s" and "recovered t = recovered s"
  using assms by (simp_all add: traffic_def)

lemma everywhere_traffic: "traffic t = traffic s \<Longrightarrow> everywhere t = everywhere s"
  by (simp add: everywhere_def traffic_def)

lemma everywhere_receive:
  assumes "j < length (workers s)" and "worker_holds (workers s ! j) = []"
    and "chan_take (queue s) = Some (x, q)"
  shows "everywhere (worker_receive j x n q s) = everywhere s"
  unfolding worker_receive_def
  using assms everywhere_take [OF assms(3)]
  by (intro worker_moves) (simp_all add: everywhere_def)

lemma worker_keeps_everywhere: "worker_step s t \<Longrightarrow> everywhere t = everywhere s"
proof (induction rule: worker_step.induct)
  case (process j s x n)
  then show ?case
    unfolding processItem_def
    by (cases "aborted s") (auto simp: everywhere_ops frame_simps intro!: worker_moves)
next
  case (returns j s x n)
  then show ?case
    unfolding handleItem_returns_def by (intro worker_moves) (simp_all add: everywhere_ops)
next
  case (panics j s x n)
  then show ?case
    unfolding handleItem_panics_def
    by (intro worker_moves) (simp_all add: everywhere_ops frame_simps)
qed (auto intro: everywhere_receive worker_moves)

lemma enqueue_sent_everywhere:
  assumes "i < length (senders s)" and "sender_holds (senders s ! i) = [x]"
    and "chan_put x (queue s) = Some q"
  shows "everywhere (enqueue_sent i x q s) = everywhere s"
  unfolding enqueue_sent_def
  using assms everywhere_put [OF assms(3)]
  by (intro sender_moves) (simp_all add: everywhere_def)

definition conserved :: "'i asyncState \<Rightarrow> bool" where
  "conserved s \<longleftrightarrow> mset (submitted s) = everywhere s"

lemma conserved_keep: "conserved s \<Longrightarrow> everywhere t = everywhere s \<Longrightarrow> submitted t = submitted s \<Longrightarrow> conserved t"
  by (simp add: conserved_def)

lemma conserved_put_sender:
  assumes "conserved s" and "i < length (senders s)" and "senders t = senders s"
    and "submitted t = submitted s"
    and "everywhere t + mset (sender_holds pc) = everywhere s + mset (sender_holds (senders s ! i))"
  shows "conserved (put_sender i pc t)"
  using sender_moves [OF assms(2,3,5)] assms(1,4)
  by (intro conserved_keep [OF assms(1)]) (simp_all add: frame_simps)

lemma sender_conserves: "sender_step s t \<Longrightarrow> conserved s \<Longrightarrow> conserved t"
proof (induction rule: sender_step.induct)
  case (call s x)
  then show ?case by (simp add: conserved_def Handle_call_def everywhere_def)
next
  case (enter i s x)
  then show ?case
    unfolding Handle_begin_def beginSend_def
    by (cases "closed s") (simp_all add: conserved_put_sender everywhere_ops frame_simps)
next
  case (gate i s x)
  then show ?case
    unfolding closing_gate_def
    by (cases "closingCh s") (simp_all add: conserved_put_sender everywhere_ops frame_simps)
next
  case (send i s x q)
  then show ?case
    by (intro conserved_keep [OF send(4)] enqueue_sent_everywhere)
       (simp_all add: enqueue_sent_def frame_simps)
next
  case (send_full i s x)
  then show ?case
    unfolding enqueue_full_def
    by (cases "dropMode s = DropModeDropOldest")
       (simp_all add: conserved_put_sender everywhere_ops frame_simps)
next
  case (retry_gate i s x)
  then show ?case
    unfolding closing_gate_def
    by (cases "closingCh s") (simp_all add: conserved_put_sender everywhere_ops frame_simps)
next
  case (retry_send i s x q)
  then show ?case
    by (intro conserved_keep [OF retry_send(4)] enqueue_sent_everywhere)
       (simp_all add: enqueue_sent_def frame_simps)
qed (simp_all add: conserved_put_sender enqueue_dropped_def enqueue_recover_def everywhere_ops
    everywhere_dropOldest frame_simps)

lemma worker_submitted: "worker_step s t \<Longrightarrow> submitted t = submitted s"
  by (induction rule: worker_step.induct)
     (auto simp: worker_receive_def processItem_def handleItem_returns_def handleItem_panics_def
        frame_simps)

lemma handoff_everywhere:
  assumes "i < length (senders s)" and "j < length (workers s)" and "sender_holds (senders s ! i) = [x]"
    and "worker_holds (workers s ! j) = []"
  shows "everywhere (handoff i x j n s) = everywhere s" and "submitted (handoff i x j n s) = submitted s"
proof -
  let ?t = "put_worker j (WHave x n) (s \<lparr> sent := sent s @ [x], taken := taken s @ [x] \<rparr>)"
  have t: "everywhere ?t = add_mset x (everywhere s)"
    using everywhere_put_worker [of j "s \<lparr> sent := sent s @ [x], taken := taken s @ [x] \<rparr>" "WHave x n"]
      assms by (simp add: everywhere_ops)
  have "senders ?t = senders s" by (simp add: put_worker_def)
  then show "everywhere (handoff i x j n s) = everywhere s"
    unfolding handoff_def using assms t by (intro sender_moves) simp_all
  show "submitted (handoff i x j n s) = submitted s" by (simp add: handoff_def frame_simps)
qed

lemma handoff_conserves: "handoff_step s t \<Longrightarrow> conserved s \<Longrightarrow> conserved t"
proof (induction rule: handoff_step.induct)
  case (meet i s x j)
  then have h: "sender_holds (senders s ! i) = [x]" "worker_holds (workers s ! j) = []" by auto
  show ?case
    by (rule conserved_keep [OF meet(7) handoff_everywhere [OF meet(1,3) h]])
next
  case (meet_batch i s x j n)
  then have h: "sender_holds (senders s ! i) = [x]" "worker_holds (workers s ! j) = []" by auto
  show ?case
    by (rule conserved_keep [OF meet_batch(9) handoff_everywhere [OF meet_batch(1,4) h]])
qed

lemma async_conserves:
  assumes "async_step s t" and "conserved s"
  shows "conserved t"
proof -
  consider "sender_step s t" | "worker_step s t" | "handoff_step s t" | "closer_step s t"
    using assms(1) unfolding async_step_def by blast
  then show ?thesis
  proof cases
    case 1
    then show ?thesis using assms(2) by (rule sender_conserves)
  next
    case 2
    show ?thesis
      by (rule conserved_keep [OF assms(2) worker_keeps_everywhere [OF 2] worker_submitted [OF 2]])
  next
    case 3
    then show ?thesis using assms(2) by (rule handoff_conserves)
  next
    case 4
    note tr = closer_traffic [OF 4]
    show ?thesis
      by (rule conserved_keep [OF assms(2) everywhere_traffic [OF tr] traffic_fields(5) [OF tr]])
  qed
qed

lemma held_by_replicate [simp]: "f t = [] \<Longrightarrow> held_by f (replicate n t) = {#}"
  by (induction n) simp_all

lemma reachable_conserved: "reachable s \<Longrightarrow> conserved s"
proof (induction rule: reachable.induct)
  case (fresh w n b mode ce ae)
  then show ?case by (simp add: conserved_def everywhere_def newAsyncState_def make_chan_def)
next
  case (step s t)
  from step.hyps(2) step.IH show ?case by (rule async_conserves)
qed

section \<open>The gate and the closing protocol\<close>

primrec in_gate :: "'i sender \<Rightarrow> bool" where
  "in_gate (SBegin x) = False"
| "in_gate (SGate x) = True"
| "in_gate (SSend x) = True"
| "in_gate (SEvict x) = True"
| "in_gate (SRetryGate x) = True"
| "in_gate (SRetrySend x) = True"
| "in_gate SEnd = True"
| "in_gate SDone = False"

text \<open>\<^verbatim>\<open>activeSends\<close> counts the callers between \<^verbatim>\<open>beginSend\<close> and
  \<^verbatim>\<open>endSend\<close>.\<close>

definition gate_counts :: "'i asyncState \<Rightarrow> bool" where
  "gate_counts s \<longleftrightarrow> activeSends s = count_if in_gate (senders s)"

lemma gate_put_sender:
  assumes "gate_counts s" and "i < length (senders s)" and "senders t = senders s"
    and "activeSends t + (if in_gate (senders s ! i) then 1 else 0)
      = activeSends s + (if in_gate pc then 1 else 0)"
  shows "gate_counts (put_sender i pc t)"
  using count_if_update [OF assms(2), of in_gate pc] assms
  by (simp add: gate_counts_def put_sender_def)

lemma active_frames [frame_simps]:
  "activeSends (put_sender i pc s) = activeSends s"
  "activeSends (put_worker j w s) = activeSends s"
  "activeSends (drop x s) = activeSends s"
  "activeSends (dropOldest s) = activeSends s"
  "senders (put_worker j w s) = senders s"
  by (simp_all add: put_sender_def put_worker_def drop_def dropOldest_def split: option.split)

lemma gate_pos:
  "gate_counts s \<Longrightarrow> i < length (senders s) \<Longrightarrow> in_gate (senders s ! i) \<Longrightarrow> 0 < activeSends s"
  unfolding gate_counts_def using count_if_pos_nth [of i "senders s" in_gate] by simp

lemma sender_gate: "sender_step s t \<Longrightarrow> gate_counts s \<Longrightarrow> gate_counts t"
proof (induction rule: sender_step.induct)
  case (call s x)
  then show ?case by (simp add: gate_counts_def Handle_call_def)
next
  case (enter i s x)
  then show ?case
    unfolding Handle_begin_def beginSend_def
    by (cases "closed s") (simp_all add: gate_put_sender frame_simps)
next
  case (gate i s x)
  then show ?case
    unfolding closing_gate_def
    by (cases "closingCh s") (simp_all add: gate_put_sender frame_simps)
next
  case (send_full i s x)
  then show ?case
    unfolding enqueue_full_def
    by (cases "dropMode s = DropModeDropOldest") (simp_all add: gate_put_sender frame_simps)
next
  case (retry_gate i s x)
  then show ?case
    unfolding closing_gate_def
    by (cases "closingCh s") (simp_all add: gate_put_sender frame_simps)
next
  case (leave i s)
  then have "0 < activeSends s" using gate_pos [of s i] by simp
  then show ?case
    using leave by (intro gate_put_sender [of s i]) (simp_all add: endSend_def)
qed (simp_all add: gate_put_sender enqueue_sent_def enqueue_dropped_def enqueue_recover_def frame_simps)

lemma worker_senders: "worker_step s t \<Longrightarrow> senders t = senders s \<and> activeSends t = activeSends s"
  by (induction rule: worker_step.induct)
     (auto simp: worker_receive_def processItem_def handleItem_returns_def handleItem_panics_def
        frame_simps)

lemma handoff_gate: "handoff_step s t \<Longrightarrow> gate_counts s \<Longrightarrow> gate_counts t"
proof (induction rule: handoff_step.induct)
  case (meet i s x j)
  then show ?case unfolding handoff_def by (intro gate_put_sender [of s i]) (auto simp: frame_simps)
next
  case (meet_batch i s x j n)
  then show ?case unfolding handoff_def by (intro gate_put_sender [of s i]) (simp_all add: frame_simps)
qed

lemma gate_keep: "gate_counts s \<Longrightarrow> senders t = senders s \<Longrightarrow> activeSends t = activeSends s \<Longrightarrow> gate_counts t"
  by (simp add: gate_counts_def)

text \<open>What traffic leaves alone.\<close>

definition control where
  "control s =
     ((closed s, aborted s, closingCh s, chan_closed (queue s)),
      (shutdownOnce s, finalizeOnce s, abortOnce s, abortStartOnce s, abortResult s),
      closers s, closer_calls s, aborter_calls s, capacity (queue s), dropMode s, batchSize s)"

lemma chan_put_frames:
  "chan_put x c = Some c' \<Longrightarrow> chan_closed c' = chan_closed c \<and> capacity c' = capacity c \<and> \<not> chan_closed c"
  by (auto simp: chan_put_def chan_send_def split: if_splits)

lemma chan_take_frames:
  "chan_take c = Some (x, c') \<Longrightarrow> chan_closed c' = chan_closed c \<and> capacity c' = capacity c"
  by (auto simp: chan_take_def chan_recv_def split: list.splits if_splits)

lemma control_frames [frame_simps]:
  "control (put_sender i pc s) = control s"
  "control (put_worker j w s) = control s"
  "control (drop x s) = control s"
  "control (endSend s) = control s"
  "control (Handle_call x s) = control s"
  "control (s \<lparr> activeSends := n \<rparr>) = control s"
  "control (s \<lparr> sent := xs \<rparr>) = control s"
  "control (s \<lparr> taken := xs \<rparr>) = control s"
  "control (s \<lparr> handled := xs \<rparr>) = control s"
  "control (s \<lparr> panicked := xs \<rparr>) = control s"
  "control (s \<lparr> recovered := b \<rparr>) = control s"
  by (simp_all add: control_def put_sender_def put_worker_def drop_def endSend_def Handle_call_def)

lemma control_put: "chan_put x (queue s) = Some q \<Longrightarrow> control (s \<lparr> queue := q \<rparr>) = control s"
  using chan_put_frames by (fastforce simp: control_def)

lemma control_take: "chan_take (queue s) = Some (x, q) \<Longrightarrow> control (s \<lparr> queue := q \<rparr>) = control s"
  using chan_take_frames by (fastforce simp: control_def)

lemma control_dropOldest [frame_simps]: "control (dropOldest s) = control s"
proof (cases s rule: dropOldest_cases)
  case (2 y q)
  then have "control ((drop y s) \<lparr> queue := q \<rparr>) = control (drop y s)"
    by (intro control_take) (simp add: drop_def)
  then show ?thesis using 2 by (simp add: frame_simps)
qed simp

lemma sender_control: "sender_step s t \<Longrightarrow> control t = control s"
  by (induction rule: sender_step.induct)
     (simp_all add: Handle_begin_def beginSend_def closing_gate_def enqueue_sent_def enqueue_dropped_def
        enqueue_recover_def enqueue_full_def control_put frame_simps)

lemma worker_control: "worker_step s t \<Longrightarrow> control t = control s"
  by (induction rule: worker_step.induct)
     (simp_all add: worker_receive_def processItem_def handleItem_returns_def handleItem_panics_def
        control_take frame_simps)

lemma handoff_control: "handoff_step s t \<Longrightarrow> control t = control s"
  by (induction rule: handoff_step.induct) (simp_all add: handoff_def frame_simps)

text \<open>What must hold where a closing goroutine stands.\<close>

fun closer_ok :: "'i asyncState \<Rightarrow> closer \<Rightarrow> bool" where
  "closer_ok s (BeginClose _) \<longleftrightarrow> closed s"
| "closer_ok s (AwaitSends _) \<longleftrightarrow> closed s \<and> closingCh s"
| "closer_ok s (EndClose _) \<longleftrightarrow> closed s \<and> closingCh s \<and> activeSends s = 0"
| "closer_ok s _ \<longleftrightarrow> True"

definition protocol :: "'i asyncState \<Rightarrow> bool" where
  "protocol s \<longleftrightarrow>
     (closingCh s \<longrightarrow> closed s) \<and>
     (chan_closed (queue s) \<longrightarrow> closingCh s \<and> activeSends s = 0) \<and>
     list_all (closer_ok s) (closers s)"

lemma control_fields:
  assumes "control t = control s"
  shows "closed t = closed s" and "aborted t = aborted s" and "closingCh t = closingCh s"
    and "chan_closed (queue t) = chan_closed (queue s)" and "closers t = closers s"
    and "finalizeOnce t = finalizeOnce s" and "closer_calls t = closer_calls s"
    and "aborter_calls t = aborter_calls s" and "capacity (queue t) = capacity (queue s)"
    and "abortOnce t = abortOnce s" and "dropMode t = dropMode s" and "shutdownOnce t = shutdownOnce s"
    and "batchSize t = batchSize s" and "abortStartOnce t = abortStartOnce s"
  using assms by (simp_all add: control_def)

lemma closer_ok_mono:
  assumes "closer_ok s c" and "closed s \<Longrightarrow> closed t" and "closingCh s \<Longrightarrow> closingCh t"
    and "closed s \<Longrightarrow> activeSends t \<le> activeSends s"
  shows "closer_ok t c"
  using assms by (cases c) auto

lemma protocol_traffic:
  assumes "protocol s" and c: "control t = control s" and "closed s \<Longrightarrow> activeSends t \<le> activeSends s"
  shows "protocol t"
  using assms(1,3) control_fields(1,3,4,5) [OF c]
  by (auto simp: protocol_def list_all_iff intro: closer_ok_mono)

lemma sender_active: "sender_step s t \<Longrightarrow> closed s \<Longrightarrow> activeSends t \<le> activeSends s"
  by (induction rule: sender_step.induct)
     (simp_all add: Handle_call_def Handle_begin_def beginSend_def closing_gate_def enqueue_sent_def
        enqueue_dropped_def enqueue_recover_def enqueue_full_def endSend_def frame_simps)

lemma handoff_active: "handoff_step s t \<Longrightarrow> activeSends t = activeSends s"
  by (induction rule: handoff_step.induct) (simp_all add: handoff_def frame_simps)

lemma put_closer_all:
  "list_all (closer_ok s) (closers s) \<Longrightarrow> (\<And>c. closer_ok s c \<Longrightarrow> closer_ok t c) \<Longrightarrow>
   closers t = (closers s)[k := pc] \<Longrightarrow> closer_ok t pc \<Longrightarrow> list_all (closer_ok t) (closers t)"
  by (simp add: list_all_iff) (metis insertE set_update_subset_insert subsetD)

lemma protocol_put_closer:
  assumes "protocol s" and "closers t = closers s" and "closed s \<Longrightarrow> closed t"
    and "closingCh s \<Longrightarrow> closingCh t" and "activeSends t = activeSends s"
    and "closingCh t \<Longrightarrow> closed t" and "chan_closed (queue t) \<Longrightarrow> closingCh t \<and> activeSends t = 0"
    and "closer_ok t pc"
  shows "protocol (put_closer k pc t)"
proof -
  have "list_all (closer_ok (put_closer k pc t)) (closers (put_closer k pc t))"
  proof (rule put_closer_all [of s])
    show "list_all (closer_ok s) (closers s)" using assms(1) by (simp add: protocol_def)
    show "closers (put_closer k pc t) = (closers s)[k := pc]" using assms(2) by (simp add: put_closer_def)
    show "closer_ok (put_closer k pc t) pc" using assms(8) by (cases pc) (simp_all add: put_closer_def)
    show "closer_ok (put_closer k pc t) c" if "closer_ok s c" for c
      using closer_ok_mono [OF that, of "put_closer k pc t"] assms(3,4,5) by (simp add: put_closer_def)
  qed
  then show ?thesis using assms(6,7) by (simp add: protocol_def put_closer_def)
qed

lemma protocol_move:
  assumes "protocol s" and "closers t = closers s" and "closed t = closed s"
    and "closingCh t = closingCh s" and "activeSends t = activeSends s" and "queue t = queue s"
    and "closer_ok s pc"
  shows "protocol (put_closer k pc t)"
proof (rule protocol_put_closer [OF assms(1,2)])
  show "closer_ok t pc" using closer_ok_mono [OF assms(7), of t] assms(3-5) by simp
qed (use assms in \<open>simp_all add: protocol_def\<close>)

lemma protocol_append_closer:
  "protocol s \<Longrightarrow> closer_ok s c \<Longrightarrow> protocol (s \<lparr> closers := closers s @ [c] \<rparr>)"
proof -
  assume p: "protocol s" and c: "closer_ok s c"
  have "closer_ok (s \<lparr> closers := closers s @ [c] \<rparr>) d = closer_ok s d" for d
    by (cases d) simp_all
  then show ?thesis using p c by (simp add: protocol_def list_all_iff)
qed

lemma protocol_once: "protocol (s \<lparr> abortStartOnce := b \<rparr>) = protocol s"
proof -
  have "closer_ok (s \<lparr> abortStartOnce := b \<rparr>) d = closer_ok s d" for d
    by (cases d) simp_all
  then show ?thesis by (simp add: protocol_def list_all_iff)
qed

lemma protocol_after_shutdown:
  assumes "protocol s" and "closers t = closers s" and "closed s \<Longrightarrow> closed t"
    and "closingCh s \<Longrightarrow> closingCh t" and "activeSends t = activeSends s"
    and "closingCh t \<Longrightarrow> closed t" and "chan_closed (queue t) \<Longrightarrow> closingCh t \<and> activeSends t = 0"
  shows "protocol (after_shutdown k from t)"
proof (cases "from")
  case FromShutdown
  then show ?thesis
    using protocol_put_closer [OF assms(1-7), of AwaitWorkers] by (simp add: after_shutdown_def)
next
  case FromAbort
  have "protocol (put_closer k AwaitAbort t)"
    using protocol_put_closer [OF assms(1-7), of AwaitAbort] by simp
  then have "protocol ((put_closer k AwaitAbort t)
      \<lparr> closers := closers (put_closer k AwaitAbort t) @ [Coordinator] \<rparr>)"
    by (rule protocol_append_closer) simp
  then have "protocol ((put_closer k AwaitAbort t)
      \<lparr> closers := closers (put_closer k AwaitAbort t) @ [Coordinator] \<rparr>
      \<lparr> abortStartOnce := Finished \<rparr>)"
    unfolding protocol_once .
  then show ?thesis using FromAbort by (simp add: after_shutdown_def Let_def)
qed

lemma finalize_frames [frame_simps]:
  "closed (finalizeClose s) = closed s"
  "closingCh (finalizeClose s) = closingCh s"
  "queue (finalizeClose s) = queue s"
  "activeSends (finalizeClose s) = activeSends s"
  "closers (finalizeClose s) = closers s"
  "closed (abortDownstream s) = closed s"
  "closingCh (abortDownstream s) = closingCh s"
  "queue (abortDownstream s) = queue s"
  "activeSends (abortDownstream s) = activeSends s"
  "closers (abortDownstream s) = closers s"
  by (simp_all add: finalizeClose_def abortDownstream_def)

lemma protocol_closer_ok:
  "protocol s \<Longrightarrow> k < length (closers s) \<Longrightarrow> closer_ok s (closers s ! k)"
  by (simp add: protocol_def list_all_length)

lemma closer_protocol: "closer_step s t \<Longrightarrow> protocol s \<Longrightarrow> protocol t"
proof (induction rule: closer_step.induct)
  case (shutdown s)
  then show ?case by (simp add: Shutdown_call_def protocol_append_closer)
next
  case (abort s)
  then show ?case by (simp add: Abort_call_def protocol_append_closer)
next
  case (once_later k s "from")
  then show ?case by (intro protocol_after_shutdown [OF once_later(4)]) (auto simp: protocol_def)
next
  case (end_close k s "from")
  have "closer_ok s (EndClose from)" using protocol_closer_ok [of s k] end_close by simp
  then show ?case
    using end_close
    by (intro protocol_after_shutdown [OF end_close(3)])
       (auto simp: protocol_def endClose_def chan_close_def)
next
  case (sends_done k s "from")
  have "closer_ok s (AwaitSends from)" using protocol_closer_ok [of s k] sends_done by simp
  then show ?case
    using sends_done by (intro protocol_put_closer [OF sends_done(4)]) (auto simp: protocol_def)
next
  case (begin_close k s "from")
  have "closer_ok s (BeginClose from)" using protocol_closer_ok [of s k] begin_close by simp
  then show ?case
    using begin_close by (intro protocol_put_closer [OF begin_close(3)]) (auto simp: protocol_def)
next
  case (abort_finished k s e)
  then show ?case
    unfolding coordinator_done_def Let_def
    by (intro protocol_put_closer [OF abort_finished(4)]) (auto simp: protocol_def frame_simps)
next
  case (workers_done k s)
  then show ?case
    by (intro protocol_put_closer [OF workers_done(4)]) (auto simp: protocol_def frame_simps)
next
  case (abort_downstream k s)
  then show ?case
    by (intro protocol_put_closer [OF abort_downstream(3)]) (auto simp: protocol_def frame_simps)
next
  case (store_closed k s "from")
  then show ?case by (intro protocol_put_closer [OF store_closed(3)]) (auto simp: protocol_def)
qed (rule protocol_move, assumption; simp)+

lemma async_gate: "async_step s t \<Longrightarrow> gate_counts s \<Longrightarrow> gate_counts t"
proof -
  assume st: "async_step s t" and g: "gate_counts s"
  consider "sender_step s t" | "worker_step s t" | "handoff_step s t" | "closer_step s t"
    using st unfolding async_step_def by blast
  then show "gate_counts t"
  proof cases
    case 1
    then show ?thesis using g by (rule sender_gate)
  next
    case 2
    show ?thesis by (rule gate_keep [OF g]) (simp_all add: worker_senders [OF 2])
  next
    case 3
    then show ?thesis using g by (rule handoff_gate)
  next
    case 4
    note f = traffic_fields [OF closer_traffic [OF 4]]
    show ?thesis by (rule gate_keep [OF g f(1) f(11)])
  qed
qed

lemma async_protocol: "async_step s t \<Longrightarrow> protocol s \<Longrightarrow> protocol t"
proof -
  assume st: "async_step s t" and p: "protocol s"
  consider "sender_step s t" | "worker_step s t" | "handoff_step s t" | "closer_step s t"
    using st unfolding async_step_def by blast
  then show "protocol t"
  proof cases
    case 1
    show ?thesis by (rule protocol_traffic [OF p sender_control [OF 1] sender_active [OF 1]])
  next
    case 2
    show ?thesis
      by (rule protocol_traffic [OF p worker_control [OF 2]]) (simp add: worker_senders [OF 2])
  next
    case 3
    show ?thesis
      by (rule protocol_traffic [OF p handoff_control [OF 3]]) (simp add: handoff_active [OF 3])
  next
    case 4
    then show ?thesis using p by (rule closer_protocol)
  qed
qed

lemma reachable_gate: "reachable s \<Longrightarrow> gate_counts s"
proof (induction rule: reachable.induct)
  case (fresh w n b mode ce ae)
  then show ?case by (simp add: gate_counts_def newAsyncState_def)
next
  case (step s t)
  then show ?case by (blast intro: async_gate)
qed

lemma reachable_protocol: "reachable s \<Longrightarrow> protocol s"
proof (induction rule: reachable.induct)
  case (fresh w n b mode ce ae)
  then show ?case by (simp add: protocol_def newAsyncState_def make_chan_def)
next
  case (step s t)
  then show ?case by (blast intro: async_protocol)
qed

lemma reachable_no_send_on_closed:
  assumes "reachable s" and "i < length (senders s)" and "in_gate (senders s ! i)"
  shows "\<not> chan_closed (queue s)"
  using gate_pos [OF reachable_gate [OF assms(1)] assms(2,3)] reachable_protocol [OF assms(1)]
  by (auto simp: protocol_def)

section \<open>The queue\<close>

definition queue_ok :: "'i asyncState \<Rightarrow> bool" where
  "queue_ok s \<longleftrightarrow> go_chan.history (sent s) (taken s) (queue s) \<and> go_chan.within_bound (queue s)"

lemma queue_ok_keep:
  "queue_ok s \<Longrightarrow> queue t = queue s \<Longrightarrow> sent t = sent s \<Longrightarrow> taken t = taken s \<Longrightarrow> queue_ok t"
  by (simp add: queue_ok_def)

lemma queue_ok_put: "queue_ok s \<Longrightarrow> chan_put x (queue s) = Some q \<Longrightarrow> queue t = q \<Longrightarrow>
    sent t = sent s @ [x] \<Longrightarrow> taken t = taken s \<Longrightarrow> queue_ok t"
  using go_chan.history_put go_chan.within_bound_put by (auto simp: queue_ok_def)

lemma queue_ok_take: "queue_ok s \<Longrightarrow> chan_take (queue s) = Some (x, q) \<Longrightarrow> queue t = q \<Longrightarrow>
    sent t = sent s \<Longrightarrow> taken t = taken s @ [x] \<Longrightarrow> queue_ok t"
  using go_chan.history_take go_chan.within_bound_take by (auto simp: queue_ok_def)

lemma queue_ok_frames [frame_simps]:
  "queue_ok (put_sender i pc s) = queue_ok s"
  "queue_ok (put_worker j w s) = queue_ok s"
  "queue_ok (drop x s) = queue_ok s"
  "queue_ok (endSend s) = queue_ok s"
  "queue_ok (Handle_call x s) = queue_ok s"
  "queue_ok (s \<lparr> activeSends := n \<rparr>) = queue_ok s"
  "queue_ok (s \<lparr> handled := xs \<rparr>) = queue_ok s"
  "queue_ok (s \<lparr> panicked := xs \<rparr>) = queue_ok s"
  "queue_ok (s \<lparr> recovered := r \<rparr>) = queue_ok s"
  by (simp_all add: queue_ok_def put_sender_def put_worker_def drop_def endSend_def Handle_call_def)

lemma queue_ok_sent: "queue_ok s \<Longrightarrow> chan_put x (queue s) = Some q \<Longrightarrow> queue_ok (enqueue_sent i x q s)"
  by (rule queue_ok_put) (simp_all add: enqueue_sent_def put_sender_def)

lemma queue_ok_received:
  "queue_ok s \<Longrightarrow> chan_take (queue s) = Some (x, q) \<Longrightarrow> queue_ok (worker_receive j x n q s)"
  by (rule queue_ok_take) (simp_all add: worker_receive_def put_worker_def)

lemma queue_ok_dropOldest: "queue_ok s \<Longrightarrow> queue_ok (dropOldest s)"
proof (cases s rule: dropOldest_cases)
  case (2 y q)
  assume q: "queue_ok s"
  show ?thesis unfolding 2(1) by (rule queue_ok_take [OF q 2(2)]) (simp_all add: drop_def)
qed simp

lemma sender_queue_ok: "sender_step s t \<Longrightarrow> queue_ok s \<Longrightarrow> queue_ok t"
  by (induction rule: sender_step.induct)
     (simp_all add: queue_ok_sent queue_ok_dropOldest Handle_begin_def beginSend_def
        closing_gate_def enqueue_dropped_def enqueue_recover_def enqueue_full_def frame_simps)

lemma worker_queue_ok: "worker_step s t \<Longrightarrow> queue_ok s \<Longrightarrow> queue_ok t"
  by (induction rule: worker_step.induct)
     (simp_all add: queue_ok_received processItem_def handleItem_returns_def handleItem_panics_def
        frame_simps)

lemma handoff_queue_ok: "handoff_step s t \<Longrightarrow> queue_ok s \<Longrightarrow> queue_ok t"
  by (induction rule: handoff_step.induct)
     (auto simp: queue_ok_def go_chan.history_def go_chan.within_bound_def handoff_def put_sender_def
        put_worker_def)

lemma async_queue_ok: "async_step s t \<Longrightarrow> queue_ok s \<Longrightarrow> queue_ok t"
proof -
  assume st: "async_step s t" and q: "queue_ok s"
  consider "sender_step s t" | "worker_step s t" | "handoff_step s t" | "closer_step s t"
    using st unfolding async_step_def by blast
  then show "queue_ok t"
  proof cases
    case 4
    note f = traffic_fields [OF closer_traffic [OF 4]]
    show ?thesis
      using q f(3,4,6,7) by (simp add: queue_ok_def go_chan.history_def go_chan.within_bound_def)
  qed (use q sender_queue_ok worker_queue_ok handoff_queue_ok in blast)+
qed

lemma reachable_queue_ok: "reachable s \<Longrightarrow> queue_ok s"
proof (induction rule: reachable.induct)
  case (fresh w n b mode ce ae)
  then show ?case
    by (simp add: queue_ok_def go_chan.history_def go_chan.within_bound_def newAsyncState_def make_chan_def)
next
  case (step s t)
  then show ?case by (blast intro: async_queue_ok)
qed

end
