(* ===== verification/AsyncProps.thy ===== *)
theory AsyncProps
  imports AsyncFacts
begin

text \<open>
  The guarantees of the asynchronous handler: accounting at shutdown, the unreachable
  recovery, order and bound of the queue, closing the inner handler once and last, the
  promise of the blocking mode, the meaning of abort, and that a shutdown which has begun can
  always run to completion.
\<close>

section \<open>Workers leave last, hooks run once\<close>

definition exits_ok :: "'i asyncState \<Rightarrow> bool" where
  "exits_ok s \<longleftrightarrow>
     (WExit \<in> set (workers s) \<longrightarrow> chan_closed (queue s) \<and> buffer (queue s) = []) \<and>
     (finalizeOnce s \<longrightarrow> workers_gone s) \<and>
     closer_calls s = (if finalizeOnce s then 1 else 0) \<and>
     aborter_calls s = (if abortOnce s then 1 else 0)"

lemma workers_frames [frame_simps]:
  "workers (put_sender i pc s) = workers s"
  "workers (dropOldest s) = workers s"
  "workers (endSend s) = workers s"
  "workers (Handle_call x s) = workers s"
  by (simp_all add: put_sender_def dropOldest_def endSend_def Handle_call_def drop_def split: option.split)

lemma queue_frames [frame_simps]:
  "queue (put_sender i pc s) = queue s"
  "queue (put_worker j w s) = queue s"
  "queue (drop x s) = queue s"
  "queue (endSend s) = queue s"
  "queue (Handle_call x s) = queue s"
  by (simp_all add: put_sender_def put_worker_def drop_def endSend_def Handle_call_def)

lemma sender_workers: "sender_step s t \<Longrightarrow> workers t = workers s"
  by (induction rule: sender_step.induct)
     (simp_all add: Handle_begin_def beginSend_def closing_gate_def enqueue_sent_def
        enqueue_dropped_def enqueue_recover_def enqueue_full_def frame_simps)

lemma dropOldest_empty: "buffer (queue s) = [] \<Longrightarrow> dropOldest s = s"
  by (simp add: dropOldest_def chan_take_def chan_recv_def)

lemma sender_empty:
  "sender_step s t \<Longrightarrow> chan_closed (queue s) \<Longrightarrow> buffer (queue s) = [] \<Longrightarrow> buffer (queue t) = []"
  by (induction rule: sender_step.induct)
     (simp_all add: Handle_begin_def beginSend_def closing_gate_def enqueue_sent_def chan_put_def
        chan_send_def enqueue_dropped_def enqueue_recover_def enqueue_full_def dropOldest_empty
        frame_simps)

lemma exits_control:
  assumes "exits_ok s" and c: "control t = control s"
    and "WExit \<in> set (workers t) \<Longrightarrow> chan_closed (queue t) \<and> buffer (queue t) = []"
    and "finalizeOnce s \<Longrightarrow> workers_gone s \<Longrightarrow> workers_gone t"
  shows "exits_ok t"
  using assms(1,3,4) control_fields(6,7,8,10) [OF c] by (simp add: exits_ok_def)

lemma sender_exits: "sender_step s t \<Longrightarrow> exits_ok s \<Longrightarrow> exits_ok t"
proof -
  assume st: "sender_step s t" and e: "exits_ok s"
  note c = sender_control [OF st]
  show "exits_ok t"
    using e sender_workers [OF st] sender_empty [OF st] control_fields(4) [OF c]
    by (intro exits_control [OF e c]) (auto simp: exits_ok_def workers_gone_def)
qed

lemma busy_not_gone: "j < length (workers s) \<Longrightarrow> workers s ! j \<noteq> WExit \<Longrightarrow> \<not> workers_gone s"
  by (auto simp: workers_gone_def list_all_length)

lemma exits_put_worker:
  assumes "exits_ok s" and "j < length (workers s)" and "workers s ! j \<noteq> WExit" and "pc \<noteq> WExit"
    and "control t = control s" and "workers t = (workers s)[j := pc]"
    and "buffer (queue s) = [] \<Longrightarrow> buffer (queue t) = []"
  shows "exits_ok t"
proof (rule exits_control [OF assms(1,5)])
  have "set (workers t) \<subseteq> insert pc (set (workers s))"
    unfolding assms(6) by (rule set_update_subset_insert)
  then show "chan_closed (queue t) \<and> buffer (queue t) = []" if "WExit \<in> set (workers t)"
    using that assms(1,4,7) control_fields(4) [OF assms(5)] by (auto simp: exits_ok_def)
  show "workers_gone t" if "workers_gone s"
    using busy_not_gone [OF assms(2,3)] that by blast
qed

lemma take_not_empty: "chan_take c = Some (x, c') \<Longrightarrow> buffer c \<noteq> []"
  using go_chan.take_contents by fastforce

lemma receive_control:
  "chan_take (queue s) = Some (x, q) \<Longrightarrow> control (worker_receive j x n q s) = control s"
  by (simp add: worker_receive_def control_take frame_simps)

lemma worker_exits: "worker_step s t \<Longrightarrow> exits_ok s \<Longrightarrow> exits_ok t"
proof (induction rule: worker_step.induct)
  case (receive j s x q)
  show ?case
    by (rule exits_put_worker [OF receive(4,1), of "WHave x 1"])
       (use receive in \<open>simp_all add: receive_control, auto simp: worker_receive_def put_worker_def
         dest: take_not_empty\<close>)
next
  case (stop j s)
  show ?case
  proof (rule exits_control [OF stop(4)])
    show "chan_closed (queue (put_worker j WExit s)) \<and> buffer (queue (put_worker j WExit s)) = []"
      using stop(3) by (auto simp: put_worker_def chan_recv_def split: list.splits if_splits)
    show "workers_gone (put_worker j WExit s)" if "workers_gone s"
      using busy_not_gone [of j s] stop(1,2) that by simp
  qed (simp add: frame_simps)
next
  case (process j s x n)
  show ?case
    by (rule exits_put_worker [OF process(3,1), of "if aborted s then WBatch n else WHandling x n"])
       (use process in \<open>simp_all add: processItem_def frame_simps, simp_all add: put_worker_def drop_def\<close>)
next
  case (returns j s x n)
  show ?case
    by (rule exits_put_worker [OF returns(3,1), of "WBatch n"])
       (use returns in \<open>simp_all add: handleItem_returns_def frame_simps, simp_all add: put_worker_def\<close>)
next
  case (panics j s x n)
  show ?case
    by (rule exits_put_worker [OF panics(3,1), of "WBatch n"])
       (use panics in \<open>simp_all add: handleItem_panics_def frame_simps,
         simp_all add: put_worker_def drop_def\<close>)
next
  case (batch j s n x q)
  show ?case
    by (rule exits_put_worker [OF batch(5,1), of "WHave x (Suc n)"])
       (use batch in \<open>simp_all add: receive_control, auto simp: worker_receive_def put_worker_def
         dest: take_not_empty\<close>)
next
  case (batch_end j s n)
  show ?case
    by (rule exits_put_worker [OF batch_end(4,1), of WIdle])
       (use batch_end in \<open>simp_all add: frame_simps, simp_all add: put_worker_def\<close>)
qed

lemma handoff_exits: "handoff_step s t \<Longrightarrow> exits_ok s \<Longrightarrow> exits_ok t"
proof (induction rule: handoff_step.induct)
  case (meet i s x j)
  show ?case
    by (rule exits_put_worker [OF meet(7,3), of "WHave x 1"])
       (use meet in \<open>simp_all add: handoff_def frame_simps, simp_all add: put_worker_def\<close>)
next
  case (meet_batch i s x j n)
  show ?case
    by (rule exits_put_worker [OF meet_batch(9,4), of "WHave x (Suc n)"])
       (use meet_batch in \<open>simp_all add: handoff_def frame_simps, simp_all add: put_worker_def\<close>)
qed

lemma closer_exits: "closer_step s t \<Longrightarrow> exits_ok s \<Longrightarrow> exits_ok t"
proof -
  assume st: "closer_step s t" and e: "exits_ok s"
  note f = traffic_fields(2,3) [OF closer_traffic [OF st]]
  have "(chan_closed (queue s) \<longrightarrow> chan_closed (queue t)) \<and>
      (finalizeOnce t \<longrightarrow> finalizeOnce s \<or> workers_gone s) \<and>
      closer_calls t + (if finalizeOnce s then 1 else 0)
        = closer_calls s + (if finalizeOnce t then 1 else 0) \<and>
      aborter_calls t + (if abortOnce s then 1 else 0)
        = aborter_calls s + (if abortOnce t then 1 else 0)"
    using st
    by (induction rule: closer_step.induct)
       (simp_all add: closer_ops chan_close_def Let_def split: origin.split)
  then show "exits_ok t"
    using e f by (auto simp: exits_ok_def workers_gone_def)
qed

lemma async_exits: "async_step s t \<Longrightarrow> exits_ok s \<Longrightarrow> exits_ok t"
  unfolding async_step_def using sender_exits worker_exits handoff_exits closer_exits by blast

lemma reachable_exits: "reachable s \<Longrightarrow> exits_ok s"
proof (induction rule: reachable.induct)
  case (fresh w n b mode ce ae)
  then show ?case by (simp add: exits_ok_def newAsyncState_def)
next
  case (step s t)
  then show ?case by (blast intro: async_exits)
qed

section \<open>The worker pool never shrinks\<close>

lemma length_workers: "async_step s t \<Longrightarrow> length (workers t) = length (workers s)"
proof -
  assume st: "async_step s t"
  have w: "worker_step s t \<Longrightarrow> length (workers t) = length (workers s)"
    by (induction rule: worker_step.induct)
       (simp_all add: worker_receive_def processItem_def handleItem_returns_def
          handleItem_panics_def put_worker_def drop_def)
  have h: "handoff_step s t \<Longrightarrow> length (workers t) = length (workers s)"
    by (induction rule: handoff_step.induct) (simp_all add: handoff_def put_sender_def put_worker_def)
  show ?thesis
    using st w h sender_workers [of s t] traffic_fields(2) [OF closer_traffic, of s t]
    unfolding async_step_def by auto
qed

lemma reachable_workers: "reachable s \<Longrightarrow> workers s \<noteq> []"
proof (induction rule: reachable.induct)
  case (fresh w n b mode ce ae)
  then show ?case by (simp add: newAsyncState_def)
next
  case (step s t)
  then show ?case using length_workers [of s t] by (metis length_0_conv)
qed

lemma gone_drained:
  assumes "reachable s" and "workers_gone s"
  shows "chan_closed (queue s)" and "buffer (queue s) = []" and "held_by worker_holds (workers s) = {#}"
proof -
  have "hd (workers s) \<in> set (workers s)" using reachable_workers [OF assms(1)] by simp
  then have exit: "WExit \<in> set (workers s)"
    using assms(2) by (metis (full_types) list_all_iff workers_gone_def)
  then show "chan_closed (queue s)" and "buffer (queue s) = []"
    using reachable_exits [OF assms(1)] by (auto simp: exits_ok_def)
  show "held_by worker_holds (workers s) = {#}"
    using assms(2) by (intro held_by_empty) (auto simp: workers_gone_def list_all_iff)
qed

section \<open>The blocking mode\<close>

primrec retrying :: "'i sender \<Rightarrow> bool" where
  "retrying (SBegin x) = False"
| "retrying (SGate x) = False"
| "retrying (SSend x) = False"
| "retrying (SEvict x) = True"
| "retrying (SRetryGate x) = True"
| "retrying (SRetrySend x) = True"
| "retrying SEnd = False"
| "retrying SDone = False"

definition open_for_business :: "'i asyncState \<Rightarrow> bool" where
  "open_for_business s \<longleftrightarrow> dropMode s = DropModeBlock \<and> \<not> closed s \<and> \<not> aborted s"

definition block_ok :: "'i asyncState \<Rightarrow> bool" where
  "block_ok s \<longleftrightarrow>
     (dropMode s = DropModeBlock \<longrightarrow> list_all (\<lambda>p. \<not> retrying p) (senders s)) \<and>
     (open_for_business s \<longrightarrow> dropped s = panicked s)"

lemma open_control: "control t = control s \<Longrightarrow> open_for_business t = open_for_business s"
  by (simp add: open_for_business_def control_def)

lemma list_all_put: "list_all P xs \<Longrightarrow> P x \<Longrightarrow> list_all P (xs[i := x])"
  by (simp add: list_all_iff) (metis insertE set_update_subset_insert subsetD)

lemma block_put_sender:
  assumes "block_ok s" and "control t = control s" and "senders t = senders s" and "\<not> retrying pc"
    and "open_for_business s \<Longrightarrow> dropped t = dropped s \<and> panicked t = panicked s"
  shows "block_ok (put_sender i pc t)"
proof -
  have c: "control (put_sender i pc t) = control s" using assms(2) by (simp add: frame_simps)
  have o: "open_for_business (put_sender i pc t) = open_for_business s" by (rule open_control [OF c])
  show ?thesis
    unfolding block_ok_def o
    using assms(1,3,4,5) control_fields(11) [OF c]
    by (auto simp: block_ok_def put_sender_def intro: list_all_put)
qed

lemma block_not_retrying:
  "block_ok s \<Longrightarrow> dropMode s = DropModeBlock \<Longrightarrow> i < length (senders s) \<Longrightarrow> \<not> retrying (senders s ! i)"
  by (simp add: block_ok_def list_all_length)

lemma block_other_mode: "dropMode s \<noteq> DropModeBlock \<Longrightarrow> block_ok s"
  by (simp add: block_ok_def open_for_business_def)

lemma block_retry:
  assumes "block_ok s" and "i < length (senders s)" and "retrying (senders s ! i)"
    and "control t = control s"
  shows "block_ok t"
  using block_not_retrying [OF assms(1) _ assms(2)] assms(3) control_fields(11) [OF assms(4)]
  by (intro block_other_mode) auto

lemma drop_lists [frame_simps]:
  "dropped (put_sender i pc s) = dropped s" "panicked (put_sender i pc s) = panicked s"
  "panicked (drop x s) = panicked s"
  "dropped (endSend s) = dropped s" "panicked (endSend s) = panicked s"
  "dropped (put_worker j w s) = dropped s" "panicked (put_worker j w s) = panicked s"
  by (simp_all add: put_sender_def drop_def endSend_def put_worker_def)

lemma sender_block: "sender_step s t \<Longrightarrow> protocol s \<Longrightarrow> gate_counts s \<Longrightarrow> block_ok s \<Longrightarrow> block_ok t"
proof (induction rule: sender_step.induct)
  case (call s x)
  then show ?case by (simp add: block_ok_def open_for_business_def Handle_call_def)
next
  case (enter i s x)
  show ?case
    unfolding Handle_begin_def beginSend_def
    by (cases "closed s")
       (simp_all, (rule block_put_sender [OF enter(5)]; simp add: frame_simps open_for_business_def)+)
next
  case (gate i s x)
  have cl: "closingCh s \<Longrightarrow> closed s" using gate by (simp add: protocol_def)
  show ?case
    unfolding closing_gate_def
    by (cases "closingCh s")
       (simp_all, (rule block_put_sender [OF gate(5)]; simp add: frame_simps open_for_business_def cl)+)
next
  case (send i s x q)
  then show ?case
    unfolding enqueue_sent_def
    by (intro block_put_sender [OF send(6)]) (simp_all add: control_put frame_simps)
next
  case (send_panic i s x)
  then show ?case using gate_pos [of s i] by (simp add: protocol_def)
next
  case (send_closing i s x)
  then have cl: "closed s" by (simp add: protocol_def)
  show ?case
    unfolding enqueue_dropped_def
    by (rule block_put_sender [OF send_closing(7)]; simp add: frame_simps open_for_business_def cl)
next
  case (send_full i s x)
  then show ?case
    by (intro block_other_mode) (simp add: enqueue_full_def put_sender_def drop_def)
next
  case (leave i s)
  show ?case by (rule block_put_sender [OF leave(5)]; simp add: frame_simps)
next
  case (evict i s x)
  show ?case by (rule block_retry [OF evict(5,1)]) (simp_all add: evict frame_simps)
next
  case (retry_gate i s x)
  show ?case
    by (rule block_retry [OF retry_gate(5,1)]) (simp_all add: retry_gate closing_gate_def frame_simps)
next
  case (retry_send i s x q)
  show ?case
    by (rule block_retry [OF retry_send(6,1)])
       (simp_all add: retry_send(2) sender_control [OF sender_step.retry_send [OF retry_send(1,2,3)]])
next
  case (retry_panic i s x)
  show ?case
    by (rule block_retry [OF retry_panic(6,1)]) (simp_all add: retry_panic enqueue_recover_def frame_simps)
next
  case (retry_full i s x)
  show ?case
    by (rule block_retry [OF retry_full(6,1)]) (simp_all add: retry_full enqueue_dropped_def frame_simps)
qed

lemma block_keep:
  assumes "block_ok s" and "control t = control s" and "senders t = senders s"
    and "open_for_business s \<Longrightarrow> dropped s = panicked s \<Longrightarrow> dropped t = panicked t"
  shows "block_ok t"
  using assms(1,3,4) control_fields(11) [OF assms(2)] open_control [OF assms(2)]
  by (simp add: block_ok_def)

lemma worker_block: "worker_step s t \<Longrightarrow> block_ok s \<Longrightarrow> block_ok t"
proof -
  assume st: "worker_step s t" and b: "block_ok s"
  have "\<not> aborted s \<Longrightarrow> dropped s = panicked s \<Longrightarrow> dropped t = panicked t"
    using st
    by (induction rule: worker_step.induct)
       (simp_all add: worker_receive_def processItem_def handleItem_returns_def handleItem_panics_def
          put_worker_def drop_def)
  then show "block_ok t"
    by (intro block_keep [OF b worker_control [OF st]])
       (simp_all add: worker_senders [OF st] open_for_business_def)
qed

lemma handoff_block: "handoff_step s t \<Longrightarrow> block_ok s \<Longrightarrow> block_ok t"
proof (induction rule: handoff_step.induct)
  case (meet i s x j)
  show ?case
    unfolding handoff_def
    by (rule block_put_sender [OF meet(7)]; simp add: frame_simps)
next
  case (meet_batch i s x j n)
  show ?case
    unfolding handoff_def
    by (rule block_put_sender [OF meet_batch(9)]; simp add: frame_simps)
qed

lemma closer_block: "closer_step s t \<Longrightarrow> block_ok s \<Longrightarrow> block_ok t"
proof -
  assume st: "closer_step s t" and b: "block_ok s"
  note f = traffic_fields [OF closer_traffic [OF st]]
  have "(closed s \<longrightarrow> closed t) \<and> (aborted s \<longrightarrow> aborted t)"
    using st by (induction rule: closer_step.induct) (simp_all add: closer_ops Let_def split: origin.split)
  then show "block_ok t"
    using b f(1,9,10,12) by (auto simp: block_ok_def open_for_business_def)
qed

lemma reachable_block: "reachable s \<Longrightarrow> block_ok s"
proof (induction rule: reachable.induct)
  case (fresh w n b mode ce ae)
  then show ?case by (simp add: block_ok_def newAsyncState_def)
next
  case (step s t)
  then show ?case
    unfolding async_step_def
    using sender_block [of s t] reachable_protocol [of s] reachable_gate [of s] worker_block [of s t]
      handoff_block [of s t] closer_block [of s t] by blast
qed

section \<open>Abort\<close>

primrec in_handler :: "'i worker \<Rightarrow> 'i list" where
  "in_handler WIdle = []"
| "in_handler (WHave x n) = []"
| "in_handler (WHandling x n) = [x]"
| "in_handler (WBatch n) = []"
| "in_handler WExit = []"

text \<open>The records the inner handler has been given.\<close>

definition given :: "'i asyncState \<Rightarrow> 'i multiset" where
  "given s = mset (handled s) + mset (panicked s) + held_by in_handler (workers s)"

lemma given_put_worker:
  assumes "j < length (workers s)" and "workers t = workers s"
    and "mset (handled t) + mset (panicked t) + mset (in_handler pc)
      = mset (handled s) + mset (panicked s) + mset (in_handler (workers s ! j))"
  shows "given (put_worker j pc t) = given s"
proof -
  let ?new = "held_by in_handler ((workers s)[j := pc])"
  have "?new + mset (in_handler (workers s ! j)) = held_by in_handler (workers s) + mset (in_handler pc)"
    by (rule held_by_update [OF assms(1)])
  then have "mset (handled t) + mset (panicked t) + ?new + mset (in_handler (workers s ! j))
      = mset (handled t) + mset (panicked t) + mset (in_handler pc) + held_by in_handler (workers s)"
    by (simp add: ac_simps)
  also have "\<dots> = mset (handled s) + mset (panicked s) + held_by in_handler (workers s)
      + mset (in_handler (workers s ! j))"
    using assms(3) by (simp add: ac_simps)
  finally have "mset (handled t) + mset (panicked t) + ?new
      = mset (handled s) + mset (panicked s) + held_by in_handler (workers s)"
    by simp
  then show ?thesis using assms(2) by (simp add: given_def put_worker_def)
qed

lemma given_frames [frame_simps]:
  "given (put_sender i pc s) = given s"
  "given (drop x s) = given s"
  "given (dropOldest s) = given s"
  "given (endSend s) = given s"
  "given (Handle_call x s) = given s"
  "given (s \<lparr> queue := q \<rparr>) = given s"
  "given (s \<lparr> sent := xs \<rparr>) = given s"
  "given (s \<lparr> taken := xs \<rparr>) = given s"
  "given (s \<lparr> recovered := r \<rparr>) = given s"
  "given (s \<lparr> activeSends := n \<rparr>) = given s"
  by (simp_all add: given_def put_sender_def drop_def dropOldest_def endSend_def Handle_call_def
      split: option.split)

lemma sender_given: "sender_step s t \<Longrightarrow> given t = given s"
  by (induction rule: sender_step.induct)
     (simp_all add: Handle_begin_def beginSend_def closing_gate_def enqueue_sent_def
        enqueue_dropped_def enqueue_recover_def enqueue_full_def frame_simps)

lemma worker_given: "worker_step s t \<Longrightarrow> aborted s \<Longrightarrow> given t = given s"
proof (induction rule: worker_step.induct)
  case (receive j s x q)
  then show ?case unfolding worker_receive_def by (intro given_put_worker) simp_all
next
  case (process j s x n)
  then show ?case unfolding processItem_def by (simp add: given_put_worker frame_simps drop_def)
next
  case (returns j s x n)
  then show ?case unfolding handleItem_returns_def by (intro given_put_worker) simp_all
next
  case (panics j s x n)
  then show ?case unfolding handleItem_panics_def by (intro given_put_worker) (simp_all add: drop_def)
next
  case (batch j s n x q)
  then show ?case unfolding worker_receive_def by (intro given_put_worker) simp_all
qed (simp_all add: given_put_worker)

lemma handoff_given: "handoff_step s t \<Longrightarrow> given t = given s"
  by (induction rule: handoff_step.induct)
     (simp_all add: handoff_def given_put_worker frame_simps)

lemma closer_aborted: "closer_step s t \<Longrightarrow> aborted s \<Longrightarrow> aborted t"
  by (induction rule: closer_step.induct) (simp_all add: closer_ops Let_def split: origin.split)

lemma async_aborted: "async_step s t \<Longrightarrow> aborted s \<Longrightarrow> aborted t"
proof -
  assume st: "async_step s t" and a: "aborted s"
  show "aborted t"
    using st a closer_aborted [of s t] control_fields(2) [of t s] sender_control [of s t] worker_control [of s t]
      handoff_control [of s t]
    unfolding async_step_def by blast
qed

lemma async_given: "async_step s t \<Longrightarrow> aborted s \<Longrightarrow> given t = given s"
proof -
  assume st: "async_step s t" and a: "aborted s"
  have "closer_step s t \<Longrightarrow> given t = given s"
    by (drule closer_traffic) (simp add: given_def traffic_def)
  then show ?thesis
    using st a sender_given [of s t] worker_given [of s t] handoff_given [of s t]
    unfolding async_step_def by blast
qed

section \<open>Draining\<close>

abbreviation async_steps :: "'i asyncState \<Rightarrow> 'i asyncState \<Rightarrow> bool" where
  "async_steps \<equiv> async_step\<^sup>*\<^sup>*"

lemma reachable_steps: "async_steps s t \<Longrightarrow> reachable s \<Longrightarrow> reachable t"
  by (induction rule: rtranclp_induct) (auto intro: reachable.step)

primrec worker_weight :: "'i worker \<Rightarrow> nat" where
  "worker_weight WExit = 0"
| "worker_weight WIdle = 1"
| "worker_weight (WBatch n) = 2"
| "worker_weight (WHandling x n) = 3"
| "worker_weight (WHave x n) = 4"

definition backlog :: "'i asyncState \<Rightarrow> nat" where
  "backlog s = 5 * length (buffer (queue s)) + sum_list (map worker_weight (workers s))"

lemma weight_update:
  "j < length ws \<Longrightarrow>
   sum_list (map f (ws[j := w])) + f (ws ! j) = sum_list (map f ws) + (f w :: nat)"
  by (induction ws arbitrary: j) (auto split: nat.split)

lemma backlog_put_worker:
  assumes "j < length (workers s)" and "workers t = workers s"
    and "5 * length (buffer (queue t)) + worker_weight pc
      < 5 * length (buffer (queue s)) + worker_weight (workers s ! j)"
  shows "backlog (put_worker j pc t) < backlog s"
  using weight_update [OF assms(1), of worker_weight pc] assms(2,3)
  by (simp add: backlog_def put_worker_def)

lemma worker_progress:
  assumes "chan_closed (queue s)" and j: "j < length (workers s)" and "workers s ! j \<noteq> WExit"
  shows "\<exists>t. worker_step s t \<and> backlog t < backlog s"
proof -
  have idle: "\<exists>t. worker_step s t \<and> backlog t < backlog s" if w: "workers s ! j = WIdle"
  proof (cases "chan_take (queue s)")
    case None
    then have "chan_recv (queue s) = RecvClosed"
      using assms(1) by (auto simp: chan_take_def chan_recv_def split: list.splits)
    then show ?thesis
      using worker_step.stop [OF j w] w by (auto intro!: exI backlog_put_worker [OF j])
  next
    case (Some xq)
    obtain x q where xq: "xq = (x, q)" by (cases xq)
    have "length (buffer (queue s)) = Suc (length (buffer q))"
      using go_chan.take_contents Some xq by fastforce
    then have "backlog (worker_receive j x 1 q s) < backlog s"
      unfolding worker_receive_def using w by (intro backlog_put_worker [OF j]) simp_all
    then show ?thesis using worker_step.receive [OF j w] Some xq by blast
  qed
  have batch: "\<exists>t. worker_step s t \<and> backlog t < backlog s" if w: "workers s ! j = WBatch n" for n
  proof (cases "batchSize s \<le> n \<or> chan_take (queue s) = None")
    case True
    then show ?thesis
      using worker_step.batch_end [OF j w] w by (auto intro!: exI backlog_put_worker [OF j])
  next
    case False
    then obtain x q where n: "n < batchSize s" and xq: "chan_take (queue s) = Some (x, q)" by auto
    have "length (buffer (queue s)) = Suc (length (buffer q))"
      using go_chan.take_contents xq by fastforce
    then have "backlog (worker_receive j x (Suc n) q s) < backlog s"
      unfolding worker_receive_def using w by (intro backlog_put_worker [OF j]) simp_all
    then show ?thesis using worker_step.batch [OF j w n xq] by blast
  qed
  have have_item: "\<exists>t. worker_step s t \<and> backlog t < backlog s" if w: "workers s ! j = WHave x n" for x n
    using worker_step.process [OF j w] w
    by (auto simp: processItem_def drop_def intro!: exI backlog_put_worker [OF j] split: if_splits)
  have handling: "\<exists>t. worker_step s t \<and> backlog t < backlog s" if w: "workers s ! j = WHandling x n" for x n
    using worker_step.returns [OF j w] w
    by (auto simp: handleItem_returns_def intro!: exI backlog_put_worker [OF j])
  show ?thesis using idle batch have_item handling assms(3) by (cases "workers s ! j") auto
qed

lemma drains:
  "chan_closed (queue s) \<Longrightarrow> \<exists>t. async_steps s t \<and> workers_gone t"
proof (induction "backlog s" arbitrary: s rule: less_induct)
  case less
  show ?case
  proof (cases "workers_gone s")
    case False
    then obtain j where "j < length (workers s)" "workers s ! j \<noteq> WExit"
      by (auto simp: workers_gone_def list_all_length)
    then obtain t where t: "worker_step s t" "backlog t < backlog s"
      using worker_progress less.prems by blast
    have "chan_closed (queue t)" using control_fields(4) [OF worker_control [OF t(1)]] less.prems by simp
    then obtain u where "async_steps t u" "workers_gone u" using less.hyps t(2) by blast
    then show ?thesis
      using t(1) by (meson async_step_def converse_rtranclp_into_rtranclp)
  qed auto
qed

section \<open>Shutdown can always finish\<close>

primrec sender_weight :: "'i sender \<Rightarrow> nat" where
  "sender_weight (SBegin x) = 0"
| "sender_weight SDone = 0"
| "sender_weight SEnd = 1"
| "sender_weight (SGate x) = 2"
| "sender_weight (SRetryGate x) = 2"
| "sender_weight (SRetrySend x) = 2"
| "sender_weight (SEvict x) = 3"
| "sender_weight (SSend x) = 4"

definition pressure :: "'i asyncState \<Rightarrow> nat" where
  "pressure s = sum_list (map sender_weight (senders s))"

lemma pressure_put_sender:
  assumes "i < length (senders s)" and "senders t = senders s"
    and "sender_weight pc < sender_weight (senders s ! i)"
  shows "pressure (put_sender i pc t) < pressure s"
  using weight_update [OF assms(1), of sender_weight pc] assms(2,3)
  by (simp add: pressure_def put_sender_def)

lemma sender_progress:
  assumes c: "closingCh s" and i: "i < length (senders s)" and g: "in_gate (senders s ! i)"
  shows "\<exists>t. sender_step s t \<and> pressure t < pressure s"
proof (cases "senders s ! i")
  case (SGate x)
  then show ?thesis
    using sender_step.gate [OF i SGate] c
    by (auto simp: closing_gate_def frame_simps intro!: exI pressure_put_sender [OF i])
next
  case (SSend x)
  show ?thesis
  proof (cases "chan_send x (queue s)")
    case (Sent q)
    then have "chan_put x (queue s) = Some q" by (simp add: chan_put_def)
    then show ?thesis
      using sender_step.send [OF i SSend] SSend
      by (auto simp: enqueue_sent_def intro!: exI pressure_put_sender [OF i])
  next
    case SendPanics
    then have "chan_closed (queue s)" by (simp add: chan_send_def split: if_splits)
    then show ?thesis
      using sender_step.send_panic [OF i SSend] SSend
      by (auto simp: enqueue_recover_def frame_simps intro!: exI pressure_put_sender [OF i])
  next
    case SendBlocks
    have "pressure (enqueue_dropped i x s) < pressure s" "pressure (enqueue_full i x s) < pressure s"
      using SSend by (auto simp: enqueue_dropped_def enqueue_full_def frame_simps
          intro!: pressure_put_sender [OF i])
    then show ?thesis
      using sender_step.send_closing [OF i SSend _ c] sender_step.send_full [OF i SSend _ SendBlocks]
      by (cases "dropMode s = DropModeBlock") blast+
  qed
next
  case (SEvict x)
  then show ?thesis
    using sender_step.evict [OF i SEvict]
    by (auto simp: frame_simps intro!: exI pressure_put_sender [OF i])
next
  case (SRetryGate x)
  then show ?thesis
    using sender_step.retry_gate [OF i SRetryGate] c
    by (auto simp: closing_gate_def frame_simps intro!: exI pressure_put_sender [OF i])
next
  case (SRetrySend x)
  show ?thesis
  proof (cases "chan_send x (queue s)")
    case (Sent q)
    then have "chan_put x (queue s) = Some q" by (simp add: chan_put_def)
    then show ?thesis
      using sender_step.retry_send [OF i SRetrySend] SRetrySend
      by (auto simp: enqueue_sent_def intro!: exI pressure_put_sender [OF i])
  next
    case SendPanics
    then have "chan_closed (queue s)" by (simp add: chan_send_def split: if_splits)
    then show ?thesis
      using sender_step.retry_panic [OF i SRetrySend] SRetrySend
      by (auto simp: enqueue_recover_def frame_simps intro!: exI pressure_put_sender [OF i])
  next
    case SendBlocks
    then show ?thesis
      using sender_step.retry_full [OF i SRetrySend] SRetrySend
      by (auto simp: enqueue_dropped_def frame_simps intro!: exI pressure_put_sender [OF i])
  qed
next
  case SEnd
  then show ?thesis
    using sender_step.leave [OF i SEnd]
    by (auto simp: frame_simps intro!: exI pressure_put_sender [OF i])
qed (use g in simp_all)

lemma senders_leave:
  "gate_counts s \<Longrightarrow> closingCh s \<Longrightarrow>
   \<exists>t. async_steps s t \<and> activeSends t = 0 \<and> control t = control s"
proof (induction "pressure s" arbitrary: s rule: less_induct)
  case less
  show ?case
  proof (cases "activeSends s = 0")
    case True
    then show ?thesis by blast
  next
    case False
    then have "0 < count_if in_gate (senders s)" using less.prems(1) by (simp add: gate_counts_def)
    then have "\<not> (\<forall>x \<in> set (senders s). \<not> in_gate x)" using count_if_zero [of in_gate "senders s"] by simp
    then obtain i where "i < length (senders s)" "in_gate (senders s ! i)" by (auto simp: in_set_conv_nth)
    then obtain t where t: "sender_step s t" "pressure t < pressure s"
      using sender_progress less.prems(2) by blast
    note c = sender_control [OF t(1)]
    obtain u where u: "async_steps t u" "activeSends u = 0" "control u = control t"
      using less.hyps [OF t(2) sender_gate [OF t(1) less.prems(1)]] control_fields(3) [OF c] less.prems(2)
      by auto
    have "async_steps s u"
      using t(1) u(1) by (meson async_step_def converse_rtranclp_into_rtranclp)
    then show ?thesis using u c by auto
  qed
qed

text \<open>While a shutdown has begun and the queue is open, some goroutine is carrying it out.\<close>

fun at_begin :: "closer \<Rightarrow> bool" where
  "at_begin (BeginClose _) = True"
| "at_begin _ = False"

fun at_end :: "closer \<Rightarrow> bool" where
  "at_end (AwaitSends _) = True"
| "at_end (EndClose _) = True"
| "at_end _ = False"

definition carried_out :: "'i asyncState \<Rightarrow> bool" where
  "carried_out s \<longleftrightarrow>
     (closed s \<and> \<not> closingCh s \<longrightarrow> list_ex at_begin (closers s)) \<and>
     (closingCh s \<and> \<not> chan_closed (queue s) \<longrightarrow> list_ex at_end (closers s))"

lemma list_ex_put: "list_ex P xs \<Longrightarrow> (k < length xs \<Longrightarrow> P (xs ! k) \<Longrightarrow> P x) \<Longrightarrow> list_ex P (xs[k := x])"
  by (auto simp: list_ex_length nth_list_update) (metis nth_list_update_eq nth_list_update_neq)

lemma list_ex_put_new: "k < length xs \<Longrightarrow> P x \<Longrightarrow> list_ex P (xs[k := x])"
  by (auto simp: list_ex_length)

lemma carried_put_closer:
  assumes "carried_out s" and "k < length (closers s)" and "closers t = closers s"
    and "closed t = closed s" and "closingCh t = closingCh s"
    and "chan_closed (queue t) = chan_closed (queue s)"
    and "\<not> at_begin (closers s ! k)" and "at_end (closers s ! k) \<Longrightarrow> at_end pc"
  shows "carried_out (put_closer k pc t)"
  using assms by (auto simp: carried_out_def put_closer_def intro: list_ex_put)

lemma carried_append: "carried_out s \<Longrightarrow> carried_out (s \<lparr> closers := closers s @ [c] \<rparr>)"
  by (simp add: carried_out_def)

lemma carried_once: "carried_out (s \<lparr> abortStartOnce := b \<rparr>) = carried_out s"
  by (simp add: carried_out_def)

lemma carried_after_shutdown:
  assumes "\<And>pc. carried_out (put_closer k pc t)"
  shows "carried_out (after_shutdown k from t)"
proof (cases "from")
  case FromShutdown
  then show ?thesis using assms by (simp add: after_shutdown_def)
next
  case FromAbort
  have "carried_out ((put_closer k AwaitAbort t)
      \<lparr> closers := closers (put_closer k AwaitAbort t) @ [Coordinator] \<rparr> \<lparr> abortStartOnce := Finished \<rparr>)"
    unfolding carried_once by (rule carried_append) (rule assms)
  then show ?thesis using FromAbort by (simp add: after_shutdown_def Let_def)
qed

lemma closer_carried: "closer_step s t \<Longrightarrow> carried_out s \<Longrightarrow> carried_out t"
proof (induction rule: closer_step.induct)
  case (shutdown s)
  then show ?case by (simp add: Shutdown_call_def carried_append)
next
  case (abort s)
  then show ?case by (simp add: Abort_call_def carried_append)
next
  case (once_later k s "from")
  then show ?case by (intro carried_after_shutdown carried_put_closer [OF once_later(4,1)]) simp_all
next
  case (store_closed k s "from")
  then show ?case by (auto simp: carried_out_def put_closer_def intro: list_ex_put list_ex_put_new)
next
  case (begin_close k s "from")
  then show ?case by (auto simp: carried_out_def put_closer_def intro: list_ex_put_new)
next
  case (end_close k s "from")
  have "carried_out (put_closer k pc ((endClose s) \<lparr> shutdownOnce := Finished \<rparr>))" for pc
    using end_close
    by (auto simp: carried_out_def put_closer_def endClose_def chan_close_def intro: list_ex_put)
  then show ?case by (rule carried_after_shutdown)
next
  case (workers_done k s)
  then show ?case by (intro carried_put_closer [OF workers_done(4,1)]) (simp_all add: frame_simps)
next
  case (abort_downstream k s)
  then show ?case by (intro carried_put_closer [OF abort_downstream(3,1)]) (simp_all add: frame_simps)
next
  case (abort_finished k s e)
  then show ?case
    unfolding coordinator_done_def Let_def
    by (intro carried_put_closer [OF abort_finished(4,1)]) (simp_all add: frame_simps)
qed (rule carried_put_closer, assumption, assumption; simp)+

lemma carried_control: "control t = control s \<Longrightarrow> carried_out t = carried_out s"
  by (simp add: carried_out_def control_def)

lemma reachable_carried: "reachable s \<Longrightarrow> carried_out s"
proof (induction rule: reachable.induct)
  case (fresh w n b mode ce ae)
  then show ?case by (simp add: carried_out_def newAsyncState_def)
next
  case (step s t)
  then show ?case
    unfolding async_step_def
    using carried_control [of t s] sender_control [of s t] worker_control [of s t]
      handoff_control [of s t] closer_carried [of s t] by blast
qed

lemma after_shutdown_queue [simp]: "queue (after_shutdown k from s) = queue s"
  by (cases "from") (simp_all add: after_shutdown_def put_closer_def Let_def)

lemma end_close_closes: "chan_closed (queue (after_shutdown k from ((endClose s) \<lparr> shutdownOnce := o1 \<rparr>)))"
  by (simp add: endClose_def chan_close_def)

lemma end_closes:
  assumes "k < length (closers s)" and "at_end (closers s ! k)" and "activeSends s = 0"
  shows "\<exists>t. async_steps s t \<and> chan_closed (queue t)"
proof -
  have fin: "\<exists>t. async_steps s t \<and> chan_closed (queue t)"
    if k: "k < length (closers s)" and e: "closers s ! k = EndClose fr" for s :: "'i asyncState" and fr
    using closer_step.end_close [OF k e] end_close_closes async_step_def by blast
  show ?thesis
  proof (cases "closers s ! k")
    case (AwaitSends fr)
    let ?t = "put_closer k (EndClose fr) s"
    have "async_step s ?t"
      using closer_step.sends_done [OF assms(1) AwaitSends assms(3)] by (simp add: async_step_def)
    moreover have "closers ?t ! k = EndClose fr" "k < length (closers ?t)"
      using assms(1) by (simp_all add: put_closer_def)
    ultimately show ?thesis using fin [of ?t fr] by (meson converse_rtranclp_into_rtranclp)
  next
    case (EndClose fr)
    then show ?thesis by (rule fin [OF assms(1)])
  qed (use assms(2) in simp_all)
qed

lemma closing_closes:
  assumes "reachable s" and "closingCh s"
  shows "\<exists>t. async_steps s t \<and> chan_closed (queue t)"
proof (cases "chan_closed (queue s)")
  case False
  then obtain k where k: "k < length (closers s)" "at_end (closers s ! k)"
    using reachable_carried [OF assms(1)] assms(2) by (auto simp: carried_out_def list_ex_length)
  obtain t where t: "async_steps s t" "activeSends t = 0" "control t = control s"
    using senders_leave [OF reachable_gate [OF assms(1)] assms(2)] by blast
  then obtain u where "async_steps t u" "chan_closed (queue u)"
    using end_closes [of k t] k control_fields(5) [OF t(3)] by auto
  then show ?thesis using t(1) by (meson rtranclp_trans)
qed blast

lemma closed_closes:
  assumes "reachable s" and "closed s"
  shows "\<exists>t. async_steps s t \<and> chan_closed (queue t)"
proof (cases "closingCh s")
  case True
  then show ?thesis by (rule closing_closes [OF assms(1)])
next
  case False
  then obtain k where k: "k < length (closers s)" "at_begin (closers s ! k)"
    using reachable_carried [OF assms(1)] assms(2) by (auto simp: carried_out_def list_ex_length)
  then obtain fr where fr: "closers s ! k = BeginClose fr" by (cases "closers s ! k") auto
  let ?t = "put_closer k (AwaitSends fr) (s \<lparr> closingCh := True \<rparr>)"
  have st: "async_step s ?t"
    using closer_step.begin_close [OF k(1) fr] by (simp add: async_step_def)
  have "closingCh ?t" by (simp add: put_closer_def)
  then show ?thesis
    using closing_closes [OF reachable.step [OF assms(1) st]] st
    by (meson converse_rtranclp_into_rtranclp)
qed

lemma sender_recovered:
  "sender_step s t \<Longrightarrow> gate_counts s \<Longrightarrow> protocol s \<Longrightarrow> recovered t = recovered s"
proof (induction rule: sender_step.induct)
  case (send_panic i s x)
  then show ?case using gate_pos [of s i] by (simp add: protocol_def)
next
  case (retry_panic i s x)
  then show ?case using gate_pos [of s i] by (simp add: protocol_def)
qed (simp_all add: sender_ops split: option.split)

section \<open>A sample run\<close>

text \<open>One record delivered by one worker over a queue of one.\<close>

definition demo_fresh :: "nat asyncState" where
  "demo_fresh = newAsyncState 1 1 1 DropModeBlock None None"

lemma demo_reachable: "reachable demo_fresh"
  unfolding demo_fresh_def by (rule reachable.fresh) simp

lemma by_sender: "reachable s \<Longrightarrow> sender_step s t \<Longrightarrow> reachable t"
  by (erule reachable.step) (simp add: async_step_def)

lemma by_worker: "reachable s \<Longrightarrow> worker_step s t \<Longrightarrow> reachable t"
  by (erule reachable.step) (simp add: async_step_def)

lemma by_closer: "reachable s \<Longrightarrow> closer_step s t \<Longrightarrow> reachable t"
  by (erule reachable.step) (simp add: async_step_def)

lemma demo_called: "reachable (Handle_call 7 demo_fresh)"
  by (rule by_sender [OF demo_reachable sender_step.call])

definition demo_sent :: "nat asyncState" where
  "demo_sent =
     enqueue_sent 0 7 \<lparr>buffer = [7], capacity = 1, chan_closed = False\<rparr>
       (closing_gate 0 7 (SSend 7) (Handle_begin 0 7 (Handle_call 7 demo_fresh)))"

definition demo_delivered :: "nat asyncState" where
  "demo_delivered =
     put_worker 0 WIdle (handleItem_returns 0 7 1 (processItem 0 7 1
       (worker_receive 0 7 1 (make_chan 1) (put_sender 0 SDone (endSend demo_sent)))))"

lemmas demo_defs = demo_fresh_def newAsyncState_def make_chan_def sender_ops worker_ops closer_ops
  chan_put_def chan_send_def chan_take_def chan_recv_def chan_close_def

lemma demo_sent_reachable: "reachable demo_sent"
proof -
  have 1: "reachable (Handle_begin 0 7 (Handle_call 7 demo_fresh))"
    by (rule by_sender [OF demo_called sender_step.enter]) (simp_all add: demo_defs)
  have 2: "reachable (closing_gate 0 7 (SSend 7) (Handle_begin 0 7 (Handle_call 7 demo_fresh)))"
    by (rule by_sender [OF 1 sender_step.gate]) (simp_all add: demo_defs)
  show ?thesis
    unfolding demo_sent_def
    by (rule by_sender [OF 2 sender_step.send]) (simp_all add: demo_defs)
qed

lemma demo_delivered_reachable: "reachable demo_delivered"
proof -
  have 1: "reachable (put_sender 0 SDone (endSend demo_sent))"
    by (rule by_sender [OF demo_sent_reachable sender_step.leave])
       (simp_all add: demo_sent_def demo_defs)
  have 2: "reachable (worker_receive 0 7 1 (make_chan 1) (put_sender 0 SDone (endSend demo_sent)))"
    by (rule by_worker [OF 1 worker_step.receive]) (simp_all add: demo_sent_def demo_defs)
  have 3: "reachable (processItem 0 7 1 (worker_receive 0 7 1 (make_chan 1)
      (put_sender 0 SDone (endSend demo_sent))))"
    by (rule by_worker [OF 2 worker_step.process]) (simp_all add: demo_sent_def demo_defs)
  have 4: "reachable (handleItem_returns 0 7 1 (processItem 0 7 1 (worker_receive 0 7 1 (make_chan 1)
      (put_sender 0 SDone (endSend demo_sent)))))"
    by (rule by_worker [OF 3 worker_step.returns]) (simp_all add: demo_sent_def demo_defs)
  show ?thesis
    unfolding demo_delivered_def
    by (rule by_worker [OF 4 worker_step.batch_end [of _ _ 1]]) (simp_all add: demo_sent_def demo_defs)
qed

text \<open>The same run closed: a shutdown that waits for the worker and closes the inner handler.\<close>

definition demo_closing :: "nat asyncState" where
  "demo_closing =
     put_closer 0 (AwaitSends FromShutdown)
       ((put_closer 0 (BeginClose FromShutdown)
          ((put_closer 0 (StoreClosed FromShutdown)
             ((Shutdown_call demo_delivered) \<lparr> shutdownOnce := Running \<rparr>)) \<lparr> closed := True \<rparr>))
          \<lparr> closingCh := True \<rparr>)"

definition demo_closed :: "nat asyncState" where
  "demo_closed =
     put_closer 0 Finalized (finalizeClose (put_worker 0 WExit
       (after_shutdown 0 FromShutdown
         ((endClose (put_closer 0 (EndClose FromShutdown) demo_closing)) \<lparr> shutdownOnce := Finished \<rparr>))))"

lemma demo_closing_reachable: "reachable demo_closing"
proof -
  let ?s = "Shutdown_call demo_delivered"
  have 1: "reachable ?s" by (rule by_closer [OF demo_delivered_reachable closer_step.shutdown])
  have 2: "reachable (put_closer 0 (StoreClosed FromShutdown) (?s \<lparr> shutdownOnce := Running \<rparr>))"
    by (rule by_closer [OF 1 closer_step.once_first])
       (simp_all add: demo_delivered_def demo_sent_def demo_defs)
  have 3: "reachable (put_closer 0 (BeginClose FromShutdown)
      ((put_closer 0 (StoreClosed FromShutdown) (?s \<lparr> shutdownOnce := Running \<rparr>)) \<lparr> closed := True \<rparr>))"
    by (rule by_closer [OF 2 closer_step.store_closed])
       (simp_all add: demo_delivered_def demo_sent_def demo_defs)
  show ?thesis
    unfolding demo_closing_def
    by (rule by_closer [OF 3 closer_step.begin_close])
       (simp_all add: demo_delivered_def demo_sent_def demo_defs)
qed

lemma demo_closed_reachable: "reachable demo_closed"
proof -
  note unf = demo_closing_def demo_delivered_def demo_sent_def demo_defs
  let ?s = "put_closer 0 (EndClose FromShutdown) demo_closing"
  let ?u = "after_shutdown 0 FromShutdown ((endClose ?s) \<lparr> shutdownOnce := Finished \<rparr>)"
  have 1: "reachable ?s"
    by (rule by_closer [OF demo_closing_reachable closer_step.sends_done]) (simp_all add: unf)
  have 2: "reachable ?u" by (rule by_closer [OF 1 closer_step.end_close]) (simp_all add: unf)
  have 3: "reachable (put_worker 0 WExit ?u)"
    by (rule by_worker [OF 2 worker_step.stop]) (simp_all add: unf)
  show ?thesis
    unfolding demo_closed_def
    by (rule by_closer [OF 3 closer_step.workers_done]) (simp_all add: unf workers_gone_def)
qed

section \<open>The properties\<close>

definition returned :: "'i sender \<Rightarrow> bool" where
  "returned p \<longleftrightarrow> p = SDone"

text \<open>
  C1. Nothing is lost: in every reachable state, under every interleaving, the
  records handed to the handler are exactly those still with a caller, queued, or with a
  worker, together with those delivered to the inner handler and those reported as dropped,
  each counted once.
\<close>

theorem async_conservation:
  "reachable s \<Longrightarrow>
   mset (submitted s) =
     held_by sender_holds (senders s) + mset (buffer (queue s)) + held_by worker_holds (workers s)
     + mset (handled s) + mset (dropped s)"
  using reachable_conserved by (simp add: conserved_def everywhere_def)

theorem async_conservation_witness:
  "mset (submitted (Handle_call 7 demo_fresh)) = {#7#} \<and>
   mset (submitted (Handle_call 7 demo_fresh)) =
     held_by sender_holds (senders (Handle_call 7 demo_fresh))
     + mset (buffer (queue (Handle_call 7 demo_fresh)))
     + held_by worker_holds (workers (Handle_call 7 demo_fresh))
     + mset (handled (Handle_call 7 demo_fresh)) + mset (dropped (Handle_call 7 demo_fresh))"
  using async_conservation [OF demo_called]
  by (simp add: Handle_call_def demo_fresh_def newAsyncState_def)



text \<open>
  C29. The queue is never sent to after it is closed: the \<^verbatim>\<open>recover\<close> that guards
  \<^verbatim>\<open>enqueue\<close> is unreachable, because the gate counts exactly the callers inside and the
  queue is closed only when it counts none.
\<close>

theorem async_never_recovers:
  "reachable s \<Longrightarrow> \<not> recovered s \<and> activeSends s = count_if in_gate (senders s)"
proof (induction rule: reachable.induct)
  case (fresh w n b mode ce ae)
  then show ?case by (simp add: newAsyncState_def)
next
  case (step s t)
  have r: "\<not> recovered s" using step.IH by simp
  have "sender_step s t \<Longrightarrow> recovered t = recovered s"
    using sender_recovered reachable_gate [OF step.hyps(1)] reachable_protocol [OF step.hyps(1)] by blast
  moreover have "worker_step s t \<Longrightarrow> recovered t = recovered s"
    by (induction rule: worker_step.induct) (simp_all add: worker_ops drop_def)
  moreover have "handoff_step s t \<Longrightarrow> recovered t = recovered s"
    by (induction rule: handoff_step.induct) (simp_all add: handoff_def put_sender_def put_worker_def)
  moreover have "closer_step s t \<Longrightarrow> recovered t = recovered s"
    by (drule closer_traffic) (rule traffic_fields(14))
  ultimately have "\<not> recovered t" using r step.hyps(2) unfolding async_step_def by blast
  moreover have "gate_counts t" using reachable_gate reachable.step [OF step.hyps] by blast
  ultimately show ?case by (simp add: gate_counts_def)
qed

theorem async_never_recovers_witness:
  "\<not> recovered (Handle_call 7 demo_fresh) \<and> activeSends (Handle_call 7 demo_fresh) = 0"
  using async_never_recovers [OF demo_called] by (simp add: Handle_call_def demo_fresh_def newAsyncState_def)

text \<open>
  C35. The queue is first in first out and bounded: what has been sent is, in order,
  what has been taken followed by what is waiting, and no more than the configured capacity
  waits.
\<close>

theorem async_queue_fifo_bounded:
  "reachable s \<Longrightarrow>
   sent s = taken s @ buffer (queue s) \<and> length (buffer (queue s)) \<le> capacity (queue s)"
  using reachable_queue_ok [of s]
  by (simp add: queue_ok_def go_chan.history_def go_chan.within_bound_def)

theorem async_queue_fifo_bounded_witness:
  "sent demo_sent = [7] \<and> sent demo_sent = taken demo_sent @ buffer (queue demo_sent) \<and>
   length (buffer (queue demo_sent)) \<le> capacity (queue demo_sent)"
  using async_queue_fifo_bounded [OF demo_sent_reachable] by (simp add: demo_sent_def demo_defs)

text \<open>
  The wrapped handler is closed at most once and aborted at most once however
  many goroutines shut down or abort, and it is closed only after the last worker has left
  with the queue closed and empty: it is never used after it is closed.
\<close>

theorem async_closes_inner_last:
  assumes "reachable s"
  shows "closer_calls s \<le> 1 \<and> aborter_calls s \<le> 1 \<and>
    (if finalizeOnce s
     then closer_calls s = 1 \<and> workers_gone s \<and> chan_closed (queue s) \<and> buffer (queue s) = []
     else closer_calls s = 0)"
  using reachable_exits [OF assms] gone_drained [OF assms] by (auto simp: exits_ok_def)

theorem async_closes_inner_last_witness:
  "closer_calls demo_closed = 1 \<and> workers_gone demo_closed"
proof -
  note unf = demo_closed_def demo_closing_def demo_delivered_def demo_sent_def demo_defs
  have "finalizeOnce demo_closed" by (simp add: unf)
  then show ?thesis using async_closes_inner_last [OF demo_closed_reachable] by simp
qed

text \<open>
  In blocking mode nothing is dropped while the handler is open: until a shutdown
  or an abort begins, the only records reported as dropped are those whose handling
  panicked.
\<close>

theorem async_block_mode_keeps:
  "reachable s \<Longrightarrow> open_for_business s \<Longrightarrow> dropped s = panicked s"
  using reachable_block [of s] by (simp add: block_ok_def)

theorem async_block_mode_keeps_witness:
  "open_for_business demo_delivered \<and> dropped demo_delivered = panicked demo_delivered"
proof -
  have "open_for_business demo_delivered"
    by (simp add: open_for_business_def demo_delivered_def demo_sent_def demo_defs)
  then show ?thesis using async_block_mode_keeps [OF demo_delivered_reachable] by simp
qed

text \<open>
  Abort is final: from the moment the abort flag is set no further record is
  given to the inner handler, along every continuation; what its workers still take from the
  queue is dropped.
\<close>

theorem async_abort_stops_delivery:
  "async_steps s t \<Longrightarrow> aborted s \<Longrightarrow> aborted t \<and> given t = given s"
  by (induction rule: rtranclp_induct) (auto simp: async_given intro: async_aborted)

definition demo_aborted :: "nat asyncState" where
  "demo_aborted = (newAsyncState 1 1 1 DropModeBlock None None) \<lparr> aborted := True,
     workers := [WHave 3 1] \<rparr>"

theorem async_abort_stops_delivery_witness:
  "given (processItem 0 3 1 demo_aborted) = {#} \<and> dropped (processItem 0 3 1 demo_aborted) = [3]"
proof -
  have "async_step demo_aborted (processItem 0 3 1 demo_aborted)"
    unfolding async_step_def
    by (intro disjI2 disjI1 worker_step.process) (simp_all add: demo_aborted_def)
  then have "async_steps demo_aborted (processItem 0 3 1 demo_aborted)" by blast
  from async_abort_stops_delivery [OF this]
  have "given (processItem 0 3 1 demo_aborted) = given demo_aborted"
    by (simp add: demo_aborted_def)
  then show ?thesis
    by (simp add: given_def demo_aborted_def newAsyncState_def processItem_def put_worker_def drop_def)
qed



end
