(* ===== verification/AsyncConfig.thy ===== *)
theory AsyncConfig
  imports AsyncProps GoStrings
begin

text \<open>
  Configuration and construction of the asynchronous handler
  (\<^verbatim>\<open>slogcpasync/handler.go\<close>): options, environment overlay, defaults and clamping,
  and the handler value with what its methods pass on. \<^verbatim>\<open>time.ParseDuration\<close> is the
  parameter \<open>parse_duration\<close>.
\<close>

section \<open>Constants and defaults\<close>

definition defaultQueueSizeBlock :: int where "defaultQueueSizeBlock = 2048"
definition defaultQueueSizeDropNewest :: int where "defaultQueueSizeDropNewest = 512"
definition defaultQueueSizeDropOldest :: int where "defaultQueueSizeDropOldest = 1024"

record modeDefault =
  default_queue :: int
  default_workers :: int
  default_batch :: int

definition modeDefaults :: "DropMode \<Rightarrow> modeDefault" where
  "modeDefaults m =
     (case m of
        DropModeBlock \<Rightarrow>
          \<lparr>default_queue = defaultQueueSizeBlock, default_workers = 1, default_batch = 1\<rparr>
      | DropModeDropNewest \<Rightarrow>
          \<lparr>default_queue = defaultQueueSizeDropNewest, default_workers = 1, default_batch = 1\<rparr>
      | DropModeDropOldest \<Rightarrow>
          \<lparr>default_queue = defaultQueueSizeDropOldest, default_workers = 1, default_batch = 1\<rparr>)"

text \<open>
  \<^verbatim>\<open>DropMode\<close> is an integer in the source: \<open>None\<close> is a value that is none of the
  three constants, which the code treats as the blocking mode.
\<close>

record Config =
  Enabled :: bool
  QueueSize :: int
  WorkerCount :: int
  BatchSize :: int
  DropMode_of :: "DropMode option"
  DetachContext :: bool
  OnDrop :: bool
  ErrorWriter :: bool
  FlushTimeout :: int
  queueSet :: bool
  workerCountSet :: bool
  batchSizeSet :: bool

type_synonym AsyncOption = "Config \<Rightarrow> Config"

definition WithEnabled :: "bool \<Rightarrow> AsyncOption" where
  "WithEnabled b cfg = cfg \<lparr> Enabled := b \<rparr>"

definition WithQueueSize :: "int \<Rightarrow> AsyncOption" where
  "WithQueueSize n cfg = cfg \<lparr> QueueSize := n, queueSet := True \<rparr>"

definition WithWorkerCount :: "int \<Rightarrow> AsyncOption" where
  "WithWorkerCount n cfg = cfg \<lparr> WorkerCount := n, workerCountSet := True \<rparr>"

definition WithBatchSize :: "int \<Rightarrow> AsyncOption" where
  "WithBatchSize n cfg = cfg \<lparr> BatchSize := n, batchSizeSet := True \<rparr>"

definition WithDropMode :: "DropMode option \<Rightarrow> AsyncOption" where
  "WithDropMode m cfg = cfg \<lparr> DropMode_of := m \<rparr>"

definition WithDetachedContext :: "bool \<Rightarrow> AsyncOption" where
  "WithDetachedContext b cfg = cfg \<lparr> DetachContext := b \<rparr>"

definition WithOnDrop :: "bool \<Rightarrow> AsyncOption" where
  "WithOnDrop b cfg = cfg \<lparr> OnDrop := b \<rparr>"

definition WithErrorWriter :: "bool \<Rightarrow> AsyncOption" where
  "WithErrorWriter b cfg = cfg \<lparr> ErrorWriter := b \<rparr>"

definition WithFlushTimeout :: "int \<Rightarrow> AsyncOption" where
  "WithFlushTimeout d cfg = cfg \<lparr> FlushTimeout := d \<rparr>"

section \<open>Environment\<close>

definition applyAsyncEnabled :: "environ \<Rightarrow> AsyncOption" where
  "applyAsyncEnabled env cfg =
     (let raw = TrimSpace (env ''SLOGCP_ASYNC'')
      in if raw = [] then cfg
         else case ParseBool raw of Some b \<Rightarrow> cfg \<lparr> Enabled := b \<rparr> | None \<Rightarrow> cfg)"

definition applyAsyncQueueSize :: "environ \<Rightarrow> AsyncOption" where
  "applyAsyncQueueSize env cfg =
     (let raw = TrimSpace (env ''SLOGCP_ASYNC_QUEUE_SIZE'')
      in if raw = [] then cfg
         else case Atoi raw of Some n \<Rightarrow> cfg \<lparr> QueueSize := n, queueSet := True \<rparr> | None \<Rightarrow> cfg)"

definition applyAsyncWorkers :: "environ \<Rightarrow> AsyncOption" where
  "applyAsyncWorkers env cfg =
     (let raw = TrimSpace (env ''SLOGCP_ASYNC_WORKERS'')
      in if raw = [] then cfg
         else case Atoi raw of
                Some n \<Rightarrow> cfg \<lparr> WorkerCount := n, workerCountSet := True \<rparr>
              | None \<Rightarrow> cfg)"

definition applyAsyncDropMode :: "environ \<Rightarrow> AsyncOption" where
  "applyAsyncDropMode env cfg =
     (let raw = TrimSpace (env ''SLOGCP_ASYNC_DROP_MODE''); v = ToLower raw
      in if raw = [] then cfg
         else if v = ''block'' then cfg \<lparr> DropMode_of := Some DropModeBlock \<rparr>
         else if v = ''drop_newest'' \<or> v = ''drop-newest''
           then cfg \<lparr> DropMode_of := Some DropModeDropNewest \<rparr>
         else if v = ''drop_oldest'' \<or> v = ''drop-oldest''
           then cfg \<lparr> DropMode_of := Some DropModeDropOldest \<rparr>
         else cfg)"

definition applyAsyncFlushTimeout :: "(gostring \<Rightarrow> int option) \<Rightarrow> environ \<Rightarrow> AsyncOption" where
  "applyAsyncFlushTimeout parse_duration env cfg =
     (let raw = TrimSpace (env ''SLOGCP_ASYNC_FLUSH_TIMEOUT'')
      in if raw = [] then cfg
         else case parse_duration raw of Some d \<Rightarrow> cfg \<lparr> FlushTimeout := d \<rparr> | None \<Rightarrow> cfg)"

definition applyEnv :: "(gostring \<Rightarrow> int option) \<Rightarrow> environ \<Rightarrow> AsyncOption" where
  "applyEnv parse_duration env cfg =
     applyAsyncFlushTimeout parse_duration env
       (applyAsyncDropMode env
         (applyAsyncWorkers env (applyAsyncQueueSize env (applyAsyncEnabled env cfg))))"

definition WithEnv :: "(gostring \<Rightarrow> int option) \<Rightarrow> environ \<Rightarrow> AsyncOption" where
  "WithEnv parse_duration env cfg = applyEnv parse_duration env cfg"

section \<open>Building the configuration\<close>

definition defaultAsyncConfig :: Config where
  "defaultAsyncConfig =
     \<lparr>Enabled = True, QueueSize = 0, WorkerCount = 0, BatchSize = 0,
      DropMode_of = Some DropModeBlock, DetachContext = False, OnDrop = False, ErrorWriter = True,
      FlushTimeout = 0, queueSet = False, workerCountSet = False, batchSizeSet = False\<rparr>"

text \<open>A nil option is \<open>None\<close> and skipped.\<close>

definition applyConfigOptions :: "Config \<Rightarrow> AsyncOption option list \<Rightarrow> Config" where
  "applyConfigOptions cfg opts =
     fold (\<lambda>opt c. case opt of None \<Rightarrow> c | Some f \<Rightarrow> f c) opts cfg"

definition resolveModeDefaults :: "DropMode option \<Rightarrow> modeDefault" where
  "resolveModeDefaults mode =
     (case mode of Some m \<Rightarrow> modeDefaults m | None \<Rightarrow> modeDefaults DropModeBlock)"

definition resolveQueueSize :: "int \<Rightarrow> bool \<Rightarrow> int \<Rightarrow> int" where
  "resolveQueueSize q isSet fallback = (if \<not> isSet \<or> q < 0 then fallback else q)"

definition clampMinimum :: "int \<Rightarrow> bool \<Rightarrow> int \<Rightarrow> int \<Rightarrow> int" where
  "clampMinimum val explicitlySet fallback minValue =
     (if \<not> explicitlySet \<or> val < minValue then fallback else val)"

definition buildConfig :: "AsyncOption option list \<Rightarrow> Config" where
  "buildConfig opts =
     (let cfg = applyConfigOptions defaultAsyncConfig opts;
          defaults = resolveModeDefaults (DropMode_of cfg)
      in cfg \<lparr> QueueSize := resolveQueueSize (QueueSize cfg) (queueSet cfg) (default_queue defaults),
               WorkerCount := clampMinimum (WorkerCount cfg) (workerCountSet cfg) (default_workers defaults) 1,
               BatchSize := clampMinimum (BatchSize cfg) (batchSizeSet cfg) (default_batch defaults) 1 \<rparr>)"

section \<open>The handler value\<close>

text \<open>
  The optional \<^verbatim>\<open>Close\<close> and \<^verbatim>\<open>Abort\<close> methods of the wrapped handler: with an error
  result, without a result, or missing. A hook returns its error, if any.
\<close>

datatype hook = NoHook | HookErr "nat option" | HookVoid

definition closerFor :: "hook \<Rightarrow> nat option option" where
  "closerFor h = (case h of HookErr e \<Rightarrow> Some e | HookVoid \<Rightarrow> Some None | NoHook \<Rightarrow> None)"

definition aborterFor :: "hook \<Rightarrow> nat option option" where
  "aborterFor h = (case h of HookErr e \<Rightarrow> Some e | HookVoid \<Rightarrow> Some None | NoHook \<Rightarrow> None)"

definition hook_error :: "nat option option \<Rightarrow> nat option" where
  "hook_error h = (case h of Some e \<Rightarrow> e | None \<Rightarrow> None)"

definition effective_mode :: "DropMode option \<Rightarrow> DropMode" where
  "effective_mode m = (case m of Some d \<Rightarrow> d | None \<Rightarrow> DropModeBlock)"

record ('h, 'i) Handler =
  inner :: 'h
  detachContext :: bool
  state :: "'i asyncState"

text \<open>\<^verbatim>\<open>newHandler\<close> with \<^verbatim>\<open>newAsyncState\<close> and \<^verbatim>\<open>startAsyncWorkers\<close>.\<close>

definition newAsyncHandler :: "'h \<Rightarrow> hook \<Rightarrow> hook \<Rightarrow> Config \<Rightarrow> ('h, 'i) Handler" where
  "newAsyncHandler inner_handler close_hook abort_hook cfg =
     \<lparr>inner = inner_handler, detachContext = DetachContext cfg,
      state = newAsyncState (nat (QueueSize cfg)) (nat (WorkerCount cfg)) (nat (BatchSize cfg))
        (effective_mode (DropMode_of cfg)) (hook_error (closerFor close_hook))
        (hook_error (aborterFor abort_hook))\<rparr>"

text \<open>\<open>Inl\<close> is the inner handler itself, when the wrapper is disabled.\<close>

definition Wrap ::
  "'h \<Rightarrow> hook \<Rightarrow> hook \<Rightarrow> AsyncOption option list \<Rightarrow> 'h + ('h, 'i) Handler" where
  "Wrap inner_handler close_hook abort_hook opts =
     (let cfg = buildConfig opts
      in if \<not> Enabled cfg then Inl inner_handler
         else Inr (newAsyncHandler inner_handler close_hook abort_hook cfg))"

text \<open>The record a call of \<^verbatim>\<open>Handle\<close> queues; a nil context is the background one.\<close>

record ('h, 'c, 'r) queuedRecord =
  q_ctx :: "'c option"
  q_rec :: 'r
  q_handler :: 'h

definition queued :: "('h, 'i) Handler \<Rightarrow> 'c option \<Rightarrow> 'r \<Rightarrow> ('h, 'c, 'r) queuedRecord" where
  "queued h ctx r =
     \<lparr>q_ctx = (if detachContext h then None else ctx), q_rec = r, q_handler = inner h\<rparr>"

definition WithAttrs_async :: "('a \<Rightarrow> 'h \<Rightarrow> 'h) \<Rightarrow> 'a \<Rightarrow> ('h, 'i) Handler \<Rightarrow> ('h, 'i) Handler" where
  "WithAttrs_async with_attrs attrs h = h \<lparr> inner := with_attrs attrs (inner h) \<rparr>"

definition WithGroup_async :: "(gostring \<Rightarrow> 'h \<Rightarrow> 'h) \<Rightarrow> gostring \<Rightarrow> ('h, 'i) Handler \<Rightarrow> ('h, 'i) Handler" where
  "WithGroup_async with_group name h = h \<lparr> inner := with_group name (inner h) \<rparr>"

definition Enabled_async :: "('h \<Rightarrow> 'c \<Rightarrow> int \<Rightarrow> bool) \<Rightarrow> ('h, 'i) Handler \<Rightarrow> 'c \<Rightarrow> int \<Rightarrow> bool" where
  "Enabled_async enabled h ctx level = enabled (inner h) ctx level"

text \<open>
  \<^verbatim>\<open>Close\<close> is one call of \<^verbatim>\<open>Shutdown\<close>, whatever the number of its
  callers, bounded by the flush timeout when there is one; \<open>shutdown\<close> is the call, given
  its deadline.
\<close>

definition close_deadline :: "int \<Rightarrow> int option" where
  "close_deadline timeout = (if timeout > 0 then Some timeout else None)"

definition Close_async ::
  "(int option \<Rightarrow> 's \<Rightarrow> asyncErr list \<times> 's) \<Rightarrow> int \<Rightarrow> asyncErr list option \<Rightarrow> 's
     \<Rightarrow> asyncErr list \<times> asyncErr list option \<times> 's" where
  "Close_async shutdown timeout cell s = once_do cell (shutdown (close_deadline timeout)) s"

section \<open>Bounds\<close>

lemma modeDefaults_bounds:
  "0 < default_queue (resolveModeDefaults m)" "default_workers (resolveModeDefaults m) = 1"
  "default_batch (resolveModeDefaults m) = 1"
  by (auto simp: resolveModeDefaults_def modeDefaults_def defaultQueueSizeBlock_def
      defaultQueueSizeDropNewest_def defaultQueueSizeDropOldest_def split: option.split DropMode.split)

text \<open>
  Whatever the options and the environment say, the handler that is built has a
  queue of non-negative capacity, at least one worker and a batch of at least one, so it
  starts in a state every guarantee above applies to.
\<close>

theorem buildConfig_starts_reachable:
  "0 \<le> QueueSize (buildConfig opts) \<and> 1 \<le> WorkerCount (buildConfig opts)
   \<and> 1 \<le> BatchSize (buildConfig opts)
   \<and> reachable (state (newAsyncHandler h close_hook abort_hook (buildConfig opts)))"
proof -
  have b: "0 \<le> QueueSize (buildConfig opts)" "1 \<le> WorkerCount (buildConfig opts)"
    "1 \<le> BatchSize (buildConfig opts)"
    using modeDefaults_bounds
    by (auto simp: buildConfig_def Let_def resolveQueueSize_def clampMinimum_def less_imp_le)
  then have "reachable (state (newAsyncHandler h close_hook abort_hook (buildConfig opts)))"
    unfolding newAsyncHandler_def by (simp add: reachable.fresh)
  with b show ?thesis by blast
qed

text \<open>The last option wins, and an invalid size falls back to the default of the final mode.\<close>

lemma last_queue_size:
  "0 \<le> n \<Longrightarrow> QueueSize (buildConfig (opts @ [Some (WithQueueSize n)])) = n"
  by (simp add: buildConfig_def applyConfigOptions_def WithQueueSize_def resolveQueueSize_def Let_def)

lemma negative_queue_size:
  "n < 0 \<Longrightarrow> DropMode_of (applyConfigOptions defaultAsyncConfig opts) = Some DropModeDropOldest \<Longrightarrow>
   QueueSize (buildConfig (opts @ [Some (WithQueueSize n)])) = 1024"
  by (simp add: buildConfig_def applyConfigOptions_def WithQueueSize_def resolveQueueSize_def Let_def
      resolveModeDefaults_def modeDefaults_def defaultQueueSizeDropOldest_def)

end
