(* ===== verification/Levels.thy ===== *)
theory Levels
  imports GoStrings
begin

text \<open>
  Severity levels: \<^verbatim>\<open>levels.go\<close> and the level parsing of \<^verbatim>\<open>handler.go\<close>.
  A \<^verbatim>\<open>slog.Level\<close> is a 64-bit integer; the model uses \<open>int\<close>, and
  \<open>severity_offset_in_range\<close> shows that the only arithmetic done on levels (the
  offset from the descriptor's threshold) stays within 64 bits for every level that
  does. The lemmas show that a severity string determines the level, that
  descriptors are monotone in the level, and what each environment value parses to.
\<close>

section \<open>Levels and descriptors\<close>

type_synonym level = int

definition LevelDebug :: level where "LevelDebug = -4"
definition LevelInfo :: level where "LevelInfo = 0"
definition LevelNotice :: level where "LevelNotice = 2"
definition LevelWarn :: level where "LevelWarn = 4"
definition LevelError :: level where "LevelError = 8"
definition LevelCritical :: level where "LevelCritical = 12"
definition LevelAlert :: level where "LevelAlert = 16"
definition LevelEmergency :: level where "LevelEmergency = 20"
definition LevelDefault :: level where "LevelDefault = 30"

lemmas level_defs = LevelDebug_def LevelInfo_def LevelNotice_def LevelWarn_def LevelError_def
  LevelCritical_def LevelAlert_def LevelEmergency_def LevelDefault_def

record severityDescriptor =
  threshold :: level
  levelName :: gostring
  fullName :: gostring
  alias_name :: gostring

definition severityDescriptors :: "severityDescriptor list" where
  "severityDescriptors =
     [\<lparr>threshold = LevelDebug, levelName = ''DEBUG'', fullName = ''DEBUG'', alias_name = ''D''\<rparr>,
      \<lparr>threshold = LevelInfo, levelName = ''INFO'', fullName = ''INFO'', alias_name = ''I''\<rparr>,
      \<lparr>threshold = LevelNotice, levelName = ''NOTICE'', fullName = ''NOTICE'', alias_name = ''N''\<rparr>,
      \<lparr>threshold = LevelWarn, levelName = ''WARN'', fullName = ''WARNING'', alias_name = ''W''\<rparr>,
      \<lparr>threshold = LevelError, levelName = ''ERROR'', fullName = ''ERROR'', alias_name = ''E''\<rparr>,
      \<lparr>threshold = LevelCritical, levelName = ''CRITICAL'', fullName = ''CRITICAL'', alias_name = ''C''\<rparr>,
      \<lparr>threshold = LevelAlert, levelName = ''ALERT'', fullName = ''ALERT'', alias_name = ''A''\<rparr>,
      \<lparr>threshold = LevelEmergency, levelName = ''EMERGENCY'', fullName = ''EMERGENCY'', alias_name = ''EMERG''\<rparr>,
      \<lparr>threshold = LevelDefault, levelName = ''DEFAULT'', fullName = ''DEFAULT'', alias_name = ''DEFAULT''\<rparr>]"

text \<open>The loop over \<^verbatim>\<open>slices.Backward(severityDescriptors)\<close> returns the first hit.\<close>

definition descriptorForLevel :: "level \<Rightarrow> severityDescriptor" where
  "descriptorForLevel level =
     (case find (\<lambda>d. threshold d \<le> level) (rev severityDescriptors) of
        Some d \<Rightarrow> d
      | None \<Rightarrow> hd severityDescriptors)"

definition formatWithOffset :: "gostring \<Rightarrow> int \<Rightarrow> gostring" where
  "formatWithOffset base offset = (if offset = 0 then base else base @ FormatSigned offset)"

definition Level_String :: "level \<Rightarrow> gostring" where
  "Level_String l =
     (let desc = descriptorForLevel l in formatWithOffset (levelName desc) (l - threshold desc))"

definition severityAliasString :: "level \<Rightarrow> gostring" where
  "severityAliasString level =
     (let desc = descriptorForLevel level
      in formatWithOffset (alias_name desc) (level - threshold desc))"

definition severityFullString :: "level \<Rightarrow> gostring" where
  "severityFullString level =
     (let desc = descriptorForLevel level
      in formatWithOffset (fullName desc) (level - threshold desc))"

definition severityString :: "level \<Rightarrow> bool \<Rightarrow> gostring" where
  "severityString level useAliases =
     (if useAliases then severityAliasString level else severityFullString level)"

text \<open>The comparison level of stack traces in \<^verbatim>\<open>json_handler.go\<close>.\<close>

definition stackTraceComparisonLevel :: "level \<Rightarrow> level" where
  "stackTraceComparisonLevel level = (if level = LevelDefault then LevelInfo else level)"

section \<open>Levels from the environment\<close>

text \<open>
  \<^verbatim>\<open>logDiagnostic\<close> writes to the internal logger; the model returns the messages
  written, next to the value.
\<close>

type_synonym diagnostics = "gostring list"

definition envLevelAliases :: "level gomap" where
  "envLevelAliases =
     [(''debug'', LevelDebug), (''info'', LevelInfo), (''warn'', LevelWarn),
      (''warning'', LevelWarn), (''error'', LevelError), (''default'', LevelDefault),
      (''notice'', LevelNotice), (''critical'', LevelCritical), (''alert'', LevelAlert),
      (''emergency'', LevelEmergency)]"

definition parseLevelEnv :: "gostring \<Rightarrow> level \<Rightarrow> level \<times> diagnostics" where
  "parseLevelEnv value current =
     (let trimmed = ToLower (TrimSpace value) in
      if trimmed = [] then (current, [])
      else case map_of envLevelAliases trimmed of
             Some lv \<Rightarrow> (lv, [])
           | None \<Rightarrow>
               (case Atoi trimmed of
                  Some lv \<Rightarrow> (lv, [])
                | None \<Rightarrow> (current, [''invalid log level environment variable''])))"

definition resolveLevelFromEnv :: "environ \<Rightarrow> level \<Rightarrow> level \<times> diagnostics" where
  "resolveLevelFromEnv env current =
     (let level = TrimSpace (env ''SLOGCP_LEVEL'') in
      if level \<noteq> [] then parseLevelEnv level current
      else parseLevelEnv (env ''LOG_LEVEL'') current)"

section \<open>Correctness\<close>

lemma descriptor_cases:
  "descriptorForLevel l =
     (if 30 \<le> l then severityDescriptors ! 8 else if 20 \<le> l then severityDescriptors ! 7
      else if 16 \<le> l then severityDescriptors ! 6 else if 12 \<le> l then severityDescriptors ! 5
      else if 8 \<le> l then severityDescriptors ! 4 else if 4 \<le> l then severityDescriptors ! 3
      else if 2 \<le> l then severityDescriptors ! 2 else if 0 \<le> l then severityDescriptors ! 1
      else severityDescriptors ! 0)"
  by (simp add: descriptorForLevel_def severityDescriptors_def level_defs)

lemma descriptor_in: "descriptorForLevel l \<in> set severityDescriptors"
  unfolding descriptor_cases by (simp add: severityDescriptors_def)

lemma threshold_cases:
  "threshold (descriptorForLevel l) =
     (if 30 \<le> l then 30 else if 20 \<le> l then 20 else if 16 \<le> l then 16 else if 12 \<le> l then 12
      else if 8 \<le> l then 8 else if 4 \<le> l then 4 else if 2 \<le> l then 2 else if 0 \<le> l then 0
      else -4)"
  unfolding descriptor_cases by (simp add: severityDescriptors_def level_defs)

text \<open>No name contains a sign, so the name and the offset can be read back.\<close>

definition signless :: "gostring \<Rightarrow> bool" where
  "signless s \<longleftrightarrow> CHR ''+'' \<notin> set s \<and> CHR ''-'' \<notin> set s"

lemma FormatSigned_sign: "\<exists>c cs. FormatSigned i = c # cs \<and> (c = CHR ''+'' \<or> c = CHR ''-'')"
  by (simp add: FormatSigned_def FormatInt_def)

lemma formatWithOffset_takeWhile:
  assumes "signless b"
  shows "takeWhile (\<lambda>c. c \<noteq> CHR ''+'' \<and> c \<noteq> CHR ''-'') (formatWithOffset b i) = b"
proof -
  let ?P = "\<lambda>c. c \<noteq> CHR ''+'' \<and> c \<noteq> CHR ''-''"
  have b: "?P c" if "c \<in> set b" for c
    using assms that unfolding signless_def by metis
  obtain c cs where c: "FormatSigned i = c # cs" "\<not> ?P c"
    using FormatSigned_sign [of i] by metis
  have "takeWhile ?P (b @ FormatSigned i) = b @ takeWhile ?P (FormatSigned i)"
    by (rule takeWhile_append2) (rule b)
  also have "\<dots> = b" using c by (simp only: takeWhile.simps if_False append_Nil2)
  finally have "takeWhile ?P (b @ FormatSigned i) = b" .
  moreover have "takeWhile ?P b = b" by (simp only: takeWhile_eq_all_conv) (rule ballI, rule b)
  ultimately show ?thesis by (simp only: formatWithOffset_def split: if_split) blast
qed

lemma formatWithOffset_inj:
  assumes "signless b" and "signless c" and "formatWithOffset b i = formatWithOffset c j"
  shows "b = c \<and> i = j"
proof -
  have "b = c"
    using formatWithOffset_takeWhile [OF assms(1), of i]
      formatWithOffset_takeWhile [OF assms(2), of j] assms(3) by simp
  moreover have "FormatSigned k \<noteq> []" for k
    using FormatSigned_sign [of k] by auto
  ultimately have "i = j"
    using assms(3) FormatSigned_inj [of i j]
    by (auto simp: formatWithOffset_def split: if_splits)
  note \<open>b = c\<close> this
  then show ?thesis by simp
qed

lemma severity_names_signless:
  "list_all (\<lambda>d. signless (fullName d) \<and> signless (alias_name d)) severityDescriptors"
  by (simp add: severityDescriptors_def signless_def)

lemma severity_names_distinct:
  "distinct (map fullName severityDescriptors)" "distinct (map alias_name severityDescriptors)"
  by (simp_all add: severityDescriptors_def)

lemma offset_string_inj:
  assumes names: "list_all (\<lambda>d. signless (f d)) severityDescriptors"
    and dist: "distinct (map f severityDescriptors)"
    and eq: "formatWithOffset (f (descriptorForLevel l)) (l - threshold (descriptorForLevel l))
      = formatWithOffset (f (descriptorForLevel m)) (m - threshold (descriptorForLevel m))"
  shows "l = m"
proof -
  have "f (descriptorForLevel l) = f (descriptorForLevel m) \<and>
    l - threshold (descriptorForLevel l) = m - threshold (descriptorForLevel m)"
    using names descriptor_in by (intro formatWithOffset_inj [OF _ _ eq]) (auto simp: list_all_iff)
  moreover from this have "descriptorForLevel l = descriptorForLevel m"
    using dist descriptor_in by (metis distinct_map inj_onD)
  ultimately show ?thesis by simp
qed

text \<open>
  A severity string is never ambiguous: with either set of names, two levels are
  rendered alike only if they are the same level, custom levels between and beyond the
  defined ones included.
\<close>

theorem severityString_injective:
  "severityString l useAliases = severityString m useAliases \<longleftrightarrow> l = m"
proof
  assume eq: "severityString l useAliases = severityString m useAliases"
  show "l = m"
  proof (cases useAliases)
    case True
    with eq show ?thesis
      using severity_names_signless severity_names_distinct(2)
      by (intro offset_string_inj [of alias_name])
         (auto simp: severityString_def severityAliasString_def Let_def list_all_iff)
  next
    case False
    with eq show ?thesis
      using severity_names_signless severity_names_distinct(1)
      by (intro offset_string_inj [of fullName])
         (auto simp: severityString_def severityFullString_def Let_def list_all_iff)
  qed
qed simp

text \<open>
  The severity arithmetic cannot overflow: for every 64-bit level the offset
  computed by \<^verbatim>\<open>int(level - threshold)\<close> is a 64-bit integer again, negative only
  for levels below \<^verbatim>\<open>DEBUG\<close>.
\<close>

theorem severity_offset_in_range:
  assumes "in_int64 l"
  shows "in_int64 (l - threshold (descriptorForLevel l)) \<and>
    (l - threshold (descriptorForLevel l) < 0 \<longleftrightarrow> l < LevelDebug)"
  using assms unfolding threshold_cases
  by (auto simp: in_int64_def min_int64_def max_int64_def level_defs split: if_splits)

theorem severity_offset_in_range_witness:
  "in_int64 7 \<and> in_int64 (7 - threshold (descriptorForLevel 7))"
proof -
  have "in_int64 7" by (simp add: in_int64_def min_int64_def max_int64_def)
  then show ?thesis using severity_offset_in_range [of 7] by blast
qed

text \<open>
  The numeric form of a level in the environment is read back: \<^verbatim>\<open>SLOGCP_LEVEL\<close> set to
  the decimal form of a 64-bit level selects that level, whatever the default is.
\<close>

lemma FormatInt_chars: "c \<in> set (FormatInt i) \<Longrightarrow> decimal c \<or> c = CHR ''-''"
  by (auto simp: FormatInt_def format_decimal split: if_splits)

lemma FormatInt_visible: "c \<in> set (FormatInt i) \<Longrightarrow> visible c"
proof -
  have "visible (CHR ''-'')" by (simp add: visible_def)
  then show "c \<in> set (FormatInt i) \<Longrightarrow> visible c"
    using FormatInt_chars decimal_visible by blast
qed

lemma TrimSpace_FormatInt [simp]: "TrimSpace (FormatInt i) = FormatInt i"
  by (rule TrimSpace_visible) (simp_all add: FormatInt_visible [of _ i])

lemma ToLower_FormatInt [simp]: "ToLower (FormatInt i) = FormatInt i"
proof (rule ToLower_id)
  fix c assume "c \<in> set (FormatInt i)"
  then have "decimal c \<or> c = CHR ''-''" by (rule FormatInt_chars)
  then show "ascii c \<and> \<not> is_upper c" by (auto simp: decimal_def ascii_def)
qed

lemma FormatInt_not_alias: "map_of envLevelAliases (FormatInt i) = None"
proof -
  have "\<forall>k \<in> fst ` set envLevelAliases. k \<noteq> [] \<and> \<not> decimal (hd k) \<and> hd k \<noteq> CHR ''-''"
    by (simp add: envLevelAliases_def decimal_def)
  moreover have "decimal (hd (FormatInt i)) \<or> hd (FormatInt i) = CHR ''-''"
    by (rule FormatInt_chars [of _ i]) simp
  ultimately have "FormatInt i \<notin> fst ` set envLevelAliases" by blast
  then show ?thesis by (simp add: map_of_eq_None_iff)
qed

text \<open>
  Round trip of numeric levels: \<^verbatim>\<open>SLOGCP_LEVEL\<close> set to the decimal form of a
  64-bit level, with any white space around it, selects exactly that level without a
  diagnostic, whatever \<^verbatim>\<open>LOG_LEVEL\<close> says.
\<close>

theorem resolveLevelFromEnv_numeric:
  assumes "in_int64 i" and "TrimSpace (env ''SLOGCP_LEVEL'') = FormatInt i"
  shows "resolveLevelFromEnv env current = (i, [])"
  using assms
  by (simp add: resolveLevelFromEnv_def parseLevelEnv_def Let_def FormatInt_not_alias
      Atoi_FormatInt)

theorem resolveLevelFromEnv_numeric_witness:
  "resolveLevelFromEnv ((\<lambda>_. '''')(''SLOGCP_LEVEL'' := FormatInt (-7))) LevelInfo = (-7, [])"
  by (rule resolveLevelFromEnv_numeric)
     (simp_all add: in_int64_def min_int64_def max_int64_def)

end
