(* ===== verification/HandlerConfig.thy ===== *)
theory HandlerConfig
  imports Levels RuntimeInfo TraceContext
begin

text \<open>
  The configuration of a handler, from \<^verbatim>\<open>handler.go\<close>: the settings read from the
  environment, the options laid over them, the choice of the writer and the trace project.

  A writer is one of the standard streams, the discarding writer, an open file, a
  \<^verbatim>\<open>SwitchableWriter\<close>, or any other writer, known by its identity and whether it is
  an \<^verbatim>\<open>io.Closer\<close>. Functions that write to the internal logger return the messages
  they write next to their result.
\<close>

section \<open>Data\<close>

datatype writer = Stdout | Stderr | Discard | File nat | Switchable nat | External nat bool

datatype TraceDiagnosticsMode = TraceDiagnosticsOff | TraceDiagnosticsWarnOnce | TraceDiagnosticsStrict

text \<open>\<open>CloseTimeoutOther\<close> stands for every other value of the integer type.\<close>

datatype CloseTimeoutPolicy = CloseTimeoutAutoAbort | CloseTimeoutReturn | CloseTimeoutOther

record groupedAttr =
  ga_groups :: "gostring list"
  ga_attr :: slogAttr

text \<open>The diagnostics helper: its mode and which of its one-time warnings were given.\<close>

record traceDiagnostics =
  td_mode :: TraceDiagnosticsMode
  unknownMu :: bool
  invalidMu :: bool
  normalizedMu :: bool

type_synonym replacer = "gostring list \<Rightarrow> slogAttr \<Rightarrow> slogAttr"

record 'h handlerConfig =
  has_exporter :: bool
  cfg_Level :: level
  AddSource :: bool
  EmitTimeField :: bool
  emitTimeFieldConfigured :: bool
  StackTraceEnabled :: bool
  StackTraceLevel :: level
  TraceProjectID :: gostring
  traceProjectExplicit :: bool
  traceProjectSource :: gostring
  TraceDiagnostics :: TraceDiagnosticsMode
  UseShortSeverityNames :: bool
  Writer :: "writer option"
  ClosableWriter :: "writer option"
  writerExternallyOwned :: bool
  FilePath :: gostring
  ReplaceAttr :: "replacer option"
  Middlewares :: "('h \<Rightarrow> 'h) list"
  InitialAttrs :: "slogAttr list"
  InitialGroupedAttrs :: "groupedAttr list"
  InitialGroups :: "gostring list"
  runtimeServiceContext :: "gostring gomap option"
  runtimeServiceContextAny :: "goany gomap option"
  traceAllowAutoformat :: bool
  traceDiagnosticsState :: "traceDiagnostics option"
  cfg_CloseTimeoutPolicy :: CloseTimeoutPolicy

record ('h, 'o) options =
  o_level :: "level option"
  o_levelVar :: "nat option"
  o_addSource :: "bool option"
  o_emitTimeField :: "bool option"
  o_stackTraceEnabled :: "bool option"
  o_stackTraceLevel :: "level option"
  o_traceProjectID :: "gostring option"
  o_traceDiagnostics :: "TraceDiagnosticsMode option"
  o_useShortSeverity :: "bool option"
  o_writer :: "writer option"
  o_writerFilePath :: "gostring option"
  o_writerExternallyOwned :: bool
  o_replaceAttr :: "replacer option"
  o_middlewares :: "('h \<Rightarrow> 'h) list"
  o_attrs :: "slogAttr list list"
  o_initialGroupedAttrs :: "groupedAttr list"
  o_groups :: "gostring list"
  o_groupsSet :: bool
  o_internalLogger :: "logger option"
  o_asyncEnabled :: bool
  o_asyncOnFileTargets :: bool
  o_asyncOpts :: "'o list"
  o_additionalHandlers :: "'h list"
  o_closeTimeoutPolicy :: "CloseTimeoutPolicy option"

definition zero_options :: "('h, 'o) options" where
  "zero_options =
     \<lparr>o_level = None, o_levelVar = None, o_addSource = None, o_emitTimeField = None,
      o_stackTraceEnabled = None, o_stackTraceLevel = None, o_traceProjectID = None,
      o_traceDiagnostics = None, o_useShortSeverity = None, o_writer = None,
      o_writerFilePath = None, o_writerExternallyOwned = False, o_replaceAttr = None,
      o_middlewares = [], o_attrs = [], o_initialGroupedAttrs = [], o_groups = [],
      o_groupsSet = False, o_internalLogger = None, o_asyncEnabled = False,
      o_asyncOnFileTargets = False, o_asyncOpts = [], o_additionalHandlers = [],
      o_closeTimeoutPolicy = None\<rparr>"

type_synonym ('h, 'o) Option = "('h, 'o) options \<Rightarrow> ('h, 'o) options"

section \<open>Options\<close>

definition normalizeCloseTimeoutPolicy :: "CloseTimeoutPolicy \<Rightarrow> CloseTimeoutPolicy" where
  "normalizeCloseTimeoutPolicy policy =
     (case policy of CloseTimeoutOther \<Rightarrow> CloseTimeoutAutoAbort | p \<Rightarrow> p)"

definition WithInternalLogger :: "logger option \<Rightarrow> ('h, 'o) Option" where
  "WithInternalLogger l opt = opt \<lparr> o_internalLogger := l \<rparr>"

definition WithLevel :: "level \<Rightarrow> ('h, 'o) Option" where
  "WithLevel level opt = opt \<lparr> o_level := Some level \<rparr>"

definition WithLevelVar :: "nat option \<Rightarrow> ('h, 'o) Option" where
  "WithLevelVar v opt = (case v of None \<Rightarrow> opt | Some _ \<Rightarrow> opt \<lparr> o_levelVar := v \<rparr>)"

definition WithSourceLocationEnabled :: "bool \<Rightarrow> ('h, 'o) Option" where
  "WithSourceLocationEnabled b opt = opt \<lparr> o_addSource := Some b \<rparr>"

definition WithTime :: "bool \<Rightarrow> ('h, 'o) Option" where
  "WithTime b opt = opt \<lparr> o_emitTimeField := Some b \<rparr>"

definition WithStackTraceEnabled :: "bool \<Rightarrow> ('h, 'o) Option" where
  "WithStackTraceEnabled b opt = opt \<lparr> o_stackTraceEnabled := Some b \<rparr>"

definition WithStackTraceLevel :: "level \<Rightarrow> ('h, 'o) Option" where
  "WithStackTraceLevel level opt = opt \<lparr> o_stackTraceLevel := Some level \<rparr>"

definition WithTraceProjectID :: "gostring \<Rightarrow> ('h, 'o) Option" where
  "WithTraceProjectID i opt = opt \<lparr> o_traceProjectID := Some (TrimSpace i) \<rparr>"

definition WithTraceDiagnostics :: "TraceDiagnosticsMode \<Rightarrow> ('h, 'o) Option" where
  "WithTraceDiagnostics mode opt = opt \<lparr> o_traceDiagnostics := Some mode \<rparr>"

definition WithSeverityAliases :: "bool \<Rightarrow> ('h, 'o) Option" where
  "WithSeverityAliases b opt = opt \<lparr> o_useShortSeverity := Some b \<rparr>"

definition WithRedirectToStdout :: "('h, 'o) Option" where
  "WithRedirectToStdout opt =
     opt \<lparr> o_writer := Some Stdout, o_writerFilePath := None, o_writerExternallyOwned := True \<rparr>"

definition WithRedirectToStderr :: "('h, 'o) Option" where
  "WithRedirectToStderr opt =
     opt \<lparr> o_writer := Some Stderr, o_writerFilePath := None, o_writerExternallyOwned := True \<rparr>"

definition WithRedirectToFile :: "gostring \<Rightarrow> ('h, 'o) Option" where
  "WithRedirectToFile path opt =
     opt \<lparr> o_writer := None, o_writerFilePath := Some (TrimSpace path),
           o_writerExternallyOwned := False \<rparr>"

definition WithRedirectWriter :: "writer option \<Rightarrow> ('h, 'o) Option" where
  "WithRedirectWriter w opt =
     opt \<lparr> o_writer := w, o_writerFilePath := None, o_writerExternallyOwned := True \<rparr>"

definition WithReplaceAttr :: "replacer option \<Rightarrow> ('h, 'o) Option" where
  "WithReplaceAttr fn opt = opt \<lparr> o_replaceAttr := fn \<rparr>"

definition WithMiddleware :: "('h \<Rightarrow> 'h) option \<Rightarrow> ('h, 'o) Option" where
  "WithMiddleware mw opt =
     (case mw of None \<Rightarrow> opt | Some f \<Rightarrow> opt \<lparr> o_middlewares := o_middlewares opt @ [f] \<rparr>)"

definition WithAdditionalHandlers :: "'h option list \<Rightarrow> ('h, 'o) Option" where
  "WithAdditionalHandlers handlers opt =
     opt \<lparr> o_additionalHandlers := o_additionalHandlers opt @ List.map_filter (\<lambda>h. h) handlers \<rparr>"

definition WithAsync :: "'o list \<Rightarrow> ('h, 'o) Option" where
  "WithAsync opts opt =
     opt \<lparr> o_asyncEnabled := True, o_asyncOnFileTargets := False,
           o_asyncOpts := o_asyncOpts opt @ opts \<rparr>"

definition WithAsyncOnFile :: "'o list \<Rightarrow> ('h, 'o) Option" where
  "WithAsyncOnFile opts opt =
     opt \<lparr> o_asyncEnabled := True, o_asyncOnFileTargets := True,
           o_asyncOpts := o_asyncOpts opt @ opts \<rparr>"

definition WithCloseTimeoutPolicy :: "CloseTimeoutPolicy \<Rightarrow> ('h, 'o) Option" where
  "WithCloseTimeoutPolicy policy opt =
     opt \<lparr> o_closeTimeoutPolicy := Some (normalizeCloseTimeoutPolicy policy) \<rparr>"

definition opt_WithAttrs :: "slogAttr list \<Rightarrow> ('h, 'o) Option" where
  "opt_WithAttrs attrs opt =
     (if attrs = [] then opt
      else opt \<lparr> o_initialGroupedAttrs := o_initialGroupedAttrs opt @
                   map (\<lambda>a. \<lparr>ga_groups = o_groups opt, ga_attr = a\<rparr>) attrs,
                 o_attrs := o_attrs opt @ [attrs] \<rparr>)"

definition opt_WithGroup :: "gostring \<Rightarrow> ('h, 'o) Option" where
  "opt_WithGroup name opt =
     (let trimmed = TrimSpace name; opt = opt \<lparr> o_groupsSet := True \<rparr>
      in if trimmed = [] then opt \<lparr> o_groups := [] \<rparr>
         else opt \<lparr> o_groups := o_groups opt @ [trimmed] \<rparr>)"

definition collectOptions :: "('h, 'o) Option option list \<Rightarrow> ('h, 'o) options" where
  "collectOptions opts =
     fold (\<lambda>opt b. case opt of None \<Rightarrow> b | Some f \<Rightarrow> f b) opts zero_options"

section \<open>Settings from the environment\<close>

definition parseBoolEnvWithPresence :: "gostring \<Rightarrow> bool \<Rightarrow> (bool \<times> bool) \<times> diagnostics" where
  "parseBoolEnvWithPresence value current =
     (if TrimSpace value = [] then ((current, False), [])
      else case ParseBool value of
             Some b \<Rightarrow> ((b, True), [])
           | None \<Rightarrow> ((current, False), [''invalid boolean environment variable'']))"

definition parseBoolEnv :: "gostring \<Rightarrow> bool \<Rightarrow> bool \<times> diagnostics" where
  "parseBoolEnv value current =
     (case parseBoolEnvWithPresence value current of ((v, _), d) \<Rightarrow> (v, d))"

definition parseTraceDiagnosticsEnv ::
  "gostring \<Rightarrow> TraceDiagnosticsMode \<Rightarrow> TraceDiagnosticsMode \<times> diagnostics" where
  "parseTraceDiagnosticsEnv value current =
     (let trimmed = ToLower (TrimSpace value)
      in if trimmed = [] then (current, [])
         else if trimmed \<in> set [''off'', ''disable'', ''disabled'', ''none''] then (TraceDiagnosticsOff, [])
         else if trimmed \<in> set [''warn'', ''warn_once'', ''warn-once'', ''warnonce'']
           then (TraceDiagnosticsWarnOnce, [])
         else if trimmed = ''strict'' then (TraceDiagnosticsStrict, [])
         else (current, [''invalid trace diagnostics mode'']))"

definition traceProjectCandidates :: "gostring list" where
  "traceProjectCandidates =
     [''SLOGCP_TRACE_PROJECT_ID'', ''SLOGCP_PROJECT_ID'', ''SLOGCP_GCP_PROJECT'',
      ''GOOGLE_CLOUD_PROJECT'']"

fun first_candidate :: "environ \<Rightarrow> gostring list \<Rightarrow> gostring \<times> gostring" where
  "first_candidate env [] = ([], [])"
| "first_candidate env (n # ns) =
     (if TrimSpace (env n) \<noteq> [] then (TrimSpace (env n), n) else first_candidate env ns)"

definition resolveTraceProjectFromEnv :: "environ \<Rightarrow> gostring \<times> gostring" where
  "resolveTraceProjectFromEnv env = first_candidate env traceProjectCandidates"

text \<open>\<open>None\<close> is \<^verbatim>\<open>ErrInvalidRedirectTarget\<close>.\<close>

definition applyTargetFromEnv ::
  "environ \<Rightarrow> 'h handlerConfig \<Rightarrow> 'h handlerConfig option \<times> diagnostics" where
  "applyTargetFromEnv env cfg =
     (let target = TrimSpace (env ''SLOGCP_TARGET''); lower = ToLower target
      in if target = [] then (Some cfg, [])
         else if lower = ''stdout'' then
           (Some (cfg \<lparr> Writer := Some Stdout, FilePath := [], ClosableWriter := None,
                        writerExternallyOwned := True \<rparr>), [])
         else if lower = ''stderr'' then
           (Some (cfg \<lparr> Writer := Some Stderr, FilePath := [], ClosableWriter := None,
                        writerExternallyOwned := True \<rparr>), [])
         else if HasPrefix lower ''file:'' then
           (let path = TrimSpace (List.drop (length ''file:'') target)
            in if path = [] then (None, [''empty file target''])
               else (Some (cfg \<lparr> FilePath := path, Writer := None, ClosableWriter := None,
                                 writerExternallyOwned := False \<rparr>), []))
         else (None, [''unknown SLOGCP_TARGET'']))"

definition base_config :: "runtimeInfo \<Rightarrow> 'h handlerConfig" where
  "base_config info =
     \<lparr>has_exporter = False, cfg_Level = LevelInfo, AddSource = False,
      EmitTimeField = (\<not> prefersManagedGCPDefaults info), emitTimeFieldConfigured = False,
      StackTraceEnabled = False, StackTraceLevel = LevelError, TraceProjectID = [],
      traceProjectExplicit = False, traceProjectSource = [],
      TraceDiagnostics = TraceDiagnosticsWarnOnce,
      UseShortSeverityNames = prefersManagedGCPDefaults info, Writer = None,
      ClosableWriter = None, writerExternallyOwned = False, FilePath = [], ReplaceAttr = None,
      Middlewares = [], InitialAttrs = [], InitialGroupedAttrs = [], InitialGroups = [],
      runtimeServiceContext = None, runtimeServiceContextAny = None,
      traceAllowAutoformat = False, traceDiagnosticsState = None,
      cfg_CloseTimeoutPolicy = CloseTimeoutAutoAbort\<rparr>"

text \<open>\<open>info\<close> is what \<^verbatim>\<open>DetectRuntimeInfo\<close> returns, the same at every call.\<close>

definition loadConfigFromEnv ::
  "environ \<Rightarrow> runtimeInfo \<Rightarrow> 'h handlerConfig option \<times> diagnostics" where
  "loadConfigFromEnv env info =
     (let cfg = base_config info;
          (level, d1) = resolveLevelFromEnv env (cfg_Level cfg);
          (source, d2) = parseBoolEnv (env ''SLOGCP_SOURCE_LOCATION'') (AddSource cfg);
          ((time, timeSet), d3) = parseBoolEnvWithPresence (env ''SLOGCP_TIME'') (EmitTimeField cfg);
          (stack, d4) = parseBoolEnv (env ''SLOGCP_STACK_TRACES'') (StackTraceEnabled cfg);
          (stackLevel, d5) = parseLevelEnv (env ''SLOGCP_STACK_TRACE_LEVEL'') (StackTraceLevel cfg);
          (aliases, d6) = parseBoolEnv (env ''SLOGCP_SEVERITY_ALIASES'') (UseShortSeverityNames cfg);
          (diag, d7) = parseTraceDiagnosticsEnv (env ''SLOGCP_TRACE_DIAGNOSTICS'') (TraceDiagnostics cfg);
          (traceProject, projectSource) = resolveTraceProjectFromEnv env;
          (result, d8) = applyTargetFromEnv env
            (cfg \<lparr> cfg_Level := level, AddSource := source, EmitTimeField := time,
                   emitTimeFieldConfigured := timeSet, StackTraceEnabled := stack,
                   StackTraceLevel := stackLevel, UseShortSeverityNames := aliases,
                   TraceDiagnostics := diag, TraceProjectID := traceProject,
                   traceProjectSource := projectSource,
                   traceProjectExplicit := (traceProject \<noteq> []) \<rparr>)
      in (result, d1 @ d2 @ d3 @ d4 @ d5 @ d6 @ d7 @ d8))"

section \<open>Laying the options over them\<close>

definition override :: "'a option \<Rightarrow> 'a \<Rightarrow> 'a" where
  "override o' a = (case o' of None \<Rightarrow> a | Some b \<Rightarrow> b)"

definition applyLevelAndTraceOptions ::
  "'h handlerConfig \<Rightarrow> ('h, 'o) options \<Rightarrow> 'h handlerConfig" where
  "applyLevelAndTraceOptions cfg opt =
     cfg \<lparr> cfg_Level := override (o_level opt) (cfg_Level cfg),
           AddSource := override (o_addSource opt) (AddSource cfg),
           EmitTimeField := override (o_emitTimeField opt) (EmitTimeField cfg),
           emitTimeFieldConfigured := (emitTimeFieldConfigured cfg \<or> o_emitTimeField opt \<noteq> None),
           StackTraceEnabled := override (o_stackTraceEnabled opt) (StackTraceEnabled cfg),
           StackTraceLevel := override (o_stackTraceLevel opt) (StackTraceLevel cfg),
           TraceProjectID := override (o_traceProjectID opt) (TraceProjectID cfg),
           traceProjectExplicit := (traceProjectExplicit cfg \<or> o_traceProjectID opt \<noteq> None),
           traceProjectSource := (if o_traceProjectID opt \<noteq> None then ''WithTraceProjectID''
                                  else traceProjectSource cfg),
           TraceDiagnostics := override (o_traceDiagnostics opt) (TraceDiagnostics cfg),
           UseShortSeverityNames := override (o_useShortSeverity opt) (UseShortSeverityNames cfg),
           cfg_CloseTimeoutPolicy :=
             override (map_option normalizeCloseTimeoutPolicy (o_closeTimeoutPolicy opt))
               (cfg_CloseTimeoutPolicy cfg) \<rparr>"

definition applyWriterOptions :: "'h handlerConfig \<Rightarrow> ('h, 'o) options \<Rightarrow> 'h handlerConfig" where
  "applyWriterOptions cfg opt =
     (let cfg = (case o_writerFilePath opt of
                   None \<Rightarrow> cfg
                 | Some p \<Rightarrow> cfg \<lparr> FilePath := TrimSpace p, Writer := None, ClosableWriter := None,
                                  writerExternallyOwned := False \<rparr>)
      in case o_writer opt of
           None \<Rightarrow> cfg
         | Some w \<Rightarrow> cfg \<lparr> Writer := Some w, FilePath := [], ClosableWriter := None,
                          writerExternallyOwned := o_writerExternallyOwned opt \<rparr>)"

definition applyAttrOptions :: "'h handlerConfig \<Rightarrow> ('h, 'o) options \<Rightarrow> 'h handlerConfig" where
  "applyAttrOptions cfg opt =
     cfg \<lparr> ReplaceAttr := (case o_replaceAttr opt of None \<Rightarrow> ReplaceAttr cfg | r \<Rightarrow> r),
           Middlewares := (if o_middlewares opt \<noteq> [] then o_middlewares opt else Middlewares cfg),
           InitialAttrs := InitialAttrs cfg @ concat (o_attrs opt),
           InitialGroupedAttrs := InitialGroupedAttrs cfg @ o_initialGroupedAttrs opt \<rparr>"

definition applyGroupOptions :: "'h handlerConfig \<Rightarrow> ('h, 'o) options \<Rightarrow> 'h handlerConfig" where
  "applyGroupOptions cfg opt =
     (if o_groupsSet opt then cfg \<lparr> InitialGroups := o_groups opt \<rparr> else cfg)"

definition applyOptions :: "'h handlerConfig \<Rightarrow> ('h, 'o) options \<Rightarrow> 'h handlerConfig" where
  "applyOptions cfg opt =
     applyGroupOptions (applyAttrOptions (applyWriterOptions (applyLevelAndTraceOptions cfg opt) opt) opt) opt"

definition applyExporter :: "'h handlerConfig \<Rightarrow> 'h handlerConfig" where
  "applyExporter cfg =
     cfg \<lparr> has_exporter := True, Writer := Some Discard, FilePath := [], ClosableWriter := None,
           writerExternallyOwned := True,
           EmitTimeField := (if emitTimeFieldConfigured cfg then EmitTimeField cfg else True) \<rparr>"

section \<open>Writers\<close>

definition ensureWriterDefaults :: "writer option \<Rightarrow> 'h handlerConfig \<Rightarrow> 'h handlerConfig" where
  "ensureWriterDefaults defaultWriter cfg =
     (if Writer cfg = None \<and> FilePath cfg = []
      then cfg \<lparr> Writer := Some (override defaultWriter Stdout), writerExternallyOwned := True \<rparr>
      else cfg)"

definition isStdStream :: "writer \<Rightarrow> bool" where
  "isStdStream w \<longleftrightarrow> w = Stdout \<or> w = Stderr"

text \<open>\<open>current\<close> is what each \<^verbatim>\<open>SwitchableWriter\<close> directs to.\<close>

function writerIsFileTarget :: "(nat \<Rightarrow> writer) \<Rightarrow> writer option \<Rightarrow> nat \<Rightarrow> bool" where
  "writerIsFileTarget current w depth =
     (if w = None \<or> depth > 1 then False
      else case the w of
             File _ \<Rightarrow> True
           | Switchable i \<Rightarrow>
               (let nxt = current i
                in if Some nxt = w then False else writerIsFileTarget current (Some nxt) (depth + 1))
           | _ \<Rightarrow> False)"
  by pat_completeness auto
termination by (relation "measure (\<lambda>(_, _, depth). 2 - depth)") auto

declare writerIsFileTarget.simps [simp del]

definition hasFileTarget :: "(nat \<Rightarrow> writer) \<Rightarrow> 'h handlerConfig \<Rightarrow> bool" where
  "hasFileTarget current cfg \<longleftrightarrow> FilePath cfg \<noteq> [] \<or> writerIsFileTarget current (Writer cfg) 0"

definition applyFileTargetTimeDefault ::
  "(nat \<Rightarrow> writer) \<Rightarrow> 'h handlerConfig \<Rightarrow> 'h handlerConfig" where
  "applyFileTargetTimeDefault current cfg =
     (if emitTimeFieldConfigured cfg then cfg
      else if hasFileTarget current cfg then cfg \<lparr> EmitTimeField := True \<rparr> else cfg)"

definition ensureWriterFallback :: "'h handlerConfig \<Rightarrow> 'h handlerConfig" where
  "ensureWriterFallback cfg =
     (if Writer cfg = None then cfg \<lparr> Writer := Some Stdout, writerExternallyOwned := True \<rparr> else cfg)"

definition is_closer :: "writer \<Rightarrow> bool" where
  "is_closer w = (case w of Discard \<Rightarrow> False | External _ c \<Rightarrow> c | _ \<Rightarrow> True)"

definition ensureClosableWriter :: "'h handlerConfig \<Rightarrow> 'h handlerConfig" where
  "ensureClosableWriter cfg =
     (if ClosableWriter cfg \<noteq> None \<or> writerExternallyOwned cfg then cfg
      else case Writer cfg of
             Some w \<Rightarrow> if is_closer w \<and> \<not> isStdStream w then cfg \<lparr> ClosableWriter := Some w \<rparr> else cfg
           | None \<Rightarrow> cfg)"

section \<open>The trace project of a handler\<close>

definition newTraceDiagnostics :: "TraceDiagnosticsMode \<Rightarrow> traceDiagnostics option" where
  "newTraceDiagnostics mode =
     (if mode = TraceDiagnosticsOff then None
      else Some \<lparr>td_mode = mode, unknownMu = False, invalidMu = False, normalizedMu = False\<rparr>)"

definition warnUnknownProject :: "traceDiagnostics option \<Rightarrow> diagnostics \<times> traceDiagnostics option" where
  "warnUnknownProject td =
     (case td of
        None \<Rightarrow> ([], td)
      | Some t \<Rightarrow>
          if td_mode t = TraceDiagnosticsOff \<or> unknownMu t then ([], td)
          else ([''trace correlation disabled: unable to determine Cloud project ID''],
                Some (t \<lparr> unknownMu := True \<rparr>)))"

definition warnInvalidTraceProjectID ::
  "gostring \<Rightarrow> gostring \<Rightarrow> traceDiagnostics option \<Rightarrow> diagnostics \<times> traceDiagnostics option" where
  "warnInvalidTraceProjectID value source td =
     (case td of
        None \<Rightarrow> ([], td)
      | Some t \<Rightarrow>
          if td_mode t \<noteq> TraceDiagnosticsWarnOnce \<or> invalidMu t then ([], td)
          else ([''trace correlation disabled: invalid TraceProjectID''],
                Some (t \<lparr> invalidMu := True \<rparr>)))"

definition warnNormalizedTraceProjectID ::
  "gostring \<Rightarrow> gostring \<Rightarrow> gostring \<Rightarrow> traceDiagnostics option
     \<Rightarrow> diagnostics \<times> traceDiagnostics option" where
  "warnNormalizedTraceProjectID value normalized source td =
     (case td of
        None \<Rightarrow> ([], td)
      | Some t \<Rightarrow>
          if td_mode t \<noteq> TraceDiagnosticsWarnOnce \<or> normalizedMu t then ([], td)
          else ([''trace correlation: normalized TraceProjectID''],
                Some (t \<lparr> normalizedMu := True \<rparr>)))"

datatype config_error = ErrInvalidRedirectTarget | ErrInvalidTraceProjectID gostring gostring
  | ErrStrictNeedsProject | ErrOpenFile gostring | ErrNilExporter

definition handleInvalidTraceProjectID ::
  "gostring \<Rightarrow> 'h handlerConfig \<Rightarrow> (config_error + 'h handlerConfig) \<times> diagnostics" where
  "handleInvalidTraceProjectID raw cfg =
     (if traceProjectExplicit cfg \<and> TraceDiagnostics cfg = TraceDiagnosticsStrict
      then (Inl (ErrInvalidTraceProjectID raw (traceProjectSource cfg)), [])
      else let (d, td) = (if traceProjectExplicit cfg
                 then warnInvalidTraceProjectID raw (traceProjectSource cfg) (traceDiagnosticsState cfg)
                 else ([], traceDiagnosticsState cfg))
           in (Inr (cfg \<lparr> TraceProjectID := [], traceDiagnosticsState := td \<rparr>), d))"

definition normalizeTraceProjectConfig ::
  "'h handlerConfig \<Rightarrow> (config_error + 'h handlerConfig) \<times> diagnostics" where
  "normalizeTraceProjectConfig cfg =
     (let raw = TrimSpace (TraceProjectID cfg)
      in if raw = [] then (Inr (cfg \<lparr> TraceProjectID := [] \<rparr>), [])
         else case normalizeTraceProjectID raw of
                None \<Rightarrow> handleInvalidTraceProjectID raw cfg
              | Some (normalized, changed) \<Rightarrow>
                  (let (d, td) = (if traceProjectExplicit cfg \<and> changed
                     then warnNormalizedTraceProjectID raw normalized (traceProjectSource cfg)
                            (traceDiagnosticsState cfg)
                     else ([], traceDiagnosticsState cfg))
                   in (Inr (cfg \<lparr> TraceProjectID := normalized, traceDiagnosticsState := td \<rparr>), d)))"

definition validateTraceProjectAvailability :: "'h handlerConfig \<Rightarrow> config_error + 'h handlerConfig" where
  "validateTraceProjectAvailability cfg =
     (if TraceDiagnostics cfg \<noteq> TraceDiagnosticsStrict \<or> TraceProjectID cfg \<noteq> [] \<or> traceAllowAutoformat cfg
      then Inr cfg else Inl ErrStrictNeedsProject)"

definition prepareRuntimeConfig ::
  "runtimeInfo \<Rightarrow> 'h handlerConfig \<Rightarrow> (config_error + 'h handlerConfig) \<times> diagnostics" where
  "prepareRuntimeConfig info cfg =
     (let ctx = cloneStringMap (ServiceContext info);
          cfg = cfg \<lparr> runtimeServiceContext := ctx,
                      runtimeServiceContextAny := Option.bind ctx stringMapToAny,
                      traceDiagnosticsState := newTraceDiagnostics (TraceDiagnostics cfg) \<rparr>
      in case normalizeTraceProjectConfig cfg of
           (Inl e, d) \<Rightarrow> (Inl e, d)
         | (Inr cfg, d) \<Rightarrow>
             (let cfg = (if TraceProjectID cfg = []
                         then cfg \<lparr> TraceProjectID := TrimSpace (ProjectID info) \<rparr> else cfg);
                  cfg = cfg \<lparr> traceAllowAutoformat :=
                                (TraceProjectID cfg = [] \<and> prefersManagedGCPDefaults info) \<rparr>
              in (validateTraceProjectAvailability cfg, d)))"

section \<open>The trace project is decided once\<close>

lemma normalizeTraceProjectID_valid:
  "normalizeTraceProjectID raw = Some (p, changed) \<Longrightarrow> validProjectID p"
  by (auto simp: normalizeTraceProjectID_def Let_def split: if_splits prod.splits)

lemma warn_at_most_one:
  "length (fst (warnInvalidTraceProjectID v src td)) \<le> 1"
  "length (fst (warnNormalizedTraceProjectID v n src td)) \<le> 1"
  by (auto simp: warnInvalidTraceProjectID_def warnNormalizedTraceProjectID_def split: option.split)

lemma normalizeTraceProjectConfig_result:
  assumes "normalizeTraceProjectConfig cfg = (Inr cfg', d)"
  shows "TraceProjectID cfg' = [] \<or> validProjectID (TraceProjectID cfg')"
    and "TraceDiagnostics cfg' = TraceDiagnostics cfg" and "length d \<le> 1"
proof -
  note warn = warn_at_most_one
  show "TraceProjectID cfg' = [] \<or> validProjectID (TraceProjectID cfg')"
    using assms normalizeTraceProjectID_valid
    by (fastforce simp: normalizeTraceProjectConfig_def handleInvalidTraceProjectID_def Let_def
        split: if_splits option.splits prod.splits)
  show "TraceDiagnostics cfg' = TraceDiagnostics cfg"
    using assms
    by (auto simp: normalizeTraceProjectConfig_def handleInvalidTraceProjectID_def Let_def
        split: if_splits option.splits prod.splits)
  show "length d \<le> 1"
    using assms warn
    by (auto simp: normalizeTraceProjectConfig_def handleInvalidTraceProjectID_def Let_def
        split: if_splits option.splits prod.splits) (metis fst_conv)+
qed

text \<open>
  A handler that is built has a usable trace project or says so: the project is
  empty, a syntactically valid identifier, or what detection found; strict diagnostics let
  no handler be built that could not correlate traces; and the configuration is warned about
  at most once.
\<close>

theorem prepareRuntimeConfig_trace_project:
  assumes "prepareRuntimeConfig info cfg = (Inr cfg', d)"
  shows "(TraceProjectID cfg' = [] \<or> validProjectID (TraceProjectID cfg')
          \<or> TraceProjectID cfg' = TrimSpace (ProjectID info))
    \<and> (if TraceDiagnostics cfg = TraceDiagnosticsStrict \<and> TraceProjectID cfg' = []
       then prefersManagedGCPDefaults info else True)
    \<and> length d \<le> 1"
proof -
  define c0 where "c0 = cfg \<lparr> runtimeServiceContext := cloneStringMap (ServiceContext info),
    runtimeServiceContextAny := Option.bind (cloneStringMap (ServiceContext info)) stringMapToAny,
    traceDiagnosticsState := newTraceDiagnostics (TraceDiagnostics cfg) \<rparr>"
  obtain c1 where c1: "normalizeTraceProjectConfig c0 = (Inr c1, d)"
    using assms by (auto simp: prepareRuntimeConfig_def Let_def c0_def split: prod.splits sum.splits)
  note facts = normalizeTraceProjectConfig_result [OF c1]
  have mode: "TraceDiagnostics c1 = TraceDiagnostics cfg" using facts(2) by (simp add: c0_def)
  have "validateTraceProjectAvailability
      ((if TraceProjectID c1 = [] then c1 \<lparr> TraceProjectID := TrimSpace (ProjectID info) \<rparr> else c1)
       \<lparr> traceAllowAutoformat := (TraceProjectID (if TraceProjectID c1 = []
           then c1 \<lparr> TraceProjectID := TrimSpace (ProjectID info) \<rparr> else c1) = []
           \<and> prefersManagedGCPDefaults info) \<rparr>) = Inr cfg'"
    using assms c1 by (simp add: prepareRuntimeConfig_def Let_def c0_def split: if_splits)
  then show ?thesis
    using facts(1, 3) mode by (auto simp: validateTraceProjectAvailability_def split: if_splits)
qed

definition demo_info :: runtimeInfo where
  "demo_info = \<lparr>ProjectID = '' demo-project '', Labels = [], ServiceContext = [], Environment = RuntimeEnvUnknown\<rparr>"

theorem prepareRuntimeConfig_trace_project_witness:
  "\<exists>cfg' d. prepareRuntimeConfig demo_info (base_config demo_info :: unit handlerConfig) = (Inr cfg', d)
     \<and> TraceProjectID cfg' = ''demo-project'' \<and> length d \<le> 1"
proof -
  have run: "case prepareRuntimeConfig demo_info (base_config demo_info :: unit handlerConfig) of
      (Inr c, _) \<Rightarrow> TraceProjectID c = ''demo-project'' | (Inl _, _) \<Rightarrow> False"
    by code_simp
  then obtain c d where r: "prepareRuntimeConfig demo_info (base_config demo_info :: unit handlerConfig) = (Inr c, d)"
    "TraceProjectID c = ''demo-project''"
    by (auto split: prod.splits sum.splits)
  show ?thesis using prepareRuntimeConfig_trace_project [OF r(1)] r by blast
qed

end
