(* ===== verification/SwitchableWriter.thy ===== *)
theory SwitchableWriter
  imports HandlerConfig
begin

text \<open>
  Files and writers: \<^verbatim>\<open>switchable_writer.go\<close> over a ledger of the open files.

  A file is known by the number of its opening, so that no file is opened twice. The ledger
  keeps which files were closed, every close that was attempted, the bytes each writer got and
  what every \<^verbatim>\<open>SwitchableWriter\<close> directs to. Closing a file reports an error when it
  was closed before or when \<open>close_fails\<close> says so; it is closed either way.
\<close>

record ledger =
  next_file :: nat
  closed_files :: "nat list"
  ext_closed :: "nat list"
  switches :: "writer list"
  got :: "(writer \<times> gostring) list"

record osEnv =
  can_open :: "gostring \<Rightarrow> nat \<Rightarrow> bool"
  close_fails :: "nat \<Rightarrow> bool"
  ext_close_fails :: "nat \<Rightarrow> bool"

datatype writeError = ErrClosed | ErrOther

definition open_file :: "osEnv \<Rightarrow> gostring \<Rightarrow> ledger \<Rightarrow> nat option \<times> ledger" where
  "open_file os path w =
     (if can_open os path (next_file w)
      then (Some (next_file w), w \<lparr> next_file := next_file w + 1 \<rparr>) else (None, w))"

text \<open>The flag is whether an error is returned.\<close>

definition close_file :: "osEnv \<Rightarrow> nat \<Rightarrow> ledger \<Rightarrow> bool \<times> ledger" where
  "close_file os fd w =
     (fd \<in> set (closed_files w) \<or> close_fails os fd, w \<lparr> closed_files := closed_files w @ [fd] \<rparr>)"

definition NewSwitchableWriter :: "writer option \<Rightarrow> ledger \<Rightarrow> nat \<times> ledger" where
  "NewSwitchableWriter initialWriter w =
     (length (switches w), w \<lparr> switches := switches w @ [override initialWriter Discard] \<rparr>)"

definition SetWriter :: "nat \<Rightarrow> writer option \<Rightarrow> ledger \<Rightarrow> ledger" where
  "SetWriter i newWriter w = w \<lparr> switches := (switches w)[i := override newWriter Discard] \<rparr>"

definition GetCurrentWriter :: "nat \<Rightarrow> ledger \<Rightarrow> writer" where
  "GetCurrentWriter i w = (if i < length (switches w) then switches w ! i else Discard)"

definition live :: "ledger \<Rightarrow> nat" where
  "live w = length (filter (\<lambda>v. v \<noteq> Discard) (switches w))"

lemma filter_update_less:
  "i < length xs \<Longrightarrow> P (xs ! i) \<Longrightarrow> \<not> P y \<Longrightarrow> length (filter P (xs[i := y])) < length (filter P xs)"
proof (induction xs arbitrary: i)
  case (Cons x xs)
  then show ?case
    by (cases i) (auto simp: Suc_le_eq less_Suc_eq_le)
qed simp

text \<open>
  \<^verbatim>\<open>Close\<close> of any writer; of a \<^verbatim>\<open>SwitchableWriter\<close> it is
  \<open>SwitchableWriter.Close\<close>, which first lets go of the writer and then closes it. Writers
  that direct to each other in a ring are closed once around.
\<close>

function close_writer :: "osEnv \<Rightarrow> writer \<Rightarrow> ledger \<Rightarrow> bool \<times> ledger" where
  "close_writer os v w =
     (case v of
        File fd \<Rightarrow> close_file os fd w
      | External n c \<Rightarrow>
          if c then (ext_close_fails os n, w \<lparr> ext_closed := ext_closed w @ [n] \<rparr>) else (False, w)
      | Switchable i \<Rightarrow>
          if GetCurrentWriter i w = Discard then (False, w)
          else close_writer os (GetCurrentWriter i w) (SetWriter i None w)
      | _ \<Rightarrow> (False, w))"
  by pat_completeness auto
termination
proof (relation "measure (\<lambda>(os, v, w). live w)")
  fix os :: osEnv and v :: writer and w :: ledger and i
  assume c: "GetCurrentWriter i w \<noteq> Discard"
  then have "i < length (switches w)" "switches w ! i \<noteq> Discard"
    by (auto simp: GetCurrentWriter_def split: if_splits)
  then show "((os, GetCurrentWriter i w, SetWriter i None w), os, v, w) \<in> measure (\<lambda>(os, v, w). live w)"
    using filter_update_less [of i "switches w" "\<lambda>v. v \<noteq> Discard" Discard]
    by (simp add: live_def SetWriter_def override_def)
qed simp

declare close_writer.simps [simp del]

definition Close_switch :: "osEnv \<Rightarrow> nat \<Rightarrow> ledger \<Rightarrow> bool \<times> ledger" where
  "Close_switch os i w = close_writer os (Switchable i) w"

text \<open>
  A write. \<open>None\<close> is success; a closed file refuses it. Writers that direct to each other in a
  ring deadlock on their own lock: the depth bound stands for that.
\<close>

fun write_to :: "nat \<Rightarrow> writer \<Rightarrow> gostring \<Rightarrow> ledger \<Rightarrow> (writeError option \<times> ledger) option" where
  "write_to 0 v p w = None"
| "write_to (Suc n) v p w =
     (case v of
        Switchable i \<Rightarrow> write_to n (GetCurrentWriter i w) p w
      | File fd \<Rightarrow> if fd \<in> set (closed_files w) then Some (Some ErrClosed, w)
                   else Some (None, w \<lparr> got := got w @ [(v, p)] \<rparr>)
      | _ \<Rightarrow> Some (None, w \<lparr> got := got w @ [(v, p)] \<rparr>))"

definition Write_switch :: "nat \<Rightarrow> gostring \<Rightarrow> ledger \<Rightarrow> (writeError option \<times> ledger) option" where
  "Write_switch i p w = write_to (Suc (length (switches w))) (Switchable i) p w"

lemma close_writer_file: "close_writer os (File fd) w = close_file os fd w"
  by (simp add: close_writer.simps)

lemma close_switch_of_file:
  "i < length (switches w) \<Longrightarrow> switches w ! i = File fd \<Longrightarrow>
   Close_switch os i w = close_file os fd (SetWriter i None w)"
  by (simp add: Close_switch_def close_writer.simps [of os "Switchable i"] close_writer.simps [of os "File fd"]
      GetCurrentWriter_def)

lemma close_switch_idle:
  "i < length (switches w) \<Longrightarrow> switches w ! i = Discard \<Longrightarrow> Close_switch os i w = (False, w)"
  by (simp add: Close_switch_def close_writer.simps [of os "Switchable i"] GetCurrentWriter_def)

end
