(* ===== verification/HandlerLifecycle.thy ===== *)
theory HandlerLifecycle
  imports SwitchableWriter AsyncQueue
begin

text \<open>
  Building, rotating and closing a handler, from \<^verbatim>\<open>handler.go\<close>: which file it owns,
  which writers it closes, and when.

  The asynchronous wrapper is seen through the error its \<^verbatim>\<open>Close\<close>,
  \<^verbatim>\<open>Shutdown\<close> and \<^verbatim>\<open>AbortContext\<close> return, any error at any call. An operation
  of the handler is one step: its parts run under the handler's mutex or its
  \<^verbatim>\<open>sync.Once\<close>.
\<close>

section \<open>Assembly\<close>

record 'h handlerState =
  hs_cfg :: "'h handlerConfig"
  switchableWriter :: "nat option"
  ownedFile :: "nat option"
  has_async :: bool
  closeOnce :: "bool option"

definition prepareFileWriter ::
  "osEnv \<Rightarrow> 'h handlerConfig \<Rightarrow> ledger
     \<Rightarrow> (config_error + 'h handlerConfig \<times> nat option \<times> nat option) \<times> ledger" where
  "prepareFileWriter os cfg w =
     (if FilePath cfg = [] then (Inr (cfg, None, None), w)
      else case open_file os (FilePath cfg) w of
             (None, w) \<Rightarrow> (Inl (ErrOpenFile (FilePath cfg)), w)
           | (Some fd, w) \<Rightarrow>
               (case NewSwitchableWriter (Some (File fd)) w of (i, w) \<Rightarrow>
                  (Inr (cfg \<lparr> Writer := Some (Switchable i), ClosableWriter := None,
                              writerExternallyOwned := False \<rparr>, Some fd, Some i), w)))"

definition asyncOnFileTargetsFromEnv :: "environ \<Rightarrow> bool \<times> bool" where
  "asyncOnFileTargetsFromEnv env =
     (let raw = TrimSpace (env ''SLOGCP_ASYNC_ON_FILE'')
      in if raw = [] then (False, False)
         else case ParseBool raw of None \<Rightarrow> (False, False) | Some b \<Rightarrow> (b, True))"

definition resolveAsyncConfig :: "environ \<Rightarrow> bool \<Rightarrow> ('h, 'o) options \<Rightarrow> bool \<times> bool" where
  "resolveAsyncConfig env isFileTarget opt =
     (if o_asyncEnabled opt then (True, o_asyncOnFileTargets opt)
      else if \<not> isFileTarget then (False, False)
      else case asyncOnFileTargetsFromEnv env of
             (enabled, ok) \<Rightarrow> if ok \<and> \<not> enabled then (False, False) else (True, True))"

definition wants_async :: "environ \<Rightarrow> bool \<Rightarrow> ('h, 'o) options \<Rightarrow> bool" where
  "wants_async env isFileTarget opt =
     (case resolveAsyncConfig env isFileTarget opt of
        (asyncEnabled, asyncOnFileTargets) \<Rightarrow> asyncEnabled \<and> (\<not> asyncOnFileTargets \<or> isFileTarget))"

text \<open>
  \<open>wrap\<close> is whether \<^verbatim>\<open>slogcpasync.Wrap\<close> with these options returns an asynchronous
  handler.
\<close>

definition newHandler ::
  "osEnv \<Rightarrow> environ \<Rightarrow> runtimeInfo \<Rightarrow> ('o list \<Rightarrow> bool) \<Rightarrow> writer option \<Rightarrow> bool
     \<Rightarrow> ('h, 'o) Option option list \<Rightarrow> ledger \<Rightarrow> (config_error + 'h handlerState) \<times> ledger" where
  "newHandler os env info wrap defaultWriter exporter opts w =
     (let builder = collectOptions opts
      in case fst (loadConfigFromEnv env info) of
           None \<Rightarrow> (Inl ErrInvalidRedirectTarget, w)
         | Some cfg \<Rightarrow>
             (let cfg = applyOptions cfg builder;
                  cfg = (if exporter then applyExporter cfg else cfg);
                  cfg = ensureWriterDefaults defaultWriter cfg;
                  cfg = applyFileTargetTimeDefault (\<lambda>i. GetCurrentWriter i w) cfg
              in case prepareFileWriter os cfg w of
                   (Inl e, w) \<Rightarrow> (Inl e, w)
                 | (Inr (cfg, file, switch), w) \<Rightarrow>
                     (case fst (prepareRuntimeConfig info (ensureClosableWriter (ensureWriterFallback cfg))) of
                        Inl e \<Rightarrow> (Inl e, w)
                      | Inr cfg \<Rightarrow>
                          (Inr \<lparr>hs_cfg = cfg, switchableWriter = switch, ownedFile = file,
                                has_async =
                                  (wants_async env (hasFileTarget (\<lambda>i. GetCurrentWriter i w) cfg) builder
                                   \<and> wrap (o_asyncOpts builder)),
                                closeOnce = None\<rparr>, w))))"

section \<open>Closing\<close>

text \<open>Whether the file still needs closing, and whether an error was noted.\<close>

definition closeSwitchableWriter ::
  "osEnv \<Rightarrow> bool \<Rightarrow> 'h handlerState \<Rightarrow> ledger \<Rightarrow> (bool \<times> bool) \<times> 'h handlerState \<times> ledger" where
  "closeSwitchableWriter os closeFile h w =
     (case switchableWriter h of
        None \<Rightarrow> ((closeFile, False), h, w)
      | Some i \<Rightarrow>
          (case Close_switch os i w of (err, w) \<Rightarrow>
             ((if err then closeFile else False, err), h \<lparr> switchableWriter := None \<rparr>, w)))"

definition closeOwnedFile :: "osEnv \<Rightarrow> bool \<Rightarrow> bool \<Rightarrow> 'h handlerState \<Rightarrow> ledger \<Rightarrow> bool \<times> ledger" where
  "closeOwnedFile os closeFile firstErr h w =
     (case ownedFile h of
        None \<Rightarrow> (firstErr, w)
      | Some fd \<Rightarrow>
          if \<not> closeFile then (firstErr, w)
          else (case close_file os fd w of (err, w) \<Rightarrow> (firstErr \<or> err, w)))"

definition closeConfiguredWriter :: "osEnv \<Rightarrow> 'h handlerState \<Rightarrow> ledger \<Rightarrow> bool \<times> ledger" where
  "closeConfiguredWriter os h w =
     (case ClosableWriter (hs_cfg h) of None \<Rightarrow> (False, w) | Some v \<Rightarrow> close_writer os v w)"

definition closeResources :: "osEnv \<Rightarrow> 'h handlerState \<Rightarrow> ledger \<Rightarrow> bool \<times> 'h handlerState \<times> ledger" where
  "closeResources os h w =
     (case closeSwitchableWriter os (ownedFile h \<noteq> None) h w of ((closeFile, err), h, w) \<Rightarrow>
        case closeOwnedFile os closeFile err h w of (err, w) \<Rightarrow>
          (let h = h \<lparr> ownedFile := None \<rparr>
           in case closeConfiguredWriter os h w of (err', w) \<Rightarrow> (err \<or> err', h, w)))"

definition closeResourcesOnce :: "osEnv \<Rightarrow> 'h handlerState \<Rightarrow> ledger \<Rightarrow> bool \<times> 'h handlerState \<times> ledger" where
  "closeResourcesOnce os h w =
     (case closeOnce h of
        Some err \<Rightarrow> (err, h, w)
      | None \<Rightarrow> (case closeResources os h w of (err, h, w) \<Rightarrow> (err, h \<lparr> closeOnce := Some err \<rparr>, w)))"

text \<open>The error of an operation: what the asynchronous handler reported, and a close error.\<close>

type_synonym lifecycleErr = "asyncErr list \<times> bool"

definition async_result :: "'h handlerState \<Rightarrow> asyncErr list \<Rightarrow> asyncErr list" where
  "async_result h e = (if has_async h then e else [])"

definition closeTimeoutPolicy :: "'h handlerState \<Rightarrow> CloseTimeoutPolicy" where
  "closeTimeoutPolicy h = normalizeCloseTimeoutPolicy (cfg_CloseTimeoutPolicy (hs_cfg h))"

definition finish_close :: "osEnv \<Rightarrow> asyncErr list \<Rightarrow> 'h handlerState \<Rightarrow> ledger \<Rightarrow> lifecycleErr \<times> 'h handlerState \<times> ledger" where
  "finish_close os e h w = (case closeResourcesOnce os h w of (err, h, w) \<Rightarrow> ((e, err), h, w))"

definition h_Close ::
  "osEnv \<Rightarrow> asyncErr list \<Rightarrow> asyncErr list \<Rightarrow> 'h handlerState \<Rightarrow> ledger
     \<Rightarrow> lifecycleErr \<times> 'h handlerState \<times> ledger" where
  "h_Close os closeErr abortErr h w =
     (let asyncErr = async_result h closeErr
      in if ErrFlushTimeout \<in> set asyncErr then
           (if closeTimeoutPolicy h = CloseTimeoutAutoAbort
            then finish_close os (asyncErr @ async_result h abortErr) h w
            else ((asyncErr, False), h, w))
         else finish_close os asyncErr h w)"

definition h_Shutdown ::
  "osEnv \<Rightarrow> asyncErr list \<Rightarrow> 'h handlerState \<Rightarrow> ledger \<Rightarrow> lifecycleErr \<times> 'h handlerState \<times> ledger" where
  "h_Shutdown os shutdownErr h w =
     (if async_result h shutdownErr \<noteq> [] then ((async_result h shutdownErr, False), h, w)
      else finish_close os [] h w)"

definition h_Abort ::
  "osEnv \<Rightarrow> asyncErr list \<Rightarrow> 'h handlerState \<Rightarrow> ledger \<Rightarrow> lifecycleErr \<times> 'h handlerState \<times> ledger" where
  "h_Abort os abortErr h w = finish_close os (async_result h abortErr) h w"

text \<open>\<^verbatim>\<open>ReopenLogFile\<close>; the flag is whether the file could not be opened.\<close>

definition ReopenLogFile :: "osEnv \<Rightarrow> 'h handlerState \<Rightarrow> ledger \<Rightarrow> bool \<times> 'h handlerState \<times> ledger" where
  "ReopenLogFile os h w =
     (case switchableWriter h of
        None \<Rightarrow> (False, h, w)
      | Some i \<Rightarrow>
          if FilePath (hs_cfg h) = [] then (False, h, w)
          else case open_file os (FilePath (hs_cfg h)) w of
                 (None, w) \<Rightarrow> (True, h, w)
               | (Some fd, w) \<Rightarrow>
                   (let w = SetWriter i (Some (File fd)) w
                    in (False, h \<lparr> ownedFile := Some fd \<rparr>,
                        case ownedFile h of None \<Rightarrow> w | Some old \<Rightarrow> snd (close_file os old w))))"

inductive lifecycle_step ::
  "osEnv \<Rightarrow> 'h handlerState \<times> ledger \<Rightarrow> 'h handlerState \<times> ledger \<Rightarrow> bool" for os where
  close: "lifecycle_step os (h, w) (snd (h_Close os closeErr abortErr h w))"
| shutdown: "lifecycle_step os (h, w) (snd (h_Shutdown os shutdownErr h w))"
| abort: "lifecycle_step os (h, w) (snd (h_Abort os abortErr h w))"
| reopen: "lifecycle_step os (h, w) (snd (ReopenLogFile os h w))"

text \<open>
  The fields of \<^verbatim>\<open>options\<close> are private, so that an option is made by one of the
  package's functions.
\<close>

inductive package_option :: "('h, 'o) Option \<Rightarrow> bool" where
  "package_option (WithInternalLogger l)" | "package_option (WithLevel lv)"
| "package_option (WithLevelVar v)" | "package_option (WithSourceLocationEnabled b)"
| "package_option (WithTime b)" | "package_option (WithStackTraceEnabled b)"
| "package_option (WithStackTraceLevel lv)" | "package_option (WithTraceProjectID i)"
| "package_option (WithTraceDiagnostics m)" | "package_option (WithSeverityAliases b)"
| "package_option WithRedirectToStdout" | "package_option WithRedirectToStderr"
| "package_option (WithRedirectToFile path)" | "package_option (WithRedirectWriter wr)"
| "package_option (WithReplaceAttr fn)" | "package_option (WithMiddleware mw)"
| "package_option (WithAdditionalHandlers hs)" | "package_option (WithAsync os)"
| "package_option (WithAsyncOnFile os)" | "package_option (WithCloseTimeoutPolicy p)"
| "package_option (opt_WithAttrs as)" | "package_option (opt_WithGroup name)"

text \<open>
  A handler built in a program that has opened no other file, and what becomes of it. The options
  of the asynchronous wrapper are known by their identity.
\<close>

definition no_files :: ledger where
  "no_files = \<lparr>next_file = 0, closed_files = [], ext_closed = [], switches = [], got = []\<rparr>"

inductive lives :: "osEnv \<Rightarrow> 'h handlerState \<times> ledger \<Rightarrow> bool" for os where
  built: "\<forall>f :: ('h, nat) Option. Some f \<in> set opts \<longrightarrow> package_option f \<Longrightarrow>
    newHandler os env info wrap dflt exporter opts no_files = (Inr h, w) \<Longrightarrow> lives os (h, w)"
| step: "lives os (h, w) \<Longrightarrow> lifecycle_step os (h, w) (h', w') \<Longrightarrow> lives os (h', w')"

end
