(* ===== verification/LifecycleProps.thy ===== *)
theory LifecycleProps
  imports HandlerLifecycle
begin

text \<open>
  What holds of a handler's files over its life: the file it owns is the only open one and the
  one its writer directs to, and nothing it was given is closed.
\<close>

section \<open>What a new handler owns\<close>

definition given_writer :: "('h, 'o) options \<Rightarrow> bool" where
  "given_writer b \<longleftrightarrow> (o_writer b \<noteq> None \<longrightarrow> o_writerExternallyOwned b)"

lemma package_option_given: "package_option f \<Longrightarrow> given_writer b \<Longrightarrow> given_writer (f b)"
  by (induction rule: package_option.induct)
     (auto simp: given_writer_def WithInternalLogger_def WithLevel_def WithLevelVar_def
       WithSourceLocationEnabled_def WithTime_def WithStackTraceEnabled_def WithStackTraceLevel_def
       WithTraceProjectID_def WithTraceDiagnostics_def WithSeverityAliases_def
       WithRedirectToStdout_def WithRedirectToStderr_def WithRedirectToFile_def
       WithRedirectWriter_def WithReplaceAttr_def WithMiddleware_def WithAdditionalHandlers_def
       WithAsync_def WithAsyncOnFile_def WithCloseTimeoutPolicy_def opt_WithAttrs_def
       opt_WithGroup_def Let_def split: option.splits)

lemma collectOptions_given:
  assumes "\<forall>f. Some f \<in> set opts \<longrightarrow> package_option f"
  shows "given_writer (collectOptions opts)"
proof -
  have "\<forall>f. Some f \<in> set opts \<longrightarrow> package_option f \<Longrightarrow> given_writer b \<Longrightarrow>
      given_writer (fold (\<lambda>opt b. case opt of None \<Rightarrow> b | Some f \<Rightarrow> f b) opts b)" for b
    by (induction opts arbitrary: b) (auto intro: package_option_given split: option.splits)
  then show ?thesis using assms by (simp add: collectOptions_def given_writer_def zero_options_def)
qed

text \<open>A writer that is set is not the handler's own, and none is registered for closing yet.\<close>

definition owns_nothing :: "'h handlerConfig \<Rightarrow> bool" where
  "owns_nothing cfg \<longleftrightarrow> ClosableWriter cfg = None \<and> (Writer cfg \<noteq> None \<longrightarrow> writerExternallyOwned cfg)"

lemma loadConfigFromEnv_owns:
  "fst (loadConfigFromEnv env info) = Some cfg \<Longrightarrow> owns_nothing cfg"
  by (auto simp: loadConfigFromEnv_def applyTargetFromEnv_def base_config_def owns_nothing_def Let_def
      split: prod.splits if_splits)

lemma applyOptions_owns: "owns_nothing cfg \<Longrightarrow> given_writer opt \<Longrightarrow> owns_nothing (applyOptions cfg opt)"
  by (auto simp: owns_nothing_def given_writer_def applyOptions_def applyGroupOptions_def
      applyAttrOptions_def applyWriterOptions_def applyLevelAndTraceOptions_def Let_def split: option.splits)

lemma exporter_owns: "owns_nothing cfg \<Longrightarrow> owns_nothing (applyExporter cfg)"
  by (simp add: owns_nothing_def applyExporter_def)

lemma defaults_own:
  "owns_nothing cfg \<Longrightarrow>
   owns_nothing (applyFileTargetTimeDefault cur (ensureWriterDefaults dflt cfg)) \<and>
   (FilePath (applyFileTargetTimeDefault cur (ensureWriterDefaults dflt cfg)) = [] \<longrightarrow>
    Writer (applyFileTargetTimeDefault cur (ensureWriterDefaults dflt cfg)) \<noteq> None)"
  by (auto simp: owns_nothing_def applyFileTargetTimeDefault_def ensureWriterDefaults_def)

lemma prepareRuntimeConfig_writer:
  "fst (prepareRuntimeConfig info cfg) = Inr cfg' \<Longrightarrow>
   ClosableWriter cfg' = ClosableWriter cfg \<and> FilePath cfg' = FilePath cfg"
  by (auto simp: prepareRuntimeConfig_def normalizeTraceProjectConfig_def handleInvalidTraceProjectID_def
      validateTraceProjectAvailability_def Let_def split: if_splits option.splits prod.splits sum.splits)

section \<open>The files of a handler\<close>

definition files_ok :: "'h handlerState \<Rightarrow> ledger \<Rightarrow> bool" where
  "files_ok h w \<longleftrightarrow>
     (\<forall>fd \<in> set (closed_files w). fd < next_file w) \<and>
     (\<forall>fd < next_file w. fd \<notin> set (closed_files w) \<longleftrightarrow> ownedFile h = Some fd) \<and>
     (\<forall>fd. ownedFile h = Some fd \<longrightarrow> fd < next_file w) \<and>
     (case switchableWriter h of
        Some i \<Rightarrow> i = 0 \<and> (\<exists>fd. ownedFile h = Some fd \<and> switches w = [File fd])
      | None \<Rightarrow> ownedFile h = None \<and> set (switches w) \<subseteq> {Discard}) \<and>
     ext_closed w = [] \<and>
     (ClosableWriter (hs_cfg h) = None \<or> ClosableWriter (hs_cfg h) = Some (Switchable 0)) \<and>
     (closeOnce h \<noteq> None \<longrightarrow> switchableWriter h = None)"

lemma new_files_ok:
  fixes h :: "'h handlerState"
  assumes opts: "\<forall>f. Some f \<in> set opts \<longrightarrow> package_option f"
    and new: "newHandler os env info wrap dflt exporter opts no_files = (Inr h, w)"
  shows "files_ok h w"
proof -
  obtain cfg0 :: "'h handlerConfig" where load: "fst (loadConfigFromEnv env info) = Some cfg0"
    using new by (auto simp: newHandler_def Let_def split: option.splits)
  define c1 where "c1 = applyOptions cfg0 (collectOptions opts)"
  define c2 where "c2 = (if exporter then applyExporter c1 else c1)"
  define c3 where "c3 = applyFileTargetTimeDefault (\<lambda>i. GetCurrentWriter i no_files) (ensureWriterDefaults dflt c2)"
  have "owns_nothing c2"
    using applyOptions_owns [OF loadConfigFromEnv_owns [OF load] collectOptions_given [OF opts]]
    by (simp add: c1_def c2_def exporter_owns)
  then have own: "owns_nothing c3" "FilePath c3 = [] \<longrightarrow> Writer c3 \<noteq> None"
    unfolding c3_def by (simp_all add: defaults_own)
  obtain c4 fd0 sw where prep: "prepareFileWriter os c3 no_files = (Inr (c4, fd0, sw), w)"
    and rest: "fst (prepareRuntimeConfig info (ensureClosableWriter (ensureWriterFallback c4))) = Inr (hs_cfg h)"
      "switchableWriter h = sw" "ownedFile h = fd0" "closeOnce h = None"
    using new load that unfolding newHandler_def Let_def c3_def c2_def c1_def
    by (auto split: prod.splits sum.splits)
  have closable: "ClosableWriter (hs_cfg h) = ClosableWriter (ensureClosableWriter (ensureWriterFallback c4))"
    using prepareRuntimeConfig_writer [OF rest(1)] by simp
  show ?thesis
  proof (cases "FilePath c3 = []")
    case True
    then have c4: "c4 = c3" "fd0 = None" "sw = None" "w = no_files"
      using prep by (simp_all add: prepareFileWriter_def)
    have "ClosableWriter (hs_cfg h) = None"
      using own True closable c4
      by (auto simp: owns_nothing_def ensureClosableWriter_def ensureWriterFallback_def)
    then show ?thesis using rest c4 by (simp add: files_ok_def no_files_def)
  next
    case False
    then have c4: "fd0 = Some 0" "sw = Some 0"
      "w = no_files \<lparr> next_file := 1, switches := [File 0] \<rparr>"
      "c4 = c3 \<lparr> Writer := Some (Switchable 0), ClosableWriter := None, writerExternallyOwned := False \<rparr>"
      using prep
      by (auto simp: prepareFileWriter_def open_file_def NewSwitchableWriter_def no_files_def override_def
          split: if_splits option.splits prod.splits)
    have "ClosableWriter (hs_cfg h) = Some (Switchable 0)"
      using closable by (simp add: c4(4) ensureClosableWriter_def ensureWriterFallback_def is_closer_def isStdStream_def)
    then show ?thesis using rest c4 by (simp add: files_ok_def no_files_def)
  qed
qed

section \<open>Every operation keeps it\<close>

lemma close_idle: "set (switches w) \<subseteq> {Discard} \<Longrightarrow> close_writer os (Switchable i) w = (False, w)"
  by (cases "i < length (switches w)")
     (auto simp: close_writer.simps [of os "Switchable i"] GetCurrentWriter_def subset_iff)

lemma closeResources_files:
  assumes "files_ok h w" and "closeResources os h w = (err, h', w')" and "closeOnce h = None"
  shows "files_ok (h' \<lparr> closeOnce := Some err \<rparr>) w' \<and> ownedFile h' = None"
proof (cases "switchableWriter h")
  case None
  then show ?thesis
    using assms
    by (auto simp: files_ok_def closeResources_def closeSwitchableWriter_def closeOwnedFile_def
        closeConfiguredWriter_def close_idle split: option.splits prod.splits)
next
  case (Some i)
  then obtain fd where fd: "i = 0" "ownedFile h = Some fd" "switches w = [File fd]"
    using assms(1) by (auto simp: files_ok_def)
  have first: "Close_switch os 0 w = close_file os fd (SetWriter 0 None w)"
    using fd by (simp add: close_switch_of_file)
  show ?thesis
    using assms Some fd
    by (auto simp: files_ok_def closeResources_def closeSwitchableWriter_def closeOwnedFile_def first
        close_file_def SetWriter_def override_def closeConfiguredWriter_def
        close_idle split: option.splits prod.splits if_splits)
qed

lemma closeResourcesOnce_files:
  assumes "files_ok h w" and "closeResourcesOnce os h w = (err, h', w')"
  shows "files_ok h' w' \<and> ownedFile h' = None \<and> closeOnce h' \<noteq> None"
proof (cases "closeOnce h")
  case None
  then obtain h1 where "closeResources os h w = (err, h1, w')" "h' = h1 \<lparr> closeOnce := Some err \<rparr>"
    using assms(2) by (auto simp: closeResourcesOnce_def split: prod.splits)
  then show ?thesis using closeResources_files [OF assms(1) _ None] by auto
next
  case (Some e)
  then show ?thesis using assms by (auto simp: closeResourcesOnce_def files_ok_def)
qed

lemma finish_close_files:
  "files_ok h w \<Longrightarrow> finish_close os e h w = (r, h', w') \<Longrightarrow>
   files_ok h' w' \<and> ownedFile h' = None \<and> closeOnce h' \<noteq> None"
  using closeResourcesOnce_files [of h w os] by (auto simp: finish_close_def split: prod.splits)

lemma finish_close_step:
  "files_ok h w \<Longrightarrow> (h', w') = snd (finish_close os e h w) \<Longrightarrow> files_ok h' w'"
  using finish_close_files [of h w os e] by (cases "finish_close os e h w") auto

lemma reopen_files:
  assumes "files_ok h w" and "ReopenLogFile os h w = (err, h', w')"
  shows "files_ok h' w'"
proof (cases "switchableWriter h")
  case None
  then show ?thesis using assms by (simp add: ReopenLogFile_def)
next
  case (Some i)
  then obtain fd where fd: "i = 0" "ownedFile h = Some fd" "switches w = [File fd]" "fd < next_file w"
    using assms(1) by (auto simp: files_ok_def)
  show ?thesis
    using assms Some fd
    by (auto simp: ReopenLogFile_def files_ok_def open_file_def SetWriter_def override_def close_file_def
        Let_def less_Suc_eq split: if_splits)
qed

lemma reopen_step:
  "files_ok h w \<Longrightarrow> (h', w') = snd (ReopenLogFile os h w) \<Longrightarrow> files_ok h' w'"
  using reopen_files [of h w os] by (cases "ReopenLogFile os h w") auto

lemma step_files:
  "lifecycle_step os (h, w) (h', w') \<Longrightarrow> files_ok h w \<Longrightarrow> files_ok h' w'"
  by (erule lifecycle_step.cases)
     (auto simp: h_Close_def h_Shutdown_def h_Abort_def Let_def dest: finish_close_step reopen_step
       split: if_splits)

lemma lives_files: "lives os s \<Longrightarrow> files_ok (fst s) (snd s)"
proof (induction rule: lives.induct)
  case (built opts env info wrap dflt exporter h w)
  then show ?case using new_files_ok by auto
next
  case (step h w h' w')
  then show ?case using step_files by auto
qed

section \<open>Properties\<close>

text \<open>
  C5. A handler never leaks a file, never writes to a closed one and never closes a
  writer it was given: at every point of its life the only file of its own still open is the
  one it owns, its writer directs to that file or discards, and after its resources were
  released no file is open.
\<close>

theorem handler_files:
  assumes "lives os (h, w)"
  shows "{fd. fd < next_file w \<and> fd \<notin> set (closed_files w)} = set_option (ownedFile h)
    \<and> list_all (\<lambda>v. v = Discard \<or> v \<in> File ` set_option (ownedFile h)) (switches w)
    \<and> ext_closed w = []
    \<and> (if closeOnce h = None then True else ownedFile h = None)"
proof -
  have ok: "files_ok h w" using lives_files [OF assms] by simp
  have "{fd. fd < next_file w \<and> fd \<notin> set (closed_files w)} = set_option (ownedFile h)"
    using ok by (auto simp: files_ok_def)
  moreover have "list_all (\<lambda>v. v = Discard \<or> v \<in> File ` set_option (ownedFile h)) (switches w)"
    using ok by (auto simp: files_ok_def list_all_iff split: option.splits)
  ultimately show ?thesis using ok by (auto simp: files_ok_def split: option.splits)
qed

definition demo_os :: osEnv where
  "demo_os = \<lparr>can_open = (\<lambda>_ _. True), close_fails = (\<lambda>_. False), ext_close_fails = (\<lambda>_. False)\<rparr>"

definition demo_opts :: "(unit, nat) Option option list" where
  "demo_opts = [Some (WithRedirectToFile '' app.log '')]"

definition rotated :: "(config_error + unit handlerState) \<times> ledger \<Rightarrow> bool" where
  "rotated r =
     (case r of
        (Inr h, w) \<Rightarrow>
          (case ReopenLogFile demo_os h w of (_, h', w') \<Rightarrow>
             ownedFile h' = Some 1 \<and> closed_files w' = [0] \<and> switches w' = [File 1] \<and> next_file w' = 2)
      | _ \<Rightarrow> False)"

lemma demo_rotates:
  "rotated (newHandler demo_os (\<lambda>_. []) demo_info (\<lambda>_. True) None False demo_opts no_files)"
  by code_simp

theorem handler_files_witness:
  "\<exists>h w. lives demo_os (h :: unit handlerState, w) \<and> closed_files w = [0] \<and>
     {fd. fd < next_file w \<and> fd \<notin> set (closed_files w)} = {1} \<and> ext_closed w = []"
proof -
  obtain h w where new:
      "newHandler demo_os (\<lambda>_. []) demo_info (\<lambda>_. True) None False demo_opts no_files = (Inr (h :: unit handlerState), w)"
    using demo_rotates by (auto simp: rotated_def split: prod.splits sum.splits)
  have "\<forall>f. Some f \<in> set demo_opts \<longrightarrow> package_option f"
    by (auto simp: demo_opts_def intro: package_option.intros)
  then have l: "lives demo_os (h, w)" using new by (rule lives.built)
  obtain e h' w' where re: "ReopenLogFile demo_os h w = (e, h', w')" by (metis prod_cases3)
  have "lifecycle_step demo_os (h, w) (h', w')" using lifecycle_step.reopen [of demo_os h w] re by simp
  with l have l': "lives demo_os (h', w')" by (rule lives.step)
  have o1: "ownedFile h' = Some 1" and c0: "closed_files w' = [0]"
    using demo_rotates new re by (simp_all add: rotated_def)
  have "{fd. fd < next_file w' \<and> fd \<notin> set (closed_files w')} = {1}" "ext_closed w' = []"
    using handler_files [OF l'] unfolding o1 option.set by blast+
  then show ?thesis using l' c0 by blast
qed

text \<open>
  A construction that fails after the file was opened leaves it open: here strict diagnostics
  find no project.
\<close>

lemma newHandler_strict_leaks:
  "case newHandler demo_os (\<lambda>_. []) (demo_info \<lparr> ProjectID := [] \<rparr>) (\<lambda>_. True) None False
      (Some (WithTraceDiagnostics TraceDiagnosticsStrict) # demo_opts) no_files of
     (Inl ErrStrictNeedsProject, w) \<Rightarrow> next_file w = 1 \<and> closed_files w = [] | _ \<Rightarrow> False"
  by code_simp


end
