(* ===== verification/JsonPayload.thy ===== *)
theory JsonPayload
  imports HandlerConfig PayloadFacts
begin

text \<open>
  How a record becomes a payload: the JSON handler's state and the payload builder of
  \<^verbatim>\<open>json_handler.go\<close>.

  The code writes into nested maps through pointers, always below the map it holds; here an
  operation returns the map it wrote, and the group it was done in puts it back. The prefix of
  \<^verbatim>\<open>groupStack\<close> a call sees is its argument \<open>groups\<close>. A borrowed map is \<open>[]\<close>
  and a map the application passes as a value is a copy; \<^verbatim>\<open>PayloadStore\<close> has the maps
  of the pool and of the application with their addresses. A nil map is the empty one.

  \<open>None\<close> is a walk that does not end: \<^verbatim>\<open>ReplaceAttr\<close> may answer every leaf with a
  group that has a leaf again.
\<close>

section \<open>The handler\<close>

definition LabelsGroup :: gostring where "LabelsGroup = ''logging.googleapis.com/labels''"
definition httpRequestKey :: gostring where "httpRequestKey = ''httpRequest''"

record logRecord =
  r_Time :: gotime
  r_Message :: gostring
  r_Level :: level
  r_PC :: nat
  r_Attrs :: "slogAttr list"

record 'h jsonHandler =
  jh_cfg :: "'h handlerConfig"
  groupedAttrs :: "groupedAttr list"
  groups :: "gostring list"

definition empty_attr :: "slogAttr \<Rightarrow> bool" where
  "empty_attr a \<longleftrightarrow> fst a = [] \<and> snd a = VAny GNil"

definition cloneGroupedAttrs :: "groupedAttr list \<Rightarrow> groupedAttr list" where
  "cloneGroupedAttrs initial = filter (\<lambda>ga. \<not> empty_attr (ga_attr ga)) initial"

definition cloneUngroupedAttrs :: "gostring list \<Rightarrow> slogAttr list \<Rightarrow> groupedAttr list" where
  "cloneUngroupedAttrs gs initial =
     map (\<lambda>a. \<lparr>ga_groups = gs, ga_attr = a\<rparr>) (filter (\<lambda>a. \<not> empty_attr a) initial)"

definition collectInitialAttrs :: "'h handlerConfig \<Rightarrow> groupedAttr list" where
  "collectInitialAttrs cfg =
     (if InitialGroupedAttrs cfg \<noteq> [] then cloneGroupedAttrs (InitialGroupedAttrs cfg)
      else cloneUngroupedAttrs (InitialGroups cfg) (InitialAttrs cfg))"

definition newJSONHandler :: "'h handlerConfig \<Rightarrow> 'h jsonHandler" where
  "newJSONHandler cfg =
     \<lparr>jh_cfg = cfg, groupedAttrs = collectInitialAttrs cfg, groups = InitialGroups cfg\<rparr>"

definition jh_WithAttrs :: "slogAttr list \<Rightarrow> 'h jsonHandler \<Rightarrow> 'h jsonHandler" where
  "jh_WithAttrs attrs h =
     (if attrs = [] then h
      else h \<lparr> groupedAttrs := groupedAttrs h @
                 map (\<lambda>a. \<lparr>ga_groups = groups h, ga_attr = a\<rparr>) attrs \<rparr>)"

definition jh_WithGroup :: "gostring \<Rightarrow> 'h jsonHandler \<Rightarrow> 'h jsonHandler" where
  "jh_WithGroup name h = (if name = [] then h else h \<lparr> groups := groups h @ [name] \<rparr>)"

section \<open>The builder\<close>

record builder =
  httpReq :: "HTTPRequest option"
  firstErr :: "goerror option"
  dynamicLabels :: "gostring gomap option"

definition newPayloadBuilder :: builder where
  "newPayloadBuilder = \<lparr>httpReq = None, firstErr = None, dynamicLabels = None\<rparr>"

type_synonym walk = "goany gomap \<times> builder"

definition extractErrorFromResolved :: "slogValue \<Rightarrow> goerror option" where
  "extractErrorFromResolved v = (case v of VAny (GError e) \<Rightarrow> Some e | _ \<Rightarrow> None)"

definition captureFirstError :: "slogValue \<Rightarrow> builder \<Rightarrow> builder" where
  "captureFirstError val pb =
     (if firstErr pb \<noteq> None then pb else pb \<lparr> firstErr := extractErrorFromResolved val \<rparr>)"

definition handleHTTPRequestAttr :: "golib \<Rightarrow> slogValue \<Rightarrow> builder \<Rightarrow> bool \<times> builder" where
  "handleHTTPRequestAttr lib rawValue pb =
     (if httpReq pb \<noteq> None then (False, pb)
      else case httpRequestFromValue rawValue of
             Some req \<Rightarrow> (True, pb \<lparr> httpReq := map_option (PrepareHTTPRequest lib) req \<rparr>)
           | None \<Rightarrow> (False, pb))"

definition ensureLabels :: "builder \<Rightarrow> gostring gomap" where
  "ensureLabels pb = (case dynamicLabels pb of None \<Rightarrow> [] | Some m \<Rightarrow> m)"

definition addLabel :: "golib \<Rightarrow> slogAttr \<Rightarrow> builder \<Rightarrow> builder" where
  "addLabel lib attr pb =
     (case labelValueToStringResolved lib (snd attr) of
        Some s \<Rightarrow> pb \<lparr> dynamicLabels := Some (mput (fst attr) s (ensureLabels pb)) \<rparr>
      | None \<Rightarrow> pb)"

definition put_value :: "gostring \<Rightarrow> goany \<Rightarrow> goany gomap \<Rightarrow> goany gomap" where
  "put_value k val m = (if val = GNil then m else mput k val m)"

definition handleLeafAttr :: "golib \<Rightarrow> slogAttr \<Rightarrow> slogValue \<Rightarrow> bool \<Rightarrow> walk \<Rightarrow> walk" where
  "handleLeafAttr lib attr rawValue inLabels st =
     (if inLabels then (fst st, addLabel lib attr (snd st))
      else case (if fst attr = httpRequestKey then handleHTTPRequestAttr lib rawValue (snd st)
                 else (False, snd st)) of
             (True, pb) \<Rightarrow> (fst st, pb)
           | (False, pb) \<Rightarrow> (put_value (fst attr) (resolveSlogValueWithRaw lib (snd attr)) (fst st), pb))"

text \<open>The attribute, its raw value, and the builder with the first error noted.\<close>

definition normalizeAttr ::
  "golib \<Rightarrow> replacer option \<Rightarrow> gostring list \<Rightarrow> slogAttr \<Rightarrow> builder
     \<Rightarrow> slogAttr \<times> slogValue \<times> builder" where
  "normalizeAttr lib replace gs attr pb =
     (let resolved = (fst attr, Resolve lib (snd attr));
          (attr', raw) =
            (case replace of
               Some f \<Rightarrow>
                 if Kind (snd resolved) \<noteq> KindGroup
                 then (let a = f gs resolved in ((fst a, Resolve lib (snd a)), snd a))
                 else (resolved, snd attr)
             | None \<Rightarrow> (resolved, snd attr))
      in (attr', raw,
          if Kind (snd attr') \<noteq> KindGroup then captureFirstError (snd attr') pb else pb))"

section \<open>Groups\<close>

text \<open>\<^verbatim>\<open>ensureGroupMap\<close>: the map found under the key, or a fresh one in its place.\<close>

definition group_map :: "gostring \<Rightarrow> goany gomap \<Rightarrow> goany gomap" where
  "group_map key parent = (case map_of parent key of Some (GMap c) \<Rightarrow> c | _ \<Rightarrow> [])"

definition in_group :: "gostring \<Rightarrow> (walk \<Rightarrow> walk option) \<Rightarrow> walk \<Rightarrow> walk option" where
  "in_group key body st =
     (if key = [] then body st
      else Option.bind (body (group_map key (fst st), snd st))
             (\<lambda>st'. Some (mput key (GMap (fst st')) (fst st), snd st')))"

lemma in_group_mono [partial_function_mono]:
  assumes "\<And>s. mono_option (\<lambda>f. B f s)"
  shows "mono_option (\<lambda>f. in_group key (B f) st)"
  unfolding in_group_def
  by (cases "key = []") (auto intro!: assms bind_mono option.const_mono)

definition walkGroupAttr ::
  "(gostring list \<Rightarrow> bool \<Rightarrow> slogAttr \<Rightarrow> walk \<Rightarrow> walk option) \<Rightarrow> gostring list \<Rightarrow> bool
     \<Rightarrow> gostring \<Rightarrow> slogAttr list \<Rightarrow> walk \<Rightarrow> walk option" where
  "walkGroupAttr walk gs inLabels key children st =
     (if key = [] then each (walk gs inLabels) children st
      else if key = LabelsGroup then each (walk (gs @ [key]) True) children st
      else in_group key (each (walk (gs @ [key]) inLabels) children) st)"

lemma walkGroupAttr_mono [partial_function_mono]:
  assumes "\<And>gs b a s. mono_option (\<lambda>f. B f gs b a s)"
  shows "mono_option (\<lambda>f. walkGroupAttr (B f) gs inLabels key children st)"
  unfolding walkGroupAttr_def
  by (cases "key = []"; cases "key = LabelsGroup")
     (auto intro!: assms each_mono in_group_mono)

text \<open>The shortcut for requests at the head of \<^verbatim>\<open>walkAttr\<close>.\<close>

definition http_shortcut ::
  "golib \<Rightarrow> replacer option \<Rightarrow> slogAttr \<Rightarrow> builder \<Rightarrow> bool \<times> builder" where
  "http_shortcut lib replace attr pb =
     (if fst attr = httpRequestKey \<and> replace = None
      then handleHTTPRequestAttr lib (snd attr) pb else (False, pb))"

partial_function (option) walkAttr ::
  "golib \<Rightarrow> replacer option \<Rightarrow> gostring list \<Rightarrow> bool \<Rightarrow> slogAttr \<Rightarrow> walk \<Rightarrow> walk option" where
  "walkAttr lib replace gs inLabels attr st =
     (case http_shortcut lib replace attr (snd st) of (taken, pb) \<Rightarrow>
        if taken then Some (fst st, pb)
        else case normalizeAttr lib replace gs attr pb of (attr', raw, pb') \<Rightarrow>
          (case snd attr' of
             VGroup children \<Rightarrow>
               walkGroupAttr (walkAttr lib replace) gs inLabels (fst attr') children (fst st, pb')
           | _ \<Rightarrow>
               if fst attr' = [] then Some (fst st, pb')
               else Some (handleLeafAttr lib attr' raw inLabels (fst st, pb'))))"

text \<open>The loop over the groups an attribute or a handler stands in.\<close>

fun in_groups :: "gostring list \<Rightarrow> (walk \<Rightarrow> walk option) \<Rightarrow> walk \<Rightarrow> walk option" where
  "in_groups [] body = body"
| "in_groups (g # gs) body =
     (if g = LabelsGroup then in_groups gs body else in_group g (in_groups gs body))"

definition applyBaseAttrs :: "golib \<Rightarrow> replacer option \<Rightarrow> groupedAttr list \<Rightarrow> walk \<Rightarrow> walk option" where
  "applyBaseAttrs lib replace baseAttrs =
     each (\<lambda>ga. in_groups (ga_groups ga)
             (walkAttr lib replace (ga_groups ga) (LabelsGroup \<in> set (ga_groups ga)) (ga_attr ga)))
       baseAttrs"

definition applyRecordAttrs ::
  "golib \<Rightarrow> replacer option \<Rightarrow> gostring list \<Rightarrow> slogAttr list \<Rightarrow> walk \<Rightarrow> walk option" where
  "applyRecordAttrs lib replace baseGroups attrs =
     in_groups baseGroups (each (walkAttr lib replace baseGroups (LabelsGroup \<in> set baseGroups)) attrs)"

fun pruneEmptyMaps :: "goany gomap \<Rightarrow> goany gomap" where
  "pruneEmptyMaps [] = []"
| "pruneEmptyMaps ((k, v) # m) =
     (case v of
        GMap c \<Rightarrow>
          (let c' = pruneEmptyMaps c
           in if c' = [] then pruneEmptyMaps m else (k, GMap c') # pruneEmptyMaps m)
      | GStringMap s \<Rightarrow> if s = [] then pruneEmptyMaps m else (k, v) # pruneEmptyMaps m
      | _ \<Rightarrow> (k, v) # pruneEmptyMaps m)"

section \<open>Errors and stacks\<close>

text \<open>What the runtime tells of the calling goroutine.\<close>

record stackEnv =
  frames_at :: "nat list \<Rightarrow> Frame list"
  goroutine :: gostring
  callers_of :: "nat list"

definition captured :: "stackEnv \<Rightarrow> gostring" where
  "captured env =
     (case CaptureStack (frames_at env) (goroutine env) (callers_of env) None of
        Some (stack, _) \<Rightarrow> stack
      | None \<Rightarrow> [])"

definition shouldCaptureStack :: "'h handlerConfig \<Rightarrow> level \<Rightarrow> bool" where
  "shouldCaptureStack cfg level \<longleftrightarrow>
     StackTraceEnabled cfg \<and>
     stackTraceComparisonLevel (StackTraceLevel cfg) \<le> stackTraceComparisonLevel level"

text \<open>Error type, error message, stack.\<close>

definition resolveErrorAndStack ::
  "stackEnv \<Rightarrow> 'h handlerConfig \<Rightarrow> level \<Rightarrow> goerror option \<Rightarrow> gostring \<times> gostring \<times> gostring" where
  "resolveErrorAndStack env cfg level err =
     (case err of
        Some e \<Rightarrow>
          (let (fe, origin) = formatErrorForReporting
                 (extractAndFormatOriginStack (frames_at env) (goroutine env)) (Some e)
           in (Type fe, Message fe,
               if origin = [] \<and> shouldCaptureStack cfg level then captured env else origin))
      | None \<Rightarrow> ([], [], if shouldCaptureStack cfg level then captured env else []))"

record builtPayload =
  bp_payload :: "goany gomap"
  bp_httpReq :: "HTTPRequest option"
  bp_errType :: gostring
  bp_errMsg :: gostring
  bp_stack :: gostring
  bp_labels :: "gostring gomap option"

definition finish_build :: "stackEnv \<Rightarrow> 'h handlerConfig \<Rightarrow> level \<Rightarrow> walk \<Rightarrow> builtPayload" where
  "finish_build env cfg level st =
     (case resolveErrorAndStack env cfg level (firstErr (snd st)) of (errType, errMsg, stack) \<Rightarrow>
        \<lparr>bp_payload = pruneEmptyMaps (fst st), bp_httpReq = httpReq (snd st), bp_errType = errType,
         bp_errMsg = errMsg, bp_stack = stack, bp_labels = dynamicLabels (snd st)\<rparr>)"

definition buildPayload ::
  "golib \<Rightarrow> stackEnv \<Rightarrow> 'h jsonHandler \<Rightarrow> logRecord \<Rightarrow> builtPayload option" where
  "buildPayload lib env h r =
     map_option (finish_build env (jh_cfg h) (r_Level r))
       (Option.bind (applyBaseAttrs lib (ReplaceAttr (jh_cfg h)) (groupedAttrs h) ([], newPayloadBuilder))
          (applyRecordAttrs lib (ReplaceAttr (jh_cfg h)) (groups h) (r_Attrs r)))"

section \<open>Deriving a handler and nesting the attributes are the same\<close>

lemma group_map_put [simp]: "group_map k (mput k (GMap c) m) = c"
  by (simp add: group_map_def update_conv')

lemma put_put [simp]: "mput k v' (mput k v m) = mput k v' m"
  by (induction m) auto

lemma in_group_then:
  "Option.bind (in_group k f st) (in_group k g) = in_group k (\<lambda>s. Option.bind (f s) g) st"
  by (auto simp: in_group_def Option.bind_assoc split: bind_splits)

lemma in_groups_then:
  "Option.bind (in_groups gs f st) (in_groups gs g) = in_groups gs (\<lambda>s. Option.bind (f s) g) st"
proof (induction gs arbitrary: f g st)
  case (Cons k gs)
  have comp: "(\<lambda>s. Option.bind (in_groups gs f s) (in_groups gs g)) = in_groups gs (\<lambda>s. Option.bind (f s) g)"
    using Cons.IH by blast
  show ?case by (simp add: Cons.IH in_group_then comp)
qed simp

lemma in_groups_append: "in_groups (gs @ hs) f = in_groups gs (in_groups hs f)"
  by (induction gs) auto

lemma in_groups_each:
  "Option.bind (each (\<lambda>a. in_groups gs (f a)) as st) (in_groups gs g) =
   in_groups gs (\<lambda>s. Option.bind (each f as s) g) st"
proof (induction as arbitrary: st)
  case (Cons a as)
  have "Option.bind (each (\<lambda>a. in_groups gs (f a)) (a # as) st) (in_groups gs g)
      = Option.bind (in_groups gs (f a) st)
          (\<lambda>s. Option.bind (each (\<lambda>a. in_groups gs (f a)) as s) (in_groups gs g))"
    by (simp add: Option.bind_assoc)
  also have "\<dots> = Option.bind (in_groups gs (f a) st) (in_groups gs (\<lambda>s. Option.bind (each f as s) g))"
    by (simp add: Cons.IH)
  also have "\<dots> = in_groups gs (\<lambda>s. Option.bind (each f (a # as) s) g) st"
    by (simp add: in_groups_then Option.bind_assoc)
  finally show ?case .
qed simp

lemma http_shortcut_group [simp]: "http_shortcut lib replace (g, VGroup as) pb = (False, pb)"
  by (simp add: http_shortcut_def handleHTTPRequestAttr_def httpRequestFromValue_def)

lemma normalizeAttr_group [simp]:
  "normalizeAttr lib replace gs (g, VGroup as) pb = ((g, VGroup as), VGroup as, pb)"
  by (cases replace) (simp_all add: normalizeAttr_def Resolve_resolved Let_def)

lemma walk_named_group:
  "g \<noteq> [] \<Longrightarrow>
   walkAttr lib replace gs inLabels (g, VGroup as) st =
     (if g = LabelsGroup then each (walkAttr lib replace (gs @ [g]) True) as st
      else in_group g (each (walkAttr lib replace (gs @ [g]) inLabels) as) st)"
  by (subst walkAttr.simps) (simp add: walkGroupAttr_def)

text \<open>
  Opening a group on a handler and logging the attributes is the same as logging
  them inside one group attribute: the same payload, labels, request, error and stack, for
  every configuration, the group of labels and attributes replaced by the application included.
\<close>

theorem WithGroup_nests:
  "g \<noteq> [] \<Longrightarrow>
   buildPayload lib env (jh_WithGroup g h) r = buildPayload lib env h (r \<lparr> r_Attrs := [(g, VGroup (r_Attrs r))] \<rparr>)"
proof -
  assume g: "g \<noteq> []"
  let ?rep = "ReplaceAttr (jh_cfg h)"
  let ?gs = "groups h"
  have one: "each (walkAttr lib ?rep ?gs (LabelsGroup \<in> set ?gs)) [(g, VGroup (r_Attrs r))]
      = in_groups [g] (each (walkAttr lib ?rep (?gs @ [g]) (LabelsGroup \<in> set (?gs @ [g]))) (r_Attrs r))"
    by (rule ext) (simp add: walk_named_group [OF g])
  have "applyRecordAttrs lib ?rep (?gs @ [g]) (r_Attrs r) = applyRecordAttrs lib ?rep ?gs [(g, VGroup (r_Attrs r))]"
    unfolding applyRecordAttrs_def one by (simp only: in_groups_append)
  then show ?thesis using g by (simp add: buildPayload_def jh_WithGroup_def)
qed

definition demo_handler :: "unit jsonHandler" where
  "demo_handler =
     newJSONHandler (base_config \<lparr>ProjectID = ''demo-project'', Labels = [], ServiceContext = [],
       Environment = RuntimeEnvUnknown\<rparr>)"

definition demo_record :: logRecord where
  "demo_record =
     \<lparr>r_Time = \<lparr>unix_ns = 0, zone = 0\<rparr>, r_Message = ''ready'', r_Level = 0, r_PC = 0,
      r_Attrs = [(''x'', VInt64 1)]\<rparr>"

definition demo_stackEnv :: stackEnv where
  "demo_stackEnv = \<lparr>frames_at = (\<lambda>_. []), goroutine = ''goroutine 1 [running]:'', callers_of = []\<rparr>"

lemma walk_int:
  "k \<noteq> [] \<Longrightarrow> k \<noteq> httpRequestKey \<Longrightarrow>
   walkAttr lib None gs False (k, VInt64 i) (m, newPayloadBuilder) = Some (mput k (GInt i) m, newPayloadBuilder)"
  by (subst walkAttr.simps)
     (simp add: http_shortcut_def normalizeAttr_def Resolve_resolved captureFirstError_def
        extractErrorFromResolved_def newPayloadBuilder_def handleLeafAttr_def put_value_def
        resolveSlogValueWithRaw.simps)

lemma demo_handler_simps:
  "ReplaceAttr (jh_cfg demo_handler) = None" "groupedAttrs demo_handler = []" "groups demo_handler = []"
  "StackTraceEnabled (jh_cfg demo_handler) = False"
  by (simp_all add: demo_handler_def newJSONHandler_def collectInitialAttrs_def cloneUngroupedAttrs_def base_config_def)

lemma demo_grouped_payload:
  "map_option bp_payload (buildPayload lib demo_stackEnv (jh_WithGroup ''g'' demo_handler) demo_record)
     = Some [(''g'', GMap [(''x'', GInt 1)])]"
  by (simp add: buildPayload_def jh_WithGroup_def demo_handler_simps applyBaseAttrs_def applyRecordAttrs_def
      demo_record_def LabelsGroup_def in_group_def group_map_def walk_int httpRequestKey_def
      finish_build_def resolveErrorAndStack_def shouldCaptureStack_def newPayloadBuilder_def [symmetric]
      split: prod.split)

theorem WithGroup_nests_witness:
  "map_option bp_payload
     (buildPayload demo_lib demo_stackEnv demo_handler (demo_record \<lparr> r_Attrs := [(''g'', VGroup (r_Attrs demo_record))] \<rparr>))
     = Some [(''g'', GMap [(''x'', GInt 1)])]"
  using WithGroup_nests [of "''g''" demo_lib demo_stackEnv demo_handler demo_record] demo_grouped_payload [of demo_lib] by simp

text \<open>
  Attributes attached to a handler are the same as attributes that every record
  begins with, in the groups the handler had when they were attached.
\<close>

theorem WithAttrs_prepends:
  "buildPayload lib env (jh_WithAttrs attrs h) r = buildPayload lib env h (r \<lparr> r_Attrs := attrs @ r_Attrs r \<rparr>)"
proof -
  let ?rep = "ReplaceAttr (jh_cfg h)"
  let ?gs = "groups h"
  let ?walk = "walkAttr lib ?rep ?gs (LabelsGroup \<in> set ?gs)"
  let ?base = "map (\<lambda>a. \<lparr>ga_groups = ?gs, ga_attr = a\<rparr>) attrs"
  have each_map: "applyBaseAttrs lib ?rep ?base st = each (\<lambda>a. in_groups ?gs (?walk a)) attrs st" for st
    by (simp add: applyBaseAttrs_def each_map)
  have "Option.bind (applyBaseAttrs lib ?rep (groupedAttrs h @ ?base) st) (applyRecordAttrs lib ?rep ?gs (r_Attrs r))
      = Option.bind (applyBaseAttrs lib ?rep (groupedAttrs h) st)
          (\<lambda>s. Option.bind (applyBaseAttrs lib ?rep ?base s) (applyRecordAttrs lib ?rep ?gs (r_Attrs r)))" for st
    by (simp add: applyBaseAttrs_def each_append Option.bind_assoc)
  also have "\<dots> st = Option.bind (applyBaseAttrs lib ?rep (groupedAttrs h) st)
      (applyRecordAttrs lib ?rep ?gs (attrs @ r_Attrs r))" for st
    by (simp add: each_map applyRecordAttrs_def in_groups_each each_append [abs_def])
  finally show ?thesis by (simp add: buildPayload_def jh_WithAttrs_def)
qed

section \<open>The walk ends\<close>

definition non_growing :: "replacer \<Rightarrow> bool" where
  "non_growing f \<longleftrightarrow> (\<forall>gs a. size (snd (f gs a)) \<le> size (snd a))"

definition settled :: "replacer option \<Rightarrow> bool" where
  "settled replace = (case replace of None \<Rightarrow> True | Some f \<Rightarrow> non_growing f)"

lemma in_group_total: "(\<And>s. body s \<noteq> None) \<Longrightarrow> in_group k body st \<noteq> None"
  by (auto simp: in_group_def bind_eq_None_conv simp del: not_None_eq)

lemma in_groups_total: "(\<And>s. body s \<noteq> None) \<Longrightarrow> in_groups gs body st \<noteq> None"
  by (induction gs arbitrary: st) (simp_all add: in_group_total del: not_None_eq)

lemma walkGroupAttr_total:
  assumes "\<And>gs b a s. a \<in> set children \<Longrightarrow> walk gs b a s \<noteq> None"
  shows "walkGroupAttr walk gs inLabels key children st \<noteq> None"
  unfolding walkGroupAttr_def using assms
  by (cases "key = []"; cases "key = LabelsGroup") (simp_all add: in_group_total each_total)

lemma normalizeAttr_size:
  assumes "settled replace" and "normalizeAttr lib replace gs attr pb = (attr', raw, pb')"
  shows "size (snd attr') \<le> size (snd attr)"
proof (cases replace)
  case None
  then show ?thesis using assms(2) by (auto simp: normalizeAttr_def Let_def Resolve_size)
next
  case (Some f)
  let ?a = "f gs (fst attr, Resolve lib (snd attr))"
  have "size (snd ?a) \<le> size (Resolve lib (snd attr))"
    using assms(1) Some by (simp add: settled_def non_growing_def)
  then have "size (Resolve lib (snd ?a)) \<le> size (snd attr)"
    using Resolve_size le_trans by blast
  then show ?thesis
    using assms(2) Some by (auto simp: normalizeAttr_def Let_def Resolve_size split: if_splits)
qed

lemma walkAttr_total:
  "settled replace \<Longrightarrow> walkAttr lib replace gs inLabels attr st \<noteq> None"
proof (induction "size (snd attr)" arbitrary: gs inLabels attr st rule: less_induct)
  case less
  obtain taken pb where short: "http_shortcut lib replace attr (snd st) = (taken, pb)" by fastforce
  obtain attr' raw pb' where norm: "normalizeAttr lib replace gs attr pb = (attr', raw, pb')"
    by (metis prod_cases3)
  have sub: "walkGroupAttr (walkAttr lib replace) gs inLabels (fst attr') children (fst st, pb') \<noteq> None"
    if group: "snd attr' = VGroup children" for children
  proof (rule walkGroupAttr_total)
    fix gs b a s assume "a \<in> set children"
    then have "size (snd a) < size (snd attr)"
      using size_attr [of "fst a" "snd a" children] group
        normalizeAttr_size [OF less.prems norm] by simp
    then show "walkAttr lib replace gs b a s \<noteq> None" using less.hyps less.prems by blast
  qed
  show ?case
    by (subst walkAttr.simps) (cases "snd attr'"; simp add: short norm sub del: not_None_eq)
qed


definition redact :: replacer where
  "redact gs a = (if fst a = ''password'' then (fst a, VBool True) else a)"

lemma redact_shrinks: "non_growing redact"
  by (auto simp: non_growing_def redact_def)


section \<open>No empty groups\<close>

text \<open>What a payload says: its values that are not maps, with their paths, in order.\<close>

fun leaves :: "gostring list \<Rightarrow> goany gomap \<Rightarrow> (gostring list \<times> goany) list" where
  "leaves p [] = []"
| "leaves p ((k, v) # m) =
     (case v of
        GMap c \<Rightarrow> leaves (p @ [k]) c
      | GStringMap s \<Rightarrow> if s = [] then [] else [(p @ [k], v)]
      | _ \<Rightarrow> [(p @ [k], v)]) @ leaves p m"

fun no_empty_map :: "goany gomap \<Rightarrow> bool" where
  "no_empty_map [] = True"
| "no_empty_map ((k, v) # m) =
     ((case v of
         GMap c \<Rightarrow> c \<noteq> [] \<and> no_empty_map c
       | GStringMap s \<Rightarrow> s \<noteq> []
       | _ \<Rightarrow> True) \<and> no_empty_map m)"

text \<open>
  Pruning removes every empty map at every depth, maps that become empty by it
  included, and nothing else: each value stays at its path, in its place.
\<close>

theorem pruneEmptyMaps_exact:
  "no_empty_map (pruneEmptyMaps m) \<and> leaves p (pruneEmptyMaps m) = leaves p m"
proof (induction m arbitrary: p rule: pruneEmptyMaps.induct)
  case (2 k v m)
  show ?case
  proof (cases v)
    case (GMap c)
    have rest: "no_empty_map (pruneEmptyMaps m)" "leaves p (pruneEmptyMaps m) = leaves p m"
      using 2(8) [OF GMap refl] 2(9) [OF GMap refl] by (cases "pruneEmptyMaps c = []"; blast)+
    have sub: "no_empty_map (pruneEmptyMaps c)" "leaves (p @ [k]) (pruneEmptyMaps c) = leaves (p @ [k]) c"
      using 2(7) GMap by auto
    show ?thesis
      using rest sub GMap by (cases "pruneEmptyMaps c = []") (simp_all add: Let_def)
  qed (use 2 in \<open>auto\<close>)
qed simp

end
