(* ===== verification/JsonEmit.thy ===== *)
theory JsonEmit
  imports JsonPayload PayloadFacts
begin

text \<open>
  What the JSON handler does with a built payload: the Cloud Logging fields of
  \<^verbatim>\<open>emitEntry\<close>, the entry of \<^verbatim>\<open>exporter.go\<close>, and the encoding with its one retry.

  \<^verbatim>\<open>encoding/json/v2\<close>, the destination and the exporter are outside: \<open>emitEnv\<close> holds
  what a marshal of a value returns, the error a write or an export returns, and the runtime's
  answers. What the retry relies on is the hypothesis \<open>json_laws\<close>: a map encodes exactly when
  every value of it does, and a string always encodes.
\<close>

section \<open>The world around the handler\<close>

record Entry =
  e_Payload :: "goany gomap"
  e_Timestamp :: "gotime option"
  e_Level :: level
  e_Severity :: gostring
  e_Trace :: gostring
  e_SpanID :: gostring
  e_TraceSampled :: bool
  e_Labels :: "gostring gomap"
  e_SourceLocation :: "sourceLocation option"
  e_HTTPRequest :: "goany gomap option"

record emitEnv =
  json_marshal :: "goany \<Rightarrow> gostring + gostring"
  write_error :: "gostring \<Rightarrow> gostring option"
  export_error :: "Entry \<Rightarrow> gostring option"
  record_source :: "logRecord \<Rightarrow> sourceLocation option"
  frame_of_pc :: "nat \<Rightarrow> Frame"
  stacks :: stackEnv
  api_of :: otel
  lib_of :: golib

text \<open>Lines written, entries exported, messages to the internal logger, one-time warnings given.\<close>

record emitState =
  written :: "gostring list"
  exported :: "Entry list"
  internal_log :: diagnostics
  warnings :: "traceDiagnostics option"

definition isr :: "'a + 'b \<Rightarrow> bool" where
  "isr x = (case x of Inl _ \<Rightarrow> False | Inr _ \<Rightarrow> True)"

definition json_laws :: "(goany \<Rightarrow> gostring + gostring) \<Rightarrow> bool" where
  "json_laws marshal \<longleftrightarrow>
     (\<forall>m. isr (marshal (GMap m)) \<longleftrightarrow> (\<forall>e \<in> set m. isr (marshal (snd e)))) \<and>
     (\<forall>s. isr (marshal (GString s)))"

section \<open>Fields\<close>

definition jh_Enabled :: "level \<Rightarrow> level \<Rightarrow> bool" where
  "jh_Enabled minLevel level \<longleftrightarrow> minLevel \<le> level"

definition frame_source :: "emitEnv \<Rightarrow> logRecord \<Rightarrow> sourceLocation option" where
  "frame_source env r =
     (let frame = frame_of_pc env (r_PC r)
      in if r_PC r = 0 \<or> Function frame = [] then None
         else Some \<lparr>sl_File = Frame.File frame, sl_Line = Line frame, sl_Function = Function frame\<rparr>)"

definition resolveSourceLocation :: "emitEnv \<Rightarrow> 'h handlerConfig \<Rightarrow> logRecord \<Rightarrow> sourceLocation option" where
  "resolveSourceLocation env cfg r =
     (if \<not> AddSource cfg then None
      else case record_source env r of
             Some src \<Rightarrow>
               if sl_Function src \<noteq> [] \<or> sl_File src \<noteq> [] then Some src else frame_source env r
           | None \<Rightarrow> frame_source env r)"

definition applySeverityAndTime :: "'h handlerConfig \<Rightarrow> logRecord \<Rightarrow> goany gomap \<Rightarrow> goany gomap" where
  "applySeverityAndTime cfg r p =
     (let p = mput ''severity'' (GString (severityString (r_Level r) (UseShortSeverityNames cfg))) p
      in if EmitTimeField cfg then mput ''time'' (GString (UTC_Format_RFC3339Nano (r_Time r))) p else p)"

definition sourceLocationKey :: gostring where
  "sourceLocationKey = ''logging.googleapis.com/sourceLocation''"

definition applySourceLocation :: "sourceLocation option \<Rightarrow> goany gomap \<Rightarrow> goany gomap" where
  "applySourceLocation src p = (case src of None \<Rightarrow> p | Some s \<Rightarrow> mput sourceLocationKey (GSource s) p)"

text \<open>The trace of the record's context: formatted name, raw IDs, ownership, sampling.\<close>

record traceFields =
  tf_fmt :: gostring
  tf_raw :: gostring
  tf_span :: gostring
  tf_owns :: bool
  tf_sampled :: bool

definition applyCloudTrace :: "gostring \<Rightarrow> traceFields \<Rightarrow> goany gomap \<Rightarrow> goany gomap" where
  "applyCloudTrace traceID t p =
     (let p = mput TraceKey (GString traceID) p;
          p = (if tf_owns t \<and> tf_span t \<noteq> [] then mput SpanKey (GString (tf_span t)) p else p)
      in mput SampledKey (GBool (tf_sampled t)) p)"

definition applyUnknownProjectTrace :: "traceFields \<Rightarrow> goany gomap \<Rightarrow> goany gomap" where
  "applyUnknownProjectTrace t p =
     mput ''otel.trace_sampled'' (GBool (tf_sampled t))
       (mput ''otel.span_id'' (GString (tf_span t))
          (mput ''otel.trace_id'' (GString (tf_raw t)) p))"

text \<open>The payload and whether the unknown-project warning is due.\<close>

definition applyTrace :: "'h handlerConfig \<Rightarrow> traceFields \<Rightarrow> goany gomap \<Rightarrow> goany gomap \<times> bool" where
  "applyTrace cfg t p =
     (if tf_fmt t \<noteq> [] then (applyCloudTrace (tf_fmt t) t p, False)
      else if tf_raw t \<noteq> [] \<and> traceAllowAutoformat cfg then (applyCloudTrace (tf_raw t) t p, False)
      else if tf_raw t \<noteq> [] then (applyUnknownProjectTrace t p, True)
      else (p, False))"

definition applyErrorFields ::
  "gostring \<Rightarrow> gostring \<Rightarrow> gostring \<Rightarrow> gostring \<Rightarrow> goany gomap \<Rightarrow> gostring \<times> goany gomap" where
  "applyErrorFields message errType errMsg stack p =
     (let (message, p) =
            (if errType \<noteq> [] then (message @ '': '' @ errMsg, mput ''error_type'' (GString errType) p)
             else (message, p))
      in (message, if stack \<noteq> [] then mput ''stack_trace'' (GString stack) p else p))"

definition applyServiceContext :: "'h handlerConfig \<Rightarrow> goany gomap \<Rightarrow> goany gomap" where
  "applyServiceContext cfg p =
     (case runtimeServiceContext cfg of
        None \<Rightarrow> p
      | Some ctx \<Rightarrow>
          if ctx = [] then p
          else if map_of p ''serviceContext'' \<noteq> None then p
          else case runtimeServiceContextAny cfg of
                 Some any_ctx \<Rightarrow> mput ''serviceContext'' (GMap any_ctx) p
               | None \<Rightarrow> mput ''serviceContext'' (GMap (override (stringMapToAny ctx) [])) p)"

definition applyHTTPRequest :: "golib \<Rightarrow> HTTPRequest option \<Rightarrow> goany gomap \<Rightarrow> goany gomap" where
  "applyHTTPRequest lib req p =
     (case flattenHTTPRequestToMap lib req of
        None \<Rightarrow> p
      | Some m \<Rightarrow> mput httpRequestKey (GHTTPPayload m) p)"

definition applyLabels :: "gostring gomap option \<Rightarrow> goany gomap \<Rightarrow> goany gomap" where
  "applyLabels labels p =
     (case labels of
        None \<Rightarrow> p
      | Some m \<Rightarrow> if m = [] then p else mput LabelsGroup (GStringMap m) p)"

text \<open>The enrichment of \<^verbatim>\<open>emitEntry\<close>, in its order.\<close>

definition enrich ::
  "golib \<Rightarrow> 'h handlerConfig \<Rightarrow> logRecord \<Rightarrow> sourceLocation option \<Rightarrow> traceFields \<Rightarrow> builtPayload
     \<Rightarrow> goany gomap \<times> bool" where
  "enrich lib cfg r src t b =
     (let p = applyLabels (bp_labels b) (bp_payload b);
          p = applySourceLocation src (applySeverityAndTime cfg r p);
          (p, warn) = applyTrace cfg t p;
          (message, p) = applyErrorFields (r_Message r) (bp_errType b) (bp_errMsg b) (bp_stack b) p;
          p = mput ''message'' (GString message) p
      in (applyHTTPRequest lib (bp_httpReq b) (applyServiceContext cfg p), warn))"

section \<open>Exported entries\<close>

definition takeEntryField ::
  "(goany \<Rightarrow> 'a option) \<Rightarrow> gostring \<Rightarrow> goany gomap \<Rightarrow> 'a option \<times> goany gomap" where
  "takeEntryField as key payload =
     (case Option.bind (map_of payload key) as of
        Some v \<Rightarrow> (Some v, mdel key payload)
      | None \<Rightarrow> (None, payload))"

definition as_string :: "goany \<Rightarrow> gostring option" where
  "as_string v = (case v of GString s \<Rightarrow> Some s | _ \<Rightarrow> None)"
definition as_bool :: "goany \<Rightarrow> bool option" where
  "as_bool v = (case v of GBool b \<Rightarrow> Some b | _ \<Rightarrow> None)"
definition as_string_map :: "goany \<Rightarrow> gostring gomap option" where
  "as_string_map v = (case v of GStringMap m \<Rightarrow> Some m | _ \<Rightarrow> None)"
definition as_source :: "goany \<Rightarrow> sourceLocation option" where
  "as_source v = (case v of GSource s \<Rightarrow> Some s | _ \<Rightarrow> None)"

text \<open>An \<^verbatim>\<open>httpRequest\<close> payload or a plain map.\<close>

definition as_request :: "goany \<Rightarrow> goany gomap option" where
  "as_request v = (case v of GHTTPPayload p \<Rightarrow> Some (payload_map p) | GMap m \<Rightarrow> Some m | _ \<Rightarrow> None)"

definition exportEntry :: "'h handlerConfig \<Rightarrow> logRecord \<Rightarrow> goany gomap \<Rightarrow> Entry" where
  "exportEntry cfg r payload =
     (let (trace, p) = takeEntryField as_string TraceKey payload;
          (span, p) = takeEntryField as_string SpanKey p;
          (sampled, p) = takeEntryField as_bool SampledKey p;
          (labels, p) = takeEntryField as_string_map LabelsGroup p;
          (src, p) = takeEntryField as_source sourceLocationKey p;
          (req, p) = takeEntryField as_request httpRequestKey p;
          p = mdel ''severity'' p;
          p = (if EmitTimeField cfg then mdel ''time'' p else p)
      in \<lparr>e_Payload = p, e_Timestamp = (if EmitTimeField cfg then Some (r_Time r) else None),
          e_Level = r_Level r, e_Severity = severityString (r_Level r) False,
          e_Trace = override trace [], e_SpanID = override span [],
          e_TraceSampled = override sampled False, e_Labels = override labels [],
          e_SourceLocation = src, e_HTTPRequest = req\<rparr>)"

section \<open>Writing\<close>

definition encodeJSONLine :: "(goany \<Rightarrow> gostring + gostring) \<Rightarrow> goany gomap \<Rightarrow> gostring + gostring" where
  "encodeJSONLine marshal payload =
     (case marshal (GMap payload) of
        Inl e \<Rightarrow> Inl (''marshal JSON log entry: '' @ e)
      | Inr bytes \<Rightarrow> Inr (bytes @ nl))"

definition encodeErrorPlaceholder :: "gostring \<Rightarrow> gostring" where
  "encodeErrorPlaceholder err = ''!ERROR:'' @ err"

definition sanitize_field :: "(goany \<Rightarrow> gostring + gostring) \<Rightarrow> goany \<Rightarrow> goany" where
  "sanitize_field marshal v =
     (case marshal v of Inl e \<Rightarrow> GString (encodeErrorPlaceholder e) | Inr _ \<Rightarrow> v)"

text \<open>Whether a field was replaced, and the payload after it.\<close>

definition sanitizeTopLevelJSONValues ::
  "(goany \<Rightarrow> gostring + gostring) \<Rightarrow> goany gomap \<Rightarrow> bool \<times> goany gomap" where
  "sanitizeTopLevelJSONValues marshal payload =
     (list_ex (\<lambda>e. \<not> isr (marshal (snd e))) payload,
      map (\<lambda>(k, v). (k, sanitize_field marshal v)) payload)"

definition log_internal :: "gostring \<Rightarrow> emitState \<Rightarrow> emitState" where
  "log_internal msg st = st \<lparr> internal_log := internal_log st @ [msg] \<rparr>"

definition write_line :: "emitEnv \<Rightarrow> gostring \<Rightarrow> emitState \<Rightarrow> gostring option \<times> emitState" where
  "write_line env line st =
     (let st = st \<lparr> written := written st @ [line] \<rparr>
      in case write_error env line of
           None \<Rightarrow> (None, st)
         | Some e \<Rightarrow> (Some (''write JSON payload: '' @ e), log_internal ''failed to write JSON log entry'' st))"

definition writeJSONPayload ::
  "emitEnv \<Rightarrow> goany gomap \<Rightarrow> emitState \<Rightarrow> gostring option \<times> emitState" where
  "writeJSONPayload env payload st =
     (case encodeJSONLine (json_marshal env) payload of
        Inr line \<Rightarrow> write_line env line st
      | Inl e \<Rightarrow>
          (case sanitizeTopLevelJSONValues (json_marshal env) payload of (sanitized, payload') \<Rightarrow>
             (case encodeJSONLine (json_marshal env) payload' of
                Inl e' \<Rightarrow> (Some (''encode JSON payload after retry: '' @ e'),
                           log_internal ''failed to render JSON log entry'' st)
              | Inr line \<Rightarrow>
                  write_line env line
                    (log_internal (if sanitized
                       then ''failed to render one or more JSON fields; replaced unsupported values''
                       else ''failed to render JSON log entry'') st))))"

definition emitEntry ::
  "emitEnv \<Rightarrow> 'h handlerConfig \<Rightarrow> logRecord \<Rightarrow> sourceLocation option \<Rightarrow> traceFields \<Rightarrow> builtPayload
     \<Rightarrow> emitState \<Rightarrow> gostring option \<times> emitState" where
  "emitEntry env cfg r src t b st =
     (if Writer cfg = None then (Some ''slogcp: no writer configured'', st)
      else case enrich (lib_of env) cfg r src t b of (p, warn) \<Rightarrow>
        (let st = (if warn
                   then (case warnUnknownProject (warnings st) of (d, td) \<Rightarrow>
                           st \<lparr> internal_log := internal_log st @ d, warnings := td \<rparr>)
                   else st)
         in if has_exporter cfg
            then (let e = exportEntry cfg r p; st = st \<lparr> exported := exported st @ [e] \<rparr>
                  in case export_error env e of
                       Some err \<Rightarrow> (Some (''slogcp: export entry: '' @ err), st)
                     | None \<Rightarrow> (None, st))
            else writeJSONPayload env p st))"

definition trace_of :: "emitEnv \<Rightarrow> 'h handlerConfig \<Rightarrow> ('x goctx_scheme) option \<Rightarrow> traceFields" where
  "trace_of env cfg ctx =
     (case ExtractTraceSpan (api_of env) ctx (TraceProjectID cfg) of
        (fmtTrace, raw, span, sampled, sc) \<Rightarrow>
          \<lparr>tf_fmt = fmtTrace, tf_raw = raw, tf_span = span,
           tf_owns = (IsValid (api_of env) sc \<and> \<not> Remote sc), tf_sampled = sampled\<rparr>)"

text \<open>\<^verbatim>\<open>jsonHandler.Handle\<close>: an error or nil, and the new state; \<open>None\<close> does not return.\<close>

definition jh_Handle ::
  "emitEnv \<Rightarrow> level \<Rightarrow> 'h jsonHandler \<Rightarrow> ('x goctx_scheme) option \<Rightarrow> logRecord \<Rightarrow> emitState
     \<Rightarrow> (gostring option \<times> emitState) option" where
  "jh_Handle env minLevel h ctx r st =
     (if \<not> jh_Enabled minLevel (r_Level r) then Some (None, st)
      else map_option
             (\<lambda>b. emitEntry env (jh_cfg h) r (resolveSourceLocation env (jh_cfg h) r)
                    (trace_of env (jh_cfg h) ctx) b st)
             (buildPayload (lib_of env) (stacks env) h r))"

section \<open>The standard fields\<close>

lemmas field_defs =
  applyLabels_def applySeverityAndTime_def applySourceLocation_def applyTrace_def
  applyCloudTrace_def applyUnknownProjectTrace_def applyErrorFields_def applyServiceContext_def
  applyHTTPRequest_def

lemmas key_defs =
  TraceKey_def SpanKey_def SampledKey_def LabelsGroup_def sourceLocationKey_def httpRequestKey_def

lemma keep_labels [simp]: "k \<noteq> LabelsGroup \<Longrightarrow> map_of (applyLabels l p) k = map_of p k"
  by (simp add: applyLabels_def update_conv' split: option.split)

lemma keep_source [simp]: "k \<noteq> sourceLocationKey \<Longrightarrow> map_of (applySourceLocation s p) k = map_of p k"
  by (simp add: applySourceLocation_def update_conv' split: option.split)

lemma keep_context [simp]: "k \<noteq> ''serviceContext'' \<Longrightarrow> map_of (applyServiceContext c p) k = map_of p k"
  by (simp add: applyServiceContext_def update_conv' split: option.split)

lemma keep_request [simp]: "k \<noteq> httpRequestKey \<Longrightarrow> map_of (applyHTTPRequest lib q p) k = map_of p k"
  by (simp add: applyHTTPRequest_def update_conv' split: option.split)

lemma keep_errors [simp]:
  "k \<noteq> ''error_type'' \<Longrightarrow> k \<noteq> ''stack_trace'' \<Longrightarrow>
   map_of (snd (applyErrorFields m t e s p)) k = map_of p k"
  by (simp add: applyErrorFields_def update_conv')

definition trace_keys :: "gostring list" where
  "trace_keys = [TraceKey, SpanKey, SampledKey, ''otel.trace_id'', ''otel.span_id'', ''otel.trace_sampled'']"

lemma keep_trace [simp]: "k \<notin> set trace_keys \<Longrightarrow> map_of (fst (applyTrace c t p)) k = map_of p k"
  by (simp add: applyTrace_def applyCloudTrace_def applyUnknownProjectTrace_def trace_keys_def update_conv' Let_def)

definition final_message :: "logRecord \<Rightarrow> builtPayload \<Rightarrow> gostring" where
  "final_message r b =
     (if bp_errType b = [] then r_Message r else r_Message r @ '': '' @ bp_errMsg b)"

lemma enrich_expand:
  "enrich lib cfg r src t b =
     (let (p, warn) = applyTrace cfg t (applySourceLocation src (applySeverityAndTime cfg r
            (applyLabels (bp_labels b) (bp_payload b))))
      in (applyHTTPRequest lib (bp_httpReq b) (applyServiceContext cfg
            (mput ''message'' (GString (final_message r b))
               (snd (applyErrorFields (r_Message r) (bp_errType b) (bp_errMsg b) (bp_stack b) p)))), warn))"
  by (simp add: enrich_def Let_def applyErrorFields_def final_message_def split: prod.split)

lemma standard_fields:
  "map_of (fst (enrich lib cfg r src t b)) ''severity''
     = Some (GString (severityString (r_Level r) (UseShortSeverityNames cfg)))
   \<and> map_of (fst (enrich lib cfg r src t b)) ''message'' = Some (GString (final_message r b))
   \<and> (if EmitTimeField cfg
      then map_of (fst (enrich lib cfg r src t b)) ''time''
        = Some (GString (UTC_Format_RFC3339Nano (r_Time r))) else True)
   \<and> (if tf_fmt t = [] then True
      else map_of (fst (enrich lib cfg r src t b)) TraceKey = Some (GString (tf_fmt t))
         \<and> map_of (fst (enrich lib cfg r src t b)) SampledKey = Some (GBool (tf_sampled t)))"
  by (simp add: enrich_expand split_beta Let_def update_conv' key_defs trace_keys_def applySeverityAndTime_def)
     (simp add: applyTrace_def applyCloudTrace_def update_conv' Let_def key_defs)


section \<open>One unsupported value does not lose the entry\<close>

lemma sanitize_field_ok:
  "(\<And>s. isr (marshal (GString s))) \<Longrightarrow> isr (marshal (sanitize_field marshal v))"
  by (cases "marshal v") (simp_all add: sanitize_field_def isr_def)

lemma sanitized_encodes:
  "json_laws marshal \<Longrightarrow> isr (marshal (GMap (snd (sanitizeTopLevelJSONValues marshal payload))))"
  by (auto simp: json_laws_def sanitizeTopLevelJSONValues_def sanitize_field_ok)

lemma sanitize_supported:
  "\<forall>e \<in> set payload. isr (marshal (snd e)) \<Longrightarrow> snd (sanitizeTopLevelJSONValues marshal payload) = payload"
  by (induction payload) (auto simp: sanitizeTopLevelJSONValues_def sanitize_field_def isr_def split: sum.split)

lemma sanitize_map_of:
  "map_of (snd (sanitizeTopLevelJSONValues marshal payload)) k =
     map_option (sanitize_field marshal) (map_of payload k)"
  by (simp add: sanitizeTopLevelJSONValues_def map_of_map)

lemma encode_ok: "isr (marshal (GMap p)) \<Longrightarrow> \<exists>bytes. encodeJSONLine marshal p = Inr (bytes @ nl) \<and> marshal (GMap p) = Inr bytes"
  by (auto simp: encodeJSONLine_def isr_def split: sum.splits)

text \<open>
  C32. An entry is never lost to its encoding: whatever values it carries, exactly one
  line is handed to the destination, the encoding of the payload in which each top-level field
  that cannot be encoded is replaced by its placeholder and every other field is untouched.
\<close>

theorem writeJSONPayload_one_line:
  assumes "json_laws (json_marshal env)"
  shows "\<exists>bytes. json_marshal env (GMap (map (\<lambda>(k, v). (k, sanitize_field (json_marshal env) v)) payload)) = Inr bytes
    \<and> written (snd (writeJSONPayload env payload st)) = written st @ [bytes @ nl]
    \<and> fst (writeJSONPayload env payload st)
        = map_option (\<lambda>e. ''write JSON payload: '' @ e) (write_error env (bytes @ nl))"
proof -
  let ?m = "json_marshal env"
  let ?clean = "snd (sanitizeTopLevelJSONValues ?m payload)"
  have clean: "?clean = map (\<lambda>(k, v). (k, sanitize_field ?m v)) payload"
    by (simp add: sanitizeTopLevelJSONValues_def)
  obtain bytes where b: "encodeJSONLine ?m ?clean = Inr (bytes @ nl)" "?m (GMap ?clean) = Inr bytes"
    using encode_ok [where marshal = ?m and p = ?clean, OF sanitized_encodes [OF assms]] by blast
  show ?thesis
  proof (cases "isr (?m (GMap payload))")
    case True
    then have "?clean = payload"
      using assms sanitize_supported [of payload ?m] by (simp add: json_laws_def)
    then show ?thesis
      using b clean by (auto simp: writeJSONPayload_def write_line_def log_internal_def Let_def split: option.split)
  next
    case False
    then obtain e where e: "encodeJSONLine ?m payload = Inl e"
      by (auto simp: encodeJSONLine_def isr_def split: sum.splits)
    show ?thesis
      using b clean e
      by (auto simp: writeJSONPayload_def write_line_def log_internal_def Let_def split_beta split: option.split)
  qed
qed

fun encodable :: "goany \<Rightarrow> bool" where
  "encodable (GMap m) \<longleftrightarrow> list_all (\<lambda>e. encodable (snd e)) m"
| "encodable (GOther i s) \<longleftrightarrow> s \<noteq> None"
| "encodable _ \<longleftrightarrow> True"

definition demo_marshal :: "goany \<Rightarrow> gostring + gostring" where
  "demo_marshal v = (if encodable v then Inr ''{}'' else Inl ''unsupported type'')"

lemma demo_marshal_laws: "json_laws demo_marshal"
  by (simp add: json_laws_def demo_marshal_def isr_def list_all_iff)

definition demo_emitEnv :: emitEnv where
  "demo_emitEnv =
     \<lparr>json_marshal = demo_marshal, write_error = (\<lambda>_. None), export_error = (\<lambda>_. None),
      record_source = (\<lambda>_. None), frame_of_pc = sample_frame,
      stacks = \<lparr>frames_at = map sample_frame, goroutine = ''goroutine 1 [running]:'', callers_of = [4300]\<rparr>,
      api_of = w3c, lib_of = demo_lib\<rparr>"

definition demo_emitState :: emitState where
  "demo_emitState = \<lparr>written = [], exported = [], internal_log = [], warnings = None\<rparr>"

theorem writeJSONPayload_one_line_witness:
  "written (snd (writeJSONPayload demo_emitEnv [(''a'', GOther 1 None), (''b'', GInt 2)] demo_emitState))
     = [''{}'' @ nl]"
proof -
  have laws: "json_laws (json_marshal demo_emitEnv)" by (simp add: demo_emitEnv_def demo_marshal_laws)
  show ?thesis
    using writeJSONPayload_one_line [OF laws, of "[(''a'', GOther 1 None), (''b'', GInt 2)]" demo_emitState]
    by (auto simp: demo_emitEnv_def demo_marshal_def demo_emitState_def sanitize_field_def)
qed

section \<open>Exported entries partition the payload\<close>

lemma take_field:
  "fst (takeEntryField as key p) = Option.bind (map_of p key) as"
  "map_of (snd (takeEntryField as key p)) key =
     (if Option.bind (map_of p key) as = None then map_of p key else None)"
  "k \<noteq> key \<Longrightarrow> map_of (snd (takeEntryField as key p)) k = map_of p k"
  by (auto simp: takeEntryField_def delete_conv' split: option.split)

lemma exportEntry_fields:
  "e_Trace (exportEntry cfg r p) = override (Option.bind (map_of p TraceKey) as_string) []"
  "e_SpanID (exportEntry cfg r p) = override (Option.bind (map_of p SpanKey) as_string) []"
  "e_TraceSampled (exportEntry cfg r p) = override (Option.bind (map_of p SampledKey) as_bool) False"
  "e_Labels (exportEntry cfg r p) = override (Option.bind (map_of p LabelsGroup) as_string_map) []"
  "e_SourceLocation (exportEntry cfg r p) = Option.bind (map_of p sourceLocationKey) as_source"
  "e_HTTPRequest (exportEntry cfg r p) = Option.bind (map_of p httpRequestKey) as_request"
  by (simp_all add: exportEntry_def split_beta Let_def take_field key_defs)

definition taken :: "goany gomap \<Rightarrow> gostring \<Rightarrow> (goany \<Rightarrow> 'a option) \<Rightarrow> gostring \<Rightarrow> bool" where
  "taken p key as k \<longleftrightarrow> k = key \<and> Option.bind (map_of p key) as \<noteq> None"

lemma map_of_take:
  "map_of (snd (takeEntryField as key p)) k = (if taken p key as k then None else map_of p k)"
  by (cases "k = key") (simp_all add: taken_def take_field)

lemma taken_other: "map_of q key = map_of p key \<Longrightarrow> taken q key as k = taken p key as k"
  by (simp add: taken_def)

text \<open>
  Exporting separates metadata from payload without losing or duplicating anything:
  a trace name, span, sampling flag, label map, source location or request that has its
  expected type moves to its field of the entry and leaves the payload, a value of another type
  at such a key stays, and every other field of the payload is unchanged.
\<close>

theorem exportEntry_partition:
  "e_Trace (exportEntry cfg r p) = override (Option.bind (map_of p TraceKey) as_string) []
   \<and> e_SpanID (exportEntry cfg r p) = override (Option.bind (map_of p SpanKey) as_string) []
   \<and> e_TraceSampled (exportEntry cfg r p) = override (Option.bind (map_of p SampledKey) as_bool) False
   \<and> e_Labels (exportEntry cfg r p) = override (Option.bind (map_of p LabelsGroup) as_string_map) []
   \<and> e_SourceLocation (exportEntry cfg r p) = Option.bind (map_of p sourceLocationKey) as_source
   \<and> e_HTTPRequest (exportEntry cfg r p) = Option.bind (map_of p httpRequestKey) as_request
   \<and> map_of (e_Payload (exportEntry cfg r p)) k =
       (if k = ''severity'' \<or> (k = ''time'' \<and> EmitTimeField cfg)
          \<or> taken p TraceKey as_string k \<or> taken p SpanKey as_string k \<or> taken p SampledKey as_bool k
          \<or> taken p LabelsGroup as_string_map k \<or> taken p sourceLocationKey as_source k
          \<or> taken p httpRequestKey as_request k
        then None else map_of p k)"
proof -
  define p1 where "p1 = snd (takeEntryField as_string TraceKey p)"
  define p2 where "p2 = snd (takeEntryField as_string SpanKey p1)"
  define p3 where "p3 = snd (takeEntryField as_bool SampledKey p2)"
  define p4 where "p4 = snd (takeEntryField as_string_map LabelsGroup p3)"
  define p5 where "p5 = snd (takeEntryField as_source sourceLocationKey p4)"
  define p6 where "p6 = snd (takeEntryField as_request httpRequestKey p5)"
  note chain = p1_def p2_def p3_def p4_def p5_def p6_def
  have same: "map_of p1 SpanKey = map_of p SpanKey" "map_of p2 SampledKey = map_of p SampledKey"
    "map_of p3 LabelsGroup = map_of p LabelsGroup"
    "map_of p4 sourceLocationKey = map_of p sourceLocationKey"
    "map_of p5 httpRequestKey = map_of p httpRequestKey"
    by (simp_all add: chain take_field key_defs)
  have "map_of p6 k =
      (if taken p TraceKey as_string k \<or> taken p SpanKey as_string k \<or> taken p SampledKey as_bool k
          \<or> taken p LabelsGroup as_string_map k \<or> taken p sourceLocationKey as_source k
          \<or> taken p httpRequestKey as_request k then None else map_of p k)"
    unfolding p6_def map_of_take taken_other [OF same(5)] unfolding p5_def map_of_take taken_other [OF same(4)]
    unfolding p4_def map_of_take taken_other [OF same(3)] unfolding p3_def map_of_take taken_other [OF same(2)]
    unfolding p2_def map_of_take taken_other [OF same(1)] unfolding p1_def map_of_take
    by simp
  moreover have "e_Payload (exportEntry cfg r p) =
      (if EmitTimeField cfg then mdel ''time'' (mdel ''severity'' p6) else mdel ''severity'' p6)"
    by (simp add: exportEntry_def chain split_beta Let_def)
  ultimately have "map_of (e_Payload (exportEntry cfg r p)) k =
       (if k = ''severity'' \<or> (k = ''time'' \<and> EmitTimeField cfg)
          \<or> taken p TraceKey as_string k \<or> taken p SpanKey as_string k \<or> taken p SampledKey as_bool k
          \<or> taken p LabelsGroup as_string_map k \<or> taken p sourceLocationKey as_source k
          \<or> taken p httpRequestKey as_request k
        then None else map_of p k)"
    by (simp add: delete_conv')
  then show ?thesis by (simp only: exportEntry_fields simp_thms)
qed

end
