(* ===== verification/PayloadTypes.thy ===== *)
theory PayloadTypes
  imports JsonEmit
begin

text \<open>
  The type invariant of payloads. A map of the program holds one value per key; the model's
  association lists do so when their keys are distinct at every depth. Every operation of the
  payload builder and of \<^verbatim>\<open>emitEntry\<close> keeps that, so that no JSON object of an entry has two
  members of one name.
\<close>

section \<open>Well-formed values\<close>

fun wf_any :: "goany \<Rightarrow> bool" where
  "wf_any (GMap m) = (distinct (map fst m) \<and> list_all (\<lambda>e. wf_any (snd e)) m)"
| "wf_any (GStringMap m) = distinct (map fst m)"
| "wf_any _ = True"

definition wf_map :: "goany gomap \<Rightarrow> bool" where
  "wf_map m \<longleftrightarrow> wf_any (GMap m)"

fun wf_value :: "slogValue \<Rightarrow> bool" and wf_valuer :: "logValuer \<Rightarrow> bool" where
  "wf_value (VAny a) = wf_any a"
| "wf_value (VGroup as) = list_all (\<lambda>a. wf_value (snd a)) as"
| "wf_value (VLogValuer lv) = wf_valuer lv"
| "wf_value _ = True"
| "wf_valuer (LVReturns t v) = wf_value v"
| "wf_valuer _ = True"

abbreviation wf_attr :: "slogAttr \<Rightarrow> bool" where
  "wf_attr a \<equiv> wf_value (snd a)"

definition wf_replacer :: "replacer option \<Rightarrow> bool" where
  "wf_replacer replace \<longleftrightarrow>
     (case replace of None \<Rightarrow> True | Some f \<Rightarrow> \<forall>gs a. wf_attr a \<longrightarrow> wf_attr (f gs a))"

definition wf_config :: "'h handlerConfig \<Rightarrow> bool" where
  "wf_config cfg \<longleftrightarrow>
     wf_replacer (ReplaceAttr cfg) \<and>
     (case runtimeServiceContext cfg of None \<Rightarrow> True | Some m \<Rightarrow> distinct (map fst m)) \<and>
     (case runtimeServiceContextAny cfg of None \<Rightarrow> True | Some m \<Rightarrow> wf_map m)"

definition wf_handler :: "'h jsonHandler \<Rightarrow> bool" where
  "wf_handler h \<longleftrightarrow> wf_config (jh_cfg h) \<and> (\<forall>ga \<in> set (groupedAttrs h). wf_attr (ga_attr ga))"

section \<open>Maps\<close>

lemma wf_map_Nil [simp]: "wf_map []"
  by (simp add: wf_map_def)

lemma keys_mput: "distinct (map fst m) \<Longrightarrow> distinct (map fst (mput k v m))"
  by (rule distinct_update)

lemma wf_mput [simp]: "wf_map m \<Longrightarrow> wf_any v \<Longrightarrow> wf_map (mput k v m)"
  using set_mput_subset [of k v m] by (auto simp: wf_map_def keys_mput list_all_iff)

lemma wf_lookup: "wf_map m \<Longrightarrow> map_of m k = Some v \<Longrightarrow> wf_any v"
  by (auto simp: wf_map_def list_all_iff dest!: map_of_SomeD)

lemma wf_group_map: "wf_map m \<Longrightarrow> wf_map (group_map k m)"
proof (cases "map_of m k")
  case (Some v)
  assume "wf_map m"
  then have "wf_any v" using Some by (rule wf_lookup)
  then show ?thesis using Some by (cases v) (auto simp: group_map_def wf_map_def)
qed (simp add: group_map_def)

lemma keys_prune: "x \<in> fst ` set (pruneEmptyMaps m) \<Longrightarrow> x \<in> fst ` set m"
proof (induction m rule: pruneEmptyMaps.induct)
  case (2 k v m)
  have "x = k \<or> x \<in> fst ` set (pruneEmptyMaps m)"
    using "2.prems" by (cases v) (auto simp: Let_def simp del: set_map split: if_splits)
  moreover have "x \<in> fst ` set (pruneEmptyMaps m) \<Longrightarrow> x \<in> fst ` set m"
    using 2 by (cases v; cases "\<exists>c. v = GMap c \<and> pruneEmptyMaps c = []") (auto simp: Let_def)
  ultimately show ?case by auto
qed simp

lemma wf_prune: "wf_map m \<Longrightarrow> wf_map (pruneEmptyMaps m)"
proof (induction m rule: pruneEmptyMaps.induct)
  case (2 k v m)
  have tail: "wf_map m" "k \<notin> fst ` set (pruneEmptyMaps m)" "wf_any v"
    using "2.prems" keys_prune [of k m] by (auto simp: wf_map_def)
  show ?case
  proof (cases v)
    case (GMap c)
    have "wf_map c" using tail(3) GMap by (simp add: wf_map_def)
    then have "wf_map (pruneEmptyMaps c)" "wf_map (pruneEmptyMaps m)"
      using 2(7) [OF GMap] 2(8) [OF GMap refl] 2(9) [OF GMap refl] tail(1)
      by (cases "pruneEmptyMaps c = []"; blast)+
    then show ?thesis using GMap tail by (auto simp: wf_map_def Let_def)
  qed (use 2 tail in \<open>auto simp: wf_map_def\<close>)
qed simp

section \<open>Values\<close>

lemma wf_payload_map: "wf_map (payload_map p)"
  by (simp add: payload_map_def wf_map_def)

lemma wf_request_value: "wf_value (HTTPRequest_LogValue lib q)"
  using wf_payload_map
  by (auto simp: HTTPRequest_LogValue_def httpRequestPayloadValue_def wf_map_def split: option.split)

lemma wf_LogValue: "wf_valuer lv \<Longrightarrow> LogValue lib lv = Inr v \<Longrightarrow> wf_value v"
  by (cases lv) (auto simp: httpRequestLogValuer_LogValue_def wf_request_value split: option.splits)

lemma wf_resolve_loop: "wf_value v \<Longrightarrow> wf_value tooMany \<Longrightarrow> wf_value (resolve_loop lib n tooMany v)"
proof (induction n arbitrary: v)
  case (Suc n)
  show ?case
  proof (cases v)
    case (VLogValuer lv)
    have "wf_value w" if "LogValue lib lv = Inr w" for w
      using wf_LogValue [OF _ that] Suc.prems(1) VLogValuer by simp
    then show ?thesis using Suc.IH Suc.prems(2) VLogValuer by (simp split: sum.split)
  qed (use Suc.prems in auto)
qed simp

lemma wf_Resolve [simp]: "wf_value v \<Longrightarrow> wf_value (Resolve lib v)"
  by (simp add: Resolve_def wf_resolve_loop)

lemma wf_resolveAny: "wf_any a \<Longrightarrow> wf_any (resolveAnyValue a)"
  by (cases a) auto

lemma wf_put_resolved:
  "(k \<noteq> [] \<Longrightarrow> wf_any (resolveSlogValue lib v)) \<Longrightarrow> wf_map m \<Longrightarrow> wf_map (put_resolved lib (k, v) m)"
  by (simp add: put_resolved_def)

lemma wf_fold_put:
  "\<forall>a \<in> set as. fst a \<noteq> [] \<longrightarrow> wf_any (resolveSlogValue lib (snd a)) \<Longrightarrow> wf_map m \<Longrightarrow>
   wf_map (fold (put_resolved lib) as m)"
proof (induction as arbitrary: m)
  case (Cons a as)
  have "wf_map (put_resolved lib a m)"
    using Cons.prems wf_put_resolved [of "fst a" lib "snd a" m] by simp
  then show ?case using Cons.IH Cons.prems(1) by simp
qed simp

lemma resolve_leaf: "Kind v \<noteq> KindGroup \<Longrightarrow> resolveSlogValueWithRaw lib v = resolveResolvedValue v"
  by (subst resolveSlogValueWithRaw.simps) (cases v; simp)

lemma wf_leaf_value: "Kind v \<noteq> KindGroup \<Longrightarrow> wf_value v \<Longrightarrow> wf_any (resolveResolvedValue v)"
  by (cases v) (simp_all add: wf_resolveAny)

lemma wf_resolved: "wf_value v \<Longrightarrow> wf_any (resolveSlogValueWithRaw lib v)"
proof (induction lib v rule: resolveSlogValueWithRaw.induct)
  case (1 lib v)
  show ?case
  proof (cases v)
    case (VGroup as)
    have "wf_any (resolveSlogValue lib w)" if "(k, w) \<in> set as" "k \<noteq> []" for k w
      using "1.IH" [OF VGroup that(1) refl] "1.prems" VGroup that
      by (auto simp: list_all_iff resolveSlogValue_def)
    then have "wf_map (fold (put_resolved lib) as [])" by (intro wf_fold_put) auto
    then have "wf_any (resolveGroupAttrs lib as)"
      by (simp add: resolveGroupAttrs_fold Let_def wf_map_def del: wf_any.simps(1))
    then show ?thesis by (simp add: VGroup resolveGroupAttrs_def)
  qed (use "1.prems" in \<open>simp_all add: resolve_leaf wf_leaf_value del: resolveResolvedValue.simps\<close>)
qed

section \<open>The walk\<close>

text \<open>The state of the walk: the map being filled and the builder, whose labels are a map.\<close>

definition wf_walk :: "walk \<Rightarrow> bool" where
  "wf_walk st \<longleftrightarrow> wf_map (fst st) \<and>
     (case dynamicLabels (snd st) of None \<Rightarrow> True | Some m \<Rightarrow> distinct (map fst m))"

lemma wf_labels: "wf_walk (m, pb) \<Longrightarrow> wf_walk (m, addLabel lib a pb)"
  by (auto simp: wf_walk_def addLabel_def ensureLabels_def keys_mput split: option.splits)

lemma wf_request_attr: "wf_walk (m, pb) \<Longrightarrow> handleHTTPRequestAttr lib v pb = (b, pb') \<Longrightarrow> wf_walk (m, pb')"
  by (auto simp: wf_walk_def handleHTTPRequestAttr_def split: if_splits option.splits)

lemma wf_leaf: "wf_walk st \<Longrightarrow> wf_attr a \<Longrightarrow> wf_walk (handleLeafAttr lib a raw inLabels st)"
proof -
  assume st: "wf_walk st" and a: "wf_attr a"
  have put: "wf_walk (put_value k (resolveSlogValueWithRaw lib (snd a)) m, pb)" if "wf_walk (m, pb)" for k m pb
    using that wf_resolved [OF a] by (simp add: wf_walk_def put_value_def)
  show ?thesis
    using st wf_labels [of "fst st" "snd st"] wf_request_attr [of "fst st" "snd st"] put
    by (auto simp: handleLeafAttr_def split: prod.splits bool.splits if_splits)
qed

lemma wf_normalize:
  assumes "wf_replacer replace" and "wf_attr a" and "normalizeAttr lib replace gs a pb = (a', raw, pb')"
  shows "wf_attr a'" and "dynamicLabels pb' = dynamicLabels pb"
  using assms
  by (auto simp: normalizeAttr_def captureFirstError_def wf_replacer_def Let_def split: option.splits if_splits)

definition keeps_wf :: "(walk \<Rightarrow> walk option) \<Rightarrow> bool" where
  "keeps_wf f \<longleftrightarrow> (\<forall>st st'. wf_walk st \<longrightarrow> f st = Some st' \<longrightarrow> wf_walk st')"

lemma keeps_wfD: "keeps_wf f \<Longrightarrow> wf_walk st \<Longrightarrow> f st = Some st' \<Longrightarrow> wf_walk st'"
  unfolding keeps_wf_def by blast

lemma keeps_wfI: "(\<And>st st'. wf_walk st \<Longrightarrow> f st = Some st' \<Longrightarrow> wf_walk st') \<Longrightarrow> keeps_wf f"
  unfolding keeps_wf_def by blast

lemma keeps_each: "\<forall>x \<in> set xs. keeps_wf (f x) \<Longrightarrow> keeps_wf (each f xs)"
proof (induction xs)
  case (Cons x xs)
  then have ok: "keeps_wf (f x)" "keeps_wf (each f xs)" by simp_all
  show ?case
  proof (rule keeps_wfI)
    fix st st' assume st: "wf_walk st" and run: "each f (x # xs) st = Some st'"
    obtain t where "f x st = Some t" "each f xs t = Some st'" using run by (auto split: bind_splits)
    then show "wf_walk st'" using keeps_wfD [OF ok(2)] keeps_wfD [OF ok(1) st] by blast
  qed
qed (auto intro: keeps_wfI)

lemma keeps_in_group:
  assumes "keeps_wf body"
  shows "keeps_wf (in_group k body)"
proof (cases "k = []")
  case True
  then have "in_group k body = body" by (simp add: in_group_def fun_eq_iff)
  then show ?thesis using assms by simp
next
  case False
  show ?thesis
  proof (rule keeps_wfI)
    fix st st' assume st: "wf_walk st" and run: "in_group k body st = Some st'"
    obtain s' where s': "body (group_map k (fst st), snd st) = Some s'"
      "st' = (mput k (GMap (fst s')) (fst st), snd s')"
      using run False by (auto simp: in_group_def split: bind_splits)
    have "wf_walk (group_map k (fst st), snd st)" using st by (simp add: wf_walk_def wf_group_map)
    then have "wf_walk s'" by (rule keeps_wfD [OF assms _ s'(1)])
    then have "wf_map (mput k (GMap (fst s')) (fst st))"
      using st by (intro wf_mput) (simp_all add: wf_walk_def wf_map_def)
    then show "wf_walk st'" using \<open>wf_walk s'\<close> s'(2) by (simp add: wf_walk_def)
  qed
qed

lemma keeps_in_groups: "keeps_wf body \<Longrightarrow> keeps_wf (in_groups gs body)"
  by (induction gs) (auto simp: keeps_in_group)

lemma walkGroupAttr_fun:
  "walkGroupAttr walk gs inLabels key children =
     (if key = [] then each (walk gs inLabels) children
      else if key = LabelsGroup then each (walk (gs @ [key]) True) children
      else in_group key (each (walk (gs @ [key]) inLabels) children))"
  by (rule ext) (simp add: walkGroupAttr_def)

lemma wf_walkAttr:
  "walkAttr lib replace gs inLabels a st = Some st' \<Longrightarrow>
   wf_replacer replace \<longrightarrow> wf_attr a \<longrightarrow> wf_walk st \<longrightarrow> wf_walk st'"
proof (rule walkAttr.raw_induct
    [where P = "\<lambda>lib replace gs inLabels a st st'. wf_replacer replace \<longrightarrow> wf_attr a \<longrightarrow> wf_walk st \<longrightarrow> wf_walk st'"])
  fix walk lib replace gs inLabels a st st'
  assume IH: "\<And>lib replace gs inLabels a st st'. walk lib replace gs inLabels a st = Some st' \<Longrightarrow>
      wf_replacer replace \<longrightarrow> wf_attr a \<longrightarrow> wf_walk st \<longrightarrow> wf_walk st'"
    and body: "(case http_shortcut lib replace a (snd st) of (hit, pb) \<Rightarrow>
        if hit then Some (fst st, pb)
        else case normalizeAttr lib replace gs a pb of (attr', raw, pb') \<Rightarrow>
          (case snd attr' of
             VGroup children \<Rightarrow> walkGroupAttr (walk lib replace) gs inLabels (fst attr') children (fst st, pb')
           | _ \<Rightarrow> if fst attr' = [] then Some (fst st, pb')
                  else Some (handleLeafAttr lib attr' raw inLabels (fst st, pb')))) = Some st'"
  show "wf_replacer replace \<longrightarrow> wf_attr a \<longrightarrow> wf_walk st \<longrightarrow> wf_walk st'"
  proof (intro impI)
    assume ok: "wf_replacer replace" "wf_attr a" "wf_walk st"
    obtain hit pb where short: "http_shortcut lib replace a (snd st) = (hit, pb)" by fastforce
    have pb: "wf_walk (fst st, pb)"
      using short ok(3) wf_request_attr [of "fst st" "snd st"]
      by (auto simp: http_shortcut_def split: if_splits)
    show "wf_walk st'"
    proof (cases hit)
      case True
      then show ?thesis using body short pb by simp
    next
      case False
      obtain a' raw pb' where n: "normalizeAttr lib replace gs a pb = (a', raw, pb')"
        by (metis prod_cases3)
      note a' = wf_normalize [OF ok(1,2) n]
      have st1: "wf_walk (fst st, pb')" using pb a'(2) by (simp add: wf_walk_def)
      show ?thesis
      proof (cases "snd a'")
        case (VGroup children)
        have child: "keeps_wf (walk lib replace gs' b c)" if "c \<in> set children" for c gs' b
          using IH [of lib replace gs' b c] ok(1) that a'(1) VGroup
          by (intro keeps_wfI) (auto simp: list_all_iff)
        have kids: "keeps_wf (each (walk lib replace gs' b) children)" for gs' b
          using child by (intro keeps_each) blast
        have "keeps_wf (walkGroupAttr (walk lib replace) gs inLabels (fst a') children)"
          using kids keeps_in_group [OF kids] by (simp add: walkGroupAttr_fun)
        moreover have "walkGroupAttr (walk lib replace) gs inLabels (fst a') children (fst st, pb') = Some st'"
          using body short False n VGroup by simp
        ultimately show ?thesis using keeps_wfD st1 by blast
      qed (use body short False n st1 a'(1) in \<open>auto split: if_splits intro!: wf_leaf\<close>)
    qed
  qed
qed

lemma wf_walked:
  assumes "wf_handler h" and "\<forall>a \<in> set (r_Attrs r). wf_attr a"
    and "Option.bind (applyBaseAttrs lib (ReplaceAttr (jh_cfg h)) (groupedAttrs h) ([], newPayloadBuilder))
          (applyRecordAttrs lib (ReplaceAttr (jh_cfg h)) (groups h) (r_Attrs r)) = Some st"
  shows "wf_walk st"
proof -
  let ?rep = "ReplaceAttr (jh_cfg h)"
  have rep: "wf_replacer ?rep" using assms(1) by (simp add: wf_handler_def wf_config_def)
  have walk: "keeps_wf (walkAttr lib ?rep gs l a)" if "wf_attr a" for gs l a
    using wf_walkAttr [of lib ?rep gs l a] rep that by (intro keeps_wfI) blast
  have "wf_walk ([], newPayloadBuilder)" by (simp add: wf_walk_def newPayloadBuilder_def)
  moreover have "keeps_wf (applyBaseAttrs lib ?rep (groupedAttrs h))"
    unfolding applyBaseAttrs_def
    using assms(1) walk by (intro keeps_each ballI keeps_in_groups) (simp add: wf_handler_def)
  moreover have "keeps_wf (applyRecordAttrs lib ?rep (groups h) (r_Attrs r))"
    unfolding applyRecordAttrs_def using assms(2) walk by (intro keeps_in_groups keeps_each) blast
  moreover obtain st1 where "applyBaseAttrs lib ?rep (groupedAttrs h) ([], newPayloadBuilder) = Some st1"
      "applyRecordAttrs lib ?rep (groups h) (r_Attrs r) st1 = Some st"
    using assms(3) by (auto split: bind_splits)
  ultimately show ?thesis using keeps_wfD by blast
qed

lemma wf_build:
  assumes "wf_handler h" and "\<forall>a \<in> set (r_Attrs r). wf_attr a" and "buildPayload lib env h r = Some b"
  shows "wf_map (bp_payload b)"
    and "case bp_labels b of None \<Rightarrow> True | Some m \<Rightarrow> distinct (map fst m)"
proof -
  obtain st where st: "Option.bind (applyBaseAttrs lib (ReplaceAttr (jh_cfg h)) (groupedAttrs h) ([], newPayloadBuilder))
        (applyRecordAttrs lib (ReplaceAttr (jh_cfg h)) (groups h) (r_Attrs r)) = Some st"
      "b = finish_build env (jh_cfg h) (r_Level r) st"
    using assms(3) by (auto simp: buildPayload_def simp del: Option.bind_assoc)
  have "wf_walk st" by (rule wf_walked [OF assms(1,2) st(1)])
  then show "wf_map (bp_payload b)"
    "case bp_labels b of None \<Rightarrow> True | Some m \<Rightarrow> distinct (map fst m)"
    by (auto simp: st(2) finish_build_def wf_walk_def wf_prune split: prod.splits)
qed

section \<open>Entries\<close>

lemma wf_apply:
  "wf_map p \<Longrightarrow> wf_map (applySeverityAndTime cfg r p)"
  "wf_map p \<Longrightarrow> wf_map (applySourceLocation src p)"
  "wf_map p \<Longrightarrow> wf_map (fst (applyTrace cfg t p))"
  "wf_map p \<Longrightarrow> wf_map (snd (applyErrorFields m et em s p))"
  "wf_map p \<Longrightarrow> wf_map (applyHTTPRequest lib q p)"
  "wf_map p \<Longrightarrow> (case l of None \<Rightarrow> True | Some m \<Rightarrow> distinct (map fst m)) \<Longrightarrow> wf_map (applyLabels l p)"
  by (auto simp: applySeverityAndTime_def applySourceLocation_def applyTrace_def applyCloudTrace_def
      applyUnknownProjectTrace_def applyErrorFields_def applyHTTPRequest_def applyLabels_def Let_def
      split: option.splits)

lemma wf_string_map: "distinct (map fst m) \<Longrightarrow> wf_map (map (\<lambda>(k, v). (k, GString v)) m)"
  by (induction m) (auto simp: wf_map_def image_iff)

lemma wf_any_map: "wf_any (GMap m) = wf_map m"
  by (simp add: wf_map_def)

lemma wf_context: "wf_config cfg \<Longrightarrow> wf_map p \<Longrightarrow> wf_map (applyServiceContext cfg p)"
  using wf_string_map
  by (auto simp: applyServiceContext_def wf_config_def stringMapToAny_def override_def wf_any_map
      simp del: wf_any.simps(1) split: option.splits intro!: wf_mput)


definition twice_opened :: logRecord where
  "twice_opened = demo_record \<lparr> r_Attrs := [(''g'', VGroup [(''x'', VInt64 1)]), (''g'', VGroup [(''x'', VInt64 2)])] \<rparr>"


end
