(* ===== verification/PayloadStore.thy ===== *)
theory PayloadStore
  imports PayloadTypes
begin

text \<open>
  The same builder over the maps it really writes to: \<^verbatim>\<open>payloadState\<close>, the pool of
  \<^verbatim>\<open>json_handler.go\<close>, and the walk of the attributes with its maps in a store. A
  \<^verbatim>\<open>map[string]any\<close> is an address; what a map holds under a key is a value or the address
  of a map. The maps of a \<^verbatim>\<open>payloadState\<close> go from one record to the next: \<open>freeMaps\<close>
  is its stack of idle maps, \<open>usedMaps\<close> what the record being built has borrowed.

  The parameter \<open>shared\<close> says which values of attributes are maps the application keeps: it
  gives the address of the map behind a value. A literal \<open>GMap\<close> in an attribute is a map
  nobody else holds, so that it gets an address only when the walk has to write to it.
\<close>

section \<open>The store\<close>

type_synonym addr = nat

datatype cell = Val goany | Ref addr

text \<open>The memory; addresses from \<open>brk\<close> on are not in use. \<open>labels_map\<close> is the pooled label map.\<close>

record payloadState =
  mem :: "addr \<Rightarrow> cell gomap"
  brk :: addr
  root_map :: "addr option"
  labels_map :: "gostring gomap option"
  freeMaps :: "addr list"
  usedMaps :: "addr list"

definition set_map :: "addr \<Rightarrow> cell gomap \<Rightarrow> payloadState \<Rightarrow> payloadState" where
  "set_map a m s = s \<lparr> mem := (mem s)(a := m) \<rparr>"

definition put_cell :: "addr \<Rightarrow> gostring \<Rightarrow> cell \<Rightarrow> payloadState \<Rightarrow> payloadState" where
  "put_cell a k c s = set_map a (mput k c (mem s a)) s"

text \<open>\<^verbatim>\<open>make(map[string]any)\<close>.\<close>

definition make_map :: "cell gomap \<Rightarrow> payloadState \<Rightarrow> addr \<times> payloadState" where
  "make_map m s = (brk s, s \<lparr> mem := (mem s)(brk s := m), brk := Suc (brk s) \<rparr>)"

definition prepare :: "payloadState \<Rightarrow> addr \<times> payloadState" where
  "prepare s =
     (let (root, s) =
        (case root_map s of
           None \<Rightarrow> (let (a, s) = make_map [] s in (a, s \<lparr> root_map := Some a \<rparr>))
         | Some a \<Rightarrow> (a, set_map a [] s))
      in (root, s \<lparr> usedMaps := [] \<rparr>))"

definition borrowMap :: "payloadState \<Rightarrow> addr \<times> payloadState" where
  "borrowMap s =
     (let (m, s) =
        (if freeMaps s \<noteq> []
         then (let m = last (freeMaps s)
               in (m, set_map m [] (s \<lparr> freeMaps := butlast (freeMaps s) \<rparr>)))
         else make_map [] s)
      in (m, s \<lparr> usedMaps := usedMaps s @ [m] \<rparr>))"

definition obtainLabels :: "payloadState \<Rightarrow> gostring gomap \<times> payloadState" where
  "obtainLabels s = ([], s \<lparr> labels_map := Some [] \<rparr>)"

definition recycle :: "payloadState \<Rightarrow> payloadState" where
  "recycle s =
     (let s = fold (\<lambda>m s. (set_map m [] s) \<lparr> freeMaps := freeMaps s @ [m] \<rparr>) (usedMaps s) s;
          s = s \<lparr> usedMaps := [] \<rparr>;
          s = (case root_map s of None \<Rightarrow> s | Some a \<Rightarrow> set_map a [] s)
      in s \<lparr> labels_map := map_option (\<lambda>_. []) (labels_map s) \<rparr>)"

section \<open>Writing\<close>

type_synonym hwalk = "payloadState \<times> builder"
type_synonym sharing = "goany \<Rightarrow> addr option"

definition cell_of :: "sharing \<Rightarrow> goany \<Rightarrow> cell" where
  "cell_of shared v = (case shared v of Some a \<Rightarrow> Ref a | None \<Rightarrow> Val v)"

text \<open>\<^verbatim>\<open>ensureGroupMap\<close>: the child's address and the store with the child in its parent.\<close>

definition ensureGroupMap :: "gostring \<Rightarrow> addr \<Rightarrow> payloadState \<Rightarrow> addr \<times> payloadState" where
  "ensureGroupMap key parent s =
     (if key = [] then (parent, s)
      else case map_of (mem s parent) key of
             Some (Ref a) \<Rightarrow> (a, s)
           | Some (Val (GMap c)) \<Rightarrow>
               (let (a, s) = make_map (map (\<lambda>(k, v). (k, Val v)) c) s in (a, put_cell parent key (Ref a) s))
           | _ \<Rightarrow> (let (a, s) = borrowMap s in (a, put_cell parent key (Ref a) s)))"

definition st_addLabel :: "golib \<Rightarrow> slogAttr \<Rightarrow> hwalk \<Rightarrow> hwalk" where
  "st_addLabel lib attr st =
     (case labelValueToStringResolved lib (snd attr) of
        None \<Rightarrow> st
      | Some t \<Rightarrow>
          (let (labels, s) = (case dynamicLabels (snd st) of
                                None \<Rightarrow> obtainLabels (fst st)
                              | Some m \<Rightarrow> (m, fst st));
               labels = mput (fst attr) t labels
           in (s \<lparr> labels_map := Some labels \<rparr>, (snd st) \<lparr> dynamicLabels := Some labels \<rparr>)))"

definition st_handleLeafAttr ::
  "golib \<Rightarrow> sharing \<Rightarrow> slogAttr \<Rightarrow> slogValue \<Rightarrow> bool \<Rightarrow> addr \<Rightarrow> hwalk \<Rightarrow> hwalk" where
  "st_handleLeafAttr lib shared attr raw inLabels cur st =
     (if inLabels then st_addLabel lib attr st
      else case (if fst attr = httpRequestKey then handleHTTPRequestAttr lib raw (snd st)
                 else (False, snd st)) of
             (True, pb) \<Rightarrow> (fst st, pb)
           | (False, pb) \<Rightarrow>
               (let val = resolveSlogValueWithRaw lib (snd attr)
                in (if val = GNil then fst st else put_cell cur (fst attr) (cell_of shared val) (fst st), pb)))"

definition st_in_group :: "gostring \<Rightarrow> (addr \<Rightarrow> hwalk \<Rightarrow> hwalk option) \<Rightarrow> addr \<Rightarrow> hwalk \<Rightarrow> hwalk option" where
  "st_in_group key body cur st =
     (case ensureGroupMap key cur (fst st) of (a, s) \<Rightarrow> body a (s, snd st))"

lemma st_in_group_mono [partial_function_mono]:
  assumes "\<And>a s. mono_option (\<lambda>f. B f a s)"
  shows "mono_option (\<lambda>f. st_in_group key (B f) cur st)"
  unfolding st_in_group_def by (cases "ensureGroupMap key cur (fst st)") (simp add: assms)

definition st_walkGroupAttr ::
  "(gostring list \<Rightarrow> bool \<Rightarrow> addr \<Rightarrow> slogAttr \<Rightarrow> hwalk \<Rightarrow> hwalk option) \<Rightarrow> gostring list \<Rightarrow> bool
     \<Rightarrow> gostring \<Rightarrow> slogAttr list \<Rightarrow> addr \<Rightarrow> hwalk \<Rightarrow> hwalk option" where
  "st_walkGroupAttr walk gs inLabels key children cur st =
     (if key = [] then each (walk gs inLabels cur) children st
      else if key = LabelsGroup then each (walk (gs @ [key]) True cur) children st
      else st_in_group key (\<lambda>a. each (walk (gs @ [key]) inLabels a) children) cur st)"

lemma st_walkGroupAttr_mono [partial_function_mono]:
  assumes "\<And>gs b a x s. mono_option (\<lambda>f. B f gs b a x s)"
  shows "mono_option (\<lambda>f. st_walkGroupAttr (B f) gs inLabels key children cur st)"
  unfolding st_walkGroupAttr_def
  by (cases "key = []"; cases "key = LabelsGroup")
     (auto intro!: assms each_mono st_in_group_mono)

partial_function (option) st_walkAttr ::
  "golib \<Rightarrow> sharing \<Rightarrow> replacer option \<Rightarrow> gostring list \<Rightarrow> bool \<Rightarrow> addr \<Rightarrow> slogAttr \<Rightarrow> hwalk \<Rightarrow> hwalk option" where
  "st_walkAttr lib shared replace gs inLabels cur attr st =
     (case http_shortcut lib replace attr (snd st) of (hit, pb) \<Rightarrow>
        if hit then Some (fst st, pb)
        else case normalizeAttr lib replace gs attr pb of (attr', raw, pb') \<Rightarrow>
          (case snd attr' of
             VGroup children \<Rightarrow>
               st_walkGroupAttr (st_walkAttr lib shared replace) gs inLabels (fst attr') children cur (fst st, pb')
           | _ \<Rightarrow>
               if fst attr' = [] then Some (fst st, pb')
               else Some (st_handleLeafAttr lib shared attr' raw inLabels cur (fst st, pb'))))"

fun st_in_groups :: "gostring list \<Rightarrow> (addr \<Rightarrow> hwalk \<Rightarrow> hwalk option) \<Rightarrow> addr \<Rightarrow> hwalk \<Rightarrow> hwalk option" where
  "st_in_groups [] body = body"
| "st_in_groups (g # gs) body =
     (if g = LabelsGroup then st_in_groups gs body else st_in_group g (st_in_groups gs body))"

definition st_applyBaseAttrs ::
  "golib \<Rightarrow> sharing \<Rightarrow> replacer option \<Rightarrow> groupedAttr list \<Rightarrow> addr \<Rightarrow> hwalk \<Rightarrow> hwalk option" where
  "st_applyBaseAttrs lib shared replace baseAttrs root =
     each (\<lambda>ga. st_in_groups (ga_groups ga)
             (\<lambda>cur. st_walkAttr lib shared replace (ga_groups ga) (LabelsGroup \<in> set (ga_groups ga)) cur (ga_attr ga))
             root)
       baseAttrs"

definition st_applyRecordAttrs ::
  "golib \<Rightarrow> sharing \<Rightarrow> replacer option \<Rightarrow> gostring list \<Rightarrow> slogAttr list \<Rightarrow> addr \<Rightarrow> hwalk \<Rightarrow> hwalk option" where
  "st_applyRecordAttrs lib shared replace baseGroups attrs =
     st_in_groups baseGroups
       (\<lambda>cur. each (st_walkAttr lib shared replace baseGroups (LabelsGroup \<in> set baseGroups) cur) attrs)"

section \<open>Pruning in place\<close>

text \<open>One round of the loop of \<^verbatim>\<open>pruneEmptyMaps\<close> over the map at \<open>a\<close>.\<close>

definition prune_entry ::
  "(addr \<Rightarrow> payloadState \<Rightarrow> (bool \<times> payloadState) option) \<Rightarrow> addr \<Rightarrow> gostring \<times> cell
     \<Rightarrow> payloadState \<Rightarrow> payloadState option" where
  "prune_entry prune a e s =
     (case snd e of
        Ref b \<Rightarrow>
          Option.bind (prune b s) (\<lambda>(empty, s).
            Some (if empty then set_map a (mdel (fst e) (mem s a)) s else s))
      | Val (GMap c) \<Rightarrow>
          Some (if pruneEmptyMaps c = [] then set_map a (mdel (fst e) (mem s a)) s
                else put_cell a (fst e) (Val (GMap (pruneEmptyMaps c))) s)
      | Val (GStringMap m) \<Rightarrow> Some (if m = [] then set_map a (mdel (fst e) (mem s a)) s else s)
      | _ \<Rightarrow> Some s)"

lemma prune_entry_mono [partial_function_mono]:
  assumes "\<And>b s. mono_option (\<lambda>f. B f b s)"
  shows "mono_option (\<lambda>f. prune_entry (B f) a e s)"
proof (cases "snd e")
  case (Val v)
  then show ?thesis by (cases v) (simp_all add: prune_entry_def option.const_mono)
next
  case (Ref b)
  have "mono_option (\<lambda>f. Option.bind (B f b s) (\<lambda>(empty, s).
            Some (if empty then set_map a (mdel (fst e) (mem s a)) s else s)))"
    by (rule bind_mono [OF assms option.const_mono])
  then show ?thesis using Ref by (simp add: prune_entry_def)
qed

text \<open>\<open>None\<close> is a recursion that does not end: a map that holds itself.\<close>

partial_function (option) st_pruneEmptyMaps :: "addr \<Rightarrow> payloadState \<Rightarrow> (bool \<times> payloadState) option" where
  "st_pruneEmptyMaps a s =
     Option.bind (each (prune_entry st_pruneEmptyMaps a) (mem s a) s) (\<lambda>s. Some (mem s a = [], s))"

text \<open>What an encoder reads from a map.\<close>

definition read_entry ::
  "((addr \<Rightarrow> cell gomap) \<Rightarrow> addr \<Rightarrow> goany gomap option) \<Rightarrow> (addr \<Rightarrow> cell gomap) \<Rightarrow> gostring \<times> cell \<Rightarrow> goany gomap
     \<Rightarrow> goany gomap option" where
  "read_entry rd m e out =
     (case snd e of
        Val v \<Rightarrow> Some (out @ [(fst e, v)])
      | Ref b \<Rightarrow> Option.bind (rd m b) (\<lambda>c. Some (out @ [(fst e, GMap c)])))"

lemma read_entry_mono [partial_function_mono]:
  assumes "\<And>m b. mono_option (\<lambda>f. B f m b)"
  shows "mono_option (\<lambda>f. read_entry (B f) m e out)"
  unfolding read_entry_def
  by (cases "snd e") (auto intro!: bind_mono assms option.const_mono)

partial_function (option) snapshot :: "(addr \<Rightarrow> cell gomap) \<Rightarrow> addr \<Rightarrow> goany gomap option" where
  "snapshot m a = each (read_entry snapshot m) (m a) []"

declare st_walkAttr.simps [code] st_pruneEmptyMaps.simps [code] snapshot.simps [code]

section \<open>Building and handling\<close>

text \<open>The root map, the builder and the store after \<^verbatim>\<open>build\<close>.\<close>

definition st_build ::
  "golib \<Rightarrow> sharing \<Rightarrow> 'h jsonHandler \<Rightarrow> logRecord \<Rightarrow> payloadState \<Rightarrow> (addr \<times> builder \<times> payloadState) option" where
  "st_build lib shared h r s =
     (case prepare s of (root, s) \<Rightarrow>
        Option.bind (Option.bind
            (st_applyBaseAttrs lib shared (ReplaceAttr (jh_cfg h)) (groupedAttrs h) root (s, newPayloadBuilder))
            (st_applyRecordAttrs lib shared (ReplaceAttr (jh_cfg h)) (groups h) (r_Attrs r) root))
          (\<lambda>(s, pb). Option.bind (st_pruneEmptyMaps root s) (\<lambda>(_, s). Some (root, pb, s))))"

definition built_of ::
  "stackEnv \<Rightarrow> 'h handlerConfig \<Rightarrow> level \<Rightarrow> builder \<Rightarrow> goany gomap \<Rightarrow> builtPayload" where
  "built_of env cfg level pb payload =
     (case resolveErrorAndStack env cfg level (firstErr pb) of (errType, errMsg, stack) \<Rightarrow>
        \<lparr>bp_payload = payload, bp_httpReq = httpReq pb, bp_errType = errType, bp_errMsg = errMsg,
         bp_stack = stack, bp_labels = dynamicLabels pb\<rparr>)"

text \<open>
  \<^verbatim>\<open>jsonHandler.Handle\<close> with the \<^verbatim>\<open>payloadState\<close> it takes from the pool: the
  result, the handler's state, and the \<^verbatim>\<open>payloadState\<close> it puts back.
\<close>

definition st_Handle ::
  "emitEnv \<Rightarrow> sharing \<Rightarrow> level \<Rightarrow> 'h jsonHandler \<Rightarrow> ('x goctx_scheme) option \<Rightarrow> logRecord
     \<Rightarrow> emitState \<times> payloadState \<Rightarrow> (gostring option \<times> emitState \<times> payloadState) option" where
  "st_Handle env shared minLevel h ctx r st =
     (if \<not> jh_Enabled minLevel (r_Level r) then Some (None, st)
      else Option.bind (st_build (lib_of env) shared h r (snd st)) (\<lambda>(root, pb, s).
             Option.bind (snapshot (mem s) root) (\<lambda>payload.
               (case emitEntry env (jh_cfg h) r (resolveSourceLocation env (jh_cfg h) r)
                       (trace_of env (jh_cfg h) ctx)
                       (built_of (stacks env) (jh_cfg h) (r_Level r) pb payload) (fst st) of
                  (res, est) \<Rightarrow> Some (res, est, recycle s)))))"

end
