(* ===== verification/PayloadTree.thy ===== *)
theory PayloadTree
  imports PayloadStore
begin

text \<open>
  Trees of maps in the store. \<open>rep_map\<close> says which map of the builder's model lies at an
  address, and in which addresses it lies: a tree of separate maps. Every step of the walk on the
  store then refines the step of \<^verbatim>\<open>JsonPayload\<close> of its name, and touches no address that
  is neither in the tree nor free.
\<close>

section \<open>Trees of maps\<close>

inductive rep_cell :: "(addr \<Rightarrow> cell gomap) \<Rightarrow> cell \<Rightarrow> goany \<Rightarrow> addr set \<Rightarrow> bool"
  and rep_map :: "(addr \<Rightarrow> cell gomap) \<Rightarrow> cell gomap \<Rightarrow> goany gomap \<Rightarrow> addr set \<Rightarrow> bool"
  for mm where
  rep_Val: "rep_cell mm (Val v) v {}"
| rep_Ref: "rep_map mm (mm a) pm F \<Longrightarrow> a \<notin> F \<Longrightarrow> rep_cell mm (Ref a) (GMap pm) (insert a F)"
| rep_Nil: "rep_map mm [] [] {}"
| rep_Cons: "rep_cell mm c v F \<Longrightarrow> rep_map mm m pm G \<Longrightarrow> F \<inter> G = {} \<Longrightarrow>
    rep_map mm ((k, c) # m) ((k, v) # pm) (F \<union> G)"

inductive_cases rep_ValE [elim!]: "rep_cell mm (Val w) v F"
inductive_cases rep_RefE: "rep_cell mm (Ref a) v F"
inductive_cases rep_NilE [elim!]: "rep_map mm [] pm F"
inductive_cases rep_NilE' [elim!]: "rep_map mm m [] F"
inductive_cases rep_ConsE: "rep_map mm ((k, c) # m) pm F"
inductive_cases rep_ConsE': "rep_map mm m ((k, v) # pm) F"

lemma rep_frame:
  "rep_cell mm c v F \<Longrightarrow> (\<forall>a \<in> F. mm' a = mm a) \<Longrightarrow> rep_cell mm' c v F"
  "rep_map mm m pm G \<Longrightarrow> (\<forall>a \<in> G. mm' a = mm a) \<Longrightarrow> rep_map mm' m pm G"
proof (induction rule: rep_cell_rep_map.inducts)
  case (rep_Ref a pm F)
  then have "rep_map mm' (mm' a) pm F" by simp
  then show ?case using rep_Ref by (intro rep_cell_rep_map.rep_Ref)
qed (auto intro: rep_cell_rep_map.intros)

lemma rep_keys: "rep_map mm m pm F \<Longrightarrow> map fst m = map fst pm"
proof (induction m arbitrary: pm F)
  case (Cons e m)
  then show ?case by (cases e) (auto elim: rep_ConsE)
qed auto

lemma rep_lookup_None: "rep_map mm m pm F \<Longrightarrow> map_of pm k = None \<longleftrightarrow> map_of m k = None"
  using rep_keys [of mm m pm F] by (metis map_of_eq_None_iff set_map)

lemma rep_put_new:
  "rep_map mm m pm F \<Longrightarrow> rep_cell mm c v Fk \<Longrightarrow> Fk \<inter> F = {} \<Longrightarrow>
   \<exists>F'. rep_map mm (mput k c m) (mput k v pm) F' \<and> F' \<subseteq> F \<union> Fk"
proof (induction m arbitrary: pm F)
  case Nil
  then show ?case using rep_Cons [OF Nil.prems(2) rep_Nil, of k] by auto
next
  case (Cons e m)
  obtain l d where e: "e = (l, d)" by fastforce
  obtain w pm' Fd G where c: "pm = (l, w) # pm'" "F = Fd \<union> G" "rep_cell mm d w Fd"
      "rep_map mm m pm' G" "Fd \<inter> G = {}"
    using Cons.prems(1) unfolding e by (auto elim: rep_ConsE)
  show ?case
  proof (cases "l = k")
    case True
    then have "rep_map mm (mput k c (e # m)) (mput k v pm) (Fk \<union> G)"
      using rep_Cons [OF Cons.prems(2) c(4), of k] Cons.prems(3) c(1,2) e by auto
    then show ?thesis using c(2) by blast
  next
    case False
    obtain F' where F': "rep_map mm (mput k c m) (mput k v pm') F'" "F' \<subseteq> G \<union> Fk"
      using Cons.IH [OF c(4) Cons.prems(2)] Cons.prems(3) c(2) by blast
    have "Fd \<inter> F' = {}" using F'(2) c(2,5) Cons.prems(3) by blast
    then have "rep_map mm (mput k c (e # m)) (mput k v pm) (Fd \<union> F')"
      using rep_Cons [OF c(3) F'(1), of l] False c(1) e by simp
    then show ?thesis using F'(2) c(2) by blast
  qed
qed

text \<open>The share of the value found under a key.\<close>

lemma rep_lookup:
  "rep_map mm m pm F \<Longrightarrow> map_of m k = Some c \<Longrightarrow>
   \<exists>v Fk. map_of pm k = Some v \<and> rep_cell mm c v Fk \<and> Fk \<subseteq> F"
proof (induction m arbitrary: pm F)
  case (Cons e m)
  obtain l d where e: "e = (l, d)" by fastforce
  obtain w pm' Fd G where c': "pm = (l, w) # pm'" "F = Fd \<union> G" "rep_cell mm d w Fd"
      "rep_map mm m pm' G"
    using Cons.prems(1) unfolding e by (auto elim: rep_ConsE)
  show ?case
  proof (cases "l = k")
    case True
    then show ?thesis using Cons.prems(2) c' e by auto
  next
    case False
    then show ?thesis using Cons.IH [OF c'(4)] Cons.prems(2) c' e by auto
  qed
qed auto

text \<open>Writing below a child, whose own address stays where it is.\<close>

lemma rep_child:
  "rep_map mm m pm F \<Longrightarrow> map_of m k = Some (Ref a) \<Longrightarrow>
   \<exists>c Fk. map_of pm k = Some (GMap c) \<and> rep_map mm (mm a) c Fk \<and> a \<notin> Fk \<and> insert a Fk \<subseteq> F \<and>
     (\<forall>mm' c' Fk'. (\<forall>x \<in> F - insert a Fk. mm' x = mm x) \<longrightarrow> rep_map mm' (mm' a) c' Fk' \<longrightarrow> a \<notin> Fk' \<longrightarrow>
        insert a Fk' \<inter> (F - insert a Fk) = {} \<longrightarrow>
        rep_map mm' m (mput k (GMap c') pm) (F - insert a Fk \<union> insert a Fk'))"
proof (induction m arbitrary: pm F)
  case (Cons e m)
  obtain l d where e: "e = (l, d)" by fastforce
  obtain w pm' Fd G where c: "pm = (l, w) # pm'" "F = Fd \<union> G" "rep_cell mm d w Fd"
      "rep_map mm m pm' G" "Fd \<inter> G = {}"
    using Cons.prems(1) unfolding e by (auto elim: rep_ConsE)
  show ?case
  proof (cases "l = k")
    case True
    then have "rep_cell mm (Ref a) w Fd" using c(3) Cons.prems(2) e by simp
    then obtain ch Fk where w: "w = GMap ch" "Fd = insert a Fk" "rep_map mm (mm a) ch Fk" "a \<notin> Fk"
      by (auto elim: rep_RefE)
    have "rep_map mm' (e # m) (mput k (GMap c') pm) (F - insert a Fk \<union> insert a Fk')"
      if fr: "\<forall>x \<in> F - insert a Fk. mm' x = mm x" and ch': "rep_map mm' (mm' a) c' Fk'" "a \<notin> Fk'"
        and dis: "insert a Fk' \<inter> (F - insert a Fk) = {}" for mm' c' Fk'
    proof -
      have G: "F - insert a Fk = G" using c(2,5) w(2) by blast
      have "rep_map mm' m pm' G" using rep_frame(2) [OF c(4)] fr G by simp
      then have "rep_map mm' ((k, Ref a) # m) ((k, GMap c') # pm') (insert a Fk' \<union> G)"
        using rep_Cons [OF rep_Ref [OF ch']] dis G by blast
      then show ?thesis using True Cons.prems(2) c(1) e G by (simp add: Un_commute)
    qed
    then show ?thesis using w c(1,2) True by (intro exI [of _ ch] exI [of _ Fk]) auto
  next
    case False
    then have m: "map_of m k = Some (Ref a)" using Cons.prems(2) e by simp
    obtain ch Fk where ch: "map_of pm' k = Some (GMap ch)" "rep_map mm (mm a) ch Fk" "a \<notin> Fk" "insert a Fk \<subseteq> G"
      and step: "\<And>mm' c' Fk'. \<forall>x \<in> G - insert a Fk. mm' x = mm x \<Longrightarrow> rep_map mm' (mm' a) c' Fk' \<Longrightarrow> a \<notin> Fk' \<Longrightarrow>
        insert a Fk' \<inter> (G - insert a Fk) = {} \<Longrightarrow>
        rep_map mm' m (mput k (GMap c') pm') (G - insert a Fk \<union> insert a Fk')"
      using Cons.IH [OF c(4) m] by blast
    have "rep_map mm' (e # m) (mput k (GMap c') pm) (F - insert a Fk \<union> insert a Fk')"
      if fr: "\<forall>x \<in> F - insert a Fk. mm' x = mm x" and ch': "rep_map mm' (mm' a) c' Fk'" "a \<notin> Fk'"
        and dis: "insert a Fk' \<inter> (F - insert a Fk) = {}" for mm' c' Fk'
    proof -
      have F: "F - insert a Fk = Fd \<union> (G - insert a Fk)" using c(2,5) ch(4) by blast
      have "rep_map mm' m (mput k (GMap c') pm') (G - insert a Fk \<union> insert a Fk')"
        by (rule step) (use fr ch' dis F in blast)+
      moreover have "rep_cell mm' d w Fd" using rep_frame(1) [OF c(3)] fr F by simp
      moreover have "Fd \<inter> (G - insert a Fk \<union> insert a Fk') = {}" using c(5) dis F by blast
      ultimately have "rep_map mm' ((l, d) # m) ((l, w) # mput k (GMap c') pm')
          (Fd \<union> (G - insert a Fk \<union> insert a Fk'))"
        by (intro rep_Cons)
      then show ?thesis using False c(1) e F by (simp add: Un_assoc)
    qed
    then show ?thesis using ch c(1,2) False by (intro exI [of _ ch] exI [of _ Fk]) auto
  qed
qed auto

lemma rep_unshared: "rep_map mm (map (\<lambda>(k, v). (k, Val v)) c) c {}"
proof (induction c)
  case (Cons e c)
  then show ?case using rep_Cons [OF rep_Val Cons, of "fst e" "snd e"] by (cases e) simp
qed (simp add: rep_Nil)

section \<open>The pool in order\<close>

text \<open>The addresses that nobody holds: idle maps of the pool and memory not in use.\<close>

definition avail :: "payloadState \<Rightarrow> addr set" where
  "avail s = set (freeMaps s) \<union> {a. brk s \<le> a}"

definition pool_ok :: "payloadState \<Rightarrow> bool" where
  "pool_ok s \<longleftrightarrow>
     distinct (freeMaps s @ usedMaps s) \<and> (\<forall>a \<in> set (freeMaps s @ usedMaps s). a < brk s) \<and>
     (\<forall>r. root_map s = Some r \<longrightarrow> r < brk s \<and> r \<notin> set (freeMaps s @ usedMaps s))"

lemma pool_frame [frame_simps, simp]:
  "avail (s \<lparr> mem := m \<rparr>) = avail s" "pool_ok (s \<lparr> mem := m \<rparr>) = pool_ok s"
  "avail (s \<lparr> labels_map := l \<rparr>) = avail s" "pool_ok (s \<lparr> labels_map := l \<rparr>) = pool_ok s"
  by (simp_all add: avail_def pool_ok_def)

text \<open>From one store to a later one, writing only to \<open>W\<close> and to what was taken on the way.\<close>

definition moves :: "payloadState \<Rightarrow> payloadState \<Rightarrow> addr set \<Rightarrow> bool" where
  "moves s s' W \<longleftrightarrow>
     pool_ok s' \<and> avail s' \<subseteq> avail s \<and> root_map s' = root_map s \<and>
     set (usedMaps s') \<subseteq> set (usedMaps s) \<union> (avail s - avail s') \<and>
     (\<forall>x. x \<notin> W \<union> (avail s - avail s') \<longrightarrow> mem s' x = mem s x)"

lemma moves_refl: "pool_ok s \<Longrightarrow> moves s s W"
  by (simp add: moves_def)

lemma moves_trans:
  assumes "moves s s' W" and "moves s' s'' W'" and "W' \<subseteq> W \<union> (avail s - avail s')"
  shows "moves s s'' W"
proof -
  have same: "mem s'' x = mem s x" if x: "x \<notin> W \<union> (avail s - avail s'')" for x
  proof -
    have "x \<notin> W \<union> (avail s - avail s')" "x \<notin> W' \<union> (avail s' - avail s'')"
      using x assms by (auto simp: moves_def)
    then show ?thesis using assms(1,2) by (simp add: moves_def)
  qed
  have "set (usedMaps s'') \<subseteq> set (usedMaps s) \<union> (avail s - avail s'')"
    using assms(1,2) unfolding moves_def by blast
  then show ?thesis using assms(1,2) same by (auto simp: moves_def [of s s''] moves_def [of s s'] moves_def [of s' s''])
qed

lemma moves_ok: "moves s s' W \<Longrightarrow> pool_ok s'"
  by (simp add: moves_def)

text \<open>The map at \<open>cur\<close> is \<open>pm\<close>, in a tree of its own.\<close>

definition holds :: "payloadState \<Rightarrow> addr \<Rightarrow> goany gomap \<Rightarrow> addr set \<Rightarrow> bool" where
  "holds s cur pm F \<longleftrightarrow>
     rep_map (mem s) (mem s cur) pm F \<and> cur \<notin> F \<and> insert cur F \<inter> avail s = {}"

text \<open>A map taken from the pool or made: nobody held it, and nothing else changes.\<close>

definition takes :: "payloadState \<Rightarrow> addr \<Rightarrow> cell gomap \<Rightarrow> payloadState \<Rightarrow> bool" where
  "takes s a m s' \<longleftrightarrow>
     a \<in> avail s \<and> a \<notin> avail s' \<and> avail s' \<subseteq> avail s \<and> pool_ok s' \<and> root_map s' = root_map s \<and>
     set (usedMaps s') \<subseteq> insert a (set (usedMaps s)) \<and> mem s' = (mem s)(a := m)"

lemma make_map_takes: "pool_ok s \<Longrightarrow> make_map m s = (a, s') \<Longrightarrow> takes s a m s'"
  by (auto simp: make_map_def takes_def avail_def pool_ok_def less_Suc_eq)

lemma borrowMap_takes:
  assumes ok: "pool_ok s" and run: "borrowMap s = (a, s')"
  shows "takes s a [] s'"
proof (cases "freeMaps s = []")
  case True
  define t where "t = s \<lparr> mem := (mem s)(brk s := []), brk := Suc (brk s), usedMaps := usedMaps s @ [brk s] \<rparr>"
  have eqs: "a = brk s" "s' = t"
    using run True by (auto simp: borrowMap_def make_map_def t_def)
  have "pool_ok t"
    using ok True unfolding pool_ok_def t_def by (simp add: less_Suc_eq) blast
  moreover have "brk s \<in> avail s" "brk s \<notin> avail t" "avail t \<subseteq> avail s"
      "set (usedMaps t) \<subseteq> insert (brk s) (set (usedMaps s))"
    by (simp_all add: avail_def t_def True subset_iff)
  moreover have "root_map t = root_map s" "mem t = (mem s)(brk s := [])" by (simp_all add: t_def)
  ultimately show ?thesis unfolding eqs takes_def by blast
next
  case False
  then obtain xs b where free: "freeMaps s = xs @ [b]" by (metis rev_exhaust)
  define t where "t = s \<lparr> mem := (mem s)(b := []), freeMaps := xs, usedMaps := usedMaps s @ [b] \<rparr>"
  have eqs: "a = b" "s' = t"
    using run by (auto simp: borrowMap_def set_map_def t_def free)
  have "pool_ok t" using ok by (auto simp: pool_ok_def t_def free)
  moreover have "b \<in> avail s" "avail t \<subseteq> avail s" by (auto simp: avail_def t_def free)
  moreover have "b \<notin> avail t" using ok by (auto simp: avail_def pool_ok_def t_def free)
  moreover have "root_map t = root_map s" "set (usedMaps t) \<subseteq> insert b (set (usedMaps s))"
      "mem t = (mem s)(b := [])" by (auto simp: t_def)
  ultimately show ?thesis unfolding eqs takes_def by blast
qed

text \<open>
  What the walk asks of a source of maps: a map that nobody holds, with known entries, and
  nothing else changed. It can then be put into a tree.
\<close>

locale map_source =
  fixes get :: "payloadState \<Rightarrow> addr \<times> payloadState" and content :: "cell gomap"
  assumes get_takes: "pool_ok s \<Longrightarrow> get s = (a, s') \<Longrightarrow> takes s a content s'"
begin

lemma attach:
  assumes ok: "pool_ok s" and pm: "holds s cur pm F" and got: "get s = (a, s')"
    and c: "\<And>mm. rep_map mm content c {}"
  shows "\<exists>F'. holds (put_cell cur k (Ref a) s') cur (mput k (GMap c) pm) F' \<and> F' \<subseteq> F \<union> (avail s - avail s')"
    and "moves s (put_cell cur k (Ref a) s') (insert cur F)"
proof -
  note t = get_takes [OF ok got]
  let ?s = "put_cell cur k (Ref a) s'"
  have a: "a \<noteq> cur" "a \<notin> F" using pm t by (auto simp: holds_def takes_def)
  have same: "\<forall>x \<in> F. mem ?s x = mem s x"
    using pm t a by (auto simp: holds_def takes_def put_cell_def set_map_def)
  have cur: "mem ?s cur = mput k (Ref a) (mem s cur)"
    using t a by (simp add: takes_def put_cell_def set_map_def)
  have "mem ?s a = content" using t a by (simp add: takes_def put_cell_def set_map_def)
  then have "rep_cell (mem ?s) (Ref a) (GMap c) {a}" using rep_Ref [of "mem ?s" a c "{}"] c by simp
  moreover have "rep_map (mem ?s) (mem s cur) pm F"
    using pm same by (auto simp: holds_def intro: rep_frame(2))
  ultimately obtain F' where F': "rep_map (mem ?s) (mput k (Ref a) (mem s cur)) (mput k (GMap c) pm) F'"
      "F' \<subseteq> F \<union> {a}"
    using rep_put_new a(2) by blast
  have av: "avail ?s = avail s'" "pool_ok ?s = pool_ok s'" "root_map ?s = root_map s'"
    by (simp_all add: avail_def pool_ok_def put_cell_def set_map_def)
  have "holds ?s cur (mput k (GMap c) pm) F'"
    unfolding holds_def cur
    using F' pm t a by (auto simp: holds_def takes_def av)
  moreover have "a \<in> avail s - avail s'" using t by (simp add: takes_def)
  ultimately show "\<exists>F'. holds ?s cur (mput k (GMap c) pm) F' \<and> F' \<subseteq> F \<union> (avail s - avail s')"
    using F'(2) by blast
  show "moves s ?s (insert cur F)"
    using t by (auto simp: moves_def takes_def put_cell_def set_map_def)
qed

end

interpretation borrowed: map_source borrowMap "[]"
  by unfold_locales (rule borrowMap_takes)

interpretation made: map_source "make_map m" m for m
  by unfold_locales (rule make_map_takes)

section \<open>Refinement of the walk\<close>

definition refines :: "(walk \<Rightarrow> walk option) \<Rightarrow> (addr \<Rightarrow> hwalk \<Rightarrow> hwalk option) \<Rightarrow> bool" where
  "refines f g \<longleftrightarrow>
     (\<forall>cur s pb pm F pm' pb'. pool_ok s \<longrightarrow> holds s cur pm F \<longrightarrow> f (pm, pb) = Some (pm', pb') \<longrightarrow>
        (\<exists>s' F'. g cur (s, pb) = Some (s', pb') \<and> holds s' cur pm' F' \<and>
           F' \<subseteq> F \<union> (avail s - avail s') \<and> moves s s' (insert cur F)))"

lemma refinesI:
  "(\<And>cur s pb pm F pm' pb'. pool_ok s \<Longrightarrow> holds s cur pm F \<Longrightarrow> f (pm, pb) = Some (pm', pb') \<Longrightarrow>
      \<exists>s' F'. g cur (s, pb) = Some (s', pb') \<and> holds s' cur pm' F' \<and>
        F' \<subseteq> F \<union> (avail s - avail s') \<and> moves s s' (insert cur F)) \<Longrightarrow> refines f g"
  unfolding refines_def by blast

lemma refinesE:
  assumes "refines f g" and "pool_ok s" and "holds s cur pm F" and "f (pm, pb) = Some (pm', pb')"
  obtains s' F' where "g cur (s, pb) = Some (s', pb')" "holds s' cur pm' F'"
    "F' \<subseteq> F \<union> (avail s - avail s')" "moves s s' (insert cur F)"
  using assms unfolding refines_def by blast

lemma refines_Some: "refines Some (\<lambda>cur. Some)"
  by (rule refinesI) (auto intro: moves_refl)

lemma refines_bind:
  assumes f: "refines f g" and f': "refines f' g'"
  shows "refines (\<lambda>st. Option.bind (f st) f') (\<lambda>cur st. Option.bind (g cur st) (g' cur))"
proof (rule refinesI)
  fix cur s pb pm F pm'' pb''
  assume st: "pool_ok s" "holds s cur pm F" and run: "Option.bind (f (pm, pb)) f' = Some (pm'', pb'')"
  obtain pm' pb' where one: "f (pm, pb) = Some (pm', pb')" and two: "f' (pm', pb') = Some (pm'', pb'')"
    using run by (auto split: bind_splits)
  obtain s' F' where s': "g cur (s, pb) = Some (s', pb')" "holds s' cur pm' F'"
      "F' \<subseteq> F \<union> (avail s - avail s')" "moves s s' (insert cur F)"
    using refinesE [OF f st one] by blast
  obtain s'' F'' where s'': "g' cur (s', pb') = Some (s'', pb'')" "holds s'' cur pm'' F''"
      "F'' \<subseteq> F' \<union> (avail s' - avail s'')" "moves s' s'' (insert cur F')"
    using refinesE [OF f' moves_ok [OF s'(4)] s'(2) two] by blast
  have "F'' \<subseteq> F \<union> (avail s - avail s'')" using s'(3,4) s''(3,4) by (auto simp: moves_def)
  moreover have "moves s s'' (insert cur F)" using moves_trans [OF s'(4) s''(4)] s'(3) by blast
  ultimately show "\<exists>s' F'. Option.bind (g cur (s, pb)) (g' cur) = Some (s', pb'') \<and> holds s' cur pm'' F' \<and>
      F' \<subseteq> F \<union> (avail s - avail s') \<and> moves s s' (insert cur F)"
    using s'(1) s''(1,2) by auto
qed

lemma refines_each:
  "(\<And>x. x \<in> set xs \<Longrightarrow> refines (f x) (\<lambda>cur. g cur x)) \<Longrightarrow> refines (each f xs) (\<lambda>cur. each (g cur) xs)"
proof (induction xs)
  case Nil
  then show ?case by (simp add: refines_Some)
next
  case (Cons x xs)
  have "refines (\<lambda>st. Option.bind (f x st) (each f xs)) (\<lambda>cur st. Option.bind (g cur x st) (each (g cur) xs))"
    using Cons by (intro refines_bind) auto
  moreover have "each f (x # xs) = (\<lambda>st. Option.bind (f x st) (each f xs))"
      "(\<lambda>cur. each (g cur) (x # xs)) = (\<lambda>cur st. Option.bind (g cur x st) (each (g cur) xs))"
    by (auto simp: fun_eq_iff)
  ultimately show ?case by (simp only:)
qed

subsection \<open>Groups\<close>

lemma group_map_lookup:
  "map_of pm k = Some (GMap c) \<Longrightarrow> group_map k pm = c"
  "map_of pm k = None \<Longrightarrow> group_map k pm = []"
  "map_of pm k = Some v \<Longrightarrow> \<nexists>c. v = GMap c \<Longrightarrow> group_map k pm = []"
  by (auto simp: group_map_def split: goany.split option.split)

lemma ensureGroupMap_cases:
  assumes k: "k \<noteq> []" and ok: "pool_ok s" and pm: "holds s cur pm F" and run: "ensureGroupMap k cur s = (a, s')"
  obtains (found) "map_of (mem s cur) k = Some (Ref a)" "s' = s"
  | (put) get m s1 where "map_source get m" "get s = (a, s1)" "\<And>mm. rep_map mm m (group_map k pm) {}"
      "s' = put_cell cur k (Ref a) s1"
proof (cases "map_of (mem s cur) k")
  case None
  then have "map_of pm k = None" using pm rep_lookup_None by (auto simp: holds_def)
  then have gm: "group_map k pm = []" by (rule group_map_lookup)
  obtain s1 where s1: "borrowMap s = (a, s1)" "s' = put_cell cur k (Ref a) s1"
    using run k None by (auto simp: ensureGroupMap_def split: prod.splits)
  show ?thesis using put [OF borrowed.map_source_axioms s1(1) _ s1(2)] by (simp add: gm rep_Nil)
next
  case (Some c)
  have "rep_map (mem s) (mem s cur) pm F" using pm by (simp add: holds_def)
  then obtain v Fk where v: "map_of pm k = Some v" "rep_cell (mem s) c v Fk"
    using rep_lookup Some by blast
  show ?thesis
  proof (cases c)
    case (Ref b)
    then have "b = a" "s' = s" using run k Some by (auto simp: ensureGroupMap_def)
    then show ?thesis by (intro found) (simp_all add: Some Ref)
  next
    case (Val w)
    then have w: "map_of pm k = Some w" using v by auto
    show ?thesis
    proof (cases "\<exists>c. w = GMap c")
      case True
      then obtain ch where ch: "w = GMap ch" by blast
      obtain s1 where s1: "make_map (map (\<lambda>(k, v). (k, Val v)) ch) s = (a, s1)" "s' = put_cell cur k (Ref a) s1"
        using run k Some Val ch by (auto simp: ensureGroupMap_def split: prod.splits)
      have gm: "group_map k pm = ch" using w ch by (simp add: group_map_lookup)
      show ?thesis using put [OF made.map_source_axioms s1(1) _ s1(2)] by (simp add: gm rep_unshared)
    next
      case False
      obtain s1 where s1: "borrowMap s = (a, s1)" "s' = put_cell cur k (Ref a) s1"
        using run k Some Val False by (cases w) (auto simp: ensureGroupMap_def split: prod.splits)
      have gm: "group_map k pm = []" using group_map_lookup(3) [OF w] False by simp
      show ?thesis using put [OF borrowed.map_source_axioms s1(1) _ s1(2)] by (simp add: gm rep_Nil)
    qed
  qed
qed

lemma ensureGroupMap_refines:
  assumes k: "k \<noteq> []" and ok: "pool_ok s" and pm: "holds s cur pm F" and run: "ensureGroupMap k cur s = (a, s')"
  shows "\<exists>pm' F'. holds s' cur pm' F' \<and> map_of (mem s' cur) k = Some (Ref a) \<and>
     (\<forall>x. mput k x pm' = mput k x pm) \<and> group_map k pm' = group_map k pm \<and>
     F' \<subseteq> F \<union> (avail s - avail s') \<and> moves s s' (insert cur F)"
proof (cases rule: ensureGroupMap_cases [OF k ok pm run])
  case 1
  then show ?thesis using pm moves_refl [OF ok] by blast
next
  case put: (2 get m s1)
  have "mem s' cur = mput k (Ref a) (mem s1 cur)" "avail s' = avail s1"
    by (simp_all add: put(4) put_cell_def set_map_def)
  moreover note map_source.attach [OF put(1) ok pm put(2,3), of k, folded put(4)]
  ultimately show ?thesis by fastforce
qed

lemma refines_in_group:
  assumes f: "refines f g"
  shows "refines (in_group k f) (st_in_group k g)"
proof (cases "k = []")
  case True
  then have "in_group k f = f" "st_in_group k g = g"
    by (auto simp: fun_eq_iff in_group_def st_in_group_def ensureGroupMap_def)
  then show ?thesis using f by simp
next
  case k: False
  show ?thesis
  proof (rule refinesI)
    fix cur s pb pm F pm' pb'
    assume ok: "pool_ok s" and pm: "holds s cur pm F" and run: "in_group k f (pm, pb) = Some (pm', pb')"
    obtain c' where body: "f (group_map k pm, pb) = Some (c', pb')" "pm' = mput k (GMap c') pm"
      using run k by (auto simp: in_group_def split: bind_splits)
    obtain a s1 where en: "ensureGroupMap k cur s = (a, s1)" by fastforce
    obtain pm1 F1 where h1: "holds s1 cur pm1 F1" "map_of (mem s1 cur) k = Some (Ref a)"
        "mput k (GMap c') pm1 = pm'" "group_map k pm1 = group_map k pm"
        "F1 \<subseteq> F \<union> (avail s - avail s1)" and m1: "moves s s1 (insert cur F)"
      using ensureGroupMap_refines [OF k ok pm en] body(2) by auto
    have r1: "rep_map (mem s1) (mem s1 cur) pm1 F1" "cur \<notin> F1" "insert cur F1 \<inter> avail s1 = {}"
      using h1(1) by (auto simp: holds_def)
    obtain c Fk where child: "map_of pm1 k = Some (GMap c)" "rep_map (mem s1) (mem s1 a) c Fk"
        "a \<notin> Fk" "insert a Fk \<subseteq> F1"
      and step: "\<And>mm' c' Fk'. \<forall>x \<in> F1 - insert a Fk. mm' x = mem s1 x \<Longrightarrow> rep_map mm' (mm' a) c' Fk' \<Longrightarrow>
        a \<notin> Fk' \<Longrightarrow> insert a Fk' \<inter> (F1 - insert a Fk) = {} \<Longrightarrow>
        rep_map mm' (mem s1 cur) (mput k (GMap c') pm1) (F1 - insert a Fk \<union> insert a Fk')"
      using rep_child [OF r1(1) h1(2)] by blast
    have "holds s1 a c Fk" using child r1(3) by (auto simp: holds_def)
    moreover have "f (c, pb) = Some (c', pb')"
      using body(1) h1(4) group_map_lookup(1) [OF child(1)] by simp
    ultimately obtain s2 Fk' where s2: "g a (s1, pb) = Some (s2, pb')" "holds s2 a c' Fk'"
        "Fk' \<subseteq> Fk \<union> (avail s1 - avail s2)" and m2: "moves s1 s2 (insert a Fk)"
      using refinesE [OF f moves_ok [OF m1]] by blast
    have same: "mem s2 x = mem s1 x" if "x \<in> insert cur F1 - insert a Fk" for x
      using m2 that r1(3) by (auto simp: moves_def)
    have "rep_map (mem s2) (mem s1 cur) (mput k (GMap c') pm1) (F1 - insert a Fk \<union> insert a Fk')"
      by (rule step) (use same s2(2,3) r1(3) in \<open>auto simp: holds_def\<close>)
    moreover have "mem s2 cur = mem s1 cur" using same child(4) r1(2) by blast
    ultimately have "holds s2 cur pm' (F1 - insert a Fk \<union> insert a Fk')"
      unfolding holds_def using h1(3) s2(2,3) r1 child(4) m2 by (auto simp: holds_def moves_def)
    moreover have "F1 - insert a Fk \<union> insert a Fk' \<subseteq> F \<union> (avail s - avail s2)"
    proof -
      have "avail s1 \<subseteq> avail s" "avail s2 \<subseteq> avail s1" using m1 m2 by (auto simp: moves_def)
      moreover have "Fk' \<inter> avail s2 = {}" using s2(2) by (auto simp: holds_def)
      ultimately show ?thesis using h1(5) s2(3) child(4) by blast
    qed
    moreover have "moves s s2 (insert cur F)"
      using moves_trans [OF m1 m2] h1(5) child(4) by blast
    ultimately show "\<exists>s' F'. st_in_group k g cur (s, pb) = Some (s', pb') \<and> holds s' cur pm' F' \<and>
        F' \<subseteq> F \<union> (avail s - avail s') \<and> moves s s' (insert cur F)"
      using s2(1) en by (auto simp: st_in_group_def)
  qed
qed

lemma refines_in_groups: "refines f g \<Longrightarrow> refines (in_groups gs f) (st_in_groups gs g)"
  by (induction gs) (simp_all add: refines_in_group)

subsection \<open>Attributes\<close>

text \<open>No value of an attribute is a map that the application keeps.\<close>

definition unshared :: sharing where
  "unshared v = None"

lemma holds_labels [simp]: "holds (s \<lparr> labels_map := l \<rparr>) cur pm F = holds s cur pm F"
  by (simp add: holds_def)

lemma moves_labels: "pool_ok s \<Longrightarrow> moves s (s \<lparr> labels_map := l \<rparr>) W"
  by (simp add: moves_def)

lemma holds_put:
  assumes ok: "pool_ok s" and pm: "holds s cur pm F"
  shows "\<exists>F'. holds (put_cell cur k (Val v) s) cur (mput k v pm) F' \<and> F' \<subseteq> F"
    and "moves s (put_cell cur k (Val v) s) (insert cur F)"
proof -
  let ?s = "put_cell cur k (Val v) s"
  have r: "rep_map (mem s) (mem s cur) pm F" "cur \<notin> F" "insert cur F \<inter> avail s = {}"
    using pm by (auto simp: holds_def)
  have "rep_map (mem ?s) (mem s cur) pm F"
    using r(2) by (intro rep_frame(2) [OF r(1)]) (auto simp: put_cell_def set_map_def)
  then obtain F' where "rep_map (mem ?s) (mput k (Val v) (mem s cur)) (mput k v pm) F'" "F' \<subseteq> F"
    using rep_put_new [OF _ rep_Val] by (metis Int_empty_left sup_bot_right)
  then show "\<exists>F'. holds ?s cur (mput k v pm) F' \<and> F' \<subseteq> F"
    using r by (auto simp: holds_def put_cell_def set_map_def)
  show "moves s ?s (insert cur F)" using ok by (simp add: moves_def put_cell_def set_map_def)
qed

lemma addLabel_refines:
  "st_addLabel lib attr (s, pb) = (s', pb') \<Longrightarrow> pb' = addLabel lib attr pb \<and> (\<exists>l. s' = s \<lparr> labels_map := l \<rparr>)"
  by (auto simp: st_addLabel_def addLabel_def ensureLabels_def obtainLabels_def Let_def
      split: option.splits intro: exI [of _ "labels_map s"])

lemma refines_leaf:
  "refines (\<lambda>st. Some (handleLeafAttr lib attr raw inLabels st))
     (\<lambda>cur st. Some (st_handleLeafAttr lib unshared attr raw inLabels cur st))"
proof (rule refinesI)
  fix cur s pb pm F pm' pb'
  assume ok: "pool_ok s" and pm: "holds s cur pm F"
    and run: "Some (handleLeafAttr lib attr raw inLabels (pm, pb)) = Some (pm', pb')"
  have keep: "holds s cur pm F \<and> F \<subseteq> F \<union> (avail s - avail s) \<and> moves s s (insert cur F)"
    using ok pm by (simp add: moves_refl)
  show "\<exists>s' F'. Some (st_handleLeafAttr lib unshared attr raw inLabels cur (s, pb)) = Some (s', pb') \<and>
      holds s' cur pm' F' \<and> F' \<subseteq> F \<union> (avail s - avail s') \<and> moves s s' (insert cur F)"
  proof (cases inLabels)
    case True
    obtain s' pb2 where l: "st_addLabel lib attr (s, pb) = (s', pb2)" by fastforce
    have "pb' = addLabel lib attr pb" "pm' = pm" using run True by (auto simp: handleLeafAttr_def)
    then show ?thesis
      using addLabel_refines [OF l] l True pm ok by (auto simp: st_handleLeafAttr_def intro: moves_labels)
  next
    case False
    obtain hit pb2 where q: "(if fst attr = httpRequestKey then handleHTTPRequestAttr lib raw pb else (False, pb)) = (hit, pb2)"
      by fastforce
    let ?v = "resolveSlogValueWithRaw lib (snd attr)"
    have pure: "handleLeafAttr lib attr raw inLabels (pm, pb) =
        (if hit \<or> ?v = GNil then (pm, pb2) else (mput (fst attr) ?v pm, pb2))"
      unfolding handleLeafAttr_def fst_conv snd_conv q using False by (cases hit) (simp_all add: put_value_def)
    have store: "st_handleLeafAttr lib unshared attr raw inLabels cur (s, pb) =
        (if hit \<or> ?v = GNil then (s, pb2) else (put_cell cur (fst attr) (Val ?v) s, pb2))"
      unfolding st_handleLeafAttr_def fst_conv snd_conv q using False
      by (cases hit) (simp_all add: cell_of_def unshared_def)
    show ?thesis
    proof (cases "hit \<or> ?v = GNil")
      case True
      then have "pm' = pm" "pb' = pb2" "st_handleLeafAttr lib unshared attr raw inLabels cur (s, pb) = (s, pb2)"
        using run pure store by auto
      then show ?thesis using keep by blast
    next
      case no: False
      then have "pm' = mput (fst attr) ?v pm" "pb' = pb2"
          "st_handleLeafAttr lib unshared attr raw inLabels cur (s, pb) = (put_cell cur (fst attr) (Val ?v) s, pb2)"
        using run pure store by auto
      then show ?thesis using holds_put [OF ok pm] by blast
    qed
  qed
qed

lemma refines_walkGroupAttr:
  assumes "\<And>gs b c. c \<in> set children \<Longrightarrow> refines (walk gs b c) (\<lambda>cur. swalk gs b cur c)"
  shows "refines (walkGroupAttr walk gs inLabels key children) (st_walkGroupAttr swalk gs inLabels key children)"
proof -
  have all: "refines (each (walk gs b) children) (\<lambda>cur. each (swalk gs b cur) children)" for gs b
    using assms by (intro refines_each)
  have "st_walkGroupAttr swalk gs inLabels key children =
     (if key = [] then (\<lambda>cur. each (swalk gs inLabels cur) children)
      else if key = LabelsGroup then (\<lambda>cur. each (swalk (gs @ [key]) True cur) children)
      else st_in_group key (\<lambda>a. each (swalk (gs @ [key]) inLabels a) children))"
    by (simp add: st_walkGroupAttr_def fun_eq_iff)
  then show ?thesis unfolding walkGroupAttr_fun using all refines_in_group [OF all] by simp
qed

lemma refines_walkAttr: "refines (walkAttr lib replace gs inLabels a) (\<lambda>cur. st_walkAttr lib unshared replace gs inLabels cur a)"
proof -
  let ?P = "\<lambda>lib replace gs inLabels a st st'. \<forall>cur s F. pool_ok s \<longrightarrow> holds s cur (fst st) F \<longrightarrow>
     (\<exists>s' F'. st_walkAttr lib unshared replace gs inLabels cur a (s, snd st) = Some (s', snd st') \<and>
        holds s' cur (fst st') F' \<and> F' \<subseteq> F \<union> (avail s - avail s') \<and> moves s s' (insert cur F))"
  have "?P lib replace gs inLabels a st st'" if "walkAttr lib replace gs inLabels a st = Some st'" for st st'
  proof (rule walkAttr.raw_induct [where P = ?P, OF _ that])
    fix walk lib replace gs inLabels a st st'
    assume IH: "\<And>lib replace gs inLabels a st st'. walk lib replace gs inLabels a st = Some st' \<Longrightarrow>
        ?P lib replace gs inLabels a st st'"
      and body: "(case http_shortcut lib replace a (snd st) of (hit, pb) \<Rightarrow>
        if hit then Some (fst st, pb)
        else case normalizeAttr lib replace gs a pb of (attr', raw, pb') \<Rightarrow>
          (case snd attr' of
             VGroup children \<Rightarrow> walkGroupAttr (walk lib replace) gs inLabels (fst attr') children (fst st, pb')
           | _ \<Rightarrow> if fst attr' = [] then Some (fst st, pb')
                  else Some (handleLeafAttr lib attr' raw inLabels (fst st, pb')))) = Some st'"
    have sub: "refines (walk lib replace gs b c) (\<lambda>cur. st_walkAttr lib unshared replace gs b cur c)" for gs b c
      by (rule refinesI) (use IH in fastforce)
    show "?P lib replace gs inLabels a st st'"
    proof (intro allI impI)
      fix cur s F assume ok: "pool_ok s" and pm: "holds s cur (fst st) F"
      let ?goal = "\<exists>s' F'. st_walkAttr lib unshared replace gs inLabels cur a (s, snd st) = Some (s', snd st') \<and>
        holds s' cur (fst st') F' \<and> F' \<subseteq> F \<union> (avail s - avail s') \<and> moves s s' (insert cur F)"
      note unfold = st_walkAttr.simps [of lib unshared replace gs inLabels cur a "(s, snd st)"]
      have same: ?goal if "st' = (fst st, pb)"
          "st_walkAttr lib unshared replace gs inLabels cur a (s, snd st) = Some (s, pb)" for pb
        using that ok pm by (auto intro: moves_refl)
      obtain hit pb where short: "http_shortcut lib replace a (snd st) = (hit, pb)" by fastforce
      show ?goal
      proof (cases hit)
        case True
        then show ?thesis using body short unfold by (intro same [of pb]) auto
      next
        case False
        obtain a' raw pb' where n: "normalizeAttr lib replace gs a pb = (a', raw, pb')"
          by (metis prod_cases3)
        show ?thesis
        proof (cases "\<exists>children. snd a' = VGroup children")
          case True
          then obtain children where c: "snd a' = VGroup children" by blast
          have "refines (walkGroupAttr (walk lib replace) gs inLabels (fst a') children)
              (st_walkGroupAttr (st_walkAttr lib unshared replace) gs inLabels (fst a') children)"
            by (rule refines_walkGroupAttr) (rule sub)
          moreover have "walkGroupAttr (walk lib replace) gs inLabels (fst a') children (fst st, pb') = Some (fst st', snd st')"
            using body short False n c by simp
          ultimately obtain s' F' where "st_walkGroupAttr (st_walkAttr lib unshared replace) gs inLabels (fst a') children cur (s, pb') = Some (s', snd st')"
              "holds s' cur (fst st') F'" "F' \<subseteq> F \<union> (avail s - avail s')" "moves s s' (insert cur F)"
            using refinesE [OF _ ok pm] by blast
          then show ?thesis using unfold short False n c by auto
        next
          case no: False
          have st': "(if fst a' = [] then Some (fst st, pb') else Some (handleLeafAttr lib a' raw inLabels (fst st, pb'))) = Some st'"
            using body short False n no by (cases "snd a'") auto
          have sw: "st_walkAttr lib unshared replace gs inLabels cur a (s, snd st) =
              (if fst a' = [] then Some (s, pb') else Some (st_handleLeafAttr lib unshared a' raw inLabels cur (s, pb')))"
            using unfold short False n no by (cases "snd a'") auto
          show ?thesis
          proof (cases "fst a' = []")
            case True
            then show ?thesis using st' sw by (intro same [of pb']) auto
          next
            case key: False
            then have "Some (handleLeafAttr lib a' raw inLabels (fst st, pb')) = Some (fst st', snd st')" using st' by simp
            then show ?thesis using refinesE [OF refines_leaf ok pm] sw key by metis
          qed
        qed
      qed
    qed
  qed
  then show ?thesis by (intro refinesI) fastforce
qed

end
