(* ===== verification/PayloadPool.thy ===== *)
theory PayloadPool
  imports PayloadTree
begin

text \<open>
  What the pool of maps promises: pruning in place, building and handling refine the model of
  \<^verbatim>\<open>JsonPayload\<close> and leave the pool in order, whatever its maps held from records
  before. With a map that the application keeps the promise fails: the last section shows how.
\<close>

section \<open>Pruning and reading\<close>

lemma gomap_induct [case_names Nil Cons]:
  assumes "P []" and "\<And>k v m. P m \<Longrightarrow> (\<And>c. v = GMap c \<Longrightarrow> P c) \<Longrightarrow> P ((k, v) # m)"
  shows "P m"
proof (induction m rule: pruneEmptyMaps.induct)
  case (2 k v m)
  have c: "P c" if "v = GMap c" for c using 2(7) [OF that] .
  have "P m"
  proof (cases v)
    case (GMap c)
    then show ?thesis using 2(8) [OF GMap refl] 2(9) [OF GMap refl] by (cases "pruneEmptyMaps c = []") auto
  next
    case (GStringMap ss)
    then show ?thesis using 2 by (cases "ss = []") auto
  qed (use 2 in auto)
  then show ?case using assms(2) c by blast
qed (rule assms(1))

lemma prune_Cons: "pruneEmptyMaps (e # m) = pruneEmptyMaps [e] @ pruneEmptyMaps m"
  by (cases e) (simp add: Let_def split: goany.split)

lemma rep_append:
  "rep_map mm m pm F \<Longrightarrow> rep_map mm m' pm' F' \<Longrightarrow> F \<inter> F' = {} \<Longrightarrow> rep_map mm (m @ m') (pm @ pm') (F \<union> F')"
proof (induction m arbitrary: pm F)
  case (Cons e m)
  obtain k c where e: "e = (k, c)" by fastforce
  obtain v pm1 G H where s: "pm = (k, v) # pm1" "F = G \<union> H" "rep_cell mm c v G" "rep_map mm m pm1 H" "G \<inter> H = {}"
    using Cons.prems(1) unfolding e by (auto elim: rep_ConsE)
  have "rep_map mm (m @ m') (pm1 @ pm') (H \<union> F')" using Cons.IH [OF s(4) Cons.prems(2)] Cons.prems(3) s(2) by blast
  then have "rep_map mm ((k, c) # (m @ m')) ((k, v) # (pm1 @ pm')) (G \<union> (H \<union> F'))"
    using s Cons.prems(3) by (intro rep_Cons) auto
  then show ?case by (simp add: e s(1,2) Un_assoc)
qed auto

lemma mdel_at: "distinct (map fst (xs @ (k, c) # ys)) \<Longrightarrow> mdel k (xs @ (k, c) # ys) = xs @ ys"
  by (induction xs) (force simp: AList.delete_eq intro!: filter_True)+

lemma mput_at: "k \<notin> fst ` set xs \<Longrightarrow> mput k d (xs @ (k, c) # ys) = xs @ (k, d) # ys"
  by (induction xs) auto

definition only_mem :: "payloadState \<Rightarrow> payloadState \<Rightarrow> addr set \<Rightarrow> bool" where
  "only_mem s s' W \<longleftrightarrow> (\<exists>mm. s' = s \<lparr> mem := mm \<rparr> \<and> (\<forall>x. x \<notin> W \<longrightarrow> mm x = mem s x))"

lemma only_mem_refl [simp]: "only_mem s s W"
  unfolding only_mem_def by (rule exI [of _ "mem s"]) simp

lemma only_mem_set_map: "a \<in> W \<Longrightarrow> only_mem s (set_map a m s) W"
  unfolding only_mem_def set_map_def by (intro exI [of _ "(mem s)(a := m)"]) auto

lemma only_mem_trans: "only_mem s s' W \<Longrightarrow> only_mem s' s'' W' \<Longrightarrow> W \<union> W' \<subseteq> W'' \<Longrightarrow> only_mem s s'' W''"
proof -
  assume s: "only_mem s s' W" "only_mem s' s'' W'" and W: "W \<union> W' \<subseteq> W''"
  obtain mm mm' where "s' = s \<lparr> mem := mm \<rparr>" "\<forall>x. x \<notin> W \<longrightarrow> mm x = mem s x"
    "s'' = s' \<lparr> mem := mm' \<rparr>" "\<forall>x. x \<notin> W' \<longrightarrow> mm' x = mem s' x"
    using s unfolding only_mem_def by blast
  then show ?thesis unfolding only_mem_def using W by (intro exI [of _ mm']) (simp, metis UnCI in_mono)
qed

lemma only_mem_same: "only_mem s s' W \<Longrightarrow> x \<notin> W \<Longrightarrow> mem s' x = mem s x"
  unfolding only_mem_def by auto

text \<open>\<open>prunes s a pm F\<close>: pruning in place the map at \<open>a\<close>, which is \<open>pm\<close>, prunes \<open>pm\<close>.\<close>

definition prunes :: "payloadState \<Rightarrow> addr \<Rightarrow> goany gomap \<Rightarrow> addr set \<Rightarrow> bool" where
  "prunes s a pm F \<longleftrightarrow>
     (\<exists>s' F'. st_pruneEmptyMaps a s = Some (pruneEmptyMaps pm = [], s') \<and>
        rep_map (mem s') (mem s' a) (pruneEmptyMaps pm) F' \<and> F' \<subseteq> F \<and> only_mem s s' (insert a F))"

lemma prune_step:
  assumes m: "mem s a = don @ (k, c) # es" and keys: "distinct (map fst (don @ (k, c) # es))"
    and c: "rep_cell (mem s) c v Fc" and a: "a \<notin> Fc"
    and child: "\<And>b ch Fb. c = Ref b \<Longrightarrow> v = GMap ch \<Longrightarrow> rep_map (mem s) (mem s b) ch Fb \<Longrightarrow> b \<notin> Fb \<Longrightarrow> prunes s b ch Fb"
  shows "\<exists>s' kept Fk. prune_entry st_pruneEmptyMaps a (k, c) s = Some s' \<and> mem s' a = don @ kept @ es \<and>
     rep_map (mem s') kept (pruneEmptyMaps [(k, v)]) Fk \<and> Fk \<subseteq> Fc \<and> only_mem s s' (insert a Fc)"
proof (cases c)
  case (Val w)
  then have v: "v = w" using c by auto
  have one: "rep_map mm [(k, Val x)] [(k, x)] {}" for mm x
    using rep_Cons [OF rep_Val [of mm x] rep_Nil, of k] by simp
  let ?del = "set_map a (mdel k (mem s a)) s"
  have del: "mem ?del a = don @ es" using mdel_at [OF keys] by (simp add: m set_map_def)
  have keep: ?thesis if "prune_entry st_pruneEmptyMaps a (k, c) s = Some s" "pruneEmptyMaps [(k, v)] = [(k, v)]"
    using that m one Val v by (intro exI [of _ s] exI [of _ "[(k, c)]"] exI [of _ "{}"]) auto
  have remove: ?thesis if "prune_entry st_pruneEmptyMaps a (k, c) s = Some ?del" "pruneEmptyMaps [(k, v)] = []"
    using that del by (intro exI [of _ ?del] exI [of _ "[]"] exI [of _ "{}"]) (auto simp: rep_Nil only_mem_set_map)
  show ?thesis
  proof (cases "\<exists>ch. w = GMap ch")
    case True
    then obtain ch where ch: "w = GMap ch" by blast
    show ?thesis
    proof (cases "pruneEmptyMaps ch = []")
      case True
      then show ?thesis using ch Val v by (intro remove) (simp_all add: prune_entry_def)
    next
      case False
      let ?s = "put_cell a k (Val (GMap (pruneEmptyMaps ch))) s"
      have "mem ?s a = don @ [(k, Val (GMap (pruneEmptyMaps ch)))] @ es"
        using keys mput_at [of k don] by (auto simp: put_cell_def set_map_def m)
      then show ?thesis
        using False ch Val v one [of "mem ?s" "GMap (pruneEmptyMaps ch)"]
        by (intro exI [of _ ?s] exI [of _ "[(k, Val (GMap (pruneEmptyMaps ch)))]"] exI [of _ "{}"])
           (auto simp: prune_entry_def put_cell_def only_mem_set_map)
    qed
  next
    case no: False
    show ?thesis
    proof (cases "w = GStringMap []")
      case True
      then show ?thesis using Val v by (intro remove) (simp_all add: prune_entry_def)
    next
      case False
      then show ?thesis using no Val v by (intro keep) (auto simp: prune_entry_def split: goany.split)
    qed
  qed
next
  case (Ref b)
  obtain ch Fb where ch: "v = GMap ch" "Fc = insert b Fb" "rep_map (mem s) (mem s b) ch Fb" "b \<notin> Fb"
    using c Ref by (auto elim: rep_RefE)
  obtain s1 F1 where s1: "st_pruneEmptyMaps b s = Some (pruneEmptyMaps ch = [], s1)"
      "rep_map (mem s1) (mem s1 b) (pruneEmptyMaps ch) F1" "F1 \<subseteq> Fb" "only_mem s s1 (insert b Fb)"
    using child [OF Ref ch(1,3,4)] unfolding prunes_def by blast
  have m1: "mem s1 a = don @ (k, c) # es" using only_mem_same [OF s1(4)] a ch(2) m by simp
  show ?thesis
  proof (cases "pruneEmptyMaps ch = []")
    case True
    let ?s = "set_map a (mdel k (mem s1 a)) s1"
    have "mem ?s a = don @ [] @ es" using mdel_at [OF keys] by (simp add: m1 set_map_def)
    moreover have "only_mem s ?s (insert a Fc)"
      using ch(2) by (intro only_mem_trans [OF s1(4) only_mem_set_map [of a "{a}"]]) auto
    ultimately show ?thesis
      using True s1(1) ch(1) Ref
      by (intro exI [of _ ?s] exI [of _ "[]"] exI [of _ "{}"]) (auto simp: prune_entry_def rep_Nil)
  next
    case False
    have "b \<notin> F1" using s1(3) ch(4) by blast
    then have "rep_map (mem s1) [(k, c)] [(k, GMap (pruneEmptyMaps ch))] (insert b F1)"
      using rep_Cons [OF rep_Ref [OF s1(2)] rep_Nil, of k] Ref by simp
    moreover have "only_mem s s1 (insert a Fc)"
      using ch(2) by (intro only_mem_trans [OF s1(4) only_mem_refl [of _ "{}"]]) auto
    ultimately show ?thesis
      using False s1(1,3) ch(1,2) Ref m1
      by (intro exI [of _ s1] exI [of _ "[(k, c)]"] exI [of _ "insert b F1"]) (auto simp: prune_entry_def)
  qed
qed


lemma prune_loop:
  assumes "mem s a = don @ es" and "distinct (map fst (don @ es))" and "rep_map (mem s) es pe F" and "a \<notin> F"
    and "wf_map pe"
  shows "\<exists>s' es' F'. each (prune_entry st_pruneEmptyMaps a) es s = Some s' \<and> mem s' a = don @ es' \<and>
     rep_map (mem s') es' (pruneEmptyMaps pe) F' \<and> F' \<subseteq> F \<and> only_mem s s' (insert a F)"
  using assms
proof (induction pe arbitrary: s a don es F rule: gomap_induct)
  case Nil
  then have "es = []" by auto
  then show ?case using Nil by (auto intro!: exI [of _ "[]"] exI [of _ "{}"] rep_Nil)
next
  case (Cons k v m)
  obtain c es1 Fc G where e: "es = (k, c) # es1" "F = Fc \<union> G" "rep_cell (mem s) c v Fc"
      "rep_map (mem s) es1 m G" "Fc \<inter> G = {}"
    using Cons.prems(3) by (auto elim: rep_ConsE')
  have wf: "wf_map m" "wf_any v" using Cons.prems(5) by (auto simp: wf_map_def)
  have child: "prunes s b ch Fb"
    if r: "c = Ref b" "v = GMap ch" "rep_map (mem s) (mem s b) ch Fb" "b \<notin> Fb" for b ch Fb
  proof -
    have "wf_map ch" using wf(2) r(2) by (simp add: wf_map_def)
    moreover have "distinct (map fst (mem s b))" using \<open>wf_map ch\<close> rep_keys [OF r(3)] by (simp add: wf_map_def)
    ultimately obtain s' es' F' where run: "each (prune_entry st_pruneEmptyMaps b) (mem s b) s = Some s'"
        "mem s' b = es'" "rep_map (mem s') es' (pruneEmptyMaps ch) F'" "F' \<subseteq> Fb" "only_mem s s' (insert b Fb)"
      using Cons.IH(2) [OF r(2), of s b "[]" "mem s b" Fb] r(3,4) by auto
    have "mem s' b = [] \<longleftrightarrow> pruneEmptyMaps ch = []" using rep_keys [OF run(3)] run(2) by auto
    then have "st_pruneEmptyMaps b s = Some (pruneEmptyMaps ch = [], s')"
      using run(1) by (subst st_pruneEmptyMaps.simps) simp
    then show ?thesis unfolding prunes_def using run by auto
  qed
  have a: "a \<notin> Fc" "a \<notin> G" using Cons.prems(4) e(2) by auto
  obtain s1 kept Fk where s1: "prune_entry st_pruneEmptyMaps a (k, c) s = Some s1" "mem s1 a = don @ kept @ es1"
      "rep_map (mem s1) kept (pruneEmptyMaps [(k, v)]) Fk" "Fk \<subseteq> Fc" "only_mem s s1 (insert a Fc)"
    using prune_step [of s a don k c es1 v Fc] Cons.prems(1,2) e a child by blast
  have kept: "set (map fst kept) \<subseteq> {k}" "length kept \<le> 1"
    using rep_keys [OF s1(3)] by (auto simp: Let_def split: goany.splits if_splits)
  have "mem s1 x = mem s x" if "x \<in> G" for x
    by (rule only_mem_same [OF s1(5)]) (use a e(5) that in blast)
  then have "rep_map (mem s1) es1 m G" by (intro rep_frame(2) [OF e(4)]) blast
  moreover have "distinct (map fst ((don @ kept) @ es1))"
    using Cons.prems(2) kept unfolding e(1) by (cases kept) auto
  ultimately obtain s' es' F' where s': "each (prune_entry st_pruneEmptyMaps a) es1 s1 = Some s'"
      "mem s' a = (don @ kept) @ es'" "rep_map (mem s') es' (pruneEmptyMaps m) F'" "F' \<subseteq> G" "only_mem s1 s' (insert a G)"
    using Cons.IH(1) [of s1 a "don @ kept" es1 G] s1(2) a(2) wf(1) by auto
  have "mem s' x = mem s1 x" if "x \<in> Fk" for x
    by (rule only_mem_same [OF s'(5)]) (use s1(4) a(1) e(5) that in blast)
  then have "rep_map (mem s') kept (pruneEmptyMaps [(k, v)]) Fk" by (intro rep_frame(2) [OF s1(3)]) blast
  then have "rep_map (mem s') (kept @ es') (pruneEmptyMaps ((k, v) # m)) (Fk \<union> F')"
    using rep_append s'(3,4) s1(4) e(5) by (subst prune_Cons) blast
  moreover have "only_mem s s' (insert a F)"
    using e(2) by (intro only_mem_trans [OF s1(5) s'(5)]) auto
  ultimately show ?case
    using s1(1,4) s'(1,2,4) e(1,2)
    by (intro exI [of _ s'] exI [of _ "kept @ es'"] exI [of _ "Fk \<union> F'"]) auto
qed

lemma prune_refines:
  assumes "rep_map (mem s) (mem s a) pm F" and "a \<notin> F" and "wf_map pm"
  shows "prunes s a pm F"
proof -
  have "distinct (map fst (mem s a))" using assms(3) rep_keys [OF assms(1)] by (simp add: wf_map_def)
  then obtain s' es' F' where run: "each (prune_entry st_pruneEmptyMaps a) (mem s a) s = Some s'"
      "mem s' a = es'" "rep_map (mem s') es' (pruneEmptyMaps pm) F'" "F' \<subseteq> F" "only_mem s s' (insert a F)"
    using prune_loop [of s a "[]" "mem s a" pm F] assms by auto
  have "mem s' a = [] \<longleftrightarrow> pruneEmptyMaps pm = []" using rep_keys [OF run(3)] run(2) by auto
  then have "st_pruneEmptyMaps a s = Some (pruneEmptyMaps pm = [], s')"
    using run(1) by (subst st_pruneEmptyMaps.simps) simp
  then show ?thesis unfolding prunes_def using run by auto
qed

lemma read_all:
  "rep_cell mm c v F \<Longrightarrow> read_entry snapshot mm (k, c) out = Some (out @ [(k, v)])"
  "rep_map mm m pm G \<Longrightarrow> each (read_entry snapshot mm) m out = Some (out @ pm)"
proof (induction arbitrary: k out and out rule: rep_cell_rep_map.inducts)
  case (rep_Ref a pm F)
  have "snapshot mm a = Some pm" using rep_Ref.IH by (subst snapshot.simps) simp
  then show ?case by (simp add: read_entry_def)
next
  case (rep_Val v)
  show ?case by (simp add: read_entry_def)
qed simp_all

lemma snapshot_rep: "rep_map mm (mm a) pm F \<Longrightarrow> snapshot mm a = Some pm"
  using read_all(2) [of mm "mm a" pm F "[]"] by (subst snapshot.simps) simp

section \<open>Building and handling\<close>

lemma prepare_refines:
  assumes ok: "pool_ok s" and run: "prepare s = (root, s')"
  shows "pool_ok s'" "holds s' root [] {}" "root_map s' = Some root" "avail s' \<subseteq> avail s"
    "root_map s = Some root \<or> root \<in> avail s - avail s'"
    "\<And>x. x \<noteq> root \<Longrightarrow> mem s' x = mem s x" "usedMaps s' = []"
proof -
  have "pool_ok s' \<and> holds s' root [] {} \<and> root_map s' = Some root \<and> avail s' \<subseteq> avail s \<and>
      (root_map s = Some root \<or> root \<in> avail s - avail s') \<and> (\<forall>x. x \<noteq> root \<longrightarrow> mem s' x = mem s x) \<and> usedMaps s' = []"
  proof (cases "root_map s")
    case None
    define t where "t = s \<lparr> mem := (mem s)(brk s := []), brk := Suc (brk s), root_map := Some (brk s), usedMaps := [] \<rparr>"
    have "root = brk s" "s' = t" using run None by (auto simp: prepare_def make_map_def t_def)
    then show ?thesis
      using ok by (auto simp: t_def pool_ok_def holds_def avail_def rep_Nil less_SucI)
  next
    case (Some r)
    define t where "t = s \<lparr> mem := (mem s)(r := []), usedMaps := [] \<rparr>"
    have "root = r" "s' = t" using run Some by (auto simp: prepare_def set_map_def t_def)
    then show ?thesis
      using ok Some by (auto simp: t_def pool_ok_def holds_def avail_def rep_Nil)
  qed
  then show "pool_ok s'" "holds s' root [] {}" "root_map s' = Some root" "avail s' \<subseteq> avail s"
    "root_map s = Some root \<or> root \<in> avail s - avail s'" "\<And>x. x \<noteq> root \<Longrightarrow> mem s' x = mem s x" "usedMaps s' = []"
    by blast+
qed

lemma st_applyBaseAttrs_refines:
  "refines (applyBaseAttrs lib replace gas) (st_applyBaseAttrs lib unshared replace gas)"
  unfolding applyBaseAttrs_def st_applyBaseAttrs_def
  by (intro refines_each refines_in_groups refines_walkAttr)

lemma st_applyRecordAttrs_refines:
  "refines (applyRecordAttrs lib replace gs attrs) (st_applyRecordAttrs lib unshared replace gs attrs)"
  unfolding applyRecordAttrs_def st_applyRecordAttrs_def
  by (intro refines_in_groups refines_each refines_walkAttr)

text \<open>The addresses of the pool.\<close>

definition pool_maps :: "payloadState \<Rightarrow> addr set" where
  "pool_maps s = set (freeMaps s @ usedMaps s) \<union> set_option (root_map s)"

lemma st_build_refines:
  assumes ok: "pool_ok s" and wf: "wf_handler h" "\<forall>a \<in> set (r_Attrs r). wf_attr a"
    and run: "buildPayload lib env h r = Some b"
  shows "\<exists>root pb s'. st_build lib unshared h r s = Some (root, pb, s') \<and>
     snapshot (mem s') root = Some (bp_payload b) \<and> built_of env (jh_cfg h) (r_Level r) pb (bp_payload b) = b \<and>
     pool_ok s' \<and> root_map s' = Some root \<and> avail s' \<subseteq> avail s \<and>
     (root_map s = Some root \<or> root \<in> avail s) \<and>
     (\<forall>x. x \<notin> avail s \<longrightarrow> x \<noteq> root \<longrightarrow> mem s' x = mem s x) \<and> set (usedMaps s') \<subseteq> avail s"
proof -
  let ?rep = "ReplaceAttr (jh_cfg h)"
  let ?pure = "\<lambda>st. Option.bind (applyBaseAttrs lib ?rep (groupedAttrs h) st) (applyRecordAttrs lib ?rep (groups h) (r_Attrs r))"
  let ?store = "\<lambda>cur st. Option.bind (st_applyBaseAttrs lib unshared ?rep (groupedAttrs h) cur st)
      (st_applyRecordAttrs lib unshared ?rep (groups h) (r_Attrs r) cur)"
  obtain pm pb where pure: "?pure ([], newPayloadBuilder) = Some (pm, pb)"
    and b: "b = finish_build env (jh_cfg h) (r_Level r) (pm, pb)"
    using run by (auto simp: buildPayload_def)
  obtain root s1 where p: "prepare s = (root, s1)" by fastforce
  note prep = prepare_refines [OF ok p]
  have rf: "refines ?pure ?store"
    by (intro refines_bind st_applyBaseAttrs_refines st_applyRecordAttrs_refines)
  obtain s2 F where s2: "?store root (s1, newPayloadBuilder) = Some (s2, pb)" "holds s2 root pm F"
      "F \<subseteq> {} \<union> (avail s1 - avail s2)" "moves s1 s2 (insert root {})"
    by (rule refinesE [where f = ?pure and g = ?store, OF rf prep(1,2) pure])
  have "wf_map pm" using wf_walked [OF wf pure] by (simp add: wf_walk_def)
  then have "prunes s2 root pm F" using s2(2) by (intro prune_refines) (auto simp: holds_def)
  then obtain s3 F3 where s3: "st_pruneEmptyMaps root s2 = Some (pruneEmptyMaps pm = [], s3)"
      "rep_map (mem s3) (mem s3 root) (pruneEmptyMaps pm) F3" "only_mem s2 s3 (insert root F)"
    unfolding prunes_def by blast
  have "st_build lib unshared h r s = Some (root, pb, s3)"
    by (simp add: st_build_def p s2(1) s3(1) del: Option.bind_assoc)
  moreover have "snapshot (mem s3) root = Some (bp_payload b)"
    using snapshot_rep [OF s3(2)] by (simp add: b finish_build_def split: prod.split)
  moreover have "built_of env (jh_cfg h) (r_Level r) pb (bp_payload b) = b"
    by (simp add: b finish_build_def built_of_def split: prod.split)
  moreover have "pool_ok s3" "avail s3 = avail s2" "root_map s3 = root_map s2"
    using s3(3) s2(4) by (auto simp: only_mem_def moves_def)
  moreover have "mem s3 x = mem s x" if "x \<notin> avail s" "x \<noteq> root" for x
  proof -
    have "x \<notin> F" "x \<notin> avail s1" using that(1) s2(3) prep(4) by auto
    then have "mem s3 x = mem s2 x" "mem s2 x = mem s1 x"
      using only_mem_same [OF s3(3)] s2(4) that(2) by (auto simp: moves_def)
    then show ?thesis using prep(6) that(2) by simp
  qed
  moreover have "set (usedMaps s3) \<subseteq> avail s"
    using s3(3) s2(4) prep(4,7) by (auto simp: only_mem_def moves_def)
  ultimately show ?thesis using prep(3,4,5) s2(4) by (auto simp: moves_def)
qed

lemma recycle_fields:
  "usedMaps (recycle s) = []" "freeMaps (recycle s) = freeMaps s @ usedMaps s" "brk (recycle s) = brk s"
  "root_map (recycle s) = root_map s"
  "mem (recycle s) x = (if x \<in> set (usedMaps s) \<or> root_map s = Some x then [] else mem s x)"
proof -
  define t where "t = fold (\<lambda>m s. (set_map m [] s) \<lparr> freeMaps := freeMaps s @ [m] \<rparr>)"
  have t: "freeMaps (t us s) = freeMaps s @ us \<and> brk (t us s) = brk s \<and> root_map (t us s) = root_map s \<and>
      labels_map (t us s) = labels_map s \<and> mem (t us s) = (\<lambda>x. if x \<in> set us then [] else mem s x)" for us
    unfolding t_def by (induction us rule: rev_induct) (auto simp: set_map_def)
  have r: "recycle s = (case root_map s of
        None \<Rightarrow> t (usedMaps s) s \<lparr> usedMaps := [], labels_map := map_option (\<lambda>_. []) (labels_map s) \<rparr>
      | Some a \<Rightarrow> t (usedMaps s) s \<lparr> usedMaps := [], mem := (mem (t (usedMaps s) s))(a := []),
          labels_map := map_option (\<lambda>_. []) (labels_map s) \<rparr>)"
    unfolding recycle_def t_def [symmetric] Let_def using t by (simp add: set_map_def split: option.split)
  show "usedMaps (recycle s) = []" "freeMaps (recycle s) = freeMaps s @ usedMaps s" "brk (recycle s) = brk s"
    "root_map (recycle s) = root_map s"
    "mem (recycle s) x = (if x \<in> set (usedMaps s) \<or> root_map s = Some x then [] else mem s x)"
    using t by (auto simp: r split: option.split)
qed

lemma recycle_ok: "pool_ok s \<Longrightarrow> pool_ok (recycle s)"
  by (simp add: pool_ok_def recycle_fields)


text \<open>A pool in which earlier records left a root map and an idle map that are not empty.\<close>

definition used_pool :: payloadState where
  "used_pool =
     \<lparr>mem = (\<lambda>_. [])(0 := [(''secret'', Val (GInt 1))], 1 := [(''old'', Val (GInt 2))]), brk = 2,
      root_map = Some 0, labels_map = None, freeMaps = [1], usedMaps = []\<rparr>"


section \<open>Maps that the application keeps\<close>

text \<open>A map that is its own grandchild is never pruned to the end.\<close>

lemma prune_cycle:
  assumes "mem s x = [(k, Ref y)]" and "mem s y = [(l, Ref x)]"
  shows "st_pruneEmptyMaps x s = None"
proof (rule ccontr)
  let ?cyc = "\<lambda>x s. \<exists>k y l. mem s x = [(k, Ref y)] \<and> mem s y = [(l, Ref x)]"
  assume "st_pruneEmptyMaps x s \<noteq> None"
  then obtain r where run: "st_pruneEmptyMaps x s = Some r" by blast
  have "\<not> ?cyc x s"
  proof (rule st_pruneEmptyMaps.raw_induct [where P = "\<lambda>x s r. \<not> ?cyc x s", OF _ run])
    fix prune x s r
    assume IH: "\<And>x s r. prune x s = Some r \<Longrightarrow> \<not> ?cyc x s"
      and body: "Option.bind (each (prune_entry prune x) (mem s x) s) (\<lambda>s. Some (mem s x = [], s)) = Some r"
    show "\<not> ?cyc x s"
    proof
      assume "?cyc x s"
      then obtain k y l where c: "mem s x = [(k, Ref y)]" "mem s y = [(l, Ref x)]" by blast
      then obtain r' where "prune y s = Some r'"
        using body by (auto simp: prune_entry_def split: bind_splits)
      then show False using IH c by blast
    qed
  qed
  then show False using assms by blast
qed

definition app_store :: payloadState where
  "app_store = \<lparr>mem = (\<lambda>_. []), brk = 1, root_map = None, labels_map = None, freeMaps = [], usedMaps = []\<rparr>"

text \<open>The application's map at address 0 is the value \<open>GOther 0 None\<close>.\<close>

definition app_map :: sharing where
  "app_map v = (if v = GOther 0 None then Some 0 else None)"

definition user_record :: logRecord where
  "user_record = demo_record \<lparr> r_Attrs :=
     [(''req'', VAny (GOther 0 None)), (''req'', VGroup [(''user'', VGroup [(''name'', VString ''ann'')])])] \<rparr>"

definition group_record :: logRecord where
  "group_record = demo_record \<lparr> r_Attrs := [(''g'', VGroup [(''m'', VAny (GOther 0 None))])] \<rparr>"

definition walked :: "logRecord \<Rightarrow> payloadState \<Rightarrow> (addr \<times> hwalk) option" where
  "walked r s =
     (case prepare s of (root, s) \<Rightarrow>
        map_option (\<lambda>st. (root, st))
          (st_applyRecordAttrs demo_lib app_map None [] (r_Attrs r) root (s, newPayloadBuilder)))"

lemma st_build_demo:
  "st_build demo_lib app_map demo_handler r s =
     Option.bind (walked r s) (\<lambda>(root, s, pb). Option.bind (st_pruneEmptyMaps root s) (\<lambda>(_, s). Some (root, pb, s)))"
  by (simp add: st_build_def walked_def demo_handler_simps st_applyBaseAttrs_def bind_map_option comp_def split: prod.split)

text \<open>
  C40. A record whose group has the key of a map of the application writes the group into
  that map: the application's map then holds a map of the pool, which is cleared and handed to
  the next record. When the next record logs the application's map inside a group, the two maps
  hold each other, and building its payload never ends.
\<close>

theorem shared_map_enters_pool:
  "\<exists>root pb s. st_build demo_lib app_map demo_handler user_record app_store = Some (root, pb, s) \<and>
     mem (recycle s) 0 = [(''user'', Ref 2)] \<and> freeMaps (recycle s) = [2] \<and>
     st_build demo_lib app_map demo_handler group_record (recycle s) = None"
proof -
  have one: "map_option (\<lambda>(root, pb, s). (mem (recycle s) 0, freeMaps (recycle s),
       map_option (\<lambda>(root, s, pb). (root, mem s root, mem s 0, mem s 2)) (walked group_record (recycle s))))
     (st_build demo_lib app_map demo_handler user_record app_store)
   = Some ([(''user'', Ref 2)], [2], Some (1, [(''g'', Ref 2)], [(''user'', Ref 2)], [(''m'', Ref 0)]))"
    by code_simp
  then obtain root pb s where s: "st_build demo_lib app_map demo_handler user_record app_store = Some (root, pb, s)"
      "mem (recycle s) 0 = [(''user'', Ref 2)]" "freeMaps (recycle s) = [2]"
    by auto
  obtain s2 pb2 where s2: "walked group_record (recycle s) = Some (1, s2, pb2)" "mem s2 1 = [(''g'', Ref 2)]"
      "mem s2 0 = [(''user'', Ref 2)]" "mem s2 2 = [(''m'', Ref 0)]"
    using one s(1) by auto
  have "st_pruneEmptyMaps 2 s2 = None" by (rule prune_cycle [OF s2(4,3)])
  then have "st_pruneEmptyMaps 1 s2 = None"
    by (subst st_pruneEmptyMaps.simps) (simp add: s2(2) [simplified] prune_entry_def)
  then have "st_build demo_lib app_map demo_handler group_record (recycle s) = None"
    by (simp add: st_build_demo s2(1))
  then show ?thesis using s by blast
qed

text \<open>Logging a map of the application removes its empty maps from the application's map.\<close>

theorem pruning_empties_application_map:
  "map_option (\<lambda>(root, pb, s). mem (recycle s) 0)
     (st_build demo_lib app_map demo_handler group_record (set_map 0 [(''tags'', Val (GMap []))] app_store)) = Some []"
  by code_simp

end
