(* ===== verification/Pipeline.thy ===== *)
theory Pipeline
  imports HandlerLifecycle JsonEmit AsyncConfig
begin

text \<open>
  The handler stack of \<^verbatim>\<open>handler.go\<close>: the fan-out over additional sinks with the
  shared level, the middlewares, the asynchronous wrapper and the source-aware wrapper, with the
  package's logging functions; and what it delivers to whom.

  A sink of the application is known by its identity and by what was derived from it. What it
  answers is in \<open>pipeEnv\<close>. \<^verbatim>\<open>slog.MultiHandler\<close> and \<^verbatim>\<open>errors.Join\<close> are the standard
  library's. A derivation that yields a nil handler is \<open>None\<close>.
\<close>

section \<open>Handlers\<close>

datatype deriv = DAttrs "slogAttr list" | DGroup gostring

datatype slogHandler =
    JSONHandler "deriv list"
  | Sink nat "deriv list"
  | sharedLevelHandler slogHandler
  | MultiHandler "slogHandler list"
  | AsyncHandler bool slogHandler
  | sourceAwareHandler slogHandler

record pipeEnv =
  pe_level :: level
  pe_enabled :: "nat \<Rightarrow> deriv list \<Rightarrow> level \<Rightarrow> bool"
  pe_error :: "nat \<Rightarrow> deriv list \<Rightarrow> logRecord \<Rightarrow> gostring option"
  pe_nil :: "nat \<Rightarrow> deriv list \<Rightarrow> deriv \<Rightarrow> bool"
  pe_json_error :: "deriv list \<Rightarrow> logRecord \<Rightarrow> gostring option"

text \<open>\<^verbatim>\<open>errors.Join\<close>: nil without errors, otherwise their texts, one per line.\<close>

fun join_lines :: "gostring list \<Rightarrow> gostring" where
  "join_lines [] = []"
| "join_lines [e] = e"
| "join_lines (e # es) = e @ nl @ join_lines es"

definition errors_Join :: "gostring option list \<Rightarrow> gostring option" where
  "errors_Join errs =
     (let es = concat (map (\<lambda>e. case e of None \<Rightarrow> [] | Some t \<Rightarrow> [t]) errs)
      in if es = [] then None else Some (join_lines es))"

fun h_Enabled :: "pipeEnv \<Rightarrow> level \<Rightarrow> slogHandler \<Rightarrow> bool" where
  "h_Enabled env lv (JSONHandler ds) = jh_Enabled (pe_level env) lv"
| "h_Enabled env lv (Sink i ds) = pe_enabled env i ds lv"
| "h_Enabled env lv (sharedLevelHandler h) = (if lv < pe_level env then False else h_Enabled env lv h)"
| "h_Enabled env lv (MultiHandler hs) = list_ex (h_Enabled env lv) hs"
| "h_Enabled env lv (AsyncHandler detach h) = h_Enabled env lv h"
| "h_Enabled env lv (sourceAwareHandler h) = h_Enabled env lv h"

text \<open>
  Who gets the record: the JSON handler, a sink, or the queue of the asynchronous wrapper, with the
  handler a worker will give it to.
\<close>

datatype delivery = ToJSON "deriv list" | ToSink nat "deriv list" | Queued slogHandler

fun h_Handle :: "pipeEnv \<Rightarrow> logRecord \<Rightarrow> slogHandler \<Rightarrow> delivery list \<times> gostring option" where
  "h_Handle env r (JSONHandler ds) =
     (if \<not> jh_Enabled (pe_level env) (r_Level r) then ([], None) else ([ToJSON ds], pe_json_error env ds r))"
| "h_Handle env r (Sink i ds) = ([ToSink i ds], pe_error env i ds r)"
| "h_Handle env r (sharedLevelHandler h) =
     (if \<not> h_Enabled env (r_Level r) (sharedLevelHandler h) then ([], None)
      else case h_Handle env r h of
             (out, None) \<Rightarrow> (out, None)
           | (out, Some e) \<Rightarrow> (out, Some (''shared level handler: '' @ e)))"
| "h_Handle env r (MultiHandler hs) =
     (let answers = map (h_Handle env r) (filter (h_Enabled env (r_Level r)) hs)
      in (concat (map fst answers), errors_Join (map snd answers)))"
| "h_Handle env r (AsyncHandler detach h) = ([Queued h], None)"
| "h_Handle env r (sourceAwareHandler h) = h_Handle env r h"

text \<open>\<^verbatim>\<open>WithAttrs\<close> and \<^verbatim>\<open>WithGroup\<close>, which every layer forwards in the same way.\<close>

fun h_With :: "pipeEnv \<Rightarrow> deriv \<Rightarrow> slogHandler \<Rightarrow> slogHandler option" where
  "h_With env d (JSONHandler ds) = Some (JSONHandler (ds @ [d]))"
| "h_With env d (Sink i ds) = (if pe_nil env i ds d then None else Some (Sink i (ds @ [d])))"
| "h_With env d (sharedLevelHandler h) = map_option sharedLevelHandler (h_With env d h)"
| "h_With env d (MultiHandler hs) = map_option MultiHandler (those (map (h_With env d) hs))"
| "h_With env d (AsyncHandler detach h) = map_option (AsyncHandler detach) (h_With env d h)"
| "h_With env d (sourceAwareHandler h) = map_option sourceAwareHandler (h_With env d h)"

text \<open>The JSON handler that stands behind a list of derivations.\<close>

fun apply_deriv :: "deriv \<Rightarrow> 'h jsonHandler \<Rightarrow> 'h jsonHandler" where
  "apply_deriv (DAttrs as) h = jh_WithAttrs as h"
| "apply_deriv (DGroup name) h = jh_WithGroup name h"

definition derived_json :: "deriv list \<Rightarrow> 'h jsonHandler \<Rightarrow> 'h jsonHandler" where
  "derived_json ds h = fold apply_deriv ds h"

fun HasSource :: "slogHandler \<Rightarrow> bool" where
  "HasSource (sourceAwareHandler h) = True"
| "HasSource _ = False"

section \<open>Assembly\<close>

definition composeFanout :: "slogHandler \<Rightarrow> slogHandler option list \<Rightarrow> slogHandler" where
  "composeFanout primary additional =
     (if additional = [] then primary
      else let handlers = primary # concat (map (\<lambda>h. case h of None \<Rightarrow> [] | Some s \<Rightarrow> [sharedLevelHandler s]) additional)
           in if length handlers = 1 then primary else MultiHandler handlers)"

definition applyMiddlewares :: "slogHandler \<Rightarrow> (slogHandler \<Rightarrow> slogHandler) list \<Rightarrow> slogHandler" where
  "applyMiddlewares h middlewares = fold (\<lambda>m acc. m acc) (rev middlewares) h"

text \<open>\<open>wrap\<close> is the configuration \<^verbatim>\<open>slogcpasync.Wrap\<close> builds from the options.\<close>

definition Wrap_handler :: "Config \<Rightarrow> slogHandler \<Rightarrow> slogHandler" where
  "Wrap_handler cfg h = (if \<not> Enabled cfg then h else AsyncHandler (DetachContext cfg) h)"

definition buildPipeline ::
  "environ \<Rightarrow> bool \<Rightarrow> slogHandler handlerConfig \<Rightarrow> (slogHandler, AsyncOption option) options
     \<Rightarrow> slogHandler \<times> bool" where
  "buildPipeline env isFileTarget cfg builder =
     (let core = JSONHandler [];
          h = composeFanout core (map Some (o_additionalHandlers builder));
          h = applyMiddlewares h (Middlewares cfg);
          async = buildConfig (o_asyncOpts builder);
          wanted = wants_async env isFileTarget builder;
          h = (if wanted then Wrap_handler async h else h);
          h = (if AddSource cfg then sourceAwareHandler h else h)
      in (h, wanted \<and> Enabled async))"

section \<open>The level\<close>

definition resolveLevelVar :: "level option \<Rightarrow> level \<Rightarrow> level" where
  "resolveLevelVar levelVar level = level"

text \<open>A nil handler, or one without a level variable, is \<open>None\<close>.\<close>

definition h_SetLevel :: "level \<Rightarrow> level option \<Rightarrow> level option" where
  "h_SetLevel level var = (case var of None \<Rightarrow> None | Some _ \<Rightarrow> Some level)"

definition h_Level :: "level option \<Rightarrow> level" where
  "h_Level var = (case var of None \<Rightarrow> LevelInfo | Some l \<Rightarrow> l)"

section \<open>Logging functions\<close>

text \<open>What \<^verbatim>\<open>slog.Logger.Log\<close> is called with; \<open>None\<close> when the logger is nil.\<close>

record 'a log_call =
  lc_ctx :: goctx
  lc_logger :: logger
  lc_level :: level
  lc_msg :: gostring
  lc_args :: "'a list"

definition Log :: "goctx \<Rightarrow> logger \<Rightarrow> level \<Rightarrow> gostring \<Rightarrow> 'a list \<Rightarrow> 'a log_call" where
  "Log ctx l level msg args = \<lparr>lc_ctx = ctx, lc_logger = l, lc_level = level, lc_msg = msg, lc_args = args\<rparr>"

definition DefaultContext :: "goctx \<Rightarrow> logger option \<Rightarrow> gostring \<Rightarrow> 'a list \<Rightarrow> 'a log_call option" where
  "DefaultContext ctx l msg args = (case l of None \<Rightarrow> None | Some lg \<Rightarrow> Some (Log ctx lg LevelDefault msg args))"

definition DebugContext :: "goctx \<Rightarrow> logger option \<Rightarrow> gostring \<Rightarrow> 'a list \<Rightarrow> 'a log_call option" where
  "DebugContext ctx l msg args = (case l of None \<Rightarrow> None | Some lg \<Rightarrow> Some (Log ctx lg LevelDebug msg args))"

definition InfoContext :: "goctx \<Rightarrow> logger option \<Rightarrow> gostring \<Rightarrow> 'a list \<Rightarrow> 'a log_call option" where
  "InfoContext ctx l msg args = (case l of None \<Rightarrow> None | Some lg \<Rightarrow> Some (Log ctx lg LevelInfo msg args))"

definition WarnContext :: "goctx \<Rightarrow> logger option \<Rightarrow> gostring \<Rightarrow> 'a list \<Rightarrow> 'a log_call option" where
  "WarnContext ctx l msg args = (case l of None \<Rightarrow> None | Some lg \<Rightarrow> Some (Log ctx lg LevelWarn msg args))"

definition ErrorContext :: "goctx \<Rightarrow> logger option \<Rightarrow> gostring \<Rightarrow> 'a list \<Rightarrow> 'a log_call option" where
  "ErrorContext ctx l msg args = (case l of None \<Rightarrow> None | Some lg \<Rightarrow> Some (Log ctx lg LevelError msg args))"

definition NoticeContext :: "goctx \<Rightarrow> logger option \<Rightarrow> gostring \<Rightarrow> 'a list \<Rightarrow> 'a log_call option" where
  "NoticeContext ctx l msg args = (case l of None \<Rightarrow> None | Some lg \<Rightarrow> Some (Log ctx lg LevelNotice msg args))"

definition CriticalContext :: "goctx \<Rightarrow> logger option \<Rightarrow> gostring \<Rightarrow> 'a list \<Rightarrow> 'a log_call option" where
  "CriticalContext ctx l msg args = (case l of None \<Rightarrow> None | Some lg \<Rightarrow> Some (Log ctx lg LevelCritical msg args))"

definition AlertContext :: "goctx \<Rightarrow> logger option \<Rightarrow> gostring \<Rightarrow> 'a list \<Rightarrow> 'a log_call option" where
  "AlertContext ctx l msg args = (case l of None \<Rightarrow> None | Some lg \<Rightarrow> Some (Log ctx lg LevelAlert msg args))"

definition EmergencyContext :: "goctx \<Rightarrow> logger option \<Rightarrow> gostring \<Rightarrow> 'a list \<Rightarrow> 'a log_call option" where
  "EmergencyContext ctx l msg args = (case l of None \<Rightarrow> None | Some lg \<Rightarrow> Some (Log ctx lg LevelEmergency msg args))"

definition log_Default :: "logger option \<Rightarrow> gostring \<Rightarrow> 'a list \<Rightarrow> 'a log_call option" where
  "log_Default l msg args = (case l of None \<Rightarrow> None | Some lg \<Rightarrow> Some (Log Background lg LevelDefault msg args))"

definition log_Debug :: "logger option \<Rightarrow> gostring \<Rightarrow> 'a list \<Rightarrow> 'a log_call option" where
  "log_Debug l msg args = DebugContext Background l msg args"

definition log_Info :: "logger option \<Rightarrow> gostring \<Rightarrow> 'a list \<Rightarrow> 'a log_call option" where
  "log_Info l msg args = InfoContext Background l msg args"

definition log_Warn :: "logger option \<Rightarrow> gostring \<Rightarrow> 'a list \<Rightarrow> 'a log_call option" where
  "log_Warn l msg args = WarnContext Background l msg args"

definition log_Error :: "logger option \<Rightarrow> gostring \<Rightarrow> 'a list \<Rightarrow> 'a log_call option" where
  "log_Error l msg args = ErrorContext Background l msg args"

end
