(* ===== verification/PipelineProps.thy ===== *)
theory PipelineProps
  imports Pipeline
begin

text \<open>
  What a handler built by the package delivers: the abstract specification of the fan-out, the
  contract of a layer that changes nothing, and the refinement of the one by the stack of the other.
\<close>

section \<open>Derived handlers\<close>

fun derive :: "pipeEnv \<Rightarrow> deriv list \<Rightarrow> slogHandler \<Rightarrow> slogHandler option" where
  "derive env [] h = Some h"
| "derive env (d # ds) h = Option.bind (h_With env d h) (derive env ds)"

text \<open>The attributes of a record as the derivations before it arrange them.\<close>

fun nest :: "deriv list \<Rightarrow> slogAttr list \<Rightarrow> slogAttr list" where
  "nest [] as = as"
| "nest (DAttrs bs # ds) as = bs @ nest ds as"
| "nest (DGroup g # ds) as = (if g = [] then nest ds as else [(g, VGroup (nest ds as))])"

text \<open>
  C4. Deriving loggers is nesting attributes: whatever sequence of \<^verbatim>\<open>WithAttrs\<close> and
  \<^verbatim>\<open>WithGroup\<close> a handler went through, it builds for a record the payload, labels, request,
  error and stack that the original handler builds for the record whose attributes are the attached
  ones and its own, inside group values where a group was opened.
\<close>

theorem derived_payload:
  "buildPayload lib env (derived_json ds h) r = buildPayload lib env h (r \<lparr> r_Attrs := nest ds (r_Attrs r) \<rparr>)"
proof (induction ds arbitrary: h r)
  case Nil
  then show ?case by (simp add: derived_json_def)
next
  case (Cons d ds)
  have step: "derived_json (d # ds) h = derived_json ds (apply_deriv d h)" by (simp add: derived_json_def)
  show ?case
  proof (cases d)
    case (DAttrs as)
    then show ?thesis unfolding step Cons.IH by (simp add: WithAttrs_prepends)
  next
    case (DGroup g)
    show ?thesis
    proof (cases "g = []")
      case True
      then show ?thesis unfolding step Cons.IH by (simp add: DGroup jh_WithGroup_def)
    next
      case False
      have "buildPayload lib env (jh_WithGroup g h) (r \<lparr> r_Attrs := nest ds (r_Attrs r) \<rparr>)
          = buildPayload lib env h (r \<lparr> r_Attrs := [(g, VGroup (nest ds (r_Attrs r)))] \<rparr>)"
        using WithGroup_nests [OF False, of lib env h "r \<lparr> r_Attrs := nest ds (r_Attrs r) \<rparr>"] by simp
      then show ?thesis unfolding step Cons.IH using False by (simp add: DGroup)
    qed
  qed
qed

section \<open>What reaches whom in the end\<close>

text \<open>The deliveries of a record once the workers have handled what was queued.\<close>

fun delivered :: "pipeEnv \<Rightarrow> logRecord \<Rightarrow> slogHandler \<Rightarrow> delivery list" where
  "delivered env r (JSONHandler ds) = (if pe_level env \<le> r_Level r then [ToJSON ds] else [])"
| "delivered env r (Sink i ds) = [ToSink i ds]"
| "delivered env r (sharedLevelHandler h) =
     (if h_Enabled env (r_Level r) (sharedLevelHandler h) then delivered env r h else [])"
| "delivered env r (MultiHandler hs) =
     concat (map (delivered env r) (filter (h_Enabled env (r_Level r)) hs))"
| "delivered env r (AsyncHandler detach h) = delivered env r h"
| "delivered env r (sourceAwareHandler h) = delivered env r h"

fun settle :: "pipeEnv \<Rightarrow> logRecord \<Rightarrow> delivery \<Rightarrow> delivery list" where
  "settle env r (Queued h) = delivered env r h"
| "settle env r d = [d]"

definition settled :: "pipeEnv \<Rightarrow> logRecord \<Rightarrow> slogHandler \<Rightarrow> delivery list" where
  "settled env r h = concat (map (settle env r) (fst (h_Handle env r h)))"

lemma concat_map_concat: "concat (map f (concat xss)) = concat (map (\<lambda>xs. concat (map f xs)) xss)"
  by (induction xss) simp_all

lemma settled_delivered: "settled env r h = delivered env r h"
proof (induction h)
  case (MultiHandler hs)
  have "concat (map (\<lambda>h. concat (map (settle env r) (fst (h_Handle env r h)))) (filter (h_Enabled env (r_Level r)) hs))
      = concat (map (delivered env r) (filter (h_Enabled env (r_Level r)) hs))"
    using MultiHandler by (intro arg_cong [where f = concat] map_cong) (auto simp: settled_def)
  then show ?case by (simp add: settled_def Let_def concat_map_concat comp_def)
next
  case (sharedLevelHandler h)
  then show ?case by (auto simp: settled_def split: prod.splits option.splits)
qed (auto simp: settled_def jh_Enabled_def)

section \<open>Layers that change nothing\<close>

text \<open>
  The contract of a transparent layer: the level check, the deliveries and the derived handlers are
  those of the wrapped handler. The package's own wrappers satisfy it; an application's middleware
  may.
\<close>

locale transparent_layer =
  fixes env :: pipeEnv and layer :: "slogHandler \<Rightarrow> slogHandler"
  assumes enabled: "h_Enabled env lv (layer h) = h_Enabled env lv h"
    and delivers: "delivered env r (layer h) = delivered env r h"
    and derives: "h_With env d (layer h) = map_option layer (h_With env d h)"
begin

lemma derive_layer: "derive env ds (layer h) = map_option layer (derive env ds h)"
  by (induction ds arbitrary: h) (auto simp: derives split: bind_splits option.splits)

end

interpretation source_layer: transparent_layer env sourceAwareHandler for env
  by unfold_locales simp_all

interpretation async_layer: transparent_layer env "AsyncHandler detach" for env detach
  by unfold_locales simp_all

lemma layers_comp:
  assumes "transparent_layer env f" and "transparent_layer env g"
  shows "transparent_layer env (\<lambda>h. f (g h))"
proof -
  show ?thesis
    using assms unfolding transparent_layer_def by (auto simp: option.map_comp comp_def)
qed

lemma layer_id: "transparent_layer env (\<lambda>h. h)"
  by (simp add: transparent_layer_def option.map_ident)

lemma layers_fold:
  "\<forall>m \<in> set ms. transparent_layer env m \<Longrightarrow> transparent_layer env (\<lambda>h. applyMiddlewares h ms)"
proof (induction ms)
  case Nil
  then show ?case by (simp add: applyMiddlewares_def layer_id)
next
  case (Cons m ms)
  then show ?case using layers_comp [of env m "\<lambda>h. applyMiddlewares h ms"] by (simp add: applyMiddlewares_def)
qed

section \<open>The fan-out\<close>

definition fan_of :: "deriv list \<Rightarrow> nat list \<Rightarrow> slogHandler" where
  "fan_of ds sinks =
     (if sinks = [] then JSONHandler ds
      else MultiHandler (JSONHandler ds # map (\<lambda>i. sharedLevelHandler (Sink i ds)) sinks))"

text \<open>The specification: one gate for all, then the JSON output and every sink that wants the record.\<close>

definition fanout_spec :: "pipeEnv \<Rightarrow> nat list \<Rightarrow> deriv list \<Rightarrow> logRecord \<Rightarrow> delivery list" where
  "fanout_spec env sinks ds r =
     (if pe_level env \<le> r_Level r
      then ToJSON ds # map (\<lambda>i. ToSink i ds) (filter (\<lambda>i. pe_enabled env i ds (r_Level r)) sinks)
      else [])"

lemma composeFanout_fan: "composeFanout (JSONHandler []) (map Some (map (\<lambda>i. Sink i []) sinks)) = fan_of [] sinks"
  by (simp add: composeFanout_def fan_of_def comp_def Let_def concat_map_singleton)

lemma fan_delivered: "delivered env r (fan_of ds sinks) = fanout_spec env sinks ds r"
proof -
  have "concat (map (delivered env r) (filter (h_Enabled env (r_Level r)) (map (\<lambda>i. sharedLevelHandler (Sink i ds)) sinks)))
      = (if pe_level env \<le> r_Level r
         then map (\<lambda>i. ToSink i ds) (filter (\<lambda>i. pe_enabled env i ds (r_Level r)) sinks) else [])"
    by (induction sinks) auto
  then show ?thesis by (simp add: fan_of_def fanout_spec_def jh_Enabled_def)
qed

lemma fan_enabled: "h_Enabled env lv (fan_of ds sinks) = (pe_level env \<le> lv)"
  by (auto simp: fan_of_def jh_Enabled_def list_ex_iff)

lemma fan_With: "h_With env d (fan_of ds sinks) = Some h \<Longrightarrow> h = fan_of (ds @ [d]) sinks"
proof -
  have those_sinks: "those (map (h_With env d \<circ> (\<lambda>i. sharedLevelHandler (Sink i ds))) is) = Some hs \<Longrightarrow>
      hs = map (\<lambda>i. sharedLevelHandler (Sink i (ds @ [d]))) is" for "is" hs
    by (induction "is" arbitrary: hs) (auto split: if_splits option.splits)
  assume "h_With env d (fan_of ds sinks) = Some h"
  then show ?thesis
    by (auto simp: fan_of_def dest!: those_sinks split: if_splits option.splits)
qed

lemma fan_derive: "derive env ds' (fan_of ds sinks) = Some h \<Longrightarrow> h = fan_of (ds @ ds') sinks"
proof (induction ds' arbitrary: ds)
  case (Cons d ds')
  obtain g where "h_With env d (fan_of ds sinks) = Some g" "derive env ds' g = Some h"
    using Cons.prems by (auto split: bind_splits)
  then show ?case using Cons.IH [of "ds @ [d]"] fan_With by fastforce
qed simp

lemma pipeline_layers:
  assumes "\<forall>m \<in> set (Middlewares cfg). transparent_layer env m"
    and "o_additionalHandlers builder = map (\<lambda>i. Sink i []) sinks"
  obtains layer where "transparent_layer env layer" and
    "fst (buildPipeline vars isFile cfg builder) = layer (fan_of [] sinks)"
proof -
  let ?mws = "\<lambda>h. applyMiddlewares h (Middlewares cfg)"
  let ?async = "\<lambda>h. if wants_async vars isFile builder then Wrap_handler (buildConfig (o_asyncOpts builder)) h else h"
  let ?src = "\<lambda>h. if AddSource cfg then sourceAwareHandler h else h"
  have async: "transparent_layer env ?async"
    by (cases "wants_async vars isFile builder"; cases "Enabled (buildConfig (o_asyncOpts builder))")
       (simp_all add: Wrap_handler_def layer_id async_layer.transparent_layer_axioms)
  have src: "transparent_layer env ?src"
    by (cases "AddSource cfg") (simp_all add: layer_id source_layer.transparent_layer_axioms)
  have all: "transparent_layer env (\<lambda>h. ?src (?async (?mws h)))"
    by (rule layers_comp [OF src layers_comp [OF async layers_fold [OF assms(1)]]])
  have "fst (buildPipeline vars isFile cfg builder) = ?src (?async (?mws (fan_of [] sinks)))"
    by (simp add: buildPipeline_def Let_def assms(2) composeFanout_fan [simplified])
  then show thesis using that [OF all] by blast
qed

text \<open>
  C3. The handler stack implements the fan-out it promises. However it was assembled (additional
  sinks, middlewares that are transparent, asynchronous wrapping, source awareness) and whatever was
  derived from it, a record below the shared level reaches nobody, and any other reaches the JSON
  output and each sink that is enabled for it, exactly once, in order, with all that was derived; and
  the handler is enabled exactly from the shared level on.
\<close>

theorem pipeline_refines_fanout:
  assumes "\<forall>m \<in> set (Middlewares cfg). transparent_layer env m"
    and "o_additionalHandlers builder = map (\<lambda>i. Sink i []) sinks"
    and "derive env ds (fst (buildPipeline vars isFile cfg builder)) = Some h"
  shows "settled env r h = fanout_spec env sinks ds r \<and> h_Enabled env lv h = (pe_level env \<le> lv)"
proof -
  obtain layer where l: "transparent_layer env layer"
    "fst (buildPipeline vars isFile cfg builder) = layer (fan_of [] sinks)"
    using pipeline_layers [OF assms(1,2)] .
  obtain g where g: "derive env ds (fan_of [] sinks) = Some g" "h = layer g"
    using assms(3) transparent_layer.derive_layer [OF l(1)] l(2) by auto
  have "g = fan_of ds sinks" using fan_derive [OF g(1)] by simp
  then show ?thesis
    using transparent_layer.delivers [OF l(1)] transparent_layer.enabled [OF l(1)] g(2)
    by (simp add: settled_delivered fan_delivered fan_enabled)
qed

definition demo_pipeEnv :: pipeEnv where
  "demo_pipeEnv =
     \<lparr>pe_level = LevelInfo, pe_enabled = (\<lambda>i ds lv. i = 1 \<or> LevelError \<le> lv), pe_error = (\<lambda>_ _ _. None),
      pe_nil = (\<lambda>_ _ _. False), pe_json_error = (\<lambda>_ _. None)\<rparr>"

definition demo_pipe_cfg :: "slogHandler handlerConfig" where
  "demo_pipe_cfg = (base_config demo_info) \<lparr> Middlewares := [sourceAwareHandler] \<rparr>"

definition demo_builder :: "(slogHandler, AsyncOption option) options" where
  "demo_builder = WithAsync [] (zero_options \<lparr> o_additionalHandlers := [Sink 1 [], Sink 2 []] \<rparr>)"

lemma demo_built:
  "AddSource demo_pipe_cfg = False"
  "fst (buildPipeline (\<lambda>_. []) False demo_pipe_cfg demo_builder) =
     AsyncHandler False (sourceAwareHandler (fan_of [] [1, 2]))"
  by (simp_all add: demo_pipe_cfg_def base_config_def demo_builder_def buildPipeline_def WithAsync_def
      zero_options_def wants_async_def resolveAsyncConfig_def Wrap_handler_def buildConfig_def
      applyConfigOptions_def defaultAsyncConfig_def composeFanout_def applyMiddlewares_def fan_of_def Let_def)

theorem pipeline_refines_fanout_witness:
  "\<exists>h. derive demo_pipeEnv [DGroup ''g''] (fst (buildPipeline (\<lambda>_. []) False demo_pipe_cfg demo_builder)) = Some h
     \<and> settled demo_pipeEnv demo_record h = [ToJSON [DGroup ''g''], ToSink 1 [DGroup ''g'']]"
proof -
  let ?h = "AsyncHandler False (sourceAwareHandler (fan_of [DGroup ''g''] [1, 2]))"
  have mws: "\<forall>m \<in> set (Middlewares demo_pipe_cfg). transparent_layer demo_pipeEnv m"
    using source_layer.transparent_layer_axioms by (simp add: demo_pipe_cfg_def)
  have sinks: "o_additionalHandlers demo_builder = map (\<lambda>i. Sink i []) [1, 2]"
    by (simp add: demo_builder_def WithAsync_def)
  have derived: "derive demo_pipeEnv [DGroup ''g'']
      (fst (buildPipeline (\<lambda>_. []) False demo_pipe_cfg demo_builder)) = Some ?h"
    by (simp add: demo_built fan_of_def demo_pipeEnv_def)
  have "settled demo_pipeEnv demo_record ?h = fanout_spec demo_pipeEnv [1, 2] [DGroup ''g''] demo_record"
    using pipeline_refines_fanout [OF mws sinks derived, of demo_record LevelInfo] by simp
  also have "\<dots> = [ToJSON [DGroup ''g''], ToSink 1 [DGroup ''g'']]"
    by (simp add: fanout_spec_def demo_pipeEnv_def demo_record_def level_defs)
  finally show ?thesis using derived by blast
qed

section \<open>Severity of the logging functions\<close>

text \<open>Each function logs at the level whose severity it is named after.\<close>

lemma logging_severities:
  "map (\<lambda>f. map_option (\<lambda>c. severityFullString (lc_level c)) (f ctx (Some l) msg args))
     [DefaultContext, DebugContext, InfoContext, NoticeContext, WarnContext, ErrorContext,
      CriticalContext, AlertContext, EmergencyContext]
   = map Some [''DEFAULT'', ''DEBUG'', ''INFO'', ''NOTICE'', ''WARNING'', ''ERROR'', ''CRITICAL'',
      ''ALERT'', ''EMERGENCY'']"
  by (simp add: DefaultContext_def DebugContext_def InfoContext_def NoticeContext_def WarnContext_def
      ErrorContext_def CriticalContext_def AlertContext_def EmergencyContext_def Log_def level_defs
      severityFullString_def descriptorForLevel_def severityDescriptors_def formatWithOffset_def)

end
