(* ===== verification/ErrorReporting.thy ===== *)
theory ErrorReporting
  imports JsonEmit
begin

text \<open>
  \<^verbatim>\<open>errorreporting.go\<close>: the attributes Cloud Error Reporting reads, and how they fare
  in the JSON handler; and \<^verbatim>\<open>propagation.go\<close>: the once-only installation of the propagator.
\<close>

section \<open>Error reporting\<close>

record errorReportingConfig =
  er_message :: gostring
  er_service :: gostring
  er_version :: gostring

type_synonym ErrorReportingOption = "errorReportingConfig \<Rightarrow> errorReportingConfig"

definition WithErrorMessage :: "gostring \<Rightarrow> ErrorReportingOption" where
  "WithErrorMessage msg cfg = cfg \<lparr> er_message := msg \<rparr>"

definition WithErrorServiceContext :: "gostring \<Rightarrow> gostring \<Rightarrow> ErrorReportingOption" where
  "WithErrorServiceContext service version cfg =
     cfg \<lparr> er_service := TrimSpace service, er_version := TrimSpace version \<rparr>"

definition applyErrorReportingOptions ::
  "ErrorReportingOption option list \<Rightarrow> errorReportingConfig \<Rightarrow> errorReportingConfig" where
  "applyErrorReportingOptions opts cfg = fold (\<lambda>opt c. case opt of None \<Rightarrow> c | Some f \<Rightarrow> f c) opts cfg"

definition hasServiceAndVersion :: "errorReportingConfig \<Rightarrow> bool" where
  "hasServiceAndVersion cfg \<longleftrightarrow> er_service cfg \<noteq> [] \<and> er_version cfg \<noteq> []"

fun firstNonEmptyString :: "gostring list \<Rightarrow> gostring" where
  "firstNonEmptyString [] = []"
| "firstNonEmptyString (v # vs) = (if v \<noteq> [] then v else firstNonEmptyString vs)"

definition map_get :: "gostring gomap \<Rightarrow> gostring \<Rightarrow> gostring" where
  "map_get m k = (case map_of m k of Some v \<Rightarrow> v | None \<Rightarrow> [])"

text \<open>\<open>info\<close> is what runtime detection reports.\<close>

definition buildErrorReportingConfig ::
  "runtimeInfo \<Rightarrow> ErrorReportingOption option list \<Rightarrow> errorReportingConfig" where
  "buildErrorReportingConfig info opts =
     (let cfg = applyErrorReportingOptions opts \<lparr>er_message = [], er_service = [], er_version = []\<rparr>
      in if hasServiceAndVersion cfg then cfg
         else if ServiceContext info = [] then cfg
         else cfg \<lparr> er_service := firstNonEmptyString [er_service cfg, map_get (ServiceContext info) ''service''],
                    er_version := firstNonEmptyString [er_version cfg, map_get (ServiceContext info) ''version''] \<rparr>)"

definition buildServiceContextAttrs :: "errorReportingConfig \<Rightarrow> slogAttr list" where
  "buildServiceContextAttrs cfg =
     (if er_service cfg = [] then []
      else [(''serviceContext'', VAny (GMap ((''service'', GString (er_service cfg)) #
              (if er_version cfg \<noteq> [] then [(''version'', GString (er_version cfg))] else []))))])"

definition buildStackAttrs :: "gostring \<Rightarrow> slogAttr list" where
  "buildStackAttrs stack = (if stack = [] then [] else [(''stack_trace'', VString stack)])"

definition buildReportLocationAttrs :: "Frame \<Rightarrow> slogAttr list" where
  "buildReportLocationAttrs frame =
     (if Function frame = [] \<and> Frame.File frame = [] \<and> Line frame = 0 then []
      else [(''context'', VAny (GMap [(''reportLocation'', GMap
             ((if Frame.File frame \<noteq> [] then [(''filePath'', GString (Frame.File frame))] else []) @
              (if Line frame \<noteq> 0 then [(''lineNumber'', GInt (Line frame))] else []) @
              (if Function frame \<noteq> [] then [(''functionName'', GString (Function frame))] else [])))]))])"

definition buildErrorMessageAttr :: "gostring \<Rightarrow> slogAttr list" where
  "buildErrorMessageAttr msg = (if msg = [] then [] else [(''message'', VString msg)])"

text \<open>\<open>captured_stack\<close> is what \<^verbatim>\<open>CaptureStack(nil)\<close> returns; a nil error is \<open>None\<close>.\<close>

definition ErrorReportingAttrs ::
  "runtimeInfo \<Rightarrow> gostring \<times> Frame \<Rightarrow> goerror option \<Rightarrow> ErrorReportingOption option list \<Rightarrow> slogAttr list" where
  "ErrorReportingAttrs info captured_stack err opts =
     (case err of
        None \<Rightarrow> []
      | Some e \<Rightarrow>
          (let cfg = buildErrorReportingConfig info opts
           in case captured_stack of (stack, firstFrame) \<Rightarrow>
                buildServiceContextAttrs cfg @ buildStackAttrs stack @
                buildReportLocationAttrs firstFrame @ buildErrorMessageAttr (er_message cfg)))"

text \<open>The level, message and attributes logged; \<open>None\<close> when nothing is.\<close>

definition ReportError ::
  "runtimeInfo \<Rightarrow> gostring \<times> Frame \<Rightarrow> logger option \<Rightarrow> goerror option \<Rightarrow> gostring
     \<Rightarrow> ErrorReportingOption option list \<Rightarrow> (level \<times> gostring \<times> slogAttr list) option" where
  "ReportError info captured_stack l err msg opts =
     (case (l, err) of
        (Some _, Some e) \<Rightarrow>
          Some (LevelError, msg, (''error'', VAny (GError e)) # ErrorReportingAttrs info captured_stack err opts)
      | _ \<Rightarrow> None)"

text \<open>
  The message of \<^verbatim>\<open>WithErrorMessage\<close> does not survive the package's own handler: whatever
  the built payload holds, the entry's message is the record's, with the error appended.
\<close>

lemma report_message_lost:
  "map_of (fst (enrich lib cfg r src t b)) ''message'' = Some (GString (final_message r b))"
  using standard_fields [of lib cfg r src t b] by blast

text \<open>The service context of the report is kept, whatever the runtime's is.\<close>

lemma report_context_kept:
  "map_of p ''serviceContext'' = Some v \<Longrightarrow> applyServiceContext cfg p = p"
  by (simp add: applyServiceContext_def split: option.splits)

section \<open>Propagation\<close>

text \<open>
  \<open>composite\<close> is \<^verbatim>\<open>propagation.NewCompositeTextMapPropagator\<close> and \<open>parts\<close> its three arguments.
  The zero value of \<^verbatim>\<open>CompositePropagator\<close> has no composite.
\<close>

record CompositePropagator =
  cp_composite :: "propagator option"

definition NewCompositePropagator ::
  "(propagator list \<Rightarrow> propagator) \<Rightarrow> propagator \<Rightarrow> propagator \<Rightarrow> propagator \<Rightarrow> CompositePropagator" where
  "NewCompositePropagator composite oneWay traceContext baggage =
     \<lparr>cp_composite = Some (composite [oneWay, traceContext, baggage])\<rparr>"

definition cp_Inject :: "CompositePropagator \<Rightarrow> goctx \<Rightarrow> gostring list gomap \<Rightarrow> gostring list gomap" where
  "cp_Inject p ctx carrier = (case cp_composite p of None \<Rightarrow> carrier | Some c \<Rightarrow> Inject c ctx carrier)"

definition cp_Extract :: "CompositePropagator \<Rightarrow> goctx \<Rightarrow> gostring list gomap \<Rightarrow> goctx" where
  "cp_Extract p ctx carrier = (case cp_composite p of None \<Rightarrow> ctx | Some c \<Rightarrow> Extract c ctx carrier)"

definition EnsurePropagation ::
  "CompositePropagator \<Rightarrow> unit option \<Rightarrow> CompositePropagator option \<Rightarrow> unit option \<times> CompositePropagator option" where
  "EnsurePropagation p once global =
     (case once_do once (\<lambda>g. ((), Some p)) global of (_, once, global) \<Rightarrow> (once, global))"

lemma EnsurePropagation_once:
  "EnsurePropagation p None g = (Some (), Some p)" "EnsurePropagation p (Some ()) g = (Some (), g)"
  by (simp_all add: EnsurePropagation_def)

end
