(* ===== verification/HarnessEntry.thy ===== *)
theory HarnessEntry
  imports JsonEmit
begin

text \<open>
  The end-to-end harness reads back what the library logged: \<^verbatim>\<open>log_entry.go\<close>
  turns an entry of the Cloud Logging API into the \<^verbatim>\<open>LogEntry\<close> its checks look at.

  A value in an interface is an \<open>hval\<close>: the Go types the code switches on, any other
  \<^verbatim>\<open>fmt.Stringer\<close> by the string it returns, any other value by its \<^verbatim>\<open>%v\<close>
  text. A \<^verbatim>\<open>float32\<close> is kept as the \<^verbatim>\<open>float64\<close> of the same value. What
  \<^verbatim>\<open>fmt\<close>, \<^verbatim>\<open>encoding/json\<close> and the conversion of an out-of-range float
  return are fields of \<open>harnesslib\<close>; the field list of a struct is what
  \<^verbatim>\<open>reflect\<close> shows of it.
\<close>

section \<open>Values\<close>

datatype hval =
    HNil
  | HBool bool
  | HStr gostring
  | HNumber gostring
  | HStringer gostring
  | HFloat64 "64 word"
  | HFloat32 "64 word"
  | HInt int
  | HInt32 int
  | HInt64 int
  | HUint nat
  | HUint32 nat
  | HUint64 nat
  | HMap "(gostring \<times> hval) list"
  | HStrMap "gostring gomap"
  | HSlice "hval list"
  | HOther gostring

record harnesslib =
  Sprintf_v :: "hval \<Rightarrow> gostring"
  Sprintf_f :: "64 word \<Rightarrow> gostring"
  unmarshal_map :: "gostring \<Rightarrow> hval gomap option"
  int64_of_huge :: "64 word \<Rightarrow> int"
  url_text :: "goURL \<Rightarrow> gostring"

text \<open>\<open>m[k]\<close> of a Go map of interfaces: nil when the key is absent.\<close>

definition hget :: "hval gomap \<Rightarrow> gostring \<Rightarrow> hval" where
  "hget m k = (case map_of m k of Some v \<Rightarrow> v | None \<Rightarrow> HNil)"

section \<open>Floats\<close>

text \<open>A \<^verbatim>\<open>float64\<close> by its bits: not a number, infinite, zero, and its integer part.\<close>

definition float_exponent :: "64 word \<Rightarrow> nat" where
  "float_exponent w = unat w div 2 ^ 52 mod 2 ^ 11"

definition float_fraction :: "64 word \<Rightarrow> nat" where
  "float_fraction w = unat w mod 2 ^ 52"

definition float_negative :: "64 word \<Rightarrow> bool" where
  "float_negative w \<longleftrightarrow> 2 ^ 63 \<le> unat w"

definition float_finite :: "64 word \<Rightarrow> bool" where
  "float_finite w \<longleftrightarrow> float_exponent w < 2047"

definition float_nonzero :: "64 word \<Rightarrow> bool" where
  "float_nonzero w \<longleftrightarrow> unat w mod 2 ^ 63 \<noteq> 0"

definition float_trunc :: "64 word \<Rightarrow> int" where
  "float_trunc w =
     (let e = float_exponent w;
          m = (if e = 0 then float_fraction w else 2 ^ 52 + float_fraction w);
          n = (if 1075 \<le> e then m * 2 ^ (e - 1075) else m div 2 ^ (1075 - e))
      in if float_negative w then - int n else int n)"

text \<open>The conversion \<^verbatim>\<open>int64(f)\<close>; out of range its result is the platform's.\<close>

definition int64_of_float :: "harnesslib \<Rightarrow> 64 word \<Rightarrow> int" where
  "int64_of_float lib w =
     (if float_finite w \<and> in_int64 (float_trunc w) then float_trunc w else int64_of_huge lib w)"

section \<open>Upper case\<close>

text \<open>
  \<^verbatim>\<open>strings.ToUpper\<close>: exact on ASCII and on the two other runes it maps to ASCII
  (U+0131 becomes \<^verbatim>\<open>I\<close>, U+017F becomes \<^verbatim>\<open>S\<close>); other non-ASCII bytes are kept.
\<close>

definition upper_byte :: "char \<Rightarrow> char" where
  "upper_byte c =
     (if 97 \<le> (of_char c :: nat) \<and> (of_char c :: nat) \<le> 122 then char_of ((of_char c :: nat) - 32) else c)"

fun ToUpper :: "gostring \<Rightarrow> gostring" where
  "ToUpper [] = []"
| "ToUpper (c # cs) =
     (if c = CHR 0xC4 \<and> take 1 cs = [CHR 0xB1] then CHR ''I'' # ToUpper (drop 1 cs)
      else if c = CHR 0xC5 \<and> take 1 cs = [CHR 0xBF] then CHR ''S'' # ToUpper (drop 1 cs)
      else upper_byte c # ToUpper cs)"

section \<open>Entries\<close>

text \<open>\<^verbatim>\<open>logging.HTTPRequest\<close> and \<^verbatim>\<open>logging.Entry\<close> of the client library.\<close>

record loggingHTTPRequest =
  lh_Request :: "goRequest option"
  lh_RequestSize :: int
  lh_Status :: int
  lh_ResponseSize :: int
  lh_Latency :: int
  lh_LocalIP :: gostring
  lh_RemoteIP :: gostring
  lh_CacheHit :: bool
  lh_CacheValidatedWithOriginServer :: bool
  lh_CacheFillBytes :: int
  lh_CacheLookup :: bool

record entryOperation =
  op_Id :: gostring
  op_Producer :: gostring
  op_First :: bool
  op_Last :: bool

record MonitoredResource =
  mr_Type :: gostring
  mr_Labels :: "gostring gomap"

text \<open>\<open>sf_Exported\<close> is \<^verbatim>\<open>CanInterface\<close>, \<open>sf_Tag\<close> the \<^verbatim>\<open>json\<close> tag.\<close>

record structField =
  sf_Name :: gostring
  sf_Tag :: gostring
  sf_Exported :: bool
  sf_Value :: hval

text \<open>
  The payload of an entry: a map, a text, a protocol message (what marshalling it and reading
  the result back gives, and its struct fields), a struct or a pointer to one, anything else.
\<close>

datatype entryPayload =
    PMap "hval gomap"
  | PText gostring
  | PProto "hval gomap option" "structField list"
  | PStruct "structField list"
  | POther

record loggingEntry =
  le_Payload :: entryPayload
  le_Severity :: gostring
  le_Timestamp :: gotime
  le_LogName :: gostring
  le_Trace :: gostring
  le_SpanID :: gostring
  le_TraceSampled :: bool
  le_Labels :: "gostring gomap"
  le_HTTPRequest :: "loggingHTTPRequest option"
  le_SourceLocation :: "sourceLocation option"
  le_Resource :: "MonitoredResource option"
  le_Operation :: "entryOperation option"
  le_InsertID :: gostring

type_synonym Severity = gostring

record LogEntry =
  Payload :: "hval gomap option"
  Severity :: Severity
  Timestamp :: gotime
  LogName :: gostring
  Trace :: gostring
  SpanID :: gostring
  TraceSampled :: bool
  Labels :: "gostring gomap"
  HTTPRequestMap :: "hval gomap"
  Source :: "sourceLocation option"
  Resource :: "MonitoredResource option"
  InsertID :: gostring
  TextPayload :: gostring

section \<open>Reading values\<close>

definition formatFloatString :: "harnesslib \<Rightarrow> 64 word \<Rightarrow> gostring" where
  "formatFloatString lib w =
     (let zeros = rev (dropWhile (\<lambda>c. c = CHR ''0'') (rev (Sprintf_f lib w)))
      in rev (dropWhile (\<lambda>c. c = CHR ''.'') (rev zeros)))"

definition asString :: "harnesslib \<Rightarrow> hval \<Rightarrow> gostring" where
  "asString lib v =
     (case v of
        HNil \<Rightarrow> []
      | HStr s \<Rightarrow> s
      | HNumber s \<Rightarrow> s
      | HStringer s \<Rightarrow> s
      | HBool b \<Rightarrow> (if b then ''true'' else ''false'')
      | HFloat32 w \<Rightarrow> formatFloatString lib w
      | HFloat64 w \<Rightarrow> formatFloatString lib w
      | _ \<Rightarrow> Sprintf_v lib v)"

definition asBool :: "hval \<Rightarrow> bool" where
  "asBool v =
     (case v of
        HBool b \<Rightarrow> b
      | HStr s \<Rightarrow> ToLower (TrimSpace s) \<in> set [''true'', ''1'', ''t'']
      | HFloat64 w \<Rightarrow> float_nonzero w
      | HInt i \<Rightarrow> i \<noteq> 0
      | _ \<Rightarrow> False)"

definition asInt64 :: "harnesslib \<Rightarrow> hval \<Rightarrow> int" where
  "asInt64 lib v =
     (case v of
        HFloat64 w \<Rightarrow> int64_of_float lib w
      | HFloat32 w \<Rightarrow> int64_of_float lib w
      | HInt i \<Rightarrow> i
      | HInt64 i \<Rightarrow> i
      | HUint64 n \<Rightarrow> (if int n > max_int64 then max_int64 else int n)
      | HStr s \<Rightarrow> (case Atoi s of Some n \<Rightarrow> n | None \<Rightarrow> 0)
      | _ \<Rightarrow> 0)"

definition parseLooseBool :: "gostring \<Rightarrow> bool option" where
  "parseLooseBool value =
     (let trimmed = TrimSpace (ToLower value)
      in if trimmed = [] then None
         else if trimmed \<in> set [''true'', ''1'', ''t'', ''yes''] then Some True
         else if trimmed \<in> set [''false'', ''0'', ''f'', ''no''] then Some False
         else None)"

text \<open>The pair of value and success; \<open>None\<close> is \<^verbatim>\<open>(false, false)\<close>.\<close>

definition valueAsBool :: "hval \<Rightarrow> bool option" where
  "valueAsBool v =
     (case v of
        HBool b \<Rightarrow> Some b
      | HStr s \<Rightarrow> parseLooseBool s
      | HFloat64 w \<Rightarrow> Some (float_nonzero w)
      | HFloat32 w \<Rightarrow> Some (float_nonzero w)
      | HInt i \<Rightarrow> Some (asBool v)
      | HInt32 i \<Rightarrow> Some (asBool v)
      | HInt64 i \<Rightarrow> Some (asBool v)
      | HUint n \<Rightarrow> Some (asBool v)
      | HUint32 n \<Rightarrow> Some (asBool v)
      | HUint64 n \<Rightarrow> Some (asBool v)
      | _ \<Rightarrow> None)"

section \<open>Maps\<close>

text \<open>A nil map and an empty map behave alike in every use and are both \<open>[]\<close>.\<close>

definition maps_Copy :: "'v gomap \<Rightarrow> 'v gomap \<Rightarrow> 'v gomap" where
  "maps_Copy dst src = foldl (\<lambda>m (k, v). mput k v m) dst src"

definition copyStringMap :: "gostring gomap \<Rightarrow> gostring gomap" where
  "copyStringMap src = (if src = [] then [] else maps_Copy [] src)"

definition stringMapToAnyMap :: "gostring gomap \<Rightarrow> hval gomap" where
  "stringMapToAnyMap src = (if src = [] then [] else foldl (\<lambda>m (k, v). mput k (HStr v) m) [] src)"

definition mergeStringMaps :: "gostring gomap \<Rightarrow> gostring gomap \<Rightarrow> gostring gomap" where
  "mergeStringMaps base overlay =
     (if base = [] \<and> overlay = [] then [] else maps_Copy (maps_Copy [] base) overlay)"

definition copyMapAny :: "hval gomap \<Rightarrow> hval gomap" where
  "copyMapAny src = (if src = [] then [] else maps_Copy [] src)"

definition mergeMapAny :: "hval gomap \<Rightarrow> hval gomap \<Rightarrow> hval gomap" where
  "mergeMapAny base overlay =
     (if base = [] \<and> overlay = [] then [] else maps_Copy (copyMapAny base) overlay)"

definition extractMap :: "hval \<Rightarrow> hval gomap" where
  "extractMap v = (case v of HMap m \<Rightarrow> m | HStrMap m \<Rightarrow> stringMapToAnyMap m | _ \<Rightarrow> [])"

definition extractStringMap :: "harnesslib \<Rightarrow> hval \<Rightarrow> gostring gomap" where
  "extractStringMap lib v =
     foldl (\<lambda>out (k, x). let str = asString lib x in if str = [] then out else mput k str out)
       [] (extractMap v)"

section \<open>The payload\<close>

definition jsonFieldName :: "structField \<Rightarrow> gostring option" where
  "jsonFieldName f =
     (let first = hd (Split (sf_Tag f) (CHR '',''))
      in if sf_Tag f = [] then Some (sf_Name f)
         else if first = [] then Some (sf_Name f)
         else if first = ''-'' then None
         else Some first)"

definition structToMap :: "structField list \<Rightarrow> hval gomap" where
  "structToMap vs =
     foldl (\<lambda>m f. if \<not> sf_Exported f then m
                  else case jsonFieldName f of None \<Rightarrow> m | Some k \<Rightarrow> mput k (sf_Value f) m) [] vs"

definition extractPayloadMap :: "harnesslib \<Rightarrow> loggingEntry \<Rightarrow> hval gomap" where
  "extractPayloadMap lib e =
     (case le_Payload e of
        PMap m \<Rightarrow> m
      | PProto (Some m) fs \<Rightarrow> m
      | PProto None fs \<Rightarrow> structToMap fs
      | PText s \<Rightarrow> (case unmarshal_map lib s of Some m \<Rightarrow> m | None \<Rightarrow> [])
      | PStruct fs \<Rightarrow> structToMap fs
      | POther \<Rightarrow> [])"

definition normalizedPayload :: "harnesslib \<Rightarrow> loggingEntry \<Rightarrow> gostring + hval gomap" where
  "normalizedPayload lib e =
     (let payload = extractPayloadMap lib e
      in if map_of payload ''time'' \<noteq> None
         then Inl ''log entry contains disallowed jsonPayload.time field''
         else if unix_ns (le_Timestamp e) = unix_ns zero_time
         then Inl ''log entry missing top-level timestamp''
         else Inr payload)"

section \<open>The fields of an entry\<close>

definition severityByName :: "Severity gomap" where
  "severityByName =
     [(''DEFAULT'', ''DEFAULT''), (''DEBUG'', ''DEBUG''), (''INFO'', ''INFO''),
      (''NOTICE'', ''NOTICE''), (''WARNING'', ''WARNING''), (''ERROR'', ''ERROR''),
      (''CRITICAL'', ''CRITICAL''), (''ALERT'', ''ALERT''), (''EMERGENCY'', ''EMERGENCY'')]"

definition normalizeSeverity :: "gostring \<Rightarrow> Severity" where
  "normalizeSeverity value =
     (let trimmed = ToUpper (TrimSpace value)
      in if trimmed = [] then ''DEFAULT''
         else case map_of severityByName trimmed of Some canonical \<Rightarrow> canonical | None \<Rightarrow> trimmed)"

definition resolveEntrySeverity :: "harnesslib \<Rightarrow> loggingEntry \<Rightarrow> hval gomap \<Rightarrow> Severity" where
  "resolveEntrySeverity lib e payload =
     (let raw = TrimSpace (asString lib (hget payload ''severity''))
      in if raw \<noteq> [] then normalizeSeverity raw
         else let raw = TrimSpace (le_Severity e)
              in if raw \<noteq> [] then normalizeSeverity raw else ''DEFAULT'')"

text \<open>The merged labels, and the payload, which is given the labels of the entry when it has none.\<close>

definition mergedEntryLabels ::
  "harnesslib \<Rightarrow> loggingEntry \<Rightarrow> hval gomap \<Rightarrow> gostring gomap \<times> hval gomap" where
  "mergedEntryLabels lib e payload =
     (let payloadLabels = extractStringMap lib (hget payload LabelsGroup);
          labels = mergeStringMaps (copyStringMap (le_Labels e)) payloadLabels
      in (labels,
          if hget payload LabelsGroup = HNil \<and> le_Labels e \<noteq> []
          then mput LabelsGroup (HMap (stringMapToAnyMap (le_Labels e))) payload else payload))"

record httpRequestFieldValues =
  fv_method :: gostring
  fv_request :: gostring
  fv_userAgent :: gostring
  fv_referer :: gostring
  fv_proto :: gostring
  fv_remoteIP :: gostring

definition remoteAddrHost :: "gostring \<Rightarrow> gostring" where
  "remoteAddrHost remoteAddr =
     (if remoteAddr = [] then []
      else case SplitHostPort remoteAddr of None \<Rightarrow> remoteAddr | Some (host, port) \<Rightarrow> host)"

definition extractHTTPRequestValues :: "harnesslib \<Rightarrow> goRequest \<Rightarrow> httpRequestFieldValues" where
  "extractHTTPRequestValues lib q =
     \<lparr>fv_method = req_Method q,
      fv_request = (case req_URL q of None \<Rightarrow> [] | Some u \<Rightarrow> url_text lib u),
      fv_userAgent = Header_Get (req_Header q) ''User-Agent'',
      fv_referer = Header_Get (req_Header q) ''Referer'',
      fv_proto = req_Proto q, fv_remoteIP = remoteAddrHost (req_RemoteAddr q)\<rparr>"

definition defaultHTTPProtocol :: "loggingHTTPRequest \<Rightarrow> gostring" where
  "defaultHTTPProtocol req =
     (case lh_Request req of
        Some q \<Rightarrow> if req_Proto q \<noteq> [] then req_Proto q else ''HTTP/1.1''
      | None \<Rightarrow> ''HTTP/1.1'')"

definition httpRequestFields :: "harnesslib \<Rightarrow> loggingHTTPRequest \<Rightarrow> httpRequestFieldValues" where
  "httpRequestFields lib req =
     (let vs = (case lh_Request req of
                      Some q \<Rightarrow> extractHTTPRequestValues lib q
                    | None \<Rightarrow> \<lparr>fv_method = [], fv_request = [], fv_userAgent = [], fv_referer = [],
                               fv_proto = [], fv_remoteIP = []\<rparr>);
          vs = (if fv_remoteIP vs = [] then vs \<lparr> fv_remoteIP := lh_RemoteIP req \<rparr> else vs)
      in if fv_proto vs = [] then vs \<lparr> fv_proto := defaultHTTPProtocol req \<rparr> else vs)"

text \<open>\<^verbatim>\<open>"%.9fs"\<close>, with the precision note of \<open>formatLatency\<close>.\<close>

definition seconds_text :: "int \<Rightarrow> gostring" where
  "seconds_text d = (if d < 0 then CHR ''-'' # formatLatency (- d) else formatLatency d)"

definition httpRequestStructToMap :: "harnesslib \<Rightarrow> loggingHTTPRequest option \<Rightarrow> hval gomap" where
  "httpRequestStructToMap lib r =
     (case r of
        None \<Rightarrow> []
      | Some req \<Rightarrow>
          (let vs = httpRequestFields lib req in
           [(''requestMethod'', HStr (fv_method vs)),
            (''requestUrl'', HStr (fv_request vs)),
            (''userAgent'', HStr (fv_userAgent vs)),
            (''referer'', HStr (fv_referer vs)),
            (''protocol'', HStr (fv_proto vs)),
            (''requestSize'', HStr (FormatInt (lh_RequestSize req))),
            (''status'', HInt (lh_Status req)),
            (''responseSize'', HStr (FormatInt (lh_ResponseSize req))),
            (''latency'', HStr (seconds_text (lh_Latency req))),
            (''remoteIp'', HStr (fv_remoteIP vs)),
            (''serverIp'', HStr (lh_LocalIP req)),
            (''cacheHit'', HBool (lh_CacheHit req)),
            (''cacheValidatedWithOriginServer'', HBool (lh_CacheValidatedWithOriginServer req)),
            (''cacheFillBytes'', HStr (FormatInt (lh_CacheFillBytes req))),
            (''cacheLookup'', HBool (lh_CacheLookup req))]))"

definition mergedHTTPRequest :: "harnesslib \<Rightarrow> loggingEntry \<Rightarrow> hval gomap \<Rightarrow> hval gomap" where
  "mergedHTTPRequest lib e payload =
     (let httpRequestPayload = copyMapAny (extractMap (hget payload ''httpRequest''));
          converted = httpRequestStructToMap lib (le_HTTPRequest e)
      in if le_HTTPRequest e \<noteq> None \<and> converted \<noteq> []
         then mergeMapAny converted httpRequestPayload else httpRequestPayload)"

definition extractSourceLocation :: "harnesslib \<Rightarrow> loggingEntry \<Rightarrow> hval gomap \<Rightarrow> sourceLocation option" where
  "extractSourceLocation lib e payload =
     (let srcMap = extractMap (hget payload sourceLocationKey)
      in if srcMap \<noteq> []
         then Some \<lparr>sl_File = asString lib (hget srcMap ''file''), sl_Line = asInt64 lib (hget srcMap ''line''),
                    sl_Function = asString lib (hget srcMap ''function'')\<rparr>
         else le_SourceLocation e)"

definition resolveTrace :: "harnesslib \<Rightarrow> loggingEntry \<Rightarrow> hval gomap \<Rightarrow> gostring" where
  "resolveTrace lib e payload =
     (let trace = asString lib (hget payload TraceKey);
          trace = (if trace = [] then asString lib (hget payload ''otel.trace_id'') else trace)
      in if trace = [] then le_Trace e else trace)"

definition resolveSpanID :: "harnesslib \<Rightarrow> loggingEntry \<Rightarrow> hval gomap \<Rightarrow> gostring" where
  "resolveSpanID lib e payload =
     (let spanID = asString lib (hget payload SpanKey);
          spanID = (if spanID = [] then asString lib (hget payload ''otel.span_id'') else spanID)
      in if spanID = [] then le_SpanID e else spanID)"

text \<open>The resolved flag; the code also stores it in the entry.\<close>

definition resolveTraceSampled :: "loggingEntry \<Rightarrow> hval gomap \<Rightarrow> bool \<times> loggingEntry" where
  "resolveTraceSampled e payload =
     (let sampled =
            (case valueAsBool (hget payload SampledKey) of
               Some b \<Rightarrow> b
             | None \<Rightarrow>
                 (case valueAsBool (hget payload ''otel.trace_sampled'') of
                    Some b \<Rightarrow> b
                  | None \<Rightarrow> le_TraceSampled e))
      in (sampled, e \<lparr> le_TraceSampled := sampled \<rparr>))"

definition buildResource :: "loggingEntry \<Rightarrow> MonitoredResource option" where
  "buildResource e =
     (case le_Resource e of
        None \<Rightarrow> None
      | Some r \<Rightarrow> Some \<lparr>mr_Type = mr_Type r, mr_Labels = copyStringMap (mr_Labels r)\<rparr>)"

definition extractTextPayload :: "loggingEntry \<Rightarrow> gostring" where
  "extractTextPayload e = (case le_Payload e of PText s \<Rightarrow> s | _ \<Rightarrow> [])"

definition operationKey :: gostring where
  "operationKey = ''logging.googleapis.com/operation''"

definition setOperationPayload :: "loggingEntry \<Rightarrow> hval gomap \<Rightarrow> hval gomap" where
  "setOperationPayload e payload =
     (case le_Operation e of
        None \<Rightarrow> payload
      | Some op \<Rightarrow>
          mput operationKey
            (HMap [(''id'', HStr (op_Id op)), (''producer'', HStr (op_Producer op)),
                   (''first'', HBool (op_First op)), (''last'', HBool (op_Last op))]) payload)"

text \<open>
  A payload that is a map is changed in place: the entry keeps the changed map. The result is
  the entry afterwards and the error or the projection.
\<close>

definition keep_payload :: "hval gomap \<Rightarrow> loggingEntry \<Rightarrow> loggingEntry" where
  "keep_payload payload e =
     (case le_Payload e of PMap m \<Rightarrow> e \<lparr> le_Payload := PMap payload \<rparr> | _ \<Rightarrow> e)"

definition newLogEntry ::
  "harnesslib \<Rightarrow> loggingEntry option \<Rightarrow> loggingEntry option \<times> (gostring + LogEntry)" where
  "newLogEntry lib entry =
     (case entry of
        None \<Rightarrow> (None, Inl ''nil logging entry'')
      | Some e \<Rightarrow>
          (case normalizedPayload lib e of
             Inl err \<Rightarrow> (Some e, Inl err)
           | Inr payload \<Rightarrow>
               (let severity = resolveEntrySeverity lib e payload;
                    (labels, payload) = mergedEntryLabels lib e payload;
                    http = mergedHTTPRequest lib e payload;
                    src = extractSourceLocation lib e payload;
                    trace = resolveTrace lib e payload;
                    spanID = resolveSpanID lib e payload;
                    (sampled, e) = resolveTraceSampled e payload;
                    resource = buildResource e;
                    text = extractTextPayload e;
                    payload = setOperationPayload e payload
                in (Some (keep_payload payload e),
                    Inr \<lparr>Payload = Some payload, Severity = severity, Timestamp = le_Timestamp e,
                         LogName = le_LogName e, Trace = trace, SpanID = spanID, TraceSampled = sampled,
                         Labels = labels, HTTPRequestMap = http, Source = src, Resource = resource,
                         InsertID = le_InsertID e, TextPayload = text\<rparr>))))"

end
