(* ===== verification/HarnessChecks.thy ===== *)
theory HarnessChecks
  imports HarnessEntry
begin

text \<open>
  The checks the end-to-end harness applies to a log entry it has read back:
  \<^verbatim>\<open>log_validators.go\<close>. A Go map that is iterated is the list of its entries in
  the order of the iteration. The clock is an argument. Of the three maps an entry holds only
  the payload can be told nil from empty.
\<close>

section \<open>Results\<close>

datatype detail = DVal hval | DTime gotime | DLabels "gostring gomap" | DResource MonitoredResource

record Result =
  Valid :: bool
  Message :: gostring
  Details :: "detail gomap"

abbreviation invalid :: "gostring \<Rightarrow> Result" where
  "invalid msg \<equiv> \<lparr>Valid = False, Message = msg, Details = []\<rparr>"

abbreviation accepted :: "gostring \<Rightarrow> Result" where
  "accepted msg \<equiv> \<lparr>Valid = True, Message = msg, Details = []\<rparr>"

record LogValidator =
  expectedProjectID :: gostring

definition NewLogValidator :: "gostring \<Rightarrow> LogValidator" where
  "NewLogValidator projectID = \<lparr>expectedProjectID = projectID\<rparr>"

record OperationExpectation =
  ox_ID :: gostring
  ox_Producer :: gostring
  ox_First :: bool
  ox_Last :: bool

section \<open>Reading values\<close>

text \<open>\<^verbatim>\<open>%v\<close>: exact on the kinds whose text is fixed, a parameter on the others.\<close>

definition percent_v :: "harnesslib \<Rightarrow> hval \<Rightarrow> gostring" where
  "percent_v lib v =
     (case v of
        HNil \<Rightarrow> ''<nil>''
      | HStr s \<Rightarrow> s
      | HNumber s \<Rightarrow> s
      | HStringer s \<Rightarrow> s
      | HBool b \<Rightarrow> (if b then ''true'' else ''false'')
      | HInt i \<Rightarrow> FormatInt i
      | HInt32 i \<Rightarrow> FormatInt i
      | HInt64 i \<Rightarrow> FormatInt i
      | HUint n \<Rightarrow> FormatInt (int n)
      | HUint32 n \<Rightarrow> FormatInt (int n)
      | HUint64 n \<Rightarrow> FormatInt (int n)
      | HOther s \<Rightarrow> s
      | _ \<Rightarrow> Sprintf_v lib v)"

text \<open>Unlike its namesake in \<^verbatim>\<open>log_entry.go\<close>, this one accepts generic maps only.\<close>

definition checks_extractMap :: "hval \<Rightarrow> hval gomap" where
  "checks_extractMap v = (case v of HMap m \<Rightarrow> m | _ \<Rightarrow> [])"

definition extractSlice :: "hval \<Rightarrow> hval list" where
  "extractSlice v = (case v of HSlice xs \<Rightarrow> xs | _ \<Rightarrow> [])"

definition valueToString :: "harnesslib \<Rightarrow> hval \<Rightarrow> gostring" where
  "valueToString lib v = (case v of HNil \<Rightarrow> [] | _ \<Rightarrow> percent_v lib v)"

definition parseStringBool :: "gostring \<Rightarrow> bool option" where
  "parseStringBool value =
     (let lower = ToLower (TrimSpace value)
      in if lower = [] then None
         else if lower \<in> set [''true'', ''1'', ''t''] then Some True
         else if lower \<in> set [''false'', ''0'', ''f''] then Some False
         else None)"

definition parseNumericBoolString :: "gostring \<Rightarrow> bool" where
  "parseNumericBoolString value \<longleftrightarrow> TrimSpace value \<noteq> ''0''"

definition valueToBool :: "harnesslib \<Rightarrow> hval \<Rightarrow> bool" where
  "valueToBool lib v =
     (case v of
        HBool b \<Rightarrow> b
      | HStr s \<Rightarrow> parseStringBool s = Some True
      | HFloat64 w \<Rightarrow> parseNumericBoolString (percent_v lib v)
      | HFloat32 w \<Rightarrow> parseNumericBoolString (percent_v lib v)
      | HInt i \<Rightarrow> parseNumericBoolString (percent_v lib v)
      | HInt32 i \<Rightarrow> parseNumericBoolString (percent_v lib v)
      | HInt64 i \<Rightarrow> parseNumericBoolString (percent_v lib v)
      | HUint n \<Rightarrow> parseNumericBoolString (percent_v lib v)
      | HUint32 n \<Rightarrow> parseNumericBoolString (percent_v lib v)
      | HUint64 n \<Rightarrow> parseNumericBoolString (percent_v lib v)
      | _ \<Rightarrow> False)"

definition int64ToInt :: "int \<Rightarrow> int \<Rightarrow> int \<Rightarrow> int option" where
  "int64ToInt value maxInt minInt = (if value > maxInt \<or> value < minInt then None else Some value)"

definition signedValueToInt :: "hval \<Rightarrow> int \<Rightarrow> int \<Rightarrow> int option" where
  "signedValueToInt v maxInt minInt =
     (case v of
        HInt i \<Rightarrow> Some i
      | HInt32 i \<Rightarrow> Some i
      | HInt64 i \<Rightarrow> int64ToInt i maxInt minInt
      | _ \<Rightarrow> None)"

definition parseUintToInt :: "nat \<Rightarrow> nat \<Rightarrow> int option" where
  "parseUintToInt value limit = (if value > limit then None else Atoi (FormatUint value 10))"

definition unsignedValueToInt :: "hval \<Rightarrow> nat \<Rightarrow> int option" where
  "unsignedValueToInt v limit =
     (case v of
        HUint n \<Rightarrow> parseUintToInt n limit
      | HUint32 n \<Rightarrow> parseUintToInt n limit
      | HUint64 n \<Rightarrow> parseUintToInt n limit
      | _ \<Rightarrow> None)"

text \<open>
  The comparisons of \<^verbatim>\<open>float64ToInt\<close>: the bounds are \<^verbatim>\<open>float64(maxInt)\<close>, which
  rounds to \<open>2 ^ 63\<close>, and \<open>- 2 ^ 63\<close>. A float beyond \<open>2 ^ 53\<close> is an integer, so its
  integer part decides; an infinity is beyond both bounds on its side, a NaN beyond neither.
\<close>

definition float_nan :: "64 word \<Rightarrow> bool" where
  "float_nan w \<longleftrightarrow> float_exponent w = 2047 \<and> float_fraction w \<noteq> 0"

definition float_above :: "64 word \<Rightarrow> int \<Rightarrow> bool" where
  "float_above w i \<longleftrightarrow>
     (if float_finite w then float_trunc w > i else \<not> float_nan w \<and> \<not> float_negative w)"

definition float_below :: "64 word \<Rightarrow> int \<Rightarrow> bool" where
  "float_below w i \<longleftrightarrow>
     (if float_finite w then float_trunc w < i else \<not> float_nan w \<and> float_negative w)"

definition float64ToInt :: "harnesslib \<Rightarrow> 64 word \<Rightarrow> int \<Rightarrow> int \<Rightarrow> int option" where
  "float64ToInt lib value maxValue minValue =
     (if float_above value maxValue \<or> float_below value minValue then None
      else Some (int64_of_float lib value))"

definition floatValueToInt :: "harnesslib \<Rightarrow> hval \<Rightarrow> int \<Rightarrow> int \<Rightarrow> int option" where
  "floatValueToInt lib v maxValue minValue =
     (case v of
        HFloat32 w \<Rightarrow> float64ToInt lib w maxValue minValue
      | HFloat64 w \<Rightarrow> float64ToInt lib w maxValue minValue
      | _ \<Rightarrow> None)"

definition parseStringInt :: "hval \<Rightarrow> int option" where
  "parseStringInt v =
     (case v of
        HStr s \<Rightarrow> if TrimSpace s = [] then None else Atoi (TrimSpace s)
      | _ \<Rightarrow> None)"

definition valueToInt :: "harnesslib \<Rightarrow> hval \<Rightarrow> int option" where
  "valueToInt lib v =
     (case signedValueToInt v max_int64 min_int64 of
        Some n \<Rightarrow> Some n
      | None \<Rightarrow>
          (case unsignedValueToInt v (nat max_int64) of
             Some n \<Rightarrow> Some n
           | None \<Rightarrow>
               (case floatValueToInt lib v (2 ^ 63) (- (2 ^ 63)) of
                  Some n \<Rightarrow> Some n
                | None \<Rightarrow> parseStringInt v)))"

section \<open>Severity and payload\<close>

definition ExtractPayloadMap :: "LogEntry option \<Rightarrow> hval gomap option" where
  "ExtractPayloadMap entry = (case entry of None \<Rightarrow> None | Some e \<Rightarrow> Payload e)"

definition ValidateSeverity :: "LogEntry option \<Rightarrow> Severity \<Rightarrow> Result" where
  "ValidateSeverity entry expected =
     (case entry of
        None \<Rightarrow> invalid ''log entry is nil''
      | Some e \<Rightarrow>
          if Severity e \<noteq> expected
          then \<lparr>Valid = False,
                Message = ''severity mismatch: got '' @ Severity e @ '', want '' @ expected,
                Details = [(''got'', DVal (HStr (Severity e))), (''want'', DVal (HStr expected))]\<rparr>
          else accepted ''severity matches'')"

text \<open>The loop of \<^verbatim>\<open>ValidatePayload\<close>: the first wrong field, or the missing ones.\<close>

fun check_fields ::
  "harnesslib \<Rightarrow> hval gomap \<Rightarrow> hval gomap \<Rightarrow> gostring list \<Rightarrow> gostring + gostring list" where
  "check_fields lib payload [] missing = Inr missing"
| "check_fields lib payload ((key, expectedValue) # rest) missing =
     (case map_of payload key of
        None \<Rightarrow> check_fields lib payload rest (missing @ [key])
      | Some actual \<Rightarrow>
          if percent_v lib actual \<noteq> percent_v lib expectedValue
          then Inl (''field '' @ key @ '' mismatch: got '' @ percent_v lib actual @
                    '', want '' @ percent_v lib expectedValue)
          else check_fields lib payload rest missing)"

text \<open>\<^verbatim>\<open>%v\<close> of a list of strings.\<close>

definition percent_v_strings :: "gostring list \<Rightarrow> gostring" where
  "percent_v_strings xs = ''['' @ concat (case xs of [] \<Rightarrow> [] | y # ys \<Rightarrow> y # map (\<lambda>z. CHR '' '' # z) ys) @ '']''"

definition ValidatePayload :: "harnesslib \<Rightarrow> LogEntry option \<Rightarrow> hval gomap \<Rightarrow> Result" where
  "ValidatePayload lib entry expectedContent =
     (case entry of
        None \<Rightarrow> invalid ''log entry is nil''
      | Some e \<Rightarrow>
          (case Payload e of
             None \<Rightarrow> invalid ''payload is nil''
           | Some payload \<Rightarrow>
               (case check_fields lib payload expectedContent [] of
                  Inl msg \<Rightarrow> invalid msg
                | Inr missing \<Rightarrow>
                    if missing \<noteq> []
                    then \<lparr>Valid = False, Message = ''missing fields: '' @ percent_v_strings missing,
                          Details = [(''payload'', DVal (HMap payload))]\<rparr>
                    else accepted ''payload matches expected content'')))"

text \<open>Indexing a nil map finds nothing.\<close>

definition payload_of :: "LogEntry \<Rightarrow> hval gomap" where
  "payload_of e = (case Payload e of None \<Rightarrow> [] | Some m \<Rightarrow> m)"

definition bool_text :: "bool \<Rightarrow> gostring" where
  "bool_text b = (if b then ''true'' else ''false'')"

definition ValidateOperation :: "harnesslib \<Rightarrow> LogEntry option \<Rightarrow> OperationExpectation \<Rightarrow> Result" where
  "ValidateOperation lib entry expected =
     (case entry of
        None \<Rightarrow> invalid ''log entry is nil''
      | Some e \<Rightarrow>
          (let opMap = checks_extractMap (hget (payload_of e) ''logging.googleapis.com/operation'') in
           if opMap = [] then invalid ''operation metadata is missing''
           else
             (let id = valueToString lib (hget opMap ''id'');
                  producer = valueToString lib (hget opMap ''producer'');
                  first = valueToBool lib (hget opMap ''first'');
                  last = valueToBool lib (hget opMap ''last'');
                  details = [(''id'', DVal (HStr id)), (''producer'', DVal (HStr producer)),
                             (''first'', DVal (HBool first)), (''last'', DVal (HBool last))]
              in if ox_ID expected \<noteq> [] \<and> id \<noteq> ox_ID expected
                 then \<lparr>Valid = False,
                       Message = ''operation id mismatch: got '' @ id @ '', want '' @ ox_ID expected,
                       Details = details\<rparr>
                 else if ox_Producer expected \<noteq> [] \<and> producer \<noteq> ox_Producer expected
                 then \<lparr>Valid = False,
                       Message = ''operation producer mismatch: got '' @ producer @ '', want '' @ ox_Producer expected,
                       Details = details\<rparr>
                 else if first \<noteq> ox_First expected
                 then \<lparr>Valid = False,
                       Message = ''operation first mismatch: got '' @ bool_text first @ '', want '' @
                         bool_text (ox_First expected),
                       Details = details\<rparr>
                 else if last \<noteq> ox_Last expected
                 then \<lparr>Valid = False,
                       Message = ''operation last mismatch: got '' @ bool_text last @ '', want '' @
                         bool_text (ox_Last expected),
                       Details = details\<rparr>
                 else \<lparr>Valid = True, Message = ''operation metadata matches'', Details = details\<rparr>)))"

section \<open>Source location and time\<close>

definition HasSuffix :: "gostring \<Rightarrow> gostring \<Rightarrow> bool" where
  "HasSuffix s p \<longleftrightarrow> suffix p s"

definition ValidateSourceLocation :: "LogEntry option \<Rightarrow> gostring \<Rightarrow> gostring \<Rightarrow> Result" where
  "ValidateSourceLocation entry expectedFileFragment expectedFuncSuffix =
     (case entry of
        None \<Rightarrow> invalid ''log entry is nil''
      | Some e \<Rightarrow>
          (case Source e of
             None \<Rightarrow> invalid ''source location is missing''
           | Some src \<Rightarrow>
               (let details = [(''file'', DVal (HStr (sl_File src))), (''line'', DVal (HInt64 (sl_Line src))),
                               (''function'', DVal (HStr (sl_Function src)))]
                in if sl_Line src \<le> 0
                   then \<lparr>Valid = False, Message = ''invalid source line: '' @ FormatInt (sl_Line src),
                         Details = details\<rparr>
                   else if expectedFileFragment \<noteq> [] \<and> \<not> Contains (sl_File src) expectedFileFragment
                   then \<lparr>Valid = False, Message = ''unexpected source file: '' @ sl_File src,
                         Details = details\<rparr>
                   else if expectedFuncSuffix \<noteq> [] \<and> \<not> HasSuffix (sl_Function src) expectedFuncSuffix
                   then \<lparr>Valid = False, Message = ''unexpected source function: '' @ sl_Function src,
                         Details = details\<rparr>
                   else \<lparr>Valid = True, Message = ''source location is valid'', Details = details\<rparr>)))"

definition ValidateTimestamp :: "int \<Rightarrow> LogEntry option \<Rightarrow> int \<Rightarrow> Result" where
  "ValidateTimestamp now entry maxAge =
     (case entry of
        None \<Rightarrow> invalid ''log entry is nil''
      | Some e \<Rightarrow>
          (if unix_ns (Timestamp e) = unix_ns zero_time then invalid ''timestamp is zero''
           else
             (let age = now - unix_ns (Timestamp e)
              in if age > maxAge
                 then \<lparr>Valid = False, Message = ''timestamp too old: '' @ Duration_String age @ '' ago'',
                       Details = [(''timestamp'', DTime (Timestamp e)), (''age'', DVal (HStr (Duration_String age)))]\<rparr>
                 else if age < 0
                 then \<lparr>Valid = False, Message = ''timestamp is in the future'',
                       Details = [(''timestamp'', DTime (Timestamp e))]\<rparr>
                 else accepted ''timestamp is valid'')))"

section \<open>Labels and resource\<close>

definition sget :: "gostring gomap \<Rightarrow> gostring \<Rightarrow> gostring" where
  "sget m k = (case map_of m k of Some s \<Rightarrow> s | None \<Rightarrow> [])"

definition validateServiceNameLabels :: "gostring gomap \<Rightarrow> gostring gomap \<Rightarrow> gostring \<Rightarrow> gostring" where
  "validateServiceNameLabels labels resourceLabels serviceName =
     (let lbl = sget labels ''cloud_run.service'' in
      if lbl \<noteq> [] \<and> lbl \<noteq> serviceName
      then ''cloud_run.service mismatch: got '' @ lbl @ '', want '' @ serviceName
      else (let lbl = sget resourceLabels ''service_name'' in
            if lbl \<noteq> [] \<and> lbl \<noteq> serviceName
            then ''resource service_name mismatch: got '' @ lbl @ '', want '' @ serviceName
            else []))"

definition validateRevisionLabels :: "gostring gomap \<Rightarrow> gostring gomap \<Rightarrow> gostring \<Rightarrow> gostring" where
  "validateRevisionLabels labels resourceLabels revision =
     (if revision = [] then []
      else (let lbl = sget labels ''cloud_run.revision'' in
            if lbl \<noteq> [] \<and> lbl \<noteq> revision
            then ''cloud_run.revision mismatch: got '' @ lbl @ '', want '' @ revision
            else (let lbl = sget resourceLabels ''revision_name'' in
                  if lbl \<noteq> [] \<and> lbl \<noteq> revision
                  then ''resource revision_name mismatch: got '' @ lbl @ '', want '' @ revision
                  else [])))"

definition validateCoreResourceLabelConsistency ::
  "gostring gomap \<Rightarrow> gostring gomap \<Rightarrow> gostring \<Rightarrow> gostring \<Rightarrow> gostring" where
  "validateCoreResourceLabelConsistency labels resourceLabels serviceName revision =
     (if serviceName = [] then ''serviceContext missing service''
      else (let mismatch = validateServiceNameLabels labels resourceLabels serviceName
            in if mismatch \<noteq> [] then mismatch
               else validateRevisionLabels labels resourceLabels revision))"

definition validateProjectID :: "gostring \<Rightarrow> gostring \<Rightarrow> gostring \<Rightarrow> gostring" where
  "validateProjectID field value expected =
     (if value = [] \<or> value = expected then []
      else field @ '' mismatch: got '' @ value @ '', want '' @ expected)"

definition validateRegionAndProject :: "gostring gomap \<Rightarrow> gostring gomap \<Rightarrow> gostring \<Rightarrow> gostring" where
  "validateRegionAndProject labels resourceLabels expected =
     (let region = sget labels ''cloud_run.region'';
          region = (if region = [] then sget resourceLabels ''location'' else region)
      in if region = [] then ''region label missing''
         else (let mismatch = validateProjectID ''project_id'' (sget labels ''project_id'') expected
               in if mismatch \<noteq> [] then mismatch
                  else validateProjectID ''resource project_id'' (sget resourceLabels ''project_id'') expected))"

definition ValidateResourceLabels :: "harnesslib \<Rightarrow> LogValidator \<Rightarrow> LogEntry option \<Rightarrow> Result" where
  "ValidateResourceLabels lib v entry =
     (case entry of
        None \<Rightarrow> invalid ''log entry is nil''
      | Some e \<Rightarrow>
          (case Resource e of
             None \<Rightarrow> invalid ''resource labels are missing''
           | Some resource \<Rightarrow>
               if mr_Labels resource = [] then invalid ''resource labels are missing''
               else
                 (let serviceCtx = checks_extractMap (hget (payload_of e) ''serviceContext'');
                      serviceName = valueToString lib (hget serviceCtx ''service'');
                      revision = valueToString lib (hget serviceCtx ''version'');
                      labels = Labels e;
                      details = [(''labels'', DLabels labels), (''serviceContext'', DVal (HMap serviceCtx)),
                                 (''resource'', DResource resource),
                                 (''resourceLabels'', DLabels (mr_Labels resource))];
                      mismatch = validateCoreResourceLabelConsistency labels (mr_Labels resource) serviceName revision
                  in if mismatch \<noteq> [] then \<lparr>Valid = False, Message = mismatch, Details = details\<rparr>
                     else (let mismatch = validateRegionAndProject labels (mr_Labels resource) (expectedProjectID v)
                           in if mismatch \<noteq> [] then \<lparr>Valid = False, Message = mismatch, Details = details\<rparr>
                              else \<lparr>Valid = True, Message = ''resource labels are valid'', Details = details\<rparr>))))"

text \<open>The loop of \<^verbatim>\<open>ValidateLabels\<close>: the messages of the labels that do not match.\<close>

definition label_mismatches :: "gostring gomap \<Rightarrow> gostring gomap \<Rightarrow> gostring list" where
  "label_mismatches labels expectedLabels =
     concat (map (\<lambda>(key, expectedValue).
       case map_of labels key of
         None \<Rightarrow> [''missing label '' @ key]
       | Some actualValue \<Rightarrow>
           if actualValue \<noteq> expectedValue
           then [''label '' @ key @ '': got '' @ actualValue @ '', want '' @ expectedValue] else [])
       expectedLabels)"

definition ValidateLabels :: "LogEntry option \<Rightarrow> gostring gomap \<Rightarrow> Result" where
  "ValidateLabels entry expectedLabels =
     (if expectedLabels = [] then accepted ''no labels to validate''
      else case entry of
             None \<Rightarrow> invalid ''log entry is nil''
           | Some e \<Rightarrow>
               (if Labels e = [] then invalid ''labels are empty''
                else (let mismatches = label_mismatches (Labels e) expectedLabels
                      in if mismatches \<noteq> []
                         then \<lparr>Valid = False, Message = ''label mismatches: '' @ percent_v_strings mismatches,
                               Details = [(''labels'', DLabels (Labels e))]\<rparr>
                         else accepted ''labels match'')))"

section \<open>Log name\<close>

text \<open>
  \<^verbatim>\<open>url.PathUnescape\<close>; \<open>None\<close> is an error, with which it returns the empty string.
\<close>

fun PathUnescape :: "gostring \<Rightarrow> gostring option" where
  "PathUnescape [] = Some []"
| "PathUnescape (c # cs) =
     (if c = CHR ''%'' then
        (case cs of
           a # b # rest \<Rightarrow>
             (case (digit_value a, digit_value b) of
                (Some x, Some y) \<Rightarrow>
                  if x < 16 \<and> y < 16 then map_option (\<lambda>s. char_of (16 * x + y) # s) (PathUnescape rest) else None
              | _ \<Rightarrow> None)
         | _ \<Rightarrow> None)
      else map_option (\<lambda>s. c # s) (PathUnescape cs))"

definition decoded :: "gostring \<Rightarrow> gostring" where
  "decoded s = (case PathUnescape s of Some d \<Rightarrow> d | None \<Rightarrow> [])"

definition ValidateLogName :: "LogValidator \<Rightarrow> LogEntry option \<Rightarrow> gostring \<Rightarrow> Result" where
  "ValidateLogName v entry expectedLogName =
     (case entry of
        None \<Rightarrow> invalid ''log entry is nil''
      | Some e \<Rightarrow>
          (if LogName e = [] then invalid ''log name is empty''
           else
             (let expectedPrefix = ''projects/'' @ expectedProjectID v @ ''/logs/''
              in if \<not> HasPrefix (LogName e) expectedPrefix
                 then invalid (''log name has wrong prefix: '' @ LogName e)
                 else
                   (let actualDecoded = decoded (TrimPrefix (LogName e) expectedPrefix);
                        expectedDecoded = decoded (TrimPrefix expectedLogName expectedPrefix)
                    in if expectedLogName \<noteq> [] \<and> LogName e \<noteq> expectedLogName \<and> actualDecoded \<noteq> expectedDecoded
                       then invalid (''log name mismatch: got '' @ LogName e @ '' (decoded: '' @ actualDecoded @
                              ''), want '' @ expectedLogName @ '' (decoded: '' @ expectedDecoded @ '')'')
                       else \<lparr>Valid = True, Message = ''log name is valid'',
                             Details = [(''logName'', DVal (HStr (LogName e)))]\<rparr>))))"

section \<open>Structure\<close>

definition quoted :: "gostring \<Rightarrow> gostring" where
  "quoted s = CHR 0x27 # s @ [CHR 0x27]"

definition ValidateStructuredPayload :: "LogEntry option \<Rightarrow> Result" where
  "ValidateStructuredPayload entry =
     (case entry of
        None \<Rightarrow> invalid ''log entry is nil''
      | Some e \<Rightarrow>
          (if payload_of e = [] then invalid ''structured payload is empty''
           else if map_of (payload_of e) ''message'' = None
           then invalid (''structured payload missing '' @ quoted ''message'' @ '' field'')
           else \<lparr>Valid = True, Message = ''structured payload is valid'',
                 Details = [(''fieldCount'', DVal (HInt (int (length (payload_of e)))))]\<rparr>))"

definition ValidateHTTPRequest :: "harnesslib \<Rightarrow> LogEntry option \<Rightarrow> Result" where
  "ValidateHTTPRequest lib entry =
     (case entry of
        None \<Rightarrow> invalid ''log entry is nil''
      | Some e \<Rightarrow>
          (let httpPayload = checks_extractMap (hget (payload_of e) ''httpRequest'');
               httpPayload = (if httpPayload = [] then HTTPRequestMap e else httpPayload)
           in if httpPayload = [] then invalid ''httpRequest metadata is missing''
              else
                (let method = valueToString lib (hget httpPayload ''requestMethod'');
                     requestURL = valueToString lib (hget httpPayload ''requestUrl'');
                     status = (case valueToInt lib (hget httpPayload ''status'') of Some n \<Rightarrow> n | None \<Rightarrow> 0);
                     details = [(''method'', DVal (HStr method)), (''url'', DVal (HStr requestURL)),
                                (''status'', DVal (HInt status))]
                 in if method = [] \<or> requestURL = []
                    then \<lparr>Valid = False, Message = ''httpRequest metadata missing method or url'',
                          Details = details\<rparr>
                    else \<lparr>Valid = True, Message = ''httpRequest metadata is valid'', Details = details\<rparr>)))"

text \<open>\<^verbatim>\<open>%v\<close> of a slice of values.\<close>

definition percent_v_slice :: "harnesslib \<Rightarrow> hval list \<Rightarrow> gostring" where
  "percent_v_slice lib xs = percent_v_strings (map (percent_v lib) xs)"

definition ValidateNestedStructure :: "harnesslib \<Rightarrow> LogEntry option \<Rightarrow> Result" where
  "ValidateNestedStructure lib entry =
     (case entry of
        None \<Rightarrow> invalid ''log entry is nil''
      | Some e \<Rightarrow>
          (case Payload e of
             None \<Rightarrow> invalid ''payload is nil''
           | Some payload \<Rightarrow>
               (let level1 = checks_extractMap (hget (checks_extractMap (hget payload ''attributes'')) ''level1'');
                    level1 = (if level1 = [] then checks_extractMap (hget payload ''level1'') else level1)
                in if level1 = []
                   then \<lparr>Valid = False, Message = ''level1 not found in payload'',
                         Details = [(''payload'', DVal (HMap payload))]\<rparr>
                   else
                     (let level2 = checks_extractMap (hget level1 ''level2'')
                      in if level2 = []
                         then \<lparr>Valid = False, Message = ''level2 not found or not a map'',
                               Details = [(''level1'', DVal (HMap level1))]\<rparr>
                         else
                           (let val = valueToString lib (hget level2 ''level3'');
                                items = extractSlice (hget level2 ''array'')
                            in if val \<noteq> ''deep-value''
                               then \<lparr>Valid = False,
                                     Message = ''level3 not preserved correctly: got '' @ val @ '', want '' @ quoted ''deep-value'',
                                     Details = [(''level2'', DVal (HMap level2))]\<rparr>
                               else if length items \<noteq> 2
                               then \<lparr>Valid = False,
                                     Message = ''array not preserved correctly: got '' @ percent_v_slice lib items,
                                     Details = [(''level2'', DVal (HMap level2))]\<rparr>
                               else if percent_v lib (items ! 0) \<noteq> ''item1'' \<or> percent_v lib (items ! 1) \<noteq> ''item2''
                               then invalid (''array contents incorrect: got ['' @ percent_v lib (items ! 0) @ '', '' @
                                      percent_v lib (items ! 1) @ '']'')
                               else \<lparr>Valid = True, Message = ''nested structure validated successfully'',
                                     Details = [(''depth'', DVal (HInt 3)), (''arrayLength'', DVal (HInt 2))]\<rparr>)))))"

end
