(* ===== verification/HarnessJson.thy ===== *)
theory HarnessJson
  imports HarnessChecks
begin

text \<open>
  What becomes of a value of the library on its way to the harness: it is encoded as JSON and
  decoded into an interface, where numbers are \<^verbatim>\<open>float64\<close>s. The interface
  \<open>json_reader\<close> states what the reading of an entry relies on.
\<close>

section \<open>Integers as floats\<close>

fun top_bit :: "nat \<Rightarrow> nat" where
  "top_bit n = (if n < 2 then 0 else Suc (top_bit (n div 2)))"

declare top_bit.simps [simp del]

text \<open>The \<^verbatim>\<open>float64\<close> of an integer below \<open>2 ^ 53\<close>, which is exact.\<close>

definition float_bits :: "nat \<Rightarrow> nat" where
  "float_bits n =
     (if n = 0 then 0
      else (1023 + top_bit n) * 2 ^ 52 + (n * 2 ^ (52 - top_bit n) - 2 ^ 52))"

definition float_of_int :: "int \<Rightarrow> 64 word" where
  "float_of_int i = word_of_nat ((if i < 0 then 2 ^ 63 else 0) + float_bits (nat (abs i)))"

lemma top_bit_bounds: "0 < n \<Longrightarrow> 2 ^ top_bit n \<le> n \<and> n < 2 ^ Suc (top_bit n)"
proof (induction n rule: top_bit.induct)
  case (1 n)
  show ?case
  proof (cases "n < 2")
    case True
    then show ?thesis using "1.prems" by (simp add: top_bit.simps [of n])
  next
    case False
    then have "2 ^ top_bit (n div 2) \<le> n div 2 \<and> n div 2 < 2 ^ Suc (top_bit (n div 2))"
      by (intro "1.IH") auto
    then show ?thesis using False by (auto simp: top_bit.simps [of n])
  qed
qed

lemma top_bit_small:
  assumes "0 < n" and "n < 2 ^ 53"
  shows "top_bit n \<le> 52"
proof -
  have "(2::nat) ^ top_bit n < 2 ^ 53"
    using top_bit_bounds [OF assms(1)] assms(2) by linarith
  then have "top_bit n < 53" by (rule power_less_imp_less_exp [rotated]) simp
  then show ?thesis by simp
qed

lemma scaled_bounds:
  assumes "0 < n" and "n < 2 ^ 53"
  shows "2 ^ 52 \<le> n * 2 ^ (52 - top_bit n)" and "n * 2 ^ (52 - top_bit n) < 2 * 2 ^ 52"
proof -
  let ?t = "top_bit n"
  have t: "?t \<le> 52" using assms by (rule top_bit_small)
  have b: "2 ^ ?t \<le> n" "n < 2 * 2 ^ ?t" using top_bit_bounds [OF assms(1)] by auto
  have p: "(2::nat) ^ ?t * 2 ^ (52 - ?t) = 2 ^ 52" using t by (simp flip: power_add)
  have "2 ^ ?t * 2 ^ (52 - ?t) \<le> n * 2 ^ (52 - ?t)" using b(1) by simp
  then show "2 ^ 52 \<le> n * 2 ^ (52 - ?t)" using p by metis
  have "n * 2 ^ (52 - ?t) < 2 * 2 ^ ?t * 2 ^ (52 - ?t)" using b(2) by simp
  then show "n * 2 ^ (52 - ?t) < 2 * 2 ^ 52" using p by (metis mult.assoc)
qed

lemma float_bits_split:
  assumes "0 < n" and "n < 2 ^ 53"
  shows "float_bits n div 2 ^ 52 = 1023 + top_bit n"
    and "2 ^ 52 + float_bits n mod 2 ^ 52 = n * 2 ^ (52 - top_bit n)"
    and "float_bits n < 2 ^ 63"
proof -
  define f where "f = n * 2 ^ (52 - top_bit n) - (2::nat) ^ 52"
  have f: "f < 2 ^ 52" "2 ^ 52 + f = n * 2 ^ (52 - top_bit n)"
    using scaled_bounds [OF assms] by (auto simp: f_def)
  have eq: "float_bits n = (1023 + top_bit n) * 2 ^ 52 + f"
    using assms by (simp add: float_bits_def f_def)
  show "float_bits n div 2 ^ 52 = 1023 + top_bit n" unfolding eq using f(1) by simp
  have "((1023 + top_bit n) * 2 ^ 52 + f) mod 2 ^ 52 = f"
    unfolding mod_mult_self3 using f(1) by (rule mod_less)
  then show "2 ^ 52 + float_bits n mod 2 ^ 52 = n * 2 ^ (52 - top_bit n)" unfolding eq using f(2) by simp
  have "(1023 + top_bit n) * 2 ^ 52 \<le> 1075 * (2::nat) ^ 52"
    using top_bit_small [OF assms] by simp
  then show "float_bits n < 2 ^ 63" unfolding eq using f(1) by simp
qed

lemma float_of_int_unat:
  assumes "abs i < 2 ^ 53"
  shows "unat (float_of_int i) = (if i < 0 then 2 ^ 63 else 0) + float_bits (nat (abs i))"
    and "float_bits (nat (abs i)) < 2 ^ 63"
proof -
  show b: "float_bits (nat (abs i)) < 2 ^ 63"
  proof (cases "i = 0")
    case False
    then show ?thesis using assms by (intro float_bits_split) auto
  qed (simp add: float_bits_def)
  have s: "(if i < 0 then 2 ^ 63 else (0::nat)) \<le> 2 ^ 63" by simp
  have "(if i < 0 then 2 ^ 63 else 0) + float_bits (nat (abs i)) < 2 ^ 63 + 2 ^ 63"
    by (rule add_le_less_mono [OF s b])
  then have "(if i < 0 then 2 ^ 63 else 0) + float_bits (nat (abs i)) < 2 ^ 64" by simp
  then show "unat (float_of_int i) = (if i < 0 then 2 ^ 63 else 0) + float_bits (nat (abs i))"
    unfolding float_of_int_def unat_of_nat by (intro mod_less) simp
qed

lemma float_of_int_parts:
  assumes "abs i < 2 ^ 53" and "i \<noteq> 0"
  shows "float_exponent (float_of_int i) = 1023 + top_bit (nat (abs i))"
    and "2 ^ 52 + float_fraction (float_of_int i) = nat (abs i) * 2 ^ (52 - top_bit (nat (abs i)))"
    and "float_negative (float_of_int i) \<longleftrightarrow> i < 0"
proof -
  define n where "n = nat (abs i)"
  have n: "0 < n" "n < 2 ^ 53" using assms by (auto simp: n_def)
  note sp = float_bits_split [OF n]
  define sg where "sg = (if i < 0 then 2 ^ 63 else (0::nat))"
  have u: "unat (float_of_int i) = sg + float_bits n"
    using float_of_int_unat(1) [OF assms(1)] by (simp add: n_def sg_def)
  have sgd: "sg = (if i < 0 then 2048 else 0) * 2 ^ 52" by (simp add: sg_def)
  have d: "(sg + float_bits n) div 2 ^ 52 = (if i < 0 then 2048 else 0) + float_bits n div 2 ^ 52"
    unfolding sgd by (rule div_mult_self3) simp
  have "top_bit n \<le> 52" using n by (rule top_bit_small)
  then have "((if i < 0 then 2048 else 0) + (1023 + top_bit n)) mod 2 ^ 11 = 1023 + top_bit n"
    using mod_add_self1 [of 2048 "1023 + top_bit n"] by simp
  then show "float_exponent (float_of_int i) = 1023 + top_bit (nat (abs i))"
    unfolding float_exponent_def u d sp(1) n_def [symmetric] .
  have "(sg + float_bits n) mod 2 ^ 52 = float_bits n mod 2 ^ 52"
    unfolding sgd by (rule mod_mult_self3)
  then show "2 ^ 52 + float_fraction (float_of_int i) = nat (abs i) * 2 ^ (52 - top_bit (nat (abs i)))"
    unfolding float_fraction_def u n_def [symmetric] using sp(2) by simp
  show "float_negative (float_of_int i) \<longleftrightarrow> i < 0"
    unfolding float_negative_def u using sp(3) by (simp add: sg_def)
qed

text \<open>An integer below \<open>2 ^ 53\<close> survives the trip through a \<^verbatim>\<open>float64\<close>.\<close>

lemma float_trunc_of_int:
  assumes "abs i < 2 ^ 53"
  shows "float_trunc (float_of_int i) = i"
proof (cases "i = 0")
  case True
  have "float_of_int 0 = 0" by (simp add: float_of_int_def float_bits_def)
  then show ?thesis
    unfolding True by (simp add: float_trunc_def float_exponent_def float_fraction_def float_negative_def)
next
  case False
  define t where "t = top_bit (nat (abs i))"
  note parts = float_of_int_parts [OF assms False, folded t_def]
  have t: "t \<le> 52" unfolding t_def using assms False by (intro top_bit_small) auto
  have "(if 1075 \<le> 1023 + t then nat (abs i) * 2 ^ (52 - t) * 2 ^ (1023 + t - 1075)
         else nat (abs i) * 2 ^ (52 - t) div 2 ^ (1075 - (1023 + t))) = nat (abs i)"
    using t by (cases "t = 52") (auto simp: nat_diff_split)
  then show ?thesis
    unfolding float_trunc_def Let_def parts(1) parts(3) using parts(2) by auto
qed

lemma int64_of_float_of_int:
  assumes "abs i < 2 ^ 53"
  shows "int64_of_float lib (float_of_int i) = i"
proof -
  have "float_finite (float_of_int i)"
  proof (cases "i = 0")
    case True
    then show ?thesis by (simp add: float_finite_def float_exponent_def float_of_int_def float_bits_def)
  next
    case False
    have "top_bit (nat (abs i)) \<le> 52" using assms False by (intro top_bit_small) auto
    then show ?thesis using float_of_int_parts(1) [OF assms False] by (simp add: float_finite_def)
  qed
  moreover have "in_int64 i" using assms by (auto simp: in_int64_def max_int64_def min_int64_def)
  ultimately show ?thesis by (simp add: int64_of_float_def float_trunc_of_int [OF assms])
qed

section \<open>Decoded values\<close>

text \<open>
  Values with an encoding of their own (errors, other types) and integers beyond
  \<open>2 ^ 53\<close> are read back as the parameter \<open>opaque\<close> says.
\<close>

definition scalar_image :: "(goany \<Rightarrow> hval) \<Rightarrow> goany \<Rightarrow> hval" where
  "scalar_image opaque v =
     (case v of
        GNil \<Rightarrow> HNil
      | GBool b \<Rightarrow> HBool b
      | GInt i \<Rightarrow> if abs i < 2 ^ 53 then HFloat64 (float_of_int i) else opaque v
      | GUint n \<Rightarrow> if n < 2 ^ 53 then HFloat64 (float_of_int (int n)) else opaque v
      | GFloat w \<Rightarrow> HFloat64 w
      | GString s \<Rightarrow> HStr s
      | _ \<Rightarrow> opaque v)"

definition fields_image :: "('a \<Rightarrow> hval) \<Rightarrow> 'a gomap \<Rightarrow> hval gomap" where
  "fields_image f m = map (\<lambda>e. (fst e, f (snd e))) m"

lemma fields_image_cong [fundef_cong]:
  "m = n \<Longrightarrow> (\<And>e. e \<in> set n \<Longrightarrow> f (snd e) = g (snd e)) \<Longrightarrow> fields_image f m = fields_image g n"
  by (simp add: fields_image_def)

fun json_image :: "(goany \<Rightarrow> hval) \<Rightarrow> goany \<Rightarrow> hval" where
  "json_image opaque (GMap m) = HMap (fields_image (json_image opaque) m)"
| "json_image opaque (GStringMap m) = HMap (fields_image HStr m)"
| "json_image opaque (GSource src) =
     HMap [(''file'', HStr (sl_File src)), (''line'', scalar_image opaque (GInt (sl_Line src))),
           (''function'', HStr (sl_Function src))]"
| "json_image opaque (GHTTPPayload p) = HMap (fields_image (scalar_image opaque) (payload_map p))"
| "json_image opaque v = scalar_image opaque v"

lemma map_of_fields_image: "map_of (fields_image f m) k = map_option f (map_of m k)"
  by (induction m) (auto simp: fields_image_def)

lemma fields_image_Nil_iff [simp]: "fields_image f m = [] \<longleftrightarrow> m = []"
  by (simp add: fields_image_def)

lemma keys_fields_image [simp]: "map fst (fields_image f m) = map fst m"
  by (simp add: fields_image_def)

section \<open>What reading relies on\<close>

locale json_reader =
  fixes read :: "goany \<Rightarrow> hval" and lib :: harnesslib
  assumes read_string: "read (GString s) = HStr s"
    and read_bool: "read (GBool b) = HBool b"
    and read_labels: "read (GStringMap m) = HMap (fields_image HStr m)"
    and read_source: "\<exists>line. read (GSource src) =
          HMap [(''file'', HStr (sl_File src)), (''line'', line), (''function'', HStr (sl_Function src))]
        \<and> (abs (sl_Line src) < 2 ^ 53 \<longrightarrow> asInt64 lib line = sl_Line src)"

interpretation json: json_reader "json_image opaque" lib
  by unfold_locales (simp_all add: scalar_image_def asInt64_def int64_of_float_of_int)

text \<open>
  What the logging service may do to an entry on its way: a special field of the payload stays
  where it is, or moves to the field of the entry that has its meaning. Everything else of the
  payload stays; no \<^verbatim>\<open>time\<close> field is left in it and the entry has a timestamp.
\<close>

definition moved :: "hval gomap \<Rightarrow> hval gomap \<Rightarrow> gostring \<Rightarrow> bool \<Rightarrow> bool" where
  "moved p q k there \<longleftrightarrow> map_of q k = map_of p k \<or> (map_of q k = None \<and> there)"

definition delivered :: "harnesslib \<Rightarrow> hval gomap \<Rightarrow> loggingEntry \<Rightarrow> bool" where
  "delivered lib p e \<longleftrightarrow>
     (case le_Payload e of
        PMap q \<Rightarrow>
          moved p q ''severity'' (ToUpper (TrimSpace (le_Severity e)) = asString lib (hget p ''severity'')) \<and>
          moved p q TraceKey (le_Trace e = asString lib (hget p TraceKey)) \<and>
          moved p q SpanKey (le_SpanID e = asString lib (hget p SpanKey)) \<and>
          moved p q SampledKey (valueAsBool (hget p SampledKey) \<in> {None, Some (le_TraceSampled e)}) \<and>
          moved p q LabelsGroup (le_Labels e = extractStringMap lib (hget p LabelsGroup)) \<and>
          moved p q sourceLocationKey
            (le_SourceLocation e = extractSourceLocation lib (e \<lparr> le_SourceLocation := None \<rparr>) p) \<and>
          map_of q ''otel.trace_id'' = map_of p ''otel.trace_id'' \<and>
          map_of q ''otel.span_id'' = map_of p ''otel.span_id'' \<and>
          map_of q ''otel.trace_sampled'' = map_of p ''otel.trace_sampled'' \<and>
          map_of q ''time'' = None \<and> unix_ns (le_Timestamp e) \<noteq> unix_ns zero_time
      | _ \<Rightarrow> False)"

end
