(* ===== verification/HarnessProps.thy ===== *)
theory HarnessProps
  imports HarnessJson
begin

text \<open>
  What the harness reads back from the entries the library writes, and what its checks then
  conclude.
\<close>

section \<open>Maps\<close>

lemma foldl_mput_notin:
  "k \<notin> fst ` set src \<Longrightarrow> map_of (foldl (\<lambda>m (k, v). mput k (g v) m) dst src) k = map_of dst k"
  by (induction src arbitrary: dst) (auto simp: update_conv')

lemma foldl_mput:
  "distinct (map fst src) \<Longrightarrow>
   map_of (foldl (\<lambda>m (k, v). mput k (g v) m) dst src) k =
     (case map_of src k of Some v \<Rightarrow> Some (g v) | None \<Rightarrow> map_of dst k)"
proof (induction src arbitrary: dst)
  case (Cons e src)
  obtain j v where e: "e = (j, v)" by (cases e)
  then have j: "j \<notin> fst ` set src" using Cons.prems by simp
  show ?case
  proof (cases "k = j")
    case True
    have "map_of (foldl (\<lambda>m (k, v). mput k (g v) m) (mput j (g v) dst) src) j = Some (g v)"
      unfolding foldl_mput_notin [where g = g, OF j] by simp
    then show ?thesis using True e by simp
  next
    case False
    then show ?thesis using e Cons by (simp split: option.split)
  qed
qed simp

lemma map_of_maps_Copy:
  "distinct (map fst src) \<Longrightarrow> map_of (maps_Copy dst src) = map_of dst ++ map_of src"
  using foldl_mput [where g = "\<lambda>v. v" and src = src and dst = dst]
  by (auto simp: maps_Copy_def map_add_def split: option.splits)

lemma maps_Copy_Nil [simp]: "maps_Copy dst [] = dst"
  by (simp add: maps_Copy_def)

lemma map_of_copyStringMap: "distinct (map fst m) \<Longrightarrow> map_of (copyStringMap m) = map_of m"
  by (auto simp: copyStringMap_def map_of_maps_Copy)

lemma map_of_stringMapToAnyMap:
  "distinct (map fst m) \<Longrightarrow> map_of (stringMapToAnyMap m) k = map_option HStr (map_of m k)"
  by (auto simp: stringMapToAnyMap_def foldl_mput [where g = HStr and dst = "[]"] split: option.splits)

lemma distinct_foldl_mput:
  "distinct (map fst dst) \<Longrightarrow> distinct (map fst (foldl (\<lambda>m (k, v). mput k (g v) m) dst src))"
  by (induction src arbitrary: dst) (auto intro: distinct_update)

lemma distinct_maps_Copy: "distinct (map fst dst) \<Longrightarrow> distinct (map fst (maps_Copy dst src))"
  using distinct_foldl_mput [where g = "\<lambda>v. v"] by (simp add: maps_Copy_def)

section \<open>Labels\<close>

definition nonempty_labels :: "gostring gomap \<Rightarrow> gostring gomap" where
  "nonempty_labels m = filter (\<lambda>e. snd e \<noteq> []) m"

lemma distinct_nonempty_labels: "distinct (map fst m) \<Longrightarrow> distinct (map fst (nonempty_labels m))"
  by (induction m) (auto simp: nonempty_labels_def)

lemma map_of_nonempty_labels:
  "distinct (map fst m) \<Longrightarrow>
   map_of (nonempty_labels m) k = (case map_of m k of Some v \<Rightarrow> if v = [] then None else Some v | None \<Rightarrow> None)"
  by (induction m) (auto simp: nonempty_labels_def map_of_eq_None_iff image_iff split: option.splits)

lemma foldl_labels:
  "foldl (\<lambda>out (k, x). let str = asString lib x in if str = [] then out else mput k str out) out
     (fields_image HStr m) = maps_Copy out (nonempty_labels m)"
  by (induction m arbitrary: out)
     (auto simp: maps_Copy_def nonempty_labels_def fields_image_def asString_def Let_def)

lemma extractStringMap_labels:
  "extractStringMap lib (HMap (fields_image HStr m)) = maps_Copy [] (nonempty_labels m)"
  by (simp add: extractStringMap_def extractMap_def foldl_labels)

lemma extracted_label:
  assumes "distinct (map fst m)" and "map_of m k = Some v" and "v \<noteq> []"
  shows "map_of (extractStringMap lib (HMap (fields_image HStr m))) k = Some v"
  using assms distinct_nonempty_labels [OF assms(1)]
  by (simp add: extractStringMap_labels map_of_maps_Copy map_of_nonempty_labels)

lemma mergeStringMaps_overlay:
  assumes "distinct (map fst overlay)" and "map_of overlay k = Some v"
  shows "map_of (mergeStringMaps base overlay) k = Some v"
  using assms by (auto simp: mergeStringMaps_def map_of_maps_Copy)

lemma mergeStringMaps_base:
  assumes "distinct (map fst base)"
  shows "map_of (mergeStringMaps base []) k = map_of base k"
  using assms by (auto simp: mergeStringMaps_def map_of_maps_Copy)

section \<open>Severities\<close>

definition canonical :: "gostring \<Rightarrow> bool" where
  "canonical s \<longleftrightarrow> s \<noteq> [] \<and> TrimSpace s = s \<and> ToUpper s = s"

lemma severity_table: "map_of severityByName s = Some c \<Longrightarrow> c = s"
  by (auto simp: severityByName_def split: if_splits)

text \<open>The table of severity names changes nothing: it maps every name to itself.\<close>

lemma normalizeSeverity_plain:
  "normalizeSeverity s = (if ToUpper (TrimSpace s) = [] then ''DEFAULT'' else ToUpper (TrimSpace s))"
  by (auto simp: normalizeSeverity_def Let_def dest: severity_table split: option.split)

lemma normalizeSeverity_canonical: "canonical s \<Longrightarrow> normalizeSeverity s = s"
  by (simp add: canonical_def normalizeSeverity_plain)

definition capital :: "char \<Rightarrow> bool" where
  "capital c \<longleftrightarrow> visible c \<and> (of_char c :: nat) < 97"

lemma ToUpper_capital: "list_all capital s \<Longrightarrow> ToUpper s = s"
proof (induction s)
  case (Cons c s)
  have "c \<noteq> CHR 0xC4" "c \<noteq> CHR 0xC5" using Cons.prems by (auto simp: capital_def visible_def)
  then show ?case using Cons by (simp add: upper_byte_def capital_def)
qed simp

lemma canonical_capital:
  assumes "list_all capital s" and "s \<noteq> []"
  shows "canonical s"
  using assms TrimSpace_visible [of s] ToUpper_capital [of s]
  by (auto simp: canonical_def list_all_iff capital_def)

lemma capital_decimal: "decimal c \<Longrightarrow> capital c"
  by (simp add: decimal_def capital_def visible_def)

lemma capital_FormatSigned: "list_all capital (FormatSigned i)"
proof -
  have "list_all capital (format_digits 10 n)" for n
    by (auto simp: list_all_iff intro!: capital_decimal format_decimal)
  moreover have "capital (CHR ''-'')" "capital (CHR ''+'')" by (simp_all add: capital_def visible_def)
  ultimately show ?thesis by (simp add: FormatSigned_def FormatInt_def)
qed

lemma capital_fullName: "list_all capital (fullName (descriptorForLevel l)) \<and> fullName (descriptorForLevel l) \<noteq> []"
proof -
  have "list_all (\<lambda>d. list_all capital (fullName d) \<and> fullName d \<noteq> []) severityDescriptors"
    by (simp add: severityDescriptors_def capital_def visible_def)
  then show ?thesis using descriptor_in [of l] by (auto simp: list_all_iff)
qed

lemma canonical_severity: "canonical (severityFullString l)"
  using capital_fullName [of l] capital_FormatSigned
  by (intro canonical_capital) (auto simp: severityFullString_def formatWithOffset_def Let_def)

section \<open>Reading a delivered entry\<close>

lemma hget_cong: "map_of q k = map_of p k \<Longrightarrow> hget q k = hget p k"
  by (simp add: hget_def)

lemma hget_image:
  "hget (fields_image f p) k = (case map_of p k of Some v \<Rightarrow> f v | None \<Rightarrow> HNil)"
  by (simp add: hget_def map_of_fields_image split: option.split)

lemma labels_keep_payload:
  "k \<noteq> LabelsGroup \<Longrightarrow> hget (snd (mergedEntryLabels lib e q)) k = hget q k"
  by (simp add: mergedEntryLabels_def hget_def Let_def update_conv')

lemma asString_simps [simp]: "asString lib (HStr s) = s" "asString lib HNil = []"
  by (simp_all add: asString_def)

lemma valueAsBool_simps [simp]: "valueAsBool (HBool b) = Some b" "valueAsBool HNil = None"
  by (simp_all add: valueAsBool_def)

lemma special_keys [simp]:
  "TraceKey \<noteq> LabelsGroup" "SpanKey \<noteq> LabelsGroup" "SampledKey \<noteq> LabelsGroup"
  "sourceLocationKey \<noteq> LabelsGroup"
  by (simp_all add: key_defs)

lemma newLogEntry_reads:
  assumes "le_Payload e = PMap q" and "map_of q ''time'' = None"
    and "unix_ns (le_Timestamp e) \<noteq> unix_ns zero_time"
  obtains le where "snd (newLogEntry lib (Some e)) = Inr le"
    and "Severity le = resolveEntrySeverity lib e q"
    and "Labels le = fst (mergedEntryLabels lib e q)"
    and "Trace le = resolveTrace lib e q"
    and "SpanID le = resolveSpanID lib e q"
    and "TraceSampled le = fst (resolveTraceSampled e q)"
    and "Source le = extractSourceLocation lib e q"
proof -
  have p: "normalizedPayload lib e = Inr q"
    using assms by (simp add: normalizedPayload_def extractPayloadMap_def)
  define q' where "q' = snd (mergedEntryLabels lib e q)"
  have keep: "\<And>k. k \<noteq> LabelsGroup \<Longrightarrow> hget q' k = hget q k"
    by (simp add: q'_def labels_keep_payload)
  have otel: "hget q' ''otel.trace_id'' = hget q ''otel.trace_id''"
    "hget q' ''otel.span_id'' = hget q ''otel.span_id''"
    "hget q' ''otel.trace_sampled'' = hget q ''otel.trace_sampled''"
    by (rule keep, simp add: key_defs)+
  have "resolveTrace lib e q' = resolveTrace lib e q"
    "resolveSpanID lib e q' = resolveSpanID lib e q"
    "resolveTraceSampled e q' = resolveTraceSampled e q"
    "extractSourceLocation lib e q' = extractSourceLocation lib e q"
    by (simp_all add: keep otel Let_def resolveTrace_def resolveSpanID_def resolveTraceSampled_def extractSourceLocation_def
        split: option.split)
  then show ?thesis
    using that by (simp add: newLogEntry_def p split_beta q'_def Let_def)
qed

text \<open>One string field, read from the payload or from the entry.\<close>

lemma read_moved_string:
  assumes "moved p q k (there = asString lib (hget p k))" and "hget p k = HStr s" and "s \<noteq> []"
    and "hget q k' = HNil"
  shows "(if (if asString lib (hget q k) = [] then asString lib (hget q k') else asString lib (hget q k)) = []
          then there else if asString lib (hget q k) = [] then asString lib (hget q k') else asString lib (hget q k)) = s"
  using assms by (auto simp: moved_def hget_def)

lemma read_severity:
  assumes "moved p q ''severity'' (ToUpper (TrimSpace (le_Severity e)) = asString lib (hget p ''severity''))"
    and "hget p ''severity'' = HStr s" and "canonical s"
  shows "resolveEntrySeverity lib e q = s"
proof -
  have c: "s \<noteq> []" "TrimSpace s = s" "ToUpper s = s" using assms(3) by (auto simp: canonical_def)
  consider "hget q ''severity'' = HStr s" | "hget q ''severity'' = HNil" "ToUpper (TrimSpace (le_Severity e)) = s"
    using assms(1,2) by (auto simp: moved_def hget_def)
  then show ?thesis
  proof cases
    case 1
    then show ?thesis using c normalizeSeverity_canonical [OF assms(3)] by (simp add: resolveEntrySeverity_def)
  next
    case 2
    then have "TrimSpace (le_Severity e) \<noteq> []" using c(1) by auto
    moreover have "normalizeSeverity (TrimSpace (le_Severity e)) = s" using 2(2) c(1) by (simp add: normalizeSeverity_plain)
    ultimately show ?thesis using 2(1) by (simp add: resolveEntrySeverity_def)
  qed
qed

lemma read_sampled:
  assumes "moved p q SampledKey (valueAsBool (hget p SampledKey) \<in> {None, Some (le_TraceSampled e)})"
    and "hget p SampledKey = HBool b" and "hget q ''otel.trace_sampled'' = HNil"
  shows "fst (resolveTraceSampled e q) = b"
  using assms by (auto simp: moved_def hget_def resolveTraceSampled_def)

lemma read_label:
  assumes "moved p q LabelsGroup (le_Labels e = extractStringMap lib (hget p LabelsGroup))"
    and "hget p LabelsGroup = HMap (fields_image HStr m)" and "distinct (map fst m)"
    and "map_of m k = Some v" and "v \<noteq> []"
  shows "map_of (fst (mergedEntryLabels lib e q)) k = Some v"
proof -
  let ?x = "extractStringMap lib (HMap (fields_image HStr m))"
  have d: "distinct (map fst ?x)" by (simp add: extractStringMap_labels distinct_maps_Copy)
  have x: "map_of ?x k = Some v" using assms(3-5) by (rule extracted_label)
  have "hget q LabelsGroup = HMap (fields_image HStr m) \<or> (hget q LabelsGroup = HNil \<and> le_Labels e = ?x)"
    using assms(1,2) by (auto simp: moved_def hget_def)
  then show ?thesis
  proof
    assume "hget q LabelsGroup = HMap (fields_image HStr m)"
    then show ?thesis by (simp add: mergedEntryLabels_def Let_def mergeStringMaps_overlay [OF d x])
  next
    assume a: "hget q LabelsGroup = HNil \<and> le_Labels e = ?x"
    have e: "extractStringMap lib HNil = []" by (simp add: extractStringMap_def extractMap_def)
    have dc: "distinct (map fst (copyStringMap ?x))" by (simp add: copyStringMap_def distinct_maps_Copy)
    have "map_of (mergeStringMaps (copyStringMap ?x) []) k = Some v"
      using mergeStringMaps_base [OF dc] map_of_copyStringMap [OF d] x by simp
    then show ?thesis using a e by (simp add: mergedEntryLabels_def Let_def)
  qed
qed

section \<open>The payload the library emits\<close>

lemma severity_time_keep:
  "k \<noteq> ''severity'' \<Longrightarrow> k \<noteq> ''time'' \<Longrightarrow> map_of (applySeverityAndTime cfg r p) k = map_of p k"
  by (simp add: applySeverityAndTime_def update_conv' Let_def)

text \<open>The keys that only the trace, the source location and the labels set.\<close>

definition traced :: "'h handlerConfig \<Rightarrow> logRecord \<Rightarrow> sourceLocation option \<Rightarrow> traceFields \<Rightarrow> builtPayload
    \<Rightarrow> goany gomap" where
  "traced cfg r src t b =
     fst (applyTrace cfg t (applySourceLocation src (applySeverityAndTime cfg r
       (applyLabels (bp_labels b) (bp_payload b)))))"

lemma enrich_traced:
  assumes "k \<notin> set [''message'', ''error_type'', ''stack_trace'', ''serviceContext'', httpRequestKey]"
  shows "map_of (fst (enrich glib cfg r src t b)) k = map_of (traced cfg r src t b) k"
  using assms by (simp add: enrich_expand split_beta Let_def update_conv' traced_def)

lemma emitted_labels:
  assumes "bp_labels b = Some m" and "m \<noteq> []"
  shows "map_of (fst (enrich glib cfg r src t b)) LabelsGroup = Some (GStringMap m)"
proof -
  have "map_of (traced cfg r src t b) LabelsGroup = map_of (applyLabels (bp_labels b) (bp_payload b)) LabelsGroup"
    by (simp add: traced_def severity_time_keep trace_keys_def key_defs)
  moreover have "map_of (fst (enrich glib cfg r src t b)) LabelsGroup = map_of (traced cfg r src t b) LabelsGroup"
    by (rule enrich_traced) (simp add: key_defs)
  ultimately show ?thesis using assms by (simp add: applyLabels_def)
qed

lemma emitted_source:
  "map_of (fst (enrich glib cfg r (Some s) t b)) sourceLocationKey = Some (GSource s)"
proof -
  have "map_of (traced cfg r (Some s) t b) sourceLocationKey = Some (GSource s)"
    by (simp add: traced_def trace_keys_def key_defs) (simp add: applySourceLocation_def sourceLocationKey_def)
  moreover have "map_of (fst (enrich glib cfg r (Some s) t b)) sourceLocationKey
      = map_of (traced cfg r (Some s) t b) sourceLocationKey"
    by (rule enrich_traced) (simp add: key_defs)
  ultimately show ?thesis by simp
qed

lemma emitted_span:
  assumes "tf_fmt t \<noteq> []" and "tf_owns t" and "tf_span t \<noteq> []"
  shows "map_of (fst (enrich glib cfg r src t b)) SpanKey = Some (GString (tf_span t))"
proof -
  have "map_of (traced cfg r src t b) SpanKey = Some (GString (tf_span t))"
    using assms by (simp add: traced_def applyTrace_def applyCloudTrace_def update_conv' Let_def key_defs)
  moreover have "map_of (fst (enrich glib cfg r src t b)) SpanKey = map_of (traced cfg r src t b) SpanKey"
    by (rule enrich_traced) (simp add: key_defs)
  ultimately show ?thesis by simp
qed

lemma emitted_otel:
  assumes "tf_fmt t \<noteq> []" and "k \<in> set [''otel.trace_id'', ''otel.span_id'', ''otel.trace_sampled'']"
  shows "map_of (fst (enrich glib cfg r src t b)) k = map_of (bp_payload b) k"
proof -
  have "k \<notin> {TraceKey, SpanKey, SampledKey, LabelsGroup, sourceLocationKey, ''severity'', ''time''}"
    using assms(2) by (auto simp: key_defs)
  then have "map_of (traced cfg r src t b) k = map_of (bp_payload b) k"
    using assms(1) by (simp add: traced_def applyTrace_def applyCloudTrace_def update_conv' Let_def severity_time_keep)
  moreover have "map_of (fst (enrich glib cfg r src t b)) k = map_of (traced cfg r src t b) k"
    using assms(2) by (intro enrich_traced) (auto simp: key_defs)
  ultimately show ?thesis by simp
qed

section \<open>Reading back what the library emitted\<close>

text \<open>What the library meant an entry to say, as the harness has to read it.\<close>

definition reads_back ::
  "logRecord \<Rightarrow> sourceLocation option \<Rightarrow> traceFields \<Rightarrow> builtPayload \<Rightarrow> LogEntry \<Rightarrow> bool" where
  "reads_back r src t b le \<longleftrightarrow>
     Severity le = severityFullString (r_Level r) \<and>
     (tf_fmt t = [] \<or> Trace le = tf_fmt t \<and> TraceSampled le = tf_sampled t) \<and>
     (tf_fmt t = [] \<or> \<not> tf_owns t \<or> tf_span t = [] \<or> SpanID le = tf_span t) \<and>
     (case src of None \<Rightarrow> True | Some s \<Rightarrow> 2 ^ 53 \<le> abs (sl_Line s) \<or> Source le = Some s) \<and>
     (case bp_labels b of
        None \<Rightarrow> True
      | Some m \<Rightarrow> list_all (\<lambda>(k, v). v = [] \<or> map_of (Labels le) k = Some v) m)"

definition otel_keys :: "gostring list" where
  "otel_keys = [''otel.trace_id'', ''otel.span_id'', ''otel.trace_sampled'']"

text \<open>No attribute has the name of an OpenTelemetry field, no two labels have the same key.\<close>

definition plain_payload :: "builtPayload \<Rightarrow> bool" where
  "plain_payload b \<longleftrightarrow>
     list_all (\<lambda>k. map_of (bp_payload b) k = None) otel_keys \<and>
     (case bp_labels b of None \<Rightarrow> True | Some m \<Rightarrow> distinct (map fst m))"

context json_reader
begin

lemma trace_read_back:
  assumes "delivered lib (fields_image read (fst (enrich glib cfg r src t b))) e"
    and "le_Payload e = PMap q" and "plain_payload b" and "tf_fmt t \<noteq> []"
  shows "resolveTrace lib e q = tf_fmt t"
    and "fst (resolveTraceSampled e q) = tf_sampled t"
    and "tf_owns t \<Longrightarrow> tf_span t \<noteq> [] \<Longrightarrow> resolveSpanID lib e q = tf_span t"
proof -
  define emitted where "emitted = fst (enrich glib cfg r src t b)"
  define p where "p = fields_image read emitted"
  note del = assms(1) [folded emitted_def, folded p_def]
  have std: "map_of emitted TraceKey = Some (GString (tf_fmt t))"
    "map_of emitted SampledKey = Some (GBool (tf_sampled t))"
    using standard_fields [of glib cfg r src t b] assms(4) by (simp_all add: emitted_def)
  have none: "map_of emitted k = None" if "k \<in> set otel_keys" for k
    using emitted_otel [OF assms(4), of k glib cfg r src b] assms(3) that
    by (auto simp: emitted_def plain_payload_def list_all_iff otel_keys_def)
  have same: "map_of q k = map_of p k" if "k \<in> set otel_keys" for k
    using del assms(2) that by (auto simp: delivered_def otel_keys_def)
  have "hget q k = HNil" if "k \<in> set otel_keys" for k
    using none [OF that] same [OF that] by (simp add: hget_def p_def map_of_fields_image)
  then have otel: "hget q ''otel.trace_id'' = HNil" "hget q ''otel.span_id'' = HNil"
    "hget q ''otel.trace_sampled'' = HNil"
    by (simp_all add: otel_keys_def)
  have "hget p TraceKey = HStr (tf_fmt t)" by (simp add: p_def hget_image std read_string)
  moreover have "moved p q TraceKey (le_Trace e = asString lib (hget p TraceKey))"
    using del assms(2) by (simp add: delivered_def)
  ultimately show "resolveTrace lib e q = tf_fmt t"
    unfolding resolveTrace_def Let_def using assms(4) otel(1) by (intro read_moved_string)
  have "hget p SampledKey = HBool (tf_sampled t)" by (simp add: p_def hget_image std read_bool)
  then show "fst (resolveTraceSampled e q) = tf_sampled t"
    using del assms(2) otel(3) by (intro read_sampled [where p = p]) (simp_all add: delivered_def)
  assume own: "tf_owns t" "tf_span t \<noteq> []"
  have "hget p SpanKey = HStr (tf_span t)"
    by (simp add: p_def emitted_def hget_image emitted_span [OF assms(4) own] read_string)
  moreover have "moved p q SpanKey (le_SpanID e = asString lib (hget p SpanKey))"
    using del assms(2) by (simp add: delivered_def)
  ultimately show "resolveSpanID lib e q = tf_span t"
    unfolding resolveSpanID_def Let_def using own(2) otel(2) by (intro read_moved_string)
qed

lemma severity_read_back:
  assumes "delivered lib (fields_image read (fst (enrich glib cfg r src t b))) e"
    and "le_Payload e = PMap q" and "\<not> UseShortSeverityNames cfg"
  shows "resolveEntrySeverity lib e q = severityFullString (r_Level r)"
proof (rule read_severity [where p = "fields_image read (fst (enrich glib cfg r src t b))"])
  show "hget (fields_image read (fst (enrich glib cfg r src t b))) ''severity'' = HStr (severityFullString (r_Level r))"
    using standard_fields [of glib cfg r src t b] assms(3)
    by (simp add: hget_image read_string severityString_def)
qed (use assms in \<open>simp_all add: delivered_def canonical_severity\<close>)

lemma source_read_back:
  assumes "delivered lib (fields_image read (fst (enrich glib cfg r (Some s) t b))) e"
    and "le_Payload e = PMap q" and "abs (sl_Line s) < 2 ^ 53"
  shows "extractSourceLocation lib e q = Some s"
proof -
  define p where "p = fields_image read (fst (enrich glib cfg r (Some s) t b))"
  obtain line where l: "read (GSource s) =
      HMap [(''file'', HStr (sl_File s)), (''line'', line), (''function'', HStr (sl_Function s))]"
    "asInt64 lib line = sl_Line s"
    using read_source [of s] assms(3) by auto
  have k: "hget p sourceLocationKey = read (GSource s)"
    by (simp add: p_def hget_image emitted_source)
  have direct: "extractSourceLocation lib e' q' = Some s" if "hget q' sourceLocationKey = read (GSource s)" for e' q'
    using that l by (simp add: extractSourceLocation_def extractMap_def hget_def)
  have "moved p q sourceLocationKey
      (le_SourceLocation e = extractSourceLocation lib (e \<lparr> le_SourceLocation := None \<rparr>) p)"
    using assms(1,2) by (simp add: delivered_def p_def)
  then consider "hget q sourceLocationKey = hget p sourceLocationKey"
    | "hget q sourceLocationKey = HNil" "le_SourceLocation e = Some s"
    using direct [OF k] by (auto simp: moved_def hget_def)
  then show ?thesis
    using direct k by cases (auto simp: extractSourceLocation_def extractMap_def)
qed

lemma label_read_back:
  assumes "delivered lib (fields_image read (fst (enrich glib cfg r src t b))) e"
    and "le_Payload e = PMap q" and "bp_labels b = Some m" and "distinct (map fst m)"
    and "(k, v) \<in> set m" and "v \<noteq> []"
  shows "map_of (fst (mergedEntryLabels lib e q)) k = Some v"
proof (rule read_label [where p = "fields_image read (fst (enrich glib cfg r src t b))" and m = m])
  have "m \<noteq> []" using assms(5) by auto
  then show "hget (fields_image read (fst (enrich glib cfg r src t b))) LabelsGroup = HMap (fields_image HStr m)"
    using emitted_labels [OF assms(3), of glib cfg r src t] by (simp add: hget_image read_labels)
qed (use assms in \<open>simp_all add: delivered_def\<close>)

lemma emitted_read_back:
  assumes "delivered lib (fields_image read (fst (enrich glib cfg r src t b))) e"
    and "\<not> UseShortSeverityNames cfg" and "plain_payload b"
  shows "\<exists>le. snd (newLogEntry lib (Some e)) = Inr le \<and> reads_back r src t b le"
proof -
  obtain q where q: "le_Payload e = PMap q" "map_of q ''time'' = None"
      "unix_ns (le_Timestamp e) \<noteq> unix_ns zero_time"
    using assms(1) by (auto simp: delivered_def split: entryPayload.splits)
  obtain le where le: "snd (newLogEntry lib (Some e)) = Inr le"
    "Severity le = resolveEntrySeverity lib e q" "Labels le = fst (mergedEntryLabels lib e q)"
    "Trace le = resolveTrace lib e q" "SpanID le = resolveSpanID lib e q"
    "TraceSampled le = fst (resolveTraceSampled e q)" "Source le = extractSourceLocation lib e q"
    using newLogEntry_reads [OF q] by blast
  have "Severity le = severityFullString (r_Level r)"
    using le(2) severity_read_back [OF assms(1) q(1) assms(2)] by simp
  moreover have "tf_fmt t = [] \<or> Trace le = tf_fmt t \<and> TraceSampled le = tf_sampled t"
    using le(4,6) trace_read_back(1,2) [OF assms(1) q(1) assms(3)] by auto
  moreover have "tf_fmt t = [] \<or> \<not> tf_owns t \<or> tf_span t = [] \<or> SpanID le = tf_span t"
    using le(5) trace_read_back(3) [OF assms(1) q(1) assms(3)] by auto
  moreover have "case src of None \<Rightarrow> True | Some s \<Rightarrow> 2 ^ 53 \<le> abs (sl_Line s) \<or> Source le = Some s"
  proof (cases src)
    case (Some s)
    then show ?thesis
      using le(7) source_read_back [of glib cfg r s t b e q] assms(1) q(1) by force
  qed simp
  moreover have "map_of (Labels le) k = Some v" if "bp_labels b = Some m" "(k, v) \<in> set m" "v \<noteq> []" for m k v
    using le(3) label_read_back [OF assms(1) q(1), of m k v] assms(3) that by (simp add: plain_payload_def)
  then have "case bp_labels b of None \<Rightarrow> True
      | Some m \<Rightarrow> list_all (\<lambda>(k, v). v = [] \<or> map_of (Labels le) k = Some v) m"
    by (auto simp: list_all_iff split: option.split)
  ultimately have "reads_back r src t b le"
    unfolding reads_back_def by blast
  then show ?thesis using le(1) by blast
qed

end


text \<open>An entry of a record with a label and a source location: severity and label were moved.\<close>

definition demo_payload :: "goany gomap" where
  "demo_payload =
     fst (enrich demo_lib ((jh_cfg demo_handler) \<lparr> UseShortSeverityNames := False, EmitTimeField := False \<rparr>)
       demo_record (Some \<lparr>sl_File = ''a.go'', sl_Line = 7, sl_Function = ''f''\<rparr>)
       \<lparr>tf_fmt = ''projects/p/traces/t'', tf_raw = ''t'', tf_span = ''s'', tf_owns = True, tf_sampled = True\<rparr>
       \<lparr>bp_payload = [], bp_httpReq = None, bp_errType = [], bp_errMsg = [], bp_stack = [],
        bp_labels = Some [(''team'', ''core'')]\<rparr>)"

definition demo_entry :: loggingEntry where
  "demo_entry =
     (let p = fields_image (json_image (\<lambda>_. HNil)) demo_payload in
      \<lparr>le_Payload = PMap (mdel LabelsGroup (mdel ''severity'' p)), le_Severity = ''INFO'',
       le_Timestamp = \<lparr>unix_ns = 0, zone = 0\<rparr>, le_LogName = [], le_Trace = [], le_SpanID = [],
       le_TraceSampled = False, le_Labels = [(''team'', ''core'')], le_HTTPRequest = None,
       le_SourceLocation = None, le_Resource = None, le_Operation = None, le_InsertID = []\<rparr>)"

definition demo_harnesslib :: harnesslib where
  "demo_harnesslib =
     \<lparr>Sprintf_v = (\<lambda>_. []), Sprintf_f = (\<lambda>_. []), unmarshal_map = (\<lambda>_. None),
      int64_of_huge = (\<lambda>_. 0), url_text = (\<lambda>_. [])\<rparr>"

lemma demo_payload_values:
  "map_of demo_payload ''severity'' = Some (GString ''INFO'')"
  "map_of demo_payload LabelsGroup = Some (GStringMap [(''team'', ''core'')])"
  "map_of demo_payload ''time'' = None"
  by code_simp+

lemma demo_labels: "extractStringMap demo_harnesslib (HMap (fields_image HStr [(''team'', ''core'')])) = [(''team'', ''core'')]"
  by code_simp

lemma demo_delivered:
  "delivered demo_harnesslib (fields_image (json_image (\<lambda>_. HNil)) demo_payload) demo_entry"
proof -
  define p where "p = fields_image (json_image (\<lambda>_. HNil)) demo_payload"
  have "map_of p ''severity'' = Some (HStr ''INFO'')"
    "map_of p LabelsGroup = Some (HMap (fields_image HStr [(''team'', ''core'')]))"
    "map_of p ''time'' = None"
    by (simp_all add: p_def map_of_fields_image demo_payload_values scalar_image_def)
  moreover have "ToUpper (TrimSpace ''INFO'') = ''INFO''" by code_simp
  ultimately show ?thesis
    using demo_labels
    by (simp add: delivered_def p_def [symmetric] demo_entry_def Let_def moved_def hget_def asString_def
        LabelsGroup_def TraceKey_def SpanKey_def SampledKey_def sourceLocationKey_def zero_time_def)
qed


section \<open>Conversions that lose something\<close>

text \<open>A non-zero 64-bit integer is read as false.\<close>

lemma sampled_integer_false: "valueAsBool (HInt64 1) = Some False"
  by (simp add: valueAsBool_def asBool_def)

text \<open>Two log names with malformed escapes are taken for the same.\<close>

lemma malformed_names_match:
  assumes "LogName e = ''projects/p/logs/%zx''"
  shows "Valid (ValidateLogName (NewLogValidator ''p'') (Some e) ''projects/p/logs/%zy'')"
proof -
  have "decoded ''%zx'' = []" "decoded ''%zy'' = []" by code_simp+
  then show ?thesis
    using assms by (simp add: ValidateLogName_def NewLogValidator_def HasPrefix_def TrimPrefix_def Let_def)
qed
end
