(* ===== verification/HarnessClient.thy ===== *)
theory HarnessClient
  imports HarnessEntry
begin

text \<open>
  How the end-to-end harness queries Cloud Logging: \<^verbatim>\<open>logging_retry.go\<close> and
  \<^verbatim>\<open>logging_client.go\<close>. Time is in nanoseconds and explicit: every operation takes
  the current time and returns the time at which it is done. A context is the time at which it
  ends and the error it has from then on. The API calls, the random number generator and JSON
  are arguments of the operations that use them.
\<close>

section \<open>Contexts and errors\<close>

record waitContext =
  wc_done :: "int option"
  wc_error :: gostring

definition ctx_Err :: "waitContext \<Rightarrow> int \<Rightarrow> gostring option" where
  "ctx_Err ctx now =
     (case wc_done ctx of None \<Rightarrow> None | Some d \<Rightarrow> if d \<le> now then Some (wc_error ctx) else None)"

definition deadline_exceeded :: gostring where
  "deadline_exceeded = ''context deadline exceeded''"

text \<open>\<^verbatim>\<open>context.WithTimeout\<close>: the earlier of the two ends.\<close>

definition WithTimeout :: "waitContext \<Rightarrow> int \<Rightarrow> int \<Rightarrow> waitContext" where
  "WithTimeout ctx now timeout =
     (case wc_done ctx of
        Some d \<Rightarrow> if d \<le> now + timeout then ctx
                  else \<lparr>wc_done = Some (now + timeout), wc_error = deadline_exceeded\<rparr>
      | None \<Rightarrow> \<lparr>wc_done = Some (now + timeout), wc_error = deadline_exceeded\<rparr>)"

text \<open>
  \<^verbatim>\<open>select\<close> on a context and a timer: the context's error when it ends before the timer
  fires or together with it (where Go may take either), otherwise the time the timer fires.
\<close>

definition wait_or_done :: "waitContext \<Rightarrow> int \<Rightarrow> int \<Rightarrow> int \<times> gostring option" where
  "wait_or_done ctx now delay =
     (case ctx_Err ctx (now + delay) of
        Some e \<Rightarrow> (max now (override (wc_done ctx) now), Some e)
      | None \<Rightarrow> (now + delay, None))"

text \<open>
  What the code asks of an error: its text, its gRPC status code, the code of the API error it
  wraps and whether it wraps \<^verbatim>\<open>context.DeadlineExceeded\<close>.
\<close>

datatype grpcCode = OK | DeadlineExceeded | ResourceExhausted | Unavailable | NotFound | AlreadyExists | OtherCode nat

record apiError =
  er_text :: gostring
  er_status :: grpcCode
  er_api :: "int option"
  er_deadline :: bool

definition plain_error :: "gostring \<Rightarrow> apiError" where
  "plain_error s = \<lparr>er_text = s, er_status = OtherCode 2, er_api = None, er_deadline = False\<rparr>"

text \<open>The error of a context, and an error wrapped in a text (\<^verbatim>\<open>%w\<close>).\<close>

definition context_error :: "gostring \<Rightarrow> apiError" where
  "context_error s = (plain_error s) \<lparr> er_deadline := (s = deadline_exceeded) \<rparr>"

definition wrap :: "gostring \<Rightarrow> apiError \<Rightarrow> apiError" where
  "wrap s e = e \<lparr> er_text := s @ '': '' @ er_text e \<rparr>"

section \<open>Retries\<close>

abbreviation second :: int where "second \<equiv> 1000000000"

definition throttled :: "apiError option \<Rightarrow> bool" where
  "throttled r = (case r of None \<Rightarrow> False
     | Some e \<Rightarrow> er_status e = ResourceExhausted \<or> er_api e = Some 429)"

definition transport_failed :: "waitContext \<Rightarrow> int \<Rightarrow> apiError option \<Rightarrow> bool" where
  "transport_failed ctx now r =
     (case r of None \<Rightarrow> False
      | Some e \<Rightarrow> ctx_Err ctx now = None \<and>
                  (er_deadline e \<or> er_status e = DeadlineExceeded \<or> er_status e = Unavailable))"

text \<open>\<open>jitter\<close> is what \<^verbatim>\<open>rand.Int64N(5e9)\<close> returns.\<close>

definition retry_delay :: "bool \<Rightarrow> nat \<Rightarrow> int \<Rightarrow> int" where
  "retry_delay is_throttled attempt jitter =
     (if is_throttled then min (30 * second * 2 ^ attempt) (60 * second) + jitter
      else second * 2 ^ attempt)"

text \<open>
  A read at an attempt and a time returns its error or value and the time it is done. A run
  returns the error or the value of the last read, the time and the number of reads;
  \<open>Panics\<close> is the \<^verbatim>\<open>panic\<close> after the loop.
\<close>

datatype 'a retryResult = Returns "apiError + 'a" int nat | Panics

type_synonym 'a reader = "nat \<Rightarrow> int \<Rightarrow> (apiError + 'a) \<times> int"

definition error_of :: "apiError + 'a \<Rightarrow> apiError option" where
  "error_of r = (case r of Inl e \<Rightarrow> Some e | Inr _ \<Rightarrow> None)"

definition retry_stopped :: "apiError option \<Rightarrow> gostring \<Rightarrow> apiError" where
  "retry_stopped err e =
     wrap (''log read retry stopped ('' @ (case err of Some x \<Rightarrow> er_text x | None \<Rightarrow> ''<nil>'') @ '')'')
       (context_error e)"

fun retry_attempts ::
  "waitContext \<Rightarrow> (nat \<Rightarrow> int \<Rightarrow> int) \<Rightarrow> 'a reader \<Rightarrow> nat list \<Rightarrow> int \<Rightarrow> nat \<Rightarrow> 'a retryResult" where
  "retry_attempts ctx jitter read [] now reads = Panics"
| "retry_attempts ctx jitter read (attempt # rest) now reads =
     (case ctx_Err ctx now of
        Some e \<Rightarrow> Returns (Inl (context_error e)) now reads
      | None \<Rightarrow>
          (case read attempt now of (r, now) \<Rightarrow>
             let err = error_of r in
             if \<not> throttled err \<and> \<not> transport_failed ctx now err \<or> attempt = 3
             then Returns r now (Suc reads)
             else (case wait_or_done ctx now (retry_delay (throttled err) attempt (jitter attempt now)) of
                     (now, Some e) \<Rightarrow> Returns (Inl (retry_stopped err e)) now (Suc reads)
                   | (now, None) \<Rightarrow> retry_attempts ctx jitter read rest now (Suc reads))))"

definition retryLogQuota ::
  "waitContext \<Rightarrow> (nat \<Rightarrow> int \<Rightarrow> int) \<Rightarrow> 'a reader \<Rightarrow> int \<Rightarrow> 'a retryResult" where
  "retryLogQuota ctx jitter read now = retry_attempts ctx jitter read [0, 1, 2, 3] now 0"

text \<open>
  The interceptor: other methods are called once with the caller's context, a list call is
  retried, each attempt with 25 seconds of its own.
\<close>

definition retryLogQuotaRPC ::
  "waitContext \<Rightarrow> (nat \<Rightarrow> int \<Rightarrow> int) \<Rightarrow> gostring \<Rightarrow> (waitContext \<Rightarrow> 'a reader) \<Rightarrow> int \<Rightarrow> 'a retryResult" where
  "retryLogQuotaRPC ctx jitter method invoke now =
     (if method \<noteq> ''/google.logging.v2.LoggingServiceV2/ListLogEntries''
      then (case invoke ctx 0 now of (r, now) \<Rightarrow> Returns r now 1)
      else retryLogQuota ctx jitter
             (\<lambda>attempt now. invoke (WithTimeout ctx now (25 * second)) attempt now) now)"

section \<open>Queries\<close>

record QueryOptions =
  qo_Filter :: gostring
  qo_StartTime :: gotime
  qo_EndTime :: gotime
  qo_MaxResults :: int
  qo_ResourceType :: gostring

definition IsZero :: "gotime \<Rightarrow> bool" where
  "IsZero t \<longleftrightarrow> unix_ns t = unix_ns zero_time"

fun strings_Join :: "gostring list \<Rightarrow> gostring \<Rightarrow> gostring" where
  "strings_Join [] sep = []"
| "strings_Join [x] sep = x"
| "strings_Join (x # y # ys) sep = x @ sep @ strings_Join (y # ys) sep"

definition dquote :: gostring where "dquote = [CHR 0x22]"

definition filter_parts :: "QueryOptions \<Rightarrow> gostring list" where
  "filter_parts opts =
     (if qo_Filter opts \<noteq> [] then [qo_Filter opts] else []) @
     (if qo_ResourceType opts \<noteq> [] then [''resource.type='' @ dquote @ qo_ResourceType opts @ dquote] else []) @
     (if \<not> IsZero (qo_StartTime opts)
      then [''timestamp>='' @ dquote @ Format_RFC3339 (qo_StartTime opts) @ dquote] else []) @
     (if \<not> IsZero (qo_EndTime opts)
      then [''timestamp<='' @ dquote @ Format_RFC3339 (qo_EndTime opts) @ dquote] else [])"

definition buildLogFilter :: "QueryOptions \<Rightarrow> gostring" where
  "buildLogFilter opts = strings_Join (filter_parts opts) '' AND ''"

text \<open>
  The iterator of the client library is the list of what its \<^verbatim>\<open>Next\<close> returns: entries
  and at most one error; after the list it returns \<^verbatim>\<open>iterator.Done\<close>. Next to it
  stands the time fetching its pages takes.
\<close>

datatype iterItem = Item "loggingEntry option" | Fails apiError

definition max_results :: "QueryOptions \<Rightarrow> int" where
  "max_results opts = (if qo_MaxResults opts \<le> 0 then 1000 else qo_MaxResults opts)"

text \<open>The entries collected so far and the error.\<close>

fun collect_entries ::
  "harnesslib \<Rightarrow> int \<Rightarrow> iterItem list \<Rightarrow> LogEntry list \<Rightarrow> LogEntry list \<times> apiError option" where
  "collect_entries lib maxResults [] entries = (entries, None)"
| "collect_entries lib maxResults (Fails e # items) entries = (entries, Some (wrap ''iterating logs'' e))"
| "collect_entries lib maxResults (Item i # items) entries =
     (case snd (newLogEntry lib i) of
        Inl err \<Rightarrow> (entries, Some (wrap ''converting log entry'' (plain_error err)))
      | Inr converted \<Rightarrow>
          if int (length (entries @ [converted])) \<ge> maxResults
          then (entries @ [converted], None)
          else collect_entries lib maxResults items (entries @ [converted]))"

definition QueryLogs ::
  "harnesslib \<Rightarrow> (gostring \<Rightarrow> int \<Rightarrow> iterItem list \<times> nat) \<Rightarrow> QueryOptions \<Rightarrow> int
     \<Rightarrow> (LogEntry list \<times> apiError option) \<times> int" where
  "QueryLogs lib Entries opts now =
     (case Entries (buildLogFilter opts) now of (items, elapsed) \<Rightarrow>
        (collect_entries lib (max_results opts) items [], now + int elapsed))"

record listEntriesRequest =
  rq_ResourceNames :: "gostring list"
  rq_Filter :: gostring
  rq_OrderBy :: gostring
  rq_PageSize :: int
  rq_PageToken :: gostring

record listEntriesResponse =
  rs_Entries :: "hval gomap list"
  rs_NextPageToken :: gostring

definition buildEntriesListRequest :: "gostring \<Rightarrow> QueryOptions \<Rightarrow> int \<times> listEntriesRequest" where
  "buildEntriesListRequest projectID opts =
     (let maxResults = max_results opts
      in (maxResults,
          \<lparr>rq_ResourceNames = [''projects/'' @ projectID], rq_Filter = buildLogFilter opts,
           rq_OrderBy = ''timestamp desc'', rq_PageSize = min maxResults 1000, rq_PageToken = []\<rparr>))"

text \<open>
  One HTTP exchange: the encoding of the request, the answer (an error, or status and body) with
  the time it takes, and the decoding of the body are arguments.
\<close>

record entriesAPI =
  encode_request :: "listEntriesRequest \<Rightarrow> gostring + gostring"
  post_entries :: "gostring \<Rightarrow> nat \<Rightarrow> int \<Rightarrow> (apiError + int \<times> gostring) \<times> nat"
  decode_response :: "gostring \<Rightarrow> gostring + listEntriesResponse"

definition fetchEntriesListPageOnce ::
  "entriesAPI \<Rightarrow> listEntriesRequest \<Rightarrow> nat \<Rightarrow> int \<Rightarrow> (apiError + listEntriesResponse) \<times> int" where
  "fetchEntriesListPageOnce api reqBody attempt now =
     (case encode_request api reqBody of
        Inl e \<Rightarrow> (Inl (plain_error (''encoding entries.list request: '' @ e)), now)
      | Inr payload \<Rightarrow>
          (case post_entries api payload attempt now of
             (Inl e, elapsed) \<Rightarrow> (Inl (wrap ''calling entries.list'' e), now + int elapsed)
           | (Inr (status, body), elapsed) \<Rightarrow>
               if status < 200 \<or> status \<ge> 300
               then (Inl \<lparr>er_text = TrimSpace (take 8192 body), er_status = OtherCode 2,
                          er_api = Some status, er_deadline = False\<rparr>, now + int elapsed)
               else (case decode_response api body of
                       Inl e \<Rightarrow> (Inl (plain_error (''decoding entries.list response: '' @ e)), now + int elapsed)
                     | Inr decoded \<Rightarrow> (Inr decoded, now + int elapsed))))"

definition fetchEntriesListPage ::
  "waitContext \<Rightarrow> (nat \<Rightarrow> int \<Rightarrow> int) \<Rightarrow> entriesAPI \<Rightarrow> listEntriesRequest \<Rightarrow> int
     \<Rightarrow> listEntriesResponse retryResult" where
  "fetchEntriesListPage ctx jitter api reqBody now =
     retryLogQuota ctx jitter (fetchEntriesListPageOnce api reqBody) now"

text \<open>
  The loop over the pages; \<open>None\<close> is a run that never ends, because the service keeps
  returning a token for another page. \<open>pages\<close> counts the pages fetched.
\<close>

partial_function (option) json_pages ::
  "waitContext \<Rightarrow> (nat \<Rightarrow> int \<Rightarrow> int) \<Rightarrow> entriesAPI \<Rightarrow> listEntriesRequest \<Rightarrow> int
     \<Rightarrow> hval gomap list \<Rightarrow> int \<Rightarrow> nat \<Rightarrow> hval gomap list retryResult option" where
  "json_pages ctx jitter api reqBody maxResults out now pages =
     (case fetchEntriesListPage ctx jitter api reqBody now of
        Panics \<Rightarrow> Some Panics
      | Returns (Inl e) now reads \<Rightarrow> Some (Returns (Inl e) now pages)
      | Returns (Inr decoded) now reads \<Rightarrow>
          (let out = out @ rs_Entries decoded in
           if int (length out) \<ge> maxResults
           then Some (Returns (Inr (take (nat maxResults) out)) now (Suc pages))
           else if rs_NextPageToken decoded = [] then Some (Returns (Inr out) now (Suc pages))
           else json_pages ctx jitter api (reqBody \<lparr> rq_PageToken := rs_NextPageToken decoded \<rparr>)
                  maxResults out now (Suc pages)))"

declare json_pages.simps [code]

definition queryLogsJSONPages ::
  "waitContext \<Rightarrow> (nat \<Rightarrow> int \<Rightarrow> int) \<Rightarrow> entriesAPI \<Rightarrow> listEntriesRequest \<Rightarrow> int \<Rightarrow> int
     \<Rightarrow> hval gomap list retryResult option" where
  "queryLogsJSONPages ctx jitter api reqBody maxResults now =
     json_pages ctx jitter api reqBody maxResults [] now 0"

record LoggingClient =
  lc_projectID :: gostring
  lc_httpClient :: bool

definition QueryLogsJSON ::
  "LoggingClient \<Rightarrow> waitContext \<Rightarrow> (nat \<Rightarrow> int \<Rightarrow> int) \<Rightarrow> entriesAPI \<Rightarrow> QueryOptions \<Rightarrow> int
     \<Rightarrow> hval gomap list retryResult option" where
  "QueryLogsJSON c ctx jitter api opts now =
     (if \<not> lc_httpClient c
      then Some (Returns (Inl (plain_error ''logging http client is not configured'')) now 0)
      else (case buildEntriesListRequest (lc_projectID c) opts of (maxResults, reqBody) \<Rightarrow>
              queryLogsJSONPages ctx jitter api reqBody maxResults now))"

section \<open>Waiting for logs\<close>

text \<open>
  The loop the three waits share: query until the answer is enough, an error, the end of the
  context or the deadline; \<open>seen\<close> is the last answer. \<open>None\<close> is a wait that never ends.
\<close>

definition next_backoff :: "int \<Rightarrow> int" where
  "next_backoff backoff = (if 2 * backoff > 10 * second then 10 * second else 2 * backoff)"

partial_function (option) poll_logs ::
  "waitContext \<Rightarrow> int \<Rightarrow> (int \<Rightarrow> 'e retryResult option) \<Rightarrow> ('e \<Rightarrow> bool) \<Rightarrow> ('e \<Rightarrow> gostring)
     \<Rightarrow> ('e option \<Rightarrow> gostring) \<Rightarrow> 'e option \<Rightarrow> int \<Rightarrow> int \<Rightarrow> nat \<Rightarrow> 'e retryResult option" where
  "poll_logs ctx deadline query enough canceled timedOut seen backoff now polls =
     (if now < deadline then
        Option.bind (query now) (\<lambda>answer.
          case answer of
            Panics \<Rightarrow> Some Panics
          | Returns (Inl e) now reads \<Rightarrow> Some (Returns (Inl (wrap ''querying logs'' e)) now (Suc polls))
          | Returns (Inr r) now reads \<Rightarrow>
              if enough r then Some (Returns (Inr r) now (Suc polls))
              else (case wait_or_done ctx now backoff of
                      (now, Some e) \<Rightarrow> Some (Returns (Inl (wrap (canceled r) (context_error e))) now (Suc polls))
                    | (now, None) \<Rightarrow>
                        poll_logs ctx deadline query enough canceled timedOut (Some r)
                          (next_backoff backoff) now (Suc polls)))
      else Some (Returns (Inl (plain_error (timedOut seen))) now polls))"

declare poll_logs.simps [code]

definition answer_of :: "('e \<times> apiError option) \<times> int \<Rightarrow> 'e retryResult" where
  "answer_of r = (case r of ((entries, err), now) \<Rightarrow>
     Returns (case err of Some e \<Rightarrow> Inl e | None \<Rightarrow> Inr entries) now 1)"

definition WaitForLogs ::
  "harnesslib \<Rightarrow> (waitContext \<Rightarrow> gostring \<Rightarrow> int \<Rightarrow> iterItem list \<times> nat) \<Rightarrow> waitContext \<Rightarrow> QueryOptions
     \<Rightarrow> int \<Rightarrow> int \<Rightarrow> LogEntry list retryResult option" where
  "WaitForLogs lib Entries ctx opts timeout now =
     (let ctx = WithTimeout ctx now timeout in
      poll_logs ctx (now + timeout) (\<lambda>now. Some (answer_of (QueryLogs lib (Entries ctx) opts now)))
        (\<lambda>entries. entries \<noteq> [])
        (\<lambda>_. ''waiting for logs canceled'')
        (\<lambda>_. ''timeout waiting for logs after '' @ Duration_String timeout)
        None second now 0)"

definition WaitForLogCount ::
  "harnesslib \<Rightarrow> (waitContext \<Rightarrow> gostring \<Rightarrow> int \<Rightarrow> iterItem list \<times> nat) \<Rightarrow> waitContext \<Rightarrow> QueryOptions
     \<Rightarrow> int \<Rightarrow> int \<Rightarrow> int \<Rightarrow> LogEntry list retryResult option" where
  "WaitForLogCount lib Entries ctx opts minCount timeout now =
     (let ctx = WithTimeout ctx now timeout in
      if minCount \<le> 0 then WaitForLogs lib Entries ctx opts timeout now
      else
        poll_logs ctx (now + timeout) (\<lambda>now. Some (answer_of (QueryLogs lib (Entries ctx) opts now)))
          (\<lambda>entries. int (length entries) \<ge> minCount)
          (\<lambda>entries. ''waiting for '' @ FormatInt minCount @ '' logs canceled after finding '' @
             FormatInt (int (length entries)))
          (\<lambda>seen. ''timeout waiting for at least '' @ FormatInt minCount @ '' logs after '' @
             Duration_String timeout @ ''; found '' @
             FormatInt (case seen of None \<Rightarrow> 0 | Some entries \<Rightarrow> int (length entries)))
          None second now 0)"

definition WaitForLogsJSON ::
  "LoggingClient \<Rightarrow> (nat \<Rightarrow> int \<Rightarrow> int) \<Rightarrow> entriesAPI \<Rightarrow> waitContext \<Rightarrow> QueryOptions \<Rightarrow> int \<Rightarrow> int
     \<Rightarrow> hval gomap list retryResult option" where
  "WaitForLogsJSON c jitter api ctx opts timeout now =
     (let ctx = WithTimeout ctx now timeout in
      poll_logs ctx (now + timeout) (QueryLogsJSON c ctx jitter api opts)
        (\<lambda>entries. entries \<noteq> [])
        (\<lambda>_. ''waiting for raw logs canceled'')
        (\<lambda>_. ''timeout waiting for logs after '' @ Duration_String timeout)
        None second now 0)"

text \<open>The names an iterator returns, up to its first error.\<close>

fun GetLogMetadata :: "(apiError + gostring) list \<Rightarrow> gostring list \<Rightarrow> gostring list \<times> apiError option" where
  "GetLogMetadata [] logNames = (logNames, None)"
| "GetLogMetadata (Inl e # items) logNames = (logNames, Some (wrap ''iterating log names'' e))"
| "GetLogMetadata (Inr logName # items) logNames = GetLogMetadata items (logNames @ [logName])"

end
