(* ===== verification/HarnessTarget.thy ===== *)
theory HarnessTarget
  imports HttpTrace HarnessClient
begin

text \<open>
  The client side of a test case: \<^verbatim>\<open>target_client.go\<close> sends the requests that make
  a target service log, \<^verbatim>\<open>trace_client.go\<close> waits for the spans it wrote,
  \<^verbatim>\<open>cloudrun_auth.go\<close> decides how to authenticate. A request is the record the
  HTTP client is given; what the server answers, JSON and \<^verbatim>\<open>url.Parse\<close> are
  arguments. Random bytes are a word, \<open>None\<close> when the generator fails.
\<close>

section \<open>Requests\<close>

record sentRequest =
  sq_Method :: gostring
  sq_URL :: gostring
  sq_Header :: "gostring list gomap"
  sq_Body :: gostring

text \<open>\<^verbatim>\<open>http.CanonicalHeaderKey\<close>: keys with a byte that is no token character are kept.\<close>

definition token_char :: "char \<Rightarrow> bool" where
  "token_char c \<longleftrightarrow>
     decimal c \<or> (65 \<le> (of_char c :: nat) \<and> (of_char c :: nat) \<le> 90) \<or>
     (97 \<le> (of_char c :: nat) \<and> (of_char c :: nat) \<le> 122) \<or> c \<in> set ''!#$%&*+-.^_`|~'' \<or> c = CHR 0x27"

fun capitalize :: "bool \<Rightarrow> gostring \<Rightarrow> gostring" where
  "capitalize upper [] = []"
| "capitalize upper (c # cs) =
     (if upper then upper_byte c else lower_byte c) # capitalize (c = CHR ''-'') cs"

definition CanonicalHeaderKey :: "gostring \<Rightarrow> gostring" where
  "CanonicalHeaderKey k = (if list_all token_char k then capitalize True k else k)"

definition header_set :: "gostring \<Rightarrow> gostring \<Rightarrow> gostring list gomap \<Rightarrow> gostring list gomap" where
  "header_set k v h = Header_Set (CanonicalHeaderKey k) v h"

definition header_get :: "gostring list gomap \<Rightarrow> gostring \<Rightarrow> gostring" where
  "header_get h k = Header_Get h (CanonicalHeaderKey k)"

text \<open>
  What comes of a request: it cannot be created (\<^verbatim>\<open>http.NewRequest\<close> refuses its URL or
  method), it cannot be sent, or it is answered with a status and a body.
\<close>

datatype 'r answer = NotCreated gostring | NotSent gostring | Answered int 'r

type_synonym 'r exchange = "sentRequest \<Rightarrow> 'r answer"

text \<open>The HTTP client: a plain one, or one that signs for an audience.\<close>

datatype targetTransport = PlainClient | IDTokenClient gostring

record TargetClient =
  tc_baseURL :: gostring
  tc_httpClient :: targetTransport

definition trim_slashes :: "gostring \<Rightarrow> gostring" where
  "trim_slashes s = rev (dropWhile (\<lambda>c. c = CHR ''/'') (rev s))"

text \<open>
  \<^verbatim>\<open>cloudRunAudienceFromURL\<close>: \<open>parsed\<close> is what \<^verbatim>\<open>url.Parse\<close> returns for
  the trimmed text, its error or the scheme and host.
\<close>

definition cloudRunAudienceFromURL ::
  "(gostring \<Rightarrow> gostring + gostring \<times> gostring) \<Rightarrow> gostring \<Rightarrow> gostring + gostring \<times> bool" where
  "cloudRunAudienceFromURL parsed raw =
     (case parsed (TrimSpace raw) of
        Inl err \<Rightarrow> Inl (''parsing target url '' @ err)
      | Inr (scheme, host) \<Rightarrow>
          if scheme = [] \<or> host = [] then Inl ''target url must include scheme and host''
          else if map lower_byte scheme \<noteq> ''https'' then Inr ([], False)
          else Inr (scheme @ ''://'' @ host, True))"

text \<open>\<open>idtoken\<close> is the error of \<^verbatim>\<open>idtoken.NewClient\<close>, if any.\<close>

definition newTargetHTTPClient ::
  "(gostring \<Rightarrow> gostring + gostring \<times> gostring) \<Rightarrow> (gostring \<Rightarrow> gostring option) \<Rightarrow> gostring
     \<Rightarrow> gostring + targetTransport" where
  "newTargetHTTPClient parsed idtoken baseURL =
     (case cloudRunAudienceFromURL parsed baseURL of
        Inl err \<Rightarrow> Inl err
      | Inr (audience, secure) \<Rightarrow>
          if \<not> secure then Inr PlainClient
          else (case idtoken audience of
                  Some err \<Rightarrow> Inl (''creating id-token client for '' @ audience @ '': '' @ err)
                | None \<Rightarrow> Inr (IDTokenClient audience)))"

definition NewTargetClient ::
  "(gostring \<Rightarrow> gostring + gostring \<times> gostring) \<Rightarrow> (gostring \<Rightarrow> gostring option) \<Rightarrow> gostring
     \<Rightarrow> gostring + TargetClient" where
  "NewTargetClient parsed idtoken baseURL =
     (case newTargetHTTPClient parsed idtoken baseURL of
        Inl err \<Rightarrow> Inl err
      | Inr httpClient \<Rightarrow> Inr \<lparr>tc_baseURL = trim_slashes baseURL, tc_httpClient = httpClient\<rparr>)"

definition HealthCheckWithPath :: "TargetClient \<Rightarrow> unit exchange \<Rightarrow> gostring \<Rightarrow> gostring option" where
  "HealthCheckWithPath c Do path =
     (let path = (if HasPrefix path ''/'' then path else ''/'' @ path);
          req = \<lparr>sq_Method = ''GET'', sq_URL = tc_baseURL c @ path, sq_Header = [], sq_Body = []\<rparr>
      in case Do req of
           NotCreated err \<Rightarrow> Some (''creating health check request: '' @ err)
         | NotSent err \<Rightarrow> Some (''health check request failed: '' @ err)
         | Answered status _ \<Rightarrow>
             if status \<noteq> 200 then Some (''health check returned status '' @ FormatInt status) else None)"

definition HealthCheck :: "TargetClient \<Rightarrow> unit exchange \<Rightarrow> gostring option" where
  "HealthCheck c Do = HealthCheckWithPath c Do ''/health''"

text \<open>
  \<open>body\<close> is what marshalling the payload returns; the body of an answer is the result of
  decoding it.
\<close>

definition sendLogRequest ::
  "TargetClient \<Rightarrow> (gostring + 'a) exchange \<Rightarrow> gostring \<Rightarrow> gostring + gostring \<Rightarrow> gostring + 'a" where
  "sendLogRequest c Do endpoint body =
     (case body of
        Inl err \<Rightarrow> Inl (''marshaling request: '' @ err)
      | Inr body \<Rightarrow>
          (let req = \<lparr>sq_Method = ''POST'', sq_URL = tc_baseURL c @ endpoint,
                      sq_Header = header_set ''Content-Type'' ''application/json'' [], sq_Body = body\<rparr>
           in case Do req of
                NotCreated err \<Rightarrow> Inl (''creating request: '' @ err)
              | NotSent err \<Rightarrow> Inl (''request failed: '' @ err)
              | Answered status decoded \<Rightarrow>
                  if status \<noteq> 200 then Inl (''request returned status '' @ FormatInt status)
                  else (case decoded of
                          Inl err \<Rightarrow> Inl (''decoding response: '' @ err)
                        | Inr resp \<Rightarrow> Inr resp)))"

text \<open>The endpoint each of the client's log operations posts to.\<close>

datatype logOperation =
    LogWithSeverity gostring | LogStructured | LogNested | LogWithLabels | LogWithOperation | LogBatch
  | LogHTTPRequest | LogHTTPRequestInflight | LogHTTPRequestParserResidual | LogHTTPRequestParserStatusZero

fun log_endpoint :: "logOperation \<Rightarrow> gostring" where
  "log_endpoint (LogWithSeverity severity) = ''/log/'' @ severity"
| "log_endpoint LogStructured = ''/log/structured''"
| "log_endpoint LogNested = ''/log/nested''"
| "log_endpoint LogWithLabels = ''/log/labels''"
| "log_endpoint LogWithOperation = ''/log/operation''"
| "log_endpoint LogBatch = ''/log/batch''"
| "log_endpoint LogHTTPRequest = ''/log/http-request''"
| "log_endpoint LogHTTPRequestInflight = ''/log/http-request-inflight''"
| "log_endpoint LogHTTPRequestParserResidual = ''/log/http-request-parser-residual''"
| "log_endpoint LogHTTPRequestParserStatusZero = ''/log/http-request-parser-status-zero''"

definition DoRequest ::
  "TargetClient \<Rightarrow> 'r exchange \<Rightarrow> gostring \<Rightarrow> gostring \<Rightarrow> gostring gomap \<Rightarrow> gostring \<Rightarrow> gostring + int \<times> 'r" where
  "DoRequest c Do method path headers body =
     (let method = (if method = [] then ''GET'' else method);
          path = (if HasPrefix path ''/'' then path else ''/'' @ path);
          header = foldl (\<lambda>h (k, v). header_set k v h) [] headers;
          header = (if body \<noteq> [] \<and> header_get header ''Content-Type'' = []
                    then header_set ''Content-Type'' ''application/octet-stream'' header else header);
          req = \<lparr>sq_Method = method, sq_URL = tc_baseURL c @ path, sq_Header = header, sq_Body = body\<rparr>
      in case Do req of
           NotCreated err \<Rightarrow> Inl (''creating '' @ method @ '' request for '' @ path @ '': '' @ err)
         | NotSent err \<Rightarrow> Inl (''performing '' @ method @ '' '' @ path @ '': '' @ err)
         | Answered status body \<Rightarrow> Inr (status, body))"

section \<open>Trace headers\<close>

definition generateTraceID :: "128 word option \<Rightarrow> int \<Rightarrow> gostring" where
  "generateTraceID rnd now =
     (case rnd of
        Some b \<Rightarrow> pad_left 32 (FormatUint (unat b) 16)
      | None \<Rightarrow> pad_left 32 (FormatUint (nat now) 16))"

definition harness_generateSpanID :: "64 word option \<Rightarrow> int \<Rightarrow> gostring" where
  "harness_generateSpanID rnd now =
     (case rnd of
        Some b \<Rightarrow> pad_left 16 (FormatUint (unat b) 16)
      | None \<Rightarrow> pad_left 16 (FormatUint (nat now) 16))"

definition buildTraceHeader :: "gostring \<Rightarrow> gostring \<Rightarrow> bool \<Rightarrow> gostring" where
  "buildTraceHeader tid sid sampled =
     (let spanDecimal = (case ParseUint sid 16 of Some parsed \<Rightarrow> FormatUint parsed 10 | None \<Rightarrow> sid)
      in tid @ ''/'' @ spanDecimal @ '';o='' @ (if sampled then ''1'' else ''0''))"

record traceHTTPRequestConfig =
  tr_traceID :: gostring
  tr_spanID :: gostring
  tr_sampled :: bool
  tr_headers :: "gostring gomap"

text \<open>What the random generators return each time an option or the default asks for an identifier.\<close>

record idSource =
  ids_trace :: gostring
  ids_span :: gostring

definition defaultTraceHTTPRequestConfig :: "idSource \<Rightarrow> traceHTTPRequestConfig" where
  "defaultTraceHTTPRequestConfig ids =
     \<lparr>tr_traceID = ids_trace ids, tr_spanID = ids_span ids, tr_sampled = True, tr_headers = []\<rparr>"

datatype TraceRequestOption = WithTraceHeader gostring gostring bool | WithAdditionalHeader gostring gostring

fun apply_trace_option ::
  "idSource \<Rightarrow> TraceRequestOption \<Rightarrow> traceHTTPRequestConfig \<Rightarrow> traceHTTPRequestConfig" where
  "apply_trace_option ids (WithTraceHeader tid sid sampled) cfg =
     cfg \<lparr> tr_traceID := (if TrimSpace tid \<noteq> [] then TrimSpace tid else ids_trace ids),
           tr_spanID := (if TrimSpace sid \<noteq> [] then TrimSpace sid else ids_span ids),
           tr_sampled := sampled \<rparr>"
| "apply_trace_option ids (WithAdditionalHeader key val) cfg =
     cfg \<lparr> tr_headers := mput key val (tr_headers cfg) \<rparr>"

text \<open>The options, of which a nil one is skipped; each may draw identifiers of its own.\<close>

definition trace_config :: "(nat \<Rightarrow> idSource) \<Rightarrow> TraceRequestOption option list \<Rightarrow> traceHTTPRequestConfig" where
  "trace_config ids opts =
     foldl (\<lambda>cfg (i, opt). case opt of None \<Rightarrow> cfg | Some f \<Rightarrow> apply_trace_option (ids (Suc i)) f cfg)
       (defaultTraceHTTPRequestConfig (ids 0)) (enumerate 0 opts)"

definition trace_request_header :: "traceHTTPRequestConfig \<Rightarrow> gostring list gomap" where
  "trace_request_header cfg =
     foldl (\<lambda>h (k, v). header_set k v h)
       (header_set ''X-Cloud-Trace-Context''
          (buildTraceHeader (tr_traceID cfg) (tr_spanID cfg) (tr_sampled cfg))
          (header_set ''Content-Type'' ''application/json'' []))
       (tr_headers cfg)"

definition sendTraceRequest ::
  "TargetClient \<Rightarrow> (gostring + 'a) exchange \<Rightarrow> (nat \<Rightarrow> idSource) \<Rightarrow> gostring \<Rightarrow> gostring + gostring
     \<Rightarrow> TraceRequestOption option list \<Rightarrow> gostring + 'a" where
  "sendTraceRequest c Do ids endpoint payload opts =
     (case payload of
        Inl err \<Rightarrow> Inl (''marshaling request: '' @ err)
      | Inr body \<Rightarrow>
          (let req = \<lparr>sq_Method = ''POST'', sq_URL = tc_baseURL c @ endpoint,
                      sq_Header = trace_request_header (trace_config ids opts), sq_Body = body\<rparr>
           in case Do req of
                NotCreated err \<Rightarrow> Inl (''creating request: '' @ err)
              | NotSent err \<Rightarrow> Inl (''request failed: '' @ err)
              | Answered status decoded \<Rightarrow>
                  if status \<noteq> 200 then Inl (''request returned status '' @ FormatInt status)
                  else (case decoded of
                          Inl err \<Rightarrow> Inl (''decoding response: '' @ err)
                        | Inr resp \<Rightarrow> Inr resp)))"

datatype traceOperation =
    TraceSimple | TraceDownstreamHTTP | TraceDownstreamGRPC | TraceDownstreamPubSub | TraceParallel
  | TraceNested | TraceServerStream | TraceClientStream | TraceBidiStream

fun trace_endpoint :: "traceOperation \<Rightarrow> gostring" where
  "trace_endpoint TraceSimple = ''/trace/simple''"
| "trace_endpoint TraceDownstreamHTTP = ''/trace/downstream-http''"
| "trace_endpoint TraceDownstreamGRPC = ''/trace/downstream-grpc''"
| "trace_endpoint TraceDownstreamPubSub = ''/trace/downstream-pubsub''"
| "trace_endpoint TraceParallel = ''/trace/parallel''"
| "trace_endpoint TraceNested = ''/trace/nested''"
| "trace_endpoint TraceServerStream = ''/trace/downstream-grpc/server-stream''"
| "trace_endpoint TraceClientStream = ''/trace/downstream-grpc/client-stream''"
| "trace_endpoint TraceBidiStream = ''/trace/downstream-grpc/bidi-stream''"

section \<open>Waiting for spans\<close>

text \<open>A trace of the API: the names of its spans, of which an entry may be nil.\<close>

type_synonym cloudTrace = "gostring option list"

text \<open>The set of found names is kept as a map, whose size is compared with the expected set's.\<close>

definition found_spans :: "cloudTrace \<Rightarrow> unit gomap \<Rightarrow> unit gomap" where
  "found_spans spans expected =
     foldl (\<lambda>found sp. case sp of
              None \<Rightarrow> found
            | Some name \<Rightarrow> if map_of expected name \<noteq> None then mput name () found else found) [] spans"

definition spansCover :: "cloudTrace option \<Rightarrow> unit gomap \<Rightarrow> bool" where
  "spansCover tr expected =
     (case tr of None \<Rightarrow> False | Some spans \<Rightarrow> length (found_spans spans expected) = length expected)"

definition isTraceNotFound :: "apiError option \<Rightarrow> bool" where
  "isTraceNotFound err = (case err of None \<Rightarrow> False | Some e \<Rightarrow> er_api e = Some 404)"

definition GetTrace ::
  "(gostring \<Rightarrow> int \<Rightarrow> (apiError + cloudTrace option) \<times> nat) \<Rightarrow> gostring \<Rightarrow> int
     \<Rightarrow> (apiError + cloudTrace option) \<times> int" where
  "GetTrace get tid now =
     (case get tid now of
        (Inl e, elapsed) \<Rightarrow> (Inl (wrap (''fetching trace '' @ tid) e), now + int elapsed)
      | (Inr tr, elapsed) \<Rightarrow> (Inr tr, now + int elapsed))"

partial_function (option) span_loop ::
  "waitContext \<Rightarrow> int \<Rightarrow> (gostring \<Rightarrow> int \<Rightarrow> (apiError + cloudTrace option) \<times> nat) \<Rightarrow> gostring \<Rightarrow> unit gomap
     \<Rightarrow> int \<Rightarrow> int \<Rightarrow> nat \<Rightarrow> (cloudTrace option) retryResult option" where
  "span_loop ctx deadline get tid expected backoff now polls =
     (if now < deadline then
        (case GetTrace get tid now of (answer, now) \<Rightarrow>
           (case (case answer of
                    Inr tr \<Rightarrow> if spansCover tr expected then Some (Inr tr) else None
                  | Inl e \<Rightarrow> if isTraceNotFound (Some e) then None
                             else Some (Inl (wrap (''waiting for trace '' @ tid) e))) of
              Some r \<Rightarrow> Some (Returns r now (Suc polls))
            | None \<Rightarrow>
                (case wait_or_done ctx now backoff of
                   (now, Some e) \<Rightarrow>
                     Some (Returns (Inl (wrap (''waiting for trace '' @ tid @ '' canceled'') (context_error e)))
                       now (Suc polls))
                 | (now, None) \<Rightarrow>
                     span_loop ctx deadline get tid expected (next_backoff backoff) now (Suc polls))))
      else Some (Returns (Inl (plain_error (''timed out waiting for spans for trace '' @ tid))) now polls))"

declare span_loop.simps [code]

definition expected_set :: "gostring list \<Rightarrow> unit gomap" where
  "expected_set names = foldl (\<lambda>m name. mput name () m) [] names"

definition WaitForSpans ::
  "(gostring \<Rightarrow> int \<Rightarrow> (apiError + cloudTrace option) \<times> nat) \<Rightarrow> waitContext \<Rightarrow> gostring \<Rightarrow> gostring list
     \<Rightarrow> int \<Rightarrow> int \<Rightarrow> (cloudTrace option) retryResult option" where
  "WaitForSpans get ctx tid expected timeout now =
     (if expected = [] then Some (Returns (Inl (plain_error ''expected span names required'')) now 0)
      else span_loop ctx (now + timeout) get tid (expected_set expected) second now 0)"

end
