(* ===== verification/HarnessClientProps.thy ===== *)
theory HarnessClientProps
  imports HarnessClient
begin

text \<open>
  The queries of the harness end: the number of reads and the waiting time of a retried read are
  bounded, paging returns at most what was asked for, a wait for logs returns.
\<close>

section \<open>Retries\<close>

lemma error_of_simps [simp]: "error_of (Inl e) = Some e" "error_of (Inr v) = None"
  by (simp_all add: error_of_def)

lemma not_transient_ok [simp]: "\<not> throttled None" "\<not> transport_failed ctx t None"
  by (simp_all add: throttled_def transport_failed_def)

lemma wait_or_done_bounds:
  assumes "wait_or_done ctx now delay = (t, e)" and "0 \<le> delay"
  shows "now \<le> t" and "t \<le> now + delay"
  using assms by (auto simp: wait_or_done_def ctx_Err_def override_def split: option.splits if_splits)

lemma retry_delay_bounds:
  assumes "0 \<le> j" and "j < 5 * second" and "a < 3"
  shows "0 \<le> retry_delay th a j" and "retry_delay th a j < [35, 65, 65] ! a * second"
proof -
  have "a = 0 \<or> a = 1 \<or> a = 2" using assms(3) by auto
  then show "0 \<le> retry_delay th a j" "retry_delay th a j < [35, 65, 65] ! a * second"
    using assms(1,2) by (auto simp: retry_delay_def)
qed

text \<open>The longest wait that can follow an attempt.\<close>

definition wait_budget :: "nat list \<Rightarrow> int" where
  "wait_budget attempts = sum_list (map (\<lambda>a. if a < 3 then [35, 65, 65] ! a * second else 0) attempts)"

definition clock_forward :: "'a reader \<Rightarrow> int \<Rightarrow> bool" where
  "clock_forward read d \<longleftrightarrow> (\<forall>a t. t \<le> snd (read a t) \<and> snd (read a t) \<le> t + d)"

definition jitter_ok :: "(nat \<Rightarrow> int \<Rightarrow> int) \<Rightarrow> bool" where
  "jitter_ok jitter \<longleftrightarrow> (\<forall>a t. 0 \<le> jitter a t \<and> jitter a t < 5 * second)"

lemma wait_budget_nonneg: "0 \<le> wait_budget attempts"
proof -
  have "0 \<le> (if a < 3 then [35, 65, 65] ! a * second else 0)" for a
    by (auto simp: less_Suc_eq numeral_3_eq_3)
  then show ?thesis unfolding wait_budget_def by (intro sum_list_nonneg) (metis (no_types, lifting) imageE set_map)
qed

lemma retry_attempts_bounded:
  assumes "clock_forward read d" and "jitter_ok jitter" and "last attempts = 3"
    and "list_all (\<lambda>a. a \<le> 3) attempts" and "attempts \<noteq> []"
  shows "\<exists>r t n. retry_attempts ctx jitter read attempts now reads = Returns r t n
    \<and> reads \<le> n \<and> n \<le> reads + length attempts
    \<and> now \<le> t \<and> t \<le> now + int (length attempts) * d + wait_budget attempts"
  using assms(3-5)
proof (induction attempts arbitrary: now reads)
  case (Cons a rest)
  have "0 \<le> snd (read 0 0)" "snd (read 0 0) \<le> 0 + d"
    using assms(1) unfolding clock_forward_def by blast+
  then have d: "0 \<le> d" by simp
  define L where "L = int (length rest) * d"
  have rest: "0 \<le> L" using d by (simp add: L_def)
  have len: "int (length (a # rest)) * d = L + d" by (simp add: L_def algebra_simps)
  have budget: "wait_budget (a # rest) = (if a < 3 then [35, 65, 65] ! a * second else 0) + wait_budget rest"
    by (simp add: wait_budget_def)
  show ?case
  proof (cases "ctx_Err ctx now")
    case (Some e)
    then show ?thesis
      using d rest wait_budget_nonneg [of "a # rest"] unfolding len by simp
  next
    case None
    obtain r t1 where r: "read a now = (r, t1)" by (cases "read a now")
    have t1: "now \<le> t1" "t1 \<le> now + d"
      using assms(1) r unfolding clock_forward_def by (metis snd_conv)+
    show ?thesis
    proof (cases "\<not> throttled (error_of r) \<and> \<not> transport_failed ctx t1 (error_of r) \<or> a = 3")
      case True
      then show ?thesis
        using None r t1 d rest wait_budget_nonneg [of "a # rest"] unfolding len by simp
    next
      case False
      then have a: "a < 3" using Cons.prems by auto
      then have ne: "rest \<noteq> []" "last rest = 3" "list_all (\<lambda>a. a \<le> 3) rest"
        using Cons.prems by (auto split: if_splits)
      define w where "w = retry_delay (throttled (error_of r)) a (jitter a t1)"
      have w: "0 \<le> w" "w < [35, 65, 65] ! a * second"
        using assms(2) a unfolding jitter_ok_def w_def by (auto intro: retry_delay_bounds)
      obtain t2 e where t2: "wait_or_done ctx t1 w = (t2, e)" by (cases "wait_or_done ctx t1 w")
      note tb = wait_or_done_bounds [OF t2 w(1)]
      show ?thesis
      proof (cases e)
        case (Some x)
        then show ?thesis
          using None r False t1 t2 tb w a rest wait_budget_nonneg [of rest]
          unfolding len by (simp add: w_def budget Let_def)
      next
        case e: None
        have eq: "retry_attempts ctx jitter read (a # rest) now reads
            = retry_attempts ctx jitter read rest t2 (Suc reads)"
          using None r False t2 e by (auto simp: w_def Let_def)
        obtain r' t' n where ih: "retry_attempts ctx jitter read rest t2 (Suc reads) = Returns r' t' n"
          "Suc reads \<le> n" "n \<le> Suc reads + length rest" "t2 \<le> t'"
          "t' \<le> t2 + int (length rest) * d + wait_budget rest"
          using Cons.IH [OF ne(2,3,1), of t2 "Suc reads"] by blast
        have "t' \<le> now + int (length (a # rest)) * d + wait_budget (a # rest)"
          using ih(5) tb(2) t1(2) w(2) a unfolding len by (simp add: budget L_def)
        moreover have "now \<le> t'" using ih(4) tb(1) t1(1) by simp
        ultimately show ?thesis using eq ih(1-3) by auto
      qed
    qed
  qed
qed simp

text \<open>
  C16. A retried read ends: whatever the answers of the service, it performs at most four reads,
  never reaches its panic, and spends, besides the reads themselves, at most 165 seconds
  waiting.
\<close>

theorem retryLogQuota_bounded:
  assumes "clock_forward read d" and "jitter_ok jitter"
  shows "\<exists>r t n. retryLogQuota ctx jitter read now = Returns r t n
    \<and> n \<le> 4 \<and> now \<le> t \<and> t \<le> now + 4 * d + 165 * second"
proof -
  have "wait_budget [0, 1, 2, 3] = 165 * second" by (simp add: wait_budget_def)
  then show ?thesis
    using retry_attempts_bounded [OF assms, of "[0, 1, 2, 3]" ctx now 0]
    by (simp add: retryLogQuota_def eval_nat_numeral del: retry_attempts.simps)
qed

text \<open>Retrying is for transient failures: any other answer of the first read is the result.\<close>

lemma retryLogQuota_permanent:
  assumes "ctx_Err ctx now = None" and "read 0 now = (r, t)"
    and "\<not> throttled (error_of r)" and "\<not> transport_failed ctx t (error_of r)"
  shows "retryLogQuota ctx jitter read now = Returns r t 1"
  using assms by (simp add: retryLogQuota_def Let_def)

section \<open>Collecting entries\<close>

definition convertible :: "harnesslib \<Rightarrow> iterItem \<Rightarrow> bool" where
  "convertible lib i = (case i of Item x \<Rightarrow> isr (snd (newLogEntry lib x)) | Fails _ \<Rightarrow> False)"

definition projection :: "harnesslib \<Rightarrow> iterItem \<Rightarrow> LogEntry" where
  "projection lib i = (case i of Item x \<Rightarrow> projr (snd (newLogEntry lib x)) | Fails _ \<Rightarrow> undefined)"

lemma collect_convertible:
  "list_all (convertible lib) items \<Longrightarrow> int (length acc) < m \<Longrightarrow>
   collect_entries lib m items acc =
     (acc @ take (nat m - length acc) (map (projection lib) items), None)"
proof (induction items arbitrary: acc)
  case (Cons i items)
  obtain x where i: "i = Item x" "isr (snd (newLogEntry lib x))"
    using Cons.prems by (auto simp: convertible_def split: iterItem.splits)
  then obtain le where le: "snd (newLogEntry lib x) = Inr le"
    by (auto simp: isr_def split: sum.splits)
  have p: "projection lib i = le" by (simp add: projection_def i le)
  show ?case
  proof (cases "int (length (acc @ [le])) \<ge> m")
    case True
    then have "nat m - length acc = 1" using Cons.prems by auto
    then show ?thesis using True p le i by simp
  next
    case False
    then have "nat m - length acc = Suc (nat m - length (acc @ [le]))" using Cons.prems by auto
    then show ?thesis using False p le i Cons by simp
  qed
qed simp

lemma collect_bounded:
  "0 < m \<Longrightarrow> int (length acc) < m \<Longrightarrow> int (length (fst (collect_entries lib m items acc))) \<le> m"
  by (induction lib m items acc rule: collect_entries.induct) (auto split: sum.splits)

section \<open>Paging\<close>

definition extends :: "int \<Rightarrow> 'a list \<Rightarrow> 'a list retryResult \<Rightarrow> bool" where
  "extends m out r =
     (case r of Returns (Inr res) t n \<Rightarrow> int (length res) \<le> m \<and> prefix out res | _ \<Rightarrow> True)"

lemma json_pages_bounded:
  assumes "json_pages ctx jitter api q m out now pages = Some r" and "int (length out) < m"
  shows "extends m out r"
proof -
  have "int (length out) < m \<longrightarrow> extends m out r"
  proof (rule json_pages.raw_induct [where P = "\<lambda>ctx jitter api q m out now pages r.
      int (length out) < m \<longrightarrow> extends m out r", OF _ assms(1)])
    fix f and ctx :: waitContext and jitter api q m now pages r and out :: "hval gomap list"
    assume IH: "\<And>ctx jitter api q m out now pages r. f ctx jitter api q m out now pages = Some r
        \<Longrightarrow> int (length out) < m \<longrightarrow> extends m out r"
      and run: "(case fetchEntriesListPage ctx jitter api q now of
        Panics \<Rightarrow> Some Panics
      | Returns (Inl e) now reads \<Rightarrow> Some (Returns (Inl e) now pages)
      | Returns (Inr decoded) now reads \<Rightarrow>
          (let out = out @ rs_Entries decoded in
           if int (length out) \<ge> m
           then Some (Returns (Inr (take (nat m) out)) now (Suc pages))
           else if rs_NextPageToken decoded = [] then Some (Returns (Inr out) now (Suc pages))
           else f ctx jitter api (q \<lparr> rq_PageToken := rs_NextPageToken decoded \<rparr>) m out now (Suc pages))) = Some r"
    show "int (length out) < m \<longrightarrow> extends m out r"
    proof (cases "fetchEntriesListPage ctx jitter api q now")
      case (Returns a t n)
      show ?thesis
      proof (cases a)
        case (Inr d)
        have mono: "extends m out r" if "extends m (out @ x) r" for x
          using that by (auto simp: extends_def split: retryResult.splits sum.splits dest: append_prefixD)
        show ?thesis
        proof (cases "int (length (out @ rs_Entries d)) \<ge> m \<or> rs_NextPageToken d = []")
          case True
          then show ?thesis
            using run Returns Inr by (auto simp: Let_def extends_def prefix_def split: if_splits)
        next
          case False
          then have "f ctx jitter api (q \<lparr> rq_PageToken := rs_NextPageToken d \<rparr>) m (out @ rs_Entries d) t (Suc pages) = Some r"
            using run Returns Inr by (simp add: Let_def)
          from IH [OF this] show ?thesis using False mono by auto
        qed
      qed (use run Returns in \<open>auto simp: extends_def\<close>)
    qed (use run in \<open>auto simp: extends_def\<close>)
  qed
  then show ?thesis using assms(2) by simp
qed

text \<open>Under a context with a deadline paging ends, when every exchange takes time.\<close>

definition posts_take_time :: "entriesAPI \<Rightarrow> bool" where
  "posts_take_time api \<longleftrightarrow> (\<forall>payload a t. 0 < snd (post_entries api payload a t))"

lemma page_once_time: "now \<le> snd (fetchEntriesListPageOnce api q a now)"
  by (auto simp: fetchEntriesListPageOnce_def Let_def split: sum.split prod.split)

lemma page_once_takes_time:
  assumes "posts_take_time api" and "isr (fst (fetchEntriesListPageOnce api q a now))"
  shows "now < snd (fetchEntriesListPageOnce api q a now)"
proof (cases "encode_request api q")
  case (Inr payload)
  moreover have "0 < snd (post_entries api payload a now)"
    using assms(1) by (simp add: posts_take_time_def)
  ultimately show ?thesis
    by (auto simp: fetchEntriesListPageOnce_def split: sum.splits prod.splits)
qed (use assms(2) in \<open>simp add: fetchEntriesListPageOnce_def isr_def\<close>)

lemma retry_value_takes_time:
  assumes "\<And>a t. t \<le> snd (read a t)" and "\<And>a t. isr (fst (read a t)) \<Longrightarrow> t < snd (read a t)"
    and "jitter_ok jitter" and "list_all (\<lambda>a. a \<le> 3) attempts"
    and "retry_attempts ctx jitter read attempts now reads = Returns (Inr v) t n"
  shows "now < t \<and> ctx_Err ctx now = None"
  using assms(4,5)
proof (induction attempts arbitrary: now reads)
  case (Cons a rest)
  obtain r t1 where r: "read a now = (r, t1)" by (cases "read a now")
  have t1: "now \<le> t1" "isr r \<Longrightarrow> now < t1"
    using assms(1) [of now a] assms(2) [of a now] r by auto
  have ctx: "ctx_Err ctx now = None" using Cons.prems by (auto split: option.splits)
  show ?case
  proof (cases "\<not> throttled (error_of r) \<and> \<not> transport_failed ctx t1 (error_of r) \<or> a = 3")
    case True
    then show ?thesis using Cons.prems ctx r t1 by (auto simp: isr_def Let_def)
  next
    case False
    define w where "w = retry_delay (throttled (error_of r)) a (jitter a t1)"
    have w: "0 \<le> w" using assms(3) False Cons.prems(1) unfolding w_def jitter_ok_def
      by (intro retry_delay_bounds) auto
    obtain t2 e where t2: "wait_or_done ctx t1 w = (t2, e)" by (cases "wait_or_done ctx t1 w")
    have "now \<le> t2" using wait_or_done_bounds(1) [OF t2 w] t1(1) by simp
    moreover have "e = None" "retry_attempts ctx jitter read rest t2 (Suc reads) = Returns (Inr v) t n"
      using Cons.prems(2) ctx r False t2 by (auto simp: w_def Let_def split: option.splits)
    ultimately show ?thesis using Cons.IH [of t2 "Suc reads"] Cons.prems(1) ctx by simp
  qed
qed simp

lemma retry_returns:
  assumes "\<And>a t. t \<le> snd (read a t)" and "jitter_ok jitter"
    and "list_all (\<lambda>a. a \<le> 3) attempts" and "attempts \<noteq> []" and "last attempts = 3"
  shows "\<exists>r t n. retry_attempts ctx jitter read attempts now reads = Returns r t n \<and> now \<le> t"
  using assms(3-5)
proof (induction attempts arbitrary: now reads)
  case (Cons a rest)
  obtain r t1 where r: "read a now = (r, t1)" by (cases "read a now")
  have t1: "now \<le> t1" using assms(1) [of now a] r by simp
  show ?case
  proof (cases "ctx_Err ctx now \<noteq> None \<or> \<not> throttled (error_of r) \<and> \<not> transport_failed ctx t1 (error_of r) \<or> a = 3")
    case True
    then show ?thesis using r t1 by (cases "ctx_Err ctx now") (auto simp: Let_def)
  next
    case False
    then have rest: "rest \<noteq> []" "last rest = 3" "a < 3" "list_all (\<lambda>a. a \<le> 3) rest"
      using Cons.prems by (auto split: if_splits)
    define w where "w = retry_delay (throttled (error_of r)) a (jitter a t1)"
    have w: "0 \<le> w" using assms(2) rest(3) unfolding w_def jitter_ok_def by (intro retry_delay_bounds) auto
    obtain t2 e where t2: "wait_or_done ctx t1 w = (t2, e)" by (cases "wait_or_done ctx t1 w")
    have le: "now \<le> t2" using wait_or_done_bounds(1) [OF t2 w] t1 by simp
    obtain r' t' n where "retry_attempts ctx jitter read rest t2 (Suc reads) = Returns r' t' n" "t2 \<le> t'"
      using Cons.IH [OF rest(4,1,2)] by blast
    then show ?thesis using False r t2 le by (cases e) (auto simp: w_def Let_def)
  qed
qed simp

lemma fetch_returns:
  assumes "jitter_ok jitter"
  obtains r t n where "fetchEntriesListPage ctx jitter api q now = Returns r t n" and "now \<le> t"
proof -
  have "\<exists>r t n. fetchEntriesListPage ctx jitter api q now = Returns r t n \<and> now \<le> t"
    unfolding fetchEntriesListPage_def retryLogQuota_def
    by (rule retry_returns) (simp_all add: page_once_time assms)
  then show ?thesis using that by blast
qed

lemma fetch_takes_time:
  assumes "posts_take_time api" and "jitter_ok jitter"
    and "fetchEntriesListPage ctx jitter api q now = Returns (Inr d) t n"
  shows "now < t \<and> ctx_Err ctx now = None"
proof (rule retry_value_takes_time)
  show "retry_attempts ctx jitter (fetchEntriesListPageOnce api q) [0, 1, 2, 3] now 0 = Returns (Inr d) t n"
    using assms(3) by (simp add: fetchEntriesListPage_def retryLogQuota_def)
qed (use assms page_once_time page_once_takes_time [OF assms(1)] in auto)

lemma json_pages_returns:
  assumes "posts_take_time api" and "jitter_ok jitter" and "wc_done ctx = Some d"
  shows "\<exists>a t n. json_pages ctx jitter api q m out now pages = Some (Returns a t n) \<and> now \<le> t"
proof (induction "nat (d - now)" arbitrary: q out now pages rule: less_induct)
  case less
  obtain a t n where f: "fetchEntriesListPage ctx jitter api q now = Returns a t n" "now \<le> t"
    using fetch_returns [OF assms(2)] by blast
  show ?case
  proof (cases a)
    case (Inl e)
    then show ?thesis by (simp add: json_pages.simps [of ctx jitter api q m out now pages] f)
  next
    case (Inr x)
    have "now < t" "now < d"
      using fetch_takes_time [OF assms(1,2) f(1) [unfolded Inr]] assms(3)
      by (auto simp: ctx_Err_def split: if_splits)
    then have "nat (d - t) < nat (d - now)" by simp
    from less [OF this, of "q \<lparr> rq_PageToken := rs_NextPageToken x \<rparr>" "out @ rs_Entries x" "Suc pages"]
    show ?thesis
      using f Inr by (auto simp: json_pages.simps [of ctx jitter api q m out now pages] Let_def)
  qed
qed

section \<open>Waiting\<close>

text \<open>
  The interface of a query that is polled: it returns, not before it was called, and does not
  panic.
\<close>

locale polled_query =
  fixes query :: "int \<Rightarrow> 'e retryResult option"
  assumes query_returns: "\<exists>a t n. query now = Some (Returns a t n) \<and> now \<le> t"
begin

lemma poll_logs_returns:
  assumes "second \<le> backoff"
  shows "\<exists>a t n. poll_logs ctx deadline query enough canceled timedOut seen backoff now polls = Some (Returns a t n)
    \<and> polls \<le> n \<and> (n = polls \<or> int (n - polls - 1) * second < deadline - now)
    \<and> (\<forall>r. a = Inr r \<longrightarrow> enough r \<and> (\<exists>s t' n'. query s = Some (Returns (Inr r) t' n')))"
  using assms
proof (induction "nat (deadline - now)" arbitrary: seen backoff now polls rule: less_induct)
  case less
  show ?case
  proof (cases "now < deadline")
    case False
    then show ?thesis by (simp add: poll_logs.simps)
  next
    case True
    obtain a t n where q: "query now = Some (Returns a t n)" "now \<le> t" using query_returns by blast
    show ?thesis
    proof (cases a)
      case (Inl e)
      then show ?thesis using True q by (simp add: poll_logs.simps [of ctx deadline query enough canceled timedOut seen backoff now])
    next
      case (Inr r)
      show ?thesis
      proof (cases "enough r")
        case True
        then show ?thesis using \<open>now < deadline\<close> q Inr
          by (auto simp add: poll_logs.simps [of ctx deadline query enough canceled timedOut seen backoff now])
      next
        case False
        obtain t2 e where t2: "wait_or_done ctx t backoff = (t2, e)" by (cases "wait_or_done ctx t backoff")
        show ?thesis
        proof (cases e)
          case (Some x)
          then show ?thesis using \<open>now < deadline\<close> q Inr False t2
            by (simp add: poll_logs.simps [of ctx deadline query enough canceled timedOut seen backoff now])
        next
          case None
          then have "t2 = t + backoff" using t2 by (auto simp: wait_or_done_def split: option.splits)
          then have later: "now + second \<le> t2" using q(2) less.prems by simp
          then have "nat (deadline - t2) < nat (deadline - now)" using True by simp
          moreover have "second \<le> next_backoff backoff" using less.prems by (simp add: next_backoff_def)
          ultimately obtain a' t' n' where ih:
            "poll_logs ctx deadline query enough canceled timedOut (Some r) (next_backoff backoff) t2 (Suc polls)
               = Some (Returns a' t' n')" "Suc polls \<le> n'"
            "n' = Suc polls \<or> int (n' - Suc polls - 1) * second < deadline - t2"
            "\<forall>r. a' = Inr r \<longrightarrow> enough r \<and> (\<exists>s t' n'. query s = Some (Returns (Inr r) t' n'))"
            using less.hyps by blast
          have "int (n' - polls - 1) * second < deadline - now"
            using ih(2,3) later True by auto
          then show ?thesis
            using \<open>now < deadline\<close> q Inr False t2 None ih
            by (simp add: poll_logs.simps [of ctx deadline query enough canceled timedOut seen backoff now])
        qed
      qed
    qed
  qed
qed

end

interpretation logs: polled_query "\<lambda>now. Some (answer_of (QueryLogs lib (Entries ctx) opts now))"
  for lib Entries ctx opts
  by unfold_locales (simp add: answer_of_def QueryLogs_def split: prod.split)

lemma max_results_pos: "0 < max_results opts"
  by (simp add: max_results_def)

lemma QueryLogsJSON_polled:
  assumes "posts_take_time api" and "jitter_ok jitter" and "wc_done ctx = Some d"
  shows "polled_query (QueryLogsJSON c ctx jitter api opts)"
proof
  show "\<exists>a t n. QueryLogsJSON c ctx jitter api opts now = Some (Returns a t n) \<and> now \<le> t" for now
    using json_pages_returns [OF assms]
    by (auto simp: QueryLogsJSON_def queryLogsJSONPages_def split: prod.split)
qed

lemma QueryLogs_bounded:
  assumes "answer_of (QueryLogs lib E opts now) = Returns (Inr entries) t n"
  shows "int (length entries) \<le> max_results opts"
proof -
  obtain items el where i: "E (buildLogFilter opts) now = (items, el)" by (cases "E (buildLogFilter opts) now")
  then have "fst (collect_entries lib (max_results opts) items []) = entries"
    using assms by (auto simp: answer_of_def QueryLogs_def split: prod.splits option.splits)
  then show ?thesis
    using collect_bounded [of "max_results opts" "[]" lib items] max_results_pos [of opts] by auto
qed

lemma WithTimeout_done: "\<exists>d. wc_done (WithTimeout ctx now timeout) = Some d"
  by (auto simp: WithTimeout_def split: option.split)

lemma WaitForLogs_ends:
  "\<exists>a t n. WaitForLogs lib Entries ctx opts timeout now = Some (Returns a t n)
    \<and> (n = 0 \<or> int (n - 1) * second < timeout)
    \<and> (case a of Inl _ \<Rightarrow> True
       | Inr entries \<Rightarrow> 1 \<le> length entries \<and> int (length entries) \<le> max_results opts)"
proof -
  obtain a t n where w: "WaitForLogs lib Entries ctx opts timeout now = Some (Returns a t n)"
    "n = 0 \<or> int (n - 0 - 1) * second < now + timeout - now"
    "\<forall>r. a = Inr r \<longrightarrow> r \<noteq> [] \<and> (\<exists>s t' n'. Some (answer_of (QueryLogs lib
        (Entries (WithTimeout ctx now timeout)) opts s)) = Some (Returns (Inr r) t' n'))"
    unfolding WaitForLogs_def Let_def
    using logs.poll_logs_returns [of second "WithTimeout ctx now timeout" "now + timeout" lib Entries
        "WithTimeout ctx now timeout" opts "\<lambda>entries. entries \<noteq> []" _ _ None now 0] by blast
  then have "\<forall>r. a = Inr r \<longrightarrow> 1 \<le> length r \<and> int (length r) \<le> max_results opts"
    using QueryLogs_bounded by (fastforce simp: Suc_le_eq)
  then show ?thesis using w(1,2) by (intro exI [of _ a] exI [of _ t] exI [of _ n]) (auto split: sum.split)
qed

text \<open>
  A wait for logs ends: within its timeout it makes at most one query per second and one
  more, and it succeeds only with at least the number of entries asked for (at least one) and
  at most the maximal number of results; the model never runs on and never panics.
\<close>

theorem WaitForLogCount_ends:
  "\<exists>a t n. WaitForLogCount lib Entries ctx opts minCount timeout now = Some (Returns a t n)
    \<and> (n = 0 \<or> int (n - 1) * second < timeout)
    \<and> (case a of Inl _ \<Rightarrow> True
       | Inr entries \<Rightarrow> max 1 minCount \<le> int (length entries) \<and> int (length entries) \<le> max_results opts)"
proof (cases "minCount \<le> 0")
  case True
  then show ?thesis
    using WaitForLogs_ends [of lib Entries "WithTimeout ctx now timeout" opts timeout now]
    by (auto simp: WaitForLogCount_def Let_def split: sum.splits)
next
  case False
  obtain a t n where w: "WaitForLogCount lib Entries ctx opts minCount timeout now = Some (Returns a t n)"
    "n = 0 \<or> int (n - 0 - 1) * second < now + timeout - now"
    "\<forall>r. a = Inr r \<longrightarrow> int (length r) \<ge> minCount \<and> (\<exists>s t' n'. Some (answer_of (QueryLogs lib
        (Entries (WithTimeout ctx now timeout)) opts s)) = Some (Returns (Inr r) t' n'))"
    unfolding WaitForLogCount_def Let_def if_not_P [OF False]
    using logs.poll_logs_returns [of second "WithTimeout ctx now timeout" "now + timeout" lib Entries
        "WithTimeout ctx now timeout" opts "\<lambda>entries. int (length entries) \<ge> minCount" _ _ None now 0] by blast
  then have "\<forall>r. a = Inr r \<longrightarrow> max 1 minCount \<le> int (length r) \<and> int (length r) \<le> max_results opts"
    using QueryLogs_bounded False by fastforce
  then show ?thesis using w(1,2) by (intro exI [of _ a] exI [of _ t] exI [of _ n]) (auto split: sum.split)
qed

lemma QueryLogsJSON_bounded:
  assumes "QueryLogsJSON c ctx jitter api opts now = Some (Returns (Inr entries) t n)"
  shows "int (length entries) \<le> max_results opts"
proof -
  obtain q where "json_pages ctx jitter api q (max_results opts) [] now 0 = Some (Returns (Inr entries) t n)"
    using assms by (auto simp: QueryLogsJSON_def buildEntriesListRequest_def queryLogsJSONPages_def Let_def
        split: if_splits)
  then show ?thesis
    using json_pages_bounded max_results_pos [of opts] by (fastforce simp: extends_def)
qed


text \<open>A service that answers every request, after one second, with an empty page and a token.\<close>

definition demo_api :: entriesAPI where
  "demo_api =
     \<lparr>encode_request = (\<lambda>q. Inr (rq_Filter q)), post_entries = (\<lambda>payload a t. (Inr (200, payload), 1000000000)),
      decode_response = (\<lambda>body. Inr \<lparr>rs_Entries = [], rs_NextPageToken = ''next''\<rparr>)\<rparr>"

definition demo_ctx :: waitContext where
  "demo_ctx = \<lparr>wc_done = None, wc_error = []\<rparr>"

definition demo_opts :: QueryOptions where
  "demo_opts = \<lparr>qo_Filter = ''severity=ERROR'', qo_StartTime = zero_time, qo_EndTime = zero_time,
     qo_MaxResults = 5, qo_ResourceType = []\<rparr>"


text \<open>A read that always finds the service unavailable is tried four times, with 7 seconds of waiting.\<close>

definition unavailable :: apiError where
  "unavailable = \<lparr>er_text = ''unavailable'', er_status = Unavailable, er_api = None, er_deadline = False\<rparr>"

definition demo_read :: "unit reader" where
  "demo_read a now = (Inl unavailable, now + second)"

theorem retryLogQuota_bounded_witness:
  "retryLogQuota demo_ctx (\<lambda>_ _. 0) demo_read 0 = Returns (Inl unavailable) (11 * second) 4
   \<and> (\<exists>r t n. retryLogQuota demo_ctx (\<lambda>_ _. 0) demo_read 0 = Returns r t n \<and> n \<le> 4
       \<and> 0 \<le> t \<and> t \<le> 0 + 4 * second + 165 * second)"
proof
  show "retryLogQuota demo_ctx (\<lambda>_ _. 0) demo_read 0 = Returns (Inl unavailable) (11 * second) 4"
    by code_simp
  show "\<exists>r t n. retryLogQuota demo_ctx (\<lambda>_ _. 0) demo_read 0 = Returns r t n \<and> n \<le> 4
       \<and> 0 \<le> t \<and> t \<le> 0 + 4 * second + 165 * second"
    by (rule retryLogQuota_bounded) (simp_all add: clock_forward_def jitter_ok_def demo_read_def)
qed

end
