(* ===== verification/HarnessTargetProps.thy ===== *)
theory HarnessTargetProps
  imports HarnessTarget HarnessClientProps
begin

text \<open>
  The requests of the harness carry the trace context the library reads from them, and a wait
  for spans ends with all of them or an error.
\<close>

section \<open>A trace request reaches the library\<close>

lemma canonical_trace_header [simp]: "CanonicalHeaderKey ''X-Cloud-Trace-Context'' = ''X-Cloud-Trace-Context''"
  by code_simp

lemma digit_visible: "digit_value c = Some d \<Longrightarrow> visible c"
  by (auto simp: digit_value_def visible_def Let_def split: if_splits)

lemma parse_digits_visible: "parse_digits b acc s = Some n \<Longrightarrow> list_all visible s"
  by (induction b acc s rule: parse_digits.induct) (auto split: option.splits if_splits dest: digit_visible)

lemma ParseUint_trimmed:
  assumes "ParseUint s b = Some n"
  shows "TrimSpace s = s" and "s \<noteq> []"
proof -
  from assms show "s \<noteq> []" by (auto simp: ParseUint_def)
  from assms have "list_all visible s"
    by (auto simp: ParseUint_def dest: parse_digits_visible split: option.splits if_splits)
  then show "TrimSpace s = s" by (rule TrimSpace_all_visible)
qed

text \<open>For a span identifier in hexadecimal the harness writes the header the library writes.\<close>

lemma buildTraceHeader_library:
  assumes "ParseUint sid 16 = Some n"
  shows "buildTraceHeader tid sid sampled = BuildXCloudTraceContext tid sid sampled"
  using assms by (simp add: buildTraceHeader_def BuildXCloudTraceContext_def SpanIDHexToDecimal_def FormatUint_def)

definition plain_headers :: "gostring gomap \<Rightarrow> bool" where
  "plain_headers hs \<longleftrightarrow> list_all (\<lambda>e. CanonicalHeaderKey (fst e) \<noteq> ''X-Cloud-Trace-Context'') hs"

lemma plain_headers_mput: "plain_headers hs \<Longrightarrow> CanonicalHeaderKey k \<noteq> ''X-Cloud-Trace-Context'' \<Longrightarrow>
    plain_headers (mput k v hs)"
  using set_mput_subset [of k v hs] by (auto simp: plain_headers_def list_all_iff)

definition only_headers :: "TraceRequestOption option list \<Rightarrow> bool" where
  "only_headers opts \<longleftrightarrow>
     list_all (\<lambda>opt. case opt of
        Some (WithAdditionalHeader k v) \<Rightarrow> CanonicalHeaderKey k \<noteq> ''X-Cloud-Trace-Context''
      | Some (WithTraceHeader _ _ _) \<Rightarrow> False
      | None \<Rightarrow> True) opts"

lemma only_headers_keep:
  assumes "only_headers opts" and "plain_headers (tr_headers cfg)"
  shows "let cfg' = foldl (\<lambda>cfg (i, opt). case opt of None \<Rightarrow> cfg | Some f \<Rightarrow> apply_trace_option (ids (Suc i)) f cfg)
             cfg (enumerate n opts)
         in tr_traceID cfg' = tr_traceID cfg \<and> tr_spanID cfg' = tr_spanID cfg
          \<and> tr_sampled cfg' = tr_sampled cfg \<and> plain_headers (tr_headers cfg')"
  using assms
proof (induction opts arbitrary: n cfg)
  case (Cons opt opts)
  show ?case
  proof (cases opt)
    case None
    then show ?thesis using Cons.IH [of cfg "Suc n"] Cons.prems by (simp add: only_headers_def)
  next
    case (Some f)
    then obtain k v where f: "f = WithAdditionalHeader k v" "CanonicalHeaderKey k \<noteq> ''X-Cloud-Trace-Context''"
      using Cons.prems(1) by (cases f) (auto simp: only_headers_def)
    then show ?thesis
      using Cons.IH [of "cfg \<lparr> tr_headers := mput k v (tr_headers cfg) \<rparr>" "Suc n"] Cons.prems Some
      by (simp add: only_headers_def plain_headers_mput)
  qed
qed simp

lemma header_sets_keep:
  "plain_headers hs \<Longrightarrow>
   map_of (foldl (\<lambda>h (k, v). header_set k v h) h hs) ''X-Cloud-Trace-Context''
     = map_of h ''X-Cloud-Trace-Context''"
  by (induction hs arbitrary: h)
     (auto simp: plain_headers_def header_set_def Header_Set_def update_conv')

lemma request_header_value:
  assumes "plain_headers (tr_headers cfg)"
  shows "Header_Get (trace_request_header cfg) XCloudTraceContextHeader
    = buildTraceHeader (tr_traceID cfg) (tr_spanID cfg) (tr_sampled cfg)"
proof -
  have "map_of (header_set ''X-Cloud-Trace-Context'' v h) ''X-Cloud-Trace-Context'' = Some [v]" for v h
    by (simp add: header_set_def Header_Set_def)
  then show ?thesis
    unfolding trace_request_header_def Header_Get_def XCloudTraceContextHeader_def
      header_sets_keep [OF assms] by simp
qed

text \<open>
  C18. The trace a test case starts is the trace the service under test sees: whatever other
  headers the options add, the library's HTTP middleware reads from a request of
  \<^verbatim>\<open>sendTraceRequest\<close> the trace, the span and the sampling decision that
  \<^verbatim>\<open>WithTraceHeader\<close> was given, as a remote span context.
\<close>

theorem trace_request_reaches_library:
  assumes "otel_laws api" and "t \<noteq> 0" and "s \<noteq> 0" and "only_headers opts"
    and "\<not> IsValid api (ctx_span ctx)"
    and "req_Header r = trace_request_header (trace_config ids
           (Some (WithTraceHeader (TraceID_String api t) (SpanID_String api s) sampled) # opts))"
  shows "InjectTraceContextMiddleware api rnd ctx r = ContextWithRemoteSpanContext ctx
    \<lparr>TraceID_of = t, SpanID_of = s, TraceFlags = (if sampled then 1 else 0), Remote = True\<rparr>"
proof -
  define cfg0 where "cfg0 = apply_trace_option (ids 1)
      (WithTraceHeader (TraceID_String api t) (SpanID_String api s) sampled) (defaultTraceHTTPRequestConfig (ids 0))"
  define cfg where "cfg = trace_config ids
      (Some (WithTraceHeader (TraceID_String api t) (SpanID_String api s) sampled) # opts)"
  have sp: "ParseUint (SpanID_String api s) 16 = Some (unat s)" using otel_lawsD(6) [OF assms(1)] by blast
  have hex: "list_all visible (TraceID_String api t)" "TraceID_String api t \<noteq> []"
    using otel_lawsD(2) [OF assms(1)] otel_ids_not_Nil(1) [OF assms(1)] lower_hex_chars(1) by blast+
  have cfg0: "tr_traceID cfg0 = TraceID_String api t" "tr_spanID cfg0 = SpanID_String api s"
    "tr_sampled cfg0 = sampled" "plain_headers (tr_headers cfg0)"
    using hex ParseUint_trimmed [OF sp]
    by (simp_all add: cfg0_def defaultTraceHTTPRequestConfig_def plain_headers_def)
  have "cfg = foldl (\<lambda>cfg (i, opt). case opt of None \<Rightarrow> cfg | Some f \<Rightarrow> apply_trace_option (ids (Suc i)) f cfg)
      cfg0 (enumerate 1 opts)"
    by (simp add: cfg_def trace_config_def cfg0_def)
  then have cfg: "tr_traceID cfg = TraceID_String api t" "tr_spanID cfg = SpanID_String api s"
    "tr_sampled cfg = sampled" "plain_headers (tr_headers cfg)"
    using only_headers_keep [OF assms(4) cfg0(4), where ids = ids and n = 1] cfg0 by (simp_all add: Let_def)
  define header where "header = Header_Get (req_Header r) XCloudTraceContextHeader"
  have header: "header = BuildXCloudTraceContext (TraceID_String api t) (SpanID_String api s) sampled"
    unfolding header_def assms(6) cfg_def [symmetric] request_header_value [OF cfg(4)]
    by (simp add: cfg buildTraceHeader_library [OF sp])
  have "parseXCloudTrace api rnd header
      = Some \<lparr>TraceID_of = t, SpanID_of = s, TraceFlags = (if sampled then 1 else 0), Remote = True\<rparr>"
    unfolding header by (rule xcloud_reader.reads_built [OF http_xcloud_reader [OF assms(1)] assms(2,3)])
  moreover have "header \<noteq> []" unfolding header by (simp add: BuildXCloudTraceContext_def Let_def)
  ultimately show ?thesis
    using assms(5) by (simp add: InjectTraceContextMiddleware_def Let_def header_def)
qed

definition demo_request :: "gostring list gomap \<Rightarrow> goRequest" where
  "demo_request h = \<lparr>req_Method = ''POST'', req_URL = None, req_Header = h, req_Proto = ''HTTP/1.1'',
     req_ContentLength = 0, req_RemoteAddr = [], req_Host = [], req_TLS = False\<rparr>"

definition demo_ids :: "nat \<Rightarrow> idSource" where
  "demo_ids i = \<lparr>ids_trace = generateTraceID (Some 7) 0, ids_span = harness_generateSpanID (Some 9) 0\<rparr>"

theorem trace_request_reaches_library_witness:
  "InjectTraceContextMiddleware w3c (\<lambda>_. None) Background
     (demo_request (trace_request_header (trace_config demo_ids
        [Some (WithTraceHeader (TraceID_String w3c 0xABC) (SpanID_String w3c 0x4A) True),
         Some (WithAdditionalHeader ''x-test'' ''1'')])))
   = ContextWithRemoteSpanContext Background
      \<lparr>TraceID_of = 0xABC, SpanID_of = 0x4A, TraceFlags = 1, Remote = True\<rparr>"
proof -
  have h: "only_headers [Some (WithAdditionalHeader ''x-test'' ''1'')]" by code_simp
  have v: "\<not> IsValid w3c (ctx_span Background)"
    by (simp add: otel_lawsD(7) [OF w3c_laws] Background_def zero_SpanContext_def)
  show ?thesis
    using trace_request_reaches_library [OF w3c_laws _ _ h v, of "0xABC" "0x4A" "demo_request _" demo_ids True "\<lambda>_. None"]
    by (simp add: demo_request_def)
qed

section \<open>Waiting for spans\<close>

lemma keys_found:
  "set (map fst (foldl (\<lambda>found sp. case sp of
        None \<Rightarrow> found
      | Some name \<Rightarrow> if map_of expected name \<noteq> None then mput name () found else found) acc spans))
    = set (map fst acc) \<union> {n. Some n \<in> set spans \<and> n \<in> fst ` set expected}"
  by (induction spans arbitrary: acc) (auto simp: map_of_eq_None_iff dom_update split: option.splits)

lemma distinct_found:
  "distinct (map fst acc) \<Longrightarrow> distinct (map fst (foldl (\<lambda>found sp. case sp of
        None \<Rightarrow> found
      | Some name \<Rightarrow> if map_of expected name \<noteq> None then mput name () found else found) acc spans))"
  by (induction spans arbitrary: acc) (auto intro: distinct_update split: option.splits)

lemma expected_keys: "set (map fst (expected_set names)) = set names" "distinct (map fst (expected_set names))"
proof -
  have "set (map fst (foldl (\<lambda>m name. mput name () m) acc names)) = set (map fst acc) \<union> set names
    \<and> (distinct (map fst acc) \<longrightarrow> distinct (map fst (foldl (\<lambda>m name. mput name () m) acc names)))" for acc
    by (induction names arbitrary: acc) (auto simp: dom_update intro: distinct_update)
  from this [of "[]"] show "set (map fst (expected_set names)) = set names" "distinct (map fst (expected_set names))"
    by (simp_all add: expected_set_def)
qed

text \<open>Comparing sizes decides inclusion: every expected name is the name of a span.\<close>

lemma spansCover_iff:
  "spansCover (Some spans) (expected_set names) \<longleftrightarrow> (\<forall>n \<in> set names. Some n \<in> set spans)"
proof -
  let ?e = "expected_set names" and ?f = "found_spans spans (expected_set names)"
  have keys: "set (map fst ?f) = {n. Some n \<in> set spans \<and> n \<in> set names}"
    using keys_found [of ?e "[]" spans] expected_keys(1) [of names] by (simp add: found_spans_def)
  have "distinct (map fst ?f)"
    unfolding found_spans_def by (rule distinct_found) simp
  from distinct_card [OF this] have len_f: "length ?f = card (set (map fst ?f))" by simp
  from distinct_card [OF expected_keys(2) [of names]]
  have len_e: "length ?e = card (set names)" unfolding expected_keys(1) by simp
  have "card {n. Some n \<in> set spans \<and> n \<in> set names} = card (set names)
    \<longleftrightarrow> {n. Some n \<in> set spans \<and> n \<in> set names} = set names"
    using card_subset_eq [OF List.finite_set, of "{n. Some n \<in> set spans \<and> n \<in> set names}" names] by auto
  then show ?thesis unfolding spansCover_def option.case len_f len_e keys by auto
qed

lemma span_loop_ends:
  assumes "second \<le> backoff"
  shows "\<exists>a t n. span_loop ctx deadline get tid expected backoff now polls = Some (Returns a t n)
    \<and> polls \<le> n \<and> (n = polls \<or> int (n - polls - 1) * second < deadline - now)
    \<and> (case a of Inl _ \<Rightarrow> True | Inr tr \<Rightarrow> spansCover tr expected)"
  using assms
proof (induction "nat (deadline - now)" arbitrary: backoff now polls rule: less_induct)
  case less
  note unroll = span_loop.simps [of ctx deadline get tid expected backoff now polls]
  show ?case
  proof (cases "now < deadline")
    case False
    then show ?thesis by (simp add: unroll)
  next
    case True
    obtain answer t where g: "GetTrace get tid now = (answer, t)" by (cases "GetTrace get tid now")
    then have t: "now \<le> t" by (auto simp: GetTrace_def split: prod.splits sum.splits)
    define stop where "stop =
      (case answer of
         Inr tr \<Rightarrow> if spansCover tr expected then Some (Inr tr) else None
       | Inl e \<Rightarrow> if isTraceNotFound (Some e) then None
                  else Some (Inl (wrap (''waiting for trace '' @ tid) e)))"
    note loop = unroll [unfolded if_P [OF True] g prod.case stop_def [symmetric]]
    show ?thesis
    proof (cases stop)
      case (Some r)
      moreover have "case r of Inl _ \<Rightarrow> True | Inr tr \<Rightarrow> spansCover tr expected"
        using Some by (auto simp: stop_def split: sum.splits if_splits)
      ultimately show ?thesis using True by (simp add: loop)
    next
      case None
      obtain t2 e where t2: "wait_or_done ctx t backoff = (t2, e)" by (cases "wait_or_done ctx t backoff")
      show ?thesis
      proof (cases e)
        case (Some x)
        then show ?thesis using None True t2 by (simp add: loop)
      next
        case e: None
        then have "t2 = t + backoff" using t2 by (auto simp: wait_or_done_def split: option.splits)
        then have later: "now + second \<le> t2" using t less.prems by simp
        then have "nat (deadline - t2) < nat (deadline - now)" using True by simp
        moreover have "second \<le> next_backoff backoff" using less.prems by (simp add: next_backoff_def)
        ultimately obtain a' t' n' where ih:
          "span_loop ctx deadline get tid expected (next_backoff backoff) t2 (Suc polls) = Some (Returns a' t' n')"
          "Suc polls \<le> n'" "n' = Suc polls \<or> int (n' - Suc polls - 1) * second < deadline - t2"
          "case a' of Inl _ \<Rightarrow> True | Inr tr \<Rightarrow> spansCover tr expected"
          using less.hyps by blast
        have "int (n' - polls - 1) * second < deadline - now" using ih(2,3) later True by auto
        then show ?thesis using None e t2 ih by (simp add: loop)
      qed
    qed
  qed
qed

text \<open>
  A wait for spans ends within its timeout (at most one query per second and one more), and
  succeeds only with a trace in which every expected name is the name of a span; a trace that
  does not exist yet is waited for, any other error of the API ends the wait.
\<close>

theorem WaitForSpans_ends:
  "\<exists>a t n. WaitForSpans get ctx tid expected timeout now = Some (Returns a t n)
    \<and> (n = 0 \<or> int (n - 1) * second < timeout)
    \<and> (case a of Inr (Some spans) \<Rightarrow> set (map Some expected) \<subseteq> set spans
       | Inr None \<Rightarrow> False | Inl _ \<Rightarrow> True)"
proof (cases "expected = []")
  case False
  obtain a t n where w: "WaitForSpans get ctx tid expected timeout now = Some (Returns a t n)"
    "n = 0 \<or> int (n - 1) * second < timeout"
    "case a of Inl _ \<Rightarrow> True | Inr tr \<Rightarrow> spansCover tr (expected_set expected)"
    using span_loop_ends [of second ctx "now + timeout" get tid "expected_set expected" now 0] False
    by (auto simp: WaitForSpans_def)
  have "case a of Inr (Some spans) \<Rightarrow> set (map Some expected) \<subseteq> set spans
       | Inr None \<Rightarrow> False | Inl _ \<Rightarrow> True"
  proof (cases a)
    case (Inr tr)
    then show ?thesis
      using w(3) by (cases tr) (auto simp: spansCover_iff spansCover_def [of None])
  qed simp
  then show ?thesis using w(1,2) by blast
qed (simp add: WaitForSpans_def)

end
