(* ===== verification/HarnessDeploy.thy ===== *)
theory HarnessDeploy
  imports HarnessClient "HOL-Library.List_Lexorder" "HOL-Library.Char_ord"
begin

text \<open>
  The Cloud Run services of a harness run: \<^verbatim>\<open>cloudrun_manager.go\<close>. The Cloud
  Run API is the argument \<open>cloudAPI\<close>: a call takes the time and the state of the cloud
  and returns its answer, the new state and how long it took. The state of a run of the
  harness holds the time, the cloud and the calls that create or delete a resource, in order.
\<close>

section \<open>The API\<close>

record objectMeta =
  om_Name :: gostring
  om_Labels :: "gostring gomap"
  om_Uid :: gostring
  om_Generation :: int
  om_DeletionTimestamp :: gostring

record serviceCondition =
  sc_Type :: gostring
  sc_Status :: gostring
  sc_Reason :: gostring
  sc_Message :: gostring

record serviceStatus =
  ss_ObservedGeneration :: int
  ss_Conditions :: "serviceCondition list"
  ss_Url :: gostring

record serviceSpec =
  sp_ServiceAccountName :: gostring
  sp_Image :: gostring
  sp_ContainerPort :: int
  sp_Env :: "(gostring \<times> gostring) list"

record runService =
  rs_ApiVersion :: gostring
  rs_Kind :: gostring
  rs_Metadata :: "objectMeta option"
  rs_Spec :: "serviceSpec option"
  rs_Status :: "serviceStatus option"

record iamBinding =
  ib_Role :: gostring
  ib_Members :: "gostring list"

type_synonym iamPolicy = "iamBinding list"

record servicesPage =
  pg_Items :: "runService option list"
  pg_Continue :: "gostring option"

type_synonym ('w, 'r) apiCall = "int \<Rightarrow> 'w \<Rightarrow> 'r \<times> 'w \<times> nat"

record 'w cloudAPI =
  api_Create :: "gostring \<Rightarrow> runService \<Rightarrow> ('w, apiError + objectMeta option) apiCall"
  api_Get :: "gostring \<Rightarrow> ('w, apiError option \<times> runService option) apiCall"
  api_Delete :: "gostring \<Rightarrow> ('w, apiError option) apiCall"
  api_GetIamPolicy :: "gostring \<Rightarrow> ('w, apiError + iamPolicy option) apiCall"
  api_SetIamPolicy :: "gostring \<Rightarrow> iamPolicy \<Rightarrow> ('w, apiError option) apiCall"
  api_List :: "gostring \<Rightarrow> gostring \<Rightarrow> ('w, apiError + servicesPage) apiCall"
  state_json :: "runService \<Rightarrow> gostring"

text \<open>
  A service was created (under its resource name) or asked to be deleted; the same for a
  Pub/Sub topic and subscription.
\<close>

datatype serviceCall =
    CreatedService gostring | DeleteService gostring
  | CreatedTopic gostring | DeleteTopic gostring
  | CreatedSubscription gostring | DeleteSubscription gostring

record 'w harness =
  now_at :: int
  cloud :: 'w
  service_calls :: "serviceCall list"

definition call :: "('w, 'r) apiCall \<Rightarrow> 'w harness \<Rightarrow> 'r \<times> 'w harness" where
  "call f h =
     (case f (now_at h) (cloud h) of
        (r, w, elapsed) \<Rightarrow> (r, h \<lparr> now_at := now_at h + int elapsed, cloud := w \<rparr>))"

definition record_call :: "serviceCall \<Rightarrow> 'w harness \<Rightarrow> 'w harness" where
  "record_call c h = h \<lparr> service_calls := service_calls h @ [c] \<rparr>"

text \<open>\<^verbatim>\<open>select\<close> on the end of the context and \<^verbatim>\<open>time.After\<close>.\<close>

definition wait_in :: "waitContext \<Rightarrow> int \<Rightarrow> 'w harness \<Rightarrow> gostring option \<times> 'w harness" where
  "wait_in ctx delay h =
     (case wait_or_done ctx (now_at h) delay of (t, e) \<Rightarrow> (e, h \<lparr> now_at := t \<rparr>))"

section \<open>Names and members\<close>

record CloudRunManager =
  m_projectID :: gostring
  m_region :: gostring
  m_runID :: gostring
  m_serviceAccount :: gostring
  m_invokerMembers :: "gostring list"

definition normalizeInvokerMember :: "gostring \<Rightarrow> gostring" where
  "normalizeInvokerMember raw =
     (let trimmed = TrimSpace raw
      in if trimmed = [] then []
         else if Contains trimmed '':'' then trimmed
         else if Contains trimmed ''@'' then ''serviceAccount:'' @ trimmed
         else trimmed)"

text \<open>The loop over the accounts with its set of members seen.\<close>

fun invoker_members :: "gostring list \<Rightarrow> gostring list \<Rightarrow> gostring list" where
  "invoker_members [] members = members"
| "invoker_members (raw # rest) members =
     (let member = normalizeInvokerMember raw
      in if member = [] then invoker_members rest members
         else if member \<in> set members then invoker_members rest members
         else invoker_members rest (members @ [member]))"

definition buildInvokerMembers :: "gostring list \<Rightarrow> gostring list" where
  "buildInvokerMembers serviceAccounts = sort (invoker_members serviceAccounts [])"

definition NewCloudRunManager ::
  "gostring \<Rightarrow> gostring \<Rightarrow> gostring \<Rightarrow> gostring \<Rightarrow> gostring \<Rightarrow> gostring option \<Rightarrow> gostring + CloudRunManager" where
  "NewCloudRunManager projectID region runID serviceAccount callerServiceAccount serviceErr =
     (case serviceErr of
        Some e \<Rightarrow> Inl (''creating Cloud Run API service: '' @ e)
      | None \<Rightarrow>
          Inr \<lparr>m_projectID = projectID, m_region = region, m_runID = runID,
               m_serviceAccount = serviceAccount,
               m_invokerMembers = buildInvokerMembers [serviceAccount, callerServiceAccount]\<rparr>)"

definition location :: "CloudRunManager \<Rightarrow> gostring" where
  "location m = ''projects/'' @ m_projectID m @ ''/locations/'' @ m_region m"

definition serviceResourceName :: "CloudRunManager \<Rightarrow> gostring \<Rightarrow> gostring" where
  "serviceResourceName m name = location m @ ''/services/'' @ name"

definition hex_byte :: "8 word \<Rightarrow> gostring" where
  "hex_byte b = pad_left 2 (FormatUint (unat b) 16)"

text \<open>\<open>rnd\<close>: the bytes \<^verbatim>\<open>rand.Read\<close> fills the buffer with, \<open>None\<close> on failure.\<close>

definition randomSuffix :: "(nat \<Rightarrow> 8 word list option) \<Rightarrow> int \<Rightarrow> int \<Rightarrow> gostring" where
  "randomSuffix rnd nanos len =
     (let len = (if len \<le> 0 then 6 else len)
      in case rnd (nat ((len + 1) div 2)) of
           None \<Rightarrow> FormatInt nanos
         | Some buf \<Rightarrow> take (nat len) (ToLower (concat (map hex_byte buf))))"

definition GenerateServiceName ::
  "CloudRunManager \<Rightarrow> (nat \<Rightarrow> 8 word list option) \<Rightarrow> int \<Rightarrow> gostring \<Rightarrow> gostring" where
  "GenerateServiceName m rnd nanos base =
     (let suf = randomSuffix rnd nanos 6;
          parts = [TrimSpace base] @ (if m_runID m \<noteq> [] then [m_runID m] else []) @ [suf]
      in ToLower (strings_Join parts ''-''))"

text \<open>The environment as a list sorted by name; the keys of the map are distinct.\<close>

definition buildEnvVars :: "gostring gomap \<Rightarrow> (gostring \<times> gostring) list" where
  "buildEnvVars env =
     (if env = [] then []
      else map (\<lambda>k. (k, case map_of env k of Some v \<Rightarrow> v | None \<Rightarrow> [])) (sort (map fst env)))"

section \<open>Access policies\<close>

text \<open>
  The binding is a pointer into the policy, through which the members are appended: the model
  returns its position next to the policy.
\<close>

definition ensurePolicyBinding :: "iamPolicy \<Rightarrow> gostring \<Rightarrow> nat \<times> iamPolicy" where
  "ensurePolicyBinding policy role =
     (let before = takeWhile (\<lambda>b. ib_Role b \<noteq> role) policy
      in if length before < length policy then (length before, policy)
         else (length policy, policy @ [\<lparr>ib_Role = role, ib_Members = []\<rparr>]))"

definition appendMissingMembers :: "iamBinding \<Rightarrow> gostring list \<Rightarrow> iamBinding" where
  "appendMissingMembers b members =
     foldl (\<lambda>b member. if member \<notin> set (ib_Members b)
              then b \<lparr> ib_Members := ib_Members b @ [member] \<rparr> else b) b members"

definition fetchIAMPolicy :: "'w cloudAPI \<Rightarrow> gostring \<Rightarrow> 'w harness \<Rightarrow> (apiError + iamPolicy) \<times> 'w harness" where
  "fetchIAMPolicy api resource h =
     (case call (api_GetIamPolicy api resource) h of
        (Inl e, h) \<Rightarrow> (Inl (wrap ''retrieving IAM policy'' e), h)
      | (Inr None, h) \<Rightarrow> (Inr [], h)
      | (Inr (Some policy), h) \<Rightarrow> (Inr policy, h))"

definition applyIAMPolicy ::
  "'w cloudAPI \<Rightarrow> gostring \<Rightarrow> iamPolicy \<Rightarrow> 'w harness \<Rightarrow> apiError option \<times> 'w harness" where
  "applyIAMPolicy api resource policy h =
     (case call (api_SetIamPolicy api resource policy) h of
        (Some e, h) \<Rightarrow> (Some (wrap ''setting IAM policy'' e), h)
      | (None, h) \<Rightarrow> (None, h))"

definition invoker_policy :: "iamPolicy \<Rightarrow> gostring list \<Rightarrow> iamPolicy" where
  "invoker_policy policy members =
     (case ensurePolicyBinding policy ''roles/run.invoker'' of
        (i, policy) \<Rightarrow> policy[i := appendMissingMembers (policy ! i) members])"

definition ensureInvokerPolicy ::
  "CloudRunManager \<Rightarrow> 'w cloudAPI \<Rightarrow> gostring \<Rightarrow> 'w harness \<Rightarrow> apiError option \<times> 'w harness" where
  "ensureInvokerPolicy m api resource h =
     (if m_invokerMembers m = [] then (None, h)
      else case fetchIAMPolicy api resource h of
             (Inl e, h) \<Rightarrow> (Some e, h)
           | (Inr policy, h) \<Rightarrow>
               applyIAMPolicy api resource (invoker_policy policy (m_invokerMembers m)) h)"

section \<open>Readiness\<close>

text \<open>
  \<^verbatim>\<open>strings.EqualFold\<close> against an ASCII text: besides the two cases of a letter, the
  Kelvin sign folds with \<^verbatim>\<open>k\<close> and the long s (U+017F) with \<^verbatim>\<open>s\<close>.
\<close>

fun fold_case :: "gostring \<Rightarrow> gostring" where
  "fold_case [] = []"
| "fold_case (c # cs) =
     (if c = CHR 0xE2 \<and> take 2 cs = [CHR 0x84, CHR 0xAA] then CHR ''k'' # fold_case (drop 2 cs)
      else if c = CHR 0xC5 \<and> take 1 cs = [CHR 0xBF] then CHR ''s'' # fold_case (drop 1 cs)
      else lower_byte c # fold_case cs)"

definition EqualFold :: "gostring \<Rightarrow> gostring \<Rightarrow> bool" where
  "EqualFold s t \<longleftrightarrow> fold_case s = fold_case t"

definition serviceReadiness :: "runService option \<Rightarrow> objectMeta option \<Rightarrow> gostring + bool" where
  "serviceReadiness service expected =
     (case service of
        None \<Rightarrow> Inr False
      | Some s \<Rightarrow>
          (case (rs_Status s, rs_Metadata s) of
             (Some status, Some meta) \<Rightarrow>
               if om_DeletionTimestamp meta \<noteq> [] then Inl ''service is being deleted''
               else if (case expected of None \<Rightarrow> False
                        | Some ex \<Rightarrow> om_Uid ex \<noteq> [] \<and> om_Uid meta \<noteq> om_Uid ex)
               then Inl ''service identity changed''
               else if ss_ObservedGeneration status \<noteq> om_Generation meta
                 \<or> (case expected of None \<Rightarrow> False | Some ex \<Rightarrow> om_Generation meta < om_Generation ex)
               then Inr False
               else (case find (\<lambda>c. sc_Type c = ''Ready'') (ss_Conditions status) of
                       None \<Rightarrow> Inr False
                     | Some c \<Rightarrow>
                         if EqualFold (sc_Status c) ''False''
                         then Inl (''service readiness failed: '' @ sc_Reason c @ '': '' @ sc_Message c)
                         else Inr (EqualFold (sc_Status c) ''True'' \<and> ss_Url status \<noteq> []))
           | _ \<Rightarrow> Inr False))"

definition isTransientServiceError :: "apiError \<Rightarrow> bool \<times> int" where
  "isTransientServiceError e =
     (case er_api e of
        Some code \<Rightarrow> (code \<in> set [404, 429, 500, 502, 503, 504], code)
      | None \<Rightarrow> (False, 0))"

text \<open>What a poll learnt, for the error text: the last API error and the last state.\<close>

definition readiness_failure :: "apiError \<Rightarrow> apiError option \<Rightarrow> gostring \<Rightarrow> apiError" where
  "readiness_failure err lastError lastState =
     err \<lparr> er_text := er_text err @ ''; last API error='' @
             (case lastError of None \<Rightarrow> ''<nil>'' | Some e \<Rightarrow> er_text e) @
             ''; last service state='' @ lastState \<rparr>"

partial_function (option) ready_loop ::
  "waitContext \<Rightarrow> objectMeta option \<Rightarrow> ('w harness \<Rightarrow> (apiError option \<times> runService option) \<times> 'w harness)
     \<Rightarrow> (runService \<Rightarrow> gostring) \<Rightarrow> apiError option \<Rightarrow> gostring \<Rightarrow> 'w harness
     \<Rightarrow> ((apiError + runService) \<times> 'w harness) option" where
  "ready_loop ctx expected get json lastError lastState h =
     (case ctx_Err ctx (now_at h) of
        Some e \<Rightarrow> Some (Inl (readiness_failure (context_error e) lastError lastState), h)
      | None \<Rightarrow>
          (case get h of ((err, service), h) \<Rightarrow>
             let lastState = (case service of None \<Rightarrow> lastState | Some s \<Rightarrow> json s) in
             case ctx_Err ctx (now_at h) of
               Some e \<Rightarrow> Some (Inl (readiness_failure (context_error e) err lastState), h)
             | None \<Rightarrow>
                 (case (case err of
                          None \<Rightarrow>
                            (case serviceReadiness service expected of
                               Inl stateErr \<Rightarrow> Some (Inl (plain_error stateErr))
                             | Inr True \<Rightarrow> map_option Inr service
                             | Inr False \<Rightarrow> None)
                        | Some e \<Rightarrow>
                            if fst (isTransientServiceError e) then None
                            else Some (Inl (wrap ''fetching service state'' e))) of
                    Some (Inl e) \<Rightarrow> Some (Inl (readiness_failure e err lastState), h)
                  | Some (Inr s) \<Rightarrow> Some (Inr s, h)
                  | None \<Rightarrow>
                      (case wait_in ctx (2 * second) h of
                         (Some e, h) \<Rightarrow> Some (Inl (readiness_failure (context_error e) err lastState), h)
                       | (None, h) \<Rightarrow> ready_loop ctx expected get json err lastState h))))"

declare ready_loop.simps [code]

definition waitForServiceReady ::
  "waitContext \<Rightarrow> objectMeta option \<Rightarrow> ('w harness \<Rightarrow> (apiError option \<times> runService option) \<times> 'w harness)
     \<Rightarrow> (runService \<Rightarrow> gostring) \<Rightarrow> 'w harness \<Rightarrow> ((apiError + runService) \<times> 'w harness) option" where
  "waitForServiceReady ctx expected get json h =
     ready_loop ctx expected get json None ''no service response'' h"

section \<open>Deletion\<close>

definition not_found :: "apiError \<Rightarrow> bool" where
  "not_found e \<longleftrightarrow> er_api e = Some 404"

partial_function (option) deletion_loop ::
  "waitContext \<Rightarrow> 'w cloudAPI \<Rightarrow> gostring \<Rightarrow> int \<Rightarrow> 'w harness \<Rightarrow> (apiError option \<times> 'w harness) option" where
  "deletion_loop ctx api resource deadline h =
     (case call (api_Get api resource) h of
        ((Some e, _), h) \<Rightarrow>
          Some (if not_found e then None else Some (wrap ''checking deletion status'' e), h)
      | ((None, _), h) \<Rightarrow>
          if now_at h > deadline
          then Some (Some (plain_error ''timed out waiting for service deletion''), h)
          else (case wait_in ctx (2 * second) h of
                  (Some e, h) \<Rightarrow>
                    Some (Some (wrap (''waiting for deletion of '' @ resource @ '' canceled'') (context_error e)), h)
                | (None, h) \<Rightarrow> deletion_loop ctx api resource deadline h))"

declare deletion_loop.simps [code]

definition waitForDeletion ::
  "waitContext \<Rightarrow> 'w cloudAPI \<Rightarrow> gostring \<Rightarrow> 'w harness \<Rightarrow> (apiError option \<times> 'w harness) option" where
  "waitForDeletion ctx api resource h =
     deletion_loop ctx api resource (now_at h + 120 * second) h"

definition deleteService ::
  "waitContext \<Rightarrow> 'w cloudAPI \<Rightarrow> gostring \<Rightarrow> 'w harness \<Rightarrow> (apiError option \<times> 'w harness) option" where
  "deleteService ctx api resource h =
     (case call (api_Delete api resource) (record_call (DeleteService resource) h) of
        (Some e, h) \<Rightarrow>
          Some (if not_found e then None else Some (wrap (''deleting service '' @ resource) e), h)
      | (None, h) \<Rightarrow> waitForDeletion ctx api resource h)"

section \<open>Deployment\<close>

record ServiceConfig =
  cfg_Name :: gostring
  cfg_Image :: gostring
  cfg_Env :: "gostring gomap"
  cfg_Labels :: "gostring gomap"
  cfg_Port :: int

text \<open>The closure \<^verbatim>\<open>deleteFn\<close> deletes one resource; nil is \<open>None\<close>.\<close>

record ServiceInstance =
  si_Name :: gostring
  si_URL :: gostring
  si_resource :: "gostring option"

definition service_request :: "CloudRunManager \<Rightarrow> ServiceConfig \<Rightarrow> runService" where
  "service_request m cfg =
     \<lparr>rs_ApiVersion = ''serving.knative.dev/v1'', rs_Kind = ''Service'',
      rs_Metadata = Some \<lparr>om_Name = cfg_Name cfg, om_Labels = cfg_Labels cfg, om_Uid = [],
                          om_Generation = 0, om_DeletionTimestamp = []\<rparr>,
      rs_Spec = Some \<lparr>sp_ServiceAccountName = m_serviceAccount m, sp_Image = cfg_Image cfg,
                      sp_ContainerPort = (if cfg_Port cfg = 0 then 8080 else cfg_Port cfg),
                      sp_Env = buildEnvVars (cfg_Env cfg)\<rparr>,
      rs_Status = None\<rparr>"

text \<open>The instance and the error; \<open>None\<close> is a deployment that never returns.\<close>

definition DeployService ::
  "CloudRunManager \<Rightarrow> 'w cloudAPI \<Rightarrow> waitContext \<Rightarrow> ServiceConfig \<Rightarrow> 'w harness
     \<Rightarrow> ((ServiceInstance option \<times> apiError option) \<times> 'w harness) option" where
  "DeployService m api ctx cfg h =
     (if cfg_Name cfg = [] then Some ((None, Some (plain_error ''service name is required'')), h)
      else if cfg_Image cfg = []
      then Some ((None, Some (plain_error (''container image is required for service '' @ cfg_Name cfg))), h)
      else
        (case call (api_Create api (location m) (service_request m cfg)) h of
           (Inl e, h) \<Rightarrow> Some ((None, Some (wrap (''creating Cloud Run service '' @ cfg_Name cfg) e)), h)
         | (Inr created, h) \<Rightarrow>
             (let resource = serviceResourceName m (cfg_Name cfg);
                  inst = \<lparr>si_Name = cfg_Name cfg, si_URL = [], si_resource = Some resource\<rparr>;
                  h = record_call (CreatedService resource) h
              in case ensureInvokerPolicy m api resource h of
                   (Some e, h) \<Rightarrow>
                     Some ((Some inst, Some (wrap (''updating IAM policy for '' @ cfg_Name cfg) e)), h)
                 | (None, h) \<Rightarrow>
                     map_option (\<lambda>(r, h).
                       case r of
                         Inl e \<Rightarrow>
                           ((Some inst, Some (wrap (''waiting for service '' @ cfg_Name cfg @ '' readiness'') e)), h)
                       | Inr service \<Rightarrow>
                           ((Some (inst \<lparr> si_URL := (case rs_Status service of Some s \<Rightarrow> ss_Url s | None \<Rightarrow> []) \<rparr>),
                             None), h))
                       (waitForServiceReady (WithTimeout ctx (now_at h) (300 * second)) created
                          (call (api_Get api resource)) (state_json api) h))))"

definition Cleanup ::
  "waitContext \<Rightarrow> 'w cloudAPI \<Rightarrow> ServiceInstance option \<Rightarrow> 'w harness
     \<Rightarrow> (apiError option \<times> 'w harness) option" where
  "Cleanup ctx api i h =
     (case i of
        None \<Rightarrow> Some (None, h)
      | Some inst \<Rightarrow>
          (case si_resource inst of
             None \<Rightarrow> Some (None, h)
           | Some resource \<Rightarrow> deleteService ctx api resource h))"

section \<open>The final cleanup of a run\<close>

definition shouldCleanupService :: "runService option \<Rightarrow> gostring \<Rightarrow> bool" where
  "shouldCleanupService svc runID =
     (case svc of
        None \<Rightarrow> False
      | Some s \<Rightarrow>
          (case rs_Metadata s of
             None \<Rightarrow> False
           | Some meta \<Rightarrow>
               let name = ToLower (om_Name meta)
               in if name = [] \<or> \<not> Contains name runID then False
                  else map_of (om_Labels meta) ''e2e-scenario'' \<noteq> None))"

definition listServicesPage ::
  "CloudRunManager \<Rightarrow> 'w cloudAPI \<Rightarrow> gostring \<Rightarrow> 'w harness \<Rightarrow> (apiError + servicesPage) \<times> 'w harness" where
  "listServicesPage m api continueToken h =
     (case call (api_List api (location m) continueToken) h of
        (Inl e, h) \<Rightarrow> (Inl (wrap ''listing Cloud Run services'' e), h)
      | (Inr page, h) \<Rightarrow> (Inr page, h))"

definition service_name :: "runService option \<Rightarrow> gostring" where
  "service_name svc = (case Option.bind svc rs_Metadata of Some meta \<Rightarrow> om_Name meta | None \<Rightarrow> [])"

text \<open>The services of one page; the messages of the deletions that failed.\<close>

definition cleanup_item ::
  "waitContext \<Rightarrow> CloudRunManager \<Rightarrow> 'w cloudAPI \<Rightarrow> gostring \<Rightarrow> runService option
     \<Rightarrow> gostring list \<times> 'w harness \<Rightarrow> (gostring list \<times> 'w harness) option" where
  "cleanup_item ctx m api runID svc s =
     (case s of (errs, h) \<Rightarrow>
        if \<not> shouldCleanupService svc runID then Some (errs, h)
        else map_option (\<lambda>(err, h).
               (case err of None \<Rightarrow> errs | Some e \<Rightarrow> errs @ [service_name svc @ '': '' @ er_text e], h))
               (deleteService ctx api (serviceResourceName m (service_name svc)) h))"

partial_function (option) cleanup_pages ::
  "waitContext \<Rightarrow> CloudRunManager \<Rightarrow> 'w cloudAPI \<Rightarrow> gostring \<Rightarrow> gostring \<Rightarrow> gostring list \<Rightarrow> 'w harness
     \<Rightarrow> ((apiError + gostring list) \<times> 'w harness) option" where
  "cleanup_pages ctx m api runID continueToken errs h =
     (case listServicesPage m api continueToken h of
        (Inl e, h) \<Rightarrow> Some (Inl (wrap ''listing services for cleanup'' e), h)
      | (Inr resp, h) \<Rightarrow>
          Option.bind (each (cleanup_item ctx m api runID) (pg_Items resp) (errs, h)) (\<lambda>s.
            case s of (errs, h) \<Rightarrow>
              (case pg_Continue resp of
                 None \<Rightarrow> Some (Inr errs, h)
               | Some token \<Rightarrow>
                   if token = [] then Some (Inr errs, h)
                   else cleanup_pages ctx m api runID token errs h)))"

declare cleanup_pages.simps [code]

definition CleanupRun ::
  "waitContext \<Rightarrow> CloudRunManager \<Rightarrow> 'w cloudAPI \<Rightarrow> 'w harness \<Rightarrow> (apiError option \<times> 'w harness) option" where
  "CleanupRun ctx m api h =
     (let runID = ToLower (m_runID m)
      in if runID = [] then Some (None, h)
         else map_option (\<lambda>(r, h).
                case r of
                  Inl e \<Rightarrow> (Some e, h)
                | Inr errs \<Rightarrow>
                    (if errs \<noteq> []
                     then (Some (plain_error (''cleanup run encountered errors: '' @ strings_Join errs ''; '')), h)
                     else (None, h)))
                (cleanup_pages ctx m api runID [] [] h))"

end
