(* ===== verification/HarnessDeployProps.thy ===== *)
theory HarnessDeployProps
  imports HarnessDeploy
begin

text \<open>
  Deployment and deletion of a service end, and what was created is accounted for; the access
  policy grants what it has to and nothing is lost from it.
\<close>

section \<open>Calls\<close>

lemma call_state:
  assumes "call f h = (r, h')"
  shows "now_at h \<le> now_at h'" and "service_calls h' = service_calls h"
  using assms by (auto simp: call_def split: prod.splits)

lemma record_call_state [simp]:
  "service_calls (record_call c h) = service_calls h @ [c]" "now_at (record_call c h) = now_at h"
  by (simp_all add: record_call_def)

lemma wait_in_state:
  assumes "wait_in ctx delay h = (e, h')" and "0 \<le> delay"
  shows "now_at h \<le> now_at h'" and "service_calls h' = service_calls h"
    and "e = None \<Longrightarrow> now_at h' = now_at h + delay"
  using assms
  by (auto simp: wait_in_def wait_or_done_def ctx_Err_def override_def split: prod.splits option.splits if_splits)

text \<open>A step that neither creates nor deletes services and does not turn the clock back.\<close>

definition quiet :: "'w harness \<Rightarrow> 'w harness \<Rightarrow> bool" where
  "quiet h h' \<longleftrightarrow> now_at h \<le> now_at h' \<and> service_calls h' = service_calls h"

lemma quiet_refl [simp, intro]: "quiet h h"
  by (simp add: quiet_def)

lemma quiet_trans [trans]: "quiet h h' \<Longrightarrow> quiet h' h'' \<Longrightarrow> quiet h h''"
  by (auto simp: quiet_def)

lemma quiet_call: "call f h = (r, h') \<Longrightarrow> quiet h h'"
  using call_state by (auto simp: quiet_def)

lemma quiet_wait: "wait_in ctx (2 * second) h = (e, h') \<Longrightarrow> quiet h h'"
  using wait_in_state by (fastforce simp: quiet_def)

lemma quiet_fetch: "fetchIAMPolicy api resource h = (r, h') \<Longrightarrow> quiet h h'"
  by (auto simp: fetchIAMPolicy_def split: prod.splits sum.splits option.splits dest: quiet_call)

lemma quiet_apply: "applyIAMPolicy api resource p h = (r, h') \<Longrightarrow> quiet h h'"
  by (auto simp: applyIAMPolicy_def split: prod.splits option.splits dest: quiet_call)

lemma quiet_policy:
  assumes "ensureInvokerPolicy m api resource h = (r, h')"
  shows "quiet h h'"
proof (cases "m_invokerMembers m = []")
  case False
  obtain p h1 where f: "fetchIAMPolicy api resource h = (p, h1)" by (cases "fetchIAMPolicy api resource h")
  then have "quiet h h1" by (rule quiet_fetch)
  then show ?thesis
    using assms False f by (cases p) (auto simp: ensureInvokerPolicy_def dest: quiet_apply intro: quiet_trans)
qed (use assms in \<open>simp add: ensureInvokerPolicy_def\<close>)

section \<open>Readiness\<close>

lemma readiness_True:
  assumes "serviceReadiness service expected = Inr True"
  obtains s status where "service = Some s" and "rs_Status s = Some status" and "ss_Url status \<noteq> []"
  using assms by (auto simp: serviceReadiness_def split: option.splits if_splits)

lemma ready_loop_returns:
  assumes "wc_done ctx = Some d" and "\<And>h r h'. get h = (r, h') \<Longrightarrow> quiet h h'"
  shows "\<exists>r h'. ready_loop ctx expected get json lastError lastState h = Some (r, h') \<and> quiet h h'
    \<and> (case r of Inl _ \<Rightarrow> True | Inr s \<Rightarrow> serviceReadiness (Some s) expected = Inr True)"
proof (induction "nat (d - now_at h)" arbitrary: lastError lastState h rule: less_induct)
  case less
  note unroll = ready_loop.simps [of ctx expected get json lastError lastState h]
  show ?case
  proof (cases "ctx_Err ctx (now_at h)")
    case (Some e)
    then show ?thesis by (simp add: unroll)
  next
    case None
    then have now: "now_at h < d" using assms(1) by (auto simp: ctx_Err_def split: if_splits)
    obtain err service h1 where g: "get h = ((err, service), h1)" by (metis surj_pair)
    have q1: "quiet h h1" using assms(2) [OF g] .
    define state where "state = (case service of None \<Rightarrow> lastState | Some s \<Rightarrow> json s)"
    define stop where "stop =
      (case err of
         None \<Rightarrow>
           (case serviceReadiness service expected of
              Inl stateErr \<Rightarrow> Some (Inl (plain_error stateErr))
            | Inr True \<Rightarrow> map_option Inr service
            | Inr False \<Rightarrow> None)
       | Some e \<Rightarrow>
           if fst (isTransientServiceError e) then None
           else Some (Inl (wrap ''fetching service state'' e)))"
    note loop = unroll [unfolded None option.case g prod.case Let_def state_def [symmetric] stop_def [symmetric]]
    show ?thesis
    proof (cases "ctx_Err ctx (now_at h1)")
      case (Some e)
      then show ?thesis using q1 by (simp add: loop)
    next
      case running: None
      show ?thesis
      proof (cases stop)
        case (Some r)
        have "case r of Inl _ \<Rightarrow> True | Inr s \<Rightarrow> serviceReadiness (Some s) expected = Inr True"
          using Some by (auto simp: stop_def split: option.splits sum.splits bool.splits if_splits)
        then show ?thesis using Some running q1 by (cases r) (simp_all add: loop)
      next
        case again: None
        obtain e h2 where w: "wait_in ctx (2 * second) h1 = (e, h2)" by (cases "wait_in ctx (2 * second) h1")
        have q2: "quiet h h2" using q1 quiet_wait [OF w] by (rule quiet_trans)
        show ?thesis
        proof (cases e)
          case (Some x)
          then show ?thesis using running again w q2 by (simp add: loop)
        next
          case e: None
          have "now_at h2 = now_at h1 + 2 * second" using wait_in_state(3) [OF w _ e] by simp
          then have "nat (d - now_at h2) < nat (d - now_at h)" using now q1 by (simp add: quiet_def)
          then obtain r h' where ih: "ready_loop ctx expected get json err state h2 = Some (r, h')" "quiet h2 h'"
            "case r of Inl _ \<Rightarrow> True | Inr s \<Rightarrow> serviceReadiness (Some s) expected = Inr True"
            using less.hyps by blast
          show ?thesis using running again w e ih quiet_trans [OF q2 ih(2)] by (simp add: loop)
        qed
      qed
    qed
  qed
qed

lemma timeout_context: "\<exists>d. wc_done (WithTimeout ctx now timeout) = Some d"
  by (auto simp: WithTimeout_def split: option.split)

section \<open>Deletion\<close>

lemma deletion_loop_returns:
  "\<exists>e h'. deletion_loop ctx api resource deadline h = Some (e, h') \<and> quiet h h'"
proof (induction "nat (deadline + 1 - now_at h)" arbitrary: h rule: less_induct)
  case less
  note unroll = deletion_loop.simps [of ctx api resource deadline h]
  obtain err sv h1 where g: "call (api_Get api resource) h = ((err, sv), h1)" by (metis surj_pair)
  have q1: "quiet h h1" using g by (rule quiet_call)
  note loop = unroll [unfolded g prod.case]
  show ?case
  proof (cases "err = None \<and> now_at h1 \<le> deadline")
    case False
    then show ?thesis using q1 by (cases err) (simp_all add: loop)
  next
    case True
    obtain e h2 where w: "wait_in ctx (2 * second) h1 = (e, h2)" by (cases "wait_in ctx (2 * second) h1")
    have q2: "quiet h h2" using q1 quiet_wait [OF w] by (rule quiet_trans)
    show ?thesis
    proof (cases e)
      case (Some x)
      then show ?thesis using True w q2 by (simp add: loop)
    next
      case None
      have "now_at h2 = now_at h1 + 2 * second" using wait_in_state(3) [OF w _ None] by simp
      then have "nat (deadline + 1 - now_at h2) < nat (deadline + 1 - now_at h)"
        using True q1 by (simp add: quiet_def)
      then obtain e' h' where ih: "deletion_loop ctx api resource deadline h2 = Some (e', h')" "quiet h2 h'"
        using less.hyps by blast
      show ?thesis using True w None ih quiet_trans [OF q2 ih(2)] by (simp add: loop)
    qed
  qed
qed

lemma deleteService_returns:
  "\<exists>e h'. deleteService ctx api resource h = Some (e, h') \<and> now_at h \<le> now_at h'
    \<and> service_calls h' = service_calls h @ [DeleteService resource]"
proof -
  obtain e h1 where c: "call (api_Delete api resource) (record_call (DeleteService resource) h) = (e, h1)"
    by (metis surj_pair)
  have q: "quiet (record_call (DeleteService resource) h) h1" using c by (rule quiet_call)
  obtain e' h' where d: "waitForDeletion ctx api resource h1 = Some (e', h')" "quiet h1 h'"
    using deletion_loop_returns unfolding waitForDeletion_def by blast
  show ?thesis
  proof (cases e)
    case None
    then show ?thesis using c d quiet_trans [OF q d(2)] by (auto simp: deleteService_def quiet_def)
  next
    case (Some x)
    then show ?thesis using c q by (auto simp: deleteService_def quiet_def)
  qed
qed

section \<open>Deployment\<close>

definition creation :: "ServiceInstance option \<Rightarrow> serviceCall list" where
  "creation i =
     (case i of
        None \<Rightarrow> []
      | Some inst \<Rightarrow> (case si_resource inst of None \<Rightarrow> [] | Some r \<Rightarrow> [CreatedService r]))"

lemma deploy_accounts:
  "\<exists>inst err h'. DeployService m api ctx cfg h = Some ((inst, err), h') \<and> now_at h \<le> now_at h'
    \<and> service_calls h' = service_calls h @ creation inst
    \<and> (case err of Some _ \<Rightarrow> True | None \<Rightarrow> (case inst of None \<Rightarrow> False | Some i \<Rightarrow> si_URL i \<noteq> []))"
proof (cases "cfg_Name cfg = [] \<or> cfg_Image cfg = []")
  case True
  then show ?thesis by (auto simp: DeployService_def creation_def)
next
  case False
  obtain r h1 where c: "call (api_Create api (location m) (service_request m cfg)) h = (r, h1)"
    by (metis surj_pair)
  have q1: "quiet h h1" using c by (rule quiet_call)
  show ?thesis
  proof (cases r)
    case (Inl e)
    then show ?thesis using False c q1 by (auto simp: DeployService_def creation_def quiet_def)
  next
    case (Inr created)
    define resource where "resource = serviceResourceName m (cfg_Name cfg)"
    define inst where "inst = \<lparr>si_Name = cfg_Name cfg, si_URL = [], si_resource = Some resource\<rparr>"
    define h2 where "h2 = record_call (CreatedService resource) h1"
    obtain e h3 where p: "ensureInvokerPolicy m api resource h2 = (e, h3)" by (metis surj_pair)
    have q3: "quiet h2 h3" using p by (rule quiet_policy)
    note deploy = DeployService_def [of m api ctx cfg h] c Inr Let_def
    show ?thesis
    proof (cases e)
      case (Some x)
      then show ?thesis
        using False q1 q3 p
        by (auto simp: deploy resource_def inst_def h2_def creation_def quiet_def)
    next
      case None
      obtain d where d: "wc_done (WithTimeout ctx (now_at h3) (300 * second)) = Some d"
        using timeout_context by blast
      have "\<exists>a h4. ready_loop (WithTimeout ctx (now_at h3) (300 * second)) created
          (call (api_Get api resource)) (state_json api) None ''no service response'' h3 = Some (a, h4)
          \<and> quiet h3 h4 \<and> (case a of Inl _ \<Rightarrow> True | Inr s \<Rightarrow> serviceReadiness (Some s) created = Inr True)"
        using d by (rule ready_loop_returns) (rule quiet_call)
      then obtain a h4 where w: "waitForServiceReady (WithTimeout ctx (now_at h3) (300 * second)) created
          (call (api_Get api resource)) (state_json api) h3 = Some (a, h4)" "quiet h3 h4"
        "case a of Inl _ \<Rightarrow> True | Inr s \<Rightarrow> serviceReadiness (Some s) created = Inr True"
        unfolding waitForServiceReady_def by blast
      have q: "quiet h2 h4" using q3 w(2) by (rule quiet_trans)
      define url where "url = (case a of Inl _ \<Rightarrow> [] | Inr s \<Rightarrow>
          (case rs_Status s of Some st \<Rightarrow> ss_Url st | None \<Rightarrow> []))"
      have url: "case a of Inl _ \<Rightarrow> True | Inr s \<Rightarrow> url \<noteq> []"
        using w(3) by (auto simp: url_def elim!: readiness_True split: sum.splits)
      have run: "DeployService m api ctx cfg h = Some
          (case a of
             Inl x \<Rightarrow> ((Some inst, Some (wrap (''waiting for service '' @ cfg_Name cfg @ '' readiness'') x)), h4)
           | Inr s \<Rightarrow> ((Some (inst \<lparr> si_URL := url \<rparr>), None), h4))"
        using False p None w(1)
        by (cases a) (simp_all add: deploy resource_def [symmetric] inst_def h2_def [symmetric] url_def)
      show ?thesis
        using run url q q1 by (cases a) (auto simp: inst_def h2_def creation_def quiet_def)
    qed
  qed
qed

text \<open>
  C14. A deployment ends and is accounted for: \<^verbatim>\<open>DeployService\<close> returns whatever the API
  answers, it returns an instance exactly when a service was created, errors included, whose
  \<^verbatim>\<open>Cleanup\<close> deletes that very service, and without an error the instance has a URL.
\<close>

theorem DeployService_accounts:
  "\<exists>inst err h'. DeployService m api ctx cfg h = Some ((inst, err), h')
    \<and> service_calls h' = service_calls h @ creation inst
    \<and> (case err of Some _ \<Rightarrow> True | None \<Rightarrow> (case inst of None \<Rightarrow> False | Some i \<Rightarrow> si_URL i \<noteq> []))"
  using deploy_accounts [of m api ctx cfg h] by blast

section \<open>Invokers\<close>

lemma invoker_members_spec:
  "distinct members \<Longrightarrow> [] \<notin> set members \<Longrightarrow>
   distinct (invoker_members raws members) \<and> [] \<notin> set (invoker_members raws members)
   \<and> set (invoker_members raws members)
       = set members \<union> {member. member \<noteq> [] \<and> member \<in> normalizeInvokerMember ` set raws}"
  by (induction raws members rule: invoker_members.induct) (auto simp: Let_def)

text \<open>
  The members a service is opened to are the normalised accounts, sorted, each once and none
  empty: a repeated or differently spelled account adds nothing, and the result depends only on
  which accounts are given.
\<close>

theorem buildInvokerMembers_spec:
  "sorted (buildInvokerMembers accounts) \<and> distinct (buildInvokerMembers accounts)
   \<and> set (buildInvokerMembers accounts) = normalizeInvokerMember ` set accounts - {[]}"
  using invoker_members_spec [of "[]" accounts] by (auto simp: buildInvokerMembers_def)

lemma appendMissingMembers_spec:
  "\<exists>new. appendMissingMembers b ms = b \<lparr> ib_Members := ib_Members b @ new \<rparr>
     \<and> set new = set ms - set (ib_Members b) \<and> distinct new"
proof (induction ms arbitrary: b)
  case Nil
  then show ?case by (simp add: appendMissingMembers_def)
next
  case (Cons x ms)
  define b' where "b' = (if x \<notin> set (ib_Members b) then b \<lparr> ib_Members := ib_Members b @ [x] \<rparr> else b)"
  obtain new where new: "appendMissingMembers b' ms = b' \<lparr> ib_Members := ib_Members b' @ new \<rparr>"
    "set new = set ms - set (ib_Members b')" "distinct new"
    using Cons.IH by blast
  have step: "appendMissingMembers b (x # ms) = appendMissingMembers b' ms"
    by (simp add: appendMissingMembers_def b'_def)
  show ?case
  proof (cases "x \<in> set (ib_Members b)")
    case True
    then show ?thesis using new step by (intro exI [of _ new]) (auto simp: b'_def)
  next
    case False
    then show ?thesis using new step by (intro exI [of _ "x # new"]) (auto simp: b'_def)
  qed
qed

lemma invoker_policy_cases:
  obtains i where "i < length (snd (ensurePolicyBinding policy role))"
    and "fst (ensurePolicyBinding policy role) = i"
    and "ib_Role (snd (ensurePolicyBinding policy role) ! i) = role"
    and "prefix policy (snd (ensurePolicyBinding policy role))"
proof (cases "length (takeWhile (\<lambda>b. ib_Role b \<noteq> role) policy) < length policy")
  case True
  then show ?thesis
    using that [of "length (takeWhile (\<lambda>b. ib_Role b \<noteq> role) policy)"] nth_length_takeWhile [OF True]
    by (simp add: ensurePolicyBinding_def)
next
  case False
  then show ?thesis using that [of "length policy"] by (simp add: ensurePolicyBinding_def Let_def)
qed

definition grants :: "iamPolicy \<Rightarrow> (gostring \<times> gostring) set" where
  "grants policy = (\<Union>b \<in> set policy. Pair (ib_Role b) ` set (ib_Members b))"

lemma grants_append [simp]: "grants (p @ q) = grants p \<union> grants q"
  by (auto simp: grants_def)

lemma grants_Cons [simp]: "grants (b # p) = Pair (ib_Role b) ` set (ib_Members b) \<union> grants p"
  by (auto simp: grants_def)

lemma grants_Nil [simp]: "grants [] = {}"
  by (simp add: grants_def)

lemma grants_update:
  assumes "i < length p"
  shows "grants (p[i := b]) = grants (take i p) \<union> Pair (ib_Role b) ` set (ib_Members b) \<union> grants (drop (Suc i) p)"
  using assms by (simp add: upd_conv_take_nth_drop Un_assoc)

lemma grants_split:
  assumes "i < length p"
  shows "grants p = grants (take i p) \<union> Pair (ib_Role (p ! i)) ` set (ib_Members (p ! i)) \<union> grants (drop (Suc i) p)"
  using arg_cong [OF id_take_nth_drop [OF assms], of grants] by (simp add: Un_assoc)

lemma grants_ensure: "grants (snd (ensurePolicyBinding policy role)) = grants policy"
  by (simp add: ensurePolicyBinding_def Let_def)

text \<open>
  The policy written back grants the invoker role to the members of the run and is
  otherwise the policy that was read: nobody loses a grant, and nobody else gains one.
\<close>

theorem invoker_policy_grants:
  "grants (invoker_policy policy members) = grants policy \<union> Pair ''roles/run.invoker'' ` set members"
proof -
  obtain i where i: "i < length (snd (ensurePolicyBinding policy ''roles/run.invoker''))"
    "fst (ensurePolicyBinding policy ''roles/run.invoker'') = i"
    "ib_Role (snd (ensurePolicyBinding policy ''roles/run.invoker'') ! i) = ''roles/run.invoker''"
    by (rule invoker_policy_cases)
  define p where "p = snd (ensurePolicyBinding policy ''roles/run.invoker'')"
  obtain new where new: "appendMissingMembers (p ! i) members = (p ! i) \<lparr> ib_Members := ib_Members (p ! i) @ new \<rparr>"
    "set new = set members - set (ib_Members (p ! i))"
    using appendMissingMembers_spec by blast
  have "invoker_policy policy members = p[i := appendMissingMembers (p ! i) members]"
    using i(2) by (auto simp: invoker_policy_def p_def split: prod.split)
  then show ?thesis
    using grants_split [of i p] i(1,3) new grants_ensure [of policy "''roles/run.invoker''"]
    by (auto simp: grants_update p_def [symmetric])
qed

section \<open>The final cleanup\<close>

lemma ToLower_dash: "ToLower (xs @ CHR ''-'' # ys) = ToLower xs @ CHR ''-'' # ToLower ys"
proof (induction xs rule: ToLower.induct)
  case (2 c cs)
  have "take 2 (cs @ CHR ''-'' # ys) = [CHR 0x84, CHR 0xAA] \<longleftrightarrow> take 2 cs = [CHR 0x84, CHR 0xAA]"
    "take 1 (cs @ CHR ''-'' # ys) = [CHR 0xB0] \<longleftrightarrow> take 1 cs = [CHR 0xB0]"
    by (cases cs; cases "tl cs"; simp)+
  then show ?case using 2 by auto
qed (simp add: lower_byte_def)

lemma Contains_iff: "Contains s p \<longleftrightarrow> (\<exists>a b. s = a @ p @ b)"
proof (induction s)
  case step: (Cons c s)
  show ?case
  proof
    assume "Contains (c # s) p"
    then consider b where "c # s = p @ b" | a b where "s = a @ p @ b"
      using step by (auto simp: prefix_def)
    then show "\<exists>a b. c # s = a @ p @ b"
    proof cases
      case (1 b)
      then show ?thesis by (intro exI [of _ "[]"] exI [of _ b]) simp
    next
      case (2 a b)
      then show ?thesis by (intro exI [of _ "c # a"] exI [of _ b]) simp
    qed
  next
    assume "\<exists>a b. c # s = a @ p @ b"
    then obtain a b where ab: "c # s = a @ p @ b" by blast
    show "Contains (c # s) p"
    proof (cases a)
      case Nil
      then have "prefix p (c # s)" using ab by (simp add: prefix_def)
      then show ?thesis by simp
    next
      case (Cons d a')
      then have "s = a' @ p @ b" using ab by simp
      then have "Contains s p" using step by blast
      then show ?thesis by simp
    qed
  qed
qed auto

lemma Contains_inside: "Contains y p \<Longrightarrow> Contains (x @ y @ z) p"
  unfolding Contains_iff by (metis append.assoc)

lemma generated_name:
  assumes "m_runID m \<noteq> []"
  shows "\<exists>x z. GenerateServiceName m rnd nanos base = x @ ToLower (m_runID m) @ z"
proof -
  define suf where "suf = randomSuffix rnd nanos 6"
  have "GenerateServiceName m rnd nanos base
      = ToLower (TrimSpace base @ CHR ''-'' # (m_runID m @ CHR ''-'' # suf))"
    using assms by (simp add: GenerateServiceName_def suf_def Let_def)
  also have "\<dots> = (ToLower (TrimSpace base) @ ''-'') @ ToLower (m_runID m) @ (CHR ''-'' # ToLower suf)"
    by (simp add: ToLower_dash)
  finally show ?thesis by blast
qed

text \<open>
  C17. The final cleanup of a run finds every labelled service the run named, whatever the base
  name and the random suffix. It also finds the services of any other run whose identifier
  contains its own: a run with identifier \<^verbatim>\<open>1\<close> deletes the services of run
  \<^verbatim>\<open>12\<close> while they are in use.
\<close>

theorem cleanup_finds_generated:
  assumes "rs_Metadata svc = Some meta" and "map_of (om_Labels meta) ''e2e-scenario'' = Some scenario"
    and "om_Name meta = GenerateServiceName other rnd nanos base"
    and "m_runID mine \<noteq> []" and "Contains (ToLower (m_runID other)) (ToLower (m_runID mine))"
  shows "shouldCleanupService (Some svc) (ToLower (m_runID mine))"
proof -
  have "m_runID other \<noteq> []" using assms(4,5) by auto
  then obtain x z where g: "om_Name meta = x @ ToLower (m_runID other) @ z"
    using generated_name [of other rnd nanos base] assms(3) by auto
  have "om_Name meta = ToLower (om_Name meta)"
    unfolding assms(3) by (simp add: GenerateServiceName_def Let_def)
  then have "Contains (ToLower (om_Name meta)) (ToLower (m_runID mine))"
    using g Contains_inside [OF assms(5)] by metis
  moreover have "ToLower (om_Name meta) \<noteq> []"
    using g \<open>m_runID other \<noteq> []\<close> by simp
  ultimately show ?thesis using assms(1,2) by (simp add: shouldCleanupService_def)
qed

definition demo_manager :: "gostring \<Rightarrow> CloudRunManager" where
  "demo_manager run = \<lparr>m_projectID = ''p'', m_region = ''r'', m_runID = run, m_serviceAccount = [],
     m_invokerMembers = []\<rparr>"

definition demo_service :: "gostring \<Rightarrow> runService" where
  "demo_service name = \<lparr>rs_ApiVersion = [], rs_Kind = ''Service'',
     rs_Metadata = Some \<lparr>om_Name = name, om_Labels = [(''e2e-scenario'', ''baseline'')], om_Uid = [],
       om_Generation = 1, om_DeletionTimestamp = []\<rparr>, rs_Spec = None, rs_Status = None\<rparr>"

theorem cleanup_finds_generated_witness:
  "shouldCleanupService
     (Some (demo_service (GenerateServiceName (demo_manager ''12'') (\<lambda>_. Some [1, 2, 3]) 0 ''core-logging-target-app'')))
     (ToLower (m_runID (demo_manager ''1'')))"
proof (rule cleanup_finds_generated [where other = "demo_manager ''12''" and rnd = "\<lambda>_. Some [1, 2, 3]"
      and nanos = 0 and base = "''core-logging-target-app''" and scenario = "''baseline''"])
  show "rs_Metadata (demo_service (GenerateServiceName (demo_manager ''12'') (\<lambda>_. Some [1, 2, 3]) 0 ''core-logging-target-app''))
    = Some \<lparr>om_Name = GenerateServiceName (demo_manager ''12'') (\<lambda>_. Some [1, 2, 3]) 0 ''core-logging-target-app'',
        om_Labels = [(''e2e-scenario'', ''baseline'')], om_Uid = [], om_Generation = 1, om_DeletionTimestamp = []\<rparr>"
    by (simp add: demo_service_def)
  show "Contains (ToLower (m_runID (demo_manager ''12''))) (ToLower (m_runID (demo_manager ''1'')))"
    by code_simp
qed (simp_all add: demo_service_def demo_manager_def)

end
