(* ===== verification/HarnessRun.thy ===== *)
theory HarnessRun
  imports HarnessDeployProps HarnessTargetProps
begin

text \<open>
  A run of the end-to-end harness: \<^verbatim>\<open>main.go\<close> and the lists of test cases of
  \<^verbatim>\<open>tests/\<close>. The body of a test case, the health checks and the Pub/Sub API are
  arguments: calls on the cloud. Log output is not modelled. A dereferenced nil pointer is the
  error \<open>nil_panic\<close>; the lemmas exclude it.
\<close>

section \<open>Configuration\<close>

record imageConfig =
  coreLogging :: gostring
  traceTarget :: gostring
  downstreamHTTP :: gostring
  downstreamGRPC :: gostring

record harnessConfig =
  hc_projectID :: gostring
  hc_region :: gostring
  hc_serviceAccount :: gostring
  hc_callerServiceAccount :: gostring
  hc_pubsubTopic :: gostring
  hc_pubsubSub :: gostring
  hc_runID :: gostring
  hc_timeout :: int
  hc_images :: imageConfig

text \<open>The product of two 64-bit integers wraps.\<close>

definition wrap_int64 :: "int \<Rightarrow> int" where
  "wrap_int64 i = (i + 2 ^ 63) mod 2 ^ 64 - 2 ^ 63"

definition harnessTimeoutDefault :: "environ \<Rightarrow> gostring + int" where
  "harnessTimeoutDefault env =
     (let raw = TrimSpace (env ''E2E_TIMEOUT_SECONDS'')
      in if raw = [] then Inr (1500 * second)
         else case Atoi raw of
                Some seconds \<Rightarrow>
                  if seconds \<le> 0
                  then Inl ''E2E_TIMEOUT_SECONDS must be a positive integer number of seconds''
                  else Inr (wrap_int64 (seconds * second))
              | None \<Rightarrow> Inl ''E2E_TIMEOUT_SECONDS must be a positive integer number of seconds'')"

definition missingRequiredImages :: "imageConfig \<Rightarrow> bool" where
  "missingRequiredImages images \<longleftrightarrow>
     coreLogging images = [] \<or> traceTarget images = [] \<or>
     downstreamHTTP images = [] \<or> downstreamGRPC images = []"

definition normalizeHarnessConfig :: "harnessConfig \<Rightarrow> gostring \<Rightarrow> int \<Rightarrow> gostring + harnessConfig" where
  "normalizeHarnessConfig cfg defaultRegion unix =
     (if hc_projectID cfg = []
      then Inl ''project ID is required (use -project-id flag or GOOGLE_CLOUD_PROJECT env var)''
      else
        (let cfg = (if hc_region cfg = [] then cfg \<lparr> hc_region := defaultRegion \<rparr> else cfg)
         in if missingRequiredImages (hc_images cfg)
            then Inl ''all service images (core, trace, downstream HTTP, downstream gRPC) must be provided''
            else if hc_serviceAccount cfg = []
            then Inl ''service account email is required (use -service-account flag or E2E_SERVICE_ACCOUNT env var)''
            else
              (let cfg = (if hc_pubsubTopic cfg = [] then cfg \<lparr> hc_pubsubTopic := ''trace-pubsub'' \<rparr> else cfg);
                   cfg = (if hc_pubsubSub cfg = [] then cfg \<lparr> hc_pubsubSub := ''trace-pubsub-sub'' \<rparr> else cfg);
                   cfg = (if hc_runID cfg = [] then cfg \<lparr> hc_runID := ''local-'' @ FormatInt unix \<rparr> else cfg)
               in Inr cfg)))"

text \<open>The command line: the value given for a flag, otherwise the default.\<close>

definition flag_value :: "(gostring \<Rightarrow> gostring option) \<Rightarrow> gostring \<Rightarrow> gostring \<Rightarrow> gostring" where
  "flag_value flags name dflt = (case flags name of Some v \<Rightarrow> v | None \<Rightarrow> dflt)"

definition parseHarnessConfig ::
  "environ \<Rightarrow> (gostring \<Rightarrow> gostring option) \<Rightarrow> int option \<Rightarrow> int \<Rightarrow> gostring + harnessConfig" where
  "parseHarnessConfig env flags timeoutFlag unix =
     (case harnessTimeoutDefault env of
        Inl err \<Rightarrow> Inl err
      | Inr timeoutDefault \<Rightarrow>
          (let val = (\<lambda>name var. TrimSpace (flag_value flags name (env var)))
           in normalizeHarnessConfig
                \<lparr>hc_projectID = val ''project-id'' ''GOOGLE_CLOUD_PROJECT'',
                 hc_region = val ''region'' ''E2E_GCP_REGION'',
                 hc_serviceAccount = val ''service-account'' ''E2E_SERVICE_ACCOUNT'',
                 hc_callerServiceAccount = val ''caller-service-account'' ''E2E_CALLER_SERVICE_ACCOUNT'',
                 hc_pubsubTopic = val ''trace-pubsub-topic'' ''TRACE_PUBSUB_TOPIC'',
                 hc_pubsubSub = val ''trace-pubsub-subscription'' ''TRACE_PUBSUB_SUBSCRIPTION'',
                 hc_runID = val ''run-id'' ''E2E_RUN_ID'',
                 hc_timeout = (case timeoutFlag of Some t \<Rightarrow> t | None \<Rightarrow> timeoutDefault),
                 hc_images =
                   \<lparr>coreLogging = val ''core-image'' ''CORE_TARGET_IMAGE'',
                    traceTarget = val ''trace-image'' ''TRACE_TARGET_IMAGE'',
                    downstreamHTTP = val ''trace-http-image'' ''TRACE_HTTP_IMAGE'',
                    downstreamGRPC = val ''trace-grpc-image'' ''TRACE_GRPC_IMAGE''\<rparr>\<rparr>
                ''us-central1'' unix))"

text \<open>\<^verbatim>\<open>[^a-z0-9-]+\<close> replaced by a dash: every maximal run of other bytes is one dash.\<close>

definition pubsub_char :: "char \<Rightarrow> bool" where
  "pubsub_char c \<longleftrightarrow>
     decimal c \<or> (97 \<le> (of_char c :: nat) \<and> (of_char c :: nat) \<le> 122) \<or> c = CHR ''-''"

fun replace_invalid :: "bool \<Rightarrow> gostring \<Rightarrow> gostring" where
  "replace_invalid in_run [] = []"
| "replace_invalid in_run (c # cs) =
     (if pubsub_char c then c # replace_invalid False cs
      else if in_run then replace_invalid True cs
      else CHR ''-'' # replace_invalid True cs)"

definition maxPubSubResourceIDLength :: nat where
  "maxPubSubResourceIDLength = 255"

definition resolvePubSubResourceID :: "gostring \<Rightarrow> gostring \<Rightarrow> gostring" where
  "resolvePubSubResourceID base runID =
     (let base = TrimSpace base;
          runID = TrimSpace runID;
          base = (if runID \<noteq> [] \<and> \<not> Contains (ToLower base) (ToLower runID) then base @ ''-'' @ runID else base);
          base = ToLower base;
          base = replace_invalid False base;
          base = TrimCut base ''-'';
          base = TrimCut base ''._~+%'';
          base = (if base = [] then ''e2e-pubsub'' else base);
          base = (if (of_char (hd base) :: nat) < 97 \<or> (of_char (hd base) :: nat) > 122
                  then ''e2e-'' @ base else base);
          base = (if length base > maxPubSubResourceIDLength
                  then TrimCut (take maxPubSubResourceIDLength base) ''-'' else base)
      in if base = [] then ''e2e-pubsub'' else base)"

section \<open>Scenarios\<close>

record scenarioDefinition =
  sd_Name :: gostring
  sd_CoreEnv :: "gostring gomap"
  sd_DownstreamHTTPEnv :: "gostring gomap"
  sd_DownstreamGRPCEnv :: "gostring gomap"
  sd_TraceEnv :: "gostring gomap"
  sd_CoreExpectedVersion :: gostring
  sd_CoreExpectedLogID :: gostring
  sd_TraceExpectedProjID :: gostring
  sd_CoreTests :: "gostring list option"
  sd_TraceTests :: "gostring list option"
  sd_TraceDisableHTTPPropagation :: "bool option"
  sd_TraceDisableGRPCPropagation :: "bool option"
  sd_TraceDefaultSampled :: "bool option"

definition plain_scenario :: "gostring \<Rightarrow> gostring \<Rightarrow> scenarioDefinition" where
  "plain_scenario name projectID =
     \<lparr>sd_Name = name, sd_CoreEnv = [], sd_DownstreamHTTPEnv = [], sd_DownstreamGRPCEnv = [],
      sd_TraceEnv = [], sd_CoreExpectedVersion = ''dev'', sd_CoreExpectedLogID = ''run.googleapis.com/stdout'',
      sd_TraceExpectedProjID = projectID, sd_CoreTests = None, sd_TraceTests = None,
      sd_TraceDisableHTTPPropagation = None, sd_TraceDisableGRPCPropagation = None,
      sd_TraceDefaultSampled = None\<rparr>"

definition buildScenarios :: "gostring \<Rightarrow> scenarioDefinition list" where
  "buildScenarios projectID =
     [plain_scenario ''baseline'' projectID,
      (plain_scenario ''missing-adc'' projectID)
        \<lparr> sd_CoreEnv := [(''GOOGLE_APPLICATION_CREDENTIALS'', ''/nonexistent/adc.json'')],
          sd_CoreTests := Some [''TestScenarioStartupMetadata'', ''TestStructuredPayload'',
                                ''TestBatchLogging'', ''TestLogName''],
          sd_TraceTests := Some [] \<rparr>,
      (plain_scenario ''custom-app-version'' projectID)
        \<lparr> sd_CoreEnv := [(''APP_VERSION'', ''custom-app-version'')],
          sd_CoreExpectedVersion := ''custom-app-version'',
          sd_CoreTests := Some [''TestScenarioStartupMetadata''], sd_TraceTests := Some [] \<rparr>,
      (plain_scenario ''trace-disable-http-propagation'' projectID)
        \<lparr> sd_TraceEnv := [(''TRACE_DISABLE_HTTP_TRACE_PROPAGATION'', ''true'')],
          sd_CoreTests := Some [], sd_TraceTests := Some [''TraceStartupConfiguration''],
          sd_TraceDisableHTTPPropagation := Some True \<rparr>,
      (plain_scenario ''trace-disable-grpc-propagation'' projectID)
        \<lparr> sd_TraceEnv := [(''TRACE_DISABLE_GRPC_TRACE_PROPAGATION'', ''true'')],
          sd_CoreTests := Some [], sd_TraceTests := Some [''TraceStartupConfiguration''],
          sd_TraceDisableGRPCPropagation := Some True \<rparr>,
      (plain_scenario ''trace-default-unsampled'' projectID)
        \<lparr> sd_TraceEnv := [(''TRACE_DEFAULT_SAMPLED'', ''false'')],
          sd_CoreTests := Some [], sd_TraceTests := Some [''TraceStartupConfiguration''],
          sd_TraceDefaultSampled := Some False \<rparr>]"

text \<open>The names of the test cases of the two suites, in their order.\<close>

definition core_tests :: "gostring list" where
  "core_tests =
     [''TestScenarioStartupMetadata'', ''TestDefaultSeverity'', ''TestDefaultSeverityBypassesMinimum'',
      ''TestDebugSeverity'', ''TestInfoSeverity'', ''TestNoticeSeverity'', ''TestWarningSeverity'',
      ''TestErrorSeverity'', ''TestCriticalSeverity'', ''TestAlertSeverity'', ''TestEmergencySeverity'',
      ''TestStructuredPayload'', ''TestGRPCAPITransport'', ''TestOperationGrouping'', ''TestNestedStructure'',
      ''TestTimestamps'', ''TestSourceLocation'', ''TestResourceLabels'', ''TestCustomLabels'',
      ''TestHTTPRequestPayload'', ''TestHTTPRequestInflightOmission'',
      ''TestHTTPRequestBackendResidualPromotionProbe'', ''TestHTTPRequestBackendStatusZeroProbe'',
      ''TestLogName'', ''TestBatchLogging'']"

definition streaming_tests :: "gostring list" where
  "streaming_tests =
     [''TraceDownstreamGRPCServerStream'', ''TraceDownstreamGRPCClientStream'', ''TraceDownstreamGRPCBidiStream'']"

definition trace_tests :: "gostring list" where
  "trace_tests =
     [''TraceStartupConfiguration'', ''TraceSimple'', ''TraceDownstreamHTTP'', ''TraceDownstreamGRPC'',
      ''TraceDownstreamPubSub'', ''TraceGRPCAdapterLogging''] @ streaming_tests"

text \<open>
  A test case is its name: its body is looked up by it. The lookup of \<^verbatim>\<open>selectTests\<close>
  is a map from the names of all test cases.
\<close>

definition selectTests :: "gostring list \<Rightarrow> gostring list option \<Rightarrow> gostring + gostring list" where
  "selectTests all_tests selected =
     (case selected of
        None \<Rightarrow> Inr all_tests
      | Some names \<Rightarrow>
          if names = [] then Inr []
          else (case find (\<lambda>name. name \<notin> set all_tests) names of
                  Some name \<Rightarrow> Inl (''unknown test case '' @ name)
                | None \<Rightarrow> Inr names))"

definition plannedScenarioTests :: "scenarioDefinition \<Rightarrow> gostring + nat" where
  "plannedScenarioTests d =
     (case selectTests core_tests (sd_CoreTests d) of
        Inl e \<Rightarrow> Inl e
      | Inr core \<Rightarrow>
          (case selectTests trace_tests (sd_TraceTests d) of
             Inl e \<Rightarrow> Inl e
           | Inr tr \<Rightarrow>
               if length core + length tr = 0
               then Inl (''scenario '' @ sd_Name d @ '' selects no assertions'')
               else Inr (length core + length tr)))"

record scenarioStats =
  st_total :: nat
  st_passed :: nat
  st_failed :: nat
  st_failures :: "gostring list"

definition no_stats :: scenarioStats where
  "no_stats = \<lparr>st_total = 0, st_passed = 0, st_failed = 0, st_failures = []\<rparr>"

definition validateScenarioCompletion :: "nat \<Rightarrow> scenarioStats \<Rightarrow> gostring option" where
  "validateScenarioCompletion planned stats =
     (if st_total stats \<noteq> planned \<or> st_passed stats + st_failed stats \<noteq> planned
      then Some (''incomplete scenario: planned='' @ FormatInt (int planned) @ '' selected='' @
             FormatInt (int (st_total stats)) @ '' passed='' @ FormatInt (int (st_passed stats)) @
             '' failed='' @ FormatInt (int (st_failed stats)))
      else None)"

definition shouldSkipTraceSuite :: "scenarioDefinition \<Rightarrow> bool" where
  "shouldSkipTraceSuite d \<longleftrightarrow> sd_TraceTests d = Some []"

definition mergeScenarioStats :: "scenarioStats \<Rightarrow> scenarioStats \<Rightarrow> scenarioStats" where
  "mergeScenarioStats dst src =
     \<lparr>st_total = st_total dst + st_total src, st_passed = st_passed dst + st_passed src,
      st_failed = st_failed dst + st_failed src, st_failures = st_failures dst @ st_failures src\<rparr>"

definition deriveGRPCTarget :: "gostring \<Rightarrow> gostring" where
  "deriveGRPCTarget serviceURL =
     (let trimmed = TrimSuffixChar (TrimPrefix serviceURL ''https://'') (CHR ''/'')
      in if trimmed = [] then [] else trimmed @ '':443'')"

definition mergeEnvs :: "gostring gomap \<Rightarrow> gostring gomap \<Rightarrow> gostring gomap" where
  "mergeEnvs base overrides = maps_Copy (maps_Copy [] base) overrides"

section \<open>Deploying a scenario\<close>

text \<open>The interface \<^verbatim>\<open>scenarioDeployer\<close>.\<close>

record 's deployer =
  dp_GenerateServiceName :: "gostring \<Rightarrow> 's \<Rightarrow> gostring \<times> 's"
  dp_DeployService :: "ServiceConfig \<Rightarrow> 's \<Rightarrow> ((ServiceInstance option \<times> apiError option) \<times> 's) option"

record scenarioDeployment =
  dep_definition :: scenarioDefinition
  dep_core :: "ServiceInstance option"
  dep_trace :: "ServiceInstance option"
  dep_downHTTP :: "ServiceInstance option"
  dep_downGRPC :: "ServiceInstance option"
  dep_traceDownstreamHTTP :: gostring
  dep_traceDownstreamGRPC :: gostring

definition nil_panic :: apiError where
  "nil_panic = plain_error ''runtime error: invalid memory address or nil pointer dereference''"

text \<open>
  The steps that are repeated for each service: name it, deploy it, record the instance, and
  stop on an error or an empty URL. \<open>put\<close> stores the instance in the deployment,
  \<open>texts\<close> are the words of the two errors. The result is the deployment and the error
  or the URL of the service.
\<close>

definition deploy_step ::
  "'s deployer \<Rightarrow> scenarioDefinition \<Rightarrow> gostring \<Rightarrow> gostring \<Rightarrow> (gostring \<Rightarrow> gostring gomap) \<Rightarrow> gostring gomap
     \<Rightarrow> (ServiceInstance option \<Rightarrow> scenarioDeployment \<Rightarrow> scenarioDeployment) \<Rightarrow> gostring \<times> gostring
     \<Rightarrow> scenarioDeployment \<Rightarrow> 's \<Rightarrow> ((scenarioDeployment \<times> (apiError + gostring)) \<times> 's) option" where
  "deploy_step dp d base img env overrides put texts dep s =
     (case dp_GenerateServiceName dp base s of (name, s) \<Rightarrow>
        map_option (\<lambda>((inst, err), s).
          let dep = put inst dep in
          case err of
            Some e \<Rightarrow> ((dep, Inl (wrap (''deploying '' @ fst texts @ '' '' @ name) e)), s)
          | None \<Rightarrow>
              (case inst of
                 None \<Rightarrow> ((dep, Inl nil_panic), s)
               | Some i \<Rightarrow>
                   if si_URL i = []
                   then ((dep, Inl (plain_error (snd texts @ '' '' @ name @ '' has empty URL''))), s)
                   else ((dep, Inr (si_URL i)), s)))
          (dp_DeployService dp
             \<lparr>cfg_Name = name, cfg_Image = img, cfg_Env = mergeEnvs (env name) overrides,
              cfg_Labels = [(''e2e-scenario'', sd_Name d)], cfg_Port = 0\<rparr> s))"

text \<open>The deployment of the three trace services, before the core service.\<close>

definition deploy_trace_services ::
  "'s deployer \<Rightarrow> scenarioDefinition \<Rightarrow> imageConfig \<Rightarrow> gostring \<Rightarrow> gostring \<Rightarrow> gostring
     \<Rightarrow> scenarioDeployment \<Rightarrow> 's \<Rightarrow> ((scenarioDeployment \<times> apiError option) \<times> 's) option" where
  "deploy_trace_services dp d images projectID topic subscription dep s =
     Option.bind
       (deploy_step dp d ''trace-downstream-http'' (downstreamHTTP images)
          (\<lambda>name. [(''GOOGLE_CLOUD_PROJECT'', projectID), (''SLOGCP_LOGICAL_SERVICE'', ''trace-downstream-http''),
                   (''SLOGCP_RUNTIME_SERVICE_NAME'', name), (''SLOGCP_BUILD_ID'', sd_Name d),
                   (''TRACE_PUBSUB_TOPIC'', topic), (''TRACE_PUBSUB_SUBSCRIPTION'', subscription)])
          (sd_DownstreamHTTPEnv d) (\<lambda>i dep. dep \<lparr> dep_downHTTP := i \<rparr>)
          (''downstream HTTP service'', ''downstream HTTP service'') dep s) (\<lambda>((dep, r), s).
     case r of Inl e \<Rightarrow> Some ((dep, Some e), s)
     | Inr httpURL \<Rightarrow>
     Option.bind
       (deploy_step dp d ''trace-downstream-grpc'' (downstreamGRPC images)
          (\<lambda>name. [(''GOOGLE_CLOUD_PROJECT'', projectID), (''SLOGCP_LOGICAL_SERVICE'', ''trace-downstream-grpc''),
                   (''SLOGCP_RUNTIME_SERVICE_NAME'', name), (''SLOGCP_BUILD_ID'', sd_Name d)])
          (sd_DownstreamGRPCEnv d) (\<lambda>i dep. dep \<lparr> dep_downGRPC := i \<rparr>)
          (''downstream gRPC service'', ''downstream gRPC service'') dep s) (\<lambda>((dep, r), s).
     case r of Inl e \<Rightarrow> Some ((dep, Some e), s)
     | Inr grpcURL \<Rightarrow>
     (let dep = dep \<lparr> dep_traceDownstreamHTTP := httpURL,
                      dep_traceDownstreamGRPC := deriveGRPCTarget grpcURL \<rparr> in
      map_option (\<lambda>((dep, r), s). ((dep, case r of Inl e \<Rightarrow> Some e | Inr _ \<Rightarrow> None), s))
       (deploy_step dp d ''trace-target-app'' (traceTarget images)
          (\<lambda>name. [(''GOOGLE_CLOUD_PROJECT'', projectID), (''DOWNSTREAM_HTTP_URL'', dep_traceDownstreamHTTP dep),
                   (''DOWNSTREAM_GRPC_TARGET'', dep_traceDownstreamGRPC dep),
                   (''SLOGCP_LOGICAL_SERVICE'', ''trace-target-app''),
                   (''SLOGCP_RUNTIME_SERVICE_NAME'', name), (''SLOGCP_BUILD_ID'', sd_Name d),
                   (''TRACE_PUBSUB_TOPIC'', topic), (''TRACE_PUBSUB_SUBSCRIPTION'', subscription)])
          (sd_TraceEnv d) (\<lambda>i dep. dep \<lparr> dep_trace := i \<rparr>)
          (''trace target service'', ''trace target service'') dep s))))"

definition deployScenarioServices ::
  "'s deployer \<Rightarrow> scenarioDefinition \<Rightarrow> imageConfig \<Rightarrow> gostring \<Rightarrow> gostring \<Rightarrow> gostring
     \<Rightarrow> 's \<Rightarrow> ((scenarioDeployment \<times> apiError option) \<times> 's) option" where
  "deployScenarioServices dp d images projectID topic subscription s =
     (let dep = \<lparr>dep_definition = d, dep_core = None, dep_trace = None, dep_downHTTP = None,
                 dep_downGRPC = None, dep_traceDownstreamHTTP = [], dep_traceDownstreamGRPC = []\<rparr>
      in case plannedScenarioTests d of
           Inl e \<Rightarrow> Some ((dep, Some (plain_error e)), s)
         | Inr _ \<Rightarrow>
             Option.bind
               (if shouldSkipTraceSuite d then Some ((dep, None), s)
                else deploy_trace_services dp d images projectID topic subscription dep s) (\<lambda>((dep, err), s).
             case err of Some e \<Rightarrow> Some ((dep, Some e), s)
             | None \<Rightarrow>
                 map_option (\<lambda>((dep, r), s). ((dep, case r of Inl e \<Rightarrow> Some e | Inr _ \<Rightarrow> None), s))
                   (deploy_step dp d ''core-logging-target-app'' (coreLogging images)
                      (\<lambda>name. [(''GOOGLE_CLOUD_PROJECT'', projectID),
                               (''SLOGCP_LOGICAL_SERVICE'', ''core-logging-target-app''),
                               (''SLOGCP_RUNTIME_SERVICE_NAME'', name), (''SLOGCP_BUILD_ID'', sd_Name d)])
                      (sd_CoreEnv d) (\<lambda>i dep. dep \<lparr> dep_core := i \<rparr>)
                      (''core target service'', ''core service'') dep s)))"


section \<open>Running a scenario\<close>

text \<open>
  What a test suite knows of its scenario; the constructors fill in defaults. A test case is
  run by \<open>body\<close>, given its suite and name: it returns the error of the test.
\<close>

record coreSuite =
  cs_scenarioName :: gostring
  cs_serviceName :: gostring
  cs_expectedAppVersion :: gostring
  cs_expectedLogID :: gostring

record traceSuite =
  ts_scenarioName :: gostring
  ts_serviceName :: gostring
  ts_expectedDownstreamHTTP :: gostring
  ts_expectedDownstreamGRPC :: gostring
  ts_expectedTraceProject :: gostring
  ts_disableHTTPPropagation :: bool
  ts_disableGRPCPropagation :: bool
  ts_defaultTraceSampled :: bool

definition NewCoreLoggingTestSuite :: "gostring \<Rightarrow> gostring \<Rightarrow> gostring \<Rightarrow> gostring \<Rightarrow> coreSuite" where
  "NewCoreLoggingTestSuite scenarioName serviceName version logID =
     \<lparr>cs_scenarioName = scenarioName, cs_serviceName = serviceName,
      cs_expectedAppVersion = (if version = [] then ''dev'' else version),
      cs_expectedLogID = (if logID = [] then ''run.googleapis.com/stdout'' else logID)\<rparr>"

definition NewTraceTestSuite ::
  "gostring \<Rightarrow> gostring \<Rightarrow> gostring \<Rightarrow> gostring \<Rightarrow> gostring \<Rightarrow> gostring \<Rightarrow> bool option \<Rightarrow> bool option
     \<Rightarrow> bool option \<Rightarrow> traceSuite" where
  "NewTraceTestSuite projectID scenarioName serviceName downHTTP downGRPC project noHTTP noGRPC sampled =
     \<lparr>ts_scenarioName = scenarioName, ts_serviceName = serviceName,
      ts_expectedDownstreamHTTP = downHTTP, ts_expectedDownstreamGRPC = downGRPC,
      ts_expectedTraceProject = (if project = [] then projectID else project),
      ts_disableHTTPPropagation = override noHTTP False,
      ts_disableGRPCPropagation = override noGRPC False,
      ts_defaultTraceSampled = override sampled True\<rparr>"

datatype suite = CoreSuite TargetClient coreSuite | TraceSuite "TargetClient option" traceSuite

text \<open>
  The world of a run: the Cloud Run API, the random bytes, how URLs parse, the answers to
  the requests for an identity token, the health checks (\<^verbatim>\<open>TargetClient.HealthCheck\<close>
  over the network) and the bodies of the test cases.
\<close>

record 'w runEnv =
  re_api :: "'w cloudAPI"
  re_random :: "nat \<Rightarrow> ('w, 8 word list option) apiCall"
  re_parse :: "gostring \<Rightarrow> gostring + gostring \<times> gostring"
  re_idtoken :: "gostring \<Rightarrow> gostring option"
  re_health :: "waitContext \<Rightarrow> TargetClient \<Rightarrow> ('w, gostring option) apiCall"
  re_body :: "waitContext \<Rightarrow> suite \<Rightarrow> gostring \<Rightarrow> ('w, gostring option) apiCall"

definition background :: waitContext where
  "background = \<lparr>wc_done = None, wc_error = []\<rparr>"

text \<open>The manager as a \<^verbatim>\<open>scenarioDeployer\<close>.\<close>

definition manager_deployer :: "CloudRunManager \<Rightarrow> 'w runEnv \<Rightarrow> waitContext \<Rightarrow> 'w harness deployer" where
  "manager_deployer m re ctx =
     \<lparr>dp_GenerateServiceName = (\<lambda>base h.
        (case call (re_random re 3) h of (bytes, h) \<Rightarrow>
           (GenerateServiceName m (\<lambda>_. bytes) (now_at h) base, h))),
      dp_DeployService = DeployService m (re_api re) ctx\<rparr>"

text \<open>The deferred deletion of what a scenario deployed; errors are only logged.\<close>

definition deployment_cleanup ::
  "waitContext \<Rightarrow> 'w cloudAPI \<Rightarrow> scenarioDeployment \<Rightarrow> 'w harness \<Rightarrow> 'w harness option" where
  "deployment_cleanup ctx api dep h =
     (let ctx = WithTimeout ctx (now_at h) (180 * second)
      in each (\<lambda>svc h. map_option snd (Cleanup ctx api svc h))
           [dep_core dep, dep_trace dep, dep_downHTTP dep, dep_downGRPC dep] h)"

definition target_client ::
  "'w runEnv \<Rightarrow> waitContext \<Rightarrow> gostring \<Rightarrow> ServiceInstance option \<Rightarrow> 'w harness
     \<Rightarrow> (apiError + TargetClient) \<times> 'w harness" where
  "target_client re ctx kind svc h =
     (case svc of
        None \<Rightarrow> (Inl nil_panic, h)
      | Some i \<Rightarrow>
          (case NewTargetClient (re_parse re) (re_idtoken re) (si_URL i) of
             Inl e \<Rightarrow> (Inl (wrap (''creating '' @ kind @ '' target client'') (plain_error e)), h)
           | Inr c \<Rightarrow>
               (case call (re_health re ctx c) h of
                  (Some e, h) \<Rightarrow> (Inl (wrap (kind @ '' target health check failed'') (plain_error e)), h)
                | (None, h) \<Rightarrow> (Inr c, h))))"

definition initializeScenarioTargetClients ::
  "'w runEnv \<Rightarrow> waitContext \<Rightarrow> scenarioDeployment \<Rightarrow> 'w harness
     \<Rightarrow> (apiError + TargetClient \<times> TargetClient option) \<times> 'w harness" where
  "initializeScenarioTargetClients re ctx dep h =
     (case target_client re ctx ''core'' (dep_core dep) h of
        (Inl e, h) \<Rightarrow> (Inl e, h)
      | (Inr coreClient, h) \<Rightarrow>
          if shouldSkipTraceSuite (dep_definition dep) then (Inr (coreClient, None), h)
          else if dep_trace dep = None
          then (Inl (plain_error ''required trace target was not deployed''), h)
          else (case target_client re ctx ''trace'' (dep_trace dep) h of
                  (Inl e, h) \<Rightarrow> (Inl e, h)
                | (Inr traceTargetClient, h) \<Rightarrow> (Inr (coreClient, Some traceTargetClient), h)))"

text \<open>The test cases in order: the numbers passed and failed and the failures.\<close>

fun runTestSuite ::
  "(gostring \<Rightarrow> ('w, gostring option) apiCall) \<Rightarrow> gostring \<Rightarrow> gostring list \<Rightarrow> nat \<times> nat \<times> gostring list
     \<Rightarrow> 'w harness \<Rightarrow> (nat \<times> nat \<times> gostring list) \<times> 'w harness" where
  "runTestSuite body scenarioName [] acc h = (acc, h)"
| "runTestSuite body scenarioName (tc # rest) (passed, failed, failures) h =
     (case call (body tc) h of
        (Some err, h) \<Rightarrow>
          runTestSuite body scenarioName rest
            (passed, Suc failed,
             failures @ [CHR ''['' # scenarioName @ ''] '' @ tc @ '': '' @ err]) h
      | (None, h) \<Rightarrow> runTestSuite body scenarioName rest (Suc passed, failed, failures) h)"

definition run_selected ::
  "gostring list \<Rightarrow> gostring list option \<Rightarrow> (gostring \<Rightarrow> ('w, gostring option) apiCall) \<Rightarrow> gostring
     \<Rightarrow> 'w harness \<Rightarrow> (apiError + scenarioStats) \<times> 'w harness" where
  "run_selected all_tests selected body scenarioName h =
     (case selectTests all_tests selected of
        Inl e \<Rightarrow> (Inl (plain_error e), h)
      | Inr names \<Rightarrow>
          (case runTestSuite body scenarioName names (0, 0, []) h of
             ((passed, failed, failures), h) \<Rightarrow>
               (Inr \<lparr>st_total = length names, st_passed = passed, st_failed = failed,
                     st_failures = failures\<rparr>, h)))"

definition runCoreSuiteForScenario ::
  "'w runEnv \<Rightarrow> waitContext \<Rightarrow> scenarioDefinition \<Rightarrow> scenarioDeployment \<Rightarrow> TargetClient \<Rightarrow> 'w harness
     \<Rightarrow> (apiError + scenarioStats) \<times> 'w harness" where
  "runCoreSuiteForScenario re ctx d dep coreClient h =
     (case dep_core dep of
        None \<Rightarrow> (Inl nil_panic, h)
      | Some core \<Rightarrow>
          run_selected core_tests (sd_CoreTests d)
            (re_body re ctx (CoreSuite coreClient
               (NewCoreLoggingTestSuite (sd_Name d) (si_Name core) (sd_CoreExpectedVersion d)
                  (sd_CoreExpectedLogID d))))
            (sd_Name d) h)"

definition runTraceSuiteForScenario ::
  "'w runEnv \<Rightarrow> waitContext \<Rightarrow> scenarioDefinition \<Rightarrow> scenarioDeployment \<Rightarrow> TargetClient option \<Rightarrow> gostring
     \<Rightarrow> 'w harness \<Rightarrow> (apiError + scenarioStats) \<times> 'w harness" where
  "runTraceSuiteForScenario re ctx d dep traceTargetClient projectID h =
     (case dep_trace dep of
        None \<Rightarrow> (Inl nil_panic, h)
      | Some tr \<Rightarrow>
          run_selected trace_tests (sd_TraceTests d)
            (re_body re ctx (TraceSuite traceTargetClient
               (NewTraceTestSuite projectID (sd_Name d) (si_Name tr) (dep_traceDownstreamHTTP dep)
                  (dep_traceDownstreamGRPC dep) (sd_TraceExpectedProjID d)
                  (sd_TraceDisableHTTPPropagation d) (sd_TraceDisableGRPCPropagation d)
                  (sd_TraceDefaultSampled d))))
            (sd_Name d) h)"

text \<open>The tests of a deployed scenario: its statistics and error.\<close>

definition run_deployed ::
  "'w runEnv \<Rightarrow> waitContext \<Rightarrow> scenarioDefinition \<Rightarrow> gostring \<Rightarrow> nat \<Rightarrow> scenarioDeployment \<Rightarrow> 'w harness
     \<Rightarrow> (scenarioStats \<times> apiError option) \<times> 'w harness" where
  "run_deployed re ctx d projectID planned dep h =
     (case initializeScenarioTargetClients re ctx dep h of
        (Inl e, h) \<Rightarrow> ((no_stats, Some e), h)
      | (Inr (coreClient, traceTargetClient), h) \<Rightarrow>
          (case runCoreSuiteForScenario re ctx d dep coreClient h of
             (Inl e, h) \<Rightarrow> ((no_stats, Some e), h)
           | (Inr stats, h) \<Rightarrow>
               if st_failed stats > 0 then ((stats, None), h)
               else if shouldSkipTraceSuite d
               then ((stats, map_option plain_error (validateScenarioCompletion planned stats)), h)
               else (case runTraceSuiteForScenario re ctx d dep traceTargetClient projectID h of
                       (Inl e, h) \<Rightarrow> ((stats, Some e), h)
                     | (Inr traceStats, h) \<Rightarrow>
                         (let stats = mergeScenarioStats stats traceStats
                          in ((stats, map_option plain_error (validateScenarioCompletion planned stats)), h)))))"

definition runScenario ::
  "'w runEnv \<Rightarrow> CloudRunManager \<Rightarrow> waitContext \<Rightarrow> scenarioDefinition \<Rightarrow> imageConfig \<Rightarrow> gostring \<Rightarrow> gostring
     \<Rightarrow> gostring \<Rightarrow> 'w harness \<Rightarrow> ((scenarioStats \<times> apiError option) \<times> 'w harness) option" where
  "runScenario re m ctx d images projectID topic subscription h =
     (case plannedScenarioTests d of
        Inl e \<Rightarrow> Some ((no_stats, Some (plain_error e)), h)
      | Inr planned \<Rightarrow>
          Option.bind
            (deployScenarioServices (manager_deployer m re ctx) d images projectID topic subscription h)
            (\<lambda>((dep, err), h).
               case (case err of Some e \<Rightarrow> ((no_stats, Some e), h)
                               | None \<Rightarrow> run_deployed re ctx d projectID planned dep h) of
                 (r, h) \<Rightarrow> map_option (Pair r) (deployment_cleanup background (re_api re) dep h)))"

section \<open>All scenarios\<close>

text \<open>The number of planned tests, or the failure of an invalid scenario.\<close>

fun planned_tests :: "scenarioDefinition list \<Rightarrow> nat \<Rightarrow> gostring + nat" where
  "planned_tests [] planned = Inr planned"
| "planned_tests (d # ds) planned =
     (case plannedScenarioTests d of
        Inl e \<Rightarrow> Inl (''invalid scenario '' @ sd_Name d @ '': '' @ e)
      | Inr n \<Rightarrow> planned_tests ds (planned + n))"

record totals =
  to_exitCode :: int
  to_failures :: "gostring list"
  to_tests :: nat
  to_passed :: nat
  to_failed :: nat
  to_completed :: nat

definition add_scenario :: "scenarioStats \<Rightarrow> totals \<Rightarrow> totals" where
  "add_scenario stats t =
     \<lparr>to_exitCode = (if st_failed stats > 0 then 1 else to_exitCode t),
      to_failures = to_failures t @ st_failures stats, to_tests = to_tests t + st_total stats,
      to_passed = to_passed t + st_passed stats, to_failed = to_failed t + st_failed stats,
      to_completed = Suc (to_completed t)\<rparr>"

fun run_scenarios ::
  "(scenarioDefinition \<Rightarrow> 'w harness \<Rightarrow> ((scenarioStats \<times> apiError option) \<times> 'w harness) option)
     \<Rightarrow> scenarioDefinition list \<Rightarrow> totals \<Rightarrow> 'w harness \<Rightarrow> (totals \<times> 'w harness) option" where
  "run_scenarios run1 [] t h = Some (t, h)"
| "run_scenarios run1 (d # ds) t h =
     Option.bind (run1 d h) (\<lambda>((stats, err), h).
       case err of
         Some e \<Rightarrow>
           Some (t \<lparr> to_exitCode := 1,
                     to_failures := to_failures t @
                       [CHR ''['' # sd_Name d @ ''] scenario setup: '' @ er_text e] \<rparr>, h)
       | None \<Rightarrow> run_scenarios run1 ds (add_scenario stats t) h)"

definition runAllScenarios ::
  "'w runEnv \<Rightarrow> CloudRunManager \<Rightarrow> waitContext \<Rightarrow> harnessConfig \<Rightarrow> 'w harness \<Rightarrow> (totals \<times> 'w harness) option" where
  "runAllScenarios re m ctx cfg h =
     (let scenarios = buildScenarios (hc_projectID cfg)
      in case planned_tests scenarios 0 of
           Inl failure \<Rightarrow>
             Some (\<lparr>to_exitCode = 1, to_failures = [failure], to_tests = 0, to_passed = 0, to_failed = 0,
                    to_completed = 0\<rparr>, h)
         | Inr planned \<Rightarrow>
             map_option (\<lambda>(t, h).
               (if to_completed t \<noteq> length scenarios \<or> to_passed t + to_failed t \<noteq> planned
                then t \<lparr> to_exitCode := 1,
                         to_failures := to_failures t @
                           [''scenario matrix did not complete all planned assertions''] \<rparr>
                else t, h))
               (run_scenarios
                  (\<lambda>d. runScenario re m ctx d (hc_images cfg) (hc_projectID cfg) (hc_pubsubTopic cfg)
                         (hc_pubsubSub cfg))
                  scenarios
                  \<lparr>to_exitCode = 0, to_failures = [], to_tests = 0, to_passed = 0, to_failed = 0,
                   to_completed = 0\<rparr> h))"

section \<open>Pub/Sub resources\<close>

text \<open>A subscription is the topic it is attached to.\<close>

record 'w pubsubAPI =
  ps_NewClient :: "('w, apiError option) apiCall"
  ps_GetTopic :: "gostring \<Rightarrow> ('w, apiError option) apiCall"
  ps_CreateTopic :: "gostring \<Rightarrow> ('w, apiError option) apiCall"
  ps_GetSubscription :: "gostring \<Rightarrow> ('w, apiError + gostring option) apiCall"
  ps_CreateSubscription :: "gostring \<Rightarrow> gostring \<Rightarrow> ('w, gostring option \<times> apiError option) apiCall"
  ps_DeleteSubscription :: "gostring \<Rightarrow> ('w, apiError option) apiCall"
  ps_DeleteTopic :: "gostring \<Rightarrow> ('w, apiError option) apiCall"

definition topic_name :: "gostring \<Rightarrow> gostring \<Rightarrow> gostring" where
  "topic_name projectID topicID = ''projects/'' @ projectID @ ''/topics/'' @ topicID"

definition subscription_name :: "gostring \<Rightarrow> gostring \<Rightarrow> gostring" where
  "subscription_name projectID subscriptionID = ''projects/'' @ projectID @ ''/subscriptions/'' @ subscriptionID"

definition ensureTopicExists :: "'w pubsubAPI \<Rightarrow> gostring \<Rightarrow> 'w harness \<Rightarrow> apiError option \<times> 'w harness" where
  "ensureTopicExists ps topicName h =
     (case call (ps_GetTopic ps topicName) h of
        (None, h) \<Rightarrow> (None, h)
      | (Some err, h) \<Rightarrow>
          if er_status err \<noteq> NotFound then (Some (wrap (''getting pubsub topic '' @ topicName) err), h)
          else (case call (ps_CreateTopic ps topicName) h of
                  (None, h) \<Rightarrow> (None, record_call (CreatedTopic topicName) h)
                | (Some err, h) \<Rightarrow>
                    (if er_status err \<noteq> AlreadyExists
                     then Some (wrap (''creating pubsub topic '' @ topicName) err) else None, h)))"

definition ensureSubscriptionExists ::
  "'w pubsubAPI \<Rightarrow> gostring \<Rightarrow> gostring \<Rightarrow> 'w harness \<Rightarrow> (apiError + gostring option) \<times> 'w harness" where
  "ensureSubscriptionExists ps subscriptionName topicName h =
     (case call (ps_GetSubscription ps subscriptionName) h of
        (Inr subscription, h) \<Rightarrow> (Inr subscription, h)
      | (Inl err, h) \<Rightarrow>
          if er_status err \<noteq> NotFound
          then (Inl (wrap (''getting pubsub subscription '' @ subscriptionName) err), h)
          else (case call (ps_CreateSubscription ps subscriptionName topicName) h of ((created, createErr), h) \<Rightarrow>
                  let h = (if createErr = None then record_call (CreatedSubscription subscriptionName) h else h)
                  in if (case createErr of None \<Rightarrow> True | Some e \<Rightarrow> er_status e = AlreadyExists)
                     then (Inr (case created of Some topic \<Rightarrow> Some topic | None \<Rightarrow> Some topicName), h)
                     else (Inl (wrap (''creating pubsub subscription '' @ subscriptionName)
                             (case createErr of Some e \<Rightarrow> e | None \<Rightarrow> nil_panic)), h)))"

definition ensurePubSubResources ::
  "'w pubsubAPI \<Rightarrow> gostring \<Rightarrow> gostring \<Rightarrow> gostring \<Rightarrow> 'w harness \<Rightarrow> apiError option \<times> 'w harness" where
  "ensurePubSubResources ps projectID topicID subscriptionID h =
     (case call (ps_NewClient ps) h of
        (Some err, h) \<Rightarrow> (Some (wrap ''creating pubsub client'' err), h)
      | (None, h) \<Rightarrow>
          (let topicName = topic_name projectID topicID;
               subscriptionName = subscription_name projectID subscriptionID
           in case ensureTopicExists ps topicName h of
                (Some err, h) \<Rightarrow> (Some err, h)
              | (None, h) \<Rightarrow>
                  (case ensureSubscriptionExists ps subscriptionName topicName h of
                     (Inl err, h) \<Rightarrow> (Some err, h)
                   | (Inr None, h) \<Rightarrow> (None, h)
                   | (Inr (Some topic), h) \<Rightarrow>
                       (if TrimSpace topic \<noteq> topicName
                        then Some (plain_error (''pubsub subscription '' @ subscriptionName @
                               '' is attached to topic '' @ topic @ '', expected '' @ topicName))
                        else None, h))))"

definition deleteSubscriptionIfExists ::
  "'w pubsubAPI \<Rightarrow> gostring \<Rightarrow> gostring \<Rightarrow> 'w harness \<Rightarrow> apiError option \<times> 'w harness" where
  "deleteSubscriptionIfExists ps projectID subscriptionID h =
     (if TrimSpace subscriptionID = [] then (None, h)
      else (let subscriptionName = subscription_name projectID subscriptionID in
            case call (ps_DeleteSubscription ps subscriptionName)
                   (record_call (DeleteSubscription subscriptionName) h) of
              (Some err, h) \<Rightarrow>
                (if er_status err = NotFound then None
                 else Some (wrap (''deleting subscription '' @ subscriptionName) err), h)
            | (None, h) \<Rightarrow> (None, h)))"

definition deleteTopicIfExists ::
  "'w pubsubAPI \<Rightarrow> gostring \<Rightarrow> gostring \<Rightarrow> 'w harness \<Rightarrow> apiError option \<times> 'w harness" where
  "deleteTopicIfExists ps projectID topicID h =
     (if TrimSpace topicID = [] then (None, h)
      else (let topicName = topic_name projectID topicID in
            case call (ps_DeleteTopic ps topicName) (record_call (DeleteTopic topicName) h) of
              (Some err, h) \<Rightarrow>
                (if er_status err = NotFound then None
                 else Some (wrap (''deleting topic '' @ topicName) err), h)
            | (None, h) \<Rightarrow> (None, h)))"

text \<open>Errors are only logged.\<close>

definition cleanupPubSubResources ::
  "'w pubsubAPI \<Rightarrow> gostring \<Rightarrow> gostring \<Rightarrow> gostring \<Rightarrow> 'w harness \<Rightarrow> 'w harness" where
  "cleanupPubSubResources ps projectID topicID subscriptionID h =
     (case call (ps_NewClient ps) h of
        (Some err, h) \<Rightarrow> h
      | (None, h) \<Rightarrow>
          snd (deleteTopicIfExists ps projectID topicID
            (snd (deleteSubscriptionIfExists ps projectID subscriptionID h))))"

section \<open>The run\<close>

text \<open>
  The clients of the run: what creating the logging client, the trace client and the Cloud Run
  API service answers. Closing them is I/O.
\<close>

record 'w clientsAPI =
  ca_logging :: "('w, gostring option) apiCall"
  ca_trace :: "('w, gostring option) apiCall"
  ca_run :: "('w, gostring option) apiCall"

definition initializeHarnessDependencies ::
  "'w clientsAPI \<Rightarrow> harnessConfig \<Rightarrow> 'w harness \<Rightarrow> (gostring + CloudRunManager) \<times> 'w harness" where
  "initializeHarnessDependencies ca cfg h =
     (case call (ca_logging ca) h of
        (Some e, h) \<Rightarrow> (Inl (''creating logging client: '' @ e), h)
      | (None, h) \<Rightarrow>
          (case call (ca_trace ca) h of
             (Some e, h) \<Rightarrow> (Inl (''creating trace client: '' @ e), h)
           | (None, h) \<Rightarrow>
               (case call (ca_run ca) h of (serviceErr, h) \<Rightarrow>
                  (case NewCloudRunManager (hc_projectID cfg) (hc_region cfg) (hc_runID cfg)
                          (hc_serviceAccount cfg) (hc_callerServiceAccount cfg) serviceErr of
                     Inl e \<Rightarrow> (Inl (''initializing Cloud Run manager: '' @ e), h)
                   | Inr m \<Rightarrow> (Inr m, h)))))"

definition cleanupManager :: "CloudRunManager \<Rightarrow> 'w cloudAPI \<Rightarrow> 'w harness \<Rightarrow> 'w harness option" where
  "cleanupManager m api h =
     map_option snd (CleanupRun (WithTimeout background (now_at h) (180 * second)) m api h)"

definition resolve_pubsub :: "harnessConfig \<Rightarrow> harnessConfig" where
  "resolve_pubsub cfg =
     cfg \<lparr> hc_pubsubTopic := resolvePubSubResourceID (hc_pubsubTopic cfg) (hc_runID cfg),
           hc_pubsubSub := resolvePubSubResourceID (hc_pubsubSub cfg) (hc_runID cfg) \<rparr>"

text \<open>
  The exit code; \<open>None\<close> is a run that never ends. The result of \<^verbatim>\<open>parseHarnessConfig\<close>
  is the argument \<open>parsed\<close>. The Pub/Sub resources are deleted when the run ends after they
  were ensured.
\<close>

definition harness_run ::
  "'w runEnv \<Rightarrow> 'w pubsubAPI \<Rightarrow> 'w clientsAPI \<Rightarrow> gostring + harnessConfig \<Rightarrow> 'w harness
     \<Rightarrow> (int \<times> 'w harness) option" where
  "harness_run re ps ca parsed h =
     (case parsed of
        Inl err \<Rightarrow> Some (1, h)
      | Inr cfg \<Rightarrow>
          (let cfg = resolve_pubsub cfg;
               ctx = WithTimeout background (now_at h) (hc_timeout cfg)
           in case ensurePubSubResources ps (hc_projectID cfg) (hc_pubsubTopic cfg) (hc_pubsubSub cfg) h of
                (Some err, h) \<Rightarrow> Some (1, h)
              | (None, h) \<Rightarrow>
                  map_option (\<lambda>(code, h).
                    (code, cleanupPubSubResources ps (hc_projectID cfg) (hc_pubsubTopic cfg) (hc_pubsubSub cfg) h))
                    (case initializeHarnessDependencies ca cfg h of
                       (Inl err, h) \<Rightarrow> Some (1, h)
                     | (Inr m, h) \<Rightarrow>
                         Option.bind (runAllScenarios re m ctx cfg h) (\<lambda>(t, h).
                           map_option (Pair (to_exitCode t)) (cleanupManager m (re_api re) h)))))"

end
