(* ===== verification/HarnessRunProps.thy ===== *)
theory HarnessRunProps
  imports HarnessRun
begin

text \<open>
  A run of the harness ends, deletes every service it created, and exits with 0 exactly when
  every planned test passed; the Pub/Sub identifiers it uses are valid.
\<close>

section \<open>Deployments\<close>

text \<open>
  The contract of a deployer: naming changes nothing, a deployment returns and is accounted for
  by the instance it returns.
\<close>

locale scenario_deployer =
  fixes dp :: "'s deployer" and calls :: "'s \<Rightarrow> serviceCall list"
  assumes names: "calls (snd (dp_GenerateServiceName dp base s)) = calls s"
    and deploys: "\<exists>inst err s'. dp_DeployService dp cfg s = Some ((inst, err), s')
        \<and> calls s' = calls s @ creation inst \<and> (err = None \<longrightarrow> inst \<noteq> None)"

definition created :: "scenarioDeployment \<Rightarrow> serviceCall list" where
  "created dep =
     creation (dep_downHTTP dep) @ creation (dep_downGRPC dep) @ creation (dep_trace dep) @ creation (dep_core dep)"

lemma creation_None [simp]: "creation None = []"
  by (simp add: creation_def)

context scenario_deployer
begin

lemma deploy_step_accounts:
  "\<exists>inst r s'. deploy_step dp d base img env ovr put texts dep s = Some ((put inst dep, r), s')
     \<and> calls s' = calls s @ creation inst \<and> ((\<exists>url. r = Inr url) \<longrightarrow> inst \<noteq> None)"
proof -
  obtain name s1 where n: "dp_GenerateServiceName dp base s = (name, s1)" by (metis surj_pair)
  then have c: "calls s1 = calls s" using names [of base s] by simp
  define cfg where "cfg = \<lparr>cfg_Name = name, cfg_Image = img, cfg_Env = mergeEnvs (env name) ovr,
      cfg_Labels = [(''e2e-scenario'', sd_Name d)], cfg_Port = 0\<rparr>"
  obtain inst err s' where p: "dp_DeployService dp cfg s1 = Some ((inst, err), s')"
      "calls s' = calls s1 @ creation inst" "err = None \<longrightarrow> inst \<noteq> None"
    using deploys by blast
  show ?thesis
    using n c p
    by (cases err; cases inst) (auto simp: deploy_step_def cfg_def [symmetric] Let_def)
qed

lemma deploy_trace_accounts:
  assumes "dep_core dep = None" "dep_trace dep = None" "dep_downHTTP dep = None" "dep_downGRPC dep = None"
  shows "\<exists>dep' err s'. deploy_trace_services dp d images projectID topic sub dep s = Some ((dep', err), s')
     \<and> calls s' = calls s @ created dep' \<and> dep_core dep' = None \<and> dep_definition dep' = dep_definition dep
     \<and> (err = None \<longrightarrow> dep_trace dep' \<noteq> None)"
proof -
  note unfold = deploy_trace_services_def [of dp d images projectID topic sub dep s]
  define env1 where "env1 = (\<lambda>name. [(''GOOGLE_CLOUD_PROJECT'', projectID),
      (''SLOGCP_LOGICAL_SERVICE'', ''trace-downstream-http''), (''SLOGCP_RUNTIME_SERVICE_NAME'', name),
      (''SLOGCP_BUILD_ID'', sd_Name d), (''TRACE_PUBSUB_TOPIC'', topic), (''TRACE_PUBSUB_SUBSCRIPTION'', sub)])"
  obtain i1 r1 s1 where 1: "deploy_step dp d ''trace-downstream-http'' (downstreamHTTP images) env1
      (sd_DownstreamHTTPEnv d) (\<lambda>i dep. dep \<lparr> dep_downHTTP := i \<rparr>)
      (''downstream HTTP service'', ''downstream HTTP service'') dep s = Some ((dep \<lparr> dep_downHTTP := i1 \<rparr>, r1), s1)"
      "calls s1 = calls s @ creation i1"
    using deploy_step_accounts [of d "''trace-downstream-http''" "downstreamHTTP images" env1
        "sd_DownstreamHTTPEnv d" "\<lambda>i dep. dep \<lparr> dep_downHTTP := i \<rparr>"] by blast
  note step1 = unfold [folded env1_def, unfolded 1 Option.bind.bind_lunit prod.case]
  show ?thesis
  proof (cases r1)
    case (Inl e)
    then show ?thesis using step1 1(2) assms by (simp add: created_def)
  next
    case r1: (Inr httpURL)
    define env2 where "env2 = (\<lambda>name. [(''GOOGLE_CLOUD_PROJECT'', projectID),
        (''SLOGCP_LOGICAL_SERVICE'', ''trace-downstream-grpc''), (''SLOGCP_RUNTIME_SERVICE_NAME'', name),
        (''SLOGCP_BUILD_ID'', sd_Name d)])"
    define dep1 where "dep1 = dep \<lparr> dep_downHTTP := i1 \<rparr>"
    obtain i2 r2 s2 where 2: "deploy_step dp d ''trace-downstream-grpc'' (downstreamGRPC images) env2
        (sd_DownstreamGRPCEnv d) (\<lambda>i dep. dep \<lparr> dep_downGRPC := i \<rparr>)
        (''downstream gRPC service'', ''downstream gRPC service'') dep1 s1
          = Some ((dep1 \<lparr> dep_downGRPC := i2 \<rparr>, r2), s2)"
        "calls s2 = calls s1 @ creation i2"
      using deploy_step_accounts [of d "''trace-downstream-grpc''" "downstreamGRPC images" env2
          "sd_DownstreamGRPCEnv d" "\<lambda>i dep. dep \<lparr> dep_downGRPC := i \<rparr>"] by blast
    note step2 = step1 [folded env2_def dep1_def, unfolded r1 sum.case 2 Option.bind.bind_lunit prod.case]
    show ?thesis
    proof (cases r2)
      case (Inl e)
      then show ?thesis using step2 1(2) 2(2) assms by (simp add: created_def dep1_def)
    next
      case r2: (Inr grpcURL)
      define dep2 where "dep2 = dep1 \<lparr> dep_downGRPC := i2, dep_traceDownstreamHTTP := httpURL,
          dep_traceDownstreamGRPC := deriveGRPCTarget grpcURL \<rparr>"
      obtain env3 where 3: "deploy_trace_services dp d images projectID topic sub dep s =
          map_option (\<lambda>((dep, r), s). ((dep, case r of Inl e \<Rightarrow> Some e | Inr _ \<Rightarrow> None), s))
            (deploy_step dp d ''trace-target-app'' (traceTarget images) env3 (sd_TraceEnv d)
              (\<lambda>i dep. dep \<lparr> dep_trace := i \<rparr>) (''trace target service'', ''trace target service'') dep2 s2)"
        using step2 by (auto simp: r2 Let_def dep2_def)
      obtain i3 r3 s3 where "deploy_step dp d ''trace-target-app'' (traceTarget images) env3 (sd_TraceEnv d)
          (\<lambda>i dep. dep \<lparr> dep_trace := i \<rparr>) (''trace target service'', ''trace target service'') dep2 s2
            = Some ((dep2 \<lparr> dep_trace := i3 \<rparr>, r3), s3)"
          "calls s3 = calls s2 @ creation i3" "(\<exists>url. r3 = Inr url) \<longrightarrow> i3 \<noteq> None"
        using deploy_step_accounts [of d "''trace-target-app''" "traceTarget images" env3
          "sd_TraceEnv d" "\<lambda>i dep. dep \<lparr> dep_trace := i \<rparr>"] by blast
      then show ?thesis
        using 3 1(2) 2(2) assms by (cases r3) (auto simp: created_def dep2_def dep1_def)
    qed
  qed
qed

lemma deploy_scenario_accounts:
  "\<exists>dep err s'. deployScenarioServices dp d images projectID topic sub s = Some ((dep, err), s')
     \<and> calls s' = calls s @ created dep \<and> dep_definition dep = d
     \<and> (err = None \<longrightarrow> dep_core dep \<noteq> None \<and> (shouldSkipTraceSuite d \<or> dep_trace dep \<noteq> None))"
proof (cases "plannedScenarioTests d")
  case (Inl e)
  then show ?thesis by (simp add: deployScenarioServices_def created_def)
next
  case (Inr n)
  define dep0 where "dep0 = \<lparr>dep_definition = d, dep_core = None, dep_trace = None, dep_downHTTP = None,
      dep_downGRPC = None, dep_traceDownstreamHTTP = [], dep_traceDownstreamGRPC = []\<rparr>"
  have "\<exists>dep err s'. (if shouldSkipTraceSuite d then Some ((dep0, None), s)
      else deploy_trace_services dp d images projectID topic sub dep0 s) = Some ((dep, err), s')
     \<and> calls s' = calls s @ created dep \<and> dep_core dep = None \<and> dep_definition dep = d
     \<and> (err = None \<longrightarrow> shouldSkipTraceSuite d \<or> dep_trace dep \<noteq> None)"
    using deploy_trace_accounts [of dep0 d images projectID topic sub s]
    by (auto simp: dep0_def created_def)
  then obtain dep err s1 where 1: "(if shouldSkipTraceSuite d then Some ((dep0, None), s)
      else deploy_trace_services dp d images projectID topic sub dep0 s) = Some ((dep, err), s1)"
      "calls s1 = calls s @ created dep" "dep_core dep = None" "dep_definition dep = d"
      "err = None \<longrightarrow> shouldSkipTraceSuite d \<or> dep_trace dep \<noteq> None" by blast
  note step = deployScenarioServices_def [of dp d images projectID topic sub s, folded dep0_def,
      unfolded Inr sum.case Let_def 1(1) Option.bind.bind_lunit prod.case]
  show ?thesis
  proof (cases err)
    case (Some e)
    then show ?thesis using step 1 by simp
  next
    case None
    obtain i r s2 where "deploy_step dp d ''core-logging-target-app'' (coreLogging images)
        (\<lambda>name. [(''GOOGLE_CLOUD_PROJECT'', projectID), (''SLOGCP_LOGICAL_SERVICE'', ''core-logging-target-app''),
           (''SLOGCP_RUNTIME_SERVICE_NAME'', name), (''SLOGCP_BUILD_ID'', sd_Name d)])
        (sd_CoreEnv d) (\<lambda>i dep. dep \<lparr> dep_core := i \<rparr>) (''core target service'', ''core service'') dep s1
          = Some ((dep \<lparr> dep_core := i \<rparr>, r), s2)"
        "calls s2 = calls s1 @ creation i" "(\<exists>url. r = Inr url) \<longrightarrow> i \<noteq> None"
      using deploy_step_accounts [of d "''core-logging-target-app''" "coreLogging images" _
          "sd_CoreEnv d" "\<lambda>i dep. dep \<lparr> dep_core := i \<rparr>"] by blast
    then show ?thesis
      using step 1 None by (cases r) (auto simp: created_def)
  qed
qed

end

interpretation manager: scenario_deployer "manager_deployer m re ctx" service_calls
proof
  fix base and s :: "'a harness"
  obtain bytes h where "call (re_random re 3) s = (bytes, h)" by (metis surj_pair)
  then show "service_calls (snd (dp_GenerateServiceName (manager_deployer m re ctx) base s)) = service_calls s"
    using quiet_call by (fastforce simp: manager_deployer_def quiet_def)
next
  fix cfg and s :: "'a harness"
  show "\<exists>inst err s'. dp_DeployService (manager_deployer m re ctx) cfg s = Some ((inst, err), s')
      \<and> service_calls s' = service_calls s @ creation inst \<and> (err = None \<longrightarrow> inst \<noteq> None)"
  proof -
    obtain inst err h' where "DeployService m (re_api re) ctx cfg s = Some ((inst, err), h')"
        "service_calls h' = service_calls s @ creation inst"
        "case err of Some _ \<Rightarrow> True | None \<Rightarrow> (case inst of None \<Rightarrow> False | Some i \<Rightarrow> si_URL i \<noteq> [])"
      using deploy_accounts by blast
    then show ?thesis by (cases err; cases inst) (auto simp: manager_deployer_def)
  qed
qed

section \<open>A scenario\<close>

text \<open>Every service created is deleted later.\<close>

fun all_deleted :: "serviceCall list \<Rightarrow> bool" where
  "all_deleted [] = True"
| "all_deleted (CreatedService r # cs) = (DeleteService r \<in> set cs \<and> all_deleted cs)"
| "all_deleted (c # cs) = all_deleted cs"

lemma all_deleted_append: "all_deleted a \<Longrightarrow> all_deleted b \<Longrightarrow> all_deleted (a @ b)"
  by (induction a rule: all_deleted.induct) auto

lemma all_deleted_closed:
  "all_deleted b \<Longrightarrow> (\<And>r. CreatedService r \<in> set a \<Longrightarrow> DeleteService r \<in> set b) \<Longrightarrow> all_deleted (a @ b)"
  by (induction a rule: all_deleted.induct) auto

definition deletion :: "ServiceInstance option \<Rightarrow> serviceCall list" where
  "deletion i =
     (case i of
        None \<Rightarrow> []
      | Some inst \<Rightarrow> (case si_resource inst of None \<Rightarrow> [] | Some r \<Rightarrow> [DeleteService r]))"

lemma creation_deletion: "CreatedService r \<in> set (creation i) \<Longrightarrow> DeleteService r \<in> set (deletion i)"
  by (auto simp: creation_def deletion_def split: option.splits)

lemma Cleanup_deletes:
  "\<exists>e h'. Cleanup ctx api i h = Some (e, h') \<and> service_calls h' = service_calls h @ deletion i"
proof (cases i)
  case (Some inst)
  show ?thesis
  proof (cases "si_resource inst")
    case (Some r)
    then show ?thesis
      using \<open>i = Some inst\<close> deleteService_returns [of ctx api r h] by (auto simp: Cleanup_def deletion_def)
  qed (use Some in \<open>simp add: Cleanup_def deletion_def\<close>)
qed (simp add: Cleanup_def deletion_def)

lemma cleanup_each:
  "\<exists>h'. each (\<lambda>svc h. map_option snd (Cleanup ctx api svc h)) svcs h = Some h'
    \<and> service_calls h' = service_calls h @ concat (map deletion svcs)"
proof (induction svcs arbitrary: h)
  case (Cons i svcs)
  obtain e h1 where "Cleanup ctx api i h = Some (e, h1)" "service_calls h1 = service_calls h @ deletion i"
    using Cleanup_deletes by blast
  then show ?case using Cons.IH [of h1] by auto
qed simp

lemma all_deleted_deletions: "all_deleted (concat (map deletion svcs))"
proof -
  have "all_deleted (deletion i)" for i by (auto simp: deletion_def split: option.split)
  then show ?thesis by (induction svcs) (auto intro: all_deleted_append)
qed

lemma deployment_cleanup_deletes:
  "\<exists>h' ds. deployment_cleanup ctx api dep h = Some h' \<and> service_calls h' = service_calls h @ ds
    \<and> all_deleted (created dep @ ds)"
proof -
  define svcs where "svcs = [dep_core dep, dep_trace dep, dep_downHTTP dep, dep_downGRPC dep]"
  obtain h' where "deployment_cleanup ctx api dep h = Some h'"
      "service_calls h' = service_calls h @ concat (map deletion svcs)"
    using cleanup_each [of _ api svcs h] by (force simp: deployment_cleanup_def svcs_def Let_def)
  moreover have "all_deleted (created dep @ concat (map deletion svcs))"
    by (rule all_deleted_closed [OF all_deleted_deletions])
       (auto simp: created_def svcs_def dest: creation_deletion)
  ultimately show ?thesis by blast
qed

lemma quiet_target: "target_client re ctx kind svc h = (r, h') \<Longrightarrow> quiet h h'"
  by (auto simp: target_client_def split: option.splits sum.splits prod.splits dest: quiet_call)

lemma quiet_clients: "initializeScenarioTargetClients re ctx dep h = (r, h') \<Longrightarrow> quiet h h'"
  by (auto simp: initializeScenarioTargetClients_def split: prod.splits sum.splits if_splits
      dest!: quiet_target intro: quiet_trans)

lemma runTestSuite_counts:
  "runTestSuite body scenario names (p, f, fs) h = ((p', f', fs'), h') \<Longrightarrow>
   p' + f' = p + f + length names \<and> f \<le> f' \<and> length fs' = length fs + (f' - f) \<and> quiet h h'"
proof (induction body scenario names "(p, f, fs)" h arbitrary: p f fs rule: runTestSuite.induct)
  case (2 body scenario tc rest p f fs h)
  obtain e h1 where c: "call (body tc) h = (e, h1)" by (metis surj_pair)
  have q: "quiet h h1" using c by (rule quiet_call)
  show ?case
  proof (cases e)
    case None
    then have "runTestSuite body scenario rest (Suc p, f, fs) h1 = ((p', f', fs'), h')" using 2 c by simp
    then show ?thesis using "2.hyps"(1) [OF c [symmetric] None] q quiet_trans [OF q] by auto
  next
    case (Some x)
    then have "runTestSuite body scenario rest
        (p, Suc f, fs @ [CHR ''['' # scenario @ ''] '' @ tc @ '': '' @ x]) h1 = ((p', f', fs'), h')"
      using 2 c by simp
    then show ?thesis using "2.hyps"(2) [OF c [symmetric] Some] q quiet_trans [OF q] by auto
  qed
qed simp

text \<open>The statistics of a suite of \<open>n\<close> selected tests.\<close>

definition counted :: "nat \<Rightarrow> scenarioStats \<Rightarrow> bool" where
  "counted n st \<longleftrightarrow> st_total st = n \<and> st_passed st + st_failed st = n \<and> length (st_failures st) = st_failed st"

lemma run_selected_counts:
  assumes "run_selected all_tests selected body scenario h = (r, h')"
  shows "quiet h h'"
    and "selectTests all_tests selected = Inr names \<Longrightarrow> \<exists>st. r = Inr st \<and> counted (length names) st"
proof -
  show "quiet h h'"
    using assms by (auto simp: run_selected_def split: sum.splits prod.splits dest: runTestSuite_counts)
  show "\<exists>st. r = Inr st \<and> counted (length names) st" if "selectTests all_tests selected = Inr names"
    using assms that
    by (auto simp: run_selected_def counted_def split: prod.splits dest!: runTestSuite_counts)
qed

text \<open>
  What a scenario with \<open>n\<close> planned tests reports: without an error and a failure all of them
  passed, and no more than \<open>n\<close> were run.
\<close>

definition reported :: "nat \<Rightarrow> scenarioStats \<Rightarrow> bool" where
  "reported n st \<longleftrightarrow> st_passed st + st_failed st \<le> n \<and> length (st_failures st) = st_failed st
     \<and> (st_failed st = 0 \<longrightarrow> st_passed st = n)"

lemma validated: "validateScenarioCompletion n st = None \<longleftrightarrow> st_total st = n \<and> st_passed st + st_failed st = n"
  by (auto simp: validateScenarioCompletion_def)

lemma plannedE:
  assumes "plannedScenarioTests d = Inr n"
  obtains cs ts where "selectTests core_tests (sd_CoreTests d) = Inr cs"
    and "selectTests trace_tests (sd_TraceTests d) = Inr ts" and "n = length cs + length ts" and "0 < n"
  using assms by (auto simp: plannedScenarioTests_def split: sum.splits if_splits)

lemma skipped: "shouldSkipTraceSuite d \<Longrightarrow> selectTests all_tests (sd_TraceTests d) = Inr ts \<Longrightarrow> ts = []"
  by (auto simp: shouldSkipTraceSuite_def selectTests_def)

lemma run_deployed_reports:
  assumes "run_deployed re ctx d projectID n dep h = ((st, err), h')" and "plannedScenarioTests d = Inr n"
    and "dep_core dep \<noteq> None" and "shouldSkipTraceSuite d \<or> dep_trace dep \<noteq> None"
  shows "quiet h h'" and "err = None \<Longrightarrow> reported n st"
proof -
  obtain cs ts where sel: "selectTests core_tests (sd_CoreTests d) = Inr cs"
    "selectTests trace_tests (sd_TraceTests d) = Inr ts" "n = length cs + length ts"
    using assms(2) by (rule plannedE)
  obtain core where core: "dep_core dep = Some core" using assms(3) by blast
  obtain c h1 where i: "initializeScenarioTargetClients re ctx dep h = (c, h1)" by (metis surj_pair)
  have q1: "quiet h h1" using i by (rule quiet_clients)
  have "quiet h h' \<and> (err = None \<longrightarrow> reported n st)"
  proof (cases c)
    case (Inl e)
    then show ?thesis using assms(1) i q1 by (auto simp: run_deployed_def)
  next
    case (Inr cl)
    obtain cc tc where cl: "cl = (cc, tc)" by (cases cl)
    obtain r h2 where r: "runCoreSuiteForScenario re ctx d dep cc h1 = (r, h2)" by (metis surj_pair)
    have q2: "quiet h h2"
      using q1 r core by (auto simp: runCoreSuiteForScenario_def dest: run_selected_counts(1) quiet_trans)
    obtain cst where cst: "r = Inr cst" "counted (length cs) cst"
      using r core run_selected_counts(2) [OF _ sel(1)] by (fastforce simp: runCoreSuiteForScenario_def)
    note run = assms(1) [unfolded run_deployed_def i prod.case Inr cl sum.case r cst(1)]
    consider (failed) "0 < st_failed cst" | (skip) "st_failed cst = 0" "shouldSkipTraceSuite d"
      | (more) "st_failed cst = 0" "\<not> shouldSkipTraceSuite d" by blast
    then show ?thesis
    proof cases
      case failed
      then show ?thesis using run q2 cst(2) sel(3) by (auto simp: reported_def counted_def)
    next
      case skip
      then show ?thesis
        using run q2 cst(2) sel(3) skipped [OF skip(2) sel(2)] by (auto simp: reported_def counted_def)
    next
      case more
      obtain tr where tr: "dep_trace dep = Some tr" using more assms(4) by blast
      obtain r' h3 where r': "runTraceSuiteForScenario re ctx d dep tc projectID h2 = (r', h3)" by (metis surj_pair)
      have q3: "quiet h h3"
        using q2 r' tr by (auto simp: runTraceSuiteForScenario_def dest: run_selected_counts(1) quiet_trans)
      obtain tst where tst: "r' = Inr tst" "counted (length ts) tst"
        using r' tr run_selected_counts(2) [OF _ sel(2)] by (fastforce simp: runTraceSuiteForScenario_def)
      show ?thesis
        using run r' tst more q3 cst(2) sel(3)
        by (auto simp: reported_def counted_def mergeScenarioStats_def Let_def)
    qed
  qed
  then show "quiet h h'" and "err = None \<Longrightarrow> reported n st" by blast+
qed

text \<open>A scenario returns, leaves no service behind and reports its tests.\<close>

lemma scenario_reports:
  assumes "plannedScenarioTests d = Inr n"
  shows "\<exists>st err h' new. runScenario re m ctx d images projectID topic sub h = Some ((st, err), h')
    \<and> service_calls h' = service_calls h @ new \<and> all_deleted new \<and> (err = None \<longrightarrow> reported n st)"
proof -
  obtain dep err h1 where 1: "deployScenarioServices (manager_deployer m re ctx) d images projectID topic sub h
        = Some ((dep, err), h1)"
      "service_calls h1 = service_calls h @ created dep"
      "err = None \<longrightarrow> dep_core dep \<noteq> None \<and> (shouldSkipTraceSuite d \<or> dep_trace dep \<noteq> None)"
    using manager.deploy_scenario_accounts by blast
  obtain st e h2 where 2: "(case err of Some e \<Rightarrow> ((no_stats, Some e), h1)
      | None \<Rightarrow> run_deployed re ctx d projectID n dep h1) = ((st, e), h2)"
    by (metis surj_pair)
  have q: "quiet h1 h2 \<and> (e = None \<longrightarrow> reported n st)"
  proof (cases err)
    case None
    then have run: "run_deployed re ctx d projectID n dep h1 = ((st, e), h2)" using 2 by simp
    have "dep_core dep \<noteq> None" "shouldSkipTraceSuite d \<or> dep_trace dep \<noteq> None" using 1(3) None by blast+
    then show ?thesis using run_deployed_reports [OF run assms] by blast
  qed (use 2 in auto)
  obtain h3 ds where 3: "deployment_cleanup background (re_api re) dep h2 = Some h3"
      "service_calls h3 = service_calls h2 @ ds" "all_deleted (created dep @ ds)"
    using deployment_cleanup_deletes by blast
  have "runScenario re m ctx d images projectID topic sub h = Some ((st, e), h3)"
    using 1(1) 2 3(1) by (simp add: runScenario_def assms)
  moreover have "service_calls h3 = service_calls h @ created dep @ ds"
    using 1(2) 3(2) q by (simp add: quiet_def)
  ultimately show ?thesis using 3(3) q by blast
qed

section \<open>All scenarios\<close>

definition planned_of :: "scenarioDefinition \<Rightarrow> nat" where
  "planned_of d = (case plannedScenarioTests d of Inr n \<Rightarrow> n | Inl _ \<Rightarrow> 0)"

lemma planned_tests_sum:
  "list_all (\<lambda>d. \<exists>n. plannedScenarioTests d = Inr n) ds \<Longrightarrow>
   planned_tests ds k = Inr (k + sum_list (map planned_of ds))"
  by (induction ds k rule: planned_tests.induct) (auto simp: planned_of_def)

text \<open>The totals after scenarios with \<open>n\<close> planned tests, all of them completed.\<close>

definition consistent :: "nat \<Rightarrow> totals \<Rightarrow> bool" where
  "consistent n t \<longleftrightarrow> to_passed t + to_failed t \<le> n \<and> length (to_failures t) = to_failed t
     \<and> to_exitCode t = (if to_failed t = 0 then 0 else 1) \<and> (to_failed t = 0 \<longrightarrow> to_passed t = n)"

lemma consistent_add: "consistent k t \<Longrightarrow> reported n st \<Longrightarrow> consistent (k + n) (add_scenario st t)"
  by (auto simp: consistent_def reported_def add_scenario_def)

text \<open>A run stopped by a fatal error.\<close>

definition stopped :: "nat \<Rightarrow> totals \<Rightarrow> bool" where
  "stopped n t \<longleftrightarrow> to_exitCode t = 1 \<and> to_failures t \<noteq> [] \<and> to_passed t + to_failed t < n"

lemma run_scenarios_reports:
  assumes run1: "\<And>d h n. plannedScenarioTests d = Inr n \<Longrightarrow> \<exists>st err h' new. run1 d h = Some ((st, err), h')
      \<and> service_calls h' = service_calls h @ new \<and> all_deleted new \<and> (err = None \<longrightarrow> reported n st)"
  shows "list_all (\<lambda>d. \<exists>n. plannedScenarioTests d = Inr n) ds \<Longrightarrow> consistent k t \<Longrightarrow>
    \<exists>t' h' new. run_scenarios run1 ds t h = Some (t', h')
      \<and> service_calls h' = service_calls h @ new \<and> all_deleted new
      \<and> (consistent (k + sum_list (map planned_of ds)) t' \<and> to_completed t' = to_completed t + length ds
         \<or> stopped (k + sum_list (map planned_of ds)) t')"
proof (induction ds arbitrary: k t h)
  case Nil
  then show ?case by simp
next
  case (Cons d ds)
  obtain n where n: "plannedScenarioTests d = Inr n" using Cons.prems(1) by auto
  then have p: "planned_of d = n" "0 < n" by (auto simp: planned_of_def elim: plannedE)
  obtain st err h1 new where 1: "run1 d h = Some ((st, err), h1)" "service_calls h1 = service_calls h @ new"
      "all_deleted new" "err = None \<longrightarrow> reported n st"
    using run1 [OF n] by blast
  show ?case
  proof (cases err)
    case (Some e)
    then show ?thesis
      using 1 p Cons.prems(2) by (auto simp: stopped_def consistent_def)
  next
    case None
    have c: "consistent (k + n) (add_scenario st t)"
      using 1(4) None Cons.prems(2) by (auto intro: consistent_add)
    have "list_all (\<lambda>d. \<exists>n. plannedScenarioTests d = Inr n) ds" using Cons.prems(1) by simp
    then obtain t' h' new' where ih: "run_scenarios run1 ds (add_scenario st t) h1 = Some (t', h')"
        "service_calls h' = service_calls h1 @ new'" "all_deleted new'"
        "consistent (k + n + sum_list (map planned_of ds)) t'
           \<and> to_completed t' = to_completed (add_scenario st t) + length ds
         \<or> stopped (k + n + sum_list (map planned_of ds)) t'"
      using Cons.IH [OF _ c] by blast
    have "all_deleted (new @ new')" using 1(3) ih(3) by (rule all_deleted_append)
    then show ?thesis
      using 1 ih None p by (auto simp: add.assoc add_scenario_def)
  qed
qed

lemma scenarios_planned:
  "list_all (\<lambda>d. \<exists>n. plannedScenarioTests d = Inr n) (buildScenarios projectID)"
  "map planned_of (buildScenarios projectID) = [34, 4, 1, 1, 1, 1]"
proof -
  have "map plannedScenarioTests (buildScenarios projectID) = map Inr [34, 4, 1, 1, 1, 1]"
    by (simp add: buildScenarios_def plain_scenario_def plannedScenarioTests_def selectTests_def core_tests_def
        trace_tests_def streaming_tests_def)
  then show "list_all (\<lambda>d. \<exists>n. plannedScenarioTests d = Inr n) (buildScenarios projectID)"
    "map planned_of (buildScenarios projectID) = [34, 4, 1, 1, 1, 1]"
    by (auto simp: buildScenarios_def planned_of_def)
qed

lemma runAllScenarios_runs:
  "\<exists>t h' new. runAllScenarios re m ctx cfg h = Some (t, h')
    \<and> service_calls h' = service_calls h @ new \<and> all_deleted new
    \<and> to_exitCode t = (if to_passed t = 42 then 0 else 1)
    \<and> (to_failures t = [] \<longleftrightarrow> to_passed t = 42) \<and> to_passed t + to_failed t \<le> 42"
proof -
  define ds where "ds = buildScenarios (hc_projectID cfg)"
  define t0 where "t0 = \<lparr>to_exitCode = 0, to_failures = [], to_tests = 0, to_passed = 0, to_failed = 0,
      to_completed = 0\<rparr>"
  define run1 where "run1 = (\<lambda>d. runScenario re m ctx d (hc_images cfg) (hc_projectID cfg)
      (hc_pubsubTopic cfg) (hc_pubsubSub cfg))"
  have ds: "list_all (\<lambda>d. \<exists>n. plannedScenarioTests d = Inr n) ds" "sum_list (map planned_of ds) = 42"
    using scenarios_planned [of "hc_projectID cfg"] by (simp_all add: ds_def)
  have t0: "consistent 0 t0" by (simp add: consistent_def t0_def)
  have "\<exists>t' h' new. run_scenarios run1 ds t0 h = Some (t', h')
      \<and> service_calls h' = service_calls h @ new \<and> all_deleted new
      \<and> (consistent (0 + sum_list (map planned_of ds)) t' \<and> to_completed t' = to_completed t0 + length ds
         \<or> stopped (0 + sum_list (map planned_of ds)) t')"
    by (rule run_scenarios_reports [OF _ ds(1) t0]) (unfold run1_def, rule scenario_reports)
  then obtain t h' new where t: "run_scenarios run1 ds t0 h = Some (t, h')"
      "service_calls h' = service_calls h @ new" "all_deleted new"
      "consistent 42 t \<and> to_completed t = length ds \<or> stopped 42 t"
    by (auto simp: ds(2) t0_def)
  define fin where "fin = (if to_completed t \<noteq> length ds \<or> to_passed t + to_failed t \<noteq> 42
      then t \<lparr> to_exitCode := 1, to_failures := to_failures t @
             [''scenario matrix did not complete all planned assertions''] \<rparr>
      else t)"
  have "planned_tests ds 0 = Inr 42" using planned_tests_sum [OF ds(1), of 0] ds(2) by simp
  then have run: "runAllScenarios re m ctx cfg h = Some (fin, h')"
    using t(1) by (simp add: runAllScenarios_def ds_def [symmetric] t0_def [symmetric]
        run1_def [symmetric] fin_def Let_def)
  have "to_exitCode fin = (if to_passed fin = 42 then 0 else 1)
      \<and> (to_failures fin = [] \<longleftrightarrow> to_passed fin = 42) \<and> to_passed fin + to_failed fin \<le> 42"
    using t(4)
  proof
    assume "consistent 42 t \<and> to_completed t = length ds"
    then have c: "to_completed t = length ds" "to_passed t + to_failed t \<le> 42"
      "length (to_failures t) = to_failed t" "to_exitCode t = (if to_failed t = 0 then 0 else 1)"
      "to_failed t = 0 \<longrightarrow> to_passed t = 42"
      by (simp_all add: consistent_def)
    have "to_failures t = [] \<longleftrightarrow> to_failed t = 0" using c(3) by auto
    then show ?thesis using c by (cases "to_failed t = 0") (auto simp: fin_def)
  next
    assume "stopped 42 t"
    then have "to_exitCode t = 1" "to_failures t \<noteq> []" "to_passed t + to_failed t < 42"
      by (simp_all add: stopped_def)
    then show ?thesis by (auto simp: fin_def)
  qed
  then show ?thesis using run t(2,3) by blast
qed


text \<open>
  C13. The harness cannot pass without testing: of the 42 planned tests the exit code is 0 exactly
  when all have passed, and 1 when a test fails, is not run, or a scenario cannot be set up;
  failures are listed exactly when the code is 1.
\<close>

theorem runAllScenarios_exit_code:
  "\<exists>t h'. runAllScenarios re m ctx cfg h = Some (t, h')
    \<and> to_exitCode t = (if to_passed t = 42 then 0 else 1)
    \<and> (to_failures t = [] \<longleftrightarrow> to_passed t = 42) \<and> to_passed t + to_failed t \<le> 42"
  using runAllScenarios_runs [of re m ctx cfg h] by blast

section \<open>Pub/Sub identifiers\<close>

lemma replace_invalid_chars: "list_all pubsub_char (replace_invalid b s)"
  by (induction b s rule: replace_invalid.induct) (auto simp: pubsub_char_def)

lemma TrimCut_all: "list_all P s \<Longrightarrow> list_all P (TrimCut s cs)"
proof -
  assume "list_all P s"
  moreover have "set (TrimCut s cs) \<subseteq> set s"
    unfolding TrimCut_def by (auto dest!: set_dropWhileD)
  ultimately show "list_all P (TrimCut s cs)" by (auto simp: list_all_iff)
qed

lemma TrimCut_last: "TrimCut s cs \<noteq> [] \<Longrightarrow> last (TrimCut s cs) \<notin> set cs"
  using hd_dropWhile [of "\<lambda>x. x \<in> set cs" "rev (dropWhile (\<lambda>x. x \<in> set cs) s)"]
  unfolding TrimCut_def by (simp add: last_rev)

text \<open>A valid identifier: a letter first, only letters, digits and dashes, no dash at the end.\<close>

definition valid_resource :: "gostring \<Rightarrow> bool" where
  "valid_resource r \<longleftrightarrow> r \<noteq> [] \<and> list_all pubsub_char r
     \<and> 97 \<le> (of_char (hd r) :: nat) \<and> (of_char (hd r) :: nat) \<le> 122 \<and> last r \<noteq> CHR ''-''
     \<and> length r \<le> maxPubSubResourceIDLength"

lemma TrimCut_foreign:
  assumes "list_all (\<lambda>c. c \<notin> set cs) s"
  shows "TrimCut s cs = s"
proof -
  have "dropWhile (\<lambda>c. c \<in> set cs) t = t" if "list_all (\<lambda>c. c \<notin> set cs) t" for t
    using that by (cases t) auto
  then show ?thesis using assms by (simp add: TrimCut_def)
qed

text \<open>The name before it is shortened: valid but for its length.\<close>

definition long_name :: "gostring \<Rightarrow> bool" where
  "long_name r \<longleftrightarrow> r \<noteq> [] \<and> list_all pubsub_char r
     \<and> 97 \<le> (of_char (hd r) :: nat) \<and> (of_char (hd r) :: nat) \<le> 122 \<and> last r \<noteq> CHR ''-''"

lemma long_name_prefixed:
  assumes "list_all pubsub_char b" and "b \<noteq> []" and "last b \<noteq> CHR ''-''"
  shows "long_name (if (of_char (hd b) :: nat) < 97 \<or> (of_char (hd b) :: nat) > 122 then ''e2e-'' @ b else b)"
  using assms by (auto simp: long_name_def pubsub_char_def decimal_def)

lemma valid_resource_shortened:
  assumes "long_name r"
  shows "valid_resource (if length r > maxPubSubResourceIDLength
    then TrimCut (take maxPubSubResourceIDLength r) ''-'' else r)"
proof (cases "length r > maxPubSubResourceIDLength")
  case True
  define t where "t = take maxPubSubResourceIDLength r"
  obtain c u where t: "t = c # u" "c = hd r" using True by (cases r) (auto simp: t_def maxPubSubResourceIDLength_def)
  have "c \<noteq> CHR ''-''" using assms t(2) by (auto simp: long_name_def)
  then have drop: "dropWhile (\<lambda>x. x \<in> set ''-'') t = t" using t(1) by simp
  define v where "v = dropWhile (\<lambda>x. x = CHR ''-'') (rev u @ [c])"
  have v: "v = rev (TrimCut t ''-'')" using drop t(1) by (simp add: TrimCut_def v_def)
  have "\<exists>w. v = w @ [c]"
    using \<open>c \<noteq> CHR ''-''\<close> unfolding v_def by (induction "rev u" arbitrary: u) (auto simp: dropWhile_append)
  then have hd: "TrimCut t ''-'' \<noteq> []" "hd (TrimCut t ''-'') = c" using v by (metis hd_rev last_snoc rev_is_Nil_conv snoc_eq_iff_butlast rev_rev_ident)+
  have "length (TrimCut t ''-'') \<le> length t"
    unfolding TrimCut_def by (metis (no_types) length_dropWhile_le length_rev le_trans)
  then have "length (TrimCut t ''-'') \<le> maxPubSubResourceIDLength" by (simp add: t_def)
  moreover have "list_all pubsub_char t"
    using assms by (auto simp: long_name_def t_def list_all_iff dest: in_set_takeD)
  ultimately show ?thesis
    using True hd assms t(2) TrimCut_all [of pubsub_char t "''-''"] TrimCut_last [OF hd(1)]
    by (simp add: valid_resource_def long_name_def t_def [symmetric])
next
  case False
  then show ?thesis using assms by (simp add: valid_resource_def long_name_def)
qed

text \<open>
  The Pub/Sub identifiers of a run are valid whatever the flags contain: not empty, starting
  with a lower-case letter, of lower-case letters, digits and dashes, not ending with a dash and
  at most 255 long.
\<close>

theorem resolvePubSubResourceID_valid: "valid_resource (resolvePubSubResourceID base runID)"
proof -
  define name where "name = TrimSpace base"
  define run where "run = TrimSpace runID"
  define b0 where "b0 = replace_invalid False (ToLower
      (if run \<noteq> [] \<and> \<not> Contains (ToLower name) (ToLower run) then name @ ''-'' @ run else name))"
  define b1 where "b1 = TrimCut b0 ''-''"
  have chars: "list_all pubsub_char b1"
    unfolding b1_def b0_def by (intro TrimCut_all replace_invalid_chars)
  then have same: "TrimCut b1 ''._~+%'' = b1"
    by (intro TrimCut_foreign) (auto simp: list_all_iff pubsub_char_def decimal_def)
  define b2 where "b2 = (if b1 = [] then ''e2e-pubsub'' else b1)"
  have b2: "list_all pubsub_char b2" "b2 \<noteq> []" "last b2 \<noteq> CHR ''-''"
    using chars TrimCut_last [of b0 "''-''"]
    by (auto simp: b2_def b1_def [symmetric] pubsub_char_def decimal_def)
  define b3 where "b3 = (if (of_char (hd b2) :: nat) < 97 \<or> (of_char (hd b2) :: nat) > 122 then ''e2e-'' @ b2 else b2)"
  define b4 where "b4 = (if length b3 > maxPubSubResourceIDLength
    then TrimCut (take maxPubSubResourceIDLength b3) ''-'' else b3)"
  have b4: "valid_resource b4"
    unfolding b4_def b3_def by (intro valid_resource_shortened long_name_prefixed b2)
  have "resolvePubSubResourceID base runID = (if b4 = [] then ''e2e-pubsub'' else b4)"
    by (simp only: resolvePubSubResourceID_def Let_def name_def [symmetric] run_def [symmetric]
        b0_def [symmetric] b1_def [symmetric] same b2_def [symmetric] b3_def [symmetric] b4_def [symmetric])
  then show ?thesis using b4 by (simp add: valid_resource_def)
qed

section \<open>The time of a run\<close>

text \<open>
  A number of seconds from \<open>9223372037\<close> on does not fit into a duration: the timeout of the
  run wraps, first to one that is already over.
\<close>

lemma timeout_of_seconds:
  assumes "0 < s" and "in_int64 s"
  shows "harnessTimeoutDefault (\<lambda>_. FormatInt s) = Inr (wrap_int64 (s * second))"
proof -
  have "list_all visible (FormatInt s)"
    using assms(1) by (auto simp: FormatInt_def list_all_iff visible_def decimal_def dest: format_decimal)
  then have "TrimSpace (FormatInt s) = FormatInt s" by (intro TrimSpace_visible) (auto simp: list_all_iff)
  moreover have "FormatInt s \<noteq> []" using assms(1) by (simp add: FormatInt_def)
  ultimately show ?thesis
    using assms by (simp add: harnessTimeoutDefault_def Atoi_FormatInt)
qed

lemma huge_timeout_wraps: "harnessTimeoutDefault (\<lambda>_. FormatInt 9223372037) = Inr (-9223372036709551616)"
  by (subst timeout_of_seconds) (simp_all add: wrap_int64_def in_int64_def max_int64_def min_int64_def)

section \<open>Pub/Sub resources of a failed start\<close>

definition demo_pubsub :: "unit pubsubAPI" where
  "demo_pubsub =
     (let missing = (plain_error ''not found'') \<lparr> er_status := NotFound \<rparr> in
      \<lparr>ps_NewClient = (\<lambda>_ _. (None, (), 1)), ps_GetTopic = (\<lambda>_ _ _. (Some missing, (), 1)),
       ps_CreateTopic = (\<lambda>_ _ _. (None, (), 1)), ps_GetSubscription = (\<lambda>_ _ _. (Inl missing, (), 1)),
       ps_CreateSubscription = (\<lambda>_ _ _ _. ((None, Some (plain_error ''quota exceeded'')), (), 1)),
       ps_DeleteSubscription = (\<lambda>_ _ _. (None, (), 1)), ps_DeleteTopic = (\<lambda>_ _ _. (None, (), 1))\<rparr>)"

text \<open>
  A topic is created, the subscription is not: the run returns before the deletion of the
  resources is deferred, and the topic stays.
\<close>

lemma topic_left_behind:
  assumes "hc_projectID cfg = ''p''" and "hc_pubsubTopic cfg = ''t''" and "hc_pubsubSub cfg = ''s''"
    and "hc_runID cfg = ''r''"
  shows "map_option (\<lambda>(code, h). (code, service_calls h))
      (harness_run re demo_pubsub ca (Inr cfg) \<lparr>now_at = 0, cloud = (), service_calls = []\<rparr>)
    = Some (1, [CreatedTopic ''projects/p/topics/t-r''])"
proof -
  have ids: "resolvePubSubResourceID ''t'' ''r'' = ''t-r''" "resolvePubSubResourceID ''s'' ''r'' = ''s-r''"
    by code_simp+
  show ?thesis
    by (simp add: harness_run_def resolve_pubsub_def assms ids ensurePubSubResources_def ensureTopicExists_def
        ensureSubscriptionExists_def demo_pubsub_def call_def record_call_def plain_error_def wrap_def
        topic_name_def Let_def)
qed

end
