(* ===== verification/TraceWorker.thy ===== *)
theory TraceWorker
  imports HarnessTarget "HOL-Library.Word"
begin

text \<open>
  The downstream services of the trace tests: \<^verbatim>\<open>trace-downstream-http\<close> and
  \<^verbatim>\<open>trace-downstream-grpc\<close>. A handler returns what it did outside (spans written, records
  logged, in order) and its answer. The trace client, the span identifiers, the clock, the texts
  of gRPC codes and what the other end of a stream does are arguments.
\<close>

section \<open>Effects\<close>

text \<open>A span as it is written, with its attributes; times in nanoseconds.\<close>

record cloudSpan =
  sn_Name :: gostring
  sn_SpanId :: gostring
  sn_ParentSpanId :: gostring
  sn_DisplayName :: gostring
  sn_StartTime :: int
  sn_EndTime :: int
  sn_Attributes :: "gostring gomap"

record spanBatch =
  sb_Name :: gostring
  sb_Spans :: "cloudSpan list"

datatype serviceEvent =
    WroteSpans spanBatch
  | Logged level gostring "slogAttr list"

text \<open>The world of a service: its trace client, clock, identifiers and the OpenTelemetry API.\<close>

record serviceEnv =
  se_projectID :: gostring
  se_BatchWriteSpans :: "spanBatch \<Rightarrow> gostring option"
  se_now :: int
  se_spanID :: "nat \<Rightarrow> gostring"
  se_otel :: otel

definition span_batch ::
  "gostring \<Rightarrow> gostring \<Rightarrow> gostring \<Rightarrow> gostring \<Rightarrow> gostring \<Rightarrow> int \<Rightarrow> int \<Rightarrow> gostring gomap \<Rightarrow> spanBatch" where
  "span_batch projectID tid parent sid name start end_time attrs =
     \<lparr>sb_Name = ''projects/'' @ projectID,
      sb_Spans = [\<lparr>sn_Name = ''projects/'' @ projectID @ ''/traces/'' @ tid @ ''/spans/'' @ sid,
                   sn_SpanId = sid, sn_ParentSpanId = parent, sn_DisplayName = name,
                   sn_StartTime = start, sn_EndTime = end_time, sn_Attributes = attrs\<rparr>]\<rparr>"

text \<open>\<^verbatim>\<open>writeSpan\<close> of the downstream services: a span of five milliseconds.\<close>

definition worker_writeSpan ::
  "serviceEnv \<Rightarrow> gostring \<Rightarrow> gostring \<Rightarrow> gostring \<Rightarrow> gostring \<Rightarrow> gostring gomap \<Rightarrow> serviceEvent \<times> gostring option" where
  "worker_writeSpan env tid parent sid name attrs =
     (let batch = span_batch (se_projectID env) tid parent sid name (se_now env) (se_now env + 5000000) attrs
      in (WroteSpans batch, map_option (\<lambda>e. ''batch write spans: '' @ e) (se_BatchWriteSpans env batch)))"

definition error_attr :: "gostring \<Rightarrow> slogAttr" where
  "error_attr e = (''error'', VAny (GError (errorString e)))"

section \<open>The downstream HTTP service\<close>

record workRequest =
  wq_TestID :: gostring
  wq_Message :: gostring

record workResponse =
  wr_Acknowledgement :: gostring
  wr_Metadata :: "gostring gomap"

text \<open>\<open>decoded\<close> is what decoding the body returns; an HTTP error is its status and text.\<close>

definition handleWork ::
  "serviceEnv \<Rightarrow> (gostring + workRequest) \<Rightarrow> SpanContext \<Rightarrow> serviceEvent list \<times> (int \<times> gostring + workResponse)" where
  "handleWork env decoded sc =
     (case decoded of
        Inl err \<Rightarrow> ([], Inl (400, ''invalid request body''))
      | Inr req \<Rightarrow>
          if wq_TestID req = [] then ([], Inl (400, ''test_id is required''))
          else if \<not> IsValid (se_otel env) sc then ([], Inl (400, ''missing trace context''))
          else
            (let tid = TraceID_String (se_otel env) (TraceID_of sc);
                 sid = se_spanID env 0;
                 attrs = [(''test_id'', wq_TestID req), (''component'', ''downstream-http'')];
                 (wrote, err) = worker_writeSpan env tid (SpanID_String (se_otel env) (SpanID_of sc)) sid
                   ''downstream.http.handler'' attrs
             in (wrote #
                 (case err of None \<Rightarrow> []
                  | Some e \<Rightarrow> [Logged LevelWarn ''failed to write downstream span'' [error_attr e]]) @
                 [Logged LevelInfo ''Downstream HTTP work completed''
                    [(''test_id'', VString (wq_TestID req)), (''trace_id'', VString tid), (''span_id'', VString sid)]],
                 Inr \<lparr>wr_Acknowledgement = ''downstream http processed'',
                      wr_Metadata = [(''service'', ''trace-downstream-http'')]\<rparr>)))"

text \<open>A Pub/Sub message: its data as decoded (\<open>None\<close> when empty) and its attributes.\<close>

record pubSubMessage =
  pm_Data :: "(gostring + workRequest) option"
  pm_Attributes :: "gostring gomap"

text \<open>What is logged, and whether the message is acknowledged.\<close>

definition handlePubSubMessage :: "pubSubMessage option \<Rightarrow> serviceEvent list \<times> bool" where
  "handlePubSubMessage msg =
     (case msg of
        None \<Rightarrow> ([], False)
      | Some m \<Rightarrow>
          (let payload = (case pm_Data m of Some (Inr p) \<Rightarrow> p | _ \<Rightarrow> \<lparr>wq_TestID = [], wq_Message = []\<rparr>);
               failed = (case pm_Data m of
                           Some (Inl e) \<Rightarrow> [Logged LevelWarn ''Failed to decode pubsub payload'' [error_attr e]]
                         | _ \<Rightarrow> []);
               testID = TrimSpace (wq_TestID payload);
               testID = (if testID = []
                         then TrimSpace (case map_of (pm_Attributes m) ''test_id'' of Some t \<Rightarrow> t | None \<Rightarrow> [])
                         else testID)
           in (failed @ [Logged LevelInfo ''Processed pubsub message''
                 ((if testID = [] then [] else [(''test_id'', VString testID)]) @
                  [(''payload'', VString (wq_Message payload))])], True)))"

section \<open>gRPC status codes\<close>

type_synonym statusCode = nat

definition code_OK :: statusCode where "code_OK = 0"
definition code_InvalidArgument :: statusCode where "code_InvalidArgument = 3"
definition code_Internal :: statusCode where "code_Internal = 13"
definition code_Unknown :: statusCode where "code_Unknown = 2"

definition grpcCodeByName :: "statusCode gomap" where
  "grpcCodeByName =
     [(''OK'', 0), (''CANCELLED'', 1), (''CANCELED'', 1), (''UNKNOWN'', 2), (''INVALID_ARGUMENT'', 3),
      (''DEADLINE_EXCEEDED'', 4), (''NOT_FOUND'', 5), (''ALREADY_EXISTS'', 6), (''PERMISSION_DENIED'', 7),
      (''RESOURCE_EXHAUSTED'', 8), (''FAILED_PRECONDITION'', 9), (''ABORTED'', 10), (''OUT_OF_RANGE'', 11),
      (''UNIMPLEMENTED'', 12), (''INTERNAL'', 13), (''UNAVAILABLE'', 14), (''DATA_LOSS'', 15),
      (''UNAUTHENTICATED'', 16)]"

definition grpcCodeByNumber :: "(int \<times> statusCode) list" where
  "grpcCodeByNumber =
     [(0, 0), (1, 1), (2, 2), (3, 3), (4, 4), (5, 5), (6, 6), (7, 7), (8, 8), (9, 9), (10, 10), (11, 11),
      (12, 12), (13, 13), (14, 14), (15, 15), (16, 16)]"

definition parseStatusCode :: "gostring \<Rightarrow> statusCode" where
  "parseStatusCode raw =
     (let trimmed = TrimSpace raw
      in if trimmed = [] then code_Internal
         else case map_of grpcCodeByName (ToUpper trimmed) of
                Some c \<Rightarrow> c
              | None \<Rightarrow>
                  (case Option.bind (Atoi trimmed) (map_of grpcCodeByNumber) of
                     Some c \<Rightarrow> c
                   | None \<Rightarrow> code_Unknown))"

text \<open>
  An error: a text; a text around a gRPC status (\<^verbatim>\<open>%w\<close> of \<^verbatim>\<open>status.Error\<close>, which is
  nil for the code OK); a text around an error of the stream.
\<close>

datatype workError =
    PlainError gostring
  | StatusError gostring statusCode gostring
  | StreamError gostring gostring

definition status_error :: "gostring \<Rightarrow> statusCode \<Rightarrow> gostring \<Rightarrow> workError" where
  "status_error text c message =
     (if c = code_OK then PlainError (text @ '': %!w(<nil>)'') else StatusError text c message)"

definition invalid_argument :: "gostring \<Rightarrow> workError" where
  "invalid_argument text = status_error text code_InvalidArgument text"

section \<open>The unary calls\<close>

definition DoWork ::
  "serviceEnv option \<Rightarrow> otel \<Rightarrow> (nat \<Rightarrow> gostring) \<Rightarrow> SpanContext \<Rightarrow> workRequest option
     \<Rightarrow> serviceEvent list \<times> (workError + workResponse)" where
  "DoWork client api ids sc req =
     (if (case req of None \<Rightarrow> True | Some r \<Rightarrow> wq_TestID r = [])
      then ([], Inl (PlainError ''test_id is required''))
      else if \<not> IsValid api sc then ([], Inl (PlainError ''missing trace context''))
      else
        (let testID = (case req of Some r \<Rightarrow> wq_TestID r | None \<Rightarrow> []);
             tid = TraceID_String api (TraceID_of sc);
             sid = ids 0;
             attrs = [(''test_id'', testID), (''component'', ''downstream-grpc'')];
             events = (case client of
               None \<Rightarrow> []
             | Some env \<Rightarrow>
                 (case worker_writeSpan env tid (SpanID_String api (SpanID_of sc)) sid
                         ''downstream.grpc.handler'' attrs of
                    (wrote, None) \<Rightarrow> [wrote]
                  | (wrote, Some e) \<Rightarrow>
                      [wrote, Logged LevelWarn ''failed to write downstream grpc span'' [error_attr e]]))
         in (events @
             [Logged LevelInfo ''Downstream gRPC work completed''
                [(''test_id'', VString testID), (''trace_id'', VString tid), (''span_id'', VString sid)]],
             Inr \<lparr>wr_Acknowledgement = ''downstream grpc processed'',
                  wr_Metadata = [(''service'', ''trace-downstream-grpc'')]\<rparr>)))"

text \<open>\<open>names\<close> is \<^verbatim>\<open>codes.Code.String\<close>. The request is its status and message.\<close>

definition FailWork ::
  "(statusCode \<Rightarrow> gostring) \<Rightarrow> (gostring \<times> gostring) option \<Rightarrow> serviceEvent list \<times> workError" where
  "FailWork names req =
     (case req of
        None \<Rightarrow> ([], invalid_argument ''request is required'')
      | Some (grpcStatus, errorMessage) \<Rightarrow>
          (let c = parseStatusCode grpcStatus;
               message = TrimSpace errorMessage;
               message = (if message = [] then names c @ '' error from downstream'' else message)
           in ([Logged LevelWarn ''Downstream gRPC error response''
                  [(''grpc_status'', VString (names c)), (''error_message'', VString message)]],
               status_error (''fail work status '' @ names c) c message)))"

definition PanicWork :: "gostring option \<Rightarrow> serviceEvent list \<times> workError" where
  "PanicWork req =
     (let panicMessage = (case req of
            Some m \<Rightarrow> if TrimSpace m \<noteq> [] then m else ''downstream panic triggered''
          | None \<Rightarrow> ''downstream panic triggered'')
      in ([Logged LevelError ''panic recovery enabled'' [(''panic_message'', VString panicMessage)]],
          status_error ''panic work'' code_Internal panicMessage))"

definition EchoPayload :: "gostring option \<Rightarrow> workError + gostring" where
  "EchoPayload req =
     (case req of None \<Rightarrow> Inl (invalid_argument ''request is required'') | Some payload \<Rightarrow> Inr payload)"

section \<open>The server stream\<close>

record serverStreamRequest =
  ssq_TestId :: gostring
  ssq_ResponseCount :: "32 word"
  ssq_ResponsePayload :: gostring
  ssq_FinalStatus :: gostring
  ssq_FinalMessage :: gostring

record serverStreamResponse =
  ssr_TestId :: gostring
  ssr_Sequence :: "32 word"
  ssr_Payload :: gostring

text \<open>
  \<open>send\<close> is the error of sending a response, if any. The responses sent so far are
  accumulated; an error ends the loop.
\<close>

fun send_all :: "('r \<Rightarrow> gostring option) \<Rightarrow> 'r list \<Rightarrow> 'r list \<Rightarrow> 'r list \<times> gostring option" where
  "send_all send [] sent = (sent, None)"
| "send_all send (r # rs) sent =
     (case send r of Some e \<Rightarrow> (sent, Some e) | None \<Rightarrow> send_all send rs (sent @ [r]))"

definition StreamServer ::
  "(statusCode \<Rightarrow> gostring) \<Rightarrow> (serverStreamResponse \<Rightarrow> gostring option) \<Rightarrow> serverStreamRequest option
     \<Rightarrow> serverStreamResponse list \<times> workError option" where
  "StreamServer names send req =
     (case req of
        None \<Rightarrow> ([], Some (invalid_argument ''request is required''))
      | Some r \<Rightarrow>
          (let testID = TrimSpace (ssq_TestId r)
           in if testID = [] then ([], Some (invalid_argument ''test_id is required''))
              else if sint (ssq_ResponseCount r) < 0
              then ([], Some (invalid_argument ''response_count must be non-negative''))
              else
                (let payload = (if ssq_ResponsePayload r = [] then ''downstream stream payload''
                                else ssq_ResponsePayload r);
                     responses = map (\<lambda>i. \<lparr>ssr_TestId = testID, ssr_Sequence = word_of_int (i + 1),
                                          ssr_Payload = payload\<rparr>) [0..sint (ssq_ResponseCount r) - 1]
                 in case send_all send responses [] of
                      (sent, Some e) \<Rightarrow> (sent, Some (StreamError ''send server stream response'' e))
                    | (sent, None) \<Rightarrow>
                        (let statusRaw = TrimSpace (ssq_FinalStatus r);
                             c = parseStatusCode statusRaw
                         in if statusRaw = [] \<or> c = code_OK then (sent, None)
                            else
                              (let message = TrimSpace (ssq_FinalMessage r);
                                   message = (if message = [] then names c @ '' error from downstream stream''
                                              else message)
                               in (sent, Some (status_error (''server stream final status '' @ names c) c message)))))))"

section \<open>The client stream\<close>

record clientStreamRequest =
  csq_TestId :: gostring
  csq_ChunkId :: gostring
  csq_Payload :: gostring
  csq_FinalStatus :: gostring
  csq_FinalMessage :: gostring

record clientStreamResponse =
  csr_TestId :: gostring
  csr_ReceivedChunks :: "32 word"
  csr_Concatenated :: gostring

record clientStreamState =
  cst_testID :: gostring
  cst_received :: "32 word"
  cst_builder :: gostring
  cst_finalStatus :: statusCode
  cst_finalMessage :: gostring

definition applyClientStreamChunk ::
  "clientStreamState \<Rightarrow> clientStreamRequest option \<Rightarrow> workError + clientStreamState" where
  "applyClientStreamChunk st req =
     (case req of
        None \<Rightarrow> Inr st
      | Some r \<Rightarrow>
          (let trimmedID = TrimSpace (csq_TestId r)
           in if trimmedID \<noteq> [] \<and> cst_testID st \<noteq> [] \<and> cst_testID st \<noteq> trimmedID
              then Inl (invalid_argument ''test_id mismatch in stream'')
              else
                (let st = (if trimmedID \<noteq> [] \<and> cst_testID st = [] then st \<lparr> cst_testID := trimmedID \<rparr> else st);
                     st = st \<lparr> cst_builder := cst_builder st @ csq_Payload r, cst_received := cst_received st + 1 \<rparr>;
                     statusRaw = TrimSpace (csq_FinalStatus r);
                     st = (if statusRaw \<noteq> [] then st \<lparr> cst_finalStatus := parseStatusCode statusRaw \<rparr> else st);
                     message = TrimSpace (csq_FinalMessage r)
                 in Inr (if message \<noteq> [] then st \<lparr> cst_finalMessage := message \<rparr> else st))))"

text \<open>What \<^verbatim>\<open>Recv\<close> returns, in order; the end of the list is \<^verbatim>\<open>io.EOF\<close>.\<close>

datatype 'q received = Received "'q option" | RecvFails gostring

fun receive_chunks ::
  "clientStreamState \<Rightarrow> clientStreamRequest received list \<Rightarrow> workError + clientStreamState" where
  "receive_chunks st [] = Inr st"
| "receive_chunks st (RecvFails e # rest) = Inl (StreamError ''receive client stream chunk'' e)"
| "receive_chunks st (Received req # rest) =
     (case applyClientStreamChunk st req of Inl err \<Rightarrow> Inl err | Inr st \<Rightarrow> receive_chunks st rest)"

text \<open>The error, or the response that was sent.\<close>

definition StreamClient ::
  "(statusCode \<Rightarrow> gostring) \<Rightarrow> (clientStreamResponse \<Rightarrow> gostring option) \<Rightarrow> clientStreamRequest received list
     \<Rightarrow> workError + clientStreamResponse" where
  "StreamClient names sendAndClose incoming =
     (case receive_chunks \<lparr>cst_testID = [], cst_received = 0, cst_builder = [], cst_finalStatus = code_OK,
                           cst_finalMessage = []\<rparr> incoming of
        Inl err \<Rightarrow> Inl err
      | Inr st \<Rightarrow>
          if cst_testID st = [] then Inl (invalid_argument ''test_id is required'')
          else if cst_finalStatus st \<noteq> code_OK
          then Inl (status_error (''client stream final status '' @ names (cst_finalStatus st))
                 (cst_finalStatus st)
                 (if cst_finalMessage st = []
                  then names (cst_finalStatus st) @ '' error from downstream client stream''
                  else cst_finalMessage st))
          else
            (let resp = \<lparr>csr_TestId = cst_testID st, csr_ReceivedChunks = cst_received st,
                         csr_Concatenated = cst_builder st\<rparr>
             in case sendAndClose resp of
                  Some e \<Rightarrow> Inl (StreamError ''send and close client stream'' e)
                | None \<Rightarrow> Inr resp))"

section \<open>The bidirectional stream\<close>

record bidiStreamRequest =
  bsq_TestId :: gostring
  bsq_ChunkId :: gostring
  bsq_Payload :: gostring
  bsq_CloseAfter :: bool
  bsq_FinalStatus :: gostring
  bsq_FinalMessage :: gostring

record bidiStreamResponse =
  bsr_TestId :: gostring
  bsr_ChunkId :: gostring
  bsr_Payload :: gostring

record bidiStreamState =
  bst_testID :: gostring
  bst_finalStatus :: statusCode
  bst_finalMessage :: gostring

text \<open>The response that was sent, if any, and the error or the new state and whether to close.\<close>

definition processBidiChunk ::
  "(bidiStreamResponse \<Rightarrow> gostring option) \<Rightarrow> bidiStreamState \<Rightarrow> bidiStreamRequest option
     \<Rightarrow> bidiStreamResponse list \<times> (workError + bidiStreamState \<times> bool)" where
  "processBidiChunk send st req =
     (case req of
        None \<Rightarrow> ([], Inr (st, False))
      | Some r \<Rightarrow>
          (let trimmedID = TrimSpace (bsq_TestId r)
           in if trimmedID = [] then ([], Inl (invalid_argument ''test_id is required''))
              else if bst_testID st \<noteq> [] \<and> bst_testID st \<noteq> trimmedID
              then ([], Inl (invalid_argument ''test_id mismatch in stream''))
              else
                (let st = (if bst_testID st = [] then st \<lparr> bst_testID := trimmedID \<rparr> else st);
                     resp = \<lparr>bsr_TestId = bst_testID st, bsr_ChunkId = bsq_ChunkId r, bsr_Payload = bsq_Payload r\<rparr>
                 in case send resp of
                      Some e \<Rightarrow> ([], Inl (StreamError ''send bidi stream response'' e))
                    | None \<Rightarrow>
                        (let statusRaw = TrimSpace (bsq_FinalStatus r);
                             st = (if statusRaw \<noteq> [] then st \<lparr> bst_finalStatus := parseStatusCode statusRaw \<rparr>
                                   else st);
                             message = TrimSpace (bsq_FinalMessage r);
                             st = (if message \<noteq> [] then st \<lparr> bst_finalMessage := message \<rparr> else st)
                         in ([resp], Inr (st, bsq_CloseAfter r))))))"

text \<open>The end of the call after the last chunk.\<close>

definition bidi_finish :: "(statusCode \<Rightarrow> gostring) \<Rightarrow> bidiStreamState \<Rightarrow> workError option" where
  "bidi_finish names st =
     (if bst_testID st = [] then Some (invalid_argument ''test_id is required'')
      else if bst_finalStatus st \<noteq> code_OK
      then Some (status_error (''bidi stream final status '' @ names (bst_finalStatus st)) (bst_finalStatus st)
             (if bst_finalMessage st = [] then names (bst_finalStatus st) @ '' error from downstream bidi stream''
              else bst_finalMessage st))
      else None)"

definition bidi_start :: bidiStreamState where
  "bidi_start = \<lparr>bst_testID = [], bst_finalStatus = code_OK, bst_finalMessage = []\<rparr>"

fun bidi_loop ::
  "(statusCode \<Rightarrow> gostring) \<Rightarrow> (bidiStreamResponse \<Rightarrow> gostring option) \<Rightarrow> bidiStreamState
     \<Rightarrow> bidiStreamRequest received list \<Rightarrow> bidiStreamResponse list \<times> workError option" where
  "bidi_loop names send st [] = ([], bidi_finish names st)"
| "bidi_loop names send st (RecvFails e # rest) = ([], Some (StreamError ''receive bidi stream chunk'' e))"
| "bidi_loop names send st (Received req # rest) =
     (case processBidiChunk send st req of
        (sent, Inl err) \<Rightarrow> (sent, Some err)
      | (sent, Inr (st, closeAfter)) \<Rightarrow>
          if closeAfter then (sent, bidi_finish names st)
          else (case bidi_loop names send st rest of (more_sent, err) \<Rightarrow> (sent @ more_sent, err)))"

definition StreamBidi ::
  "(statusCode \<Rightarrow> gostring) \<Rightarrow> (bidiStreamResponse \<Rightarrow> gostring option) \<Rightarrow> bidiStreamRequest received list
     \<Rightarrow> bidiStreamResponse list \<times> workError option" where
  "StreamBidi names send incoming = bidi_loop names send bidi_start incoming"

section \<open>Configuration\<close>

record grpcInterceptorConfig =
  includePeer :: bool
  includeSizes :: bool

definition getEnvAsBool :: "environ \<Rightarrow> gostring \<Rightarrow> bool \<Rightarrow> bool" where
  "getEnvAsBool env key defaultVal =
     (let raw = TrimSpace (env key)
      in if raw = [] then defaultVal
         else case ParseBool raw of Some parsed \<Rightarrow> parsed | None \<Rightarrow> defaultVal)"

definition getEnvOrDefault :: "environ \<Rightarrow> gostring \<Rightarrow> gostring \<Rightarrow> gostring" where
  "getEnvOrDefault env key fallback = (let v = TrimSpace (env key) in if v \<noteq> [] then v else fallback)"

definition parseGRPCInterceptorConfig :: "environ \<Rightarrow> grpcInterceptorConfig" where
  "parseGRPCInterceptorConfig env =
     \<lparr>includePeer = getEnvAsBool env ''TRACE_DOWNSTREAM_GRPC_LOG_METADATA'' True,
      includeSizes = getEnvAsBool env ''TRACE_DOWNSTREAM_GRPC_LOG_PAYLOAD'' True\<rparr>"

end
