(* ===== verification/TraceTarget.thy ===== *)
theory TraceTarget
  imports TraceWorker
begin

text \<open>
  The trace target application: its endpoints (\<^verbatim>\<open>trace_handlers.go\<close>) and the calls they
  make downstream (\<^verbatim>\<open>downstream.go\<close>). An endpoint is a function of the decoded request and
  the span context of the request; its result is what it did outside, in order, and the
  response: an HTTP error (status and text) or the JSON answer. The gRPC streams of the client
  are an interface over an arbitrary state.
\<close>

section \<open>Downstream clients\<close>

record downstreamHTTPRequest =
  dhr_TestID :: gostring
  dhr_Message :: gostring

text \<open>An error of a stream: \<^verbatim>\<open>io.EOF\<close> or another error.\<close>

datatype streamErr = StreamEOF | StreamBroken gostring

fun stream_text :: "streamErr \<Rightarrow> gostring" where
  "stream_text StreamEOF = ''EOF''"
| "stream_text (StreamBroken e) = e"

datatype 'r recvResult = Got 'r | Ended streamErr

text \<open>
  The generated gRPC client. A call returns its answer or an error; a stream is a state with its
  operations; receiving returns \<open>None\<close> when nothing ever arrives.
\<close>

record 's grpcClient =
  gc_DoWork :: "workRequest \<Rightarrow> gostring + workResponse"
  gc_StreamServer :: "serverStreamRequest \<Rightarrow> gostring + 's"
  gc_RecvServer :: "'s \<Rightarrow> (serverStreamResponse recvResult \<times> 's) option"
  gc_StreamClient :: "gostring + 's"
  gc_SendClient :: "clientStreamRequest \<Rightarrow> 's \<Rightarrow> streamErr option \<times> 's"
  gc_CloseAndRecv :: "'s \<Rightarrow> gostring + clientStreamResponse"
  gc_StreamBidi :: "gostring + 's"
  gc_SendBidi :: "bidiStreamRequest \<Rightarrow> 's \<Rightarrow> streamErr option \<times> 's"
  gc_RecvBidi :: "'s \<Rightarrow> (bidiStreamResponse recvResult \<times> 's) option"
  gc_CloseSend :: "'s \<Rightarrow> streamErr option \<times> 's"

text \<open>\<open>dc_HTTPClient\<close> posts a request to a target; the body of an answer is what decoding it returns.\<close>

record 's downstreamClients =
  dc_HTTPBaseURL :: gostring
  dc_HTTPClient :: "(gostring \<Rightarrow> downstreamHTTPRequest \<Rightarrow> (gostring + workResponse) answer) option"
  dc_GRPCClient :: "'s grpcClient option"

definition validateDownstreamHTTPInputs ::
  "'s downstreamClients option \<Rightarrow> downstreamHTTPRequest option \<Rightarrow> gostring option" where
  "validateDownstreamHTTPInputs c req =
     (case c of
        None \<Rightarrow> Some ''downstream clients not configured''
      | Some dc \<Rightarrow>
          if req = None then Some ''downstream request is nil''
          else if dc_HTTPBaseURL dc = [] \<or> (case dc_HTTPClient dc of None \<Rightarrow> True | Some _ \<Rightarrow> False)
          then Some ''downstream HTTP client not configured''
          else None)"

definition CallDownstreamHTTP ::
  "'s downstreamClients option \<Rightarrow> downstreamHTTPRequest option \<Rightarrow> gostring + workResponse" where
  "CallDownstreamHTTP c req =
     (case validateDownstreamHTTPInputs c req of
        Some err \<Rightarrow> Inl err
      | None \<Rightarrow>
          (case (c, req) of
             (Some dc, Some r) \<Rightarrow>
               (case dc_HTTPClient dc of
                  Some post \<Rightarrow>
                    (case post (trim_slashes (dc_HTTPBaseURL dc) @ ''/work'') r of
                       NotCreated e \<Rightarrow> Inl (''creating downstream request: '' @ e)
                     | NotSent e \<Rightarrow> Inl (''calling downstream http: '' @ e)
                     | Answered status decoded \<Rightarrow>
                         if status \<noteq> 200 then Inl (''downstream http status '' @ FormatInt status)
                         else (case decoded of
                                 Inl e \<Rightarrow> Inl (''decoding downstream response: '' @ e)
                               | Inr resp \<Rightarrow> Inr resp))
                | None \<Rightarrow> Inl ''downstream HTTP client not configured'')
           | _ \<Rightarrow> Inl ''downstream clients not configured''))"

text \<open>The checks every gRPC call makes first.\<close>

definition grpc_client ::
  "'s downstreamClients option \<Rightarrow> bool \<Rightarrow> gostring \<Rightarrow> gostring + 's grpcClient" where
  "grpc_client c given missing =
     (case c of
        None \<Rightarrow> Inl ''downstream clients not configured''
      | Some dc \<Rightarrow>
          if \<not> given then Inl missing
          else (case dc_GRPCClient dc of
                  None \<Rightarrow> Inl ''downstream grpc client not configured''
                | Some gc \<Rightarrow> Inr gc))"

definition CallDownstreamGRPC ::
  "'s downstreamClients option \<Rightarrow> workRequest option \<Rightarrow> gostring + workResponse" where
  "CallDownstreamGRPC c req =
     (case grpc_client c (req \<noteq> None) ''downstream grpc request is nil'' of
        Inl err \<Rightarrow> Inl err
      | Inr gc \<Rightarrow>
          (case req of
             None \<Rightarrow> Inl ''downstream grpc request is nil''
           | Some r \<Rightarrow>
               (case gc_DoWork gc r of
                  Inl e \<Rightarrow> Inl (''calling downstream grpc do_work: '' @ e)
                | Inr resp \<Rightarrow> Inr resp)))"

text \<open>\<open>None\<close>: the call never returns.\<close>

partial_function (option) recv_all ::
  "('s \<Rightarrow> ('r recvResult \<times> 's) option) \<Rightarrow> gostring \<Rightarrow> 'r list \<Rightarrow> 's \<Rightarrow> (gostring + 'r list) option" where
  "recv_all recv failed responses s =
     Option.bind (recv s) (\<lambda>r.
       case r of
         (Ended StreamEOF, s) \<Rightarrow> Some (Inr responses)
       | (Ended (StreamBroken e), s) \<Rightarrow> Some (Inl (failed @ '': '' @ e))
       | (Got msg, s) \<Rightarrow> recv_all recv failed (responses @ [msg]) s)"

declare recv_all.simps [code]

text \<open>A negative count panics when the slice of the answers is made; the call does not return.\<close>

definition CallDownstreamGRPCServerStream ::
  "'s downstreamClients option \<Rightarrow> serverStreamRequest option \<Rightarrow> (gostring + serverStreamResponse list) option" where
  "CallDownstreamGRPCServerStream c req =
     (case grpc_client c (req \<noteq> None) ''downstream grpc server stream request is nil'' of
        Inl err \<Rightarrow> Some (Inl err)
      | Inr gc \<Rightarrow>
          (case req of
             None \<Rightarrow> Some (Inl ''downstream grpc server stream request is nil'')
           | Some r \<Rightarrow>
               (case gc_StreamServer gc r of
                  Inl e \<Rightarrow> Some (Inl (''opening downstream grpc server stream: '' @ e))
                | Inr s \<Rightarrow>
                    if sint (ssq_ResponseCount r) < 0 then None
                    else recv_all (gc_RecvServer gc) ''receiving downstream grpc server stream'' [] s)))"

fun send_chunks ::
  "('q \<Rightarrow> 's \<Rightarrow> streamErr option \<times> 's) \<Rightarrow> gostring \<Rightarrow> 'q option list \<Rightarrow> 's \<Rightarrow> gostring + 's" where
  "send_chunks send failed [] s = Inr s"
| "send_chunks send failed (None # payloads) s = send_chunks send failed payloads s"
| "send_chunks send failed (Some payload # payloads) s =
     (case send payload s of
        (Some e, s) \<Rightarrow> Inl (failed @ '': '' @ stream_text e)
      | (None, s) \<Rightarrow> send_chunks send failed payloads s)"

definition CallDownstreamGRPCClientStream ::
  "'s downstreamClients option \<Rightarrow> clientStreamRequest option list option \<Rightarrow> gostring + clientStreamResponse" where
  "CallDownstreamGRPCClientStream c req =
     (let payloads = (case req of Some ps \<Rightarrow> ps | None \<Rightarrow> [])
      in case grpc_client c (payloads \<noteq> []) ''downstream grpc client stream request is nil'' of
           Inl err \<Rightarrow> Inl err
         | Inr gc \<Rightarrow>
             (case gc_StreamClient gc of
                Inl e \<Rightarrow> Inl (''opening downstream grpc client stream: '' @ e)
              | Inr s \<Rightarrow>
                  (case send_chunks (gc_SendClient gc) ''sending downstream grpc client stream chunk'' payloads s of
                     Inl e \<Rightarrow> Inl e
                   | Inr s \<Rightarrow>
                       (case gc_CloseAndRecv gc s of
                          Inl e \<Rightarrow> Inl (''closing downstream grpc client stream: '' @ e)
                        | Inr resp \<Rightarrow> Inr resp))))"

fun exchangeBidiStreamMessages ::
  "'s grpcClient \<Rightarrow> bidiStreamRequest option list \<Rightarrow> bidiStreamResponse list \<Rightarrow> 's
     \<Rightarrow> ((gostring + bidiStreamResponse list) \<times> 's) option" where
  "exchangeBidiStreamMessages gc [] responses s = Some (Inr responses, s)"
| "exchangeBidiStreamMessages gc (None # payloads) responses s =
     exchangeBidiStreamMessages gc payloads responses s"
| "exchangeBidiStreamMessages gc (Some payload # payloads) responses s =
     (case gc_SendBidi gc payload s of
        (Some e, s) \<Rightarrow>
          Some (Inl (''sending downstream grpc bidi stream chunk: '' @ stream_text e), snd (gc_CloseSend gc s))
      | (None, s) \<Rightarrow>
          (case gc_RecvBidi gc s of
             None \<Rightarrow> None
           | Some (Ended StreamEOF, s) \<Rightarrow> Some (Inr responses, s)
           | Some (Ended (StreamBroken e), s) \<Rightarrow>
               Some (Inl (''receiving downstream grpc bidi stream response: '' @ e), snd (gc_CloseSend gc s))
           | Some (Got resp, s) \<Rightarrow> exchangeBidiStreamMessages gc payloads (responses @ [resp]) s))"

definition drainBidiStreamTail ::
  "'s grpcClient \<Rightarrow> bidiStreamResponse list \<Rightarrow> 's \<Rightarrow> (gostring + bidiStreamResponse list) option" where
  "drainBidiStreamTail gc responses s =
     (case gc_CloseSend gc s of
        (Some (StreamBroken e), s) \<Rightarrow> Some (Inl (''closing downstream grpc bidi stream: '' @ e))
      | (_, s) \<Rightarrow> recv_all (gc_RecvBidi gc) ''receiving downstream grpc bidi stream tail'' responses s)"

definition CallDownstreamGRPCBidiStream ::
  "'s downstreamClients option \<Rightarrow> bidiStreamRequest option list option
     \<Rightarrow> (gostring + bidiStreamResponse list) option" where
  "CallDownstreamGRPCBidiStream c req =
     (let payloads = (case req of Some ps \<Rightarrow> ps | None \<Rightarrow> [])
      in case grpc_client c (payloads \<noteq> []) ''downstream grpc bidi stream request is nil'' of
           Inl err \<Rightarrow> Some (Inl err)
         | Inr gc \<Rightarrow>
             (case gc_StreamBidi gc of
                Inl e \<Rightarrow> Some (Inl (''opening downstream grpc bidi stream: '' @ e))
              | Inr s \<Rightarrow>
                  Option.bind (exchangeBidiStreamMessages gc payloads [] s) (\<lambda>r.
                    case r of
                      (Inl e, s) \<Rightarrow> Some (Inl e)
                    | (Inr responses, s) \<Rightarrow> drainBidiStreamTail gc responses s)))"

section \<open>Requests and responses\<close>

record traceRequest =
  tr_TestID :: gostring
  tr_Message :: gostring

record traceResponse =
  tp_Success :: bool
  tp_Message :: gostring
  tp_TraceID :: gostring
  tp_SpanID :: gostring
  tp_Details :: "gostring gomap"

record serverStreamTraceRequest =
  st_TraceRequest :: "traceRequest option"
  st_ResponseCount :: int
  st_ResponsePayload :: gostring
  st_FinalStatus :: gostring
  st_FinalMessage :: gostring

record clientStreamChunk =
  cc_TestID :: gostring
  cc_ChunkID :: gostring
  cc_Payload :: gostring
  cc_FinalStatus :: gostring
  cc_FinalMessage :: gostring

record clientStreamTraceRequest =
  ct_TraceRequest :: "traceRequest option"
  ct_Chunks :: "clientStreamChunk list"

record bidiStreamChunk =
  bc_TestID :: gostring
  bc_ChunkID :: gostring
  bc_Payload :: gostring
  bc_CloseAfter :: bool
  bc_FinalStatus :: gostring
  bc_FinalMessage :: gostring

record bidiStreamTraceRequest =
  bt_TraceRequest :: "traceRequest option"
  bt_Messages :: "bidiStreamChunk list"

text \<open>
  The four decoders, from what \<^verbatim>\<open>json.Decode\<close> returns for the body. A valid request is
  returned with its trace request, whose identifier is trimmed.
\<close>

definition decodeTraceRequest :: "gostring + traceRequest \<Rightarrow> gostring + traceRequest" where
  "decodeTraceRequest decoded =
     (case decoded of
        Inl e \<Rightarrow> Inl (''failed to decode request: '' @ e)
      | Inr req \<Rightarrow>
          (let testID = TrimSpace (tr_TestID req)
           in if testID = [] then Inl ''test_id is required'' else Inr (req \<lparr> tr_TestID := testID \<rparr>)))"

definition inner_request :: "traceRequest option \<Rightarrow> gostring + traceRequest" where
  "inner_request req =
     (case req of
        None \<Rightarrow> Inl ''trace request is required''
      | Some r \<Rightarrow> decodeTraceRequest (Inr r))"

definition decodeServerStreamTraceRequest ::
  "gostring + serverStreamTraceRequest \<Rightarrow> gostring + traceRequest \<times> serverStreamTraceRequest" where
  "decodeServerStreamTraceRequest decoded =
     (case decoded of
        Inl e \<Rightarrow> Inl (''failed to decode request: '' @ e)
      | Inr req \<Rightarrow>
          (case inner_request (st_TraceRequest req) of
             Inl e \<Rightarrow> Inl e
           | Inr t \<Rightarrow> if st_ResponseCount req < 0 then Inl ''response_count must be non-negative'' else Inr (t, req)))"

definition decodeClientStreamTraceRequest ::
  "gostring + clientStreamTraceRequest \<Rightarrow> gostring + traceRequest \<times> clientStreamTraceRequest" where
  "decodeClientStreamTraceRequest decoded =
     (case decoded of
        Inl e \<Rightarrow> Inl (''failed to decode request: '' @ e)
      | Inr req \<Rightarrow>
          (case inner_request (ct_TraceRequest req) of
             Inl e \<Rightarrow> Inl e
           | Inr t \<Rightarrow> if ct_Chunks req = [] then Inl ''chunks are required'' else Inr (t, req)))"

definition decodeBidiStreamTraceRequest ::
  "gostring + bidiStreamTraceRequest \<Rightarrow> gostring + traceRequest \<times> bidiStreamTraceRequest" where
  "decodeBidiStreamTraceRequest decoded =
     (case decoded of
        Inl e \<Rightarrow> Inl (''failed to decode request: '' @ e)
      | Inr req \<Rightarrow>
          (case inner_request (bt_TraceRequest req) of
             Inl e \<Rightarrow> Inl e
           | Inr t \<Rightarrow> if bt_Messages req = [] then Inl ''messages are required'' else Inr (t, req)))"

text \<open>An \<^verbatim>\<open>int\<close> saturated to 32 bits.\<close>

definition int32FromInt :: "int \<Rightarrow> 32 word" where
  "int32FromInt v =
     (if v > 2 ^ 31 - 1 then word_of_int (2 ^ 31 - 1)
      else if v < - (2 ^ 31 - 1) - 1 then word_of_int (- (2 ^ 31 - 1) - 1)
      else word_of_int v)"

text \<open>Missing identifiers of a chunk are filled in; chunks are counted from 1.\<close>

definition chunk_testID :: "gostring \<Rightarrow> gostring \<Rightarrow> gostring" where
  "chunk_testID default_id raw = (let t = TrimSpace raw in if t = [] then default_id else t)"

definition chunk_name :: "nat \<Rightarrow> gostring \<Rightarrow> gostring" where
  "chunk_name idx raw =
     (let t = TrimSpace raw in if t = [] then ''chunk-'' @ FormatInt (int (idx + 1)) else t)"

definition build_client_chunks :: "gostring \<Rightarrow> clientStreamChunk list \<Rightarrow> clientStreamRequest list" where
  "build_client_chunks default_id chunks =
     map (\<lambda>(idx, c). \<lparr>csq_TestId = chunk_testID default_id (cc_TestID c), csq_ChunkId = chunk_name idx (cc_ChunkID c),
            csq_Payload = cc_Payload c, csq_FinalStatus = cc_FinalStatus c,
            csq_FinalMessage = cc_FinalMessage c\<rparr>) (enumerate 0 chunks)"

definition buildBidiStreamMessages :: "gostring \<Rightarrow> bidiStreamChunk list \<Rightarrow> bidiStreamRequest list" where
  "buildBidiStreamMessages defaultTestID chunks =
     map (\<lambda>(idx, c). \<lparr>bsq_TestId = chunk_testID defaultTestID (bc_TestID c),
            bsq_ChunkId = chunk_name idx (bc_ChunkID c), bsq_Payload = bc_Payload c,
            bsq_CloseAfter = bc_CloseAfter c, bsq_FinalStatus = bc_FinalStatus c,
            bsq_FinalMessage = bc_FinalMessage c\<rparr>) (enumerate 0 chunks)"

end
