(* ===== verification/TraceHandlers.thy ===== *)
theory TraceHandlers
  imports TraceTarget
begin

text \<open>
  The endpoints of the trace target application (\<^verbatim>\<open>trace_handlers.go\<close>).
\<close>

section \<open>Spans\<close>

record spanBuilder =
  spb_traceID :: gostring
  spb_parentSpanID :: gostring
  spb_spanID :: gostring
  spb_name :: gostring
  spb_start :: int
  spb_attrs :: "gostring gomap"

text \<open>\<open>th_clock\<close> is the time at each reading of the clock in a request.\<close>

record traceHandler = serviceEnv +
  th_clock :: "nat \<Rightarrow> int"

definition newSpanBuilder ::
  "traceHandler \<Rightarrow> nat \<Rightarrow> gostring \<Rightarrow> gostring \<Rightarrow> gostring \<Rightarrow> gostring gomap \<Rightarrow> spanBuilder" where
  "newSpanBuilder h k tid parent name attrs =
     \<lparr>spb_traceID = tid, spb_parentSpanID = parent, spb_spanID = se_spanID h k, spb_name = name,
      spb_start = th_clock h k, spb_attrs = attrs\<rparr>"

definition handler_writeSpan ::
  "traceHandler \<Rightarrow> nat \<Rightarrow> spanBuilder option \<Rightarrow> serviceEvent list \<times> gostring option" where
  "handler_writeSpan h k builder =
     (case builder of
        None \<Rightarrow> ([], Some ''span builder is nil'')
      | Some b \<Rightarrow>
          (let batch = span_batch (se_projectID h) (spb_traceID b) (spb_parentSpanID b) (spb_spanID b)
                 (spb_name b) (spb_start b) (th_clock h k) (spb_attrs b)
           in ([WroteSpans batch], map_option (\<lambda>e. ''batch write spans: '' @ e) (se_BatchWriteSpans h batch))))"

text \<open>A span written after the downstream call: a failure is only logged.\<close>

definition finish_span :: "traceHandler \<Rightarrow> nat \<Rightarrow> spanBuilder \<Rightarrow> gostring \<Rightarrow> serviceEvent list" where
  "finish_span h k b message =
     (case handler_writeSpan h k (Some b) of
        (events, None) \<Rightarrow> events
      | (events, Some e) \<Rightarrow> events @ [Logged LevelError message [error_attr e]])"

type_synonym httpAnswer = "int \<times> gostring + traceResponse"

definition bad_request :: "gostring \<Rightarrow> httpAnswer" where
  "bad_request err = Inl (400, err)"

definition trace_text :: "traceHandler \<Rightarrow> SpanContext \<Rightarrow> gostring" where
  "trace_text h sc = TraceID_String (se_otel h) (TraceID_of sc)"

definition span_text :: "traceHandler \<Rightarrow> SpanContext \<Rightarrow> gostring" where
  "span_text h sc = SpanID_String (se_otel h) (SpanID_of sc)"

section \<open>Endpoints\<close>

definition TraceSimple_endpoint ::
  "traceHandler \<Rightarrow> gostring + traceRequest \<Rightarrow> SpanContext \<Rightarrow> serviceEvent list \<times> httpAnswer" where
  "TraceSimple_endpoint h decoded sc =
     (case decodeTraceRequest decoded of
        Inl err \<Rightarrow> ([], bad_request err)
      | Inr traceReq \<Rightarrow>
          if \<not> IsValid (se_otel h) sc then ([], bad_request ''missing or invalid trace context'')
          else
            (let span = newSpanBuilder h 0 (trace_text h sc) (span_text h sc) ''trace.simple''
                   [(''test_id'', tr_TestID traceReq), (''endpoint'', ''/trace/simple'')]
             in case handler_writeSpan h 1 (Some span) of
                  (events, Some e) \<Rightarrow>
                    (events @ [Logged LevelError ''failed to write span'' [error_attr e]],
                     Inl (500, ''failed to write span''))
                | (events, None) \<Rightarrow>
                    (events @
                     [Logged LevelInfo ''Handled trace simple request''
                        [(''test_id'', VString (tr_TestID traceReq)), (''trace_id'', VString (trace_text h sc)),
                         (''span_id'', VString (spb_spanID span))]],
                     Inr \<lparr>tp_Success = True, tp_Message = ''simple trace recorded'', tp_TraceID = trace_text h sc,
                          tp_SpanID = spb_spanID span, tp_Details = []\<rparr>)))"

text \<open>
  What the endpoints with a downstream call share: two spans, the call, the writing of the
  spans, the error of the call, the record of its completion and the answer. \<open>call\<close> returns
  \<open>None\<close> when it never returns; \<open>details\<close> are added to the identifier of the outgoing span;
  \<open>logged\<close> are the attributes added to the record.
\<close>

record 'r downstreamEndpoint =
  de_span :: gostring
  de_path :: gostring
  de_call_span :: gostring
  de_what :: gostring
  de_span_error :: gostring
  de_completed :: gostring
  de_message :: "'r \<Rightarrow> gostring"
  de_details :: "'r \<Rightarrow> gostring gomap"
  de_logged :: "'r \<Rightarrow> slogAttr list"

definition downstream_endpoint ::
  "traceHandler \<Rightarrow> 'r downstreamEndpoint \<Rightarrow> (gostring + 'r) option \<Rightarrow> traceRequest \<Rightarrow> SpanContext
     \<Rightarrow> (serviceEvent list \<times> httpAnswer) option" where
  "downstream_endpoint h de answer traceReq sc =
     (if \<not> IsValid (se_otel h) sc then Some ([], bad_request ''missing or invalid trace context'')
      else
        (let testID = tr_TestID traceReq;
             parentSpan = newSpanBuilder h 0 (trace_text h sc) (span_text h sc) (de_span de)
               [(''test_id'', testID), (''endpoint'', de_path de)];
             outgoingSpan = newSpanBuilder h 1 (trace_text h sc) (spb_spanID parentSpan) (de_call_span de)
               [(''test_id'', testID)]
         in map_option (\<lambda>r.
              let events = finish_span h 2 outgoingSpan (de_span_error de) @
                           finish_span h 3 parentSpan ''failed to write parent span''
              in case r of
                   Inl e \<Rightarrow>
                     (events @ [Logged LevelError (de_what de) [error_attr e]], Inl (502, de_what de))
                 | Inr resp \<Rightarrow>
                     (events @
                      [Logged LevelInfo (de_completed de)
                         ([(''test_id'', VString testID), (''trace_id'', VString (trace_text h sc)),
                           (''span_id'', VString (spb_spanID parentSpan)),
                           (''downstream_span_id'', VString (spb_spanID outgoingSpan))] @ de_logged de resp)],
                      Inr \<lparr>tp_Success = True, tp_Message = de_message de resp, tp_TraceID = trace_text h sc,
                           tp_SpanID = spb_spanID parentSpan,
                           tp_Details = (''downstream_span_id'', spb_spanID outgoingSpan) # de_details de resp\<rparr>))
              answer))"

definition TraceDownstreamHTTP_endpoint ::
  "traceHandler \<Rightarrow> (downstreamHTTPRequest \<Rightarrow> gostring + workResponse) \<Rightarrow> gostring + traceRequest \<Rightarrow> SpanContext
     \<Rightarrow> (serviceEvent list \<times> httpAnswer) option" where
  "TraceDownstreamHTTP_endpoint h invoke decoded sc =
     (case decodeTraceRequest decoded of
        Inl err \<Rightarrow> Some ([], bad_request err)
      | Inr traceReq \<Rightarrow>
          downstream_endpoint h
            \<lparr>de_span = ''trace.downstream.http'', de_path = ''/trace/downstream-http'',
             de_call_span = ''downstream.http.call'', de_what = ''downstream HTTP call failed'',
             de_span_error = ''failed to write downstream HTTP span'',
             de_completed = ''Completed downstream HTTP trace'', de_message = wr_Acknowledgement,
             de_details = (\<lambda>_. []), de_logged = (\<lambda>_. [])\<rparr>
            (Some (invoke \<lparr>dhr_TestID = tr_TestID traceReq, dhr_Message = tr_Message traceReq\<rparr>)) traceReq sc)"

definition TraceDownstreamGRPC_endpoint ::
  "traceHandler \<Rightarrow> (workRequest \<Rightarrow> gostring + workResponse) \<Rightarrow> gostring + traceRequest \<Rightarrow> SpanContext
     \<Rightarrow> (serviceEvent list \<times> httpAnswer) option" where
  "TraceDownstreamGRPC_endpoint h invoke decoded sc =
     (case decodeTraceRequest decoded of
        Inl err \<Rightarrow> Some ([], bad_request err)
      | Inr traceReq \<Rightarrow>
          downstream_endpoint h
            \<lparr>de_span = ''trace.downstream.grpc'', de_path = ''/trace/downstream-grpc'',
             de_call_span = ''downstream.grpc.call'', de_what = ''downstream gRPC call failed'',
             de_span_error = ''failed to write downstream gRPC span'',
             de_completed = ''Completed downstream gRPC trace'', de_message = wr_Acknowledgement,
             de_details = (\<lambda>_. []), de_logged = (\<lambda>_. [])\<rparr>
            (Some (invoke \<lparr>wq_TestID = tr_TestID traceReq, wq_Message = tr_Message traceReq\<rparr>)) traceReq sc)"

text \<open>
  The Pub/Sub endpoint: \<open>encode\<close> is the JSON encoding of the payload, \<open>inject\<close> adds
  the trace attributes, \<open>publish\<close> returns the identifier of the message; no publisher is
  \<open>None\<close>.
\<close>

record pubsubPublisher =
  pp_inject :: "gostring gomap \<Rightarrow> gostring gomap"
  pp_publish :: "gostring \<Rightarrow> gostring gomap \<Rightarrow> gostring + gostring"

definition TraceDownstreamPubSub_endpoint ::
  "traceHandler \<Rightarrow> (workRequest \<Rightarrow> gostring option) \<Rightarrow> pubsubPublisher option \<Rightarrow> gostring + traceRequest
     \<Rightarrow> SpanContext \<Rightarrow> serviceEvent list \<times> httpAnswer" where
  "TraceDownstreamPubSub_endpoint h encode publisher decoded sc =
     (case decodeTraceRequest decoded of
        Inl err \<Rightarrow> ([], bad_request err)
      | Inr traceReq \<Rightarrow>
          (case publisher of
             None \<Rightarrow> ([], Inl (503, ''pubsub publisher not configured''))
           | Some p \<Rightarrow>
               if \<not> IsValid (se_otel h) sc then ([], bad_request ''missing or invalid trace context'')
               else
                 (case encode \<lparr>wq_TestID = tr_TestID traceReq, wq_Message = tr_Message traceReq\<rparr> of
                    None \<Rightarrow> ([], Inl (500, ''failed to encode pubsub payload''))
                  | Some payload \<Rightarrow>
                      (case pp_publish p payload (pp_inject p [(''test_id'', tr_TestID traceReq)]) of
                         Inl e \<Rightarrow>
                           ([Logged LevelError ''pubsub publish failed''
                               [error_attr e, (''test_id'', VString (tr_TestID traceReq))]],
                            Inl (502, ''pubsub publish failed''))
                       | Inr msgID \<Rightarrow>
                           ([Logged LevelInfo ''Published pubsub message''
                               [(''test_id'', VString (tr_TestID traceReq)), (''trace_id'', VString (trace_text h sc)),
                                (''pubsub_message_id'', VString msgID)]],
                            Inr \<lparr>tp_Success = True, tp_Message = ''downstream pubsub published'',
                                 tp_TraceID = trace_text h sc, tp_SpanID = span_text h sc,
                                 tp_Details = [(''pubsub_message_id'', msgID)]\<rparr>)))))"

definition server_stream_details :: "serverStreamResponse list \<Rightarrow> gostring gomap" where
  "server_stream_details responses =
     (''response_count'', FormatInt (int (length responses))) #
     (if responses = [] then []
      else (if sint (ssr_Sequence (last responses)) > 0
            then [(''last_sequence'', FormatInt (sint (ssr_Sequence (last responses))))] else []) @
           (if ssr_Payload (last responses) \<noteq> [] then [(''last_payload'', ssr_Payload (last responses))] else []))"

definition TraceServerStream_endpoint ::
  "traceHandler \<Rightarrow> (serverStreamRequest \<Rightarrow> (gostring + serverStreamResponse list) option)
     \<Rightarrow> gostring + serverStreamTraceRequest \<Rightarrow> SpanContext \<Rightarrow> (serviceEvent list \<times> httpAnswer) option" where
  "TraceServerStream_endpoint h invoke decoded sc =
     (case decodeServerStreamTraceRequest decoded of
        Inl err \<Rightarrow> Some ([], bad_request err)
      | Inr (traceReq, payload) \<Rightarrow>
          downstream_endpoint h
            \<lparr>de_span = ''trace.downstream.grpc.stream_server'', de_path = ''/trace/downstream-grpc/server-stream'',
             de_call_span = ''downstream.grpc.stream_server.call'', de_what = ''downstream gRPC server stream failed'',
             de_span_error = ''failed to write downstream gRPC server stream span'',
             de_completed = ''Completed downstream gRPC server stream'',
             de_message = (\<lambda>_. ''downstream gRPC server stream completed''),
             de_details = server_stream_details,
             de_logged = (\<lambda>responses. [(''responses'', VInt64 (int (length responses)))])\<rparr>
            (invoke \<lparr>ssq_TestId = tr_TestID traceReq, ssq_ResponseCount = int32FromInt (st_ResponseCount payload),
                     ssq_ResponsePayload = st_ResponsePayload payload, ssq_FinalStatus = st_FinalStatus payload,
                     ssq_FinalMessage = st_FinalMessage payload\<rparr>) traceReq sc)"

definition client_stream_details :: "clientStreamResponse \<Rightarrow> gostring gomap" where
  "client_stream_details resp =
     (''received_chunks'', FormatInt (sint (csr_ReceivedChunks resp))) #
     (if csr_Concatenated resp \<noteq> [] then [(''concatenated'', csr_Concatenated resp)] else [])"

definition TraceClientStream_endpoint ::
  "traceHandler \<Rightarrow> (clientStreamRequest option list \<Rightarrow> gostring + clientStreamResponse)
     \<Rightarrow> gostring + clientStreamTraceRequest \<Rightarrow> SpanContext \<Rightarrow> (serviceEvent list \<times> httpAnswer) option" where
  "TraceClientStream_endpoint h invoke decoded sc =
     (case decodeClientStreamTraceRequest decoded of
        Inl err \<Rightarrow> Some ([], bad_request err)
      | Inr (traceReq, payload) \<Rightarrow>
          downstream_endpoint h
            \<lparr>de_span = ''trace.downstream.grpc.stream_client'', de_path = ''/trace/downstream-grpc/client-stream'',
             de_call_span = ''downstream.grpc.stream_client.call'', de_what = ''downstream gRPC client stream failed'',
             de_span_error = ''failed to write downstream gRPC client stream span'',
             de_completed = ''Completed downstream gRPC client stream'',
             de_message = (\<lambda>_. ''downstream gRPC client stream completed''),
             de_details = client_stream_details,
             de_logged = (\<lambda>resp. [(''received_chunks'', VInt64 (sint (csr_ReceivedChunks resp)))])\<rparr>
            (Some (invoke (map Some (build_client_chunks (tr_TestID traceReq) (ct_Chunks payload))))) traceReq sc)"

definition bidi_stream_details :: "bidiStreamResponse list \<Rightarrow> gostring gomap" where
  "bidi_stream_details responses =
     (''response_count'', FormatInt (int (length responses))) #
     (if responses = [] then []
      else (if bsr_ChunkId (last responses) \<noteq> [] then [(''last_chunk_id'', bsr_ChunkId (last responses))] else []) @
           (if bsr_Payload (last responses) \<noteq> [] then [(''last_payload'', bsr_Payload (last responses))] else []))"

definition TraceBidiStream_endpoint ::
  "traceHandler \<Rightarrow> (bidiStreamRequest option list \<Rightarrow> (gostring + bidiStreamResponse list) option)
     \<Rightarrow> gostring + bidiStreamTraceRequest \<Rightarrow> SpanContext \<Rightarrow> (serviceEvent list \<times> httpAnswer) option" where
  "TraceBidiStream_endpoint h invoke decoded sc =
     (case decodeBidiStreamTraceRequest decoded of
        Inl err \<Rightarrow> Some ([], bad_request err)
      | Inr (traceReq, payload) \<Rightarrow>
          downstream_endpoint h
            \<lparr>de_span = ''trace.downstream.grpc.stream_bidi'', de_path = ''/trace/downstream-grpc/bidi-stream'',
             de_call_span = ''downstream.grpc.stream_bidi.call'', de_what = ''downstream gRPC bidi stream failed'',
             de_span_error = ''failed to write downstream gRPC bidi stream span'',
             de_completed = ''Completed downstream gRPC bidi stream'',
             de_message = (\<lambda>_. ''downstream gRPC bidi stream completed''),
             de_details = bidi_stream_details,
             de_logged = (\<lambda>responses. [(''response_count'', VInt64 (int (length responses))),
                                       (''responses'', VInt64 (int (length responses)))])\<rparr>
            (invoke (map Some (buildBidiStreamMessages (tr_TestID traceReq) (bt_Messages payload)))) traceReq sc)"

end
