(* ===== verification/TraceProps.thy ===== *)
theory TraceProps
  imports TraceHandlers
begin

text \<open>
  The trace target application over the downstream worker: what a streaming endpoint reports is
  what was sent. The gRPC runtime between the two is the smallest one that works: a message is
  handled by the worker when it is sent, and answers wait until they are received.
\<close>

section \<open>Words and codes\<close>

lemma sint_int32FromInt: "sint (int32FromInt v) = max (- (2 ^ 31)) (min (2 ^ 31 - 1) v)"
proof -
  have "sint (word_of_int i :: 32 word) = i" if "- (2 ^ 31) \<le> i" "i < 2 ^ 31" for i :: int
    using that by (simp add: sint_sbintrunc' signed_take_bit_int_eq_self)
  then show ?thesis by (auto simp: int32FromInt_def)
qed

lemma sint_of_length: "n < 2 ^ 31 \<Longrightarrow> sint (of_nat n :: 32 word) = int n"
  by (simp add: signed_of_nat signed_take_bit_int_eq_self)

lemma parseStatusCode_known: "parseStatusCode raw \<le> 16"
proof -
  have "c \<le> 16" if "map_of grpcCodeByName s = Some c" for s c
    using that by (auto simp: grpcCodeByName_def split: if_splits)
  moreover have "c \<le> 16" if "map_of grpcCodeByNumber i = Some c" for i c
    using that by (auto simp: grpcCodeByNumber_def split: if_splits)
  ultimately show ?thesis
    by (auto simp: parseStatusCode_def Let_def code_Internal_def code_Unknown_def bind_eq_Some_conv
        split: option.split)
qed

text \<open>A failure asked for with the status OK carries no status: the caller sees the code Unknown.\<close>

lemma fail_with_ok: "snd (FailWork names (Some (''OK'', m))) = PlainError (''fail work status '' @ names 0 @ '': %!w(<nil>)'')"
proof -
  have "parseStatusCode ''OK'' = 0" by code_simp
  then show ?thesis by (simp add: FailWork_def Let_def status_error_def code_OK_def)
qed

section \<open>The worker behind a client\<close>

text \<open>
  A call in progress: the state of the bidirectional call, its answers that were not received,
  how it ended; the chunks of a client stream; the answers and the end of a server stream.
\<close>

record workerStream =
  ws_bidi :: bidiStreamState
  ws_pending :: "bidiStreamResponse list"
  ws_ended :: "workError option option"
  ws_chunks :: "clientStreamRequest list"
  ws_responses :: "serverStreamResponse list"

definition fresh_stream :: workerStream where
  "fresh_stream = \<lparr>ws_bidi = bidi_start, ws_pending = [], ws_ended = None, ws_chunks = [], ws_responses = []\<rparr>"

definition ended_result :: "(workError \<Rightarrow> gostring) \<Rightarrow> workError option \<Rightarrow> 'r recvResult" where
  "ended_result text e = Ended (case e of None \<Rightarrow> StreamEOF | Some err \<Rightarrow> StreamBroken (text err))"

definition worker_send ::
  "(statusCode \<Rightarrow> gostring) \<Rightarrow> bidiStreamRequest \<Rightarrow> workerStream \<Rightarrow> streamErr option \<times> workerStream" where
  "worker_send names m s =
     (case ws_ended s of
        Some _ \<Rightarrow> (Some StreamEOF, s)
      | None \<Rightarrow>
          (case processBidiChunk (\<lambda>_. None) (ws_bidi s) (Some m) of
             (sent, Inl err) \<Rightarrow> (None, s \<lparr> ws_pending := ws_pending s @ sent, ws_ended := Some (Some err) \<rparr>)
           | (sent, Inr (st, closeAfter)) \<Rightarrow>
               (None, s \<lparr> ws_pending := ws_pending s @ sent, ws_bidi := st,
                          ws_ended := (if closeAfter then Some (bidi_finish names st) else None) \<rparr>)))"

definition worker_recv ::
  "(workError \<Rightarrow> gostring) \<Rightarrow> workerStream \<Rightarrow> (bidiStreamResponse recvResult \<times> workerStream) option" where
  "worker_recv text s =
     (case ws_pending s of
        r # rest \<Rightarrow> Some (Got r, s \<lparr> ws_pending := rest \<rparr>)
      | [] \<Rightarrow> map_option (\<lambda>e. (ended_result text e, s)) (ws_ended s))"

definition worker_close ::
  "(statusCode \<Rightarrow> gostring) \<Rightarrow> workerStream \<Rightarrow> streamErr option \<times> workerStream" where
  "worker_close names s =
     (None, if ws_ended s = None then s \<lparr> ws_ended := Some (bidi_finish names (ws_bidi s)) \<rparr> else s)"

definition worker_recv_server ::
  "(workError \<Rightarrow> gostring) \<Rightarrow> workerStream \<Rightarrow> (serverStreamResponse recvResult \<times> workerStream) option" where
  "worker_recv_server text s =
     (case ws_responses s of
        r # rest \<Rightarrow> Some (Got r, s \<lparr> ws_responses := rest \<rparr>)
      | [] \<Rightarrow> map_option (\<lambda>e. (ended_result text e, s)) (ws_ended s))"

definition worker_client ::
  "(statusCode \<Rightarrow> gostring) \<Rightarrow> (workError \<Rightarrow> gostring) \<Rightarrow> (workRequest \<Rightarrow> workError + workResponse)
     \<Rightarrow> workerStream grpcClient" where
  "worker_client names text do_work =
     \<lparr>gc_DoWork = (\<lambda>r. case do_work r of Inl e \<Rightarrow> Inl (text e) | Inr resp \<Rightarrow> Inr resp),
      gc_StreamServer = (\<lambda>r. case StreamServer names (\<lambda>_. None) (Some r) of
        (sent, err) \<Rightarrow> Inr (fresh_stream \<lparr> ws_responses := sent, ws_ended := Some err \<rparr>)),
      gc_RecvServer = worker_recv_server text,
      gc_StreamClient = Inr fresh_stream,
      gc_SendClient = (\<lambda>m s. (None, s \<lparr> ws_chunks := ws_chunks s @ [m] \<rparr>)),
      gc_CloseAndRecv = (\<lambda>s. case StreamClient names (\<lambda>_. None) (map (\<lambda>m. Received (Some m)) (ws_chunks s)) of
        Inl e \<Rightarrow> Inl (text e) | Inr resp \<Rightarrow> Inr resp),
      gc_StreamBidi = Inr fresh_stream,
      gc_SendBidi = worker_send names,
      gc_RecvBidi = worker_recv text,
      gc_CloseSend = worker_close names\<rparr>"

definition worker_clients ::
  "(statusCode \<Rightarrow> gostring) \<Rightarrow> (workError \<Rightarrow> gostring) \<Rightarrow> (workRequest \<Rightarrow> workError + workResponse)
     \<Rightarrow> workerStream downstreamClients" where
  "worker_clients names text do_work =
     \<lparr>dc_HTTPBaseURL = [], dc_HTTPClient = None, dc_GRPCClient = Some (worker_client names text do_work)\<rparr>"

section \<open>Echoing streams\<close>

text \<open>A message of the test that asks for no failure.\<close>

definition passing :: "gostring \<Rightarrow> bool" where
  "passing final_status \<longleftrightarrow> TrimSpace final_status = [] \<or> parseStatusCode (TrimSpace final_status) = code_OK"

definition accepted :: "gostring \<Rightarrow> bidiStreamRequest \<Rightarrow> bool" where
  "accepted tid m \<longleftrightarrow> TrimSpace (bsq_TestId m) = tid \<and> passing (bsq_FinalStatus m)"

definition echo :: "gostring \<Rightarrow> bidiStreamRequest \<Rightarrow> bidiStreamResponse" where
  "echo tid m = \<lparr>bsr_TestId = tid, bsr_ChunkId = bsq_ChunkId m, bsr_Payload = bsq_Payload m\<rparr>"

text \<open>
  The contract of a stream that echoes the messages of a test: a message is answered at once;
  until one asked to close, the next may be sent; then the stream ends without an error.
\<close>

locale echo_stream =
  fixes gc :: "'s grpcClient" and tid :: gostring and open_stream answered :: "'s \<Rightarrow> bool"
  assumes opens: "tid \<noteq> [] \<Longrightarrow> \<exists>s. gc_StreamBidi gc = Inr s \<and> open_stream s"
    and answers: "open_stream s \<Longrightarrow> accepted tid m \<Longrightarrow>
      \<exists>s' s''. gc_SendBidi gc m s = (None, s') \<and> gc_RecvBidi gc s' = Some (Got (echo tid m), s'')
        \<and> answered s'' \<and> (\<not> bsq_CloseAfter m \<longrightarrow> open_stream s'')"
    and ends: "answered s \<Longrightarrow>
      \<exists>s' s''. gc_CloseSend gc s = (None, s') \<and> gc_RecvBidi gc s' = Some (Ended StreamEOF, s'')"

text \<open>The messages of a test: of one identifier, and only the last may ask to close.\<close>

definition test_messages :: "gostring \<Rightarrow> bidiStreamRequest list \<Rightarrow> bool" where
  "test_messages tid ms \<longleftrightarrow> list_all (accepted tid) ms \<and> list_all (\<lambda>m. \<not> bsq_CloseAfter m) (butlast ms)"

context echo_stream
begin

lemma exchange_echoes:
  "open_stream s \<Longrightarrow> test_messages tid ms \<Longrightarrow> ms \<noteq> [] \<Longrightarrow>
   \<exists>s'. exchangeBidiStreamMessages gc (map Some ms) rs s = Some (Inr (rs @ map (echo tid) ms), s') \<and> answered s'"
proof (induction ms arbitrary: rs s)
  case (Cons m ms)
  have m: "accepted tid m" and ms: "test_messages tid ms" and last: "ms \<noteq> [] \<longrightarrow> \<not> bsq_CloseAfter m"
    using Cons.prems(2) by (auto simp: test_messages_def split: if_splits)
  obtain s1 s2 where step: "gc_SendBidi gc m s = (None, s1)" "gc_RecvBidi gc s1 = Some (Got (echo tid m), s2)"
      "answered s2" "\<not> bsq_CloseAfter m \<longrightarrow> open_stream s2"
    using answers [OF Cons.prems(1) m] by blast
  show ?case
  proof (cases "ms = []")
    case True
    then show ?thesis using step by simp
  next
    case False
    then show ?thesis using Cons.IH [of s2 "rs @ [echo tid m]"] ms step last by simp
  qed
qed simp

lemma call_echoes:
  assumes "test_messages tid ms" and "ms \<noteq> []" and "dc_GRPCClient dc = Some gc" and "tid \<noteq> []"
  shows "CallDownstreamGRPCBidiStream (Some dc) (Some (map Some ms)) = Some (Inr (map (echo tid) ms))"
proof -
  obtain s where s: "gc_StreamBidi gc = Inr s" "open_stream s" using opens [OF assms(4)] by blast
  obtain s1 where x: "exchangeBidiStreamMessages gc (map Some ms) [] s = Some (Inr (map (echo tid) ms), s1)"
      "answered s1"
    using exchange_echoes [OF s(2) assms(1,2), of "[]"] by auto
  obtain s2 s3 where e: "gc_CloseSend gc s1 = (None, s2)" "gc_RecvBidi gc s2 = Some (Ended StreamEOF, s3)"
    using ends [OF x(2)] by blast
  have "drainBidiStreamTail gc (map (echo tid) ms) s1 = Some (Inr (map (echo tid) ms))"
    by (simp add: drainBidiStreamTail_def e recv_all.simps)
  then show ?thesis
    using s(1) x(1) assms by (simp add: CallDownstreamGRPCBidiStream_def grpc_client_def)
qed

end

definition worker_open :: "gostring \<Rightarrow> workerStream \<Rightarrow> bool" where
  "worker_open tid s \<longleftrightarrow> tid \<noteq> [] \<and> ws_pending s = [] \<and> ws_ended s = None
     \<and> bst_testID (ws_bidi s) \<in> {[], tid} \<and> bst_finalStatus (ws_bidi s) = code_OK"

definition worker_answered :: "gostring \<Rightarrow> workerStream \<Rightarrow> bool" where
  "worker_answered tid s \<longleftrightarrow> tid \<noteq> [] \<and> ws_pending s = []
     \<and> (ws_ended s = Some None \<or>
        ws_ended s = None \<and> bst_testID (ws_bidi s) = tid \<and> bst_finalStatus (ws_bidi s) = code_OK)"

lemma finish_ok: "tid \<noteq> [] \<Longrightarrow> bst_testID st = tid \<Longrightarrow> bst_finalStatus st = code_OK \<Longrightarrow> bidi_finish names st = None"
  by (simp add: bidi_finish_def)

lemma chunk_accepted:
  assumes "tid \<noteq> []" and "accepted tid m" and "bst_testID st \<in> {[], tid}" and "bst_finalStatus st = code_OK"
  shows "\<exists>st'. processBidiChunk (\<lambda>_. None) st (Some m) = ([echo tid m], Inr (st', bsq_CloseAfter m))
    \<and> bst_testID st' = tid \<and> bst_finalStatus st' = code_OK"
  using assms by (auto simp: processBidiChunk_def accepted_def passing_def echo_def Let_def)

interpretation worker: echo_stream "worker_client names text do_work" tid "worker_open tid" "worker_answered tid"
proof
  assume "tid \<noteq> []"
  then show "\<exists>s. gc_StreamBidi (worker_client names text do_work) = Inr s \<and> worker_open tid s"
    by (simp add: worker_client_def worker_open_def fresh_stream_def bidi_start_def)
next
  fix s m
  assume s: "worker_open tid s" and m: "accepted tid m"
  have tid: "tid \<noteq> []" using s by (simp add: worker_open_def)
  obtain st' where st': "processBidiChunk (\<lambda>_. None) (ws_bidi s) (Some m) = ([echo tid m], Inr (st', bsq_CloseAfter m))"
      "bst_testID st' = tid" "bst_finalStatus st' = code_OK"
    using chunk_accepted [OF tid m] s by (auto simp: worker_open_def)
  show "\<exists>s' s''. gc_SendBidi (worker_client names text do_work) m s = (None, s')
      \<and> gc_RecvBidi (worker_client names text do_work) s' = Some (Got (echo tid m), s'')
      \<and> worker_answered tid s'' \<and> (\<not> bsq_CloseAfter m \<longrightarrow> worker_open tid s'')"
    using s st' finish_ok [OF tid st'(2,3)]
    by (auto simp: worker_client_def worker_send_def worker_recv_def worker_open_def worker_answered_def)
next
  fix s
  assume "worker_answered tid s"
  then show "\<exists>s' s''. gc_CloseSend (worker_client names text do_work) s = (None, s')
      \<and> gc_RecvBidi (worker_client names text do_work) s' = Some (Ended StreamEOF, s'')"
    using finish_ok [of tid]
    by (auto simp: worker_client_def worker_close_def worker_recv_def worker_answered_def ended_result_def)
qed

section \<open>The bidirectional endpoint\<close>

definition test_chunks :: "gostring \<Rightarrow> bidiStreamChunk list \<Rightarrow> bool" where
  "test_chunks tid cs \<longleftrightarrow>
     list_all (\<lambda>c. TrimSpace (bc_TestID c) \<in> {[], tid} \<and> passing (bc_FinalStatus c)) cs \<and>
     list_all (\<lambda>c. \<not> bc_CloseAfter c) (butlast cs)"

lemma decoded_testID:
  assumes "decodeTraceRequest d = Inr t"
  shows "tr_TestID t \<noteq> []" and "TrimSpace (tr_TestID t) = tr_TestID t"
  using assms by (auto simp: decodeTraceRequest_def Let_def TrimSpace_idem split: sum.splits if_splits)

lemma inner_testID: "inner_request r = Inr t \<Longrightarrow> \<exists>d. decodeTraceRequest d = Inr t"
  by (auto simp: inner_request_def split: option.splits)

lemma decoded_bidi:
  assumes "decodeBidiStreamTraceRequest decoded = Inr (t, p)"
  shows "tr_TestID t \<noteq> []" and "TrimSpace (tr_TestID t) = tr_TestID t" and "bt_Messages p \<noteq> []"
  using assms inner_testID decoded_testID
  by (fastforce simp: decodeBidiStreamTraceRequest_def split: sum.splits if_splits)+

lemma decoded_client:
  assumes "decodeClientStreamTraceRequest decoded = Inr (t, p)"
  shows "tr_TestID t \<noteq> []" and "TrimSpace (tr_TestID t) = tr_TestID t" and "ct_Chunks p \<noteq> []"
  using assms inner_testID decoded_testID
  by (fastforce simp: decodeClientStreamTraceRequest_def split: sum.splits if_splits)+

lemma chunk_testID_given:
  "TrimSpace raw \<in> {[], tid} \<Longrightarrow> TrimSpace tid = tid \<Longrightarrow> TrimSpace (chunk_testID tid raw) = tid"
  by (auto simp: chunk_testID_def Let_def)

lemma built_nth:
  "i < length cs \<Longrightarrow> buildBidiStreamMessages tid cs ! i =
     \<lparr>bsq_TestId = chunk_testID tid (bc_TestID (cs ! i)), bsq_ChunkId = chunk_name i (bc_ChunkID (cs ! i)),
      bsq_Payload = bc_Payload (cs ! i), bsq_CloseAfter = bc_CloseAfter (cs ! i),
      bsq_FinalStatus = bc_FinalStatus (cs ! i), bsq_FinalMessage = bc_FinalMessage (cs ! i)\<rparr>"
  by (simp add: buildBidiStreamMessages_def nth_enumerate_eq)

lemma built_length [simp]: "length (buildBidiStreamMessages tid cs) = length cs"
  by (simp add: buildBidiStreamMessages_def)

lemma built_messages:
  assumes "test_chunks tid cs" and "TrimSpace tid = tid"
  shows "test_messages tid (buildBidiStreamMessages tid cs)"
proof -
  have "accepted tid (buildBidiStreamMessages tid cs ! i)" if "i < length cs" for i
    using assms that chunk_testID_given [OF _ assms(2)]
    by (auto simp: built_nth accepted_def test_chunks_def list_all_length)
  moreover have "\<not> bsq_CloseAfter (butlast (buildBidiStreamMessages tid cs) ! i)" if "i < length cs - 1" for i
    using assms(1) that by (auto simp: built_nth nth_butlast test_chunks_def list_all_length)
  ultimately show ?thesis by (simp add: test_messages_def list_all_length)
qed

lemma built_not_Nil: "cs \<noteq> [] \<Longrightarrow> buildBidiStreamMessages tid cs \<noteq> []"
  by (metis built_length length_0_conv)

lemma chunk_name_not_Nil: "chunk_name i raw \<noteq> []"
  by (simp add: chunk_name_def Let_def)

lemma last_echo:
  assumes "cs \<noteq> []"
  shows "last (map (echo tid) (buildBidiStreamMessages tid cs)) =
    \<lparr>bsr_TestId = tid, bsr_ChunkId = chunk_name (length cs - 1) (bc_ChunkID (last cs)),
     bsr_Payload = bc_Payload (last cs)\<rparr>"
proof -
  have ne: "buildBidiStreamMessages tid cs \<noteq> []" by (rule built_not_Nil [OF assms])
  have "length cs - 1 < length cs" using assms by (cases cs) auto
  then show ?thesis
    using ne assms by (simp add: last_map last_conv_nth built_nth echo_def)
qed

lemma endpoint_answers:
  assumes "IsValid (se_otel h) sc"
  shows "\<exists>events. downstream_endpoint h de (Some (Inr resp)) t sc = Some (events, Inr
      \<lparr>tp_Success = True, tp_Message = de_message de resp, tp_TraceID = trace_text h sc,
       tp_SpanID = se_spanID h 0,
       tp_Details = (''downstream_span_id'', se_spanID h 1) # de_details de resp\<rparr>)"
  using assms by (simp add: downstream_endpoint_def Let_def newSpanBuilder_def)

lemma endpoint_answers_as:
  assumes "IsValid (se_otel h) sc" and "de_message de resp = msg" and "de_details de resp = det"
  shows "\<exists>events. downstream_endpoint h de (Some (Inr resp)) t sc = Some (events, Inr
      \<lparr>tp_Success = True, tp_Message = msg, tp_TraceID = trace_text h sc, tp_SpanID = se_spanID h 0,
       tp_Details = (''downstream_span_id'', se_spanID h 1) # det\<rparr>)"
  using endpoint_answers [OF assms(1), of de resp t] assms(2,3) by simp


definition demo_handler :: traceHandler where
  "demo_handler = \<lparr>se_projectID = ''my-project'', se_BatchWriteSpans = (\<lambda>_. None), se_now = 0,
     se_spanID = (\<lambda>k. FormatInt (int k)), se_otel = w3c, th_clock = int\<rparr>"

definition demo_span :: SpanContext where
  "demo_span = \<lparr>TraceID_of = 0xABC, SpanID_of = 0x4A, TraceFlags = 1, Remote = True\<rparr>"

definition demo_trace_request :: traceRequest where
  "demo_trace_request = \<lparr>tr_TestID = ''t1'', tr_Message = ''hello''\<rparr>"

definition demo_bidi_request :: bidiStreamTraceRequest where
  "demo_bidi_request = \<lparr>bt_TraceRequest = Some demo_trace_request, bt_Messages =
     [\<lparr>bc_TestID = [], bc_ChunkID = ''a'', bc_Payload = ''one'', bc_CloseAfter = False,
       bc_FinalStatus = [], bc_FinalMessage = []\<rparr>,
      \<lparr>bc_TestID = ''t1'', bc_ChunkID = [], bc_Payload = ''two'', bc_CloseAfter = True,
       bc_FinalStatus = ''OK'', bc_FinalMessage = []\<rparr>]\<rparr>"

lemma demo_span_valid: "IsValid (se_otel demo_handler) demo_span"
  by (simp add: demo_handler_def demo_span_def w3c_def)


section \<open>The client stream endpoint\<close>

definition plain_chunk :: "gostring \<Rightarrow> clientStreamRequest \<Rightarrow> bool" where
  "plain_chunk tid c \<longleftrightarrow> TrimSpace (csq_TestId c) = tid \<and> passing (csq_FinalStatus c)"

lemma apply_plain:
  assumes "plain_chunk tid c" and "tid \<noteq> []" and "cst_testID st \<in> {[], tid}" and "cst_finalStatus st = code_OK"
  shows "\<exists>st'. applyClientStreamChunk st (Some c) = Inr st' \<and> cst_testID st' = tid \<and> cst_finalStatus st' = code_OK
    \<and> cst_builder st' = cst_builder st @ csq_Payload c \<and> cst_received st' = cst_received st + 1"
  using assms by (auto simp: applyClientStreamChunk_def plain_chunk_def passing_def Let_def)

lemma receive_plain:
  assumes "tid \<noteq> []"
  shows "list_all (plain_chunk tid) cs \<Longrightarrow> cst_testID st \<in> {[], tid} \<Longrightarrow> cst_finalStatus st = code_OK \<Longrightarrow>
    \<exists>st'. receive_chunks st (map (\<lambda>m. Received (Some m)) cs) = Inr st' \<and> cst_finalStatus st' = code_OK
      \<and> cst_testID st' = (if cs = [] then cst_testID st else tid)
      \<and> cst_builder st' = cst_builder st @ concat (map csq_Payload cs)
      \<and> cst_received st' = cst_received st + of_nat (length cs)"
proof (induction cs arbitrary: st)
  case (Cons c cs)
  have "plain_chunk tid c" using Cons.prems(1) by simp
  then obtain st1 where 1: "applyClientStreamChunk st (Some c) = Inr st1" "cst_testID st1 = tid"
      "cst_finalStatus st1 = code_OK" "cst_builder st1 = cst_builder st @ csq_Payload c"
      "cst_received st1 = cst_received st + 1"
    using apply_plain assms Cons.prems by blast
  then show ?case using Cons.IH [of st1] Cons.prems(1) by (auto simp: algebra_simps)
qed simp

lemma sent_chunks:
  "send_chunks (\<lambda>m s. (None, s \<lparr> ws_chunks := ws_chunks s @ [m] \<rparr>)) failed (map Some cs) s
     = Inr (s \<lparr> ws_chunks := ws_chunks s @ cs \<rparr>)"
  by (induction cs arbitrary: s) simp_all

definition plain_chunks :: "gostring \<Rightarrow> clientStreamChunk list \<Rightarrow> bool" where
  "plain_chunks tid cs \<longleftrightarrow>
     list_all (\<lambda>c. TrimSpace (cc_TestID c) \<in> {[], tid} \<and> passing (cc_FinalStatus c)) cs"

lemma built_chunks:
  assumes "plain_chunks tid cs" and "TrimSpace tid = tid"
  shows "list_all (plain_chunk tid) (build_client_chunks tid cs)"
  using assms chunk_testID_given [OF _ assms(2)]
  by (auto simp: list_all_length plain_chunk_def build_client_chunks_def plain_chunks_def nth_enumerate_eq)

lemma built_payloads: "concat (map csq_Payload (build_client_chunks tid cs)) = concat (map cc_Payload cs)"
proof -
  have "map csq_Payload (build_client_chunks tid cs) = map cc_Payload cs"
    by (rule nth_equalityI) (simp_all add: build_client_chunks_def nth_enumerate_eq)
  then show ?thesis by simp
qed

text \<open>A call with chunks of one test that ask for no failure: they are counted and joined.\<close>

lemma client_call_joins:
  assumes "list_all (plain_chunk tid) cs" and "cs \<noteq> []" and "tid \<noteq> []"
  shows "CallDownstreamGRPCClientStream (Some (worker_clients names text do_work)) (Some (map Some cs))
    = Inr \<lparr>csr_TestId = tid, csr_ReceivedChunks = of_nat (length cs),
           csr_Concatenated = concat (map csq_Payload cs)\<rparr>"
proof -
  define st0 where "st0 = \<lparr>cst_testID = [], cst_received = 0, cst_builder = [], cst_finalStatus = code_OK,
      cst_finalMessage = []\<rparr>"
  obtain st where st: "receive_chunks st0 (map (\<lambda>m. Received (Some m)) cs) = Inr st" "cst_testID st = tid"
      "cst_finalStatus st = code_OK" "cst_builder st = concat (map csq_Payload cs)"
      "cst_received st = of_nat (length cs)"
    using receive_plain [OF assms(3,1), of st0] assms(2) by (auto simp: st0_def)
  have "StreamClient names (\<lambda>_. None) (map (\<lambda>m. Received (Some m)) cs)
      = Inr \<lparr>csr_TestId = tid, csr_ReceivedChunks = of_nat (length cs),
           csr_Concatenated = concat (map csq_Payload cs)\<rparr>"
    using st assms(3) by (simp add: StreamClient_def st0_def [symmetric] Let_def)
  then show ?thesis
    using assms(2) by (simp add: CallDownstreamGRPCClientStream_def grpc_client_def worker_clients_def
        worker_client_def sent_chunks fresh_stream_def)
qed

text \<open>
  The client stream endpoint over the worker reports the number of chunks it was given and
  their payloads joined in order, nothing lost and nothing twice.
\<close>

theorem client_stream_endpoint_joins:
  assumes "decodeClientStreamTraceRequest decoded = Inr (t, p)" and "IsValid (se_otel h) sc"
    and "plain_chunks (tr_TestID t) (ct_Chunks p)" and "length (ct_Chunks p) < 2 ^ 31"
  shows "\<exists>events resp. TraceClientStream_endpoint h
      (\<lambda>cs. CallDownstreamGRPCClientStream (Some (worker_clients names text do_work)) (Some cs)) decoded sc
      = Some (events, Inr resp)
    \<and> tp_Success resp \<and> tp_TraceID resp = trace_text h sc
    \<and> map_of (tp_Details resp) ''received_chunks'' = Some (FormatInt (int (length (ct_Chunks p))))
    \<and> (case map_of (tp_Details resp) ''concatenated'' of Some x \<Rightarrow> x | None \<Rightarrow> [])
        = concat (map cc_Payload (ct_Chunks p))"
proof -
  note dec = decoded_client [OF assms(1)]
  define tid where "tid = tr_TestID t"
  define cs where "cs = build_client_chunks tid (ct_Chunks p)"
  have ne: "cs \<noteq> []" and len: "length cs = length (ct_Chunks p)"
    using dec(3) by (simp_all add: cs_def build_client_chunks_def enumerate_eq_zip)
  have plain: "list_all (plain_chunk tid) cs"
    unfolding cs_def by (rule built_chunks) (use assms(3) dec(2) in \<open>simp_all add: tid_def\<close>)
  define resp where "resp = \<lparr>csr_TestId = tid, csr_ReceivedChunks = of_nat (length cs),
      csr_Concatenated = concat (map csq_Payload cs)\<rparr>"
  have call: "CallDownstreamGRPCClientStream (Some (worker_clients names text do_work)) (Some (map Some cs))
      = Inr resp"
    unfolding resp_def by (rule client_call_joins [OF plain ne]) (use dec(1) in \<open>simp add: tid_def\<close>)
  have count: "sint (csr_ReceivedChunks resp) = int (length (ct_Chunks p))"
    using assms(4) len by (simp add: resp_def sint_of_length)
  have joined: "csr_Concatenated resp = concat (map cc_Payload (ct_Chunks p))"
    by (simp add: resp_def cs_def built_payloads)
  have details: "map_of (client_stream_details resp) ''received_chunks'' = Some (FormatInt (int (length (ct_Chunks p))))"
    "(case map_of (client_stream_details resp) ''concatenated'' of Some x \<Rightarrow> x | None \<Rightarrow> [])
       = concat (map cc_Payload (ct_Chunks p))"
    by (simp_all add: client_stream_details_def count joined)
  have reached: "\<exists>events. TraceClientStream_endpoint h
      (\<lambda>cs. CallDownstreamGRPCClientStream (Some (worker_clients names text do_work)) (Some cs)) decoded sc
      = Some (events, Inr
         \<lparr>tp_Success = True, tp_Message = ''downstream gRPC client stream completed'', tp_TraceID = trace_text h sc,
          tp_SpanID = se_spanID h 0,
          tp_Details = (''downstream_span_id'', se_spanID h 1) # client_stream_details resp\<rparr>)"
    unfolding TraceClientStream_endpoint_def assms(1) sum.case prod.case tid_def [symmetric] cs_def [symmetric] call
    by (rule endpoint_answers_as [OF assms(2)]) simp_all
  have other: "map_of ((''downstream_span_id'', x) # rest) ''received_chunks'' = map_of rest ''received_chunks''"
    "map_of ((''downstream_span_id'', x) # rest) ''concatenated'' = map_of rest ''concatenated''" for x and rest :: "gostring gomap"
    by simp_all
  show ?thesis
    using reached details by (fastforce simp del: map_of.simps simp: other)
qed

definition demo_client_request :: clientStreamTraceRequest where
  "demo_client_request = \<lparr>ct_TraceRequest = Some demo_trace_request, ct_Chunks =
     [\<lparr>cc_TestID = [], cc_ChunkID = ''a'', cc_Payload = ''one'', cc_FinalStatus = [], cc_FinalMessage = []\<rparr>,
      \<lparr>cc_TestID = ''t1'', cc_ChunkID = [], cc_Payload = ''two'', cc_FinalStatus = ''OK'', cc_FinalMessage = []\<rparr>]\<rparr>"

theorem client_stream_endpoint_joins_witness:
  "\<exists>events resp. TraceClientStream_endpoint demo_handler
      (\<lambda>cs. CallDownstreamGRPCClientStream (Some (worker_clients (\<lambda>_. ''OK'') (\<lambda>_. ''failed'') (\<lambda>_. Inl (PlainError []))))
        (Some cs)) (Inr demo_client_request) demo_span
      = Some (events, Inr resp)
    \<and> (case map_of (tp_Details resp) ''concatenated'' of Some x \<Rightarrow> x | None \<Rightarrow> []) = ''onetwo''"
proof -
  have 1: "decodeClientStreamTraceRequest (Inr demo_client_request) = Inr (demo_trace_request, demo_client_request)"
    by code_simp
  have 2: "plain_chunks (tr_TestID demo_trace_request) (ct_Chunks demo_client_request)" by code_simp
  have 3: "length (ct_Chunks demo_client_request) < 2 ^ 31"
    "concat (map cc_Payload (ct_Chunks demo_client_request)) = ''onetwo''"
    by (simp_all add: demo_client_request_def)
  show ?thesis
    using client_stream_endpoint_joins [OF 1 demo_span_valid 2 3(1),
      of "\<lambda>_. ''OK''" "\<lambda>_. ''failed''" "\<lambda>_. Inl (PlainError [])"] 3(2)
    by fastforce
qed

end
