(* ===== verification/CoreTarget.thy ===== *)
theory CoreTarget
  imports HarnessEntry HttpProps
begin

text \<open>
  The core logging target application (\<^verbatim>\<open>handlers/core_logging.go\<close>). A handler is a
  function of its request; its result is what it did, in order: records logged, calls on the
  response writer, pauses. The calls on the response writer are those the HTTP middleware records.
\<close>

section \<open>Requests, responses and effects\<close>

record Operation =
  op_ID :: gostring
  op_Producer :: gostring
  op_First :: bool
  op_Last :: bool

text \<open>\<open>lq_Attributes\<close> is the decoded JSON object; a missing map is empty.\<close>

record logRequest =
  lq_Message :: gostring
  lq_TestID :: gostring
  lq_Attributes :: "goany gomap"
  lq_Labels :: "gostring gomap"
  lq_Operation :: "Operation option"

record logResponse =
  lp_Success :: bool
  lp_Message :: gostring
  lp_Severity :: gostring
  lp_Timestamp :: gostring
  lp_Metadata :: "gostring gomap"

record coreLoggingHandler =
  ch_logger :: logger
  ch_defaultSeverityLogger :: logger

definition NewCoreLoggingHandler :: "logger \<Rightarrow> logger option \<Rightarrow> coreLoggingHandler" where
  "NewCoreLoggingHandler l d =
     \<lparr>ch_logger = l, ch_defaultSeverityLogger = (case d of None \<Rightarrow> l | Some x \<Rightarrow> x)\<rparr>"

text \<open>
  What a handler does. A body is written with the error of the writer, if any; \<open>Refused\<close> is
  \<^verbatim>\<open>http.Error\<close>; \<open>DefaultWarned\<close> goes to the default logger of the process.
\<close>

datatype targetEvent =
    Recorded logger level gostring "slogAttr list"
  | HeaderSet gostring gostring
  | HeaderWritten int
  | BodyWritten gostring "gostring option"
  | Refused int gostring
  | Slept int
  | DefaultWarned gostring "slogAttr list"
  | Panicked gostring

text \<open>
  What a handler is given: the request, what decoding its body returns and what closing it
  returns, the scope of the middleware, the error a body write ends with, JSON encoding, the
  formatted time, the clock when a payload is built, the bytes of a raw body, query parameters.
\<close>

record coreRequest =
  cr_request :: goRequest
  cr_decoded :: "gostring + logRequest"
  cr_closeErr :: "gostring option"
  cr_scope :: "RequestScope option"
  cr_writeErr :: "gostring option"
  cr_marshal :: "logResponse \<Rightarrow> gostring + gostring"
  cr_timestamp :: gostring
  cr_now :: int
  cr_lib :: golib
  cr_harnesslib :: harnesslib
  cr_body :: "gostring + gostring"
  cr_queryParam :: "gostring \<Rightarrow> gostring"

definition err_attr :: "gostring \<Rightarrow> slogAttr" where
  "err_attr e = (''error'', VAny (GError (errorString e)))"

definition str :: "gostring \<Rightarrow> gostring \<Rightarrow> slogAttr" where
  "str k v = (k, VString v)"

text \<open>The body is closed after the answer to a malformed request was sent.\<close>

definition decodeLogRequest :: "coreRequest \<Rightarrow> targetEvent list \<times> (gostring + logRequest)" where
  "decodeLogRequest rq =
     (let closed = (case cr_closeErr rq of None \<Rightarrow> []
                    | Some e \<Rightarrow> [DefaultWarned ''Failed to close request body'' [err_attr e]])
      in case cr_decoded rq of
           Inl e \<Rightarrow>
             (Refused 400 ''Failed to decode request body'' # closed, Inl (''decode log request body: '' @ e))
         | Inr q \<Rightarrow>
             if lq_TestID q = []
             then (Refused 400 (''Missing '' @ [CHR 0x27] @ ''test_id'' @ [CHR 0x27] @ '' in request body'') # closed,
                   Inl (''missing '' @ [CHR 0x27] @ ''test_id'' @ [CHR 0x27] @ '' in request body''))
             else (closed, Inr q))"

definition respondJSON :: "coreRequest \<Rightarrow> logResponse \<Rightarrow> targetEvent list" where
  "respondJSON rq data =
     [HeaderSet ''Content-Type'' ''application/json'', HeaderWritten 200] @
     (case cr_marshal rq data of
        Inl e \<Rightarrow> [Refused 500 e]
      | Inr bytes \<Rightarrow>
          BodyWritten (bytes @ [CHR 0x0A]) (cr_writeErr rq) #
          (case cr_writeErr rq of None \<Rightarrow> [] | Some e \<Rightarrow> [Refused 500 e]))"

text \<open>What every endpoint does first: decode, or warn and stop.\<close>

definition with_request ::
  "coreLoggingHandler \<Rightarrow> gostring \<Rightarrow> coreRequest \<Rightarrow> (logRequest \<Rightarrow> targetEvent list) \<Rightarrow> targetEvent list" where
  "with_request h name rq rest =
     (case decodeLogRequest rq of
        (events, Inl e) \<Rightarrow>
          events @ [Recorded (ch_logger h) LevelWarn (''Failed to decode '' @ name @ '' request'') [err_attr e]]
      | (events, Inr q) \<Rightarrow> events @ rest q)"

definition log_response :: "coreRequest \<Rightarrow> gostring \<Rightarrow> gostring gomap \<Rightarrow> logResponse" where
  "log_response rq message metadata =
     \<lparr>lp_Success = True, lp_Message = message, lp_Severity = ''INFO'', lp_Timestamp = cr_timestamp rq,
      lp_Metadata = metadata\<rparr>"

section \<open>The severity endpoints\<close>

definition severity_attrs :: "gostring \<Rightarrow> coreRequest \<Rightarrow> logRequest \<Rightarrow> slogAttr list" where
  "severity_attrs endpoint rq q =
     [str ''test_id'' (lq_TestID q), str ''endpoint'' endpoint, str ''method'' (req_Method (cr_request rq))]"

definition severity_endpoint ::
  "gostring \<Rightarrow> gostring \<Rightarrow> level \<Rightarrow> slogAttr list \<Rightarrow> coreLoggingHandler \<Rightarrow> coreRequest \<Rightarrow> targetEvent list" where
  "severity_endpoint name endpoint level extra h rq =
     with_request h name rq (\<lambda>q.
       Recorded (ch_logger h) level (lq_Message q) (severity_attrs endpoint rq q @ extra) #
       respondJSON rq (log_response rq (lq_Message q) []))"

text \<open>The information record before the DEFAULT one is meant to be filtered by the logger's level.\<close>

definition LogDefault_endpoint :: "coreLoggingHandler \<Rightarrow> coreRequest \<Rightarrow> targetEvent list" where
  "LogDefault_endpoint h rq =
     with_request h ''LogDefault'' rq (\<lambda>q.
       [Recorded (ch_defaultSeverityLogger h) LevelInfo ''DEFAULT severity preflight info''
          (severity_attrs ''/log/default'' rq q @ [(''filtered'', VBool True)]),
        Recorded (ch_defaultSeverityLogger h) LevelDefault (lq_Message q) (severity_attrs ''/log/default'' rq q)] @
       respondJSON rq ((log_response rq (lq_Message q) []) \<lparr> lp_Severity := ''DEFAULT'' \<rparr>))"

definition LogDebug_endpoint :: "coreLoggingHandler \<Rightarrow> coreRequest \<Rightarrow> targetEvent list" where
  "LogDebug_endpoint = severity_endpoint ''LogDebug'' ''/log/debug'' LevelDebug []"

definition LogInfo_endpoint :: "coreLoggingHandler \<Rightarrow> coreRequest \<Rightarrow> targetEvent list" where
  "LogInfo_endpoint = severity_endpoint ''LogInfo'' ''/log/info'' LevelInfo []"

definition LogNotice_endpoint :: "coreLoggingHandler \<Rightarrow> coreRequest \<Rightarrow> targetEvent list" where
  "LogNotice_endpoint = severity_endpoint ''LogNotice'' ''/log/notice'' LevelNotice []"

definition LogWarning_endpoint :: "coreLoggingHandler \<Rightarrow> coreRequest \<Rightarrow> targetEvent list" where
  "LogWarning_endpoint = severity_endpoint ''LogWarning'' ''/log/warning'' LevelWarn []"

definition LogError_endpoint :: "coreLoggingHandler \<Rightarrow> coreRequest \<Rightarrow> targetEvent list" where
  "LogError_endpoint =
     severity_endpoint ''LogError'' ''/log/error'' LevelError [err_attr ''test error for severity ERROR'']"

definition LogCritical_endpoint :: "coreLoggingHandler \<Rightarrow> coreRequest \<Rightarrow> targetEvent list" where
  "LogCritical_endpoint = severity_endpoint ''LogCritical'' ''/log/critical'' LevelCritical []"

definition LogAlert_endpoint :: "coreLoggingHandler \<Rightarrow> coreRequest \<Rightarrow> targetEvent list" where
  "LogAlert_endpoint = severity_endpoint ''LogAlert'' ''/log/alert'' LevelAlert []"

definition LogEmergency_endpoint :: "coreLoggingHandler \<Rightarrow> coreRequest \<Rightarrow> targetEvent list" where
  "LogEmergency_endpoint = severity_endpoint ''LogEmergency'' ''/log/emergency'' LevelEmergency []"

section \<open>Structured payloads, operations, labels\<close>

definition structured_endpoint ::
  "gostring \<Rightarrow> gostring \<Rightarrow> gostring \<Rightarrow> gostring \<Rightarrow> coreLoggingHandler \<Rightarrow> coreRequest \<Rightarrow> targetEvent list" where
  "structured_endpoint name endpoint created type h rq =
     with_request h name rq (\<lambda>q.
       Recorded (ch_logger h) LevelInfo (lq_Message q)
         [str ''test_id'' (lq_TestID q), str ''endpoint'' endpoint,
          (''attributes'', VAny (GMap (lq_Attributes q)))] #
       respondJSON rq (log_response rq created [(''type'', type)]))"

definition LogStructured_endpoint :: "coreLoggingHandler \<Rightarrow> coreRequest \<Rightarrow> targetEvent list" where
  "LogStructured_endpoint =
     structured_endpoint ''LogStructured'' ''/log/structured'' ''Structured log created'' ''structured''"

definition LogNested_endpoint :: "coreLoggingHandler \<Rightarrow> coreRequest \<Rightarrow> targetEvent list" where
  "LogNested_endpoint = structured_endpoint ''LogNested'' ''/log/nested'' ''Nested log created'' ''nested''"

definition LogWithOperation_endpoint :: "coreLoggingHandler \<Rightarrow> coreRequest \<Rightarrow> targetEvent list" where
  "LogWithOperation_endpoint h rq =
     with_request h ''LogWithOperation'' rq (\<lambda>q.
       case lq_Operation q of
         None \<Rightarrow>
           [Refused 400 (''Missing '' @ [CHR 0x27] @ ''operation'' @ [CHR 0x27] @ '' in request body''),
            Recorded (ch_logger h) LevelWarn ''Operation grouping request missing operation data''
              [str ''test_id'' (lq_TestID q), str ''endpoint'' ''/log/operation'']]
       | Some op \<Rightarrow>
           (let opID = (if op_ID op = [] then lq_TestID q else op_ID op)
            in Recorded (ch_logger h) LevelInfo (lq_Message q)
                 [str ''test_id'' (lq_TestID q), str ''endpoint'' ''/log/operation'',
                  (''logging.googleapis.com/operation'',
                   VGroup [str ''id'' opID, str ''producer'' (op_Producer op),
                           (''first'', VBool (op_First op)), (''last'', VBool (op_Last op))])] #
               respondJSON rq (log_response rq ''Log with operation metadata created'' [(''operation_id'', opID)])))"

text \<open>The labels in the order in which ranging over the map delivers them.\<close>

definition LogWithLabels_endpoint :: "coreLoggingHandler \<Rightarrow> coreRequest \<Rightarrow> targetEvent list" where
  "LogWithLabels_endpoint h rq =
     with_request h ''LogWithLabels'' rq (\<lambda>q.
       let labelAttrs = map (\<lambda>(k, v). str k v) (lq_Labels q)
       in Recorded (ch_logger h) LevelInfo (lq_Message q)
            ([str ''test_id'' (lq_TestID q), str ''endpoint'' ''/log/labels''] @
             (if labelAttrs \<noteq> [] then [(LabelsGroup, VGroup labelAttrs)] else [])) #
          respondJSON rq (log_response rq ''Log with labels created'' [(''type'', ''labels'')]))"

section \<open>Request payloads\<close>

definition core_buildRequestURLFromScope :: "RequestScope option \<Rightarrow> gostring" where
  "core_buildRequestURLFromScope scope =
     (case scope of
        None \<Rightarrow> []
      | Some rs \<Rightarrow>
          (let scheme = TrimSpace (sc_scheme rs); host = TrimSpace (sc_host rs)
           in (if scheme \<noteq> [] \<and> host \<noteq> [] then scheme @ ''://'' @ host else []) @ sc_target rs @
              (if sc_query rs \<noteq> [] then ''?'' @ sc_query rs else [])))"

definition requestURLForLogging :: "golib \<Rightarrow> goRequest option \<Rightarrow> RequestScope option \<Rightarrow> gostring" where
  "requestURLForLogging lib r scope =
     (let url = core_buildRequestURLFromScope scope
      in if url \<noteq> [] then url
         else (case Option.bind r req_URL of
                 None \<Rightarrow> []
               | Some u \<Rightarrow>
                   if url_Scheme u \<noteq> [] then URL_String lib u
                   else (case r of
                           Some q \<Rightarrow>
                             if req_Host q \<noteq> []
                             then (if req_TLS q then ''https'' else ''http'') @ ''://'' @ req_Host q @ URL_String lib u
                             else URL_String lib u
                         | None \<Rightarrow> [])))"

definition applyScopeIdentity :: "RequestScope \<Rightarrow> HTTPRequest \<Rightarrow> HTTPRequest" where
  "applyScopeIdentity rs req =
     (let req = (if sc_method rs \<noteq> [] then req \<lparr> RequestMethod := sc_method rs \<rparr> else req);
          url = core_buildRequestURLFromScope (Some rs);
          req = (if url \<noteq> [] then req \<lparr> RequestURL := url \<rparr> else req);
          req = (if RemoteIP req = [] then req \<lparr> RemoteIP := sc_clientIP rs \<rparr> else req)
      in if UserAgent req = [] then req \<lparr> UserAgent := sc_userAgent rs \<rparr> else req)"

definition applyScopeSizing :: "RequestScope \<Rightarrow> HTTPRequest \<Rightarrow> HTTPRequest" where
  "applyScopeSizing rs req =
     (let req = (if RequestSize req = 0 then req \<lparr> RequestSize := sc_requestSize rs \<rparr> else req)
      in if ResponseSize req = 0 then req \<lparr> ResponseSize := sc_respBytes rs \<rparr> else req)"

definition applyScopeStatusAndLatency :: "int \<Rightarrow> RequestScope \<Rightarrow> HTTPRequest \<Rightarrow> HTTPRequest" where
  "applyScopeStatusAndLatency now rs req =
     (let req = (if Status req = 0 then req \<lparr> Status := Status_of rs \<rparr> else req);
          latency = now - sc_start rs
      in if latency \<ge> 0 then req \<lparr> Latency := latency \<rparr> else req)"

definition applyScopeToHTTPRequest :: "int \<Rightarrow> RequestScope option \<Rightarrow> HTTPRequest \<Rightarrow> HTTPRequest" where
  "applyScopeToHTTPRequest now scope req =
     (case scope of
        None \<Rightarrow> req
      | Some rs \<Rightarrow> applyScopeStatusAndLatency now rs (applyScopeSizing rs (applyScopeIdentity rs req)))"

definition buildHTTPRequestPayload ::
  "golib \<Rightarrow> int \<Rightarrow> goRequest option \<Rightarrow> RequestScope option \<Rightarrow> int \<Rightarrow> int \<Rightarrow> HTTPRequest" where
  "buildHTTPRequestPayload lib now r scope status responseSize =
     (let req = (case HTTPRequestFromRequest lib r of None \<Rightarrow> zero_HTTPRequest | Some q \<Rightarrow> q);
          req = applyScopeToHTTPRequest now scope req;
          req = (if status > 0 then req \<lparr> Status := status \<rparr> else req);
          req = (if responseSize > 0 then req \<lparr> ResponseSize := responseSize \<rparr> else req)
      in PrepareHTTPRequest lib req)"

text \<open>The calls the response recorder of the middleware sees.\<close>

fun writer_calls :: "targetEvent \<Rightarrow> handler_call list" where
  "writer_calls (HeaderWritten status) = [CallHeader status]"
| "writer_calls (BodyWritten bytes None) = [CallWrite (int (length bytes)) None]"
| "writer_calls (BodyWritten bytes (Some e)) = [CallWrite 0 (Some e)]"
| "writer_calls (Refused status text) = [CallHeader status, CallWrite (int (length text) + 1) None]"
| "writer_calls _ = []"

text \<open>The scope, which the recorder updates, after some events.\<close>

definition scope_after :: "targetEvent list \<Rightarrow> RequestScope \<Rightarrow> RequestScope" where
  "scope_after events rs = rr_scope (fold handler_step (concat (map writer_calls events)) (wrapResponseWriter rs))"

definition LogHTTPRequest_endpoint :: "coreLoggingHandler \<Rightarrow> coreRequest \<Rightarrow> targetEvent list" where
  "LogHTTPRequest_endpoint h rq =
     with_request h ''LogHTTPRequest'' rq (\<lambda>q.
       case cr_marshal rq (log_response rq (lq_Message q)
              [(''endpoint'', ''/log/http-request''), (''kind'', ''manual_http_request_attr'')]) of
         Inl e \<Rightarrow>
           [Refused 500 ''Failed to encode response'',
            Recorded (ch_logger h) LevelError ''Failed to marshal http request response'' [err_attr e]]
       | Inr encoded \<Rightarrow>
           (let written = [HeaderSet ''Content-Type'' ''application/json'', HeaderWritten 200,
                           BodyWritten encoded (cr_writeErr rq)]
            in written @
               (case cr_writeErr rq of
                  Some e \<Rightarrow>
                    [Recorded (ch_logger h) LevelError ''Failed to write http request response'' [err_attr e]]
                | None \<Rightarrow>
                    [Recorded (ch_logger h) LevelInfo (lq_Message q)
                       [str ''test_id'' (lq_TestID q), str ''endpoint'' ''/log/http-request'',
                        str ''http_request_kind'' ''manual'',
                        (''httpRequest'', VLogValuer (LVHTTPRequest (Some
                           (buildHTTPRequestPayload (cr_lib rq) (cr_now rq) (Some (cr_request rq))
                              (map_option (scope_after written) (cr_scope rq)) 200 (int (length encoded))))))]])))"

definition LogHTTPRequestInflight_endpoint :: "coreLoggingHandler \<Rightarrow> coreRequest \<Rightarrow> targetEvent list" where
  "LogHTTPRequestInflight_endpoint h rq =
     with_request h ''LogHTTPRequestInflight'' rq (\<lambda>q.
       Recorded (ch_logger h) LevelInfo (lq_Message q)
         [str ''test_id'' (lq_TestID q), str ''endpoint'' ''/log/http-request-inflight'',
          str ''http_request_kind'' ''inflight'', HTTPRequestAttr (Some (cr_request rq)) (cr_scope rq)] #
       respondJSON rq (log_response rq (lq_Message q)
         [(''endpoint'', ''/log/http-request-inflight''), (''kind'', ''inflight_http_request_attr'')]))"

text \<open>The two parser probes log a map with the key \<^verbatim>\<open>httpRequest\<close>.\<close>

definition parser_probe ::
  "gostring \<Rightarrow> gostring \<Rightarrow> gostring \<Rightarrow> goany gomap \<Rightarrow> coreLoggingHandler \<Rightarrow> coreRequest \<Rightarrow> targetEvent list" where
  "parser_probe name endpoint kind probe h rq =
     with_request h name rq (\<lambda>q.
       Recorded (ch_logger h) LevelInfo (lq_Message q)
         [str ''test_id'' (lq_TestID q), str ''endpoint'' endpoint, str ''http_request_kind'' kind,
          (''httpRequest'', VAny (GMap ([(''requestMethod'', GString ''GET''),
             (''requestUrl'', GString (requestURLForLogging (cr_lib rq) (Some (cr_request rq)) (cr_scope rq)))] @
             probe)))] #
       respondJSON rq (log_response rq (lq_Message q) [(''endpoint'', endpoint), (''kind'', kind)]))"

definition LogHTTPRequestParserResidual_endpoint :: "coreLoggingHandler \<Rightarrow> coreRequest \<Rightarrow> targetEvent list" where
  "LogHTTPRequestParserResidual_endpoint =
     parser_probe ''LogHTTPRequestParserResidual'' ''/log/http-request-parser-residual'' ''parser_residual_probe''
       [(''status'', GInt 204), (''customField'', GString ''keep-me''), (''anotherCustom'', GInt 42)]"

definition LogHTTPRequestParserStatusZero_endpoint :: "coreLoggingHandler \<Rightarrow> coreRequest \<Rightarrow> targetEvent list" where
  "LogHTTPRequestParserStatusZero_endpoint =
     parser_probe ''LogHTTPRequestParserStatusZero'' ''/log/http-request-parser-status-zero''
       ''parser_status_zero_probe'' [(''status'', GInt 0)]"

section \<open>Batches and middleware probes\<close>

text \<open>\<open>int(size)\<close> of a float out of range is the machine's: \<open>int64_of_float\<close>.\<close>

definition batch_size :: "coreRequest \<Rightarrow> logRequest \<Rightarrow> int" where
  "batch_size rq q =
     (case map_of (lq_Attributes q) ''batch_size'' of
        Some (GFloat w) \<Rightarrow> int64_of_float (cr_harnesslib rq) w
      | _ \<Rightarrow> 5)"

definition batch_record :: "coreLoggingHandler \<Rightarrow> logRequest \<Rightarrow> int \<Rightarrow> int \<Rightarrow> targetEvent" where
  "batch_record h q n i =
     Recorded (ch_logger h) LevelInfo (''Batch log '' @ FormatInt (i + 1) @ '' of '' @ FormatInt n)
       [str ''test_id'' (lq_TestID q), (''batch_index'', VInt64 (i + 1))]"

definition LogBatch_endpoint :: "coreLoggingHandler \<Rightarrow> coreRequest \<Rightarrow> targetEvent list" where
  "LogBatch_endpoint h rq =
     with_request h ''LogBatch'' rq (\<lambda>q.
       let n = batch_size rq q
       in concat (map (\<lambda>i. [batch_record h q n i, Slept 10000000]) [0..n - 1]) @
          respondJSON rq (log_response rq (''Batch of '' @ FormatInt n @ '' logs created'')
            [(''batch_id'', lq_TestID q), (''count'', FormatInt n)]))"

definition MiddlewareEcho_endpoint :: "coreLoggingHandler \<Rightarrow> coreRequest \<Rightarrow> targetEvent list" where
  "MiddlewareEcho_endpoint h rq =
     (case cr_body rq of
        Inl e \<Rightarrow>
          [Refused 400 ''failed to read request body'',
           Recorded (ch_logger h) LevelError ''Failed to read middleware echo body'' [err_attr e]]
      | Inr body \<Rightarrow>
          [HeaderSet ''Content-Type'' ''text/plain'', HeaderSet ''X-Test-Response'' ''echoed'',
           BodyWritten (''echo:'' @ body) (cr_writeErr rq)] @
          (case cr_writeErr rq of None \<Rightarrow> []
           | Some e \<Rightarrow>
               [Recorded (ch_logger h) LevelError ''Failed to write middleware echo response'' [err_attr e]])) @
     (case cr_closeErr rq of None \<Rightarrow> []
      | Some e \<Rightarrow>
          [Recorded (ch_logger h) LevelWarn ''Failed to close middleware echo request body'' [err_attr e]])"

definition MiddlewarePanic_endpoint :: "coreRequest \<Rightarrow> targetEvent list" where
  "MiddlewarePanic_endpoint rq =
     [Panicked (''intentional middleware panic for '' @ cr_queryParam rq ''test_id'')]"

text \<open>A request a server received has a URL.\<close>

definition MiddlewareSkip_endpoint :: "coreLoggingHandler \<Rightarrow> coreRequest \<Rightarrow> targetEvent list" where
  "MiddlewareSkip_endpoint h rq =
     [HeaderSet ''Content-Type'' ''text/plain'', HeaderWritten 200,
      BodyWritten (''skip middleware logging path reached for '' @
        (case req_URL (cr_request rq) of Some u \<Rightarrow> url_Path u | None \<Rightarrow> [])) (cr_writeErr rq)] @
     (case cr_writeErr rq of None \<Rightarrow> []
      | Some e \<Rightarrow> [Recorded (ch_logger h) LevelError ''Failed to write middleware skip response'' [err_attr e]])"

end
