(* ===== verification/CoreTargetProps.thy ===== *)
theory CoreTargetProps
  imports CoreTarget HarnessTarget
begin

text \<open>
  The core logging target between the test client and the library: the endpoint the client posts
  to logs at the severity the client asked for, and the request payloads it builds by hand agree
  with what the middleware records.
\<close>

section \<open>Records of an endpoint\<close>

fun is_record :: "targetEvent \<Rightarrow> bool" where
  "is_record (Recorded _ _ _ _) = True"
| "is_record _ = False"

definition records :: "targetEvent list \<Rightarrow> targetEvent list" where
  "records = filter is_record"

definition answer_calls :: "targetEvent list \<Rightarrow> handler_call list" where
  "answer_calls events = concat (map writer_calls events)"

named_theorems target_simps
lemmas [target_simps] = with_request_def decodeLogRequest_def records_def answer_calls_def Let_def

lemma respondJSON_records [simp]: "filter is_record (respondJSON rq p) = []"
  by (simp add: respondJSON_def split: sum.split option.split)

text \<open>A request that is accepted, and what its body is.\<close>

definition accepted_request :: "coreRequest \<Rightarrow> logRequest \<Rightarrow> bool" where
  "accepted_request rq q \<longleftrightarrow> cr_decoded rq = Inr q \<and> lq_TestID q \<noteq> []"

lemma accepted_run:
  "accepted_request rq q \<Longrightarrow> records (with_request h name rq rest) = records (rest q)
    \<and> answer_calls (with_request h name rq rest) = answer_calls (rest q)"
  by (auto simp: target_simps accepted_request_def split: option.split)

definition severity_endpoints :: "(gostring \<times> (coreLoggingHandler \<Rightarrow> coreRequest \<Rightarrow> targetEvent list)) list" where
  "severity_endpoints =
     [(''debug'', LogDebug_endpoint), (''info'', LogInfo_endpoint), (''notice'', LogNotice_endpoint),
      (''warning'', LogWarning_endpoint), (''error'', LogError_endpoint), (''critical'', LogCritical_endpoint),
      (''alert'', LogAlert_endpoint), (''emergency'', LogEmergency_endpoint)]"

lemma severity_run:
  assumes "accepted_request rq q"
  shows "records (severity_endpoint name path level extra h rq) =
    [Recorded (ch_logger h) level (lq_Message q) (severity_attrs path rq q @ extra)]"
  unfolding severity_endpoint_def using accepted_run [OF assms] by (simp add: records_def)

lemma severity_case:
  "run = severity_endpoint name path level extra \<Longrightarrow> path = ''/log/'' @ s \<Longrightarrow> severityString level False = ToUpper s \<Longrightarrow>
   \<exists>name level extra. run = severity_endpoint name (''/log/'' @ s) level extra \<and> severityString level False = ToUpper s"
  by blast

lemma severity_endpoint_table:
  "list_all (\<lambda>(s, run). \<exists>name level extra.
     run = severity_endpoint name (''/log/'' @ s) level extra \<and> severityString level False = ToUpper s)
   severity_endpoints"
  unfolding severity_endpoints_def list.pred_inject prod.case
  by (intro conjI list.pred_inject(1); (rule severity_case, rule LogDebug_endpoint_def LogInfo_endpoint_def LogNotice_endpoint_def
      LogWarning_endpoint_def LogError_endpoint_def LogCritical_endpoint_def LogAlert_endpoint_def
      LogEmergency_endpoint_def, simp, code_simp))

text \<open>
  The endpoint the test client posts to for a severity logs one record, of the request's
  message, whose level the library prints as that severity, with the path and the test's identifier.
\<close>

theorem severity_endpoint_logs:
  assumes "(s, run) \<in> set severity_endpoints" and "accepted_request rq q"
  shows "\<exists>level attrs. records (run h rq) = [Recorded (ch_logger h) level (lq_Message q) attrs]
    \<and> severityString level False = ToUpper s
    \<and> map_of attrs ''endpoint'' = Some (VString (log_endpoint (LogWithSeverity s)))
    \<and> map_of attrs ''test_id'' = Some (VString (lq_TestID q))"
proof -
  obtain name level extra where run: "run = severity_endpoint name (''/log/'' @ s) level extra"
    and level: "severityString level False = ToUpper s"
    using severity_endpoint_table assms(1) by (auto simp: list_all_iff)
  have "map_of (severity_attrs (''/log/'' @ s) rq q @ extra) ''endpoint'' = Some (VString (''/log/'' @ s))"
    "map_of (severity_attrs (''/log/'' @ s) rq q @ extra) ''test_id'' = Some (VString (lq_TestID q))"
    by (simp_all add: severity_attrs_def str_def)
  then show ?thesis
    using level by (auto simp: run severity_run [OF assms(2)])
qed

definition demo_log_request :: coreRequest where
  "demo_log_request =
     \<lparr>cr_request = \<lparr>req_Method = ''POST'', req_URL = Some \<lparr>url_Scheme = [], url_Host = [], url_Path = ''/log/error'',
        url_RawQuery = []\<rparr>, req_Header = [], req_Proto = ''HTTP/1.1'', req_ContentLength = 12,
        req_RemoteAddr = ''192.0.2.7:443'', req_Host = ''target.example'', req_TLS = True\<rparr>,
      cr_decoded = Inr \<lparr>lq_Message = ''hello'', lq_TestID = ''t1'', lq_Attributes = [], lq_Labels = [],
        lq_Operation = None\<rparr>,
      cr_closeErr = None, cr_scope = None, cr_writeErr = None, cr_marshal = (\<lambda>r. Inr (lp_Message r)),
      cr_timestamp = ''now'', cr_now = 30, cr_lib = demo_lib,
      cr_harnesslib = \<lparr>Sprintf_v = (\<lambda>_. []), Sprintf_f = (\<lambda>_. []), unmarshal_map = (\<lambda>_. None),
        int64_of_huge = (\<lambda>_. 0), url_text = (\<lambda>_. [])\<rparr>,
      cr_body = Inr ''ping'', cr_queryParam = (\<lambda>_. [])\<rparr>"

theorem severity_endpoint_logs_witness:
  "\<exists>level attrs. records (LogError_endpoint \<lparr>ch_logger = 1, ch_defaultSeverityLogger = 2\<rparr> demo_log_request)
      = [Recorded 1 level ''hello'' attrs]
    \<and> severityString level False = ToUpper ''error''"
proof -
  have 1: "(''error'', LogError_endpoint) \<in> set severity_endpoints" by (simp add: severity_endpoints_def)
  have 2: "accepted_request demo_log_request \<lparr>lq_Message = ''hello'', lq_TestID = ''t1'', lq_Attributes = [],
      lq_Labels = [], lq_Operation = None\<rparr>"
    by (simp add: accepted_request_def demo_log_request_def)
  show ?thesis
    using severity_endpoint_logs [OF 1 2, of "\<lparr>ch_logger = 1, ch_defaultSeverityLogger = 2\<rparr>"] by auto
qed

section \<open>Payloads built by hand\<close>

lemma prepared_optional_fields:
  "logged_fields lib (PrepareHTTPRequest lib q) ''status'' = logged_fields lib q ''status''
   \<and> logged_fields lib (PrepareHTTPRequest lib q) ''latency'' = logged_fields lib q ''latency''
   \<and> (ResponseSize q \<ge> 0 \<longrightarrow>
       logged_fields lib (PrepareHTTPRequest lib q) ''responseSize'' = logged_fields lib q ''responseSize'')"
  by (simp add: optional_fields prepared_fields)

lemma written_scope:
  "sc_respBytes (scope_after [HeaderSet k v, HeaderWritten 200, BodyWritten bytes None] rs)
     = sc_respBytes rs + int (length bytes)"
  "sc_start (scope_after [HeaderSet k v, HeaderWritten 200, BodyWritten bytes None] rs) = sc_start rs"
  by (simp_all add: scope_after_def recorder_ops wrapResponseWriter_def)

text \<open>What the identity of the scope leaves alone.\<close>

lemma identity_keeps:
  "ResponseSize (applyScopeIdentity rs q) = ResponseSize q"
  "Status (applyScopeIdentity rs q) = Status q"
  "Latency (applyScopeIdentity rs q) = Latency q"
  by (simp_all add: applyScopeIdentity_def Let_def)

lemma request_fields_zero:
  "ResponseSize (the (HTTPRequestFromRequest lib (Some r))) = 0"
  "Latency (the (HTTPRequestFromRequest lib (Some r))) = 0"
  by (simp_all add: HTTPRequestFromRequest_def prepared_fields zero_HTTPRequest_def)

lemma manual_payload_fields:
  assumes "sc_respBytes rs = n" and "0 \<le> n"
  shows "logged_fields lib (buildHTTPRequestPayload lib now (Some r) (Some rs) 200 n) ''status'' = Some (GInt 200)
    \<and> logged_fields lib (buildHTTPRequestPayload lib now (Some r) (Some rs) 200 n) ''responseSize''
        = Some (GString (FormatInt n))
    \<and> logged_fields lib (buildHTTPRequestPayload lib now (Some r) (Some rs) 200 n) ''latency''
        = Some (GString (formatLatency (max 0 (now - sc_start rs))))"
proof -
  define q where "q = the (HTTPRequestFromRequest lib (Some r))"
  have q: "HTTPRequestFromRequest lib (Some r) = Some q"
    by (simp add: q_def HTTPRequestFromRequest_def)
  have zero: "ResponseSize q = 0" "Latency q = 0" by (simp_all add: q_def request_fields_zero)
  show ?thesis
    unfolding buildHTTPRequestPayload_def q option.case Let_def
    using assms zero
    by (simp add: optional_fields prepared_fields applyScopeToHTTPRequest_def applyScopeStatusAndLatency_def
        applyScopeSizing_def identity_keeps Let_def)
qed

text \<open>What the middleware's recorder has counted when the answer of an endpoint is out.\<close>

definition access_log :: "targetEvent list \<Rightarrow> int \<Rightarrow> RequestScope \<Rightarrow> int \<times> int" where
  "access_log events d scope =
     (let rs = record_response (answer_calls events) d scope in (sc_status rs, sc_respBytes rs))"

lemma access_log_run:
  "access_log events d scope =
     (first_status (answer_calls events), sum_list (map body_bytes (answer_calls events)))"
  by (simp add: access_log_def Let_def run_recorded)

text \<open>
  C24. The request payload the service builds by hand agrees with the middleware's access log: the
  record of \<^verbatim>\<open>/log/http-request\<close> carries status 200, the length of the answer that was
  written and the time since the request began, never a negative one, and the access log of the same
  request ends with that status and that many bytes.
\<close>

theorem manual_payload_agrees:
  assumes "accepted_request rq q" and "cr_writeErr rq = None"
    and "cr_scope rq = Some (newRequestScope pa (Some r) start cfg)"
    and "cr_marshal rq (log_response rq (lq_Message q)
           [(''endpoint'', ''/log/http-request''), (''kind'', ''manual_http_request_attr'')]) = Inr encoded"
  shows "\<exists>p. records (LogHTTPRequest_endpoint h rq) =
       [Recorded (ch_logger h) LevelInfo (lq_Message q)
          [str ''test_id'' (lq_TestID q), str ''endpoint'' (log_endpoint LogHTTPRequest),
           str ''http_request_kind'' ''manual'', (''httpRequest'', VLogValuer (LVHTTPRequest (Some p)))]]
    \<and> logged_fields (cr_lib rq) p ''status'' = Some (GInt 200)
    \<and> logged_fields (cr_lib rq) p ''responseSize'' = Some (GString (FormatInt (int (length encoded))))
    \<and> logged_fields (cr_lib rq) p ''latency'' = Some (GString (formatLatency (max 0 (cr_now rq - start))))
    \<and> access_log (LogHTTPRequest_endpoint h rq) d (newRequestScope pa (Some r) start cfg)
        = (200, int (length encoded))"
proof -
  define opened where "opened = newRequestScope pa (Some r) start cfg"
  define written where "written = [HeaderSet ''Content-Type'' ''application/json'', HeaderWritten 200, BodyWritten encoded None]"
  have o: "sc_respBytes opened = 0" "sc_start opened = start"
    by (simp_all add: opened_def newRequestScope_def populateFromRequest_def populateURLFields_def zero_scope_def Let_def
        split: option.split)
  have w: "sc_respBytes (scope_after written opened) = int (length encoded)" "sc_start (scope_after written opened) = start"
    by (simp_all add: written_def written_scope o)
  let ?p = "buildHTTPRequestPayload (cr_lib rq) (cr_now rq) (Some (cr_request rq)) (Some (scope_after written opened))
      200 (int (length encoded))"
  have rest: "records (LogHTTPRequest_endpoint h rq) =
       [Recorded (ch_logger h) LevelInfo (lq_Message q)
          [str ''test_id'' (lq_TestID q), str ''endpoint'' ''/log/http-request'',
           str ''http_request_kind'' ''manual'', (''httpRequest'', VLogValuer (LVHTTPRequest (Some ?p)))]]"
    "answer_calls (LogHTTPRequest_endpoint h rq) = [CallHeader 200, CallWrite (int (length encoded)) None]"
    unfolding LogHTTPRequest_endpoint_def using accepted_run [OF assms(1)]
    by (simp_all add: assms(2-4) opened_def [symmetric] written_def records_def answer_calls_def Let_def)
  show ?thesis
    using rest manual_payload_fields [OF w(1), of "cr_lib rq" "cr_now rq" "cr_request rq"]
    by (simp add: w(2) access_log_run)
qed

theorem manual_payload_agrees_witness:
  "\<exists>p. logged_fields demo_lib p ''responseSize'' = Some (GString ''5'')
    \<and> logged_fields demo_lib p ''latency'' = Some (GString (formatLatency 20))"
proof -
  define scope where "scope = newRequestScope (\<lambda>_. None) (Some (cr_request demo_log_request)) 10 (http_defaultConfig 1)"
  define rq where "rq = demo_log_request \<lparr> cr_scope := Some scope \<rparr>"
  define q where "q = \<lparr>lq_Message = ''hello'', lq_TestID = ''t1'', lq_Attributes = [], lq_Labels = [], lq_Operation = None\<rparr>"
  have 1: "accepted_request rq q" by (simp add: accepted_request_def rq_def demo_log_request_def q_def)
  have 2: "cr_writeErr rq = None" by (simp add: rq_def demo_log_request_def)
  have 3: "cr_scope rq = Some (newRequestScope (\<lambda>_. None) (Some (cr_request demo_log_request)) 10 (http_defaultConfig 1))"
    by (simp add: rq_def scope_def)
  have 4: "cr_marshal rq (log_response rq (lq_Message q)
      [(''endpoint'', ''/log/http-request''), (''kind'', ''manual_http_request_attr'')]) = Inr ''hello''"
    by (simp add: rq_def demo_log_request_def q_def log_response_def)
  have "FormatInt 5 = ''5''" by code_simp
  then show ?thesis
    using manual_payload_agrees [OF 1 2 3 4, of undefined 0]
    by (auto simp: rq_def demo_log_request_def)
qed

section \<open>Probes of the middleware\<close>

text \<open>A body that is echoed is counted with its prefix, under the status the writer implies.\<close>

lemma echo_access_log:
  "cr_body rq = Inr body \<Longrightarrow> cr_writeErr rq = None \<Longrightarrow>
   access_log (MiddlewareEcho_endpoint h rq) d scope = (200, int (length body) + 5)"
  by (simp add: access_log_run answer_calls_def MiddlewareEcho_endpoint_def split: option.split)

text \<open>
  A request without a test identifier, or whose body does not decode, is answered with status 400 by
  every endpoint that decodes one, and only a warning is logged.
\<close>

lemma refused_run:
  assumes "\<not> (\<exists>q. accepted_request rq q)"
  shows "fst (access_log (with_request h name rq rest) d scope) = 400"
    and "\<exists>e. records (with_request h name rq rest)
      = [Recorded (ch_logger h) LevelWarn (''Failed to decode '' @ name @ '' request'') [err_attr e]]"
  using assms
  by (auto simp: access_log_run target_simps accepted_request_def split: sum.split option.split)

lemma batch_records:
  assumes "accepted_request rq q"
  shows "records (LogBatch_endpoint h rq) = map (batch_record h q (batch_size rq q)) [0..batch_size rq q - 1]"
proof -
  have "filter is_record (concat (map (\<lambda>i. [batch_record h q n i, Slept 10000000]) ns)) = map (batch_record h q n) ns" for n ns
    by (induction ns) (simp_all add: batch_record_def)
  then show ?thesis
    unfolding LogBatch_endpoint_def using accepted_run [OF assms] by (simp add: records_def Let_def)
qed

end
