(* ===== verification/Benchmark.thy ===== *)
theory Benchmark
  imports Pipeline HarnessChecks "HOL-Library.Word"
begin

unbundle bit_operations_syntax

text \<open>
  The benchmark program (\<^verbatim>\<open>.benchmarks/main.go\<close>): one workload, shared out to
  concurrent workers, logged through interchangeable sinks. The workers' iterations are the steps of
  a relation; a trial runs a schedule of them. The Google client, the clock, SHA-256, the memory and
  CPU counters and the file system are parameters.
\<close>

section \<open>Configuration\<close>

definition eventMessage :: gostring where "eventMessage = ''request completed''"
definition modeGoogleAPI :: gostring where "modeGoogleAPI = ''google-api''"
definition modeSlogcpGRPC :: gostring where "modeSlogcpGRPC = ''slogcp-grpc''"

record benchConfig =
  bg_Mode :: gostring
  bg_Payload :: gostring
  bg_Count :: int
  bg_Concurrency :: int
  bg_Warmup :: int
  bg_RunID :: gostring
  bg_TrialID :: gostring
  bg_Sink :: gostring
  bg_Project :: gostring
  bg_Location :: gostring
  bg_ResultFile :: gostring

definition usesAPI :: "benchConfig \<Rightarrow> bool" where
  "usesAPI cfg \<longleftrightarrow> bg_Mode cfg = modeGoogleAPI \<or> bg_Mode cfg = modeSlogcpGRPC"

definition validateWorkload :: "benchConfig \<Rightarrow> gostring option" where
  "validateWorkload cfg =
     (if bg_Mode cfg \<notin> set [''none'', ''slogcp'', modeSlogcpGRPC, ''google-stdout'', modeGoogleAPI]
      then Some ''unsupported mode''
      else if bg_Payload cfg \<noteq> ''small'' \<and> bg_Payload cfg \<noteq> ''nested''
      then Some ''payload must be small or nested''
      else if bg_Count cfg < 1 \<or> bg_Concurrency cfg < 1 \<or> bg_Concurrency cfg > bg_Count cfg \<or> bg_Warmup cfg < 1
      then Some ''count and warmup must be positive; concurrency must be in [1,count]''
      else None)"

definition validateOutput :: "benchConfig \<Rightarrow> gostring option" where
  "validateOutput cfg =
     (if bg_RunID cfg = [] \<or> bg_TrialID cfg = [] \<or> bg_ResultFile cfg = []
      then Some ''run-id, trial-id, and result-file are required''
      else if bg_Sink cfg \<noteq> ''stdout'' \<and> bg_Sink cfg \<noteq> ''discard''
      then Some ''sink must be stdout or discard''
      else if usesAPI cfg \<and> bg_Sink cfg = ''discard''
      then Some ''API delivery cannot use the discard sink''
      else None)"

text \<open>The method changes the configuration it is called on.\<close>

definition configureProject :: "environ \<Rightarrow> benchConfig \<Rightarrow> benchConfig \<times> gostring option" where
  "configureProject env cfg =
     (if bg_Project cfg = [] \<and> usesAPI cfg then (cfg, Some ''API delivery requires an explicit project'')
      else
        (let cfg = (if bg_Project cfg = [] then cfg \<lparr> bg_Project := ''benchmark-local'' \<rparr> else cfg)
         in (cfg, if usesAPI cfg \<and> env ''CLOUD_RUN_JOB'' \<noteq> [] \<and> bg_Location cfg = []
                  then Some ''cloud Run API logging requires an explicit location'' else None)))"

definition default_benchConfig :: "environ \<Rightarrow> benchConfig" where
  "default_benchConfig env =
     \<lparr>bg_Mode = ''slogcp'', bg_Payload = ''small'', bg_Count = 10000, bg_Concurrency = 1, bg_Warmup = 250,
      bg_RunID = [], bg_TrialID = [], bg_Sink = ''stdout'', bg_Project = env ''GOOGLE_CLOUD_PROJECT'',
      bg_Location = env ''CLOUD_RUN_REGION'', bg_ResultFile = []\<rparr>"

text \<open>
  \<open>parse\<close> is the flag package on the defaults: the configuration it leaves, and an error or
  the arguments that are not flags. \<^verbatim>\<open>configureProject\<close> is evaluated last, before the
  configuration is returned.
\<close>

definition parseConfig ::
  "environ \<Rightarrow> (benchConfig \<Rightarrow> benchConfig \<times> (gostring + gostring list)) \<Rightarrow> benchConfig \<times> gostring option" where
  "parseConfig env parse =
     (case parse (default_benchConfig env) of
        (cfg, Inl err) \<Rightarrow> (cfg, Some (''parse benchmark flags: '' @ err))
      | (cfg, Inr args) \<Rightarrow>
          if args \<noteq> [] then (cfg, Some ''unexpected positional arguments'')
          else
            (case configureProject env cfg of
               (cfg', err) \<Rightarrow> (cfg', errors_Join [validateWorkload cfg, validateOutput cfg, err])))"

section \<open>The application\<close>

text \<open>A value of the request; the floats of the workload are multiples of 1/8.\<close>

datatype benchValue =
    BString gostring
  | BInt int
  | BEighths int
  | BBool bool
  | BStrings "gostring list"
  | BMap "(gostring \<times> benchValue) list"
  | BList "benchValue list"

record benchEvent =
  ev_runID :: gostring
  ev_trialID :: gostring
  ev_insertID :: gostring
  ev_sequence :: nat
  ev_request :: "benchValue gomap"
  ev_digest :: gostring

text \<open>\<open>sha256\<close> maps bytes to 32 bytes; \<^verbatim>\<open>copy\<close> keeps what fits.\<close>

definition hash_input :: "nat \<Rightarrow> gostring" where
  "hash_input sequence =
     (let text = ''GET /v1/orders?include=items benchmark application'';
          digits = take 28 (FormatInt (int sequence))
      in text @ replicate (100 - length text) (CHR 0x00) @ digits @ replicate (28 - length digits) (CHR 0x00))"

definition little_endian_64 :: "gostring \<Rightarrow> 64 word" where
  "little_endian_64 s = foldr (\<lambda>c w. push_bit 8 w OR of_nat (of_char c)) s 0"

definition bench_item :: "nat \<Rightarrow> benchValue" where
  "bench_item index =
     BMap [(''sku'', BString (''item-'' @ FormatInt (int index))), (''quantity'', BInt (int index + 1)),
           (''unit_price'', BEighths (100 + 8 * int index)),
           (''metadata'', BMap [(''warehouse'', BString ''central''), (''available'', BBool True),
                                (''category'', BString ''books'')])]"

text \<open>The customer's name ends with a character of three bytes in UTF-8.\<close>

definition nested_request :: "benchValue gomap" where
  "nested_request =
     [(''headers'', BMap [(''accept'', BString ''application/json''), (''accept_language'', BString ''en-US''),
        (''user_agent'', BString ''benchmark-client/1.0''),
        (''tags'', BStrings [''mobile'', ''returning'', ''priority''])]),
      (''customer'', BMap
        [(''name'', BString (''Ada <Example> & '' @ [CHR 0xE9, CHR 0x9B, CHR 0xAA])), (''active'', BBool True),
         (''address'', BMap [(''city'', BString ''Chicago''), (''country'', BString ''US''),
                             (''postal_code'', BString ''60601'')]),
         (''preferences'', BMap [(''currency'', BString ''USD''), (''email'', BBool False),
                                 (''discount'', BEighths 1)])]),
      (''items'', BList (map bench_item [0..<8]))]"

definition application ::
  "(gostring \<Rightarrow> gostring) \<Rightarrow> benchConfig \<Rightarrow> gostring \<Rightarrow> nat \<Rightarrow> benchEvent \<times> 64 word" where
  "application sha256 cfg trialID sequence =
     (let digest = (sha256 ^^ 4) (hash_input sequence);
          request = [(''method'', BString ''GET''), (''route'', BString ''/v1/orders''), (''status'', BInt 200),
                     (''response_bytes'', BInt (2048 + int sequence mod 256)),
                     (''customer_id'', BInt (int sequence mod 97))] @
                    (if bg_Payload cfg = ''nested'' then nested_request else [])
      in (\<lparr>ev_runID = bg_RunID cfg, ev_trialID = trialID,
           ev_insertID = bg_RunID cfg @ ''/'' @ trialID @ ''/'' @ FormatInt (int sequence),
           ev_sequence = sequence, ev_request = request, ev_digest = hex_EncodeToString digest\<rparr>,
          little_endian_64 (take 8 digest)))"

section \<open>Errors and output\<close>

text \<open>\<^verbatim>\<open>errorList.add\<close>: a nil error is not recorded.\<close>

definition errs_add :: "gostring option \<Rightarrow> gostring list \<Rightarrow> gostring list" where
  "errs_add err errs = (case err of None \<Rightarrow> errs | Some e \<Rightarrow> errs @ [e])"

record countingWriter =
  cw_bytes :: int
  cw_writes :: int
  cw_errors :: "gostring list"

text \<open>\<open>n\<close> and \<open>err\<close> are what the wrapped writer answers to the bytes.\<close>

definition cw_Write ::
  "gostring \<Rightarrow> int \<Rightarrow> gostring option \<Rightarrow> countingWriter \<Rightarrow> (int \<times> gostring option) \<times> countingWriter" where
  "cw_Write p n err w =
     (let err = (if err = None \<and> n \<noteq> int (length p) then Some ''short write'' else err)
      in ((n, err), w \<lparr> cw_bytes := cw_bytes w + n, cw_writes := cw_writes w + 1,
                        cw_errors := errs_add err (cw_errors w) \<rparr>))"

section \<open>Sinks\<close>

text \<open>What the client libraries are asked to do.\<close>

datatype benchEffect =
    OpenedClient bool gostring
  | ClosedClient
  | ClosedHandler
  | FlushedLogger
  | FlushedExporter

datatype emission =
    SlogRecord "gostring gomap" gostring "(gostring \<times> benchValue) list"
  | CloudEntry "benchValue gomap" gostring "gostring gomap"

text \<open>A sink: what it emits for an event; flushing (counted) and closing with their effects and errors.\<close>

record logSink =
  ls_emit :: "benchEvent \<Rightarrow> emission option"
  ls_flush :: "nat \<Rightarrow> benchEffect list \<times> gostring option"
  ls_close :: "benchEffect list \<times> gostring option"

text \<open>
  The world of a trial: environment, detected service context, the errors of the libraries'
  constructors and operations, asynchronous errors of the two phases, and what is measured.
\<close>

record memStats =
  ms_TotalAlloc :: "64 word"
  ms_Mallocs :: "64 word"
  ms_NumGC :: "32 word"
  ms_PauseTotalNs :: "64 word"

record resourceUsage =
  ru_Supported :: bool
  ru_UserNS :: int
  ru_SystemNS :: int
  ru_MaxRSSBytes :: int

record benchWorld =
  bw_environ :: environ
  bw_serviceContext :: "gostring gomap"
  bw_newHandler :: "gostring option"
  bw_handlerClose :: "gostring option"
  bw_newClient :: "gostring option"
  bw_clientClose :: "gostring option"
  bw_loggerFlush :: "nat \<Rightarrow> gostring option"
  bw_newExporter :: "gostring option"
  bw_newExporterHandler :: "gostring option"
  bw_exporterFlush :: "nat \<Rightarrow> gostring option"
  bw_asyncErrors :: "nat \<Rightarrow> gostring list"
  bw_sha256 :: "gostring \<Rightarrow> gostring"
  bw_usage :: "nat \<Rightarrow> gostring + resourceUsage"
  bw_mem :: "nat \<Rightarrow> memStats"
  bw_stats :: "nat \<Rightarrow> int \<times> int"
  bw_started :: int
  bw_produced :: int
  bw_finished :: int
  bw_perSecond :: "int \<Rightarrow> int \<Rightarrow> 64 word"

definition executionLabels :: "environ \<Rightarrow> gostring gomap" where
  "executionLabels env =
     concat (map (\<lambda>(name, key). if env name \<noteq> [] then [(key, env name)] else [])
       [(''CLOUD_RUN_EXECUTION'', ''run.googleapis.com/execution_name''),
        (''CLOUD_RUN_TASK_INDEX'', ''run.googleapis.com/task_index''),
        (''CLOUD_RUN_TASK_ATTEMPT'', ''run.googleapis.com/task_attempt'')])"

definition monitoredResource :: "environ \<Rightarrow> benchConfig \<Rightarrow> gostring \<times> gostring gomap" where
  "monitoredResource env cfg =
     (if env ''CLOUD_RUN_JOB'' \<noteq> []
      then (''cloud_run_job'', [(''project_id'', bg_Project cfg), (''location'', bg_Location cfg),
                                (''job_name'', env ''CLOUD_RUN_JOB'')])
      else (''global'', [(''project_id'', bg_Project cfg)]))"

text \<open>The labels are those bound to the logger; a record carries the fields of the event.\<close>

definition slog_emission :: "gostring gomap \<Rightarrow> benchEvent \<Rightarrow> emission" where
  "slog_emission labels ev =
     SlogRecord labels eventMessage
       [(''run_id'', BString (ev_runID ev)), (''trial_id'', BString (ev_trialID ev)),
        (''sequence'', BInt (int (ev_sequence ev))),
        (''logging.googleapis.com/insertId'', BString (ev_insertID ev)),
        (''digest'', BString (ev_digest ev)), (''request'', BMap (ev_request ev))]"

definition slogSink ::
  "gostring gomap \<Rightarrow> (nat \<Rightarrow> benchEffect list \<times> gostring option) \<Rightarrow> benchEffect list \<times> gostring option \<Rightarrow> logSink" where
  "slogSink labels flush closeSink =
     \<lparr>ls_emit = (\<lambda>ev. Some (slog_emission labels ev)), ls_flush = flush, ls_close = closeSink\<rparr>"

definition google_emission :: "gostring gomap \<Rightarrow> gostring gomap \<Rightarrow> benchEvent \<Rightarrow> emission" where
  "google_emission serviceContext labels ev =
     CloudEntry
       ([(''message'', BString eventMessage), (''run_id'', BString (ev_runID ev)),
         (''trial_id'', BString (ev_trialID ev)), (''sequence'', BInt (int (ev_sequence ev))),
         (''digest'', BString (ev_digest ev)), (''request'', BMap (ev_request ev))] @
        (if serviceContext \<noteq> []
         then [(''serviceContext'', BMap (map (\<lambda>(k, v). (k, BString v)) serviceContext))] else []))
       (ev_insertID ev) labels"

definition newSlogcpGRPCSink :: "benchWorld \<Rightarrow> gostring gomap \<Rightarrow> benchEffect list \<times> (gostring + logSink)" where
  "newSlogcpGRPCSink w labels =
     (let refused = (\<lambda>e. ([ClosedClient], Inl (the (errors_Join [Some e, bw_clientClose w]))))
      in case bw_newExporter w of
           Some e \<Rightarrow> refused e
         | None \<Rightarrow>
             (case bw_newExporterHandler w of
                Some e \<Rightarrow> refused e
              | None \<Rightarrow>
                  ([], Inr (slogSink labels (\<lambda>k. ([FlushedExporter], bw_exporterFlush w k))
                     ([ClosedHandler, FlushedExporter, ClosedClient],
                      errors_Join [bw_handlerClose w, bw_exporterFlush w 2, bw_clientClose w])))))"

definition newLogSink :: "benchWorld \<Rightarrow> benchConfig \<Rightarrow> benchEffect list \<times> (gostring + logSink)" where
  "newLogSink w cfg =
     (let noop = (\<lambda>_. ([], None)); labels = executionLabels (bw_environ w)
      in if bg_Mode cfg = ''none''
         then ([], Inr \<lparr>ls_emit = (\<lambda>_. None), ls_flush = noop, ls_close = ([], None)\<rparr>)
         else if bg_Mode cfg = ''slogcp''
         then (case bw_newHandler w of
                 Some e \<Rightarrow> ([], Inl (''create slogcp handler: '' @ e))
               | None \<Rightarrow> ([], Inr (slogSink labels noop ([ClosedHandler], bw_handlerClose w))))
         else (case bw_newClient w of
                 Some e \<Rightarrow> ([], Inl (''create Google logging client: '' @ e))
               | None \<Rightarrow>
                   (let opened = OpenedClient (bg_Mode cfg \<noteq> ''google-stdout'') (bg_Project cfg)
                    in if bg_Mode cfg = modeSlogcpGRPC
                       then (case newSlogcpGRPCSink w labels of (effects, r) \<Rightarrow> (opened # effects, r))
                       else ([opened], Inr
                         \<lparr>ls_emit = (\<lambda>ev. Some (google_emission (bw_serviceContext w) labels ev)),
                          ls_flush = (\<lambda>k. ([FlushedLogger], bw_loggerFlush w k)),
                          ls_close = ([ClosedClient], bw_clientClose w)\<rparr>))))"

end
