(* ===== verification/BenchmarkTrial.thy ===== *)
theory BenchmarkTrial
  imports Benchmark
begin

text \<open>
  A trial of the benchmark: the warm-up, the workers' iterations over the shared state, the
  measurements, the result file.
\<close>

section \<open>Workers\<close>

text \<open>
  The state the workers share: each worker's next sequence number, the events emitted in the order
  of the sink, the latency slots, one checksum per worker.
\<close>

record trialState =
  ts_next :: "nat list"
  ts_emitted :: "benchEvent list"
  ts_logLatency :: "int list"
  ts_requestLatency :: "int list"
  ts_checksums :: "64 word list"

definition trial_start :: "benchConfig \<Rightarrow> trialState" where
  "trial_start cfg =
     \<lparr>ts_next = [0..<nat (bg_Concurrency cfg)], ts_emitted = [],
      ts_logLatency = replicate (nat (bg_Count cfg)) 0, ts_requestLatency = replicate (nat (bg_Count cfg)) 0,
      ts_checksums = replicate (nat (bg_Concurrency cfg)) 0\<rparr>"

definition worker_ready :: "benchConfig \<Rightarrow> nat \<Rightarrow> trialState \<Rightarrow> bool" where
  "worker_ready cfg w s \<longleftrightarrow> w < nat (bg_Concurrency cfg) \<and> ts_next s ! w < nat (bg_Count cfg)"

text \<open>The clock is read before the application, before the log call and after it.\<close>

definition worker_iteration ::
  "(gostring \<Rightarrow> gostring) \<Rightarrow> benchConfig \<Rightarrow> nat \<Rightarrow> int \<times> int \<times> int \<Rightarrow> trialState \<Rightarrow> trialState" where
  "worker_iteration sha256 cfg w readings s =
     (let sequence = ts_next s ! w;
          (requestStart, logStart, finished) = readings;
          (entry, checksum) = application sha256 cfg (bg_TrialID cfg) sequence
      in s \<lparr> ts_next := (ts_next s)[w := sequence + nat (bg_Concurrency cfg)],
             ts_emitted := ts_emitted s @ [entry],
             ts_logLatency := (ts_logLatency s)[sequence := finished - logStart],
             ts_requestLatency := (ts_requestLatency s)[sequence := finished - requestStart],
             ts_checksums := (ts_checksums s)[w := ts_checksums s ! w XOR checksum] \<rparr>)"

inductive trial_step :: "(gostring \<Rightarrow> gostring) \<Rightarrow> benchConfig \<Rightarrow> trialState \<Rightarrow> trialState \<Rightarrow> bool"
  for sha256 cfg where
  iteration: "worker_ready cfg w s \<Longrightarrow> trial_step sha256 cfg s (worker_iteration sha256 cfg w readings s)"

inductive_cases trial_stepE: "trial_step sha256 cfg s s'"

definition workers_done :: "benchConfig \<Rightarrow> trialState \<Rightarrow> bool" where
  "workers_done cfg s \<longleftrightarrow> list_all (\<lambda>n. nat (bg_Count cfg) \<le> n) (ts_next s)"

text \<open>A schedule: which worker runs its next iteration, at which times. A finished worker has left.\<close>

fun run_schedule ::
  "(gostring \<Rightarrow> gostring) \<Rightarrow> benchConfig \<Rightarrow> (nat \<times> int \<times> int \<times> int) list \<Rightarrow> trialState \<Rightarrow> trialState" where
  "run_schedule sha256 cfg [] s = s"
| "run_schedule sha256 cfg ((w, readings) # sched) s =
     run_schedule sha256 cfg sched (if worker_ready cfg w s then worker_iteration sha256 cfg w readings s else s)"

definition combineChecksums :: "64 word list \<Rightarrow> 64 word" where
  "combineChecksums checksums = fold (\<lambda>checksum combined. combined XOR checksum) checksums 0"

section \<open>Latencies\<close>

record quantiles =
  q_P50 :: int
  q_P95 :: int
  q_P99 :: int
  q_Max :: int

text \<open>
  \<^verbatim>\<open>math.Ceil(percentile*float64(n))\<close>: the percentile is 50, 95 or 99 hundredths. The
  products are rounded to the exact value when it is an integer, so the ceiling is the exact one for
  any number of samples that fits in memory.
\<close>

definition nearest_rank :: "nat \<Rightarrow> nat \<Rightarrow> nat" where
  "nearest_rank percent n = (percent * n + 99) div 100"

definition summarize :: "int list \<Rightarrow> quantiles" where
  "summarize samples =
     (if samples = [] then \<lparr>q_P50 = 0, q_P95 = 0, q_P99 = 0, q_Max = 0\<rparr>
      else
        (let sorted = sort samples;
             value_at = (\<lambda>percent. sorted ! (nearest_rank percent (length samples) - 1))
         in \<lparr>q_P50 = value_at 50, q_P95 = value_at 95, q_P99 = value_at 99,
             q_Max = sorted ! (length samples - 1)\<rparr>))"

section \<open>Resource usage and build information\<close>

record rusage =
  rg_UtimeSec :: int
  rg_UtimeUsec :: int
  rg_StimeSec :: int
  rg_StimeUsec :: int
  rg_Maxrss :: int

definition processUsage :: "gostring + rusage \<Rightarrow> gostring + resourceUsage" where
  "processUsage r =
     (case r of
        Inl err \<Rightarrow> Inl (''read process resource usage: '' @ err)
      | Inr v \<Rightarrow>
          Inr \<lparr>ru_Supported = True, ru_UserNS = rg_UtimeSec v * 1000000000 + rg_UtimeUsec v * 1000,
               ru_SystemNS = rg_StimeSec v * 1000000000 + rg_StimeUsec v * 1000,
               ru_MaxRSSBytes = rg_Maxrss v * 1024\<rparr>)"

record buildDependency =
  bd_Path :: gostring
  bd_Version :: gostring
  bd_Replace :: "(gostring \<times> gostring) option"

record benchRuntime =
  rt_GoVersion :: gostring
  rt_GOOS :: gostring
  rt_GOARCH :: gostring
  rt_GOMAXPROCS :: int
  rt_NumCPU :: int
  rt_BuildSettings :: "gostring gomap"
  rt_Dependencies :: "gostring gomap"

text \<open>\<open>base\<close> is what the runtime reports; \<open>build\<close> the settings and modules of the executable.\<close>

definition buildRuntimeInfo ::
  "benchRuntime \<Rightarrow> ((gostring \<times> gostring) list \<times> buildDependency list) option \<Rightarrow> benchRuntime" where
  "buildRuntimeInfo base build =
     (case build of
        None \<Rightarrow> base \<lparr> rt_BuildSettings := [], rt_Dependencies := [] \<rparr>
      | Some (settings, deps) \<Rightarrow>
          base \<lparr> rt_BuildSettings := foldl (\<lambda>m (k, v). mput k v m) [] settings,
                 rt_Dependencies := foldl (\<lambda>m d. mput (bd_Path d)
                   (bd_Version d @ (case bd_Replace d of None \<Rightarrow> []
                                    | Some (path, version) \<Rightarrow> '' => '' @ path @ '' '' @ version)) m) [] deps \<rparr>)"

section \<open>The trial\<close>

record benchResult =
  br_SchemaVersion :: int
  br_Config :: benchConfig
  br_Runtime :: benchRuntime
  br_StartedAt :: int
  br_FinishedAt :: int
  br_ProducerElapsedNS :: int
  br_DrainElapsedNS :: int
  br_CompletedElapsedNS :: int
  br_ProducerRequestsPerSecond :: "64 word"
  br_CompletedRequestsPerSecond :: "64 word"
  br_RequestLatencyNS :: quantiles
  br_LogCallLatencyNS :: quantiles
  br_CPUUserNS :: int
  br_CPUSystemNS :: int
  br_OSMetricsAvailable :: bool
  br_MaxRSSBytes :: int
  br_AllocatedBytes :: "64 word"
  br_Mallocs :: "64 word"
  br_NumGC :: "32 word"
  br_GCPauseNS :: "64 word"
  br_OutputBytes :: int
  br_OutputWrites :: int
  br_Errors :: "gostring list"
  br_Checksum :: "64 word"

definition zero_time_ns :: int where "zero_time_ns = - 62135596800000000000"

definition empty_result :: "benchConfig \<Rightarrow> benchRuntime \<Rightarrow> benchResult" where
  "empty_result cfg info =
     \<lparr>br_SchemaVersion = 1, br_Config = cfg, br_Runtime = info, br_StartedAt = zero_time_ns,
      br_FinishedAt = zero_time_ns, br_ProducerElapsedNS = 0, br_DrainElapsedNS = 0, br_CompletedElapsedNS = 0,
      br_ProducerRequestsPerSecond = 0, br_CompletedRequestsPerSecond = 0, br_RequestLatencyNS = summarize [],
      br_LogCallLatencyNS = summarize [], br_CPUUserNS = 0, br_CPUSystemNS = 0, br_OSMetricsAvailable = False,
      br_MaxRSSBytes = 0, br_AllocatedBytes = 0, br_Mallocs = 0, br_NumGC = 0, br_GCPauseNS = 0,
      br_OutputBytes = 0, br_OutputWrites = 0, br_Errors = [], br_Checksum = 0\<rparr>"

text \<open>What a trial did to the client libraries, what it logged, its result and its error.\<close>

record trialOutcome =
  to_effects :: "benchEffect list"
  to_emitted :: "emission list"
  to_result :: benchResult
  to_error :: "gostring option"

definition zero_usage :: resourceUsage where
  "zero_usage = \<lparr>ru_Supported = False, ru_UserNS = 0, ru_SystemNS = 0, ru_MaxRSSBytes = 0\<rparr>"

definition emit_all :: "logSink \<Rightarrow> benchEvent list \<Rightarrow> emission list" where
  "emit_all sink evs = concat (map (\<lambda>ev. case ls_emit sink ev of None \<Rightarrow> [] | Some e \<Rightarrow> [e]) evs)"

text \<open>The measurements of a finished production, without the errors.\<close>

definition measured_result ::
  "benchWorld \<Rightarrow> benchConfig \<Rightarrow> resourceUsage \<Rightarrow> resourceUsage \<Rightarrow> trialState \<Rightarrow> benchResult \<Rightarrow> benchResult" where
  "measured_result w cfg usageBefore usageAfter s res =
     (let producer = bw_produced w - bw_started w; completed = bw_finished w - bw_started w
      in res \<lparr> br_StartedAt := bw_started w, br_FinishedAt := bw_finished w,
               br_ProducerElapsedNS := producer, br_DrainElapsedNS := bw_finished w - bw_produced w,
               br_CompletedElapsedNS := completed,
               br_ProducerRequestsPerSecond :=
                 (if producer \<le> 0 then br_ProducerRequestsPerSecond res else bw_perSecond w (bg_Count cfg) producer),
               br_CompletedRequestsPerSecond :=
                 (if producer \<le> 0 then br_CompletedRequestsPerSecond res else bw_perSecond w (bg_Count cfg) completed),
               br_RequestLatencyNS := summarize (ts_requestLatency s),
               br_LogCallLatencyNS := summarize (ts_logLatency s),
               br_CPUUserNS := ru_UserNS usageAfter - ru_UserNS usageBefore,
               br_CPUSystemNS := ru_SystemNS usageAfter - ru_SystemNS usageBefore,
               br_OSMetricsAvailable := ru_Supported usageAfter, br_MaxRSSBytes := ru_MaxRSSBytes usageAfter,
               br_AllocatedBytes := ms_TotalAlloc (bw_mem w 1) - ms_TotalAlloc (bw_mem w 0),
               br_Mallocs := ms_Mallocs (bw_mem w 1) - ms_Mallocs (bw_mem w 0),
               br_NumGC := ms_NumGC (bw_mem w 1) - ms_NumGC (bw_mem w 0),
               br_GCPauseNS := ms_PauseTotalNs (bw_mem w 1) - ms_PauseTotalNs (bw_mem w 0),
               br_OutputBytes := fst (bw_stats w 1) - fst (bw_stats w 0),
               br_OutputWrites := snd (bw_stats w 1) - snd (bw_stats w 0),
               br_Checksum := combineChecksums (ts_checksums s) \<rparr>)"

text \<open>
  The errors of a production in the order they are added: asynchronous ones first, then those of
  the last flush, the usage, closing, and a clock that stood still.
\<close>

definition trial_errors ::
  "benchWorld \<Rightarrow> gostring option \<Rightarrow> gostring option \<Rightarrow> gostring option \<Rightarrow> gostring list" where
  "trial_errors w flushErr usageErr closeErr =
     errs_add (if bw_produced w - bw_started w \<le> 0
               then Some ''clock did not advance during production; increase count'' else None)
       (errs_add closeErr (errs_add usageErr (errs_add flushErr (bw_asyncErrors w 1))))"

text \<open>
  \<open>None\<close>: the schedule leaves a worker unfinished, and \<^verbatim>\<open>workers.Wait\<close> does not return.
\<close>

definition runTrial ::
  "benchWorld \<Rightarrow> benchRuntime \<Rightarrow> (nat \<times> int \<times> int \<times> int) list \<Rightarrow> benchConfig \<Rightarrow> trialOutcome option" where
  "runTrial w info sched cfg =
     (let res = empty_result cfg info
      in case newLogSink w cfg of
           (effects, Inl e) \<Rightarrow> Some \<lparr>to_effects = effects, to_emitted = [], to_result = res, to_error = Some e\<rparr>
         | (effects, Inr sink) \<Rightarrow>
             (let warm = emit_all sink (map (\<lambda>sequence.
                    fst (application (bw_sha256 w) cfg (bg_TrialID cfg @ ''-warmup'') sequence))
                    [0..<nat (bg_Warmup cfg)]);
                  (flushed, flushErr) = ls_flush sink 0;
                  (closed, closeErr) = ls_close sink;
                  values = errs_add flushErr (bw_asyncErrors w 0)
              in if values \<noteq> []
                 then Some \<lparr>to_effects = effects @ flushed @ closed, to_emitted = warm,
                            to_result = res \<lparr> br_Errors := values \<rparr>,
                            to_error = Some (''warmup logging failed: '' @ percent_v_strings values)\<rparr>
                 else
                   (let s = run_schedule (bw_sha256 w) cfg sched (trial_start cfg);
                        emitted = warm @ emit_all sink (ts_emitted s)
                    in if \<not> workers_done cfg s then None
                       else
                         (case bw_usage w 0 of
                            Inl e \<Rightarrow>
                              Some \<lparr>to_effects = effects @ flushed @ closed, to_emitted = emitted,
                                    to_result = res, to_error = Some e\<rparr>
                          | Inr usageBefore \<Rightarrow>
                              (let (flushed1, flushErr1) = ls_flush sink 1;
                                   (usageAfter, usageErr) =
                                     (case bw_usage w 1 of Inl e \<Rightarrow> (zero_usage, Some e) | Inr u \<Rightarrow> (u, None));
                                   errs = trial_errors w flushErr1 usageErr closeErr;
                                   res = (measured_result w cfg usageBefore usageAfter s res) \<lparr> br_Errors := errs \<rparr>
                               in Some \<lparr>to_effects = effects @ flushed @ flushed1 @ closed, to_emitted = emitted,
                                        to_result = res,
                                        to_error = (if errs \<noteq> []
                                                    then Some (''logging failed: '' @ percent_v_strings errs)
                                                    else None)\<rparr>)))))"

section \<open>The command\<close>

text \<open>The file system of a run: opening the directory, writing a file in it, closing it.\<close>

record resultFS =
  fs_OpenRoot :: "gostring \<Rightarrow> gostring option"
  fs_WriteFile :: "gostring \<Rightarrow> gostring \<Rightarrow> gostring option"
  fs_Close :: "gostring option"
  fs_Dir :: "gostring \<Rightarrow> gostring"
  fs_Base :: "gostring \<Rightarrow> gostring"

text \<open>The file written, if writing was reached, and the error.\<close>

definition writeResult :: "resultFS \<Rightarrow> gostring \<Rightarrow> gostring \<Rightarrow> (gostring \<times> gostring) option \<times> gostring option" where
  "writeResult fs path data =
     (case fs_OpenRoot fs (fs_Dir fs path) of
        Some e \<Rightarrow> (None, Some (''open result directory: '' @ e))
      | None \<Rightarrow>
          (Some (fs_Base fs path, data),
           map_option (\<lambda>e. ''write result file: '' @ e)
             (errors_Join [fs_WriteFile fs (fs_Base fs path) data, fs_Close fs])))"

text \<open>
  \<open>encode\<close> is \<^verbatim>\<open>json.MarshalIndent\<close>. The result: the outcome of the trial with the
  result as it is written, the file, the error of the command.
\<close>

record benchRun =
  rn_trial :: "(benchEffect list \<times> emission list) option"
  rn_result :: "benchResult option"
  rn_file :: "(gostring \<times> gostring) option"
  rn_error :: "gostring option"

definition finish_run ::
  "(benchResult \<Rightarrow> gostring + gostring) \<Rightarrow> resultFS \<Rightarrow> benchConfig \<Rightarrow> trialOutcome \<Rightarrow> benchRun" where
  "finish_run encode fs cfg t =
     (let res = (case to_error t of
            Some e \<Rightarrow> if br_Errors (to_result t) = [] then (to_result t) \<lparr> br_Errors := [e] \<rparr> else to_result t
          | None \<Rightarrow> to_result t);
          trial = Some (to_effects t, to_emitted t)
      in case encode res of
           Inl e \<Rightarrow> \<lparr>rn_trial = trial, rn_result = Some res, rn_file = None,
                     rn_error = errors_Join [to_error t, Some e]\<rparr>
         | Inr encoded \<Rightarrow>
             (case writeResult fs (bg_ResultFile cfg) (encoded @ [CHR 0x0A]) of
                (saved, Some e) \<Rightarrow> \<lparr>rn_trial = trial, rn_result = Some res, rn_file = saved,
                                      rn_error = errors_Join [to_error t, Some e]\<rparr>
              | (saved, None) \<Rightarrow> \<lparr>rn_trial = trial, rn_result = Some res, rn_file = saved,
                                    rn_error = to_error t\<rparr>))"

definition bench_run ::
  "benchWorld \<Rightarrow> benchRuntime \<Rightarrow> (nat \<times> int \<times> int \<times> int) list \<Rightarrow> (benchResult \<Rightarrow> gostring + gostring) \<Rightarrow> resultFS
     \<Rightarrow> (benchConfig \<Rightarrow> benchConfig \<times> (gostring + gostring list)) \<Rightarrow> benchRun option" where
  "bench_run w info sched encode fs parse =
     (case parseConfig (bw_environ w) parse of
        (cfg, Some e) \<Rightarrow> Some \<lparr>rn_trial = None, rn_result = None, rn_file = None, rn_error = Some e\<rparr>
      | (cfg, None) \<Rightarrow> map_option (finish_run encode fs cfg) (runTrial w info sched cfg))"

end
