(* ===== verification/BenchmarkProps.thy ===== *)
theory BenchmarkProps
  imports BenchmarkTrial "HOL-Library.Multiset"
begin

text \<open>
  What a trial measures is the workload that was asked for, however the workers interleave; its
  result tells whether logging failed; the client it opened is closed.
\<close>

section \<open>The workers share out the sequences\<close>

lemma xor_fold: "fold (\<lambda>x c. c XOR x) xs (a :: 64 word) = a XOR fold (\<lambda>x c. c XOR x) xs 0"
proof (induction xs arbitrary: a)
  case (Cons x xs)
  show ?case using Cons.IH [of "a XOR x"] Cons.IH [of x] by (simp add: xor.assoc)
qed simp

lemma combine_Cons: "combineChecksums (x # xs) = x XOR combineChecksums xs"
  by (simp add: combineChecksums_def xor_fold [of xs x])

lemma combine_Nil [simp]: "combineChecksums [] = 0" by (simp add: combineChecksums_def)

lemma combine_append [simp]: "combineChecksums (xs @ ys) = combineChecksums xs XOR combineChecksums ys"
  by (induction xs) (simp_all add: combine_Cons xor.assoc)

lemma combine_replicate_zero [simp]: "combineChecksums (replicate n 0) = 0"
  by (induction n) (simp_all add: combine_Cons)

lemma combine_update:
  "w < length xs \<Longrightarrow> combineChecksums (xs[w := xs ! w XOR c]) = combineChecksums xs XOR c"
proof (induction xs arbitrary: w)
  case (Cons x xs)
  then show ?case by (cases w) (simp_all add: combine_Cons ac_simps)
qed simp

lemma combine_perm: "mset xs = mset ys \<Longrightarrow> combineChecksums xs = combineChecksums ys"
proof (induction xs arbitrary: ys)
  case (Cons x xs)
  then have "x \<in> set ys" by (metis list.set_intros(1) set_mset_mset)
  then obtain us vs where ys: "ys = us @ x # vs" by (auto dest: split_list)
  then have "combineChecksums xs = combineChecksums (us @ vs)" using Cons.IH [of "us @ vs"] Cons.prems by simp
  then show ?case by (simp add: ys combine_Cons ac_simps)
qed simp

definition event_at :: "(gostring \<Rightarrow> gostring) \<Rightarrow> benchConfig \<Rightarrow> nat \<Rightarrow> benchEvent" where
  "event_at sha256 cfg i = fst (application sha256 cfg (bg_TrialID cfg) i)"

definition checksum_at :: "(gostring \<Rightarrow> gostring) \<Rightarrow> benchConfig \<Rightarrow> nat \<Rightarrow> 64 word" where
  "checksum_at sha256 cfg i = snd (application sha256 cfg (bg_TrialID cfg) i)"

text \<open>
  The sequences that are finished in a state, and the invariant: a worker's next sequence is its own
  (it has the worker's residue), the finished ones were emitted once each, and the checksums of
  the workers combine to that of the finished sequences.
\<close>

definition finished_sequences :: "benchConfig \<Rightarrow> trialState \<Rightarrow> nat set" where
  "finished_sequences cfg s =
     {i. i < nat (bg_Count cfg) \<and> i < ts_next s ! (i mod nat (bg_Concurrency cfg))}"

definition trial_inv :: "(gostring \<Rightarrow> gostring) \<Rightarrow> benchConfig \<Rightarrow> trialState \<Rightarrow> nat list \<Rightarrow> bool" where
  "trial_inv sha256 cfg s order \<longleftrightarrow>
     length (ts_next s) = nat (bg_Concurrency cfg) \<and> length (ts_checksums s) = nat (bg_Concurrency cfg) \<and>
     (\<forall>w < nat (bg_Concurrency cfg). ts_next s ! w mod nat (bg_Concurrency cfg) = w) \<and>
     distinct order \<and> set order = finished_sequences cfg s \<and>
     ts_emitted s = map (event_at sha256 cfg) order \<and>
     combineChecksums (ts_checksums s) = combineChecksums (map (checksum_at sha256 cfg) order)"

lemma start_inv:
  assumes "0 < bg_Concurrency cfg"
  shows "trial_inv sha256 cfg (trial_start cfg) []"
proof -
  have "i mod nat (bg_Concurrency cfg) \<le> i" for i by simp
  then have "finished_sequences cfg (trial_start cfg) = {}"
    using assms by (auto simp: finished_sequences_def trial_start_def not_less)
  then show ?thesis by (simp add: trial_inv_def trial_start_def)
qed

lemma same_residue:
  assumes "i mod c = q mod c" and "q \<le> i" and "i < q + c"
  shows "i = (q :: nat)"
proof -
  obtain k where k: "i = q + c * k" using assms(1,2) by (metis mod_eq_nat1E)
  then have "c * k < c" using assms(3) by simp
  then show ?thesis using k by simp
qed

lemma finished_step:
  assumes "worker_ready cfg w s" and "length (ts_next s) = nat (bg_Concurrency cfg)"
    and "ts_next s ! w mod nat (bg_Concurrency cfg) = w"
  shows "finished_sequences cfg (worker_iteration sha256 cfg w readings s)
      = insert (ts_next s ! w) (finished_sequences cfg s)"
    and "ts_next s ! w \<notin> finished_sequences cfg s"
proof -
  let ?c = "nat (bg_Concurrency cfg)" and ?q = "ts_next s ! w"
  have w: "w < ?c" "?q < nat (bg_Count cfg)" using assms(1) by (simp_all add: worker_ready_def)
  have next_: "ts_next (worker_iteration sha256 cfg w readings s) = (ts_next s)[w := ?q + ?c]"
    by (simp add: worker_iteration_def Let_def split: prod.split)
  have "i < (ts_next s)[w := ?q + ?c] ! (i mod ?c) \<longleftrightarrow> i = ?q \<or> i < ts_next s ! (i mod ?c)" for i
  proof (cases "i mod ?c = w")
    case True
    then have "\<not> i < ?q \<Longrightarrow> i < ?q + ?c \<Longrightarrow> i = ?q" using same_residue [of i ?c ?q] assms(3) by simp
    then show ?thesis using True w assms(2) by auto
  next
    case False
    then show ?thesis using assms(3) by auto
  qed
  then show "finished_sequences cfg (worker_iteration sha256 cfg w readings s) = insert ?q (finished_sequences cfg s)"
    using w(2) by (auto simp: finished_sequences_def next_)
  show "?q \<notin> finished_sequences cfg s" using assms(3) by (simp add: finished_sequences_def)
qed

lemma step_inv:
  assumes "trial_step sha256 cfg s s'" and "trial_inv sha256 cfg s order"
  shows "\<exists>q. trial_inv sha256 cfg s' (order @ [q])"
  using assms(1)
proof (cases rule: trial_step.cases)
  case (iteration w readings)
  let ?q = "ts_next s ! w"
  have inv: "length (ts_next s) = nat (bg_Concurrency cfg)" "length (ts_checksums s) = nat (bg_Concurrency cfg)"
    "ts_next s ! w mod nat (bg_Concurrency cfg) = w" and w: "w < nat (bg_Concurrency cfg)"
    using assms(2) iteration(2) by (auto simp: trial_inv_def worker_ready_def)
  have fields: "ts_next s' = (ts_next s)[w := ?q + nat (bg_Concurrency cfg)]"
    "ts_emitted s' = ts_emitted s @ [event_at sha256 cfg ?q]"
    "ts_checksums s' = (ts_checksums s)[w := ts_checksums s ! w XOR checksum_at sha256 cfg ?q]"
    by (simp_all add: iteration(1) worker_iteration_def event_at_def checksum_at_def Let_def split: prod.split)
  have fin: "finished_sequences cfg s' = insert ?q (finished_sequences cfg s)" "?q \<notin> finished_sequences cfg s"
    using finished_step [OF iteration(2) inv(1,3)] by (simp_all add: iteration(1))
  have "\<forall>v < nat (bg_Concurrency cfg). ts_next s' ! v mod nat (bg_Concurrency cfg) = v"
    using assms(2) inv w by (auto simp: trial_inv_def fields nth_list_update)
  then have "trial_inv sha256 cfg s' (order @ [?q])"
    using assms(2) fin w inv unfolding trial_inv_def fin(1)
    by (simp add: fields(2,3) combine_update combine_Cons) (simp add: fields(1))
  then show ?thesis ..
qed

lemma reachable_inv:
  assumes "(trial_step sha256 cfg)\<^sup>*\<^sup>* (trial_start cfg) s" and "0 < bg_Concurrency cfg"
  shows "\<exists>order. trial_inv sha256 cfg s order"
  using assms(1)
proof (induction rule: rtranclp_induct)
  case base
  show ?case using start_inv [OF assms(2)] by blast
next
  case (step s s')
  then show ?case using step_inv by blast
qed

lemma done_all:
  assumes "workers_done cfg s" and "trial_inv sha256 cfg s order" and "0 < bg_Concurrency cfg"
  shows "mset order = mset [0..<nat (bg_Count cfg)]"
proof -
  have "i < ts_next s ! (i mod nat (bg_Concurrency cfg))" if "i < nat (bg_Count cfg)" for i
  proof -
    have "i mod nat (bg_Concurrency cfg) < length (ts_next s)" using assms(2,3) by (simp add: trial_inv_def)
    then have "nat (bg_Count cfg) \<le> ts_next s ! (i mod nat (bg_Concurrency cfg))"
      using assms(1) unfolding workers_done_def list_all_length by blast
    then show ?thesis using that by simp
  qed
  then have "finished_sequences cfg s = {i. i < nat (bg_Count cfg)}" by (auto simp: finished_sequences_def)
  then have "set order = set [0..<nat (bg_Count cfg)]" "distinct order"
    using assms(2) by (auto simp: trial_inv_def)
  then show ?thesis by (metis distinct_upt set_eq_iff_mset_eq_distinct)
qed

lemma schedule_steps: "(trial_step sha256 cfg)\<^sup>*\<^sup>* s (run_schedule sha256 cfg sched s)"
proof (induction sha256 cfg sched s rule: run_schedule.induct)
  case (2 sha256 cfg w readings sched s)
  then show ?case
    by (cases "worker_ready cfg w s") (auto intro: converse_rtranclp_into_rtranclp trial_step.iteration)
qed simp

lemma trial_work_holds:
  assumes "(trial_step sha256 cfg)\<^sup>*\<^sup>* (trial_start cfg) s" and "workers_done cfg s"
    and "validateWorkload cfg = None"
  shows "mset (ts_emitted s) = mset (map (event_at sha256 cfg) [0..<nat (bg_Count cfg)])
    \<and> combineChecksums (ts_checksums s) = combineChecksums (map (checksum_at sha256 cfg) [0..<nat (bg_Count cfg)])"
proof -
  have c: "0 < bg_Concurrency cfg" using assms(3) by (auto simp: validateWorkload_def split: if_splits)
  obtain order where inv: "trial_inv sha256 cfg s order" using reachable_inv [OF assms(1) c] by blast
  have perm: "mset order = mset [0..<nat (bg_Count cfg)]" by (rule done_all [OF assms(2) inv c])
  have "combineChecksums (map (checksum_at sha256 cfg) order)
      = combineChecksums (map (checksum_at sha256 cfg) [0..<nat (bg_Count cfg)])"
    by (rule combine_perm) (simp only: mset_map perm)
  then show ?thesis using inv perm by (simp add: trial_inv_def)
qed

text \<open>
  C26. The measured work does not depend on how it is shared out: whatever the number of workers and
  however their iterations interleave, when all are done every request of the trial was logged exactly
  once, and the checksum is that of a single worker taking the requests in order.
\<close>

theorem trial_work_is_sequential:
  assumes "(trial_step sha256 cfg)\<^sup>*\<^sup>* (trial_start cfg) s" and "workers_done cfg s"
    and "validateWorkload cfg = None"
  shows "mset (ts_emitted s)
      = mset (map (\<lambda>i. fst (application sha256 cfg (bg_TrialID cfg) i)) [0..<nat (bg_Count cfg)])
    \<and> combineChecksums (ts_checksums s)
      = combineChecksums (map (\<lambda>i. snd (application sha256 cfg (bg_TrialID cfg) i)) [0..<nat (bg_Count cfg)])"
  using trial_work_holds [OF assms] by (simp add: event_at_def [abs_def] checksum_at_def [abs_def])

section \<open>Termination\<close>

lemma steps_inv:
  assumes "(trial_step sha256 cfg ^^ n) (trial_start cfg) s" and "0 < bg_Concurrency cfg"
  shows "\<exists>order. trial_inv sha256 cfg s order \<and> length order = n"
  using assms(1)
proof (induction n arbitrary: s)
  case 0
  then show ?case using start_inv [OF assms(2)] by auto
next
  case (Suc n)
  then obtain s0 where "(trial_step sha256 cfg ^^ n) (trial_start cfg) s0" and s0: "trial_step sha256 cfg s0 s" by auto
  then obtain order where "trial_inv sha256 cfg s0 order" "length order = n" using Suc.IH by blast
  then show ?case using step_inv [OF s0] by fastforce
qed

lemma all_finished_done:
  assumes "trial_inv sha256 cfg s order" and "finished_sequences cfg s = {i. i < nat (bg_Count cfg)}"
  shows "workers_done cfg s"
  unfolding workers_done_def list_all_length
proof (intro allI impI)
  fix w
  assume "w < length (ts_next s)"
  then have "ts_next s ! w mod nat (bg_Concurrency cfg) = w" using assms(1) by (simp add: trial_inv_def)
  then have "ts_next s ! w \<notin> finished_sequences cfg s" by (simp add: finished_sequences_def)
  then show "nat (bg_Count cfg) \<le> ts_next s ! w" using assms(2) by (simp add: not_less)
qed

text \<open>
  A trial ends: it takes exactly as many iterations as it has requests, on whatever workers; until
  then some worker can go on.
\<close>

theorem trial_takes_count_steps:
  assumes "(trial_step sha256 cfg ^^ n) (trial_start cfg) s" and "validateWorkload cfg = None"
  shows "n \<le> nat (bg_Count cfg) \<and> (workers_done cfg s \<longleftrightarrow> n = nat (bg_Count cfg))
    \<and> (n < nat (bg_Count cfg) \<longrightarrow> (\<exists>s'. trial_step sha256 cfg s s'))"
proof -
  have c: "0 < bg_Concurrency cfg" using assms(2) by (auto simp: validateWorkload_def split: if_splits)
  obtain order where inv: "trial_inv sha256 cfg s order" and n: "length order = n"
    using steps_inv [OF assms(1) c] by blast
  have fin: "finished_sequences cfg s \<subseteq> {i. i < nat (bg_Count cfg)}" "card (finished_sequences cfg s) = n"
    using inv n distinct_card [of order] by (auto simp: finished_sequences_def trial_inv_def)
  have le: "n \<le> nat (bg_Count cfg)" using card_mono [OF _ fin(1)] fin(2) by simp
  have "workers_done cfg s \<longleftrightarrow> n = nat (bg_Count cfg)"
  proof
    assume "workers_done cfg s"
    then have "mset order = mset [0..<nat (bg_Count cfg)]" by (rule done_all [OF _ inv c])
    then show "n = nat (bg_Count cfg)" using n by (metis length_upt minus_nat.diff_0 size_mset)
  next
    assume "n = nat (bg_Count cfg)"
    then have "finished_sequences cfg s = {i. i < nat (bg_Count cfg)}"
      using fin by (intro card_subset_eq) simp_all
    then show "workers_done cfg s" by (rule all_finished_done [OF inv])
  qed
  moreover have "\<exists>s'. trial_step sha256 cfg s s'" if open_: "\<not> workers_done cfg s"
  proof -
    obtain w where "worker_ready cfg w s"
      using open_ inv by (auto simp: workers_done_def worker_ready_def list_all_length trial_inv_def not_le)
    then show ?thesis using trial_step.iteration by blast
  qed
  ultimately show ?thesis using le by auto
qed

section \<open>Quantiles\<close>

lemma filter_sorted:
  assumes "sorted xs" and "k < length xs"
  shows "k + 1 \<le> length (filter (\<lambda>x. x \<le> xs ! k) xs)" and "length (filter (\<lambda>x. x < xs ! k) xs) \<le> k"
proof -
  have "list_all (\<lambda>x. x \<le> xs ! k) (take (k + 1) xs)"
    using assms by (auto simp: list_all_length sorted_iff_nth_mono)
  then have "filter (\<lambda>x. x \<le> xs ! k) (take (k + 1) xs) = take (k + 1) xs"
    by (simp add: list_all_iff filter_id_conv)
  moreover have "filter (\<lambda>x. x \<le> xs ! k) xs = filter (\<lambda>x. x \<le> xs ! k) (take (k + 1) xs)
      @ filter (\<lambda>x. x \<le> xs ! k) (List.drop (k + 1) xs)"
    by (metis filter_append append_take_drop_id)
  ultimately show "k + 1 \<le> length (filter (\<lambda>x. x \<le> xs ! k) xs)" using assms(2) by simp
  have "filter (\<lambda>x. x < xs ! k) (List.drop k xs) = []"
    using assms by (auto simp: filter_empty_conv in_set_conv_nth sorted_iff_nth_mono not_less)
  moreover have "filter (\<lambda>x. x < xs ! k) xs = filter (\<lambda>x. x < xs ! k) (take k xs)
      @ filter (\<lambda>x. x < xs ! k) (List.drop k xs)"
    by (metis filter_append append_take_drop_id)
  ultimately show "length (filter (\<lambda>x. x < xs ! k) xs) \<le> k"
    using length_filter_le [of "\<lambda>x. x < xs ! k" "take k xs"] by simp
qed

lemma filter_sort_length: "length (filter P (sort xs)) = length (filter P xs)"
  by (metis mset_filter mset_sort size_mset)

definition covers :: "nat \<Rightarrow> int list \<Rightarrow> int \<Rightarrow> bool" where
  "covers percent samples v \<longleftrightarrow> v \<in> set samples
     \<and> percent * length samples \<le> 100 * length (filter (\<lambda>x. x \<le> v) samples)
     \<and> 100 * length (filter (\<lambda>x. x < v) samples) < percent * length samples"

text \<open>The ceiling of a hundredth of \<open>m\<close>.\<close>

lemma ceil_bounds:
  fixes m :: nat
  shows "m \<le> 100 * ((m + 99) div 100)" and "0 < m \<Longrightarrow> 100 * ((m + 99) div 100 - 1) < m"
    and "0 < m \<Longrightarrow> 0 < (m + 99) div 100" and "m \<le> 100 * n \<Longrightarrow> (m + 99) div 100 \<le> n"
proof -
  define q r where "q = (m + 99) div 100" and "r = (m + 99) mod 100"
  have "m + 99 = 100 * q + r" "r < 100" unfolding q_def r_def by simp_all
  then show "m \<le> 100 * ((m + 99) div 100)" "0 < m \<Longrightarrow> 100 * ((m + 99) div 100 - 1) < m"
    "0 < m \<Longrightarrow> 0 < (m + 99) div 100" "m \<le> 100 * n \<Longrightarrow> (m + 99) div 100 \<le> n"
    unfolding q_def [symmetric] by linarith+
qed

lemma rank_bounds:
  assumes "0 < percent" and "percent \<le> 100" and "0 < n"
  shows "0 < nearest_rank percent n" and "nearest_rank percent n \<le> n"
    and "percent * n \<le> 100 * nearest_rank percent n" and "100 * (nearest_rank percent n - 1) < percent * n"
proof -
  have pos: "0 < percent * n" using assms by simp
  have "percent * n \<le> 100 * n" using assms(2) by (rule mult_le_mono1)
  then show "nearest_rank percent n \<le> n" unfolding nearest_rank_def by (rule ceil_bounds(4))
  show "0 < nearest_rank percent n" "percent * n \<le> 100 * nearest_rank percent n"
    "100 * (nearest_rank percent n - 1) < percent * n"
    unfolding nearest_rank_def using ceil_bounds(1) ceil_bounds(2,3) [OF pos] by blast+
qed

lemma value_covers:
  assumes "samples \<noteq> []" and "0 < percent" and "percent \<le> 100"
  shows "covers percent samples (sort samples ! (nearest_rank percent (length samples) - 1))"
proof -
  let ?n = "length samples" and ?k = "nearest_rank percent (length samples) - 1"
  have n: "0 < ?n" using assms(1) by simp
  note r = rank_bounds [OF assms(2,3) n]
  have k: "?k < length (sort samples)" using r(1,2) n by simp
  have "sort samples ! ?k \<in> set samples" using nth_mem [OF k] by simp
  then show ?thesis
    using filter_sorted [OF sorted_sort k] r assms(1) unfolding covers_def filter_sort_length by auto
qed

text \<open>
  The latency summary is the nearest-rank one: each percentile is a sample that at least so many
  per cent of the samples do not exceed and fewer than so many per cent are below; they are in order,
  and the maximum is the largest sample.
\<close>

theorem summarize_nearest_rank:
  assumes "samples \<noteq> []"
  shows "covers 50 samples (q_P50 (summarize samples)) \<and> covers 95 samples (q_P95 (summarize samples))
    \<and> covers 99 samples (q_P99 (summarize samples))
    \<and> q_P50 (summarize samples) \<le> q_P95 (summarize samples)
    \<and> q_P95 (summarize samples) \<le> q_P99 (summarize samples)
    \<and> q_P99 (summarize samples) \<le> q_Max (summarize samples)
    \<and> q_Max (summarize samples) = Max (set samples)"
proof -
  let ?s = "sort samples" and ?r = "\<lambda>p. nearest_rank p (length samples) - 1"
  have n: "0 < length samples" using assms by simp
  have le: "?r p \<le> length samples - 1" if "0 < p" "p \<le> 100" for p
    using rank_bounds(2) [OF that n] by simp
  have mono: "?r p \<le> ?r q" if "p \<le> q" for p q
    using that by (simp add: nearest_rank_def div_le_mono diff_le_mono)
  have at: "?s ! i \<le> ?s ! j" if "i \<le> j" "j \<le> length samples - 1" for i j
    using that n by (intro sorted_nth_mono) (auto simp: le_diff_conv2)
  have max: "?s ! (length samples - 1) = Max (set samples)"
  proof (rule sym, rule Max_eqI)
    fix y
    assume "y \<in> set samples"
    then obtain i where "i < length samples" "y = ?s ! i" by (metis in_set_conv_nth length_sort set_sort)
    then show "y \<le> ?s ! (length samples - 1)" using at [of i "length samples - 1"] by simp
  next
    show "?s ! (length samples - 1) \<in> set samples"
      using nth_mem [of "length samples - 1" ?s] n by simp
  qed simp
  show ?thesis
    using value_covers [OF assms] at [OF mono le] at [OF le] max assms by (simp add: summarize_def Let_def)
qed

section \<open>Sinks\<close>

text \<open>What each mode logs for an event; the two transports of the library log the same record.\<close>

definition mode_emission :: "benchWorld \<Rightarrow> benchConfig \<Rightarrow> benchEvent \<Rightarrow> emission option" where
  "mode_emission w cfg ev =
     (if bg_Mode cfg = ''none'' then None
      else if bg_Mode cfg = ''slogcp'' \<or> bg_Mode cfg = modeSlogcpGRPC
      then Some (slog_emission (executionLabels (bw_environ w)) ev)
      else Some (google_emission (bw_serviceContext w) (executionLabels (bw_environ w)) ev))"

lemmas sink_simps = newLogSink_def newSlogcpGRPCSink_def slogSink_def Let_def

lemma sink_emits: "newLogSink w cfg = (effects, Inr sink) \<Longrightarrow> ls_emit sink = mode_emission w cfg"
  by (auto simp: sink_simps mode_emission_def fun_eq_iff modeSlogcpGRPC_def split: if_splits option.splits prod.splits)

fun client_balance :: "benchEffect list \<Rightarrow> int" where
  "client_balance [] = 0"
| "client_balance (OpenedClient _ _ # effects) = client_balance effects + 1"
| "client_balance (ClosedClient # effects) = client_balance effects - 1"
| "client_balance (_ # effects) = client_balance effects"

lemma client_balance_append [simp]: "client_balance (xs @ ys) = client_balance xs + client_balance ys"
  by (induction xs rule: client_balance.induct) simp_all

lemma sink_balance:
  "newLogSink w cfg = (effects, Inl e) \<Longrightarrow> client_balance effects = 0"
  "newLogSink w cfg = (effects, Inr sink) \<Longrightarrow>
     client_balance (fst (ls_flush sink k)) = 0 \<and> client_balance effects + client_balance (fst (ls_close sink)) = 0"
  by (auto simp: sink_simps split: if_splits option.splits prod.splits)

text \<open>Whatever goes wrong in a trial, the client that was opened is closed, once.\<close>

lemma trial_closes_client:
  assumes "runTrial w info sched cfg = Some t"
  shows "client_balance (to_effects t) = 0"
proof (cases "newLogSink w cfg")
  case (Pair effects r)
  show ?thesis
  proof (cases r)
    case (Inl e)
    then show ?thesis using assms Pair sink_balance(1) [of w cfg] by (auto simp: runTrial_def Let_def)
  next
    case (Inr sink)
    note b = sink_balance(2) [OF Pair [unfolded Inr]]
    show ?thesis
      using assms b [of 0] b [of 1] Pair Inr
      by (auto simp: runTrial_def Let_def case_prod_beta split: if_splits sum.splits)
  qed
qed

section \<open>The run\<close>

definition mode_log :: "benchWorld \<Rightarrow> benchConfig \<Rightarrow> benchEvent list \<Rightarrow> emission list" where
  "mode_log w cfg evs = concat (map (\<lambda>ev. case mode_emission w cfg ev of None \<Rightarrow> [] | Some e \<Rightarrow> [e]) evs)"

lemma mode_log_perm: "mset xs = mset ys \<Longrightarrow> mset (mode_log w cfg xs) = mset (mode_log w cfg ys)"
proof (induction xs arbitrary: ys)
  case (Cons x xs)
  then have "x \<in> set ys" by (metis list.set_intros(1) set_mset_mset)
  then obtain us vs where ys: "ys = us @ x # vs" by (auto dest: split_list)
  then have "mset (mode_log w cfg xs) = mset (mode_log w cfg (us @ vs))"
    using Cons.IH [of "us @ vs"] Cons.prems by simp
  then show ?case by (simp add: ys mode_log_def)
qed simp

text \<open>The requests of a trial and its warm-up, in order.\<close>

definition trial_events :: "(gostring \<Rightarrow> gostring) \<Rightarrow> benchConfig \<Rightarrow> benchEvent list" where
  "trial_events sha256 cfg = map (event_at sha256 cfg) [0..<nat (bg_Count cfg)]"

definition warmup_events :: "(gostring \<Rightarrow> gostring) \<Rightarrow> benchConfig \<Rightarrow> benchEvent list" where
  "warmup_events sha256 cfg =
     map (\<lambda>i. fst (application sha256 cfg (bg_TrialID cfg @ ''-warmup'') i)) [0..<nat (bg_Warmup cfg)]"

lemma measured_checksum [simp]:
  "br_Checksum (measured_result w cfg u0 u1 s res) = combineChecksums (ts_checksums s)"
  "br_Errors (measured_result w cfg u0 u1 s res) = br_Errors res"
  by (simp_all add: measured_result_def Let_def)

lemma trial_success:
  assumes "runTrial w info sched cfg = Some t" and "to_error t = None" and "validateWorkload cfg = None"
  shows "br_Errors (to_result t) = []
    \<and> br_Checksum (to_result t) = combineChecksums (map (checksum_at (bw_sha256 w) cfg) [0..<nat (bg_Count cfg)])
    \<and> mset (to_emitted t) = mset (mode_log w cfg (warmup_events (bw_sha256 w) cfg))
        + mset (mode_log w cfg (trial_events (bw_sha256 w) cfg))"
proof -
  define s where "s = run_schedule (bw_sha256 w) cfg sched (trial_start cfg)"
  obtain effects sink where sink: "newLogSink w cfg = (effects, Inr sink)"
    using assms(1,2) by (auto simp: runTrial_def Let_def split: prod.splits sum.splits)
  have emit: "emit_all sink evs = mode_log w cfg evs" for evs
    by (simp add: emit_all_def mode_log_def sink_emits [OF sink])
  have t: "workers_done cfg s" "br_Errors (to_result t) = []"
    "br_Checksum (to_result t) = combineChecksums (ts_checksums s)"
    "to_emitted t = mode_log w cfg (warmup_events (bw_sha256 w) cfg) @ mode_log w cfg (ts_emitted s)"
    using assms(1,2) sink
    by (auto simp: runTrial_def Let_def case_prod_beta emit s_def [symmetric] warmup_events_def
        split: if_splits sum.splits)
  have "(trial_step (bw_sha256 w) cfg)\<^sup>*\<^sup>* (trial_start cfg) s" unfolding s_def by (rule schedule_steps)
  then show ?thesis
    using trial_work_holds [OF _ t(1) assms(3)] t mode_log_perm [of "ts_emitted s" "trial_events (bw_sha256 w) cfg" w cfg]
    by (simp add: trial_events_def event_at_def [abs_def] checksum_at_def [abs_def])
qed

lemma errors_Join_None: "errors_Join es = None \<longleftrightarrow> list_all (\<lambda>e. e = None) es"
  by (auto simp: errors_Join_def Let_def list_all_iff split: option.splits)

lemma parsed_valid: "parseConfig env parse = (cfg, None) \<Longrightarrow> validateWorkload cfg = None"
proof -
  assume p: "parseConfig env parse = (cfg, None)"
  then obtain c where "validateWorkload c = None" "cfg = fst (configureProject env c)"
    by (auto simp: parseConfig_def errors_Join_None split: prod.splits sum.splits if_splits)
  then show ?thesis
    by (auto simp: configureProject_def validateWorkload_def Let_def split: if_splits)
qed

lemma finish_run_ok:
  assumes "rn_error (finish_run encode fs cfg t) = None"
  shows "to_error t = None \<and> rn_trial (finish_run encode fs cfg t) = Some (to_effects t, to_emitted t)
    \<and> rn_result (finish_run encode fs cfg t) = Some (to_result t)
    \<and> (\<exists>encoded. encode (to_result t) = Inr encoded
        \<and> rn_file (finish_run encode fs cfg t) = Some (fs_Base fs (bg_ResultFile cfg), encoded @ [CHR 0x0A]))"
proof (cases "to_error t")
  case None
  then show ?thesis
    using assms
    by (cases "encode (to_result t)"; cases "fs_OpenRoot fs (fs_Dir fs (bg_ResultFile cfg))")
       (auto simp: finish_run_def Let_def writeResult_def errors_Join_None split: option.splits)
next
  case (Some e)
  then show ?thesis
    using assms by (auto simp: finish_run_def Let_def errors_Join_None split: sum.splits prod.splits option.splits)
qed

lemma run_parts:
  assumes "bench_run w info sched encode fs parse = Some r" and "rn_error r = None"
  shows "\<exists>cfg t. parseConfig (bw_environ w) parse = (cfg, None) \<and> runTrial w info sched cfg = Some t
    \<and> r = finish_run encode fs cfg t"
  using assms by (auto simp: bench_run_def split: prod.splits option.splits)

text \<open>
  C25. A benchmark run that reports no error measured what was asked for: the result was written, with
  no errors in it; its checksum is that of the sequential work; what was logged is, up to order, one
  entry of the mode for every warm-up and every measured request; and the client that was opened is
  closed.
\<close>

theorem run_success_is_complete:
  assumes "bench_run w info sched encode fs parse = Some r" and "rn_error r = None"
  shows "\<exists>cfg res effects emitted encoded. parseConfig (bw_environ w) parse = (cfg, None)
    \<and> rn_result r = Some res \<and> br_Errors res = []
    \<and> encode res = Inr encoded \<and> rn_file r = Some (fs_Base fs (bg_ResultFile cfg), encoded @ [CHR 0x0A])
    \<and> br_Checksum res
        = combineChecksums (map (\<lambda>i. snd (application (bw_sha256 w) cfg (bg_TrialID cfg) i)) [0..<nat (bg_Count cfg)])
    \<and> rn_trial r = Some (effects, emitted) \<and> client_balance effects = 0
    \<and> mset emitted = mset (mode_log w cfg (warmup_events (bw_sha256 w) cfg))
        + mset (mode_log w cfg (trial_events (bw_sha256 w) cfg))"
proof -
  obtain cfg t where p: "parseConfig (bw_environ w) parse = (cfg, None)"
    and t: "runTrial w info sched cfg = Some t" and r: "r = finish_run encode fs cfg t"
    using run_parts [OF assms] by blast
  note fin = finish_run_ok [OF assms(2) [unfolded r]]
  show ?thesis
    using p fin trial_success [OF t _ parsed_valid [OF p]] trial_closes_client [OF t]
    unfolding r checksum_at_def [abs_def] by blast
qed

definition demo_cfg :: benchConfig where
  "demo_cfg = \<lparr>bg_Mode = ''google-api'', bg_Payload = ''small'', bg_Count = 2, bg_Concurrency = 2, bg_Warmup = 1,
     bg_RunID = ''r'', bg_TrialID = ''t'', bg_Sink = ''stdout'', bg_Project = ''my-project'', bg_Location = [],
     bg_ResultFile = ''out.json''\<rparr>"

definition demo_world :: benchWorld where
  "demo_world =
     \<lparr>bw_environ = (\<lambda>_. []), bw_serviceContext = [], bw_newHandler = None, bw_handlerClose = None,
      bw_newClient = None, bw_clientClose = None, bw_loggerFlush = (\<lambda>_. None), bw_newExporter = None,
      bw_newExporterHandler = None, bw_exporterFlush = (\<lambda>_. None), bw_asyncErrors = (\<lambda>_. []),
      bw_sha256 = (\<lambda>s. s), bw_usage = (\<lambda>_. Inr zero_usage),
      bw_mem = (\<lambda>_. \<lparr>ms_TotalAlloc = 0, ms_Mallocs = 0, ms_NumGC = 0, ms_PauseTotalNs = 0\<rparr>),
      bw_stats = (\<lambda>_. (0, 0)), bw_started = 0, bw_produced = 10, bw_finished = 20, bw_perSecond = (\<lambda>_ _. 0)\<rparr>"

definition demo_fs :: resultFS where
  "demo_fs = \<lparr>fs_OpenRoot = (\<lambda>_. None), fs_WriteFile = (\<lambda>_ _. None), fs_Close = None, fs_Dir = (\<lambda>_. ''.''),
     fs_Base = (\<lambda>p. p)\<rparr>"

definition demo_runtime :: benchRuntime where
  "demo_runtime = \<lparr>rt_GoVersion = ''go'', rt_GOOS = ''linux'', rt_GOARCH = ''amd64'', rt_GOMAXPROCS = 2, rt_NumCPU = 2,
     rt_BuildSettings = [], rt_Dependencies = []\<rparr>"

text \<open>Two workers, the second first.\<close>

definition demo_schedule :: "(nat \<times> int \<times> int \<times> int) list" where
  "demo_schedule = [(1, 0, 1, 2), (0, 0, 1, 3)]"

lemma demo_cfg_valid: "validateWorkload demo_cfg = None" by code_simp

lemma demo_run_ok:
  "map_option rn_error (bench_run demo_world demo_runtime demo_schedule (\<lambda>_. Inr ''{}'') demo_fs (\<lambda>_. (demo_cfg, Inr [])))
     = Some None"
proof -
  have wd: "workers_done demo_cfg (run_schedule (\<lambda>s. s) demo_cfg demo_schedule (trial_start demo_cfg))" by code_simp
  have p: "parseConfig (\<lambda>_. []) (\<lambda>_. (demo_cfg, Inr [])) = (demo_cfg, None)" by code_simp
  have sink: "newLogSink demo_world demo_cfg = ([OpenedClient True ''my-project''], Inr
      \<lparr>ls_emit = (\<lambda>ev. Some (google_emission [] [] ev)), ls_flush = (\<lambda>k. ([FlushedLogger], None)),
       ls_close = ([ClosedClient], None)\<rparr>)"
    by (simp add: newLogSink_def demo_world_def demo_cfg_def modeSlogcpGRPC_def executionLabels_def Let_def)
  have fields: "bw_environ demo_world = (\<lambda>_. [])" "bw_sha256 demo_world = (\<lambda>s. s)" "bw_asyncErrors demo_world = (\<lambda>_. [])"
    "bw_usage demo_world = (\<lambda>_. Inr zero_usage)" "bw_produced demo_world = 10" "bw_started demo_world = 0"
    by (simp_all add: demo_world_def)
  have "\<exists>t. runTrial demo_world demo_runtime demo_schedule demo_cfg = Some t \<and> to_error t = None"
    by (simp add: runTrial_def sink fields wd errs_add_def trial_errors_def Let_def)
  then show ?thesis
    by (auto simp: bench_run_def finish_run_def fields p writeResult_def demo_fs_def errors_Join_def Let_def)
qed

theorem run_success_is_complete_witness:
  "\<exists>r. bench_run demo_world demo_runtime demo_schedule (\<lambda>_. Inr ''{}'') demo_fs (\<lambda>_. (demo_cfg, Inr [])) = Some r
    \<and> rn_file r = Some (''out.json'', ''{}'' @ [CHR 0x0A])
    \<and> (\<exists>effects emitted. rn_trial r = Some (effects, emitted) \<and> client_balance effects = 0)"
proof -
  obtain r where r: "bench_run demo_world demo_runtime demo_schedule (\<lambda>_. Inr ''{}'') demo_fs (\<lambda>_. (demo_cfg, Inr []))
      = Some r" "rn_error r = None"
    using demo_run_ok by (auto simp: map_option_case split: option.splits)
  have "parseConfig (bw_environ demo_world) (\<lambda>_. (demo_cfg, Inr [])) = (demo_cfg, None)" by code_simp
  moreover have "fs_Base demo_fs (bg_ResultFile demo_cfg) = ''out.json''" by (simp add: demo_fs_def demo_cfg_def)
  ultimately show ?thesis using run_success_is_complete [OF r] r(1) by auto
qed

theorem summarize_nearest_rank_witness:
  "q_P50 (summarize [30, 10, 20]) = 20 \<and> covers 50 [30, 10, 20] (q_P50 (summarize [30, 10, 20]))"
proof -
  have "q_P50 (summarize [30, 10, 20]) = 20" by code_simp
  then show ?thesis using summarize_nearest_rank [of "[30, 10, 20]"] by simp
qed

theorem trial_work_is_sequential_witness:
  "size (mset (ts_emitted (run_schedule (\<lambda>s. s) demo_cfg demo_schedule (trial_start demo_cfg)))) = 2"
proof -
  define s where "s = run_schedule (\<lambda>s. s) demo_cfg demo_schedule (trial_start demo_cfg)"
  have "workers_done demo_cfg s" unfolding s_def by code_simp
  then have "mset (ts_emitted s)
      = mset (map (\<lambda>i. fst (application (\<lambda>s. s) demo_cfg (bg_TrialID demo_cfg) i)) [0..<nat (bg_Count demo_cfg)])"
    using trial_work_is_sequential [of "\<lambda>s. s" demo_cfg s] schedule_steps demo_cfg_valid by (simp add: s_def)
  then have "size (mset (ts_emitted s)) = nat (bg_Count demo_cfg)" by (simp del: mset_map)
  then show ?thesis by (simp add: s_def demo_cfg_def)
qed

theorem trial_takes_count_steps_witness:
  "\<not> workers_done demo_cfg (trial_start demo_cfg)
   \<and> (\<exists>s'. trial_step (\<lambda>s. s) demo_cfg (trial_start demo_cfg) s')"
  using trial_takes_count_steps [of 0 "\<lambda>s. s" demo_cfg "trial_start demo_cfg"] demo_cfg_valid
  by (simp add: demo_cfg_def)

end
