(* ===== verification/HarnessTests.thy ===== *)
theory HarnessTests
  imports HarnessRun HarnessChecks
begin

text \<open>
  The bodies of the core logging tests (\<^verbatim>\<open>tests/core_logging.go\<close>). A test is a
  function of the clock and of what its suite remembers; it ends with a value, the error it
  reports or a panic, or (\<open>None\<close>) never. What it talks to is the client model: a request goes
  through \<open>sendLogRequest\<close>, a wait is \<open>WaitForLogs\<close>, \<open>WaitForLogCount\<close> or
  \<open>WaitForLogsJSON\<close>. The answers of the target, of the logging service and of the clients'
  random sources are functions of the time. Progress messages are left out.
\<close>

section \<open>Runs of a test\<close>

datatype 'a outcome = Value 'a | TestError gostring | TestPanic

text \<open>
  The severity logs are sent once per suite: \<open>tt_once\<close> is the \<^verbatim>\<open>sync.Once\<close> with the error
  it stored.
\<close>

record severityLogMetadata =
  sm_expected :: Severity
  sm_testID :: gostring

record testState =
  tt_now :: int
  tt_once :: "gostring option option"
  tt_severityLogs :: "severityLogMetadata gomap"

type_synonym 'a testRun = "testState \<Rightarrow> ('a outcome \<times> testState) option"

definition step :: "'a testRun \<Rightarrow> ('a \<Rightarrow> 'b testRun) \<Rightarrow> 'b testRun" where
  "step m k s =
     Option.bind (m s) (\<lambda>(r, s).
       case r of Value a \<Rightarrow> k a s | TestError e \<Rightarrow> Some (TestError e, s) | TestPanic \<Rightarrow> Some (TestPanic, s))"

definition succeed :: "'a \<Rightarrow> 'a testRun" where
  "succeed a s = Some (Value a, s)"

definition fail :: "gostring \<Rightarrow> 'a testRun" where
  "fail e s = Some (TestError e, s)"

definition ensure :: "bool \<Rightarrow> gostring \<Rightarrow> unit testRun" where
  "ensure ok e = (if ok then succeed () else fail e)"

text \<open>\<^verbatim>\<open>fmt.Errorf("prefix: %w", err)\<close>.\<close>

definition wrapping :: "gostring \<Rightarrow> 'a testRun \<Rightarrow> 'a testRun" where
  "wrapping wrapper m s =
     map_option (\<lambda>(r, s). (case r of TestError e \<Rightarrow> TestError (wrapper @ '': '' @ e) | _ \<Rightarrow> r, s)) (m s)"

text \<open>A wait of the clients, which moves the clock.\<close>

definition waiting :: "(int \<Rightarrow> 'a retryResult option) \<Rightarrow> 'a testRun" where
  "waiting f s =
     map_option
       (\<lambda>r. case r of
              Panics \<Rightarrow> (TestPanic, s)
            | Returns (Inl e) now _ \<Rightarrow> (TestError (er_text e), s \<lparr> tt_now := now \<rparr>)
            | Returns (Inr a) now _ \<Rightarrow> (Value a, s \<lparr> tt_now := now \<rparr>))
       (f (tt_now s))"

section \<open>What a suite is given\<close>

record clientOperation =
  cp_ID :: gostring
  cp_Producer :: gostring
  cp_First :: bool
  cp_Last :: bool

text \<open>A \<^verbatim>\<open>[]string\<close> among the attributes is written as a slice of values.\<close>

record clientLogRequest =
  cl_Message :: gostring
  cl_TestID :: gostring
  cl_Attributes :: "hval gomap"
  cl_Labels :: "gostring gomap"
  cl_Operation :: "clientOperation option"

record logReply =
  ly_Success :: bool
  ly_Message :: gostring

text \<open>
  The suite with its clients, and what stands for the world: the encoding of requests and of raw
  entries, the answer to a request sent at a time and how long it takes, the entries the
  logging service iterates, the REST API and the jitter of its retries, fresh identifiers, the
  hash, the time parser, the environment, the local time zone, the text of a time,
  \<^verbatim>\<open>strconv.ParseFloat\<close>, the text of \<^verbatim>\<open>%T\<close>.
\<close>

record testEnv =
  te_suite :: coreSuite
  te_testRunID :: gostring
  te_projectID :: gostring
  te_target :: TargetClient
  te_logging :: LoggingClient
  te_lib :: harnesslib
  te_encode :: "clientLogRequest \<Rightarrow> gostring + gostring"
  te_Do :: "int \<Rightarrow> (gostring + logReply) exchange"
  te_taking :: "int \<Rightarrow> nat"
  te_Entries :: "waitContext \<Rightarrow> gostring \<Rightarrow> int \<Rightarrow> iterItem list \<times> nat"
  te_api :: entriesAPI
  te_jitter :: "nat \<Rightarrow> int \<Rightarrow> int"
  te_uuid :: "int \<Rightarrow> gostring"
  te_sha256 :: "gostring \<Rightarrow> gostring"
  te_parseTime :: "gostring \<Rightarrow> gotime option"
  te_encodeEntry :: "hval gomap \<Rightarrow> gostring option"
  te_environ :: environ
  te_zone :: int
  te_timeText :: "gotime \<Rightarrow> gostring"
  te_parseFloat :: "gostring \<Rightarrow> 64 word option"
  te_typeText :: "hval \<Rightarrow> gostring"

definition logWaitTimeout :: int where
  "logWaitTimeout = 120 * second"

abbreviation minute :: int where "minute \<equiv> 60 * second"

definition before_now :: "testEnv \<Rightarrow> int \<Rightarrow> int \<Rightarrow> gotime" where
  "before_now env d now = \<lparr>unix_ns = now - d, zone = te_zone env\<rparr>"

definition te_validator :: "testEnv \<Rightarrow> LogValidator" where
  "te_validator env = NewLogValidator (te_projectID env)"

text \<open>An operation of the target client.\<close>

definition send_log :: "testEnv \<Rightarrow> logOperation \<Rightarrow> clientLogRequest \<Rightarrow> logReply testRun" where
  "send_log env op req s =
     (let s' = s \<lparr> tt_now := tt_now s + int (te_taking env (tt_now s)) \<rparr>
      in case sendLogRequest (te_target env) (te_Do env (tt_now s)) (log_endpoint op) (te_encode env req) of
           Inl e \<Rightarrow> Some (TestError e, s')
         | Inr reply \<Rightarrow> Some (Value reply, s'))"

definition wait_logs :: "testEnv \<Rightarrow> waitContext \<Rightarrow> QueryOptions \<Rightarrow> LogEntry list testRun" where
  "wait_logs env ctx opts = waiting (WaitForLogs (te_lib env) (te_Entries env) ctx opts logWaitTimeout)"

text \<open>A query by filter, from a time before now.\<close>

definition recent :: "testEnv \<Rightarrow> gostring \<Rightarrow> int \<Rightarrow> int \<Rightarrow> int \<Rightarrow> QueryOptions" where
  "recent env q d most now =
     \<lparr>qo_Filter = q, qo_StartTime = before_now env d now, qo_EndTime = zero_time, qo_MaxResults = most,
      qo_ResourceType = []\<rparr>"

definition wait_recent :: "testEnv \<Rightarrow> waitContext \<Rightarrow> gostring \<Rightarrow> int \<Rightarrow> int \<Rightarrow> LogEntry list testRun" where
  "wait_recent env ctx q d most s = wait_logs env ctx (recent env q d most (tt_now s)) s"

definition test_id_filter :: "gostring \<Rightarrow> gostring" where
  "test_id_filter tid = ''jsonPayload.test_id='' @ dquote @ tid @ dquote"

text \<open>The identifier of a test: the run, its name and the clock.\<close>

definition test_id :: "testEnv \<Rightarrow> gostring \<Rightarrow> int \<Rightarrow> gostring" where
  "test_id env name now = te_testRunID env @ ''-'' @ name @ ''-'' @ FormatInt now"

definition plain_request :: "gostring \<Rightarrow> gostring \<Rightarrow> clientLogRequest" where
  "plain_request msg tid =
     \<lparr>cl_Message = msg, cl_TestID = tid, cl_Attributes = [], cl_Labels = [], cl_Operation = None\<rparr>"

text \<open>\<^verbatim>\<open>entries[0]\<close>, or the error of a test that found none.\<close>

definition first_of :: "gostring \<Rightarrow> 'a list \<Rightarrow> 'a testRun" where
  "first_of e xs = (case xs of [] \<Rightarrow> fail e | x # _ \<Rightarrow> succeed x)"

definition checked :: "gostring \<Rightarrow> Result \<Rightarrow> unit testRun" where
  "checked wrapper r = ensure (Valid r) (wrapper @ '': '' @ Message r)"

text \<open>
  What most tests do: send a request, wait for the entries with its identifier, take the first.
\<close>

definition send_and_find ::
  "testEnv \<Rightarrow> waitContext \<Rightarrow> logOperation \<Rightarrow> clientLogRequest \<Rightarrow> gostring \<Rightarrow> gostring \<Rightarrow> gostring
     \<Rightarrow> LogEntry testRun" where
  "send_and_find env ctx op req notSent notFound noEntries =
     step (wrapping notSent (send_log env op req)) (\<lambda>_.
     step (wrapping notFound (wait_recent env ctx (test_id_filter (cl_TestID req)) minute 10))
       (first_of noEntries))"

section \<open>Severities\<close>

definition severity_definitions :: "(gostring \<times> Severity) list" where
  "severity_definitions =
     [(''default'', ''DEFAULT''), (''debug'', ''DEBUG''), (''info'', ''INFO''), (''notice'', ''NOTICE''),
      (''warning'', ''WARNING''), (''error'', ''ERROR''), (''critical'', ''CRITICAL''), (''alert'', ''ALERT''),
      (''emergency'', ''EMERGENCY'')]"

fun send_severities :: "testEnv \<Rightarrow> (gostring \<times> Severity) list \<Rightarrow> unit testRun" where
  "send_severities env [] s = succeed () s"
| "send_severities env ((endpoint, expected) # rest) s =
     (let tid = test_id env endpoint (tt_now s)
      in step
           (wrapping (''failed to log '' @ endpoint @ '' severity'')
             (send_log env (LogWithSeverity endpoint)
               (plain_request (''Testing '' @ endpoint @ '' severity level'') tid)))
           (\<lambda>_ s. send_severities env rest
              (s \<lparr> tt_severityLogs := mput endpoint \<lparr>sm_expected = expected, sm_testID = tid\<rparr> (tt_severityLogs s) \<rparr>))
           s)"

definition generateSeverityLogs :: "testEnv \<Rightarrow> unit testRun" where
  "generateSeverityLogs env = send_severities env severity_definitions"

text \<open>A panic inside the function of the \<^verbatim>\<open>Once\<close> counts as done, without an error.\<close>

definition ensureSeverityLogs :: "testEnv \<Rightarrow> unit testRun" where
  "ensureSeverityLogs env s =
     (case tt_once s of
        Some None \<Rightarrow> succeed () s
      | Some (Some e) \<Rightarrow> fail e s
      | None \<Rightarrow>
          map_option
            (\<lambda>(r, s). (r, s \<lparr> tt_once := Some (case r of TestError e \<Rightarrow> Some e | _ \<Rightarrow> None) \<rparr>))
            (generateSeverityLogs env s))"

definition severityMetadata :: "testEnv \<Rightarrow> gostring \<Rightarrow> Severity \<Rightarrow> severityLogMetadata testRun" where
  "severityMetadata env endpoint expected =
     step (ensureSeverityLogs env) (\<lambda>_ s.
       case map_of (tt_severityLogs s) endpoint of
         None \<Rightarrow> fail (''severity metadata not found for endpoint '' @ endpoint) s
       | Some metadata \<Rightarrow>
           if sm_expected metadata \<noteq> expected
           then fail (''unexpected expected severity for '' @ endpoint @ '': got '' @ sm_expected metadata @
                  '' want '' @ expected) s
           else succeed metadata s)"

definition testSeverityLevel :: "testEnv \<Rightarrow> waitContext \<Rightarrow> gostring \<Rightarrow> Severity \<Rightarrow> unit testRun" where
  "testSeverityLevel env ctx endpoint expected =
     step (severityMetadata env endpoint expected) (\<lambda>metadata.
     step (wrapping (''failed to find log for '' @ endpoint @ '' severity'')
             (wait_recent env ctx (test_id_filter (sm_testID metadata)) (5 * minute) 10)) (\<lambda>entries.
     step (first_of (''no log entries found for '' @ endpoint @ '' severity'') entries) (\<lambda>entry.
       checked (''severity validation failed for '' @ endpoint)
         (ValidateSeverity (Some entry) (sm_expected metadata)))))"

definition testDefaultSeverity :: "testEnv \<Rightarrow> waitContext \<Rightarrow> unit testRun" where
  "testDefaultSeverity env ctx = testSeverityLevel env ctx ''default'' ''DEFAULT''"

definition testDebugSeverity :: "testEnv \<Rightarrow> waitContext \<Rightarrow> unit testRun" where
  "testDebugSeverity env ctx = testSeverityLevel env ctx ''debug'' ''DEBUG''"

definition testInfoSeverity :: "testEnv \<Rightarrow> waitContext \<Rightarrow> unit testRun" where
  "testInfoSeverity env ctx = testSeverityLevel env ctx ''info'' ''INFO''"

definition testNoticeSeverity :: "testEnv \<Rightarrow> waitContext \<Rightarrow> unit testRun" where
  "testNoticeSeverity env ctx = testSeverityLevel env ctx ''notice'' ''NOTICE''"

definition testWarningSeverity :: "testEnv \<Rightarrow> waitContext \<Rightarrow> unit testRun" where
  "testWarningSeverity env ctx = testSeverityLevel env ctx ''warning'' ''WARNING''"

definition testErrorSeverity :: "testEnv \<Rightarrow> waitContext \<Rightarrow> unit testRun" where
  "testErrorSeverity env ctx = testSeverityLevel env ctx ''error'' ''ERROR''"

definition testCriticalSeverity :: "testEnv \<Rightarrow> waitContext \<Rightarrow> unit testRun" where
  "testCriticalSeverity env ctx = testSeverityLevel env ctx ''critical'' ''CRITICAL''"

definition testAlertSeverity :: "testEnv \<Rightarrow> waitContext \<Rightarrow> unit testRun" where
  "testAlertSeverity env ctx = testSeverityLevel env ctx ''alert'' ''ALERT''"

definition testEmergencySeverity :: "testEnv \<Rightarrow> waitContext \<Rightarrow> unit testRun" where
  "testEmergencySeverity env ctx = testSeverityLevel env ctx ''emergency'' ''EMERGENCY''"

definition testDefaultSeverityBypassesMinimum :: "testEnv \<Rightarrow> waitContext \<Rightarrow> unit testRun" where
  "testDefaultSeverityBypassesMinimum env ctx s =
     (let tid = test_id env ''default-bypass'' (tt_now s)
      in step (wrapping ''failed to send default severity bypass log''
               (send_log env (LogWithSeverity ''default'')
                 (plain_request ''Default severity bypass minimum level test'' tid))) (\<lambda>_.
         step (wrapping ''failed to find default severity bypass log''
               (wait_recent env ctx (test_id_filter tid) minute 5)) (\<lambda>entries.
           (case entries of
              [entry] \<Rightarrow>
                checked ''severity validation failed'' (ValidateSeverity (Some entry) ''DEFAULT'')
            | _ \<Rightarrow>
                fail (''expected exactly 1 log entry for DEFAULT severity bypass test, got '' @
                  FormatInt (int (length entries)))))) s)"

section \<open>Startup, payloads, operations\<close>

text \<open>The text of a payload is that of a map.\<close>

definition payload_text :: "testEnv \<Rightarrow> LogEntry \<Rightarrow> gostring" where
  "payload_text env e = percent_v (te_lib env) (HMap (payload_of e))"

definition testStartupMetadata :: "testEnv \<Rightarrow> waitContext \<Rightarrow> unit testRun" where
  "testStartupMetadata env ctx =
     (let service = cs_serviceName (te_suite env);
          q = ''resource.labels.service_name='' @ dquote @ service @ dquote @
              '' AND jsonPayload.message='' @ dquote @ ''Target app starting'' @ dquote
      in step (ensure (service \<noteq> [])
                (''service name not provided for scenario '' @ cs_scenarioName (te_suite env))) (\<lambda>_.
         step (wrapping ''waiting for startup log'' (wait_recent env ctx q (5 * minute) 5)) (\<lambda>entries.
         step (first_of (''no startup log entries found for service '' @ service) entries) (\<lambda>entry.
           (case hget (payload_of entry) ''version'' of
              HStr version \<Rightarrow>
                ensure (version = cs_expectedAppVersion (te_suite env))
                  (''unexpected app version, got '' @ version @ '' want '' @ cs_expectedAppVersion (te_suite env))
            | _ \<Rightarrow>
                fail (''startup log missing version field (payload: '' @ payload_text env entry @ '')''))))))"

definition structured_attributes :: "hval gomap" where
  "structured_attributes =
     [(''user_id'', HStr ''test-user-123''), (''request_id'', HStr ''req-456''),
      (''metadata'', HMap [(''source'', HStr ''e2e-test''), (''version'', HStr ''1.0'')])]"

definition testStructuredPayload :: "testEnv \<Rightarrow> waitContext \<Rightarrow> unit testRun" where
  "testStructuredPayload env ctx s =
     (let tid = test_id env ''structured'' (tt_now s);
          req = (plain_request ''Structured payload test'' tid) \<lparr> cl_Attributes := structured_attributes \<rparr>
      in step (send_and_find env ctx LogStructured req ''failed to send structured log''
                 ''failed to find structured log'' ''no structured log entries found'') (\<lambda>entry.
         step (checked ''structured payload validation failed'' (ValidateStructuredPayload (Some entry))) (\<lambda>_.
           checked ''payload content validation failed''
             (ValidatePayload (te_lib env) (Some entry)
               [(''message'', HStr ''Structured payload test''), (''test_id'', HStr tid)]))) s)"

definition testOperationGrouping :: "testEnv \<Rightarrow> waitContext \<Rightarrow> unit testRun" where
  "testOperationGrouping env ctx s =
     (let tid = test_id env ''operation'' (tt_now s);
          op = \<lparr>cp_ID = ''operation-'' @ tid, cp_Producer = ''core-logging-target'', cp_First = True,
                cp_Last = False\<rparr>;
          req = (plain_request ''Operation grouping test'' tid) \<lparr> cl_Operation := Some op \<rparr>
      in step (send_and_find env ctx LogWithOperation req ''failed to send operation log''
                 ''failed to find operation log'' ''no operation log entries found'') (\<lambda>entry.
           checked ''operation validation failed''
             (ValidateOperation (te_lib env) (Some entry)
               \<lparr>ox_ID = cp_ID op, ox_Producer = cp_Producer op, ox_First = cp_First op, ox_Last = cp_Last op\<rparr>)) s)"

definition nested_attributes :: "hval gomap" where
  "nested_attributes =
     [(''level1'', HMap [(''level2'', HMap [(''level3'', HStr ''deep-value''),
        (''array'', HSlice [HStr ''item1'', HStr ''item2''])])])]"

text \<open>The validator of nested structures has its expectation built in and ignores its argument.\<close>

definition testNestedStructure :: "testEnv \<Rightarrow> waitContext \<Rightarrow> unit testRun" where
  "testNestedStructure env ctx s =
     (let tid = test_id env ''nested'' (tt_now s);
          req = (plain_request ''Nested structure test'' tid) \<lparr> cl_Attributes := nested_attributes \<rparr>
      in step (send_and_find env ctx LogNested req ''failed to send nested log''
                 ''failed to find nested log'' ''no nested log entries found'') (\<lambda>entry.
           checked ''nested structure validation failed''
             (ValidateNestedStructure (te_lib env) (Some entry))) s)"

section \<open>Times, places, labels\<close>

definition testTimestamps :: "testEnv \<Rightarrow> waitContext \<Rightarrow> unit testRun" where
  "testTimestamps env ctx s =
     (let tid = test_id env ''timestamp'' (tt_now s);
          beforeLog = tt_now s
      in step (wrapping ''failed to send log''
               (send_log env (LogWithSeverity ''info'') (plain_request ''Timestamp test'' tid))) (\<lambda>_ s.
         let afterLog = tt_now s;
             opts = (recent env (test_id_filter tid) (10 * second) 10 beforeLog)
         in step (wrapping ''failed to find log'' (wait_logs env ctx opts)) (\<lambda>entries.
            step (first_of ''no log entries found'' entries) (\<lambda>entry s.
            step (checked ''timestamp validation failed''
                   (ValidateTimestamp (tt_now s) (Some entry) (5 * minute))) (\<lambda>_.
              ensure (\<not> (unix_ns (Timestamp entry) < beforeLog \<or>
                         unix_ns (Timestamp entry) > afterLog + 30 * second))
                (''timestamp '' @ te_timeText env (Timestamp entry) @ '' not in expected range ['' @
                 te_timeText env (before_now env 0 beforeLog) @ '', '' @
                 te_timeText env (before_now env 0 (afterLog + 30 * second)) @ '']'')) s)) s) s)"

definition testSourceLocation :: "testEnv \<Rightarrow> waitContext \<Rightarrow> unit testRun" where
  "testSourceLocation env ctx s =
     (let tid = test_id env ''source'' (tt_now s)
      in step (send_and_find env ctx (LogWithSeverity ''info'') (plain_request ''Source location test'' tid)
                 ''failed to send log'' ''failed to find source location log''
                 ''no log entries found for source location test'') (\<lambda>entry.
           checked ''source location validation failed''
             (ValidateSourceLocation (Some entry) ''handlers/core_logging.go''
                ''(*CoreLoggingHandler).LogInfo'')) s)"

definition testResourceLabels :: "testEnv \<Rightarrow> waitContext \<Rightarrow> unit testRun" where
  "testResourceLabels env ctx s =
     (let tid = test_id env ''resource'' (tt_now s)
      in step (wrapping ''failed to send log''
               (send_log env (LogWithSeverity ''info'') (plain_request ''Resource labels test'' tid))) (\<lambda>_ s.
         step (wrapping ''failed to find log''
               (wait_logs env ctx
                 ((recent env (test_id_filter tid) minute 10 (tt_now s))
                    \<lparr> qo_ResourceType := ''cloud_run_revision'' \<rparr>))) (\<lambda>entries.
         step (first_of ''no log entries found'' entries) (\<lambda>entry.
           checked ''resource label validation failed''
             (ValidateResourceLabels (te_lib env) (te_validator env) (Some entry)))) s) s)"

text \<open>The expected labels in the order in which ranging over the map delivers them.\<close>

fun check_labels :: "testEnv \<Rightarrow> hval gomap \<Rightarrow> gostring gomap \<Rightarrow> gostring option" where
  "check_labels env labelGroup [] = None"
| "check_labels env labelGroup ((key, expected) # rest) =
     (case map_of labelGroup key of
        None \<Rightarrow> Some (''payload label '' @ key @ '' missing from '' @ LabelsGroup @ '' group'')
      | Some raw \<Rightarrow>
          if percent_v (te_lib env) raw \<noteq> expected
          then Some (''payload label '' @ key @ '' mismatch: got '' @ percent_v (te_lib env) raw @
                 '' want '' @ expected)
          else check_labels env labelGroup rest)"

definition validatePayloadLabelGroup :: "testEnv \<Rightarrow> hval gomap \<Rightarrow> gostring gomap \<Rightarrow> gostring option" where
  "validatePayloadLabelGroup env payload expectedLabels =
     (case map_of payload LabelsGroup of
        None \<Rightarrow> Some (''payload missing '' @ dquote @ LabelsGroup @ dquote @ '' group'')
      | Some (HMap labelGroup) \<Rightarrow> check_labels env labelGroup expectedLabels
      | Some raw \<Rightarrow> Some (LabelsGroup @ '' group has unexpected type '' @ te_typeText env raw))"

definition error_free :: "gostring option \<Rightarrow> unit testRun" where
  "error_free err = (case err of None \<Rightarrow> succeed () | Some e \<Rightarrow> fail e)"

definition testCustomLabels :: "testEnv \<Rightarrow> waitContext \<Rightarrow> unit testRun" where
  "testCustomLabels env ctx s =
     (let tid = test_id env ''labels'' (tt_now s);
          overrideComponent = ''dynamic-component-'' @ tid;
          req = (plain_request ''Custom labels test'' tid)
                  \<lparr> cl_Labels := [(''component'', overrideComponent), (''dynamic_test_id'', tid)] \<rparr>;
          expectedLabels = [(''app'', ''slogcp-test-target''), (''component'', overrideComponent),
                            (''dynamic_test_id'', tid)]
      in step (send_and_find env ctx LogWithLabels req ''failed to send log with labels''
                 ''failed to find log with labels'' ''no log entries found with custom labels'') (\<lambda>entry.
         step (checked ''label validation failed'' (ValidateLabels (Some entry) expectedLabels)) (\<lambda>_.
           case ExtractPayloadMap (Some entry) of
             None \<Rightarrow> fail ''custom labels log missing payload''
           | Some payload \<Rightarrow> error_free (validatePayloadLabelGroup env payload expectedLabels))) s)"

section \<open>Raw entries\<close>

text \<open>\<^verbatim>\<open>%q\<close>, exact on ASCII; other bytes are kept, as in valid printable UTF-8.\<close>

definition quote_escapes :: "(nat \<times> char) list" where
  "quote_escapes =
     [(34, CHR 0x22), (92, CHR 0x5C), (7, CHR ''a''), (8, CHR ''b''), (12, CHR ''f''), (10, CHR ''n''),
      (13, CHR ''r''), (9, CHR ''t''), (11, CHR ''v'')]"

definition quote_byte :: "char \<Rightarrow> gostring" where
  "quote_byte c =
     (case map_of quote_escapes (of_char c) of
        Some e \<Rightarrow> [CHR 0x5C, e]
      | None \<Rightarrow> if (of_char c :: nat) < 32 \<or> (of_char c :: nat) = 127 then CHR 0x5C # CHR ''x'' # GoStrings.hex_byte c else [c])"

definition Quote :: "gostring \<Rightarrow> gostring" where
  "Quote s = dquote @ concat (map quote_byte s) @ dquote"

definition waitForRawLogEntry ::
  "testEnv \<Rightarrow> waitContext \<Rightarrow> gostring \<Rightarrow> gotime \<Rightarrow> hval gomap testRun" where
  "waitForRawLogEntry env ctx q start =
     step (wrapping ''waiting for raw log entry''
             (waiting (WaitForLogsJSON (te_logging env) (te_jitter env) (te_api env) ctx
                \<lparr>qo_Filter = q, qo_StartTime = start, qo_EndTime = zero_time, qo_MaxResults = 10,
                 qo_ResourceType = []\<rparr> logWaitTimeout)))
       (first_of (''no entries returned for filter '' @ Quote q))"

definition valueAsMap :: "hval \<Rightarrow> hval gomap" where
  "valueAsMap v = (case v of HMap m \<Rightarrow> m | _ \<Rightarrow> [])"

definition rawEntryJSONPayload :: "hval gomap \<Rightarrow> hval gomap" where
  "rawEntryJSONPayload raw = valueAsMap (hget raw ''jsonPayload'')"

definition rawEntryHTTPRequest :: "hval gomap \<Rightarrow> hval gomap" where
  "rawEntryHTTPRequest raw = valueAsMap (hget raw ''httpRequest'')"

definition nestedMap :: "hval gomap \<Rightarrow> gostring \<Rightarrow> hval gomap" where
  "nestedMap raw key = (if raw = [] then [] else valueAsMap (hget raw key))"

definition missingKeys :: "hval gomap \<Rightarrow> gostring list \<Rightarrow> gostring list" where
  "missingKeys m keys = filter (\<lambda>k. map_of m k = None) keys"

definition presentKeys :: "hval gomap \<Rightarrow> gostring list \<Rightarrow> gostring list" where
  "presentKeys m keys = filter (\<lambda>k. map_of m k \<noteq> None) keys"

text \<open>A number kept as text is converted without a range check when it is no 64-bit integer.\<close>

definition jsonNumberToInt :: "testEnv \<Rightarrow> gostring \<Rightarrow> int option" where
  "jsonNumberToInt env value =
     (case Atoi value of
        Some i \<Rightarrow> Some i
      | None \<Rightarrow> map_option (int64_of_float (te_lib env)) (te_parseFloat env value))"

definition jsonNumberValueToInt :: "testEnv \<Rightarrow> hval \<Rightarrow> int option" where
  "jsonNumberValueToInt env v = (case v of HNumber n \<Rightarrow> jsonNumberToInt env n | _ \<Rightarrow> None)"

text \<open>
  The conversions it is made of are letter for letter those of the validators
  (\<open>HarnessChecks\<close>), except the one of numbers kept as text.
\<close>

definition tests_valueToInt :: "testEnv \<Rightarrow> hval \<Rightarrow> int option" where
  "tests_valueToInt env v =
     (case signedValueToInt v max_int64 min_int64 of
        Some n \<Rightarrow> Some n
      | None \<Rightarrow>
          (case unsignedValueToInt v (nat max_int64) of
             Some n \<Rightarrow> Some n
           | None \<Rightarrow>
               (case floatValueToInt (te_lib env) v (2 ^ 63) (- (2 ^ 63)) of
                  Some n \<Rightarrow> Some n
                | None \<Rightarrow>
                    (case jsonNumberValueToInt env v of
                       Some n \<Rightarrow> Some n
                     | None \<Rightarrow> parseStringInt v))))"

definition formatRawEntryForLog :: "testEnv \<Rightarrow> hval gomap \<Rightarrow> gostring" where
  "formatRawEntryForLog env raw =
     (if raw = [] then ''{}''
      else (case te_encodeEntry env raw of
              None \<Rightarrow> percent_v (te_lib env) (HMap raw)
            | Some b \<Rightarrow> if length b > 2000 then take 2000 b @ ''...(truncated)'' else b))"

text \<open>\<^verbatim>\<open>strings.TrimSpace(fmt.Sprint(v))\<close>.\<close>

definition trimmed_text :: "testEnv \<Rightarrow> hval \<Rightarrow> gostring" where
  "trimmed_text env v = TrimSpace (percent_v (te_lib env) v)"

section \<open>Request payloads\<close>

definition validateHTTPRequestPayloadShape :: "testEnv \<Rightarrow> hval gomap \<Rightarrow> hval gomap \<Rightarrow> gostring option" where
  "validateHTTPRequestPayloadShape env rawEntry hr =
     (let missing = missingKeys hr
            [''requestMethod'', ''requestUrl'', ''status'', ''responseSize'', ''latency'']
      in if missing \<noteq> []
         then Some (''top-level httpRequest missing required keys '' @ percent_v_strings missing @ '': '' @
                formatRawEntryForLog env rawEntry)
         else if presentKeys (rawEntryJSONPayload rawEntry) [''httpRequest''] \<noteq> []
         then Some (''jsonPayload.httpRequest should be absent for known-only finalized payloads: '' @
                formatRawEntryForLog env rawEntry)
         else None)"

definition validateHTTPRequestPayloadValues :: "testEnv \<Rightarrow> hval gomap \<Rightarrow> hval gomap \<Rightarrow> gostring option" where
  "validateHTTPRequestPayloadValues env rawEntry hr =
     (case tests_valueToInt env (hget hr ''status'') of
        None \<Rightarrow> Some (''httpRequest.status is not numeric ('' @ te_typeText env (hget hr ''status'') @
                  ''): '' @ formatRawEntryForLog env rawEntry)
      | Some status \<Rightarrow>
          if status \<noteq> 200
          then Some (''unexpected httpRequest.status: got '' @ FormatInt status @ '' want '' @ FormatInt 200)
          else
            (case tests_valueToInt env (hget hr ''responseSize'') of
               None \<Rightarrow> Some (''httpRequest.responseSize is not numeric ('' @
                         te_typeText env (hget hr ''responseSize'') @ ''): '' @ formatRawEntryForLog env rawEntry)
             | Some n \<Rightarrow>
                 if n \<le> 0 then Some (''httpRequest.responseSize must be > 0, got '' @ FormatInt n)
                 else if trimmed_text env (hget hr ''latency'') = []
                 then Some (''httpRequest.latency should be non-empty: '' @ formatRawEntryForLog env rawEntry)
                 else None))"

definition request_log_name :: "testEnv \<Rightarrow> hval gomap \<Rightarrow> gostring" where
  "request_log_name env rawEntry = trimmed_text env (hget rawEntry ''logName'')"

definition ensureRequestLogName :: "testEnv \<Rightarrow> hval gomap \<Rightarrow> gostring \<Rightarrow> gostring option" where
  "ensureRequestLogName env rawEntry reason =
     (if Contains (ToLower (request_log_name env rawEntry)) ''requests''
      then Some (reason @ '', got log name '' @ request_log_name env rawEntry) else None)"

text \<open>Send a request and wait for the raw entry with its identifier and message.\<close>

definition raw_filter :: "clientLogRequest \<Rightarrow> gostring" where
  "raw_filter req = test_id_filter (cl_TestID req) @ '' AND jsonPayload.message='' @ dquote @ cl_Message req @ dquote"

definition send_and_find_raw ::
  "testEnv \<Rightarrow> waitContext \<Rightarrow> logOperation \<Rightarrow> clientLogRequest \<Rightarrow> gostring \<Rightarrow> gostring \<Rightarrow> hval gomap testRun" where
  "send_and_find_raw env ctx op req notSent notFound s =
     (let start = before_now env minute (tt_now s)
      in step (wrapping notSent (send_log env op req)) (\<lambda>_.
           wrapping notFound (waitForRawLogEntry env ctx (raw_filter req) start)) s)"

text \<open>The checks of a test in order; the first error is its result.\<close>

fun first_error :: "gostring option list \<Rightarrow> gostring option" where
  "first_error [] = None"
| "first_error (e # es) = (case e of None \<Rightarrow> first_error es | Some x \<Rightarrow> Some x)"

definition http_request_errors :: "testEnv \<Rightarrow> hval gomap \<Rightarrow> gostring option" where
  "http_request_errors env rawEntry =
     (let hr = rawEntryHTTPRequest rawEntry
      in first_error
           [if hr = []
            then Some (''top-level httpRequest metadata missing in raw entry: '' @ formatRawEntryForLog env rawEntry)
            else None,
            validateHTTPRequestPayloadShape env rawEntry hr,
            validateHTTPRequestPayloadValues env rawEntry hr,
            ensureRequestLogName env rawEntry ''http request log should come from application stdout log''])"

definition testHTTPRequestPayload :: "testEnv \<Rightarrow> waitContext \<Rightarrow> unit testRun" where
  "testHTTPRequestPayload env ctx s =
     (let req = plain_request ''http request log'' (test_id env ''http-request'' (tt_now s))
      in step (send_and_find_raw env ctx LogHTTPRequest req ''failed to send http request log''
                 ''waiting for raw http request log'')
           (\<lambda>rawEntry. error_free (http_request_errors env rawEntry)) s)"

definition inflight_errors :: "testEnv \<Rightarrow> hval gomap \<Rightarrow> gostring option" where
  "inflight_errors env rawEntry =
     (let hr = rawEntryHTTPRequest rawEntry;
          missing = missingKeys hr [''requestMethod'', ''requestUrl''];
          forbidden = presentKeys hr [''status'', ''responseSize'', ''latency'']
      in first_error
           [if hr = []
            then Some (''top-level httpRequest metadata missing for in-flight log: '' @
                   formatRawEntryForLog env rawEntry) else None,
            if missing \<noteq> []
            then Some (''in-flight httpRequest missing required keys '' @ percent_v_strings missing @ '': '' @
                   formatRawEntryForLog env rawEntry) else None,
            if forbidden \<noteq> []
            then Some (''in-flight httpRequest should omit response metrics, found '' @
                   percent_v_strings forbidden @ '': '' @ formatRawEntryForLog env rawEntry) else None,
            if presentKeys (rawEntryJSONPayload rawEntry) [''httpRequest''] \<noteq> []
            then Some (''jsonPayload.httpRequest should be absent for known-only in-flight payloads: '' @
                   formatRawEntryForLog env rawEntry) else None,
            if Contains (ToLower (request_log_name env rawEntry)) ''requests''
            then Some (''in-flight httpRequest log should come from application stdout log, got log name '' @
                   request_log_name env rawEntry) else None])"

definition testHTTPRequestInflightOmission :: "testEnv \<Rightarrow> waitContext \<Rightarrow> unit testRun" where
  "testHTTPRequestInflightOmission env ctx s =
     (let req = plain_request ''inflight http request log'' (test_id env ''http-request-inflight'' (tt_now s))
      in step (send_and_find_raw env ctx LogHTTPRequestInflight req
                 ''failed to send in-flight http request log'' ''waiting for in-flight raw http request log'')
           (\<lambda>rawEntry. error_free (inflight_errors env rawEntry)) s)"

section \<open>Probes of the backend\<close>

definition backendParserProbeStrict :: "environ \<Rightarrow> bool" where
  "backendParserProbeStrict envv \<longleftrightarrow>
     TrimSpace (ToLower (envv ''E2E_HTTPREQUEST_BACKEND_PROBE_STRICT''))
       \<in> set [''1'', ''true'', ''t'', ''yes'', ''y'', ''on'']"

definition reportBackendProbeResult ::
  "testEnv \<Rightarrow> gostring \<Rightarrow> hval gomap \<Rightarrow> gostring list \<Rightarrow> gostring option" where
  "reportBackendProbeResult env name raw mismatches =
     (if mismatches = [] then None
      else if backendParserProbeStrict (te_environ env)
      then Some (''Backend httpRequest parser probe '' @ Quote name @ '' mismatches: '' @
             strings_Join mismatches ''; '' @ ''. raw_entry='' @ formatRawEntryForLog env raw)
      else None)"

definition residual_mismatches :: "testEnv \<Rightarrow> hval gomap \<Rightarrow> gostring list" where
  "residual_mismatches env rawEntry =
     (let hr = rawEntryHTTPRequest rawEntry;
          payloadHTTP = nestedMap (rawEntryJSONPayload rawEntry) ''httpRequest'';
          missing = missingKeys hr [''requestMethod'', ''requestUrl'', ''status''];
          present = presentKeys hr [''customField'', ''anotherCustom''];
          custom = trimmed_text env (hget payloadHTTP ''customField'')
      in (if hr = [] then [''top-level httpRequest missing''] else []) @
         (if missing \<noteq> [] then [''top-level httpRequest missing '' @ percent_v_strings missing] else []) @
         (if present \<noteq> [] then [''unknown keys promoted unexpectedly: '' @ percent_v_strings present] else []) @
         (if payloadHTTP = [] then [''jsonPayload.httpRequest residual map missing'']
          else
            (if custom \<noteq> ''keep-me''
             then [''jsonPayload.httpRequest.customField mismatch: got '' @ Quote custom @ '' want '' @ Quote ''keep-me'']
             else []) @
            (if tests_valueToInt env (hget payloadHTTP ''anotherCustom'') \<noteq> Some 42
             then [''jsonPayload.httpRequest.anotherCustom mismatch: got '' @
                   percent_v (te_lib env) (hget payloadHTTP ''anotherCustom'') @ '' want 42'']
             else [])))"

definition testHTTPRequestBackendResidualPromotionProbe :: "testEnv \<Rightarrow> waitContext \<Rightarrow> unit testRun" where
  "testHTTPRequestBackendResidualPromotionProbe env ctx s =
     (let req = plain_request ''http request residual parser probe''
                  (test_id env ''http-request-residual'' (tt_now s))
      in step (send_and_find_raw env ctx LogHTTPRequestParserResidual req
                 ''failed to send residual parser probe log'' ''waiting for residual parser probe log'')
           (\<lambda>rawEntry. error_free (reportBackendProbeResult env ''residual-promotion'' rawEntry
              (residual_mismatches env rawEntry))) s)"

definition status_zero_mismatches :: "hval gomap \<Rightarrow> gostring list" where
  "status_zero_mismatches rawEntry =
     (let hr = rawEntryHTTPRequest rawEntry;
          missing = missingKeys hr [''requestMethod'', ''requestUrl'']
      in (if hr = [] then [''top-level httpRequest missing''] else []) @
         (if missing \<noteq> [] then [''top-level httpRequest missing '' @ percent_v_strings missing] else []) @
         (if presentKeys hr [''status''] \<noteq> [] then [''status should be omitted for status=0 probe''] else []))"

definition testHTTPRequestBackendStatusZeroProbe :: "testEnv \<Rightarrow> waitContext \<Rightarrow> unit testRun" where
  "testHTTPRequestBackendStatusZeroProbe env ctx s =
     (let req = plain_request ''http request status-zero parser probe''
                  (test_id env ''http-request-status-zero'' (tt_now s))
      in step (send_and_find_raw env ctx LogHTTPRequestParserStatusZero req
                 ''failed to send status-zero parser probe log'' ''waiting for status-zero parser probe log'')
           (\<lambda>rawEntry. error_free (reportBackendProbeResult env ''status-zero'' rawEntry
              (status_zero_mismatches rawEntry))) s)"

section \<open>Log names and batches\<close>

text \<open>\<^verbatim>\<open>url.PathEscape\<close>.\<close>

definition upper_hex :: "nat \<Rightarrow> char" where
  "upper_hex d = char_of (if d < 10 then d + 48 else d + 55)"

definition path_unreserved :: "char \<Rightarrow> bool" where
  "path_unreserved c \<longleftrightarrow>
     (let n = (of_char c :: nat)
      in 48 \<le> n \<and> n \<le> 57 \<or> 65 \<le> n \<and> n \<le> 90 \<or> 97 \<le> n \<and> n \<le> 122 \<or> c \<in> set ''-_.~$&+:=@'')"

definition PathEscape :: "gostring \<Rightarrow> gostring" where
  "PathEscape s =
     concat (map (\<lambda>c. if path_unreserved c then [c]
                      else [CHR ''%'', upper_hex (of_char c div 16), upper_hex (of_char c mod 16)]) s)"

definition testLogName :: "testEnv \<Rightarrow> waitContext \<Rightarrow> unit testRun" where
  "testLogName env ctx s =
     (let logID = cs_expectedLogID (te_suite env)
      in if TrimSpace logID = [] then succeed () s
         else
           (let tid = test_id env ''logid'' (tt_now s);
                expectedName = ''projects/'' @ te_projectID env @ ''/logs/'' @ PathEscape logID
            in step (send_and_find env ctx (LogWithSeverity ''info'') (plain_request ''Log ID validation'' tid)
                       ''failed to send log'' ''failed to find log'' ''no log entries found for log ID validation'')
                 (\<lambda>entry. checked ''log name validation failed''
                    (ValidateLogName (te_validator env) (Some entry) expectedName)) s))"

definition batchSize :: int where "batchSize = 5"

fun check_batch :: "nat \<Rightarrow> LogEntry list \<Rightarrow> unit testRun" where
  "check_batch i [] = succeed ()"
| "check_batch i (entry # rest) =
     step (\<lambda>s. checked (''batch log '' @ FormatInt (int i) @ '' timestamp validation failed'')
                 (ValidateTimestamp (tt_now s) (Some entry) (5 * minute)) s)
       (\<lambda>_. check_batch (Suc i) rest)"

definition testBatchLogging :: "testEnv \<Rightarrow> waitContext \<Rightarrow> unit testRun" where
  "testBatchLogging env ctx s =
     (let tid = test_id env ''batch'' (tt_now s);
          req = (plain_request ''Batch logging test'' tid) \<lparr> cl_Attributes := [(''batch_size'', HInt batchSize)] \<rparr>
      in step (wrapping ''failed to send batch logs'' (send_log env LogBatch req)) (\<lambda>_ s.
         step (wrapping ''failed to find batch logs''
               (waiting (WaitForLogCount (te_lib env) (te_Entries env) ctx
                  (recent env (test_id_filter tid) minute 10 (tt_now s)) batchSize logWaitTimeout)))
           (check_batch 0) s) s)"

section \<open>The exporter\<close>

definition grpc_api_id :: "testEnv \<Rightarrow> int \<Rightarrow> gostring" where
  "grpc_api_id env now = te_testRunID env @ ''-grpc-api-'' @ te_uuid env now"

text \<open>The checks of the entry the exporter sent, in order; \<open>now\<close> is the time of the last one.\<close>

definition grpc_api_errors ::
  "testEnv \<Rightarrow> gostring \<Rightarrow> gostring \<Rightarrow> int \<Rightarrow> int \<Rightarrow> hval gomap \<Rightarrow> gostring option" where
  "grpc_api_errors env tid message start now entry =
     (let payload = rawEntryJSONPayload entry;
          digest = te_sha256 env tid;
          expectedTrace = ''projects/'' @ te_projectID env @ ''/traces/'' @ hex_EncodeToString (take 16 digest);
          expectedSpan = hex_EncodeToString (take 8 (List.drop 16 digest));
          mismatch = (\<lambda>what ok. if ok then None else Some (''gRPC API '' @ what @ CHR '' '' # formatRawEntryForLog env entry));
          labels = nestedMap entry ''labels'';
          operation = nestedMap entry ''operation'';
          location = nestedMap entry ''sourceLocation'';
          line = tests_valueToInt env (hget location ''line'');
          details = nestedMap payload ''details'';
          httpRequest = rawEntryHTTPRequest entry;
          resource = nestedMap entry ''resource''
      in first_error
           [mismatch ''payload or severity mismatch''
              (hget payload ''message'' = HStr message \<and> hget entry ''severity'' = HStr ''NOTICE'' \<and>
               hget entry ''insertId'' = HStr tid),
            mismatch ''correlation mismatch''
              (hget entry ''trace'' = HStr expectedTrace \<and> hget entry ''spanId'' = HStr expectedSpan \<and>
               hget entry ''traceSampled'' = HBool True),
            mismatch ''labels mismatch''
              (hget labels ''proof'' = HStr ''grpc-api'' \<and> hget labels ''transport'' = HStr ''grpc''),
            mismatch ''operation mismatch''
              (hget operation ''id'' = HStr tid \<and> hget operation ''producer'' = HStr ''grpc-e2e'' \<and>
               hget operation ''first'' = HBool True \<and> hget operation ''last'' = HBool True),
            mismatch ''source location mismatch''
              ((case line of None \<Rightarrow> False | Some n \<Rightarrow> n > 0) \<and>
               HasSuffix (percent_v (te_lib env) (hget location ''file'')) ''grpc_transport.go''),
            mismatch ''nested payload mismatch''
              (tests_valueToInt env (hget details ''count'') = Some 7 \<and> hget details ''complete'' = HBool True),
            mismatch ''HTTP metadata mismatch''
              (tests_valueToInt env (hget httpRequest ''status'') = Some 200 \<and>
               hget httpRequest ''requestMethod'' = HStr ''POST'' \<and> hget httpRequest ''latency'' = HStr ''0.005s''),
            mismatch ''resource mismatch''
              (hget resource ''type'' = HStr ''cloud_run_revision'' \<and>
               hget (nestedMap resource ''labels'') ''project_id'' = HStr (te_projectID env)),
            mismatch ''timestamp mismatch''
              (case te_parseTime env (percent_v (te_lib env) (hget entry ''timestamp'')) of
                 None \<Rightarrow> False
               | Some t \<Rightarrow> \<not> (unix_ns t < start \<or> unix_ns t > now + minute)),
            mismatch ''retained promoted metadata in payload''
              (presentKeys payload
                 [''logging.googleapis.com/insertId'', ''logging.googleapis.com/operation'', ''httpRequest''] = [])])"

definition testGRPCAPITransport :: "testEnv \<Rightarrow> waitContext \<Rightarrow> unit testRun" where
  "testGRPCAPITransport env ctx s =
     (let tid = grpc_api_id env (tt_now s);
          message = ''gRPC transport proof'';
          start = tt_now s - minute;
          q = ''logName='' @ dquote @ ''projects/'' @ te_projectID env @ ''/logs/slogcp-grpc-e2e'' @ dquote @
              '' AND '' @ test_id_filter tid
      in step (wrapping ''sending gRPC API log''
                (send_log env (LogWithSeverity ''grpc-api'') (plain_request message tid))) (\<lambda>response.
         step (ensure (ly_Success response) ''gRPC API target did not confirm delivery'') (\<lambda>_.
         step (waitForRawLogEntry env ctx q (before_now env minute (tt_now s))) (\<lambda>entry s.
           error_free (grpc_api_errors env tid message start (tt_now s) entry) s))) s)"

section \<open>The suite\<close>

definition core_test_table :: "(gostring \<times> (testEnv \<Rightarrow> waitContext \<Rightarrow> unit testRun)) list" where
  "core_test_table =
     [(''TestScenarioStartupMetadata'', testStartupMetadata),
      (''TestDefaultSeverity'', testDefaultSeverity),
      (''TestDefaultSeverityBypassesMinimum'', testDefaultSeverityBypassesMinimum),
      (''TestDebugSeverity'', testDebugSeverity),
      (''TestInfoSeverity'', testInfoSeverity),
      (''TestNoticeSeverity'', testNoticeSeverity),
      (''TestWarningSeverity'', testWarningSeverity),
      (''TestErrorSeverity'', testErrorSeverity),
      (''TestCriticalSeverity'', testCriticalSeverity),
      (''TestAlertSeverity'', testAlertSeverity),
      (''TestEmergencySeverity'', testEmergencySeverity),
      (''TestStructuredPayload'', testStructuredPayload),
      (''TestGRPCAPITransport'', testGRPCAPITransport),
      (''TestOperationGrouping'', testOperationGrouping),
      (''TestNestedStructure'', testNestedStructure),
      (''TestTimestamps'', testTimestamps),
      (''TestSourceLocation'', testSourceLocation),
      (''TestResourceLabels'', testResourceLabels),
      (''TestCustomLabels'', testCustomLabels),
      (''TestHTTPRequestPayload'', testHTTPRequestPayload),
      (''TestHTTPRequestInflightOmission'', testHTTPRequestInflightOmission),
      (''TestHTTPRequestBackendResidualPromotionProbe'', testHTTPRequestBackendResidualPromotionProbe),
      (''TestHTTPRequestBackendStatusZeroProbe'', testHTTPRequestBackendStatusZeroProbe),
      (''TestLogName'', testLogName),
      (''TestBatchLogging'', testBatchLogging)]"

lemma core_test_table_names: "map fst core_test_table = core_tests"
  by (simp add: core_test_table_def core_tests_def)
end
