(* ===== verification/TraceTests.thy ===== *)
theory TraceTests
  imports HarnessTests TraceTarget HarnessJson
begin

text \<open>
  The bodies of the trace tests (\<^verbatim>\<open>tests/trace.go\<close>, \<^verbatim>\<open>tests/trace_streaming.go\<close>), runs as those
  of \<open>HarnessTests\<close>. The requests and responses of the client have the fields of the trace
  target's. Expected service names are not empty.
\<close>

section \<open>What a suite is given\<close>

datatype traceBody =
    UnaryBody traceRequest
  | ServerStreamBody serverStreamTraceRequest
  | ClientStreamBody clientStreamTraceRequest
  | BidiBody bidiStreamTraceRequest

text \<open>The response, whose details may be absent.\<close>

record traceReply =
  ty_Success :: bool
  ty_Message :: gostring
  ty_TraceID :: gostring
  ty_Details :: "gostring gomap option"

text \<open>
  As for the core tests; \<open>xe_getTrace\<close> reads a trace, \<open>xe_ids\<close> draws identifiers,
  \<open>xe_address\<close> is the \<^verbatim>\<open>%p\<close> text of the n-th entry that was fetched.
\<close>

record traceEnv =
  xe_suite :: traceSuite
  xe_testRunID :: gostring
  xe_target :: TargetClient
  xe_lib :: harnesslib
  xe_encode :: "traceBody \<Rightarrow> gostring + gostring"
  xe_Do :: "int \<Rightarrow> (gostring + traceReply) exchange"
  xe_taking :: "int \<Rightarrow> nat"
  xe_ids :: "int \<Rightarrow> nat \<Rightarrow> idSource"
  xe_Entries :: "waitContext \<Rightarrow> gostring \<Rightarrow> int \<Rightarrow> iterItem list \<times> nat"
  xe_getTrace :: "gostring \<Rightarrow> int \<Rightarrow> (apiError + cloudTrace option) \<times> nat"
  xe_address :: "nat \<Rightarrow> gostring"
  xe_zone :: int
  xe_typeText :: "hval \<Rightarrow> gostring"

definition traceWaitTimeout :: int where
  "traceWaitTimeout = 180 * second"

definition traceStartupLogLookback :: int where
  "traceStartupLogLookback = 15 * minute"

definition trace_query :: "traceEnv \<Rightarrow> gostring \<Rightarrow> int \<Rightarrow> int \<Rightarrow> int \<Rightarrow> QueryOptions" where
  "trace_query env q d most now =
     \<lparr>qo_Filter = q, qo_StartTime = \<lparr>unix_ns = now - d, zone = xe_zone env\<rparr>, qo_EndTime = zero_time,
      qo_MaxResults = most, qo_ResourceType = []\<rparr>"

definition trace_test_id :: "traceEnv \<Rightarrow> gostring \<Rightarrow> int \<Rightarrow> gostring" where
  "trace_test_id env name now = xe_testRunID env @ ''-'' @ name @ ''-'' @ FormatInt now"

definition send_trace :: "traceEnv \<Rightarrow> traceOperation \<Rightarrow> traceBody \<Rightarrow> traceReply testRun" where
  "send_trace env op body s =
     (let s' = s \<lparr> tt_now := tt_now s + int (xe_taking env (tt_now s)) \<rparr>
      in case sendTraceRequest (xe_target env) (xe_Do env (tt_now s)) (xe_ids env (tt_now s))
                (trace_endpoint op) (xe_encode env body) [] of
           Inl e \<Rightarrow> Some (TestError e, s')
         | Inr reply \<Rightarrow> Some (Value reply, s'))"

text \<open>Send a request; an answer without success is an error with its message.\<close>

definition successful :: "traceEnv \<Rightarrow> traceOperation \<Rightarrow> traceBody \<Rightarrow> gostring \<Rightarrow> traceReply testRun" where
  "successful env op body kind =
     step (wrapping (kind @ '' request failed'') (send_trace env op body)) (\<lambda>resp.
     step (ensure (ty_Success resp) (kind @ '' failed: '' @ ty_Message resp)) (\<lambda>_. succeed resp))"

section \<open>Waiting for the logs of several services\<close>

text \<open>The service an entry comes from, if its labels name one.\<close>

definition from_service :: "LogEntry \<Rightarrow> gostring \<Rightarrow> bool" where
  "from_service e svc \<longleftrightarrow> Labels e \<noteq> [] \<and> sget (Labels e) ''app'' = svc"

definition Format_RFC3339Nano :: "gotime \<Rightarrow> gostring" where
  "Format_RFC3339Nano t =
     format_clock (unix_ns t div 1000000000 + zone t) @ fraction 9 (nat (unix_ns t mod 1000000000)) @
     format_zone (zone t)"

definition logEntryKey :: "gostring \<Rightarrow> LogEntry \<Rightarrow> gostring" where
  "logEntryKey address e =
     (if InsertID e \<noteq> [] then InsertID e
      else address @ ''-'' @ LogName e @ ''-'' @ Format_RFC3339Nano (Timestamp e))"

text \<open>\<open>ss_fetched\<close> counts the entries the queries returned.\<close>

record serviceSearch =
  ss_entries :: "LogEntry list"
  ss_seen :: "unit gomap"
  ss_found :: "unit gomap"
  ss_fetched :: nat

fun appendUniqueEntries ::
  "(nat \<Rightarrow> gostring) \<Rightarrow> LogEntry list \<Rightarrow> serviceSearch \<Rightarrow> serviceSearch" where
  "appendUniqueEntries address [] ss = ss"
| "appendUniqueEntries address (e # es) ss =
     (let key = logEntryKey (address (ss_fetched ss)) e;
          ss' = ss \<lparr> ss_fetched := Suc (ss_fetched ss) \<rparr>
      in if map_of (ss_seen ss) key \<noteq> None then appendUniqueEntries address es ss'
         else appendUniqueEntries address es
                (ss' \<lparr> ss_entries := ss_entries ss @ [e], ss_seen := mput key () (ss_seen ss) \<rparr>))"

definition mark_found :: "unit gomap \<Rightarrow> LogEntry \<Rightarrow> unit gomap \<Rightarrow> unit gomap" where
  "mark_found expected e found =
     (if Labels e = [] then found
      else let svc = sget (Labels e) ''app''
           in if svc \<noteq> [] \<and> map_of expected svc \<noteq> None then mput svc () found else found)"

definition markFoundServices :: "unit gomap \<Rightarrow> LogEntry list \<Rightarrow> unit gomap \<Rightarrow> unit gomap" where
  "markFoundServices expected es found = fold (mark_found expected) es found"

text \<open>\<^verbatim>\<open>%v\<close> of a set kept as a map: its keys in order.\<close>

fun bytes_before :: "gostring \<Rightarrow> gostring \<Rightarrow> bool" where
  "bytes_before [] ds = True"
| "bytes_before (c # cs) [] = False"
| "bytes_before (c # cs) (d # ds) =
     ((of_char c :: nat) < of_char d \<or> c = d \<and> bytes_before cs ds)"

fun insert_bytes :: "gostring \<Rightarrow> gostring list \<Rightarrow> gostring list" where
  "insert_bytes x [] = [x]"
| "insert_bytes x (y # ys) = (if bytes_before x y then x # y # ys else y # insert_bytes x ys)"

definition set_text :: "unit gomap \<Rightarrow> gostring" where
  "set_text m =
     ''map['' @ strings_Join (map (\<lambda>k. k @ '':{}'') (foldr insert_bytes (map fst m) [])) '' '' @ '']''"

text \<open>One round of the search: what a query returned is added and marked.\<close>

definition search_round ::
  "(nat \<Rightarrow> gostring) \<Rightarrow> unit gomap \<Rightarrow> LogEntry list \<Rightarrow> serviceSearch \<Rightarrow> serviceSearch" where
  "search_round address expected es ss =
     (appendUniqueEntries address es ss) \<lparr> ss_found := markFoundServices expected es (ss_found ss) \<rparr>"

text \<open>The loop; \<open>None\<close> is a wait that never ends.\<close>

partial_function (option) service_loop ::
  "waitContext \<Rightarrow> int \<Rightarrow> (int \<Rightarrow> (LogEntry list \<times> apiError option) \<times> int) \<Rightarrow> (nat \<Rightarrow> gostring)
     \<Rightarrow> gostring list \<Rightarrow> unit gomap \<Rightarrow> serviceSearch \<Rightarrow> int \<Rightarrow> int \<Rightarrow> nat
     \<Rightarrow> LogEntry list retryResult option" where
  "service_loop ctx deadline query address services expected ss backoff now polls =
     (if now < deadline then
        (case query now of
           ((entries, Some e), now) \<Rightarrow> Some (Returns (Inl (wrap ''querying logs'' e)) now (Suc polls))
         | ((entries, None), now) \<Rightarrow>
             (let ss = search_round address expected entries ss
              in if length (ss_found ss) = length expected
                 then Some (Returns (Inr (ss_entries ss)) now (Suc polls))
                 else (case wait_or_done ctx now backoff of
                         (now, Some e) \<Rightarrow>
                           Some (Returns (Inl (wrap ''waiting for service logs canceled'' (context_error e)))
                             now (Suc polls))
                       | (now, None) \<Rightarrow>
                           service_loop ctx deadline query address services expected ss (next_backoff backoff)
                             now (Suc polls))))
      else Some (Returns (Inl (plain_error (''timeout waiting for logs from services '' @
             percent_v_strings services @ '', found '' @ set_text (ss_found ss)))) now polls))"

declare service_loop.simps [code]

definition no_search :: serviceSearch where
  "no_search = \<lparr>ss_entries = [], ss_seen = [], ss_found = [], ss_fetched = 0\<rparr>"

definition waitForLogsFromServices ::
  "traceEnv \<Rightarrow> waitContext \<Rightarrow> QueryOptions \<Rightarrow> gostring list \<Rightarrow> int \<Rightarrow> LogEntry list retryResult option" where
  "waitForLogsFromServices env ctx opts services now =
     (let ctx = WithTimeout ctx now logWaitTimeout
      in service_loop ctx (now + logWaitTimeout) (QueryLogs (xe_lib env) (xe_Entries env ctx) opts)
           (xe_address env) services (expected_set services) no_search second now 0)"

section \<open>Checks\<close>

definition expectedTraceName :: "traceSuite \<Rightarrow> gostring \<Rightarrow> gostring" where
  "expectedTraceName s tid = ''projects/'' @ ts_expectedTraceProject s @ ''/traces/'' @ tid"

definition validateTraceField :: "traceSuite \<Rightarrow> gostring \<Rightarrow> LogEntry \<Rightarrow> gostring option" where
  "validateTraceField s tid e =
     (if Trace e = [] then Some ''log entry missing trace field''
      else if Trace e \<noteq> expectedTraceName s tid
      then Some (''unexpected trace field for service '' @ sget (Labels e) ''app'' @ '', got '' @ Trace e @
             '' want '' @ expectedTraceName s tid)
      else None)"

definition validateTraceFields :: "traceSuite \<Rightarrow> LogEntry list \<Rightarrow> gostring \<Rightarrow> gostring option" where
  "validateTraceFields s es tid = first_error (map (validateTraceField s tid) es)"

definition mark_covered :: "gostring list \<Rightarrow> LogEntry \<Rightarrow> unit gomap \<Rightarrow> unit gomap" where
  "mark_covered services e found =
     fold (\<lambda>svc found. if from_service e svc then mput svc () found else found) services found"

definition covered :: "LogEntry list \<Rightarrow> gostring list \<Rightarrow> unit gomap" where
  "covered es services = fold (mark_covered services) es []"

definition validateLogsCoverServices :: "LogEntry list \<Rightarrow> gostring list \<Rightarrow> gostring option" where
  "validateLogsCoverServices es services =
     (if length (covered es services) \<noteq> length services
      then Some (''expected logs from services '' @ percent_v_strings services @ '', found '' @
             set_text (covered es services))
      else None)"

definition collectGRPCComponents :: "LogEntry list \<Rightarrow> unit gomap" where
  "collectGRPCComponents es =
     fold (\<lambda>e seen.
       case ExtractPayloadMap (Some e) of
         None \<Rightarrow> seen
       | Some payload \<Rightarrow>
           (case hget payload ''grpc.component'' of
              HStr c \<Rightarrow> if TrimSpace c \<noteq> [] then mput (TrimSpace c) () seen else seen
            | _ \<Rightarrow> seen)) es []"

section \<open>Startup\<close>

definition map_text :: "traceEnv \<Rightarrow> hval gomap \<Rightarrow> gostring" where
  "map_text env payload = percent_v (xe_lib env) (HMap payload)"

definition expect_target :: "traceEnv \<Rightarrow> hval gomap \<Rightarrow> gostring \<Rightarrow> gostring \<Rightarrow> gostring \<Rightarrow> gostring option" where
  "expect_target env payload key kind want =
     (case hget payload key of
        HStr v \<Rightarrow>
          if v \<noteq> want then Some (''unexpected downstream '' @ kind @ '', got '' @ v @ '' want '' @ want) else None
      | _ \<Rightarrow> Some (''startup log missing '' @ key @ '' field (payload: '' @ map_text env payload @ '')''))"

definition validateStartupDownstreamTargets :: "traceEnv \<Rightarrow> hval gomap \<Rightarrow> gostring option" where
  "validateStartupDownstreamTargets env payload =
     first_error
       [expect_target env payload ''downstream_http'' ''http url'' (ts_expectedDownstreamHTTP (xe_suite env)),
        expect_target env payload ''downstream_grpc'' ''grpc target'' (ts_expectedDownstreamGRPC (xe_suite env))]"

definition expectStartupBoolean :: "traceEnv \<Rightarrow> hval gomap \<Rightarrow> gostring \<Rightarrow> bool \<Rightarrow> gostring option" where
  "expectStartupBoolean env payload key want =
     (case map_of payload key of
        None \<Rightarrow> Some (''startup log missing '' @ key @ '' field (payload: '' @ map_text env payload @ '')'')
      | Some (HBool b) \<Rightarrow>
          if b \<noteq> want
          then Some (''unexpected '' @ key @ '' value, got '' @ bool_text b @ '' want '' @ bool_text want) else None
      | Some v \<Rightarrow>
          Some (''startup log field '' @ key @ '' has unexpected type '' @ xe_typeText env v @ '' (payload: '' @
            map_text env payload @ '')''))"

definition startup_errors :: "traceEnv \<Rightarrow> hval gomap \<Rightarrow> gostring option" where
  "startup_errors env payload =
     first_error
       [validateStartupDownstreamTargets env payload,
        expectStartupBoolean env payload ''disable_http_trace_propagation''
          (ts_disableHTTPPropagation (xe_suite env)),
        expectStartupBoolean env payload ''disable_grpc_trace_propagation''
          (ts_disableGRPCPropagation (xe_suite env)),
        expectStartupBoolean env payload ''default_trace_sampled'' (ts_defaultTraceSampled (xe_suite env))]"

definition trace_wait_logs :: "traceEnv \<Rightarrow> waitContext \<Rightarrow> gostring \<Rightarrow> int \<Rightarrow> int \<Rightarrow> LogEntry list testRun" where
  "trace_wait_logs env ctx q d most s =
     waiting (WaitForLogs (xe_lib env) (xe_Entries env) ctx (trace_query env q d most (tt_now s)) logWaitTimeout) s"

definition testStartupConfiguration :: "traceEnv \<Rightarrow> waitContext \<Rightarrow> unit testRun" where
  "testStartupConfiguration env ctx =
     (let service = ts_serviceName (xe_suite env);
          q = ''resource.labels.service_name='' @ dquote @ service @ dquote @
              '' AND jsonPayload.message='' @ dquote @ ''trace-target-app starting'' @ dquote
      in step (ensure (service \<noteq> [])
                (''trace scenario '' @ ts_scenarioName (xe_suite env) @ '' missing service name'')) (\<lambda>_.
         step (wrapping ''waiting for trace startup log''
                (trace_wait_logs env ctx q traceStartupLogLookback 5)) (\<lambda>entries.
         step (first_of (''no startup logs found for trace service '' @ service) entries) (\<lambda>entry.
           error_free (startup_errors env (payload_of entry))))))"

section \<open>Unary tests\<close>

definition wait_services ::
  "traceEnv \<Rightarrow> waitContext \<Rightarrow> gostring \<Rightarrow> gostring list \<Rightarrow> LogEntry list testRun" where
  "wait_services env ctx q services s =
     waiting (waitForLogsFromServices env ctx (trace_query env q (2 * minute) 20 (tt_now s)) services) s"

definition wait_spans :: "traceEnv \<Rightarrow> waitContext \<Rightarrow> gostring \<Rightarrow> gostring list \<Rightarrow> unit testRun" where
  "wait_spans env ctx tid spans =
     step (waiting (WaitForSpans (xe_getTrace env) ctx tid spans traceWaitTimeout)) (\<lambda>_. succeed ())"

definition testSimpleTrace :: "traceEnv \<Rightarrow> waitContext \<Rightarrow> unit testRun" where
  "testSimpleTrace env ctx s =
     (let tid = trace_test_id env ''simple'' (tt_now s);
          req = \<lparr>tr_TestID = tid, tr_Message = ''trace simple test''\<rparr>
      in step (successful env TraceSimple (UnaryBody req) ''trace simple'') (\<lambda>resp.
         step (wrapping ''waiting for logs'' (trace_wait_logs env ctx (test_id_filter tid) minute 10)) (\<lambda>entries.
         step (ensure (entries \<noteq> []) (''no trace logs found for test_id '' @ tid)) (\<lambda>_.
         step (wrapping ''trace field validation failed''
                (error_free (validateTraceFields (xe_suite env) entries (ty_TraceID resp)))) (\<lambda>_.
           wrapping ''waiting for trace spans'' (wait_spans env ctx (ty_TraceID resp) [''trace.simple'']))))) s)"

text \<open>
  The three tests of downstream calls: the entries of both services, all of them under the
  request's trace, and, except for Pub/Sub, the spans.
\<close>

definition downstream_logs ::
  "traceEnv \<Rightarrow> waitContext \<Rightarrow> traceOperation \<Rightarrow> gostring \<Rightarrow> gostring \<Rightarrow> gostring \<Rightarrow> gostring list
     \<Rightarrow> traceReply testRun" where
  "downstream_logs env ctx op name msg kind services s =
     (let tid = trace_test_id env name (tt_now s)
      in step (successful env op (UnaryBody \<lparr>tr_TestID = tid, tr_Message = msg\<rparr>) (kind @ '' trace'')) (\<lambda>resp.
         step (wrapping (''waiting for '' @ kind @ '' logs'')
                (wait_services env ctx (test_id_filter tid) services)) (\<lambda>entries.
         step (ensure (entries \<noteq> []) (''no logs found for '' @ kind @ '' trace'')) (\<lambda>_.
         step (error_free (validateLogsCoverServices entries services)) (\<lambda>_.
         step (wrapping ''trace field validation failed''
                (error_free (validateTraceFields (xe_suite env) entries (ty_TraceID resp)))) (\<lambda>_.
           succeed resp))))) s)"

definition testDownstreamHTTP :: "traceEnv \<Rightarrow> waitContext \<Rightarrow> unit testRun" where
  "testDownstreamHTTP env ctx =
     step (downstream_logs env ctx TraceDownstreamHTTP ''http'' ''trace downstream http'' ''downstream http''
             [''trace-target-app'', ''trace-downstream-http'']) (\<lambda>resp.
       wrapping ''waiting for downstream http spans''
         (wait_spans env ctx (ty_TraceID resp)
           [''trace.downstream.http'', ''downstream.http.call'', ''downstream.http.handler'']))"

definition testDownstreamGRPC :: "traceEnv \<Rightarrow> waitContext \<Rightarrow> unit testRun" where
  "testDownstreamGRPC env ctx =
     step (downstream_logs env ctx TraceDownstreamGRPC ''grpc'' ''trace downstream grpc'' ''downstream grpc''
             [''trace-target-app'', ''trace-downstream-grpc'']) (\<lambda>resp.
       wrapping ''waiting for downstream grpc spans''
         (wait_spans env ctx (ty_TraceID resp)
           [''trace.downstream.grpc'', ''downstream.grpc.call'', ''downstream.grpc.handler'']))"

definition testDownstreamPubSub :: "traceEnv \<Rightarrow> waitContext \<Rightarrow> unit testRun" where
  "testDownstreamPubSub env ctx =
     step (downstream_logs env ctx TraceDownstreamPubSub ''pubsub'' ''trace downstream pubsub''
             ''downstream pubsub'' [''trace-target-app'', ''trace-downstream-http'']) (\<lambda>_. succeed ())"

definition adapter_filter :: "gostring \<Rightarrow> gostring" where
  "adapter_filter trace_name =
     ''trace='' @ dquote @ trace_name @ dquote @
     '' AND jsonPayload.message='' @ dquote @ ''finished call'' @ dquote @
     '' AND jsonPayload.'' @ dquote @ ''grpc.service'' @ dquote @ ''='' @ dquote @ ''tracegrpc.TraceWorker'' @ dquote @
     '' AND jsonPayload.'' @ dquote @ ''grpc.method'' @ dquote @ ''='' @ dquote @ ''DoWork'' @ dquote"

definition testGRPCAdapterLogging :: "traceEnv \<Rightarrow> waitContext \<Rightarrow> unit testRun" where
  "testGRPCAdapterLogging env ctx s =
     (let req = \<lparr>tr_TestID = trace_test_id env ''grpc-adapter'' (tt_now s),
                 tr_Message = ''trace grpc adapter logging''\<rparr>;
          services = [''trace-target-app'', ''trace-downstream-grpc'']
      in step (successful env TraceDownstreamGRPC (UnaryBody req) ''grpc adapter trace'') (\<lambda>resp.
         step (wrapping ''waiting for grpc adapter logs''
                (wait_services env ctx (adapter_filter (expectedTraceName (xe_suite env) (ty_TraceID resp)))
                  services)) (\<lambda>entries.
         step (ensure (entries \<noteq> []) (''no adapter interceptor logs found for trace '' @ ty_TraceID resp)) (\<lambda>_.
         step (wrapping ''adapter interceptor trace field validation failed''
                (error_free (validateTraceFields (xe_suite env) entries (ty_TraceID resp)))) (\<lambda>_.
         step (error_free (validateLogsCoverServices entries services)) (\<lambda>_.
         step (ensure (map_of (collectGRPCComponents entries) ''client'' \<noteq> None)
                (''missing client-side adapter logs for trace '' @ ty_TraceID resp)) (\<lambda>_.
           ensure (map_of (collectGRPCComponents entries) ''server'' \<noteq> None)
             (''missing server-side adapter logs for trace '' @ ty_TraceID resp))))))) s)"

section \<open>Streaming tests\<close>

text \<open>Equality of floats: a NaN differs from itself, the two zeros are equal.\<close>

definition float_eq :: "64 word \<Rightarrow> 64 word \<Rightarrow> bool" where
  "float_eq a b \<longleftrightarrow>
     \<not> float_nan a \<and> \<not> float_nan b \<and> (a = b \<or> \<not> float_nonzero a \<and> \<not> float_nonzero b)"

definition payloadValueMatches :: "harnesslib \<Rightarrow> hval \<Rightarrow> hval \<Rightarrow> bool" where
  "payloadValueMatches lib actual want =
     (case want of
        HStr w \<Rightarrow> percent_v lib actual = w
      | HFloat64 w \<Rightarrow> (case actual of HFloat64 g \<Rightarrow> float_eq g w | _ \<Rightarrow> False)
      | _ \<Rightarrow> percent_v lib actual = percent_v lib want)"

definition payloadMatchesExpected :: "harnesslib \<Rightarrow> hval gomap \<Rightarrow> hval gomap \<Rightarrow> bool" where
  "payloadMatchesExpected lib payload expected =
     list_all (\<lambda>(key, want).
       case map_of payload key of None \<Rightarrow> False | Some actual \<Rightarrow> payloadValueMatches lib actual want) expected"

definition has_details :: "harnesslib \<Rightarrow> gostring \<Rightarrow> hval gomap \<Rightarrow> LogEntry \<Rightarrow> bool" where
  "has_details lib service expected e \<longleftrightarrow>
     from_service e service \<and>
     (case ExtractPayloadMap (Some e) of
        None \<Rightarrow> False
      | Some payload \<Rightarrow> payloadMatchesExpected lib payload expected)"

definition expectLogDetails :: "traceEnv \<Rightarrow> LogEntry list \<Rightarrow> gostring \<Rightarrow> hval gomap \<Rightarrow> gostring option" where
  "expectLogDetails env es service expected =
     (if list_ex (has_details (xe_lib env) service expected) es then None
      else Some (''expected log from service '' @ service @ '' with details '' @ map_text env expected @ '' not found''))"

definition expect_detail :: "gostring gomap \<Rightarrow> gostring \<Rightarrow> gostring \<Rightarrow> gostring option" where
  "expect_detail details key want =
     (if sget details key \<noteq> want
      then Some (''unexpected '' @ key @ '' detail: got '' @ sget details key @ '' want '' @ want) else None)"

definition response_details :: "gostring \<Rightarrow> traceReply \<Rightarrow> (gostring \<times> gostring) list \<Rightarrow> gostring option" where
  "response_details kind resp expected =
     (case ty_Details resp of
        None \<Rightarrow> Some (kind @ '' trace missing response details'')
      | Some details \<Rightarrow> first_error (map (\<lambda>(k, v). expect_detail details k v) expected))"

definition validateBidiResponseDetails :: "traceReply \<Rightarrow> nat \<Rightarrow> gostring option" where
  "validateBidiResponseDetails resp expectedCount =
     response_details ''bidi stream'' resp
       [(''response_count'', FormatInt (int expectedCount)), (''last_payload'', ''two''),
        (''last_chunk_id'', ''chunk-2'')]"

text \<open>What follows the checks of the answer: the logs of the target, their trace, the spans.\<close>

definition stream_logs ::
  "traceEnv \<Rightarrow> waitContext \<Rightarrow> gostring \<Rightarrow> gostring \<Rightarrow> gostring \<Rightarrow> hval gomap \<Rightarrow> gostring list \<Rightarrow> unit testRun" where
  "stream_logs env ctx tid trace_id kind expected spans =
     step (wrapping (''waiting for '' @ kind @ '' logs'')
            (wait_services env ctx (test_id_filter tid) [''trace-target-app''])) (\<lambda>entries.
     step (wrapping (kind @ '' trace field validation failed'')
            (error_free (validateTraceFields (xe_suite env) entries trace_id))) (\<lambda>_.
     step (error_free (expectLogDetails env entries ''trace-target-app'' expected)) (\<lambda>_.
       wrapping (''waiting for '' @ kind @ '' spans'') (wait_spans env ctx trace_id spans))))"

definition server_stream_request :: "gostring \<Rightarrow> serverStreamTraceRequest" where
  "server_stream_request tid =
     \<lparr>st_TraceRequest = Some \<lparr>tr_TestID = tid, tr_Message = ''trace downstream grpc server stream''\<rparr>,
      st_ResponseCount = 3, st_ResponsePayload = ''server-stream-payload'', st_FinalStatus = [],
      st_FinalMessage = []\<rparr>"

definition server_stream_expected :: "hval gomap" where
  "server_stream_expected =
     [(''message'', HStr ''Completed downstream gRPC server stream''),
      (''responses'', HFloat64 (float_of_int 3))]"

definition testDownstreamGRPCServerStream :: "traceEnv \<Rightarrow> waitContext \<Rightarrow> unit testRun" where
  "testDownstreamGRPCServerStream env ctx s =
     (let tid = trace_test_id env ''grpc-server-stream'' (tt_now s)
      in step (successful env TraceServerStream (ServerStreamBody (server_stream_request tid))
                 ''server stream trace'') (\<lambda>resp.
         step (error_free (response_details ''server stream'' resp
                [(''response_count'', FormatInt 3), (''last_payload'', ''server-stream-payload'')])) (\<lambda>_.
           stream_logs env ctx tid (ty_TraceID resp) ''server stream'' server_stream_expected
             [''trace.downstream.grpc.stream_server'', ''downstream.grpc.stream_server.call''])) s)"

definition plain_stream_chunk :: "gostring \<Rightarrow> clientStreamChunk" where
  "plain_stream_chunk payload =
     \<lparr>cc_TestID = [], cc_ChunkID = [], cc_Payload = payload, cc_FinalStatus = [], cc_FinalMessage = []\<rparr>"

definition client_stream_request :: "gostring \<Rightarrow> clientStreamTraceRequest" where
  "client_stream_request tid =
     \<lparr>ct_TraceRequest = Some \<lparr>tr_TestID = tid, tr_Message = ''trace downstream grpc client stream''\<rparr>,
      ct_Chunks = map plain_stream_chunk [''alpha'', ''beta'', ''gamma'']\<rparr>"

definition client_stream_expected :: "hval gomap" where
  "client_stream_expected =
     [(''message'', HStr ''Completed downstream gRPC client stream''),
      (''received_chunks'', HFloat64 (float_of_int 3))]"

definition client_stream_details_error :: "traceReply \<Rightarrow> gostring option" where
  "client_stream_details_error resp =
     response_details ''client stream'' resp
       [(''received_chunks'', FormatInt 3), (''concatenated'', ''alphabetagamma'')]"

definition testDownstreamGRPCClientStream :: "traceEnv \<Rightarrow> waitContext \<Rightarrow> unit testRun" where
  "testDownstreamGRPCClientStream env ctx s =
     (let tid = trace_test_id env ''grpc-client-stream'' (tt_now s)
      in step (successful env TraceClientStream (ClientStreamBody (client_stream_request tid))
                 ''client stream trace'') (\<lambda>resp.
         step (error_free (client_stream_details_error resp)) (\<lambda>_.
           stream_logs env ctx tid (ty_TraceID resp) ''client stream'' client_stream_expected
             [''trace.downstream.grpc.stream_client'', ''downstream.grpc.stream_client.call''])) s)"

definition bidi_stream_request :: "gostring \<Rightarrow> bidiStreamTraceRequest" where
  "bidi_stream_request tid =
     \<lparr>bt_TraceRequest = Some \<lparr>tr_TestID = tid, tr_Message = ''trace downstream grpc bidi stream''\<rparr>,
      bt_Messages =
        map (\<lambda>(payload, close). \<lparr>bc_TestID = [], bc_ChunkID = [], bc_Payload = payload, bc_CloseAfter = close,
               bc_FinalStatus = [], bc_FinalMessage = []\<rparr>) [(''one'', False), (''two'', True)]\<rparr>"

definition bidi_stream_expected :: "hval gomap" where
  "bidi_stream_expected =
     [(''message'', HStr ''Completed downstream gRPC bidi stream''),
      (''response_count'', HFloat64 (float_of_int 2))]"

definition testDownstreamGRPCBidiStream :: "traceEnv \<Rightarrow> waitContext \<Rightarrow> unit testRun" where
  "testDownstreamGRPCBidiStream env ctx s =
     (let tid = trace_test_id env ''grpc-bidi-stream'' (tt_now s)
      in step (successful env TraceBidiStream (BidiBody (bidi_stream_request tid)) ''bidi stream trace'') (\<lambda>resp.
         step (error_free (validateBidiResponseDetails resp 2)) (\<lambda>_.
           stream_logs env ctx tid (ty_TraceID resp) ''bidi stream'' bidi_stream_expected
             [''trace.downstream.grpc.stream_bidi'', ''downstream.grpc.stream_bidi.call''])) s)"

definition trace_test_table :: "(gostring \<times> (traceEnv \<Rightarrow> waitContext \<Rightarrow> unit testRun)) list" where
  "trace_test_table =
     [(''TraceStartupConfiguration'', testStartupConfiguration), (''TraceSimple'', testSimpleTrace),
      (''TraceDownstreamHTTP'', testDownstreamHTTP), (''TraceDownstreamGRPC'', testDownstreamGRPC),
      (''TraceDownstreamPubSub'', testDownstreamPubSub), (''TraceGRPCAdapterLogging'', testGRPCAdapterLogging),
      (''TraceDownstreamGRPCServerStream'', testDownstreamGRPCServerStream),
      (''TraceDownstreamGRPCClientStream'', testDownstreamGRPCClientStream),
      (''TraceDownstreamGRPCBidiStream'', testDownstreamGRPCBidiStream)]"

lemma trace_test_table_names: "map fst trace_test_table = trace_tests"
  by (simp add: trace_test_table_def trace_tests_def streaming_tests_def)
end
