(* ===== verification/HarnessTestsProps.thy ===== *)
theory HarnessTestsProps
  imports HarnessTests HarnessProps
begin

text \<open>
  What the core logging tests establish: a severity test passes exactly when the entry of its log
  has the severity; the name of a log is judged up to escaping.
\<close>

section \<open>Runs\<close>

lemma step_Value [simp]: "m s = Some (Value a, s') \<Longrightarrow> step m k s = k a s'"
  by (simp add: step_def)

lemma step_TestError [simp]: "m s = Some (TestError e, s') \<Longrightarrow> step m k s = Some (TestError e, s')"
  by (simp add: step_def)

lemma wrapping_Value [simp]: "m s = Some (Value a, s') \<Longrightarrow> wrapping p m s = Some (Value a, s')"
  by (simp add: wrapping_def)

lemma ensure_simps [simp]: "ensure True e = succeed ()" "ensure False e = fail e"
  by (simp_all add: ensure_def)

lemma run_ends [simp]: "succeed a s = Some (Value a, s)" "fail e s = Some (TestError e, s)"
  by (simp_all add: succeed_def fail_def)

lemma first_of_simps [simp]: "first_of e (x # xs) = succeed x" "first_of e [] = fail e"
  by (simp_all add: first_of_def)

lemma error_free_simps [simp]: "error_free None = succeed ()" "error_free (Some e) = fail e"
  by (simp_all add: error_free_def)

text \<open>A target that accepts every request.\<close>

definition accepting :: "testEnv \<Rightarrow> logReply \<Rightarrow> bool" where
  "accepting env reply \<longleftrightarrow>
     (\<forall>t rq. te_Do env t rq = Answered 200 (Inr reply)) \<and> (\<forall>req. \<exists>body. te_encode env req = Inr body)"

definition sent_at :: "testEnv \<Rightarrow> testState \<Rightarrow> testState" where
  "sent_at env s = s \<lparr> tt_now := tt_now s + int (te_taking env (tt_now s)) \<rparr>"

lemma send_accepted:
  assumes "accepting env reply"
  shows "send_log env op req s = Some (Value reply, sent_at env s)"
proof -
  obtain body where "te_encode env req = Inr body" using assms unfolding accepting_def by blast
  then show ?thesis
    using assms by (simp add: send_log_def sendLogRequest_def accepting_def sent_at_def Let_def)
qed

text \<open>A query that finds entries at once.\<close>

lemma wait_finds:
  assumes "Entries (WithTimeout ctx now logWaitTimeout) (buildLogFilter opts) now = (items, d)"
    and "collect_entries lib (max_results opts) items [] = (es, None)" and "es \<noteq> []"
  shows "WaitForLogs lib Entries ctx opts logWaitTimeout now = Some (Returns (Inr es) (now + int d) 1)"
  using assms
  by (simp add: WaitForLogs_def poll_logs.simps [of _ "now + _"] QueryLogs_def answer_of_def Let_def
      logWaitTimeout_def)

section \<open>Severities\<close>

lemma send_severities_accepted:
  assumes "accepting env reply" and "distinct (map fst defs)"
  shows "\<exists>s'. send_severities env defs s = Some (Value (), s') \<and> tt_once s' = tt_once s
    \<and> (\<forall>(endpoint, expected) \<in> set defs. \<exists>t. map_of (tt_severityLogs s') endpoint =
          Some \<lparr>sm_expected = expected, sm_testID = test_id env endpoint t\<rparr>)
    \<and> (\<forall>endpoint. endpoint \<notin> fst ` set defs \<longrightarrow>
          map_of (tt_severityLogs s') endpoint = map_of (tt_severityLogs s) endpoint)"
  using assms(2)
proof (induction defs arbitrary: s)
  case Nil
  then show ?case by simp
next
  case (Cons d defs)
  obtain endpoint expected where d: "d = (endpoint, expected)" by (cases d)
  define s1 where "s1 = sent_at env s \<lparr> tt_severityLogs :=
      mput endpoint \<lparr>sm_expected = expected, sm_testID = test_id env endpoint (tt_now s)\<rparr>
        (tt_severityLogs (sent_at env s)) \<rparr>"
  have "send_severities env (d # defs) s = send_severities env defs s1"
    by (simp add: d Let_def send_accepted [OF assms(1)] s1_def)
  moreover obtain s' where s': "send_severities env defs s1 = Some (Value (), s')" "tt_once s' = tt_once s1"
    "\<forall>(endpoint, expected) \<in> set defs. \<exists>t. map_of (tt_severityLogs s') endpoint =
        Some \<lparr>sm_expected = expected, sm_testID = test_id env endpoint t\<rparr>"
    "\<forall>endpoint. endpoint \<notin> fst ` set defs \<longrightarrow>
        map_of (tt_severityLogs s') endpoint = map_of (tt_severityLogs s1) endpoint"
    using Cons by fastforce
  ultimately show ?case
    using Cons.prems by (auto simp: d s1_def sent_at_def map_of_mput)
qed


lemma severity_definitions_distinct: "distinct (map fst severity_definitions)"
  by (simp add: severity_definitions_def)

lemma severities_ensured:
  assumes "accepting env reply" and "tt_once s = None" and "(endpoint, expected) \<in> set severity_definitions"
  shows "\<exists>s' t. severityMetadata env endpoint expected s =
    Some (Value \<lparr>sm_expected = expected, sm_testID = test_id env endpoint t\<rparr>, s')"
proof -
  obtain s1 t where s1: "send_severities env severity_definitions s = Some (Value (), s1)"
    "map_of (tt_severityLogs s1) endpoint = Some \<lparr>sm_expected = expected, sm_testID = test_id env endpoint t\<rparr>"
    using send_severities_accepted [OF assms(1) severity_definitions_distinct, of s] assms(3) by blast
  have "ensureSeverityLogs env s = Some (Value (), s1 \<lparr> tt_once := Some None \<rparr>)"
    using assms(2) s1(1) by (simp add: ensureSeverityLogs_def generateSeverityLogs_def)
  then have "severityMetadata env endpoint expected s =
      Some (Value \<lparr>sm_expected = expected, sm_testID = test_id env endpoint t\<rparr>, s1 \<lparr> tt_once := Some None \<rparr>)"
    using s1(2) by (simp add: severityMetadata_def)
  then show ?thesis by blast
qed

text \<open>The service returns the entry \<open>e\<close> whenever the filter starts with an identifier of the endpoint.\<close>

definition finds_entry :: "testEnv \<Rightarrow> gostring \<Rightarrow> loggingEntry \<Rightarrow> bool" where
  "finds_entry env endpoint e \<longleftrightarrow>
     (\<forall>ctx f t now. HasPrefix f (test_id_filter (test_id env endpoint t)) \<longrightarrow>
        fst (te_Entries env ctx f now) = [Item (Some e)])"

lemma recent_filter: "HasPrefix (buildLogFilter (recent env (test_id_filter tid) d n now)) (test_id_filter tid)"
proof -
  have "test_id_filter tid \<noteq> []" by (simp add: test_id_filter_def)
  then show ?thesis
    by (auto simp: buildLogFilter_def filter_parts_def recent_def HasPrefix_def)
qed

lemma finds_recent:
  assumes "finds_entry env endpoint e" and "snd (newLogEntry (te_lib env) (Some e)) = Inr le" and "1 \<le> n"
  shows "\<exists>s'. wait_recent env ctx (test_id_filter (test_id env endpoint t)) d n s = Some (Value [le], s')"
proof -
  let ?o = "recent env (test_id_filter (test_id env endpoint t)) d n (tt_now s)"
  obtain dt where found: "te_Entries env (WithTimeout ctx (tt_now s) logWaitTimeout) (buildLogFilter ?o) (tt_now s)
      = ([Item (Some e)], dt)"
    using assms(1) recent_filter unfolding finds_entry_def by (metis eq_fst_iff)
  have "collect_entries (te_lib env) (max_results ?o) [Item (Some e)] [] = ([le], None)"
    using assms(2,3) by (simp add: max_results_def recent_def)
  then have "WaitForLogs (te_lib env) (te_Entries env) ctx ?o logWaitTimeout (tt_now s)
      = Some (Returns (Inr [le]) (tt_now s + int dt) 1)"
    by (intro wait_finds [where items = "[Item (Some e)]"] found) simp_all
  then show ?thesis by (simp add: wait_recent_def wait_logs_def waiting_def)
qed


definition demo_test_env :: testEnv where
  "demo_test_env =
     \<lparr>te_suite = NewCoreLoggingTestSuite ''s'' ''svc'' [] [], te_testRunID = ''run'', te_projectID = ''p'',
      te_target = \<lparr>tc_baseURL = ''https://t'', tc_httpClient = PlainClient\<rparr>,
      te_logging = \<lparr>lc_projectID = ''p'', lc_httpClient = True\<rparr>, te_lib = demo_harnesslib,
      te_encode = (\<lambda>req. Inr (cl_Message req)),
      te_Do = (\<lambda>_ _. Answered 200 (Inr \<lparr>ly_Success = True, ly_Message = ''sent''\<rparr>)), te_taking = (\<lambda>_. 5),
      te_Entries = (\<lambda>_ _ _. ([Item (Some demo_entry)], 7)),
      te_api = \<lparr>encode_request = (\<lambda>_. Inr []), post_entries = (\<lambda>_ _ _. (Inr (200, []), 1)),
        decode_response = (\<lambda>_. Inl [])\<rparr>,
      te_jitter = (\<lambda>_ _. 0), te_uuid = (\<lambda>_. ''u''), te_sha256 = (\<lambda>_. []), te_parseTime = (\<lambda>_. None),
      te_encodeEntry = (\<lambda>_. None), te_environ = (\<lambda>_. []), te_zone = 0, te_timeText = (\<lambda>_. []),
      te_parseFloat = (\<lambda>_. None), te_typeText = (\<lambda>_. [])\<rparr>"

definition start_state :: testState where
  "start_state = \<lparr>tt_now = 0, tt_once = None, tt_severityLogs = []\<rparr>"


section \<open>Log names\<close>

lemma escaped_byte:
  "PathUnescape (CHR ''%'' # upper_hex (of_char c div 16) # upper_hex (of_char c mod 16) # s)
     = map_option (\<lambda>t. c # t) (PathUnescape s)"
proof -
  have d: "d < 16 \<Longrightarrow> digit_value (upper_hex d) = Some d" for d
    by (auto simp: digit_value_def upper_hex_def Let_def)
  have "(of_char c :: nat) < 256" by simp
  then have "(of_char c :: nat) div 16 < 16" "(of_char c :: nat) mod 16 < 16" by linarith+
  then show ?thesis by (simp add: d)
qed

text \<open>Escaping is undone by the validator, whatever the log identifier.\<close>

lemma PathUnescape_PathEscape: "PathUnescape (PathEscape s) = Some s"
proof (induction s)
  case (Cons c s)
  have "path_unreserved c \<Longrightarrow> c \<noteq> CHR ''%''" by (auto simp: path_unreserved_def)
  then show ?case
    using Cons escaped_byte [of c "PathEscape s"] by (auto simp: PathEscape_def)
qed (simp add: PathEscape_def)

lemma log_name_judged:
  assumes "LogName e = ''projects/'' @ p @ ''/logs/'' @ actual" and "PathUnescape actual = Some logID'"
    and "logID' \<noteq> []"
  shows "Valid (ValidateLogName (NewLogValidator p) (Some e) (''projects/'' @ p @ ''/logs/'' @ PathEscape logID))
    \<longleftrightarrow> logID' = logID"
proof -
  have pre: "HasPrefix ((''projects/'' @ p @ ''/logs/'') @ x) (''projects/'' @ p @ ''/logs/'')" for x
    by (simp add: HasPrefix_def)
  have rest: "TrimPrefix (''projects/'' @ p @ ''/logs/'' @ x) (''projects/'' @ p @ ''/logs/'') = x" for x
    by (simp add: TrimPrefix_def HasPrefix_def)
  show ?thesis
    using assms pre rest PathUnescape_PathEscape [of logID]
    by (auto simp: ValidateLogName_def NewLogValidator_def decoded_def Let_def)
qed

section \<open>Numbers kept as text\<close>

text \<open>
  A number beyond 64 bits is refused as a float and converted as text, to whatever the platform
  makes of it.
\<close>

lemma json_number_unchecked:
  assumes "Atoi n = None" and "te_parseFloat env n = Some w" and "float_finite w" and "float_trunc w > 2 ^ 63"
  shows "tests_valueToInt env (HNumber n) = Some (int64_of_huge (te_lib env) w)
    \<and> tests_valueToInt env (HFloat64 w) = None"
  using assms
  by (simp add: tests_valueToInt_def signedValueToInt_def unsignedValueToInt_def floatValueToInt_def
      jsonNumberValueToInt_def jsonNumberToInt_def float64ToInt_def float_above_def parseStringInt_def
      int64_of_float_def in_int64_def max_int64_def min_int64_def)
end
