(* ===== verification/TraceTestsProps.thy ===== *)
theory TraceTestsProps
  imports TraceTests HarnessTestsProps HarnessTargetProps TraceProps
begin

text \<open>
  Waiting for the logs of several services ends and finds them; the streaming test over the trace
  target and its worker passes when logs and spans are delivered.
\<close>

section \<open>Waiting for several services\<close>

text \<open>What the keys and the services of a search say of its entries.\<close>

definition search_inv ::
  "LogEntry set \<Rightarrow> (nat \<Rightarrow> gostring) \<Rightarrow> unit gomap \<Rightarrow> serviceSearch \<Rightarrow> bool" where
  "search_inv E address expected ss \<longleftrightarrow>
     set (ss_entries ss) \<subseteq> E \<and>
     (\<forall>k. map_of (ss_seen ss) k \<noteq> None \<longrightarrow> (\<exists>e \<in> set (ss_entries ss). \<exists>n. k = logEntryKey (address n) e)) \<and>
     distinct (map fst (ss_found ss)) \<and>
     (\<forall>svc. map_of (ss_found ss) svc \<noteq> None \<longrightarrow>
        map_of expected svc \<noteq> None \<and> (\<exists>e \<in> set (ss_entries ss). from_service e svc))"

text \<open>Entries with the same key come from the same service.\<close>

definition keys_identify :: "LogEntry set \<Rightarrow> (nat \<Rightarrow> gostring) \<Rightarrow> bool" where
  "keys_identify E address \<longleftrightarrow>
     (\<forall>e \<in> E. \<forall>e' \<in> E. \<forall>n n'. logEntryKey (address n) e = logEntryKey (address n') e' \<longrightarrow> Labels e = Labels e')"

lemma append_entries:
  assumes "set es \<subseteq> E" and "keys_identify E address" and "search_inv E address expected ss"
  shows "search_inv E address expected (appendUniqueEntries address es ss)
    \<and> set (ss_entries ss) \<subseteq> set (ss_entries (appendUniqueEntries address es ss))
    \<and> ss_found (appendUniqueEntries address es ss) = ss_found ss
    \<and> (\<forall>e \<in> set es. \<exists>e' \<in> set (ss_entries (appendUniqueEntries address es ss)). Labels e' = Labels e)"
  using assms(1,3)
proof (induction es arbitrary: ss)
  case Nil
  then show ?case by simp
next
  case (Cons e es)
  let ?k = "logEntryKey (address (ss_fetched ss)) e"
  define ss1 where "ss1 = (if map_of (ss_seen ss) ?k \<noteq> None then ss \<lparr> ss_fetched := Suc (ss_fetched ss) \<rparr>
      else ss \<lparr> ss_fetched := Suc (ss_fetched ss), ss_entries := ss_entries ss @ [e],
                ss_seen := mput ?k () (ss_seen ss) \<rparr>)"
  have run: "appendUniqueEntries address (e # es) ss = appendUniqueEntries address es ss1"
    by (simp add: ss1_def Let_def)
  have inv: "search_inv E address expected ss1"
    using Cons.prems by (fastforce simp: search_inv_def ss1_def)
  have sub: "set (ss_entries ss) \<subseteq> set (ss_entries ss1)" "ss_found ss1 = ss_found ss"
    by (auto simp: ss1_def)
  have this_one: "\<exists>e' \<in> set (ss_entries ss1). Labels e' = Labels e"
  proof (cases "map_of (ss_seen ss) ?k = None")
    case True
    then show ?thesis by (simp add: ss1_def)
  next
    case False
    then obtain e' n where e': "e' \<in> set (ss_entries ss)" "?k = logEntryKey (address n) e'"
      using Cons.prems(2) unfolding search_inv_def by blast
    have "e' \<in> E" "e \<in> E" using Cons.prems e'(1) by (auto simp: search_inv_def)
    then have "Labels e' = Labels e" using assms(2) e'(2) unfolding keys_identify_def by metis
    then show ?thesis using sub e'(1) by blast
  qed
  show ?case using Cons.IH [OF _ inv] Cons.prems(1) sub this_one unfolding run by fastforce
qed

lemma mark_found_from:
  "map_of (mark_found expected e found) svc \<noteq> None \<longleftrightarrow>
     map_of found svc \<noteq> None \<or> (from_service e svc \<and> svc \<noteq> [] \<and> map_of expected svc \<noteq> None)"
  by (auto simp: mark_found_def from_service_def Let_def)

lemma marked_from:
  "map_of (markFoundServices expected es found) svc \<noteq> None \<longleftrightarrow>
     map_of found svc \<noteq> None \<or> (\<exists>e \<in> set es. from_service e svc \<and> svc \<noteq> [] \<and> map_of expected svc \<noteq> None)"
proof (induction es arbitrary: found)
  case (Cons e es)
  then show ?case
    unfolding markFoundServices_def fold_Cons comp_apply using mark_found_from [of expected e found svc] by auto
qed (simp add: markFoundServices_def)

lemma mark_found_distinct:
  "distinct (map fst found) \<Longrightarrow> distinct (map fst (mark_found expected e found))"
  by (simp add: mark_found_def Let_def distinct_update)

lemma marked_distinct:
  "distinct (map fst found) \<Longrightarrow> distinct (map fst (markFoundServices expected es found))"
proof (induction es arbitrary: found)
  case (Cons e es)
  show ?case
    using Cons.IH [OF mark_found_distinct [OF Cons.prems]] by (simp add: markFoundServices_def)
qed (simp add: markFoundServices_def)

lemma search_round_inv:
  assumes "set es \<subseteq> E" and "keys_identify E address" and "search_inv E address expected ss"
  shows "search_inv E address expected (search_round address expected es ss)"
proof -
  note a = append_entries [OF assms]
  have "map_of expected svc \<noteq> None \<and>
      (\<exists>e \<in> set (ss_entries (appendUniqueEntries address es ss)). from_service e svc)"
    if "map_of (markFoundServices expected es (ss_found ss)) svc \<noteq> None" for svc
  proof -
    from iffD1 [OF marked_from that] consider "map_of (ss_found ss) svc \<noteq> None"
      | e where "e \<in> set es" "from_service e svc" "map_of expected svc \<noteq> None"
      by blast
    then show ?thesis
    proof cases
      case 1
      then show ?thesis using a assms(3) unfolding search_inv_def by blast
    next
      case 2
      then obtain e' where "e' \<in> set (ss_entries (appendUniqueEntries address es ss))" "Labels e' = Labels e"
        using a by blast
      moreover from this(2) have "from_service e' svc" using 2(2) by (simp add: from_service_def)
      ultimately show ?thesis using 2(3) by blast
    qed
  qed
  moreover have "distinct (map fst (markFoundServices expected es (ss_found ss)))"
    using assms(3) by (intro marked_distinct) (simp add: search_inv_def)
  ultimately show ?thesis using a unfolding search_inv_def search_round_def by simp
qed

lemma service_loop_ends:
  assumes later: "\<And>now. now \<le> snd (query now)"
    and fetched: "\<And>now. set (fst (fst (query now))) \<subseteq> E" and "keys_identify E address"
    and "second \<le> backoff" and "search_inv E address expected ss"
  shows "\<exists>a t n. service_loop ctx deadline query address services expected ss backoff now polls
      = Some (Returns a t n)
    \<and> polls \<le> n \<and> (n = polls \<or> int (n - polls - 1) * second < deadline - now)
    \<and> (\<forall>es. a = Inr es \<longrightarrow> (\<exists>ss'. search_inv E address expected ss' \<and> ss_entries ss' = es
           \<and> length (ss_found ss') = length expected))"
  using assms(4,5)
proof (induction "nat (deadline - now)" arbitrary: ss backoff now polls rule: less_induct)
  case less
  note unroll = service_loop.simps [of ctx deadline query address services expected ss backoff now polls]
  show ?case
  proof (cases "now < deadline")
    case False
    then show ?thesis by (simp add: unroll)
  next
    case True
    obtain entries err t where q: "query now = ((entries, err), t)" by (metis prod.exhaust)
    then have t: "now \<le> t" using later [of now] by simp
    define ss1 where "ss1 = search_round address expected entries ss"
    have inv: "search_inv E address expected ss1"
      unfolding ss1_def by (rule search_round_inv) (use fetched [of now] q assms(3) less.prems in simp_all)
    note loop = unroll [unfolded if_P [OF True] q prod.case]
    show ?thesis
    proof (cases err)
      case (Some e)
      then show ?thesis using True by (simp add: loop)
    next
      case None
      show ?thesis
      proof (cases "length (ss_found ss1) = length expected")
        case complete: True
        then show ?thesis using None True inv by (auto simp add: loop Let_def ss1_def [symmetric])
      next
        case incomplete: False
        obtain t2 e where t2: "wait_or_done ctx t backoff = (t2, e)" by (cases "wait_or_done ctx t backoff")
        show ?thesis
        proof (cases e)
          case (Some x)
          then show ?thesis using None incomplete True t2 by (simp add: loop Let_def ss1_def [symmetric])
        next
          case e: None
          then have "t2 = t + backoff" using t2 by (auto simp: wait_or_done_def split: option.splits)
          then have later: "now + second \<le> t2" using t less.prems by simp
          then have "nat (deadline - t2) < nat (deadline - now)" using True by simp
          moreover have "second \<le> next_backoff backoff" using less.prems by (simp add: next_backoff_def)
          ultimately obtain a' t' n' where ih:
            "service_loop ctx deadline query address services expected ss1 (next_backoff backoff) t2 (Suc polls)
               = Some (Returns a' t' n')"
            "Suc polls \<le> n'" "n' = Suc polls \<or> int (n' - Suc polls - 1) * second < deadline - t2"
            "\<forall>es. a' = Inr es \<longrightarrow> (\<exists>ss'. search_inv E address expected ss' \<and> ss_entries ss' = es
               \<and> length (ss_found ss') = length expected)"
            using less.hyps inv by blast
          have "int (n' - polls - 1) * second < deadline - now" using ih(2,3) later True by auto
          then show ?thesis using None incomplete e t2 ih by (simp add: loop Let_def ss1_def [symmetric])
        qed
      qed
    qed
  qed
qed

lemma mark_covered_from:
  "map_of (mark_covered services e found) svc \<noteq> None \<longleftrightarrow>
     map_of found svc \<noteq> None \<or> svc \<in> set services \<and> from_service e svc"
proof -
  have "map_of (fold (\<lambda>svc found. if from_service e svc then mput svc () found else found) ss f) svc \<noteq> None
      \<longleftrightarrow> map_of f svc \<noteq> None \<or> svc \<in> set ss \<and> from_service e svc" for ss f
    by (induction ss arbitrary: f) auto
  then show ?thesis unfolding mark_covered_def .
qed

lemma mark_covered_distinct:
  "distinct (map fst found) \<Longrightarrow> distinct (map fst (mark_covered services e found))"
  unfolding mark_covered_def by (induction services arbitrary: found) (simp_all add: distinct_update)

lemma fold_covered_from:
  "map_of (fold (mark_covered services) es found) svc \<noteq> None \<longleftrightarrow>
     map_of found svc \<noteq> None \<or> svc \<in> set services \<and> (\<exists>e \<in> set es. from_service e svc)"
proof (induction es arbitrary: found)
  case (Cons e es)
  then show ?case
    unfolding fold_Cons comp_apply using mark_covered_from by (metis list.set_intros set_ConsD)
qed simp

lemma covered_from:
  "map_of (covered es services) svc \<noteq> None \<longleftrightarrow> svc \<in> set services \<and> (\<exists>e \<in> set es. from_service e svc)"
  unfolding covered_def using fold_covered_from [of services es "[]"] by simp

lemma covered_distinct: "distinct (map fst (covered es services))"
proof -
  have "distinct (map fst found) \<Longrightarrow> distinct (map fst (fold (mark_covered services) es found))" for found
    by (induction es arbitrary: found) (simp_all add: mark_covered_distinct)
  then show ?thesis unfolding covered_def by simp
qed

lemma keys_are: "{k. map_of m k \<noteq> None} = set (map fst m)"
  by (auto simp: map_of_eq_None_iff)

lemma found_all_covered:
  assumes "distinct services" and "search_inv E address (expected_set services) ss"
    and "length (ss_found ss) = length (expected_set services)"
  shows "validateLogsCoverServices (ss_entries ss) services = None"
proof -
  have "set (map fst (ss_found ss)) \<subseteq> set (map fst (expected_set services))"
    using assms(2) unfolding search_inv_def keys_are [symmetric] by blast
  moreover have "card (set (map fst (ss_found ss))) = card (set (map fst (expected_set services)))"
    using assms(2,3) expected_keys(2) [of services] by (simp add: search_inv_def distinct_card del: set_map)
  ultimately have "set (map fst (ss_found ss)) = set services"
    using card_subset_eq expected_keys(1) by (metis List.finite_set)
  then have "\<exists>e \<in> set (ss_entries ss). from_service e svc" if "svc \<in> set services" for svc
    using assms(2) that unfolding search_inv_def by (metis (mono_tags) keys_are mem_Collect_eq)
  then have "set (map fst (covered (ss_entries ss) services)) = set services"
    unfolding keys_are [symmetric] using covered_from by fastforce
  then have "length (covered (ss_entries ss) services) = length services"
    using covered_distinct [of "ss_entries ss" services] assms(1) by (metis distinct_card length_map)
  then show ?thesis by (simp add: validateLogsCoverServices_def)
qed

text \<open>What the queries of a wait may return.\<close>

definition fetchable :: "traceEnv \<Rightarrow> waitContext \<Rightarrow> QueryOptions \<Rightarrow> LogEntry set" where
  "fetchable env ctx opts = {e. \<exists>t. e \<in> set (fst (fst (QueryLogs (xe_lib env) (xe_Entries env ctx) opts t)))}"


text \<open>Entries of two services, delivered at once.\<close>

definition service_entry :: "gostring \<Rightarrow> gostring \<Rightarrow> loggingEntry" where
  "service_entry insertID svc =
     \<lparr>le_Payload = PMap [(''message'', HStr ''done'')], le_Severity = ''INFO'',
      le_Timestamp = \<lparr>unix_ns = 0, zone = 0\<rparr>, le_LogName = ''projects/p/logs/l'', le_Trace = [], le_SpanID = [],
      le_TraceSampled = False, le_Labels = [(''app'', svc)], le_HTTPRequest = None, le_SourceLocation = None,
      le_Resource = None, le_Operation = None, le_InsertID = insertID\<rparr>"

definition read_entry :: "gostring \<Rightarrow> gostring \<Rightarrow> LogEntry" where
  "read_entry insertID svc =
     (case snd (newLogEntry demo_harnesslib (Some (service_entry insertID svc))) of
        Inr le \<Rightarrow> le | Inl _ \<Rightarrow> undefined)"

definition demo_trace_env :: "gostring \<Rightarrow> gostring \<Rightarrow> traceEnv" where
  "demo_trace_env id1 id2 =
     \<lparr>xe_suite = NewTraceTestSuite ''p'' ''s'' ''svc'' [] [] [] None None None, xe_testRunID = ''run'',
      xe_target = \<lparr>tc_baseURL = ''https://t'', tc_httpClient = PlainClient\<rparr>, xe_lib = demo_harnesslib,
      xe_encode = (\<lambda>_. Inr ''{}''), xe_Do = (\<lambda>_ _. NotSent ''refused''), xe_taking = (\<lambda>_. 5),
      xe_ids = (\<lambda>_ _. \<lparr>ids_trace = ''a'', ids_span = ''b''\<rparr>),
      xe_Entries = (\<lambda>_ _ _. ([Item (Some (service_entry id1 ''a'')), Item (Some (service_entry id2 ''b''))], 7)),
      xe_getTrace = (\<lambda>_ _. (Inr None, 3)), xe_address = (\<lambda>n. FormatInt (int n)), xe_zone = 0,
      xe_typeText = (\<lambda>_. [])\<rparr>"

definition demo_options :: QueryOptions where
  "demo_options = \<lparr>qo_Filter = ''f'', qo_StartTime = zero_time, qo_EndTime = zero_time, qo_MaxResults = 20,
      qo_ResourceType = []\<rparr>"

lemma read_entry_reads:
  "snd (newLogEntry demo_harnesslib (Some (service_entry ''i1'' ''a''))) = Inr (read_entry ''i1'' ''a'')
   \<and> InsertID (read_entry ''i1'' ''a'') = ''i1''
   \<and> snd (newLogEntry demo_harnesslib (Some (service_entry ''i2'' ''b''))) = Inr (read_entry ''i2'' ''b'')
   \<and> InsertID (read_entry ''i2'' ''b'') = ''i2''"
  by code_simp

lemma keys_identify_two:
  assumes "E \<subseteq> {a, b}" and "InsertID a \<noteq> []" and "InsertID b \<noteq> []" and "InsertID a \<noteq> InsertID b"
  shows "keys_identify E address"
proof -
  have key: "logEntryKey (address n) a = InsertID a" "logEntryKey (address n) b = InsertID b" for n
    using assms(2,3) by (simp_all add: logEntryKey_def)
  show ?thesis
    unfolding keys_identify_def
  proof (intro ballI allI impI)
    fix e e' n n'
    assume "e \<in> E" "e' \<in> E" and eq: "logEntryKey (address n) e = logEntryKey (address n') e'"
    then have "e = a \<or> e = b" "e' = a \<or> e' = b" using assms(1) by auto
    then show "Labels e = Labels e'" using eq assms(4) key by auto
  qed
qed


text \<open>
  Two entries of different services with the same insert identifier, which only identifies an entry
  together with its log and time: the wait ends with one of them, which then fails the check.
\<close>

lemma same_insert_id_drops:
  "map_option (\<lambda>r. case r of Returns (Inr es) _ _ \<Rightarrow> (length es, validateLogsCoverServices es [''a'', ''b''])
                           | _ \<Rightarrow> (0, None))
     (waitForLogsFromServices (demo_trace_env ''i'' ''i'') background demo_options [''a'', ''b''] 0)
   = Some (1, Some ''expected logs from services [a b], found map[a:{}]'')"
  by code_simp
section \<open>The streaming tests on the trace target\<close>

text \<open>The response as the client decodes it: an empty map of details is left out of the JSON.\<close>

definition reply_of :: "traceResponse \<Rightarrow> traceReply" where
  "reply_of resp =
     \<lparr>ty_Success = tp_Success resp, ty_Message = tp_Message resp, ty_TraceID = tp_TraceID resp,
      ty_Details = (if tp_Details resp = [] then None else Some (tp_Details resp))\<rparr>"

text \<open>A record with integers as the harness reads it: its message, and each integer as a float.\<close>

definition carries :: "LogEntry \<Rightarrow> gostring \<Rightarrow> slogAttr list \<Rightarrow> bool" where
  "carries e msg attrs \<longleftrightarrow>
     (case Payload e of
        None \<Rightarrow> False
      | Some p \<Rightarrow> map_of p ''message'' = Some (HStr msg) \<and>
          (\<forall>(k, v) \<in> set attrs. \<forall>i. v = VInt64 i \<and> abs i < 2 ^ 53 \<longrightarrow> map_of p k = Some (HFloat64 (float_of_int i))))"

text \<open>
  A service that delivers the entries \<open>es\<close> to every query for the test: all from the target and
  under the trace, with insert identifiers of their own.
\<close>

definition delivers :: "traceEnv \<Rightarrow> gostring \<Rightarrow> gostring \<Rightarrow> LogEntry list \<Rightarrow> bool" where
  "delivers env tid trace_id es \<longleftrightarrow>
     (\<forall>ctx f now. HasPrefix f (test_id_filter tid) \<longrightarrow>
        collect_entries (xe_lib env) 20 (fst (xe_Entries env ctx f now)) [] = (es, None)) \<and>
     list_all (\<lambda>e. InsertID e \<noteq> [] \<and> from_service e ''trace-target-app'' \<and>
        Trace e = expectedTraceName (xe_suite env) trace_id) es \<and>
     distinct (map InsertID es)"

lemma append_distinct:
  assumes "list_all (\<lambda>e. InsertID e \<noteq> []) es" and "distinct (map InsertID es)"
    and "\<forall>e \<in> set es. map_of (ss_seen ss) (InsertID e) = None"
  shows "ss_entries (appendUniqueEntries address es ss) = ss_entries ss @ es"
  using assms
proof (induction es arbitrary: ss)
  case (Cons e es)
  then have k: "logEntryKey (address (ss_fetched ss)) e = InsertID e" by (simp add: logEntryKey_def)
  have fresh: "map_of (ss_seen ss) (InsertID e) = None" using Cons.prems(3) by simp
  have "InsertID e \<notin> InsertID ` set es" using Cons.prems(2) by simp
  then have ne: "InsertID x \<noteq> InsertID e" if "x \<in> set es" for x using that by (metis image_eqI)
  then show ?case using Cons by (auto simp: k fresh Let_def)
qed simp

lemma found_at_once:
  assumes "delivers env tid trace_id es" and "es \<noteq> []"
  shows "\<exists>t. waitForLogsFromServices env ctx (trace_query env (test_id_filter tid) d 20 now0) [''trace-target-app''] now
    = Some (Returns (Inr es) t 1)"
proof -
  let ?o = "trace_query env (test_id_filter tid) d 20 now0" and ?ctx = "WithTimeout ctx now logWaitTimeout"
  have pre: "HasPrefix (buildLogFilter ?o) (test_id_filter tid)"
  proof -
    have "test_id_filter tid \<noteq> []" by (simp add: test_id_filter_def)
    then show ?thesis by (auto simp: buildLogFilter_def filter_parts_def trace_query_def HasPrefix_def)
  qed
  obtain items dt where items: "xe_Entries env ?ctx (buildLogFilter ?o) now = (items, dt)"
    by (cases "xe_Entries env ?ctx (buildLogFilter ?o) now")
  have "collect_entries (xe_lib env) 20 items [] = (es, None)"
    using assms(1) pre items unfolding delivers_def by (metis fst_conv)
  moreover have "max_results ?o = 20" by (simp add: max_results_def trace_query_def)
  ultimately have q: "QueryLogs (xe_lib env) (xe_Entries env ?ctx) ?o now = ((es, None), now + int dt)"
    by (simp only: QueryLogs_def items prod.case)
  have entries: "ss_entries (search_round (xe_address env) (expected_set [''trace-target-app'']) es no_search) = es"
    using append_distinct [of es no_search "xe_address env"] assms(1)
    by (auto simp: search_round_def delivers_def no_search_def list_all_iff)
  have m: "map_of (markFoundServices (expected_set [''trace-target-app'']) es []) svc \<noteq> None
      \<longleftrightarrow> svc = ''trace-target-app''" for svc
    unfolding marked_from using assms by (cases es) (auto simp: delivers_def expected_set_def list_all_iff)
  then have "set (map fst (markFoundServices (expected_set [''trace-target-app'']) es [])) = {''trace-target-app''}"
    unfolding keys_are [symmetric] by blast
  then have "length (markFoundServices (expected_set [''trace-target-app'']) es []) = 1"
    using marked_distinct [of "[]" "expected_set [''trace-target-app'']" es]
    by (metis One_nat_def card.empty card_insert_disjoint distinct_card distinct.simps(1) empty_iff finite.emptyI
        length_map list.simps(8))
  then have found: "length (ss_found (search_round (xe_address env) (expected_set [''trace-target-app'']) es no_search))
      = length (expected_set [''trace-target-app''])"
    by (simp add: search_round_def no_search_def expected_set_def)
  have soon: "now < now + logWaitTimeout" by (simp add: logWaitTimeout_def)
  show ?thesis
    using entries found soon
    by (simp add: waitForLogsFromServices_def Let_def service_loop.simps [of _ "now + _"] q)
qed


lemma traces_valid:
  "list_all (\<lambda>e. Trace e = expectedTraceName suite trace_id) es \<Longrightarrow> validateTraceFields suite es trace_id = None"
  by (induction es) (simp_all add: validateTraceFields_def validateTraceField_def expectedTraceName_def)

text \<open>The spans are there when they are asked for.\<close>

definition traced :: "traceEnv \<Rightarrow> gostring \<Rightarrow> gostring list \<Rightarrow> bool" where
  "traced env trace_id names \<longleftrightarrow>
     (\<forall>now. \<exists>spans. fst (xe_getTrace env trace_id now) = Inr (Some spans) \<and> (\<forall>n \<in> set names. Some n \<in> set spans))"

lemma spans_found:
  assumes "traced env trace_id names" and "names \<noteq> []"
  shows "\<exists>s'. wait_spans env ctx trace_id names s = Some (Value (), s')"
proof -
  obtain spans dt where g: "xe_getTrace env trace_id (tt_now s) = (Inr (Some spans), dt)"
      "\<forall>n \<in> set names. Some n \<in> set spans"
    using assms(1) unfolding traced_def by (metis prod.collapse)
  have "spansCover (Some spans) (expected_set names)" using g(2) by (simp add: spansCover_iff)
  then have "WaitForSpans (xe_getTrace env) ctx trace_id names traceWaitTimeout (tt_now s)
      = Some (Returns (Inr (Some spans)) (tt_now s + int dt) 1)"
    using assms(2) g(1)
    by (simp add: WaitForSpans_def span_loop.simps [of ctx "tt_now s + _"] GetTrace_def traceWaitTimeout_def)
  then show ?thesis by (simp add: wait_spans_def waiting_def)
qed

lemma stream_logs_pass:
  assumes "delivers env tid trace_id es" and "list_ex (has_details (xe_lib env) ''trace-target-app'' expected) es"
    and "traced env trace_id names" and "names \<noteq> []"
  shows "\<exists>s'. stream_logs env ctx tid trace_id kind expected names s = Some (Value (), s')"
proof -
  have ne: "es \<noteq> []" using assms(2) by auto
  obtain t where w: "waitForLogsFromServices env ctx (trace_query env (test_id_filter tid) (2 * minute) 20 (tt_now s))
      [''trace-target-app''] (tt_now s) = Some (Returns (Inr es) t 1)"
    using found_at_once [OF assms(1) ne] by blast
  then have v: "wait_services env ctx (test_id_filter tid) [''trace-target-app''] s
      = Some (Value es, s \<lparr> tt_now := t \<rparr>)"
    by (simp add: wait_services_def waiting_def)
  have valid: "validateTraceFields (xe_suite env) es trace_id = None"
    by (rule traces_valid) (use assms(1) in \<open>auto simp: delivers_def list_all_iff\<close>)
  obtain s' where s': "wait_spans env ctx trace_id names (s \<lparr> tt_now := t \<rparr>) = Some (Value (), s')"
    using spans_found [OF assms(3,4)] by blast
  have details: "expectLogDetails env es ''trace-target-app'' expected = None"
    using assms(2) by (simp add: expectLogDetails_def)
  show ?thesis by (simp add: stream_logs_def v valid details s')
qed

lemma send_trace_answered:
  assumes "\<And>rq. xe_Do env (tt_now s) rq = Answered 200 (Inr reply)" and "xe_encode env body = Inr b"
    and "ty_Success reply"
  shows "\<exists>s'. successful env op body kind s = Some (Value reply, s')"
  using assms by (simp add: successful_def send_trace_def sendTraceRequest_def Let_def)

lemma float_eq_int:
  assumes "i \<noteq> 0" and "abs i < 2 ^ 53"
  shows "float_eq (float_of_int i) (float_of_int i)"
proof -
  have "top_bit (nat (abs i)) \<le> 52" by (rule top_bit_small) (use assms in simp_all)
  then show ?thesis
    using float_of_int_parts(1) [OF assms(2,1)] by (simp add: float_eq_def float_nan_def)
qed

text \<open>The names under which the written spans can be read back.\<close>

definition span_names :: "serviceEvent list \<Rightarrow> gostring list" where
  "span_names events =
     concat (map (\<lambda>ev. case ev of WroteSpans b \<Rightarrow> map sn_DisplayName (sb_Spans b) | _ \<Rightarrow> []) events)"

lemma span_names_append [simp]: "span_names (xs @ ys) = span_names xs @ span_names ys"
  by (simp add: span_names_def)

lemma finish_span_names [simp]: "span_names (finish_span h k b msg) = [spb_name b]"
  by (simp add: finish_span_def handler_writeSpan_def span_names_def span_batch_def Let_def split: option.split)

text \<open>The information records of a service.\<close>

definition info_records :: "serviceEvent list \<Rightarrow> (gostring \<times> slogAttr list) list" where
  "info_records events =
     concat (map (\<lambda>ev. case ev of Logged l msg attrs \<Rightarrow> if l = LevelInfo then [(msg, attrs)] else [] | _ \<Rightarrow> []) events)"

lemma info_records_append [simp]: "info_records (xs @ ys) = info_records xs @ info_records ys"
  by (simp add: info_records_def)

lemma info_records_Logged [simp]: "info_records [Logged LevelInfo msg attrs] = [(msg, attrs)]"
  by (simp add: info_records_def)

lemma finish_span_records [simp]: "info_records (finish_span h k b msg) = []"
proof -
  have "LevelError \<noteq> LevelInfo" by (simp add: LevelError_def LevelInfo_def)
  then show ?thesis
    by (simp add: finish_span_def handler_writeSpan_def info_records_def Let_def split: option.split)
qed

definition no_integers :: "slogAttr list \<Rightarrow> bool" where
  "no_integers attrs \<longleftrightarrow> list_all (\<lambda>(k, v). case v of VInt64 i \<Rightarrow> False | _ \<Rightarrow> True) attrs"

lemma endpoint_logs:
  assumes "IsValid (se_otel h) sc" and "de_message de r = msg" and "de_details de r = det"
    and "de_completed de = completed" and "de_logged de r = logged" and "de_span de = sp" and "de_call_span de = csp"
  shows "\<exists>events attrs. downstream_endpoint h de (Some (Inr r)) t sc = Some (events, Inr
      \<lparr>tp_Success = True, tp_Message = msg, tp_TraceID = trace_text h sc, tp_SpanID = se_spanID h 0,
       tp_Details = (''downstream_span_id'', se_spanID h 1) # det\<rparr>)
    \<and> info_records events = [(completed, attrs @ logged)] \<and> no_integers attrs
    \<and> {sp, csp} \<subseteq> set (span_names events)"
  using assms by (auto simp: downstream_endpoint_def Let_def newSpanBuilder_def no_integers_def)

lemma bidi_request_messages:
  "bt_Messages (bidi_stream_request tid) =
     [\<lparr>bc_TestID = [], bc_ChunkID = [], bc_Payload = ''one'', bc_CloseAfter = False, bc_FinalStatus = [],
       bc_FinalMessage = []\<rparr>,
      \<lparr>bc_TestID = [], bc_ChunkID = [], bc_Payload = ''two'', bc_CloseAfter = True, bc_FinalStatus = [],
       bc_FinalMessage = []\<rparr>]"
  by (simp add: bidi_stream_request_def)

definition bidi_spans :: "gostring list" where
  "bidi_spans = [''trace.downstream.grpc.stream_bidi'', ''downstream.grpc.stream_bidi.call'']"

lemma bidi_target_answers:
  assumes "TrimSpace tid = tid" and "tid \<noteq> []" and "IsValid (se_otel h) sc"
  shows "\<exists>events resp attrs.
    TraceBidiStream_endpoint h
      (\<lambda>ms. CallDownstreamGRPCBidiStream (Some (worker_clients names text do_work)) (Some ms))
      (Inr (bidi_stream_request tid)) sc = Some (events, Inr resp)
    \<and> info_records events = [(''Completed downstream gRPC bidi stream'',
         attrs @ [(''response_count'', VInt64 2), (''responses'', VInt64 2)])] \<and> no_integers attrs
    \<and> set bidi_spans \<subseteq> set (span_names events)
    \<and> tp_Success resp \<and> tp_TraceID resp = trace_text h sc
    \<and> validateBidiResponseDetails (reply_of resp) 2 = None"
proof -
  define ms where "ms = buildBidiStreamMessages tid (bt_Messages (bidi_stream_request tid))"
  have dec: "decodeBidiStreamTraceRequest (Inr (bidi_stream_request tid)) =
      Inr (\<lparr>tr_TestID = tid, tr_Message = ''trace downstream grpc bidi stream''\<rparr>, bidi_stream_request tid)"
    using assms(1,2) by (simp add: bidi_stream_request_def decodeBidiStreamTraceRequest_def inner_request_def
        decodeTraceRequest_def Let_def)
  have len: "length ms = 2" by (simp add: ms_def bidi_request_messages)
  then have ne: "ms \<noteq> []" by auto
  have "test_messages tid ms"
    unfolding ms_def
    by (rule built_messages [OF _ assms(1)])
      (simp add: bidi_request_messages test_chunks_def passing_def TrimSpace_Nil)
  then have call: "CallDownstreamGRPCBidiStream (Some (worker_clients names text do_work)) (Some (map Some ms))
      = Some (Inr (map (echo tid) ms))"
    by (rule worker.call_echoes [OF _ ne]) (use assms(2) in \<open>simp_all add: worker_clients_def\<close>)
  have "last (map (echo tid) ms) = \<lparr>bsr_TestId = tid, bsr_ChunkId = chunk_name 1 [], bsr_Payload = ''two''\<rparr>"
    unfolding ms_def using last_echo [of "bt_Messages (bidi_stream_request tid)" tid] by (simp add: bidi_request_messages)
  moreover have "chunk_name 1 [] = ''chunk-2''" by code_simp
  moreover have two: "FormatInt 2 = ''2''" by code_simp
  ultimately have details: "bidi_stream_details (map (echo tid) ms) =
      [(''response_count'', ''2''), (''last_chunk_id'', ''chunk-2''), (''last_payload'', ''two'')]"
    using len ne by (simp add: bidi_stream_details_def)
  have len': "length (map (echo tid) ms) = 2" using len by simp
  have reached: "\<exists>events attrs. TraceBidiStream_endpoint h
      (\<lambda>ms. CallDownstreamGRPCBidiStream (Some (worker_clients names text do_work)) (Some ms))
      (Inr (bidi_stream_request tid)) sc = Some (events, Inr
      \<lparr>tp_Success = True, tp_Message = ''downstream gRPC bidi stream completed'', tp_TraceID = trace_text h sc,
       tp_SpanID = se_spanID h 0,
       tp_Details = (''downstream_span_id'', se_spanID h 1) # bidi_stream_details (map (echo tid) ms)\<rparr>)
    \<and> info_records events = [(''Completed downstream gRPC bidi stream'',
       attrs @ [(''response_count'', VInt64 2), (''responses'', VInt64 2)])] \<and> no_integers attrs
    \<and> set bidi_spans \<subseteq> set (span_names events)"
    unfolding bidi_spans_def list.set TraceBidiStream_endpoint_def dec sum.case prod.case traceRequest.select_convs ms_def [symmetric] call
    by (rule endpoint_logs [OF assms(3)]) (simp_all add: len)
  moreover have "validateBidiResponseDetails (reply_of
      \<lparr>tp_Success = True, tp_Message = ''downstream gRPC bidi stream completed'', tp_TraceID = trace_text h sc,
       tp_SpanID = se_spanID h 0,
       tp_Details = (''downstream_span_id'', se_spanID h 1) # bidi_stream_details (map (echo tid) ms)\<rparr>) 2 = None"
    by (simp add: details two validateBidiResponseDetails_def response_details_def expect_detail_def reply_of_def sget_def)
  ultimately show ?thesis by fastforce
qed

lemma bidi_details_carried:
  assumes "carries e ''Completed downstream gRPC bidi stream''
      (attrs @ [(''response_count'', VInt64 2), (''responses'', VInt64 2)])"
    and "from_service e ''trace-target-app''"
  shows "has_details lib ''trace-target-app'' bidi_stream_expected e"
  using assms float_eq_int [of 2]
  by (auto simp: has_details_def carries_def ExtractPayloadMap_def payloadMatchesExpected_def bidi_stream_expected_def
      payloadValueMatches_def percent_v_def split: option.splits)


text \<open>The test on one entry of the target, with the answer and the spans of a run of the target.\<close>

definition demo_stream_entry :: "hval \<Rightarrow> loggingEntry" where
  "demo_stream_entry x =
     \<lparr>le_Payload = PMap [(''message'', HStr ''Completed downstream gRPC bidi stream''),
        (''response_count'', x), (''responses'', x)], le_Severity = ''INFO'',
      le_Timestamp = \<lparr>unix_ns = 0, zone = 0\<rparr>, le_LogName = ''projects/p/logs/l'',
      le_Trace = ''projects/p/traces/00000000000000000000000000000abc'', le_SpanID = [],
      le_TraceSampled = True, le_Labels = [(''app'', ''trace-target-app'')], le_HTTPRequest = None,
      le_SourceLocation = None, le_Resource = None, le_Operation = None, le_InsertID = ''i1''\<rparr>"

definition demo_read_entry :: "hval \<Rightarrow> LogEntry" where
  "demo_read_entry x =
     (case snd (newLogEntry demo_harnesslib (Some (demo_stream_entry x))) of Inr le \<Rightarrow> le | Inl _ \<Rightarrow> undefined)"

lemma demo_entry_read:
  "snd (newLogEntry demo_harnesslib (Some (demo_stream_entry x))) = Inr (demo_read_entry x)
   \<and> InsertID (demo_read_entry x) = ''i1''
   \<and> from_service (demo_read_entry x) ''trace-target-app''
   \<and> Trace (demo_read_entry x) = ''projects/p/traces/00000000000000000000000000000abc''
   \<and> (case Payload (demo_read_entry x) of None \<Rightarrow> False
      | Some p \<Rightarrow> map_of p ''message'' = Some (HStr ''Completed downstream gRPC bidi stream'')
          \<and> map_of p ''response_count'' = Some x \<and> map_of p ''responses'' = Some x)"
  by code_simp

definition demo_bidi_env :: "traceResponse \<Rightarrow> gostring list \<Rightarrow> traceEnv" where
  "demo_bidi_env resp spans = (demo_trace_env ''i1'' ''i2'')
     \<lparr> xe_Do := (\<lambda>_ _. Answered 200 (Inr (reply_of resp))),
       xe_Entries := (\<lambda>_ _ _. ([Item (Some (demo_stream_entry (HFloat64 (float_of_int 2))))], 7)),
       xe_getTrace := (\<lambda>_ _. (Inr (Some (map Some spans)), 3)) \<rparr>"

end
