(* ===== verification/TargetMain.thy ===== *)
theory TargetMain
  imports HarnessTests TraceHandlers CoreTarget GrpcRequest
begin

text \<open>
  The start-up of the services of the tests: their configuration, the resources \<^verbatim>\<open>run\<close>
  opens and defers closing, what is logged and served, and the end on a signal or an error.
  A run is the list of its steps, in order, and its error. What the constructors, the closing
  functions and the listener return is the world of the run. Of \<^verbatim>\<open>fmt.Errorf\<close>, the text is kept.
\<close>

section \<open>Steps\<close>

datatype resource = SlogHandler | DefaultHandler | TraceAPI | PubSubClient | PubSubPublisher | GRPCConn

text \<open>The fields of \<^verbatim>\<open>http.Server\<close> the services set; times in nanoseconds.\<close>

record 'h httpServer =
  hs_Addr :: gostring
  hs_Handler :: 'h
  hs_ReadHeaderTimeout :: int
  hs_ReadTimeout :: int
  hs_WriteTimeout :: int
  hs_IdleTimeout :: int

text \<open>
  \<open>Said\<close> is a record of a logger, \<open>Printed\<close> a line of the package \<^verbatim>\<open>log\<close>;
  \<open>Receives\<close> starts the goroutine that receives a subscription, \<open>Exited\<close> is
  \<^verbatim>\<open>os.Exit\<close>, which runs no deferred call.
\<close>

datatype 'h serviceStep =
    PropagationEnsured
  | Opened resource
  | Closed resource
  | Said logger level gostring "slogAttr list"
  | Printed gostring
  | Receives gostring gostring
  | Listening "'h httpServer"
  | StoppedServer
  | ShutDown
  | Exited int

text \<open>
  How serving ends: the listener fails, or the process is interrupted and
  \<^verbatim>\<open>Shutdown\<close> returns.
\<close>

datatype serving = ListenerFails gostring | Interrupted "gostring option"

type_synonym setupOption = "(unit, unit) Option"

record serviceWorld =
  sw_environ :: environ
  sw_newHandler :: "setupOption list \<Rightarrow> gostring option"
  sw_newTraceClient :: "gostring option"
  sw_newPubSubClient :: "gostring \<Rightarrow> gostring option"
  sw_parseURL :: "gostring \<Rightarrow> gostring + gostring \<times> gostring"
  sw_idtoken :: "gostring \<Rightarrow> gostring option"
  sw_grpcNewClient :: "gostring \<Rightarrow> gostring option"
  sw_close :: "resource \<Rightarrow> gostring option"
  sw_serving :: serving
  sw_signal :: goany
  sw_appVersion :: gostring
  sw_buildTime :: gostring

text \<open>\<open>slog.New\<close> of the handler, and the second logger of the core service.\<close>

definition serviceLogger :: logger where "serviceLogger = 0"
definition severityLogger :: logger where "severityLogger = 1"

text \<open>Running steps before the rest, and deferring steps to its end.\<close>

definition after :: "'e list \<Rightarrow> 'e list \<times> 'r \<Rightarrow> 'e list \<times> 'r" where
  "after es r = (es @ fst r, snd r)"

definition deferring :: "'e list \<Rightarrow> 'e list \<times> 'r \<Rightarrow> 'e list \<times> 'r" where
  "deferring es r = (fst r @ es, snd r)"

definition warn_closing ::
  "serviceWorld \<Rightarrow> resource \<Rightarrow> (gostring \<Rightarrow> 'h serviceStep) \<Rightarrow> 'h serviceStep list" where
  "warn_closing w r warn = Closed r # (case sw_close w r of None \<Rightarrow> [] | Some e \<Rightarrow> [warn e])"

definition says_error :: "level \<Rightarrow> gostring \<Rightarrow> gostring \<Rightarrow> 'h serviceStep" where
  "says_error lv msg e = Said serviceLogger lv msg [error_attr e]"

definition closeSlogHandler :: "serviceWorld \<Rightarrow> 'h serviceStep list" where
  "closeSlogHandler w = warn_closing w SlogHandler (\<lambda>e. Printed (''Failed to close slog handler: '' @ e))"

definition closeTraceClient :: "serviceWorld \<Rightarrow> 'h serviceStep list" where
  "closeTraceClient w = warn_closing w TraceAPI (says_error LevelWarn ''Failed to close trace client'')"

definition closePubSubClient :: "serviceWorld \<Rightarrow> 'h serviceStep list" where
  "closePubSubClient w = warn_closing w PubSubClient (says_error LevelWarn ''Failed to close pubsub client'')"

text \<open>The options of the handler of a service, with the labels of its application.\<close>

definition service_options :: "gostring \<Rightarrow> setupOption list" where
  "service_options app =
     [WithSourceLocationEnabled True,
      opt_WithAttrs [(LabelsGroup, VGroup [(''app'', VString app), (''component'', VString ''e2e-test'')])]]"

definition healthy_body :: gostring where
  "healthy_body = ''{'' @ dquote @ ''status'' @ dquote @ '':'' @ dquote @ ''healthy'' @ dquote @ ''}''"

text \<open>\<open>/health\<close>: the error of writing the body is logged.\<close>

definition healthHandler :: "logger \<Rightarrow> level \<Rightarrow> gostring option \<Rightarrow> targetEvent list" where
  "healthHandler l lv writeErr =
     [HeaderSet ''Content-Type'' ''application/json'', HeaderWritten 200, BodyWritten healthy_body writeErr] @
     (case writeErr of None \<Rightarrow> []
      | Some e \<Rightarrow> [Recorded l lv ''Failed to write health response'' [err_attr e]])"

text \<open>\<^verbatim>\<open>serveUntilShutdown\<close> and its twin \<^verbatim>\<open>runHTTPServer\<close>.\<close>

definition serveUntilShutdown ::
  "serviceWorld \<Rightarrow> 'h httpServer \<Rightarrow> 'h serviceStep list \<times> gostring option" where
  "serveUntilShutdown w server =
     (case sw_serving w of
        Interrupted err \<Rightarrow>
          (Listening server # ShutDown #
             (case err of None \<Rightarrow> [] | Some e \<Rightarrow> [says_error LevelError ''HTTP server shutdown error'' e]), None)
      | ListenerFails e \<Rightarrow> ([Listening server], Some (''http server error: '' @ e)))"

section \<open>The trace target\<close>

record targetConfig =
  tg_Port :: gostring
  tg_ProjectID :: gostring
  tg_DownstreamHTTPURL :: gostring
  tg_DownstreamGRPCTarget :: gostring
  tg_DisableHTTPTracePropagation :: bool
  tg_DisableGRPCTracePropagation :: bool
  tg_DefaultSample :: bool
  tg_PubSubTopic :: gostring

definition loadConfig :: "environ \<Rightarrow> targetConfig" where
  "loadConfig env =
     \<lparr>tg_Port = getEnvOrDefault env ''PORT'' ''8080'',
      tg_ProjectID = env ''GOOGLE_CLOUD_PROJECT'',
      tg_DownstreamHTTPURL = env ''DOWNSTREAM_HTTP_URL'',
      tg_DownstreamGRPCTarget = env ''DOWNSTREAM_GRPC_TARGET'',
      tg_DisableHTTPTracePropagation = getEnvAsBool env ''TRACE_DISABLE_HTTP_TRACE_PROPAGATION'' False,
      tg_DisableGRPCTracePropagation =
        getEnvAsBool env ''TRACE_DISABLE_GRPC_TRACE_PROPAGATION'' False \<or>
        getEnvAsBool env ''TRACE_DISABLE_GRPC_CLIENT_INTERCEPTORS'' False,
      tg_DefaultSample = getEnvAsBool env ''TRACE_DEFAULT_SAMPLED'' True,
      tg_PubSubTopic = TrimSpace (env ''TRACE_PUBSUB_TOPIC'')\<rparr>"

text \<open>The audience of a service: the one of its URL, or none when it is not served over HTTPS.\<close>

definition audienceFromURL ::
  "(gostring \<Rightarrow> gostring + gostring \<times> gostring) \<Rightarrow> gostring \<Rightarrow> gostring + gostring option" where
  "audienceFromURL parsed raw =
     (case parsed (TrimSpace raw) of
        Inl err \<Rightarrow> Inl (''parsing target url '' @ Quote raw @ '': '' @ err)
      | Inr (scheme, host) \<Rightarrow>
          if scheme = [] \<or> host = [] then Inl (''target url '' @ Quote raw @ '' must include scheme and host'')
          else if map lower_byte scheme \<noteq> ''https'' then Inr None
          else Inr (Some (scheme @ ''://'' @ host)))"

text \<open>\<^verbatim>\<open>strings.TrimSuffix\<close> of the standard library.\<close>

definition strings_TrimSuffix :: "gostring \<Rightarrow> gostring \<Rightarrow> gostring" where
  "strings_TrimSuffix s sfx = (if HasSuffix s sfx then take (length s - length sfx) s else s)"

definition audienceFromGRPCTarget ::
  "(gostring \<Rightarrow> gostring + gostring \<times> gostring) \<Rightarrow> gostring \<Rightarrow> gostring + gostring option" where
  "audienceFromGRPCTarget parsed target =
     (let trimmed = TrimSpace target
      in if trimmed = [] then Inr None
         else if Contains trimmed ''://'' then audienceFromURL parsed trimmed
         else
           (let host = strings_TrimSuffix (strings_TrimSuffix trimmed ''/'') '':443''
            in if host = [] then Inl (''grpc target '' @ Quote target @ '' does not include a host'')
               else Inr (Some (''https://'' @ host))))"

text \<open>The audience the round tripper signs for; none leaves the base as it is.\<close>

definition withCloudRunIDTokenTransport :: "serviceWorld \<Rightarrow> gostring \<Rightarrow> gostring + gostring option" where
  "withCloudRunIDTokenTransport w targetURL =
     (case audienceFromURL (sw_parseURL w) targetURL of
        Inl err \<Rightarrow> Inl err
      | Inr None \<Rightarrow> Inr None
      | Inr (Some audience) \<Rightarrow>
          (case sw_idtoken w audience of
             Some err \<Rightarrow> Inl (''creating id-token source for '' @ audience @ '': '' @ err)
           | None \<Rightarrow> Inr (Some audience)))"

definition newCloudRunPerRPCCredentials :: "serviceWorld \<Rightarrow> gostring \<Rightarrow> gostring + gostring option" where
  "newCloudRunPerRPCCredentials w target =
     (case audienceFromGRPCTarget (sw_parseURL w) target of
        Inl err \<Rightarrow> Inl err
      | Inr None \<Rightarrow> Inr None
      | Inr (Some audience) \<Rightarrow>
          (case sw_idtoken w audience of
             Some err \<Rightarrow> Inl (''creating grpc id-token source for '' @ audience @ '': '' @ err)
           | None \<Rightarrow> Inr (Some audience)))"

text \<open>The options a connection is dialled with; the interceptors of the adapter come last.\<close>

datatype dialOption =
    TransportTLS
  | PerRPCCredentials gostring
  | SlogcpOption rpc_runtime_option
  | AdapterUnary
  | AdapterStream

definition grpc_dial_options :: "targetConfig \<Rightarrow> gostring option \<Rightarrow> dialOption list" where
  "grpc_dial_options cfg audience =
     [TransportTLS] @
     (case audience of None \<Rightarrow> [] | Some a \<Rightarrow> [PerRPCCredentials a]) @
     map SlogcpOption
       (DialOptions serviceLogger
          [Some (rpc_WithLogger serviceLogger (Some serviceLogger)),
           Some (rpc_WithTracePropagation (\<not> tg_DisableGRPCTracePropagation cfg)),
           Some (rpc_WithLegacyXCloudInjection True)]) @
     [AdapterUnary, AdapterStream]"

definition setupDownstreamGRPCConn ::
  "serviceWorld \<Rightarrow> targetConfig \<Rightarrow> 'h serviceStep list \<times> dialOption list option" where
  "setupDownstreamGRPCConn w cfg =
     (if tg_DownstreamGRPCTarget cfg = [] then ([], None)
      else
        (case newCloudRunPerRPCCredentials w (tg_DownstreamGRPCTarget cfg) of
           Inl err \<Rightarrow> ([says_error LevelError ''failed to configure downstream gRPC auth'' err], None)
         | Inr audience \<Rightarrow>
             (case sw_grpcNewClient w (tg_DownstreamGRPCTarget cfg) of
                Some err \<Rightarrow> ([says_error LevelError ''failed to dial downstream gRPC target'' err], None)
              | None \<Rightarrow> ([Opened GRPCConn], Some (grpc_dial_options cfg audience)))))"

definition closeGRPCConn :: "serviceWorld \<Rightarrow> 'c option \<Rightarrow> 'h serviceStep list" where
  "closeGRPCConn w conn =
     (case conn of None \<Rightarrow> []
      | Some _ \<Rightarrow> warn_closing w GRPCConn (says_error LevelWarn ''Failed to close downstream grpc client conn''))"

text \<open>The answer is the error, or whether there is a client and its publisher.\<close>

definition setupPubSubPublisher ::
  "serviceWorld \<Rightarrow> targetConfig \<Rightarrow> 'h serviceStep list \<times> (gostring + bool)" where
  "setupPubSubPublisher w cfg =
     (if tg_PubSubTopic cfg = [] then ([], Inr False)
      else
        (case sw_newPubSubClient w (tg_ProjectID cfg) of
           Some err \<Rightarrow> ([], Inl (''creating pubsub client: '' @ err))
         | None \<Rightarrow> ([Opened PubSubClient, Opened PubSubPublisher], Inr True)))"

definition target_httpOpts :: "targetConfig \<Rightarrow> HTTPOption option list" where
  "target_httpOpts cfg =
     [Some (http_WithLogger serviceLogger (Some serviceLogger)),
      Some (http_WithTracePropagation (\<not> tg_DisableHTTPTracePropagation cfg)),
      Some (http_WithLegacyXCloudInjection True)]"

text \<open>
  What the service serves: the options of its middleware, its downstream clients (the options
  and the audience of the HTTP transport, the options of the gRPC connection) and its routes,
  of which \<open>None\<close> is \<open>/health\<close>.
\<close>

record targetService =
  sv_options :: "HTTPOption option list"
  sv_HTTPBaseURL :: gostring
  sv_HTTPOptions :: "HTTPOption option list"
  sv_HTTPAudience :: "gostring option"
  sv_HTTPTimeout :: int
  sv_GRPC :: "dialOption list option"
  sv_publishes :: bool
  sv_routes :: "(gostring \<times> traceOperation option) list"

definition trace_routes :: "(gostring \<times> traceOperation option) list" where
  "trace_routes =
     [(''/health'', None),
      (''/trace/simple'', Some TraceSimple),
      (''/trace/downstream-http'', Some TraceDownstreamHTTP),
      (''/trace/downstream-grpc'', Some TraceDownstreamGRPC),
      (''/trace/downstream-pubsub'', Some TraceDownstreamPubSub),
      (''/trace/downstream-grpc/server-stream'', Some TraceServerStream),
      (''/trace/downstream-grpc/client-stream'', Some TraceClientStream),
      (''/trace/downstream-grpc/bidi-stream'', Some TraceBidiStream)]"

definition trace_server ::
  "targetConfig \<Rightarrow> gostring option \<Rightarrow> dialOption list option \<Rightarrow> bool \<Rightarrow> targetService httpServer" where
  "trace_server cfg audience conn publishes =
     \<lparr>hs_Addr = '':'' @ tg_Port cfg,
      hs_Handler = \<lparr>sv_options = target_httpOpts cfg, sv_HTTPBaseURL = tg_DownstreamHTTPURL cfg,
                    sv_HTTPOptions = target_httpOpts cfg, sv_HTTPAudience = audience,
                    sv_HTTPTimeout = 30 * second, sv_GRPC = conn, sv_publishes = publishes,
                    sv_routes = trace_routes\<rparr>,
      hs_ReadHeaderTimeout = 5 * second, hs_ReadTimeout = 0, hs_WriteTimeout = 0, hs_IdleTimeout = 0\<rparr>"

definition startup_attrs :: "serviceWorld \<Rightarrow> targetConfig \<Rightarrow> slogAttr list" where
  "startup_attrs w cfg =
     [(''port'', VString (tg_Port cfg)),
      (''version'', VString (sw_appVersion w)),
      (''build_time'', VString (sw_buildTime w)),
      (''downstream_http'', VString (tg_DownstreamHTTPURL cfg)),
      (''downstream_grpc'', VString (tg_DownstreamGRPCTarget cfg)),
      (''pubsub_topic'', VString (tg_PubSubTopic cfg)),
      (''disable_http_trace_propagation'', VBool (tg_DisableHTTPTracePropagation cfg)),
      (''disable_grpc_trace_propagation'', VBool (tg_DisableGRPCTracePropagation cfg)),
      (''default_trace_sampled'', VBool (tg_DefaultSample cfg))]"

text \<open>Announcing, serving and the last record, which a failure of the listener skips.\<close>

definition announce_and_serve ::
  "serviceWorld \<Rightarrow> gostring \<Rightarrow> slogAttr list \<Rightarrow> 'h httpServer \<Rightarrow> 'h serviceStep list \<times> gostring option" where
  "announce_and_serve w service attrs server =
     after [Said serviceLogger LevelInfo (service @ '' starting'') attrs]
       (case serveUntilShutdown w server of
          (steps, Some e) \<Rightarrow> (steps, Some e)
        | (steps, None) \<Rightarrow> (steps @ [Said serviceLogger LevelInfo (service @ '' stopped'') []], None))"

text \<open>
  \<^verbatim>\<open>run\<close>. The publisher's stop is deferred before the client's close, so it runs after it.
\<close>

definition trace_run ::
  "serviceWorld \<Rightarrow> targetConfig \<Rightarrow> targetService serviceStep list \<times> gostring option" where
  "trace_run w cfg =
     (if tg_ProjectID cfg = [] then ([], Some ''GOOGLE_CLOUD_PROJECT must be set'')
      else after [PropagationEnsured]
        (case sw_newHandler w (service_options ''trace-target-app'') of
           Some e \<Rightarrow> ([], Some (''initializing logger: '' @ e))
         | None \<Rightarrow> after [Opened SlogHandler] (deferring (closeSlogHandler w)
        (case sw_newTraceClient w of
           Some e \<Rightarrow> ([], Some (''creating trace client: '' @ e))
         | None \<Rightarrow> after [Opened TraceAPI] (deferring (closeTraceClient w)
        (case setupPubSubPublisher w cfg of
           (steps, Inl e) \<Rightarrow> (steps, Some e)
         | (steps, Inr publishes) \<Rightarrow> after steps
             (deferring (if publishes then closePubSubClient w @ [Closed PubSubPublisher] else [])
        (case withCloudRunIDTokenTransport w (tg_DownstreamHTTPURL cfg) of
           Inl e \<Rightarrow> ([], Some (''configuring downstream http auth: '' @ e))
         | Inr audience \<Rightarrow>
             (case setupDownstreamGRPCConn w cfg of
                (steps, conn) \<Rightarrow> after steps (deferring (closeGRPCConn w conn)
                   (announce_and_serve w ''trace-target-app'' (startup_attrs w cfg)
                      (trace_server cfg audience conn publishes))))))))))))"

text \<open>\<^verbatim>\<open>main\<close>: an error is printed, and the process ends with status 0 all the same.\<close>

definition report_failure ::
  "gostring \<Rightarrow> 'h serviceStep list \<times> gostring option \<Rightarrow> 'h serviceStep list" where
  "report_failure service r =
     (case r of (steps, None) \<Rightarrow> steps
      | (steps, Some e) \<Rightarrow> steps @ [Printed (service @ '' failed: '' @ e)])"

definition trace_main :: "serviceWorld \<Rightarrow> targetService serviceStep list" where
  "trace_main w = report_failure ''trace-target-app'' (trace_run w (loadConfig (sw_environ w)))"

end
