(* ===== verification/TargetServices.thy ===== *)
theory TargetServices
  imports TargetMain Pipeline
begin

text \<open>
  The start-up of the downstream services and of the core logging target, and the endpoint of the
  latter that sends a record through the Cloud Logging API.
\<close>

section \<open>The downstream HTTP service\<close>

record downstreamConfig =
  dn_Port :: gostring
  dn_ProjectID :: gostring
  dn_PubSubTopic :: gostring
  dn_PubSubSubscription :: gostring

text \<open>Whether there is a subscription; its messages are received in a goroutine.\<close>

definition startPubSubReceiver ::
  "serviceWorld \<Rightarrow> downstreamConfig \<Rightarrow> 'h serviceStep list \<times> (gostring + bool)" where
  "startPubSubReceiver w cfg =
     (if dn_PubSubSubscription cfg = [] then ([], Inr False)
      else
        (case sw_newPubSubClient w (dn_ProjectID cfg) of
           Some err \<Rightarrow> ([], Inl (''creating pubsub client: '' @ err))
         | None \<Rightarrow>
             ([Opened PubSubClient, Receives (dn_PubSubSubscription cfg) (dn_PubSubTopic cfg)], Inr True)))"

text \<open>What the goroutine does when receiving ends.\<close>

definition receiver_ends :: "gostring option \<Rightarrow> 'h serviceStep list" where
  "receiver_ends recvErr =
     (case recvErr of None \<Rightarrow> [] | Some e \<Rightarrow> [says_error LevelError ''pubsub receive stopped'' e])"

datatype downstreamRoute = HealthRoute | WorkRoute

definition downstream_server ::
  "downstreamConfig \<Rightarrow> (HTTPOption option list \<times> (gostring \<times> downstreamRoute) list) httpServer" where
  "downstream_server cfg =
     \<lparr>hs_Addr = '':'' @ dn_Port cfg,
      hs_Handler = ([Some (http_WithLogger serviceLogger (Some serviceLogger))],
                    [(''/health'', HealthRoute), (''/work'', WorkRoute)]),
      hs_ReadHeaderTimeout = 5 * second, hs_ReadTimeout = 0, hs_WriteTimeout = 0, hs_IdleTimeout = 0\<rparr>"

definition downstream_attrs :: "serviceWorld \<Rightarrow> downstreamConfig \<Rightarrow> slogAttr list" where
  "downstream_attrs w cfg =
     [(''port'', VString (dn_Port cfg)),
      (''version'', VString (sw_appVersion w)),
      (''build_time'', VString (sw_buildTime w)),
      (''pubsub_topic'', VString (dn_PubSubTopic cfg)),
      (''pubsub_subscription'', VString (dn_PubSubSubscription cfg))]"

definition downstream_run ::
  "serviceWorld \<Rightarrow> downstreamConfig
     \<Rightarrow> (HTTPOption option list \<times> (gostring \<times> downstreamRoute) list) serviceStep list \<times> gostring option" where
  "downstream_run w cfg =
     after [PropagationEnsured]
       (case sw_newHandler w (service_options ''trace-downstream-http'') of
          Some e \<Rightarrow> ([], Some (''initializing handler: '' @ e))
        | None \<Rightarrow> after [Opened SlogHandler] (deferring (closeSlogHandler w)
       (case sw_newTraceClient w of
          Some e \<Rightarrow> ([], Some (''creating trace client: '' @ e))
        | None \<Rightarrow> after [Opened TraceAPI] (deferring (closeTraceClient w)
       (case startPubSubReceiver w cfg of
          (steps, Inl e) \<Rightarrow> (steps, Some e)
        | (steps, Inr hasSubscription) \<Rightarrow> after steps
            (deferring (if hasSubscription then closePubSubClient w else [])
               (announce_and_serve w ''trace-downstream-http'' (downstream_attrs w cfg)
                  (downstream_server cfg))))))))"

definition load_downstream :: "environ \<Rightarrow> downstreamConfig" where
  "load_downstream env =
     \<lparr>dn_Port = getEnvOrDefault env ''PORT'' ''8080'',
      dn_ProjectID = env ''GOOGLE_CLOUD_PROJECT'',
      dn_PubSubTopic = TrimSpace (env ''TRACE_PUBSUB_TOPIC''),
      dn_PubSubSubscription = TrimSpace (env ''TRACE_PUBSUB_SUBSCRIPTION'')\<rparr>"

definition downstream_main ::
  "serviceWorld \<Rightarrow> (HTTPOption option list \<times> (gostring \<times> downstreamRoute) list) serviceStep list" where
  "downstream_main w =
     (let cfg = load_downstream (sw_environ w)
      in if dn_ProjectID cfg = [] then [Printed ''GOOGLE_CLOUD_PROJECT must be set'']
         else report_failure ''trace-downstream-http'' (downstream_run w cfg))"

text \<open>The eight random bytes, or the clock in nanoseconds.\<close>

definition service_generateSpanID :: "64 word option \<Rightarrow> int \<Rightarrow> gostring" where
  "service_generateSpanID random now =
     (case random of
        Some b \<Rightarrow> pad_left 16 (FormatUint (unat b) 16)
      | None \<Rightarrow> (if now < 0 then ''-'' @ pad_left 15 (FormatUint (nat (- now)) 16)
                 else pad_left 16 (FormatUint (nat now) 16)))"

section \<open>The downstream gRPC service\<close>

record workerConfig =
  wc_Port :: gostring
  wc_ProjectID :: gostring

text \<open>The options of the server: those of the library, then the interceptors of the adapter.\<close>

datatype serverOption = ServerSlogcp rpc_runtime_option | ServerAdapterUnary | ServerAdapterStream

definition newGRPCServer :: "grpcInterceptorConfig \<Rightarrow> serverOption list" where
  "newGRPCServer ic =
     map ServerSlogcp
       (ServerOptions serviceLogger
          ([Some (rpc_WithLogger serviceLogger (Some serviceLogger))] @
           (if \<not> TraceWorker.includePeer ic then [Some (rpc_WithPeerInfo False)] else []) @
           (if \<not> TraceWorker.includeSizes ic then [Some (rpc_WithPayloadSizes False)] else []))) @
     [ServerAdapterUnary, ServerAdapterStream]"

definition worker_server :: "workerConfig \<Rightarrow> grpcInterceptorConfig \<Rightarrow> serverOption list httpServer" where
  "worker_server cfg ic =
     \<lparr>hs_Addr = '':'' @ wc_Port cfg, hs_Handler = newGRPCServer ic, hs_ReadHeaderTimeout = 5 * second,
      hs_ReadTimeout = 0, hs_WriteTimeout = 0, hs_IdleTimeout = 0\<rparr>"

definition worker_serve ::
  "serviceWorld \<Rightarrow> 'h httpServer \<Rightarrow> 'h serviceStep list \<times> gostring option" where
  "worker_serve w server =
     (case sw_serving w of
        Interrupted err \<Rightarrow>
          ([Listening server, StoppedServer, ShutDown] @
             (case err of None \<Rightarrow> [] | Some e \<Rightarrow> [says_error LevelError ''gRPC server shutdown error'' e]) @
             [Said serviceLogger LevelInfo ''trace-downstream-grpc stopped'' []], None)
      | ListenerFails e \<Rightarrow> ([Listening server], Some (''grpc server error: '' @ e)))"

definition worker_run ::
  "serviceWorld \<Rightarrow> workerConfig \<Rightarrow> serverOption list serviceStep list \<times> gostring option" where
  "worker_run w cfg =
     after [Printed ''startup: initializing propagation and slog handler'', PropagationEnsured]
       (case sw_newHandler w (service_options ''trace-downstream-grpc'') of
          Some e \<Rightarrow> ([], Some (''initializing handler: '' @ e))
        | None \<Rightarrow> after [Opened SlogHandler] (deferring (closeSlogHandler w)
       (after [Printed ''startup: slog handler initialized; creating Trace client'']
       (case sw_newTraceClient w of
          Some e \<Rightarrow> ([], Some (''creating trace client: '' @ e))
        | None \<Rightarrow> after [Opened TraceAPI] (deferring (closeTraceClient w)
       (after
          [Printed ''startup: Trace client initialized; configuring gRPC server'',
           Said serviceLogger LevelInfo ''trace-downstream-grpc starting''
             [(''port'', VString (wc_Port cfg)), (''version'', VString (sw_appVersion w)),
              (''build_time'', VString (sw_buildTime w))],
           Printed ''startup: opening HTTP listener'']
          (worker_serve w (worker_server cfg (parseGRPCInterceptorConfig (sw_environ w))))))))))"

definition worker_main :: "serviceWorld \<Rightarrow> serverOption list serviceStep list" where
  "worker_main w =
     (let cfg = \<lparr>wc_Port = getEnvOrDefault (sw_environ w) ''PORT'' ''8080'',
                 wc_ProjectID = sw_environ w ''GOOGLE_CLOUD_PROJECT''\<rparr>
      in if wc_ProjectID cfg = [] then [Printed ''GOOGLE_CLOUD_PROJECT must be set'']
         else report_failure ''trace-downstream-grpc'' (worker_run w cfg))"

section \<open>The core logging target\<close>

definition core_getEnvOrDefault :: "environ \<Rightarrow> gostring \<Rightarrow> gostring \<Rightarrow> gostring" where
  "core_getEnvOrDefault env key defaultValue = (let v = env key in if v \<noteq> [] then v else defaultValue)"

definition core_options :: "level \<Rightarrow> setupOption list" where
  "core_options lv =
     [WithLevel lv, WithSourceLocationEnabled True,
      opt_WithAttrs [(LabelsGroup, VGroup [(''app'', VString ''slogcp-test-target''),
                                           (''component'', VString ''e2e-test'')])]]"

definition core_handler :: coreLoggingHandler where
  "core_handler = NewCoreLoggingHandler serviceLogger (Some severityLogger)"

text \<open>
  The routes to the endpoints; \<open>grpc\<close> is the one of \<^verbatim>\<open>logGRPCAPI\<close>.
\<close>

definition core_routes ::
  "(coreRequest \<Rightarrow> targetEvent list) \<Rightarrow> (gostring \<times> (coreRequest \<Rightarrow> targetEvent list)) list" where
  "core_routes grpc =
     [(''/health'', \<lambda>rq. healthHandler serviceLogger LevelError (cr_writeErr rq)),
      (''/log/default'', LogDefault_endpoint core_handler),
      (''/log/debug'', LogDebug_endpoint core_handler),
      (''/log/info'', LogInfo_endpoint core_handler),
      (''/log/notice'', LogNotice_endpoint core_handler),
      (''/log/warning'', LogWarning_endpoint core_handler),
      (''/log/error'', LogError_endpoint core_handler),
      (''/log/critical'', LogCritical_endpoint core_handler),
      (''/log/alert'', LogAlert_endpoint core_handler),
      (''/log/emergency'', LogEmergency_endpoint core_handler),
      (''/log/structured'', LogStructured_endpoint core_handler),
      (''/log/nested'', LogNested_endpoint core_handler),
      (''/log/operation'', LogWithOperation_endpoint core_handler),
      (''/log/labels'', LogWithLabels_endpoint core_handler),
      (''/log/grpc-api'', grpc),
      (''/log/http-request'', LogHTTPRequest_endpoint core_handler),
      (''/log/http-request-inflight'', LogHTTPRequestInflight_endpoint core_handler),
      (''/log/http-request-parser-residual'', LogHTTPRequestParserResidual_endpoint core_handler),
      (''/log/http-request-parser-status-zero'', LogHTTPRequestParserStatusZero_endpoint core_handler),
      (''/log/batch'', LogBatch_endpoint core_handler),
      (''/middleware/echo'', MiddlewareEcho_endpoint core_handler),
      (''/middleware/panic'', MiddlewarePanic_endpoint),
      (''/middleware/skip-logging'', MiddlewareSkip_endpoint core_handler)]"

definition core_server :: "gostring \<Rightarrow> HTTPOption option list httpServer" where
  "core_server port =
     \<lparr>hs_Addr = '':'' @ port, hs_Handler = [Some (http_WithLogger serviceLogger (Some serviceLogger))],
      hs_ReadHeaderTimeout = 0, hs_ReadTimeout = 30 * second, hs_WriteTimeout = 30 * second,
      hs_IdleTimeout = 120 * second\<rparr>"

text \<open>
  Serving ends the process when the listener fails; on a signal the server shuts down, and its
  error is logged.
\<close>

definition core_serve :: "serviceWorld \<Rightarrow> gostring \<Rightarrow> HTTPOption option list serviceStep list \<times> bool" where
  "core_serve w port =
     after
       [Said serviceLogger LevelInfo ''HTTP server starting'' [(''port'', VString port)], Listening (core_server port)]
       (case sw_serving w of
          ListenerFails e \<Rightarrow> ([says_error LevelError ''HTTP server error'' e, Exited 1], True)
        | Interrupted err \<Rightarrow>
            ([Said serviceLogger LevelInfo ''Shutdown signal received'' [(''signal'', VAny (sw_signal w))], ShutDown] @
               (case err of None \<Rightarrow> [] | Some e \<Rightarrow> [says_error LevelError ''Server shutdown error'' e]) @
               [Said serviceLogger LevelInfo ''Target app stopped'' []], False))"

text \<open>Deferred steps, which an exit skips.\<close>

definition unless_exited :: "'e list \<Rightarrow> 'e list \<times> bool \<Rightarrow> 'e list \<times> bool" where
  "unless_exited es r = (if snd r then r else deferring es r)"

text \<open>\<^verbatim>\<open>main\<close>; \<open>open_default\<close> is the error of the second handler.\<close>

definition core_main :: "serviceWorld \<Rightarrow> HTTPOption option list serviceStep list \<times> bool" where
  "core_main w =
     (let version = core_getEnvOrDefault (sw_environ w) ''APP_VERSION'' ''dev'';
          port = core_getEnvOrDefault (sw_environ w) ''PORT'' ''8080''
      in case sw_newHandler w (core_options LevelDebug) of
           Some e \<Rightarrow> ([Printed (''Failed to initialize slogcp handler: '' @ e), Exited 1], True)
         | None \<Rightarrow> after [Opened SlogHandler]
             (unless_exited (warn_closing w SlogHandler (\<lambda>e. Printed (''Error closing slog handler: '' @ e)))
               (case sw_newHandler w (core_options LevelError) of
                  Some e \<Rightarrow>
                    ([Printed (''Failed to initialize slogcp default severity handler: '' @ e)], False)
                | None \<Rightarrow> after [Opened DefaultHandler]
                    (unless_exited
                      (warn_closing w DefaultHandler
                         (\<lambda>e. Printed (''Error closing slog default severity handler: '' @ e)))
                      (after
                        [Said serviceLogger LevelInfo ''Target app starting''
                           [(''version'', VString version), (''port'', VString port)],
                         Said severityLogger LevelDefault ''This is a slogcp log with DEFAULT severity''
                           [(''source'', VString ''slogcp-test''), (''version'', VString version)]]
                        (core_serve w port))))))"

section \<open>The record sent through the API\<close>

text \<open>
  The client of Cloud Logging, the exporter and the handler over it, as far as the endpoint uses
  them: their errors, and the digest of a text.
\<close>

record apiRecord =
  ar_Level :: level
  ar_Message :: gostring
  ar_Attrs :: "slogAttr list"

record loggingAPI =
  la_NewClient :: "gostring \<Rightarrow> gostring option"
  la_NewExporter :: "gostring option"
  la_NewHandler :: "setupOption list \<Rightarrow> gostring option"
  la_Handle :: "SpanContext \<Rightarrow> apiRecord \<Rightarrow> gostring option"
  la_HandlerClose :: "gostring option"
  la_Flush :: "gostring option"
  la_ClientClose :: "gostring option"
  la_sha256 :: "gostring \<Rightarrow> 8 word list"
  la_encode :: "gostring \<Rightarrow> gostring"

datatype apiStep =
    ClientOpened gostring
  | RecordHandled SpanContext apiRecord
  | HandlerClosed
  | ExporterFlushed
  | ClientClosed
  | Responds targetEvent
  | APIPrinted gostring

text \<open>The span context of a test: the bytes of the digest of its identifier, sampled.\<close>

definition proof_span :: "loggingAPI \<Rightarrow> gostring \<Rightarrow> SpanContext" where
  "proof_span la testID =
     (let digest = la_sha256 la testID
      in \<lparr>TraceID_of = word_rcat (take 16 digest), SpanID_of = word_rcat (take 8 (List.drop 16 digest)),
          TraceFlags = FlagsSampled, Remote = False\<rparr>)"

definition proof_record :: "goRequest \<Rightarrow> logRequest \<Rightarrow> apiRecord" where
  "proof_record r q =
     \<lparr>ar_Level = LevelNotice, ar_Message = lq_Message q,
      ar_Attrs =
        [(''test_id'', VString (lq_TestID q)),
         (''logging.googleapis.com/insertId'', VString (lq_TestID q)),
         (''logging.googleapis.com/operation'',
            VGroup [(''id'', VString (lq_TestID q)), (''producer'', VString ''grpc-e2e''),
                    (''first'', VBool True), (''last'', VBool True)]),
         (LabelsGroup, VGroup [(''proof'', VString ''grpc-api'')]),
         (''details'', VGroup [(''count'', VInt64 7), (''complete'', VBool True)]),
         (''httpRequest'', VLogValuer (LVHTTPRequest (Some (zero_HTTPRequest
            \<lparr> Request := Some r, Status := 200, ResponseSize := 1, Latency := 5000000 \<rparr>))))]\<rparr>"

text \<open>
  \<^verbatim>\<open>emitGRPCAPI\<close>. The client is closed last, its error joined to the result; the other
  ends are joined in the order they are evaluated in.
\<close>

definition emitGRPCAPI :: "loggingAPI \<Rightarrow> environ \<Rightarrow> goRequest \<Rightarrow> logRequest \<Rightarrow> apiStep list \<times> gostring option" where
  "emitGRPCAPI la env r q =
     (let project = env ''GOOGLE_CLOUD_PROJECT''
      in if project = [] then ([], Some ''GOOGLE_CLOUD_PROJECT is required for gRPC API proof'')
         else
           (case la_NewClient la project of
              Some e \<Rightarrow> ([], Some e)
            | None \<Rightarrow>
                (let closing = (\<lambda>(steps, err).
                       (ClientOpened project # steps @ [ClientClosed], errors_Join [err, la_ClientClose la]))
                 in case la_NewExporter la of
                      Some e \<Rightarrow> closing ([], Some e)
                    | None \<Rightarrow>
                        (case la_NewHandler la [WithTraceProjectID project, WithSourceLocationEnabled True] of
                           Some e \<Rightarrow> closing ([], Some e)
                         | None \<Rightarrow>
                             (let sc = proof_span la (lq_TestID q); rec = proof_record r q;
                                  steps = [RecordHandled sc rec, HandlerClosed, ExporterFlushed]
                              in case la_Handle la sc rec of
                                   Some e \<Rightarrow>
                                     closing (steps, errors_Join
                                       [Some (''export failed '' @ e), la_HandlerClose la, la_Flush la])
                                 | None \<Rightarrow>
                                     closing (steps, errors_Join [la_HandlerClose la, la_Flush la]))))))"

text \<open>\<open>la_encode\<close> quotes a text for JSON; the keys of a map are sorted.\<close>

definition logGRPCAPI :: "loggingAPI \<Rightarrow> environ \<Rightarrow> coreRequest \<Rightarrow> apiStep list" where
  "logGRPCAPI la env rq =
     (if req_Method (cr_request rq) \<noteq> ''POST''
      then [Responds (HeaderSet ''Allow'' ''POST''), Responds (Refused 405 ''POST required'')]
      else
        (case cr_decoded rq of
           Inl e \<Rightarrow> [Responds (Refused 400 ''invalid log request'')]
         | Inr q \<Rightarrow>
             if lq_TestID q = [] then [Responds (Refused 400 ''test_id required'')]
             else
               (case emitGRPCAPI la env (cr_request rq) q of
                  (steps, Some e) \<Rightarrow>
                    steps @ [APIPrinted (''gRPC API proof failed '' @ e),
                             Responds (Refused 500 ''gRPC API delivery failed'')]
                | (steps, None) \<Rightarrow>
                    steps @
                    [Responds (HeaderSet ''Content-Type'' ''application/json''),
                     Responds (BodyWritten
                       (''{'' @ dquote @ ''message'' @ dquote @ '':'' @ la_encode la (lq_Message q) @ '','' @
                        dquote @ ''success'' @ dquote @ '':true}'' @ [CHR 0x0A]) (cr_writeErr rq))] @
                    (case cr_writeErr rq of None \<Rightarrow> []
                     | Some e \<Rightarrow> [APIPrinted (''gRPC API response failed '' @ e)]))))"

end
