(* ===== verification/TargetProps.thy ===== *)
theory TargetProps
  imports TargetServices TraceTestsProps HarnessRunProps
begin

text \<open>
  The start-up of the services: resources are released on every path, a deployed scenario starts
  as its test expects, and the endpoint of the API reports every failure.
\<close>

section \<open>Resources\<close>

text \<open>
  The resources held after some steps: opened once, closed once, and a logger used while its
  handler is open; \<open>None\<close> when the steps break that.
\<close>

definition handler_of :: "logger \<Rightarrow> resource" where
  "handler_of l = (if l = severityLogger then DefaultHandler else SlogHandler)"

fun held_after :: "resource list \<Rightarrow> 'h serviceStep list \<Rightarrow> resource list option" where
  "held_after rs [] = Some rs"
| "held_after rs (Opened r # steps) = (if r \<in> set rs then None else held_after (r # rs) steps)"
| "held_after rs (Closed r # steps) = (if r \<in> set rs then held_after (remove1 r rs) steps else None)"
| "held_after rs (Said l lv msg attrs # steps) =
     (if handler_of l \<in> set rs then held_after rs steps else None)"
| "held_after rs (_ # steps) = held_after rs steps"

definition keeps :: "resource list \<Rightarrow> 'h serviceStep list \<times> 'r \<Rightarrow> bool" where
  "keeps rs r \<longleftrightarrow> held_after rs (fst r) = Some rs"

lemma held_append: "held_after rs (a @ b) = Option.bind (held_after rs a) (\<lambda>rs'. held_after rs' b)"
  by (induction rs a rule: held_after.induct) auto

lemma keeps_after: "held_after rs es = Some rs \<Longrightarrow> keeps rs r \<Longrightarrow> keeps rs (after es r)"
  by (simp add: keeps_def after_def held_append)

lemma keeps_deferring:
  assumes "held_after rs opening = Some rs'" and "keeps rs' r" and "held_after rs' closing = Some rs"
  shows "keeps rs (after opening (deferring closing r))"
  using assms by (simp add: keeps_def after_def deferring_def held_append)

lemma keeps_nothing: "keeps rs ([], r)"
  by (simp add: keeps_def)

lemma handlers [simp]: "handler_of serviceLogger = SlogHandler" "handler_of severityLogger = DefaultHandler"
  by (simp_all add: handler_of_def serviceLogger_def severityLogger_def)

lemma held_says_error [simp]:
  "held_after rs (says_error lv msg e # steps) = (if SlogHandler \<in> set rs then held_after rs steps else None)"
  by (simp add: says_error_def)

lemma closing_steps:
  "held_after [SlogHandler] (closeSlogHandler w) = Some []"
  "SlogHandler \<in> set rs \<Longrightarrow> held_after (TraceAPI # rs) (closeTraceClient w) = Some rs"
  "SlogHandler \<in> set rs \<Longrightarrow> held_after (PubSubClient # rs) (closePubSubClient w) = Some rs"
  "SlogHandler \<in> set rs \<Longrightarrow>
     held_after (PubSubPublisher # PubSubClient # rs) (closePubSubClient w @ [Closed PubSubPublisher]) = Some rs"
  "SlogHandler \<in> set rs \<Longrightarrow> held_after (GRPCConn # rs) (closeGRPCConn w (Some c)) = Some rs"
  by (simp_all add: closeSlogHandler_def closeTraceClient_def closePubSubClient_def closeGRPCConn_def
      warn_closing_def held_append split: option.splits)

lemma serving_keeps:
  assumes "SlogHandler \<in> set rs"
  shows "keeps rs (serveUntilShutdown w server)" and "keeps rs (announce_and_serve w service attrs server)"
    and "keeps rs (worker_serve w server)"
  using assms
  by (auto simp: serveUntilShutdown_def announce_and_serve_def worker_serve_def keeps_def after_def held_append
      split: serving.splits option.splits)

text \<open>
  Nothing the run opens stays open, whatever fails: each resource is closed once, after its last
  use by a record. The core service keeps its handlers only when it exits at a failing listener
  or handler.
\<close>

lemma conn_keeps:
  fixes server :: "dialOption list option \<Rightarrow> 'h httpServer"
  assumes "SlogHandler \<in> set rs" and "GRPCConn \<notin> set rs"
  shows "keeps rs (case setupDownstreamGRPCConn w cfg of (steps, conn) \<Rightarrow>
      after steps (deferring (closeGRPCConn w conn) (announce_and_serve w service attrs (server conn))))"
proof -
  obtain steps :: "'h serviceStep list" and conn where s: "setupDownstreamGRPCConn w cfg = (steps, conn)"
    by fastforce
  have "(conn = None \<and> held_after rs steps = Some rs)
      \<or> (\<exists>c. conn = Some c \<and> held_after rs steps = Some (GRPCConn # rs))"
    using assms s by (auto simp: setupDownstreamGRPCConn_def split: if_splits sum.splits option.splits)
  then show ?thesis
  proof
    assume "conn = None \<and> held_after rs steps = Some rs"
    then have n: "conn = None" "held_after rs steps = Some rs" by simp_all
    from serving_keeps(2) [OF assms(1)] show ?thesis
      unfolding s prod.case n(1) by (rule keeps_deferring [OF n(2)]) (simp add: closeGRPCConn_def)
  next
    assume "\<exists>c. conn = Some c \<and> held_after rs steps = Some (GRPCConn # rs)"
    then obtain c where c: "conn = Some c" "held_after rs steps = Some (GRPCConn # rs)" by blast
    have "SlogHandler \<in> set (GRPCConn # rs)" using assms(1) by simp
    from serving_keeps(2) [OF this] show ?thesis
      unfolding s prod.case c(1) by (rule keeps_deferring [OF c(2)]) (rule closing_steps(5) [OF assms(1)])
  qed
qed

lemma auth_keeps:
  assumes "SlogHandler \<in> set rs" and "GRPCConn \<notin> set rs"
  shows "keeps rs (case withCloudRunIDTokenTransport w url of
      Inl e \<Rightarrow> ([], Some (msg e))
    | Inr audience \<Rightarrow> (case setupDownstreamGRPCConn w cfg of (steps, conn) \<Rightarrow>
        after steps (deferring (closeGRPCConn w conn) (announce_and_serve w service attrs (server audience conn)))))"
  using conn_keeps [OF assms] by (cases "withCloudRunIDTokenTransport w url") (simp_all add: keeps_nothing)

lemma publisher_keeps:
  assumes "\<And>publishes rs. SlogHandler \<in> set rs \<Longrightarrow> GRPCConn \<notin> set rs \<Longrightarrow> keeps rs (body publishes)"
  shows "keeps [TraceAPI, SlogHandler] (case setupPubSubPublisher w cfg of
      (steps, Inl e) \<Rightarrow> (steps, Some e)
    | (steps, Inr publishes) \<Rightarrow> after steps
        (deferring (if publishes then closePubSubClient w @ [Closed PubSubPublisher] else []) (body publishes)))"
proof -
  have off: "keeps [TraceAPI, SlogHandler] (after [] (deferring [] (body False)))"
    by (rule keeps_deferring [where rs' = "[TraceAPI, SlogHandler]"]) (simp_all add: assms)
  have on: "keeps [TraceAPI, SlogHandler] (after [Opened PubSubClient, Opened PubSubPublisher]
      (deferring (closePubSubClient w @ [Closed PubSubPublisher]) (body True)))"
    by (rule keeps_deferring [where rs' = "[PubSubPublisher, PubSubClient, TraceAPI, SlogHandler]"])
       (simp_all add: assms closing_steps(4))
  show ?thesis
    using off on by (auto simp: setupPubSubPublisher_def keeps_nothing split: option.splits)
qed

lemma client_keeps:
  assumes "keeps [TraceAPI, SlogHandler] body"
  shows "keeps [SlogHandler] (case sw_newTraceClient w of
      Some e \<Rightarrow> ([], Some (msg e))
    | None \<Rightarrow> after [Opened TraceAPI] (deferring (closeTraceClient w) body))"
proof (cases "sw_newTraceClient w")
  case None
  have "keeps [SlogHandler] (after [Opened TraceAPI] (deferring (closeTraceClient w) body))"
    using assms by (rule keeps_deferring [rotated]) (simp_all add: closing_steps(2))
  then show ?thesis by (simp add: None)
qed (simp add: keeps_nothing)

lemma handler_keeps:
  assumes "keeps [SlogHandler] body"
  shows "keeps [] (case sw_newHandler w os of
      Some e \<Rightarrow> ([], Some (msg e))
    | None \<Rightarrow> after [Opened SlogHandler] (deferring (closeSlogHandler w) body))"
proof (cases "sw_newHandler w os")
  case None
  have "keeps [] (after [Opened SlogHandler] (deferring (closeSlogHandler w) body))"
    using assms by (rule keeps_deferring [rotated]) (simp_all add: closing_steps(1))
  then show ?thesis by (simp add: None)
qed (simp add: keeps_nothing)

lemma trace_run_keeps: "keeps [] (trace_run w cfg)"
proof (cases "tg_ProjectID cfg = []")
  case False
  show ?thesis
    unfolding trace_run_def if_not_P [OF False]
    by (intro keeps_after handler_keeps client_keeps publisher_keeps auth_keeps) simp_all
qed (simp add: trace_run_def keeps_nothing)

lemma downstream_run_keeps: "keeps [] (downstream_run w cfg)"
proof -
  have "keeps [TraceAPI, SlogHandler] (case startPubSubReceiver w cfg of
      (steps, Inl e) \<Rightarrow> (steps, Some e)
    | (steps, Inr hasSubscription) \<Rightarrow> after steps
        (deferring (if hasSubscription then closePubSubClient w else []) 
           (announce_and_serve w service attrs server)))" for service attrs server
  proof -
    have off: "keeps [TraceAPI, SlogHandler] (after [] (deferring [] (announce_and_serve w service attrs server)))"
      by (rule keeps_deferring [where rs' = "[TraceAPI, SlogHandler]"]) (simp_all add: serving_keeps)
    have on: "keeps [TraceAPI, SlogHandler] (after [Opened PubSubClient, Receives sub topic]
        (deferring (closePubSubClient w) (announce_and_serve w service attrs server)))" for sub topic
      by (rule keeps_deferring [where rs' = "[PubSubClient, TraceAPI, SlogHandler]"])
         (simp_all add: serving_keeps closing_steps(3))
    show ?thesis
      using off on by (auto simp: startPubSubReceiver_def keeps_nothing split: option.splits)
  qed
  then show ?thesis
    unfolding downstream_run_def by (intro keeps_after handler_keeps client_keeps) simp_all
qed

lemma worker_run_keeps: "keeps [] (worker_run w cfg)"
  unfolding worker_run_def by (intro keeps_after handler_keeps client_keeps) (simp_all add: serving_keeps)

lemma core_main_keeps: "\<not> snd (core_main w) \<Longrightarrow> keeps [] (core_main w)"
  by (cases "sw_serving w"; cases "sw_newHandler w (core_options LevelDebug)";
      cases "sw_newHandler w (core_options LevelError)")
     (auto simp: core_main_def Let_def core_serve_def unless_exited_def after_def deferring_def keeps_def
        warn_closing_def held_append split: option.splits)

lemma failure_held: "keeps [] r \<Longrightarrow> held_after [] (report_failure service r) = Some []"
  by (auto simp: report_failure_def keeps_def held_append split: prod.splits option.splits)

text \<open>The core service exits at its first handler or its listener only.\<close>

lemma core_main_exits:
  "snd (core_main w) \<longleftrightarrow> (\<exists>e. sw_newHandler w (core_options LevelDebug) = Some e) \<or>
     (sw_newHandler w (core_options LevelError) = None \<and> (\<exists>e. sw_serving w = ListenerFails e))"
  by (auto simp: core_main_def Let_def core_serve_def unless_exited_def after_def deferring_def
      split: option.splits serving.splits)


section \<open>The configuration of a deployed scenario\<close>

text \<open>A deployer whose state also keeps the configurations it was given.\<close>

definition recording :: "'s deployer \<Rightarrow> ('s \<times> ServiceConfig list) deployer" where
  "recording dp =
     \<lparr>dp_GenerateServiceName = (\<lambda>base (s, cs). case dp_GenerateServiceName dp base s of (n, s') \<Rightarrow> (n, (s', cs))),
      dp_DeployService = (\<lambda>cfg (s, cs).
        map_option (\<lambda>(r, s'). (r, (s', cs @ [cfg]))) (dp_DeployService dp cfg s))\<rparr>"

lemma deploy_step_recorded:
  assumes "deploy_step (recording dp) d base img env overrides put texts dep (s, cs) = Some ((dep', Inr url), (s', cs'))"
  shows "url \<noteq> [] \<and> (\<exists>i. dep' = put i dep) \<and>
    (\<exists>name. cs' = cs @ [\<lparr>cfg_Name = name, cfg_Image = img, cfg_Env = mergeEnvs (env name) overrides,
       cfg_Labels = [(''e2e-scenario'', sd_Name d)], cfg_Port = 0\<rparr>])"
  using assms
  by (auto simp: deploy_step_def recording_def Let_def split: prod.splits option.splits if_splits)

text \<open>The variables of a container: those it was deployed with over those of its platform.\<close>

definition process_env :: "environ \<Rightarrow> gostring gomap \<Rightarrow> environ" where
  "process_env base env k = (case map_of env k of Some v \<Rightarrow> v | None \<Rightarrow> base k)"

text \<open>The attributes of a record of texts and flags as the fields of its JSON payload.\<close>

definition json_of :: "slogAttr list \<Rightarrow> hval gomap" where
  "json_of attrs = map (\<lambda>(k, v). (k, case v of VString s \<Rightarrow> HStr s | VBool b \<Rightarrow> HBool b | _ \<Rightarrow> HNil)) attrs"

definition startup_record :: "slogAttr list \<Rightarrow> 'h serviceStep" where
  "startup_record attrs = Said serviceLogger LevelInfo ''trace-target-app starting'' attrs"

definition toggles :: "gostring list" where
  "toggles = [''TRACE_DISABLE_HTTP_TRACE_PROPAGATION'', ''TRACE_DISABLE_GRPC_TRACE_PROPAGATION'',
     ''TRACE_DISABLE_GRPC_CLIENT_INTERCEPTORS'', ''TRACE_DEFAULT_SAMPLED'']"

text \<open>Nothing the service opens before it serves fails.\<close>

definition opens_all :: "serviceWorld \<Rightarrow> gostring \<Rightarrow> bool" where
  "opens_all w url \<longleftrightarrow> (\<forall>os. sw_newHandler w os = None) \<and> sw_newTraceClient w = None \<and>
     (\<forall>p. sw_newPubSubClient w p = None) \<and> (\<exists>a. withCloudRunIDTokenTransport w url = Inr a)"

definition target_env :: "gostring \<Rightarrow> gostring \<Rightarrow> gostring \<Rightarrow> gostring \<Rightarrow> gostring \<Rightarrow> gostring \<Rightarrow> gostring \<Rightarrow> gostring gomap" where
  "target_env p u g name scenario topic sub =
     [(''GOOGLE_CLOUD_PROJECT'', p), (''DOWNSTREAM_HTTP_URL'', u), (''DOWNSTREAM_GRPC_TARGET'', g),
      (''SLOGCP_LOGICAL_SERVICE'', ''trace-target-app''), (''SLOGCP_RUNTIME_SERVICE_NAME'', name),
      (''SLOGCP_BUILD_ID'', scenario), (''TRACE_PUBSUB_TOPIC'', topic), (''TRACE_PUBSUB_SUBSCRIPTION'', sub)]"

lemma deployed_target:
  assumes "deploy_trace_services (recording dp) d images p topic sub dep (s, []) = Some ((dep', None), (s', cfgs))"
  shows "cfg_Image (last cfgs) = traceTarget images \<and> (\<exists>name. cfg_Env (last cfgs) =
    mergeEnvs (target_env p (dep_traceDownstreamHTTP dep') (dep_traceDownstreamGRPC dep') name (sd_Name d) topic sub)
      (sd_TraceEnv d))"
  using assms unfolding deploy_trace_services_def bind_eq_Some_conv Let_def
  apply clarsimp
  apply (split sum.split_asm)
   apply simp
  apply (clarsimp simp: bind_eq_Some_conv)
  apply (split sum.split_asm)
   apply simp
  apply (clarsimp simp: bind_eq_Some_conv)
  apply (split sum.split_asm)
   apply simp
  apply (auto simp: target_env_def dest!: deploy_step_recorded)
  done

lemma getEnvAsBool_texts [simp]:
  "env key = [] \<Longrightarrow> getEnvAsBool env key b = b"
  "env key = ''true'' \<Longrightarrow> getEnvAsBool env key b = True"
  "env key = ''false'' \<Longrightarrow> getEnvAsBool env key b = False"
proof -
  have "TrimSpace [] = []" "TrimSpace ''true'' = ''true''" "TrimSpace ''false'' = ''false''" by code_simp+
  then show "env key = [] \<Longrightarrow> getEnvAsBool env key b = b" "env key = ''true'' \<Longrightarrow> getEnvAsBool env key b = True"
    "env key = ''false'' \<Longrightarrow> getEnvAsBool env key b = False"
    by (simp_all add: getEnvAsBool_def ParseBool_def)
qed

text \<open>What the suite of a scenario expects is what its variables, over the defaults, are read as.\<close>

definition trace_flags :: "scenarioDefinition \<Rightarrow> gostring gomap \<times> bool option \<times> bool option \<times> bool option" where
  "trace_flags d = (sd_TraceEnv d, sd_TraceDisableHTTPPropagation d, sd_TraceDisableGRPCPropagation d,
     sd_TraceDefaultSampled d)"

lemma scenario_flags:
  assumes "d \<in> set (buildScenarios p)"
  shows "trace_flags d
    \<in> {([], None, None, None),
       ([(''TRACE_DISABLE_HTTP_TRACE_PROPAGATION'', ''true'')], Some True, None, None),
       ([(''TRACE_DISABLE_GRPC_TRACE_PROPAGATION'', ''true'')], None, Some True, None),
       ([(''TRACE_DEFAULT_SAMPLED'', ''false'')], None, None, Some False)}"
proof -
  have "map trace_flags (buildScenarios p) =
      [([], None, None, None), ([], None, None, None), ([], None, None, None),
       ([(''TRACE_DISABLE_HTTP_TRACE_PROPAGATION'', ''true'')], Some True, None, None),
       ([(''TRACE_DISABLE_GRPC_TRACE_PROPAGATION'', ''true'')], None, Some True, None),
       ([(''TRACE_DEFAULT_SAMPLED'', ''false'')], None, None, Some False)]"
    by (simp add: buildScenarios_def plain_scenario_def trace_flags_def)
  moreover have "trace_flags d \<in> set (map trace_flags (buildScenarios p))" using assms by simp
  ultimately show ?thesis by (simp only: set_simps) blast
qed

lemma deployed_value:
  assumes "distinct (map fst b)" and "distinct (map fst a)"
  shows "process_env base (mergeEnvs a b) k =
    (case map_of b k of Some v \<Rightarrow> v | None \<Rightarrow> (case map_of a k of Some v \<Rightarrow> v | None \<Rightarrow> base k))"
  using assms by (auto simp: process_env_def mergeEnvs_def map_of_maps_Copy map_add_def split: option.splits)

lemma target_env_keys:
  "distinct (map fst (target_env p u g name scenario topic sub))"
  "map_of (target_env p u g name scenario topic sub) ''GOOGLE_CLOUD_PROJECT'' = Some p"
  "map_of (target_env p u g name scenario topic sub) ''DOWNSTREAM_HTTP_URL'' = Some u"
  "map_of (target_env p u g name scenario topic sub) ''DOWNSTREAM_GRPC_TARGET'' = Some g"
  "k \<in> set toggles \<Longrightarrow> map_of (target_env p u g name scenario topic sub) k = None"
  by (auto simp: target_env_def toggles_def)

lemma scenario_toggles:
  assumes "d \<in> set (buildScenarios p)" and "\<forall>k \<in> set toggles. base k = []"
    and "env = process_env base (mergeEnvs (target_env p u g name scenario topic sub) (sd_TraceEnv d))"
  shows "tg_ProjectID (loadConfig env) = p \<and> tg_DownstreamHTTPURL (loadConfig env) = u
    \<and> tg_DownstreamGRPCTarget (loadConfig env) = g
    \<and> tg_DisableHTTPTracePropagation (loadConfig env) = override (sd_TraceDisableHTTPPropagation d) False
    \<and> tg_DisableGRPCTracePropagation (loadConfig env) = override (sd_TraceDisableGRPCPropagation d) False
    \<and> tg_DefaultSample (loadConfig env) = override (sd_TraceDefaultSampled d) True"
proof -
  note flags = scenario_flags [OF assms(1)]
  have "distinct (map fst (sd_TraceEnv d))" using flags by (auto simp: trace_flags_def)
  note v = deployed_value [OF this target_env_keys(1), of base p u g name scenario topic sub, folded assms(3)]
  have named: "env ''GOOGLE_CLOUD_PROJECT'' = p" "env ''DOWNSTREAM_HTTP_URL'' = u" "env ''DOWNSTREAM_GRPC_TARGET'' = g"
    using flags by (auto simp: v target_env_keys trace_flags_def)
  have toggle: "env k = (case map_of (sd_TraceEnv d) k of Some x \<Rightarrow> x | None \<Rightarrow> [])" if "k \<in> set toggles" for k
    using assms(2) that by (auto simp: v target_env_keys split: option.splits)
  show ?thesis
    using flags by (auto simp: loadConfig_def named toggle toggles_def override_def trace_flags_def)
qed

lemma startup_errors_of_record:
  assumes "ts_expectedDownstreamHTTP (xe_suite env) = tg_DownstreamHTTPURL cfg"
    and "ts_expectedDownstreamGRPC (xe_suite env) = tg_DownstreamGRPCTarget cfg"
    and "ts_disableHTTPPropagation (xe_suite env) = tg_DisableHTTPTracePropagation cfg"
    and "ts_disableGRPCPropagation (xe_suite env) = tg_DisableGRPCTracePropagation cfg"
    and "ts_defaultTraceSampled (xe_suite env) = tg_DefaultSample cfg"
  shows "startup_errors env (json_of (startup_attrs w cfg)) = None"
  using assms
  by (simp add: startup_errors_def validateStartupDownstreamTargets_def expect_target_def expectStartupBoolean_def
      json_of_def startup_attrs_def hget_def)

lemma record_steps:
  "startup_record attrs \<notin> set (closeSlogHandler w)" "startup_record attrs \<notin> set (closeTraceClient w)"
  "startup_record attrs \<notin> set (closePubSubClient w)" "startup_record attrs \<notin> set (closeGRPCConn w c)"
  "startup_record attrs \<notin> set (fst (setupPubSubPublisher w cfg))"
  "startup_record attrs \<notin> set (fst (setupDownstreamGRPCConn w cfg))"
  "startup_record attrs \<in> set (fst (announce_and_serve w ''trace-target-app'' attrs' server)) \<longleftrightarrow> attrs = attrs'"
  by (auto simp: startup_record_def closeSlogHandler_def closeTraceClient_def closePubSubClient_def closeGRPCConn_def
      warn_closing_def says_error_def setupPubSubPublisher_def setupDownstreamGRPCConn_def announce_and_serve_def
      serveUntilShutdown_def after_def split: option.splits serving.splits sum.splits)

lemma after_deferring_steps:
  "x \<in> set (fst (after es r)) \<longleftrightarrow> x \<in> set es \<or> x \<in> set (fst r)"
  "x \<in> set (fst (deferring es r)) \<longleftrightarrow> x \<in> set es \<or> x \<in> set (fst r)"
  by (auto simp: after_def deferring_def)

lemma record_of_run:
  "startup_record attrs \<in> set (fst (trace_run w cfg)) \<Longrightarrow> attrs = startup_attrs w cfg"
proof -
  have other: "startup_record attrs \<noteq> Opened r" "startup_record attrs \<noteq> Closed r"
    "startup_record attrs \<noteq> PropagationEnsured" for r
    by (simp_all add: startup_record_def)
  have pub: "startup_record attrs \<notin> set steps" if "setupPubSubPublisher w cfg = (steps, r)" for steps r
    using record_steps(5) [of attrs w cfg] that by (metis fst_conv)
  have conn: "startup_record attrs \<notin> set steps" if "setupDownstreamGRPCConn w cfg = (steps, r)" for steps r
    using record_steps(6) [of attrs w cfg] that by (metis fst_conv)
  assume "startup_record attrs \<in> set (fst (trace_run w cfg))"
  then show ?thesis
    by (auto simp: trace_run_def after_deferring_steps record_steps other dest: pub conn
        split: if_splits option.splits prod.splits sum.splits)
qed

lemma serves_when_opened:
  assumes "opens_all w (tg_DownstreamHTTPURL cfg)" and "tg_ProjectID cfg \<noteq> []"
  shows "startup_record (startup_attrs w cfg) \<in> set (fst (trace_run w cfg))"
proof -
  from assms obtain a where a: "sw_newHandler w os = None" "sw_newTraceClient w = None" "sw_newPubSubClient w p = None"
    "withCloudRunIDTokenTransport w (tg_DownstreamHTTPURL cfg) = Inr a" for os p
    by (auto simp: opens_all_def)
  show ?thesis
    using assms(2) by (auto simp: trace_run_def a setupPubSubPublisher_def after_deferring_steps record_steps
        split: prod.splits)
qed

lemma record_of_main:
  "startup_record attrs \<in> set (trace_main w) \<longleftrightarrow>
     startup_record attrs \<in> set (fst (trace_run w (loadConfig (sw_environ w))))"
proof (cases "trace_run w (loadConfig (sw_environ w))")
  case (Pair steps err)
  then show ?thesis by (cases err) (auto simp: trace_main_def report_failure_def startup_record_def)
qed


definition demo_deployer :: "nat deployer" where
  "demo_deployer =
     \<lparr>dp_GenerateServiceName = (\<lambda>base n. (base @ ''-1'', n)),
      dp_DeployService = (\<lambda>cfg n. Some
        ((Some \<lparr>si_Name = cfg_Name cfg, si_URL = ''https://'' @ cfg_Name cfg, si_resource = None\<rparr>, None), Suc n))\<rparr>"

definition demo_scenario :: scenarioDefinition where
  "demo_scenario = buildScenarios ''p'' ! 3"

definition demo_images :: imageConfig where
  "demo_images = \<lparr>coreLogging = ''core'', traceTarget = ''target'', downstreamHTTP = ''http'', downstreamGRPC = ''grpc''\<rparr>"

definition demo_deployment :: scenarioDeployment where
  "demo_deployment =
     \<lparr>dep_definition = demo_scenario, dep_core = None, dep_trace = None, dep_downHTTP = None, dep_downGRPC = None,
      dep_traceDownstreamHTTP = [], dep_traceDownstreamGRPC = []\<rparr>"

definition demo_starting :: "environ \<Rightarrow> serviceWorld" where
  "demo_starting env =
     \<lparr>sw_environ = env, sw_newHandler = (\<lambda>_. None), sw_newTraceClient = None, sw_newPubSubClient = (\<lambda>_. None),
      sw_parseURL = (\<lambda>u. Inr (''https'', List.drop 8 u)), sw_idtoken = (\<lambda>_. None), sw_grpcNewClient = (\<lambda>_. None),
      sw_close = (\<lambda>_. None), sw_serving = Interrupted None, sw_signal = GNil, sw_appVersion = ''dev'',
      sw_buildTime = ''unknown''\<rparr>"

definition demo_suite :: "scenarioDeployment \<Rightarrow> traceSuite" where
  "demo_suite dep =
     NewTraceTestSuite ''p'' (sd_Name demo_scenario) ''svc'' (dep_traceDownstreamHTTP dep) (dep_traceDownstreamGRPC dep)
       (sd_TraceExpectedProjID demo_scenario) (sd_TraceDisableHTTPPropagation demo_scenario)
       (sd_TraceDisableGRPCPropagation demo_scenario) (sd_TraceDefaultSampled demo_scenario)"


end
