(* ===== verification/TargetApiProps.thy ===== *)
theory TargetApiProps
  imports TargetProps
begin

text \<open>
  The endpoint that sends a record through the API reports every failure; the audiences, routes
  and propagation switches of the services agree with what the harness derives and sends.
\<close>

section \<open>Sending through the API\<close>

text \<open>Nothing of the delivery fails.\<close>

definition delivered :: "loggingAPI \<Rightarrow> environ \<Rightarrow> goRequest \<Rightarrow> logRequest \<Rightarrow> bool" where
  "delivered la env r q \<longleftrightarrow>
     (let p = env ''GOOGLE_CLOUD_PROJECT''
      in p \<noteq> [] \<and> la_NewClient la p = None \<and> la_NewExporter la = None \<and>
         la_NewHandler la [WithTraceProjectID p, WithSourceLocationEnabled True] = None \<and>
         la_Handle la (proof_span la (lq_TestID q)) (proof_record r q) = None \<and>
         la_HandlerClose la = None \<and> la_Flush la = None \<and> la_ClientClose la = None)"

lemma joined_None: "errors_Join es = None \<longleftrightarrow> list_all (\<lambda>e. e = None) es"
  by (auto simp: errors_Join_def Let_def list_all_iff split: option.splits)

lemma emit_result: "snd (emitGRPCAPI la env r q) = None \<longleftrightarrow> delivered la env r q"
  by (auto simp: emitGRPCAPI_def delivered_def Let_def joined_None split: option.splits)

lemma emit_steps:
  "let steps = fst (emitGRPCAPI la env r q)
   in steps = []
     \<or> steps = [ClientOpened (env ''GOOGLE_CLOUD_PROJECT''), ClientClosed]
     \<or> steps = [ClientOpened (env ''GOOGLE_CLOUD_PROJECT''),
         RecordHandled (proof_span la (lq_TestID q)) (proof_record r q), HandlerClosed, ExporterFlushed, ClientClosed]"
  by (auto simp: emitGRPCAPI_def Let_def split: option.splits)

lemma emit_delivered:
  "delivered la env r q \<Longrightarrow> fst (emitGRPCAPI la env r q) = [ClientOpened (env ''GOOGLE_CLOUD_PROJECT''),
     RecordHandled (proof_span la (lq_TestID q)) (proof_record r q), HandlerClosed, ExporterFlushed, ClientClosed]"
  by (auto simp: emitGRPCAPI_def delivered_def Let_def split: option.splits)

definition success_body :: "loggingAPI \<Rightarrow> logRequest \<Rightarrow> gostring" where
  "success_body la q =
     ''{'' @ dquote @ ''message'' @ dquote @ '':'' @ la_encode la (lq_Message q) @ '','' @
       dquote @ ''success'' @ dquote @ '':true}'' @ [CHR 0x0A]"

lemma api_success:
  "(\<exists>err. Responds (BodyWritten body err) \<in> set (logGRPCAPI la env rq)) \<longleftrightarrow>
     req_Method (cr_request rq) = ''POST'' \<and>
     (\<exists>q. cr_decoded rq = Inr q \<and> lq_TestID q \<noteq> [] \<and> delivered la env (cr_request rq) q \<and> body = success_body la q)"
proof (cases "cr_decoded rq")
  case (Inr q)
  obtain steps err where e: "emitGRPCAPI la env (cr_request rq) q = (steps, err)" by fastforce
  have "Responds (BodyWritten b x) \<notin> set (fst (emitGRPCAPI la env (cr_request rq) q))" for b x
    using emit_steps [of la env "cr_request rq" q] by (auto simp: Let_def)
  then show ?thesis
    using emit_result [of la env "cr_request rq" q]
    by (auto simp: logGRPCAPI_def Inr e success_body_def split: option.splits)
qed (simp add: logGRPCAPI_def)

text \<open>A step that only answers the request or prints a line.\<close>

fun answering :: "apiStep \<Rightarrow> bool" where
  "answering (Responds _) = True"
| "answering (APIPrinted _) = True"
| "answering _ = False"

lemma api_closes:
  "\<exists>p sc rec rest. list_all answering rest \<and> logGRPCAPI la env rq \<in>
     {rest, [ClientOpened p, ClientClosed] @ rest,
      [ClientOpened p, RecordHandled sc rec, HandlerClosed, ExporterFlushed, ClientClosed] @ rest}"
proof (cases "cr_decoded rq")
  case (Inr q)
  obtain steps err where e: "emitGRPCAPI la env (cr_request rq) q = (steps, err)" by fastforce
  have "\<exists>rest. list_all answering rest \<and> (logGRPCAPI la env rq = rest \<or> logGRPCAPI la env rq = steps @ rest)"
    by (cases err; cases "cr_writeErr rq")
       (simp_all add: logGRPCAPI_def Inr e ex_disj_distrib conj_disj_distribL)
  then obtain rest where "list_all answering rest" "logGRPCAPI la env rq \<in> {rest, steps @ rest}" by blast
  then show ?thesis
    using emit_steps [of la env "cr_request rq" q]
    by (intro exI [of _ "env ''GOOGLE_CLOUD_PROJECT''"] exI [of _ "proof_span la (lq_TestID q)"]
          exI [of _ "proof_record (cr_request rq) q"] exI [of _ rest]) (auto simp: e Let_def)
qed (simp add: logGRPCAPI_def)

text \<open>
  C28. The endpoint answers with success exactly to a POST of a request with a test identifier
  whose record was handled, with the handler closed, the exporter flushed and the client closed
  after it, none of them with an error; and a client it opened is closed on every path, after the
  exporter was flushed when a record was handled, before the request is answered.
\<close>

theorem grpc_api_reports:
  "((\<exists>err. Responds (BodyWritten body err) \<in> set (logGRPCAPI la env rq)) \<longleftrightarrow>
     req_Method (cr_request rq) = ''POST'' \<and>
     (\<exists>q. cr_decoded rq = Inr q \<and> lq_TestID q \<noteq> [] \<and> delivered la env (cr_request rq) q
        \<and> body = success_body la q))
   \<and> (\<exists>p sc rec rest. list_all answering rest \<and> logGRPCAPI la env rq \<in>
        {rest, [ClientOpened p, ClientClosed] @ rest,
         [ClientOpened p, RecordHandled sc rec, HandlerClosed, ExporterFlushed, ClientClosed] @ rest})"
  by (rule conjI [OF api_success api_closes])

section \<open>Audiences\<close>

definition host_char :: "char \<Rightarrow> bool" where
  "host_char c \<longleftrightarrow> decimal c \<or> (97 \<le> (of_char c :: nat) \<and> (of_char c :: nat) \<le> 122) \<or> c = CHR ''-'' \<or> c = CHR ''.''"

lemma host_chars:
  assumes "list_all host_char h"
  shows "list_all visible h" and "CHR ''/'' \<notin> set h" and "CHR '':'' \<notin> set h"
proof -
  have "host_char c \<Longrightarrow> visible c" for c by (auto simp: host_char_def visible_def decimal_def)
  then show "list_all visible h" using assms by (auto simp: list_all_iff)
  have "\<not> host_char CHR ''/''" "\<not> host_char CHR '':''" by (simp_all add: host_char_def decimal_def)
  then show "CHR ''/'' \<notin> set h" "CHR '':'' \<notin> set h" using assms by (auto simp: list_all_iff)
qed

lemma Contains_needs: "Contains s p \<Longrightarrow> set p \<subseteq> set s"
proof (induction s p rule: Contains.induct)
  case (2 c cs p)
  then show ?case using set_mono_prefix [of p "c # cs"] by auto
qed simp

text \<open>
  The identity tokens for the HTTP and the gRPC calls to a service have the same audience, its
  URL, when the gRPC target is the one the harness derives from that URL, with or without a
  slash at its end.
\<close>

theorem derived_target_audience:
  assumes "list_all host_char h" and "h \<noteq> []" and "url = ''https://'' @ h \<or> url = ''https://'' @ h @ ''/''"
    and "parsed url = Inr (''https'', h)"
  shows "audienceFromGRPCTarget parsed (deriveGRPCTarget url) = Inr (Some (''https://'' @ h))
    \<and> audienceFromURL parsed url = Inr (Some (''https://'' @ h))"
proof -
  note h = host_chars [OF assms(1)]
  have last: "last h \<noteq> CHR ''/''" using h(2) assms(2) by (metis last_in_set)
  have derived: "deriveGRPCTarget url = h @ '':443''"
    using assms(2,3) last
    by (auto simp: deriveGRPCTarget_def TrimPrefix_def TrimSuffixChar_def Let_def butlast_append)
  have vis: "list_all visible (h @ '':443'')" "list_all visible url"
    using h(1) assms(3) by (auto simp: visible_def)
  have no: "\<not> Contains (h @ '':443'') ''://''"
    using Contains_needs [of "h @ '':443''" "''://''"] h(2) by auto
  have slash: "\<not> HasSuffix (h @ '':443'') ''/''"
  proof
    assume "HasSuffix (h @ '':443'') ''/''"
    then obtain ys where "h @ '':443'' = ys @ ''/''" by (auto simp: HasSuffix_def suffix_def)
    from arg_cong [where f = last, OF this] show False by simp
  qed
  have "HasSuffix (h @ '':443'') '':443''" by (simp add: HasSuffix_def suffix_def)
  then have host: "strings_TrimSuffix (strings_TrimSuffix (h @ '':443'') ''/'') '':443'' = h"
    using slash by (simp add: strings_TrimSuffix_def)
  show ?thesis
    unfolding derived audienceFromGRPCTarget_def audienceFromURL_def Let_def TrimSpace_all_visible [OF vis(1)]
      TrimSpace_all_visible [OF vis(2)] assms(4)
    using assms(2) no host by (simp add: lower_byte_def)
qed

theorem derived_target_audience_witness:
  "audienceFromGRPCTarget (\<lambda>_. Inr (''https'', ''core-1.run.app'')) (deriveGRPCTarget ''https://core-1.run.app'')
     = Inr (Some ''https://core-1.run.app'')
   \<and> audienceFromURL (\<lambda>_. Inr (''https'', ''core-1.run.app'')) ''https://core-1.run.app''
     = Inr (Some ''https://core-1.run.app'')"
  using derived_target_audience [of "''core-1.run.app''" "''https://core-1.run.app''"
      "\<lambda>_. Inr (''https'', ''core-1.run.app'')"]
  by (simp add: host_char_def decimal_def)

section \<open>Propagation\<close>

text \<open>With propagation switched off, an outbound request or call carries what it carried before.\<close>

lemma http_switched_off:
  assumes "getEnvAsBool env ''TRACE_DISABLE_HTTP_TRACE_PROPAGATION'' False"
  shows "injectTrace he (rt_cfg (Transport vars l info b base (target_httpOpts (loadConfig env)))) ctx header = header"
  using assms
  by (simp add: injectTrace_def Transport_def Let_def http_applyOptions_def target_httpOpts_def loadConfig_def
      applyTrustRemoteTraceEnv_def http_WithTracePropagation_def http_WithLegacyXCloudInjection_def http_WithLogger_def
      split: option.splits)

lemma grpc_switched_off:
  assumes "tg_DisableGRPCTracePropagation (loadConfig env)"
    and "SlogcpOption (ChainUnary c) \<in> set (grpc_dial_options (loadConfig env) a)
      \<or> SlogcpOption (ChainStream c) \<in> set (grpc_dial_options (loadConfig env) a)"
  shows "injectClientTrace te ctx md (Some c) = md"
proof -
  have "\<not> GrpcTrace.propagateTrace c"
    using assms by (auto simp: grpc_dial_options_def DialOptions_def Let_def rpc_applyOptions_def
        rpc_WithTracePropagation_def rpc_WithLegacyXCloudInjection_def rpc_WithLogger_def split: option.splits if_splits)
  then show ?thesis by (simp add: injectClientTrace_def)
qed

section \<open>Routes\<close>

text \<open>
  Every request of the harness's clients to the core service is routed; of those to the trace
  target, all but two, which no endpoint serves.
\<close>

lemma trace_requests_routed:
  "op \<noteq> TraceParallel \<Longrightarrow> op \<noteq> TraceNested \<Longrightarrow> map_of trace_routes (trace_endpoint op) = Some (Some op)"
  "map_of trace_routes (trace_endpoint TraceParallel) = None"
  "map_of trace_routes (trace_endpoint TraceNested) = None"
  by (cases op; simp add: trace_routes_def) (simp_all add: trace_routes_def)

lemma core_requests_routed:
  "op \<notin> range LogWithSeverity \<Longrightarrow> map_of (core_routes g) (log_endpoint op) \<noteq> None"
  by (cases op) (simp_all add: core_routes_def)

text \<open>The publisher of the trace target is stopped after the client it publishes through.\<close>

lemma publisher_stops_last:
  assumes "opens_all w (tg_DownstreamHTTPURL cfg)" and "tg_ProjectID cfg \<noteq> []" and "tg_PubSubTopic cfg \<noteq> []"
  shows "\<exists>before between rest. fst (trace_run w cfg) =
    before @ [Closed PubSubClient] @ between @ [Closed PubSubPublisher] @ rest"
proof -
  from assms(1) obtain a where a: "sw_newHandler w os = None" "sw_newTraceClient w = None"
    "sw_newPubSubClient w p = None" "withCloudRunIDTokenTransport w (tg_DownstreamHTTPURL cfg) = Inr a" for os p
    by (auto simp: opens_all_def)
  define body where "body = (case setupDownstreamGRPCConn w cfg of (steps, conn) \<Rightarrow>
    after steps (deferring (closeGRPCConn w conn) (announce_and_serve w ''trace-target-app'' (startup_attrs w cfg)
      (trace_server cfg a conn True))))"
  have "fst (trace_run w cfg) = [PropagationEnsured, Opened SlogHandler, Opened TraceAPI, Opened PubSubClient,
      Opened PubSubPublisher] @ fst body @ closePubSubClient w @ [Closed PubSubPublisher] @ closeTraceClient w @
      closeSlogHandler w"
    using assms(2,3) by (simp add: trace_run_def a setupPubSubPublisher_def after_def deferring_def body_def)
  then show ?thesis unfolding closePubSubClient_def warn_closing_def by (metis append_Cons append_Nil append_assoc)
qed

end
