(* ===== verification/HeaderTool.thy ===== *)
theory HeaderTool
  imports HarnessTests Pipeline
begin

text \<open>
  The licence header tool of the repository (\<^verbatim>\<open>.github/tools/cmd/header\<close>) over the
  YAML decoder and the header package it calls, and the gRPC client of the harness.
\<close>

section \<open>The configuration\<close>

text \<open>The types of the header package are parameters: its licence, comment and language settings.\<close>

record ('l, 'k, 'g) headerConfig =
  hdr_License :: "'l option"
  hdr_Paths :: "gostring list"
  hdr_PathsIgnore :: "gostring list"
  hdr_Comment :: 'k
  hdr_LicenseLocationThreshold :: int
  hdr_Languages :: "'g gomap"

record ('l, 'k, 'g) configHeader =
  chd_License :: 'l
  chd_Paths :: "gostring list"
  chd_PathsIgnore :: "gostring list"
  chd_Comment :: 'k
  chd_LicenseLocationThreshold :: int
  chd_Languages :: "'g gomap"

text \<open>What decoding a second document returns.\<close>

datatype nextDocument = EndOfInput | OneMore | Malformed gostring

text \<open>The packages: decoding the first document and the next, and the header package.\<close>

record ('l, 'k, 'g, 'r) headerLib =
  hl_ReadFile :: "gostring \<Rightarrow> gostring + gostring"
  hl_Decode :: "gostring \<Rightarrow> gostring + ('l, 'k, 'g) headerConfig option"
  hl_DecodeNext :: "gostring \<Rightarrow> nextDocument"
  hl_Finalize :: "('l, 'k, 'g) configHeader \<Rightarrow> gostring + ('l, 'k, 'g) configHeader"
  hl_LicenseContent :: "('l, 'k, 'g) configHeader \<Rightarrow> gostring"
  hl_Check :: "('l, 'k, 'g) configHeader \<Rightarrow> gostring + 'r"
  hl_Fix :: "gostring \<Rightarrow> ('l, 'k, 'g) configHeader \<Rightarrow> 'r \<Rightarrow> gostring option \<times> 'r"
  hl_Failure :: "'r \<Rightarrow> gostring list"
  hl_HasFailure :: "'r \<Rightarrow> bool"
  hl_String :: "'r \<Rightarrow> gostring"
  hl_Error :: "'r \<Rightarrow> gostring"

definition decodeConfig ::
  "('l, 'k, 'g, 'r) headerLib \<Rightarrow> gostring \<Rightarrow> gostring + ('l, 'k, 'g) configHeader" where
  "decodeConfig lib data =
     (case hl_Decode lib data of
        Inl err \<Rightarrow> Inl err
      | Inr parsed \<Rightarrow>
          (case hl_DecodeNext lib data of
             OneMore \<Rightarrow> Inl ''configuration must contain a single YAML document''
           | Malformed err \<Rightarrow> Inl err
           | EndOfInput \<Rightarrow>
               (case parsed of
                  None \<Rightarrow> Inl ''configuration must contain a header mapping''
                | Some h \<Rightarrow>
                    (case hdr_License h of
                       None \<Rightarrow> Inl ''configuration must contain a header.license mapping''
                     | Some l \<Rightarrow>
                         (case hl_Finalize lib
                             \<lparr>chd_License = l, chd_Paths = hdr_Paths h, chd_PathsIgnore = hdr_PathsIgnore h,
                              chd_Comment = hdr_Comment h,
                              chd_LicenseLocationThreshold = hdr_LicenseLocationThreshold h,
                              chd_Languages = hdr_Languages h\<rparr> of
                            Inl err \<Rightarrow> Inl err
                          | Inr config \<Rightarrow>
                              if TrimSpace (hl_LicenseContent lib config) = []
                              then Inl ''configuration must resolve to a nonempty license header''
                              else Inr config)))))"

section \<open>The command\<close>

text \<open>The arguments after the action: the path of the configuration and the files named.\<close>

fun header_args :: "gostring list \<Rightarrow> gostring \<Rightarrow> gostring list \<Rightarrow> gostring + gostring \<times> gostring list" where
  "header_args [] configPath paths = Inr (configPath, paths)"
| "header_args (a # rest) configPath paths =
     (if a = ''-c'' \<or> a = ''--config''
      then (case rest of
              [] \<Rightarrow> Inl ''configuration flag requires a path''
            | p # rest' \<Rightarrow> header_args rest' p paths)
      else if a \<noteq> [] \<and> hd a = CHR ''-'' then Inl (''unsupported flag '' @ Quote a)
      else header_args rest configPath (paths @ [a]))"

datatype headerStep = CheckedFiles "gostring list" | FixedFile gostring | PrintedResult gostring

text \<open>The failures of the check, in order; each may change the result.\<close>

fun fix_files ::
  "('l, 'k, 'g, 'r) headerLib \<Rightarrow> ('l, 'k, 'g) configHeader \<Rightarrow> gostring list \<Rightarrow> 'r \<Rightarrow> gostring list \<times> 'r" where
  "fix_files lib config [] result = ([], result)"
| "fix_files lib config (f # fs) result =
     (case hl_Fix lib f config result of (err, result) \<Rightarrow>
        (case fix_files lib config fs result of (errs, result) \<Rightarrow>
           ((case err of None \<Rightarrow> errs | Some e \<Rightarrow> e # errs), result)))"

definition header_run ::
  "('l, 'k, 'g, 'r) headerLib \<Rightarrow> gostring list \<Rightarrow> headerStep list \<times> gostring option" where
  "header_run lib args =
     (if length args < 2 \<or> args ! 0 \<noteq> ''header''
      then ([], Some ''usage: header header (check|fix) [-c config] [paths...]'')
      else
        (let action = args ! 1
         in if action \<noteq> ''check'' \<and> action \<noteq> ''fix'' then ([], Some (''unsupported header action '' @ Quote action))
            else
              (case header_args (List.drop 2 args) ''.licenserc.yaml'' [] of
                 Inl err \<Rightarrow> ([], Some err)
               | Inr (configPath, paths) \<Rightarrow>
                   (case hl_ReadFile lib configPath of
                      Inl err \<Rightarrow> ([], Some err)
                    | Inr data \<Rightarrow>
                        (case decodeConfig lib data of
                           Inl err \<Rightarrow> ([], Some err)
                         | Inr config \<Rightarrow>
                             (let config = (if paths \<noteq> [] then config \<lparr> chd_Paths := paths \<rparr> else config)
                              in case hl_Check lib config of
                                   Inl err \<Rightarrow> ([CheckedFiles (chd_Paths config)], Some err)
                                 | Inr result \<Rightarrow>
                                     if action = ''fix''
                                     then (case fix_files lib config (hl_Failure lib result) result of (errs, result') \<Rightarrow>
                                       (CheckedFiles (chd_Paths config) # map FixedFile (hl_Failure lib result) @
                                          [PrintedResult (hl_String lib result')],
                                        errors_Join (map Some errs)))
                                     else ([CheckedFiles (chd_Paths config), PrintedResult (hl_String lib result)],
                                           if hl_HasFailure lib result then Some (hl_Error lib result) else None)))))))"

text \<open>\<^verbatim>\<open>main\<close>: the exit status.\<close>

definition header_main :: "('l, 'k, 'g, 'r) headerLib \<Rightarrow> gostring list \<Rightarrow> int" where
  "header_main lib args = (if snd (header_run lib args) = None then 0 else 1)"

lemma header_args_paths:
  "list_all (\<lambda>a. a = [] \<or> hd a \<noteq> CHR ''-'') as \<Longrightarrow> header_args as c ps = Inr (c, ps @ as)"
  by (induction as arbitrary: ps) auto

text \<open>Checking changes no file; repairing attempts each failing file once, in order, whatever fails.\<close>

lemma header_check_repairs_nothing:
  "args ! 1 = ''check'' \<Longrightarrow> FixedFile f \<notin> set (fst (header_run lib args))"
  by (auto simp: header_run_def Let_def split: sum.splits prod.splits if_splits)

lemma header_fix_attempts_failures:
  assumes "length args \<ge> 2" and "args ! 0 = ''header''" and "args ! 1 = ''fix''"
    and "header_args (List.drop 2 args) ''.licenserc.yaml'' [] = Inr (c, [])"
    and "hl_ReadFile lib c = Inr data" and "decodeConfig lib data = Inr config" and "hl_Check lib config = Inr result"
  shows "\<exists>last err. header_run lib args =
    (CheckedFiles (chd_Paths config) # map FixedFile (hl_Failure lib result) @ [PrintedResult last], err)"
  using assms by (auto simp: header_run_def Let_def split: prod.splits)

section \<open>The gRPC client of the harness\<close>

text \<open>A connection is the one dialled with insecure credentials and the further options.\<close>

record 'c DownstreamGRPCClient =
  dg_conn :: "'c option"

definition NewDownstreamGRPCClient ::
  "(gostring \<Rightarrow> 'o list \<Rightarrow> gostring + 'c) \<Rightarrow> 'o \<Rightarrow> 'x option \<Rightarrow> gostring \<Rightarrow> 'o list
     \<Rightarrow> gostring + 'c DownstreamGRPCClient" where
  "NewDownstreamGRPCClient dial insecure ctx target opts =
     (if (case ctx of None \<Rightarrow> True | Some _ \<Rightarrow> False) then Inl ''context is required''
      else if TrimSpace target = [] then Inl ''target is required''
      else
        (case dial target ([insecure] @ opts) of
           Inl err \<Rightarrow> Inl (''dialing downstream grpc: '' @ err)
         | Inr conn \<Rightarrow> Inr \<lparr>dg_conn = Some conn\<rparr>))"

definition DownstreamGRPCClient_Close ::
  "('c \<Rightarrow> gostring option) \<Rightarrow> 'c DownstreamGRPCClient option \<Rightarrow> gostring option" where
  "DownstreamGRPCClient_Close close_conn c =
     (case Option.bind c dg_conn of
        None \<Rightarrow> None
      | Some conn \<Rightarrow> map_option (\<lambda>e. ''closing downstream grpc connection: '' @ e) (close_conn conn))"

definition DownstreamGRPCClient_Conn :: "'c DownstreamGRPCClient option \<Rightarrow> 'c option" where
  "DownstreamGRPCClient_Conn c = (case c of None \<Rightarrow> None | Some cl \<Rightarrow> dg_conn cl)"

lemma grpc_client_closes_its_connection:
  "NewDownstreamGRPCClient dial insecure ctx target opts = Inr c \<Longrightarrow>
     \<exists>conn. DownstreamGRPCClient_Conn (Some c) = Some conn
       \<and> (DownstreamGRPCClient_Close close_conn (Some c) = None \<longleftrightarrow> close_conn conn = None)"
  by (auto simp: NewDownstreamGRPCClient_def DownstreamGRPCClient_Conn_def DownstreamGRPCClient_Close_def
      split: if_splits sum.splits)

end
