(* ===== verification/Spec2Isabelle.thy ===== *)
theory Spec2Isabelle
  imports RuntimeInfo HttpProps GrpcProps AsyncProps AsyncConfig LifecycleProps PayloadPool PipelineProps
    ErrorReporting HarnessProps HarnessTargetProps HarnessRunProps TraceProps CoreTargetProps BenchmarkProps
    TraceTestsProps TargetApiProps HeaderTool
begin

text \<open>
  A verification development for \<^verbatim>\<open>slogcp\<close>, a Go library of \<^verbatim>\<open>log/slog\<close> handlers for
  Google Cloud Logging.

  \<^bold>\<open>The program.\<close> A record logged by the application goes through a stack of handlers
  (\<^verbatim>\<open>handler.go\<close>: source-aware wrapper, asynchronous queue, middlewares, fan-out) to the JSON
  handler (\<^verbatim>\<open>json_handler.go\<close>), which builds a payload from the handler's and the record's
  attributes (\<^verbatim>\<open>json_payload.go\<close>), adds the fields Cloud Logging reads (severity, trace,
  source location, labels, HTTP request, error and stack: \<^verbatim>\<open>levels.go\<close>, \<^verbatim>\<open>trace.go\<close>,
  \<^verbatim>\<open>http_request.go\<close>, \<^verbatim>\<open>stack.go\<close>), and writes a line to a writer that can be swapped
  (\<^verbatim>\<open>switchable_writer.go\<close>) or exports an entry (\<^verbatim>\<open>exporter.go\<close>). What it knows of its
  environment comes from \<^verbatim>\<open>runtime_info.go\<close>. The sub-packages instrument HTTP
  (\<^verbatim>\<open>slogcphttp\<close>) and gRPC (\<^verbatim>\<open>slogcpgrpc\<close>) and decouple a handler from its callers by
  a bounded queue (\<^verbatim>\<open>slogcpasync\<close>).

  Around the library stand the programs that try it out. The end-to-end harness
  (\<^verbatim>\<open>.e2e/services/e2e-harness\<close>) deploys target services to Cloud Run scenario by scenario, sends them
  requests, waits for what they logged and traced, checks it, and deletes what it deployed. Its targets
  (\<^verbatim>\<open>.e2e/services/target-apps\<close>) log through the library: one for severities, labels and request
  payloads, one that calls two trace workers over HTTP and gRPC. The benchmark program
  (\<^verbatim>\<open>.benchmarks/main.go\<close>) measures a workload of concurrent workers.

  \<^bold>\<open>Theories, in the order of their dependence.\<close>

  \<^item> \<^verbatim>\<open>Prelude\<close>, \<^verbatim>\<open>GoStrings\<close>: Go strings as byte lists, maps as association lists,
    \<^verbatim>\<open>sync.Once\<close>, loops that may not end; the parts of \<^verbatim>\<open>strings\<close> and \<^verbatim>\<open>strconv\<close>
    the program uses, with the 64-bit range checks.
  \<^item> \<^verbatim>\<open>Levels\<close> (\<^verbatim>\<open>levels.go\<close>), \<^verbatim>\<open>ProjectID\<close> and \<^verbatim>\<open>RuntimeInfo\<close>
    (\<^verbatim>\<open>runtime_info.go\<close>): severity names determine the level; detection asks the metadata
    server once per path and is cached for the process.
  \<^item> \<^verbatim>\<open>Stack\<close> (\<^verbatim>\<open>stack.go\<close>): extraction and rendering of stacks over the frames the
    runtime delivers; nothing is sliced out of bounds.
  \<^item> \<^verbatim>\<open>SlogData\<close>, \<^verbatim>\<open>PayloadFacts\<close> (\<^verbatim>\<open>json_payload.go\<close>, \<^verbatim>\<open>http_request.go\<close>):
    \<^verbatim>\<open>slog\<close> values as trees, their resolution, the HTTP request payload.
  \<^item> \<^verbatim>\<open>TraceContext\<close>, \<^verbatim>\<open>HttpTrace\<close>, \<^verbatim>\<open>GrpcTrace\<close> (\<^verbatim>\<open>trace.go\<close>,
    \<^verbatim>\<open>context.go\<close>, \<^verbatim>\<open>slogcphttp/trace_context.go\<close>, \<^verbatim>\<open>slogcpgrpc/trace.go\<close>): span
    contexts, trace attributes, and the two readers of the legacy header. The locale
    \<open>xcloud_reader\<close> is the contract between a reader and the writer of the header; both readers
    satisfy it.
  \<^item> \<^verbatim>\<open>HandlerConfig\<close>, \<^verbatim>\<open>JsonPayload\<close>, \<^verbatim>\<open>JsonEmit\<close>, \<^verbatim>\<open>PayloadTypes\<close>
    (\<^verbatim>\<open>handler.go\<close>, \<^verbatim>\<open>json_handler.go\<close>, \<^verbatim>\<open>exporter.go\<close>): options and environment,
    the attribute walk, the entry. \<^verbatim>\<open>walkAttr\<close> recurses through what the application's
    replacement function returns and may therefore not end: it is a \<open>partial_function\<close>, with a
    theorem that it does end when replacements do not grow. The type invariant (one value per key,
    at every depth) is kept by every operation.
  \<^item> \<^verbatim>\<open>PayloadStore\<close>, \<^verbatim>\<open>PayloadTree\<close>, \<^verbatim>\<open>PayloadPool\<close>
    (\<^verbatim>\<open>json_handler.go\<close>): the same builder with its maps at addresses, the pool they are
    borrowed from and the pruning in place. It refines \<^verbatim>\<open>JsonPayload\<close> whatever the pool holds,
    when no attribute is a map the application keeps; with such maps it writes into them. The locale
    \<open>map_source\<close> is the contract between the walk and the two places a map comes from.
  \<^item> \<^verbatim>\<open>SwitchableWriter\<close>, \<^verbatim>\<open>HandlerLifecycle\<close>, \<^verbatim>\<open>LifecycleProps\<close>
    (\<^verbatim>\<open>switchable_writer.go\<close>, \<^verbatim>\<open>handler.go\<close>): the files and writers of the process are a
    ledger; building, reopening, closing, shutting down and aborting are the steps of a handler's life,
    and the file invariant holds along every life.
  \<^item> \<^verbatim>\<open>Channel\<close>, \<^verbatim>\<open>AsyncQueue\<close>, \<^verbatim>\<open>AsyncFacts\<close>, \<^verbatim>\<open>AsyncProps\<close>,
    \<^verbatim>\<open>AsyncConfig\<close> (\<^verbatim>\<open>slogcpasync/handler.go\<close>): the callers of \<^verbatim>\<open>Handle\<close>, the
    workers and the closers are threads, a step is one atomic action of one of them, and the theorems
    are invariants of all reachable states (conservation of records, the send gate, order and bound of
    the queue, closing once and last) and a liveness theorem.
  \<^item> \<^verbatim>\<open>Pipeline\<close>, \<^verbatim>\<open>PipelineProps\<close> (\<^verbatim>\<open>handler.go\<close>): the handler stack as a tree.
    The locale \<open>transparent_layer\<close> is the contract of a wrapper that changes nothing, satisfied by
    the asynchronous and the source-aware wrapper; the stack refines an abstract fan-out.
  \<^item> \<^verbatim>\<open>HttpScope\<close>, \<^verbatim>\<open>HttpMiddleware\<close>, \<^verbatim>\<open>HttpProps\<close> (\<^verbatim>\<open>slogcphttp\<close>): options,
    forwarded headers, request scopes, the response recorder as a fold over the calls a handler makes,
    the adoption of remote spans, the round tripper.
  \<^item> \<^verbatim>\<open>GrpcRequest\<close>, \<^verbatim>\<open>GrpcProps\<close> (\<^verbatim>\<open>slogcpgrpc\<close>): options, the record of an RPC,
    the interceptors and stream wrappers. The two goroutines of a client stream are shuffled sequences
    of atomic actions; the locale \<open>counting_stream\<close> holds the counting lemmas for both kinds of stream.
  \<^item> \<^verbatim>\<open>ErrorReporting\<close> (\<^verbatim>\<open>errorreporting.go\<close>, \<^verbatim>\<open>propagation.go\<close>).
  \<^item> \<^verbatim>\<open>HarnessEntry\<close>, \<^verbatim>\<open>HarnessChecks\<close>, \<^verbatim>\<open>HarnessJson\<close>, \<^verbatim>\<open>HarnessProps\<close>
    (\<^verbatim>\<open>client/log_entry.go\<close>, \<^verbatim>\<open>validation/log_validators.go\<close>): the entry as the harness reads it
    and the checks on it. The locale \<open>json_reader\<close> is what reading relies on of the way a value takes
    through JSON; what the library emitted is read back.
  \<^item> \<^verbatim>\<open>HarnessClient\<close>, \<^verbatim>\<open>HarnessClientProps\<close>, \<^verbatim>\<open>HarnessTarget\<close>,
    \<^verbatim>\<open>HarnessTargetProps\<close> (\<^verbatim>\<open>client/logging_client.go\<close>, \<^verbatim>\<open>logging_retry.go\<close>,
    \<^verbatim>\<open>target_client.go\<close>, \<^verbatim>\<open>trace_client.go\<close>): queries, retries and waits over a clock; a wait
    is a \<open>partial_function\<close>, and the locale \<open>polled_query\<close> proves once that it ends. The trace header
    of a request is read by the library as the trace it names.
  \<^item> \<^verbatim>\<open>HarnessDeploy\<close>, \<^verbatim>\<open>HarnessDeployProps\<close>, \<^verbatim>\<open>HarnessRun\<close>,
    \<^verbatim>\<open>HarnessRunProps\<close> (\<^verbatim>\<open>controller/cloudrun_manager.go\<close>, \<^verbatim>\<open>main.go\<close>): deployment,
    readiness, access policy and deletion over a Cloud Run API that is a record of parameters with a
    world of its own; a run ends, leaves no service behind and reports what passed. The locale
    \<open>scenario_deployer\<close> is the contract between the deployment of a scenario and the manager.
  \<^item> \<^verbatim>\<open>HarnessTests\<close>, \<^verbatim>\<open>HarnessTestsProps\<close>, \<^verbatim>\<open>TraceTests\<close>,
    \<^verbatim>\<open>TraceTestsProps\<close> (\<^verbatim>\<open>tests/core_logging.go\<close>, \<^verbatim>\<open>trace.go\<close>,
    \<^verbatim>\<open>trace_streaming.go\<close>): the bodies of the test cases over the modelled clients. A severity test
    passes exactly on the right severity; the bidirectional test passes on the modelled target.
  \<^item> \<^verbatim>\<open>TraceWorker\<close>, \<^verbatim>\<open>TraceTarget\<close>, \<^verbatim>\<open>TraceHandlers\<close>, \<^verbatim>\<open>TraceProps\<close>
    (\<^verbatim>\<open>trace-downstream-http\<close>, \<^verbatim>\<open>trace-downstream-grpc\<close>, \<^verbatim>\<open>trace-target-app\<close>): the trace
    workers, the target's calls to them and its endpoints. The calls see a stream only through the record
    of the generated client; the locale \<open>echo_stream\<close> is what they rely on, and the worker's streams
    satisfy it.
  \<^item> \<^verbatim>\<open>CoreTarget\<close>, \<^verbatim>\<open>CoreTargetProps\<close> (\<^verbatim>\<open>core-logging-target-app\<close>): the endpoints
    as what they log and write; the request payload the target builds by hand agrees with the
    middleware's.
  \<^item> \<^verbatim>\<open>Benchmark\<close>, \<^verbatim>\<open>BenchmarkTrial\<close>, \<^verbatim>\<open>BenchmarkProps\<close>
    (\<^verbatim>\<open>.benchmarks/main.go\<close>, \<^verbatim>\<open>resource_linux.go\<close>): configuration, workload, trial and result.
    A step of a trial is one iteration of one worker; every interleaving logs the sequential workload
    and gives its checksum.

  \<^item> \<^verbatim>\<open>TargetMain\<close>, \<^verbatim>\<open>TargetServices\<close>, \<^verbatim>\<open>TargetProps\<close>,
    \<^verbatim>\<open>TargetApiProps\<close> (the \<^verbatim>\<open>main.go\<close> of the four services, \<^verbatim>\<open>cloudrun_auth.go\<close>,
    \<^verbatim>\<open>grpc_transport.go\<close>): the start-up of the services as the list of its steps (resources opened and
    closed, records, what is served), and the endpoint that sends a record through the API. What a service
    opened is closed once on every path; a service deployed for a scenario announces the configuration
    its test expects; the endpoint reports success exactly when delivery and every closing call succeeded.
  \<^item> \<^verbatim>\<open>HeaderTool\<close> (\<^verbatim>\<open>.github/tools/cmd/header\<close>, \<^verbatim>\<open>client/grpc_client.go\<close>):
    the licence-header command over the packages it calls, and the dialling client of the harness.

  \<^bold>\<open>What is outside.\<close> OpenTelemetry, the metadata client, \<^verbatim>\<open>encoding/json\<close>, the gRPC runtime
  and its status package, \<^verbatim>\<open>otelhttp\<close>, the operating system's files, the runtime's frames, the
  clock, the random source, SHA-256 and the Google APIs are parameters: records of functions or arguments of the operation that
  uses them. What the code relies on is a named predicate (\<open>otel_laws\<close>, \<open>md_laws\<close>, \<open>json_laws\<close>,
  \<open>status_laws\<close>), each with a concrete instance in a witness. Sinks, middlewares, replacement
  functions, enrichers and transformers of the application are arbitrary.

  \<^bold>\<open>Bounds.\<close> There is no fuel. Levels, sizes and latencies are integers: the program does no
  arithmetic on them that leaves 64 bits for values it can meet; identifiers are words of their width.
  \<^verbatim>\<open>formatLatency\<close> prints exact digits, which the code's \<^verbatim>\<open>float64\<close> does below 24 days; the
  benchmark's quantile ranks are exact, as the code's rounding of a \<^verbatim>\<open>float64\<close> product is for the
  sample counts it accepts. Waits of the harness end by a measure on the time left, one query a second
  at most; that they end is a theorem of each.

  \<^bold>\<open>Not modelled.\<close> The recycling of byte buffers and of the group stack, data races below the
  atomic actions of the asynchronous queue and the stream wrappers, the bytes \<^verbatim>\<open>encoding/json\<close>
  produces, the metadata client's retries, the test hooks that replace package functions. Of the
  programs beside the library: the interceptors of the gRPC adapter and the buffering options of the
  Cloud Logging client (opaque options of packages outside the repository), the generated protocol code,
  the progress messages of the harness, the stub of the usage counters on other systems, the tests of
  the logging mock and the examples, which only call the library.
\<close>

end
